(* ===== verification/GigPrelude.thy ===== *)
theory GigPrelude
  imports Main "HOL-Library.Signed_Division"
begin

text \<open>
  The shared layer of the development.

  \<^item> Go integers: an \<^verbatim>\<open>int64\<close> is an \<^typ>\<open>int\<close> and every operation that can leave
    the 64-bit range is written with \<^verbatim>\<open>wrap64\<close>, the two's-complement wrap-around of Go;
    \<^verbatim>\<open>/\<close> is the truncating division \<^verbatim>\<open>sdiv\<close> of \<^verbatim>\<open>HOL-Library.Signed_Division\<close>.
  \<^item> Text: \<^verbatim>\<open>strings.TrimSpace\<close>, \<^verbatim>\<open>strings.ToLower\<close> and \<^verbatim>\<open>strings.EqualFold\<close> on ASCII,
    \<^verbatim>\<open>strconv.ParseInt(s, 10, bits)\<close> and decimal printing.
  \<^item> Operations: a Go call \<^verbatim>\<open>x, err := m(); if err != nil { h } ; k\<close> is \<^verbatim>\<open>call m h k\<close>, with
    the state threaded explicitly.  \<^verbatim>\<open>steps R m\<close> says that running \<^verbatim>\<open>m\<close> relates the state
    before to the state after by \<^verbatim>\<open>R\<close>; the locale \<^verbatim>\<open>frame\<close> proves, once for every reflexive
    and transitive \<^verbatim>\<open>R\<close>, that the combinators compose such facts.
  \<^item> Tables: selection and update by a predicate on a list of rows.
\<close>

named_theorems op_simps \<open>unfolding of the operation combinators\<close>

section \<open>Machine integers\<close>

definition wrap64 :: "int \<Rightarrow> int" where
  "wrap64 x = (x + 2 ^ 63) mod 2 ^ 64 - 2 ^ 63"

definition in_int64 :: "int \<Rightarrow> bool" where
  "in_int64 x \<longleftrightarrow> - (2 ^ 63) \<le> x \<and> x < 2 ^ 63"

lemma wrap64_id [simp]: "in_int64 x \<Longrightarrow> wrap64 x = x"
  by (simp add: wrap64_def in_int64_def)

lemma wrap64_range: "in_int64 (wrap64 x)"
  unfolding in_int64_def wrap64_def using pos_mod_bound [of "2 ^ 64" "x + 2 ^ 63"]
    pos_mod_sign [of "2 ^ 64" "x + 2 ^ 63"] by simp

lemma wrap64_add_left: "wrap64 (wrap64 x + y) = wrap64 (x + y)"
proof -
  have "((x + 2 ^ 63) mod 2 ^ 64 - 2 ^ 63 + y + 2 ^ 63) mod 2 ^ 64
      = ((x + 2 ^ 63) mod 2 ^ 64 + y) mod (2 ^ 64 :: int)" by (simp add: algebra_simps)
  also have "\<dots> = (x + y + 2 ^ 63) mod 2 ^ 64" by (simp add: mod_simps algebra_simps)
  finally show ?thesis by (simp add: wrap64_def)
qed

lemma wrap64_diff_left: "wrap64 (wrap64 x - y) = wrap64 (x - y)"
  using wrap64_add_left [of x "- y"] by simp

lemma wrap64_eq_0: "wrap64 x = 0 \<longleftrightarrow> x mod 2 ^ 64 = 0"
proof -
  have "x mod 2 ^ 64 = (wrap64 x) mod 2 ^ 64"
    by (simp add: wrap64_def mod_simps)
  moreover have "wrap64 x mod 2 ^ 64 = 0 \<longleftrightarrow> wrap64 x = 0"
    using wrap64_range [of x] unfolding in_int64_def
    by (auto simp: zmod_eq_0_iff)
  ultimately show ?thesis by simp
qed

lemma wrap64_dvd: "2 ^ 64 dvd (wrap64 x - x)"
  by (simp add: wrap64_def mod_eq_dvd_iff [symmetric] mod_simps)

section \<open>Text\<close>

definition is_space :: "char \<Rightarrow> bool" where
  "is_space c \<longleftrightarrow> (let n = of_char c :: nat in n = 32 \<or> (9 \<le> n \<and> n \<le> 13))"

definition trim_space :: "string \<Rightarrow> string" where
  "trim_space s = rev (dropWhile is_space (rev (dropWhile is_space s)))"

definition lower_char :: "char \<Rightarrow> char" where
  "lower_char c = (let n = of_char c :: nat in if 65 \<le> n \<and> n \<le> 90 then char_of (n + 32) else c)"

definition upper_char :: "char \<Rightarrow> char" where
  "upper_char c = (let n = of_char c :: nat in if 97 \<le> n \<and> n \<le> 122 then char_of (n - 32) else c)"

definition to_lower :: "string \<Rightarrow> string" where "to_lower s = map lower_char s"
definition to_upper :: "string \<Rightarrow> string" where "to_upper s = map upper_char s"
definition equal_fold :: "string \<Rightarrow> string \<Rightarrow> bool" where
  "equal_fold a b \<longleftrightarrow> to_lower a = to_lower b"

fun has_prefix :: "string \<Rightarrow> string \<Rightarrow> bool" where
  "has_prefix s [] = True"
| "has_prefix [] (p # ps) = False"
| "has_prefix (c # cs) (p # ps) = (c = p \<and> has_prefix cs ps)"

definition digit_of :: "char \<Rightarrow> int option" where
  "digit_of c = (let n = of_char c :: nat in if 48 \<le> n \<and> n \<le> 57 then Some (int n - 48) else None)"

fun parse_digits :: "int \<Rightarrow> string \<Rightarrow> int option" where
  "parse_digits acc [] = Some acc"
| "parse_digits acc (c # cs) = (case digit_of c of None \<Rightarrow> None | Some d \<Rightarrow> parse_digits (10 * acc + d) cs)"

text \<open>\<^verbatim>\<open>strconv.ParseInt(s, 10, bits)\<close>: an optional sign, at least one digit, and the value in
  the range of \<^verbatim>\<open>bits\<close>; every other input is an error (\<^const>\<open>None\<close>).\<close>

definition parse_int :: "nat \<Rightarrow> string \<Rightarrow> int option" where
  "parse_int bits s =
    (let neg = (s \<noteq> [] \<and> hd s = CHR ''-'');
         body = (if s \<noteq> [] \<and> (hd s = CHR ''-'' \<or> hd s = CHR ''+'') then tl s else s) in
     if body = [] then None
     else case parse_digits 0 body of
       None \<Rightarrow> None
     | Some n \<Rightarrow> (let v = (if neg then - n else n) in
         if - (2 ^ (bits - 1)) \<le> v \<and> v < 2 ^ (bits - 1) then Some v else None))"

text \<open>The value \<^verbatim>\<open>strconv.ParseInt(s, 10, 64)\<close> returns besides its error, which some callers
  drop: \<^verbatim>\<open>0\<close> on a syntax error, the nearest bound on a range error.\<close>

fun parse_uint_value :: "int \<Rightarrow> string \<Rightarrow> int option" where
  "parse_uint_value acc [] = Some acc"
| "parse_uint_value acc (c # cs) = (case digit_of c of
      None \<Rightarrow> None
    | Some d \<Rightarrow> if 10 * acc + d \<ge> 2 ^ 64 then Some (2 ^ 64 - 1) else parse_uint_value (10 * acc + d) cs)"

definition parse_int_value :: "string \<Rightarrow> int" where
  "parse_int_value s =
    (let neg = (s \<noteq> [] \<and> hd s = CHR ''-'');
         body = (if s \<noteq> [] \<and> (hd s = CHR ''-'' \<or> hd s = CHR ''+'') then tl s else s) in
     if body = [] then 0
     else case parse_uint_value 0 body of
       None \<Rightarrow> 0
     | Some n \<Rightarrow> if neg then max (- n) (- (2 ^ 63)) else min n (2 ^ 63 - 1))"

definition digit_char :: "nat \<Rightarrow> char" where "digit_char d = char_of (48 + d)"

fun show_nat :: "nat \<Rightarrow> string" where
  "show_nat n = (if n < 10 then [digit_char n] else show_nat (n div 10) @ [digit_char (n mod 10)])"

declare show_nat.simps [simp del]

definition show_int :: "int \<Rightarrow> string" where
  "show_int i = (if i < 0 then CHR ''-'' # show_nat (nat (- i)) else show_nat (nat i))"

lemma digit_of_digit_char: "d < 10 \<Longrightarrow> digit_of (digit_char d) = Some (int d)"
  by (simp add: digit_of_def digit_char_def of_char_of take_bit_eq_mod)

lemma parse_digits_append:
  "parse_digits a (xs @ ys) = (case parse_digits a xs of None \<Rightarrow> None | Some b \<Rightarrow> parse_digits b ys)"
  by (induction a xs rule: parse_digits.induct) (auto split: option.splits)

lemma parse_digits_show: "parse_digits 0 (show_nat n) = Some (int n)"
proof (induction n rule: show_nat.induct)
  case (1 n)
  show ?case
  proof (cases "n < 10")
    case True
    then show ?thesis by (subst show_nat.simps) (simp add: digit_of_digit_char)
  next
    case False
    then have "show_nat n = show_nat (n div 10) @ [digit_char (n mod 10)]"
      by (subst show_nat.simps) simp
    with 1 False show ?thesis
      by (simp add: parse_digits_append digit_of_digit_char)
        presburger
  qed
qed

lemma show_nat_head: "\<exists>c cs. show_nat n = c # cs \<and> c \<noteq> CHR ''-'' \<and> c \<noteq> CHR ''+''"
proof (induction n rule: show_nat.induct)
  case (1 n)
  have dig: "digit_char d \<noteq> CHR ''-'' \<and> digit_char d \<noteq> CHR ''+''" if "d < 10" for d
    using digit_of_digit_char [OF that] by (auto simp: digit_of_def)
  show ?case
  proof (cases "n < 10")
    case True
    then have "show_nat n = [digit_char n]" by (subst show_nat.simps) simp
    with dig [OF True] show ?thesis by simp
  next
    case False
    then have "show_nat n = show_nat (n div 10) @ [digit_char (n mod 10)]"
      by (subst show_nat.simps) simp
    with 1 False show ?thesis by auto
  qed
qed

lemma parse_show_int:
  assumes "- (2 ^ (bits - 1)) \<le> i" "i < 2 ^ (bits - 1)"
  shows "parse_int bits (show_int i) = Some i"
proof (cases "i < 0")
  case True
  from show_nat_head [of "nat (- i)"] have "show_nat (nat (- i)) \<noteq> []" by auto
  with True assms show ?thesis
    by (simp add: parse_int_def show_int_def parse_digits_show)
next
  case False
  from show_nat_head [of "nat i"] obtain c cs where
    "show_nat (nat i) = c # cs" "c \<noteq> CHR ''-''" "c \<noteq> CHR ''+''" by auto
  with False assms parse_digits_show [of "nat i"] show ?thesis
    by (simp add: parse_int_def show_int_def)
qed

lemma show_int_inj: "show_int i = show_int j \<Longrightarrow> i = j"
proof -
  assume eq: "show_int i = show_int j"
  obtain b :: nat where b: "- (2 ^ (b - 1)) \<le> i" "i < 2 ^ (b - 1)" "- (2 ^ (b - 1)) \<le> j" "j < 2 ^ (b - 1)"
  proof -
    let ?m = "nat (\<bar>i\<bar> + \<bar>j\<bar>)"
    have "int ?m < 2 ^ ?m" using less_exp [of ?m] by (metis of_nat_less_iff of_nat_numeral of_nat_power)
    then have "\<bar>i\<bar> + \<bar>j\<bar> < 2 ^ (Suc ?m - 1)" by simp
    then show ?thesis by (intro that [of "Suc ?m"]) linarith+
  qed
  from parse_show_int [OF b(1,2)] parse_show_int [OF b(3,4)] eq show "i = j" by (metis option.inject)
qed

section \<open>Operations over an explicit state\<close>

definition ret :: "'a \<Rightarrow> 's \<Rightarrow> ('e + 'a) \<times> 's" where "ret x s = (Inr x, s)"
definition fail :: "'e \<Rightarrow> 's \<Rightarrow> ('e + 'a) \<times> 's" where "fail e s = (Inl e, s)"
definition reply :: "'r \<Rightarrow> 's \<Rightarrow> 'r \<times> 's" where "reply r s = (r, s)"

definition call :: "('s \<Rightarrow> ('e + 'a) \<times> 's) \<Rightarrow> ('e \<Rightarrow> 's \<Rightarrow> 'r \<times> 's) \<Rightarrow> ('a \<Rightarrow> 's \<Rightarrow> 'r \<times> 's) \<Rightarrow> 's \<Rightarrow> 'r \<times> 's" where
  "call m h k s = (case m s of (Inl e, s') \<Rightarrow> h e s' | (Inr x, s') \<Rightarrow> k x s')"

text \<open>Running an operation for its effect and going on whatever it returned.\<close>

definition also_do :: "('s \<Rightarrow> 'x \<times> 's) \<Rightarrow> ('s \<Rightarrow> 'r \<times> 's) \<Rightarrow> 's \<Rightarrow> 'r \<times> 's" where
  "also_do m k s = k (snd (m s))"

fun each :: "('a \<Rightarrow> 's \<Rightarrow> ('e + unit) \<times> 's) \<Rightarrow> 'a list \<Rightarrow> 's \<Rightarrow> ('e + unit) \<times> 's" where
  "each f [] s = ret () s"
| "each f (x # xs) s = call (f x) fail (\<lambda>_. each f xs) s"

fun each_do :: "('a \<Rightarrow> 's \<Rightarrow> 'x \<times> 's) \<Rightarrow> 'a list \<Rightarrow> 's \<Rightarrow> 's" where
  "each_do f [] s = s"
| "each_do f (x # xs) s = each_do f xs (snd (f x s))"

lemma call_ok [op_simps]: "m s = (Inr x, s') \<Longrightarrow> call m h k s = k x s'"
  by (simp add: call_def)

lemma call_err [op_simps]: "m s = (Inl e, s') \<Longrightarrow> call m h k s = h e s'"
  by (simp add: call_def)

lemmas op_defs = call_def ret_def fail_def reply_def also_do_def

section \<open>Frame reasoning\<close>

definition steps :: "('s \<Rightarrow> 's \<Rightarrow> bool) \<Rightarrow> ('s \<Rightarrow> 'r \<times> 's) \<Rightarrow> bool" where
  "steps R m \<longleftrightarrow> (\<forall>s. R s (snd (m s)))"

lemma stepsI: "(\<And>s. R s (snd (m s))) \<Longrightarrow> steps R m" by (simp add: steps_def)
lemma stepsD: "steps R m \<Longrightarrow> R s (snd (m s))" by (simp add: steps_def)

text \<open>Rules by which the frame conditions of an operation follow from those of its parts.\<close>

named_theorems frame_intros \<open>introduction rules for steps\<close>

locale frame =
  fixes R :: "'s \<Rightarrow> 's \<Rightarrow> bool"
  assumes frame_refl: "R s s"
    and frame_trans: "R s t \<Longrightarrow> R t u \<Longrightarrow> R s u"
begin

lemma steps_ret: "steps R (ret x)" by (simp add: steps_def ret_def frame_refl)
lemma steps_fail: "steps R (fail e)" by (simp add: steps_def fail_def frame_refl)
lemma steps_reply: "steps R (reply r)" by (simp add: steps_def reply_def frame_refl)
lemma steps_pair: "steps R (\<lambda>s. (f s, s))" by (simp add: steps_def frame_refl)

lemma steps_call:
  "steps R m \<Longrightarrow> (\<And>e. steps R (h e)) \<Longrightarrow> (\<And>x. steps R (k x)) \<Longrightarrow> steps R (call m h k)"
  unfolding steps_def call_def by (auto split: prod.split sum.split intro: frame_trans dest: spec)

text \<open>The same with what the first call returned at hand.\<close>

lemma rel_call:
  assumes "R s (snd (m s))"
    and "\<And>e t. m s = (Inl e, t) \<Longrightarrow> R t (snd (h e t))"
    and "\<And>x t. m s = (Inr x, t) \<Longrightarrow> R t (snd (k x t))"
  shows "R s (snd (call m h k s))"
proof (cases "m s")
  case (Pair r t)
  then show ?thesis
    using assms by (cases r) (auto simp: call_def intro: frame_trans)
qed

lemma steps_also_do: "steps R m \<Longrightarrow> steps R k \<Longrightarrow> steps R (also_do m k)"
  unfolding steps_def also_do_def by (auto intro: frame_trans)

lemma steps_if: "(b \<Longrightarrow> steps R m) \<Longrightarrow> (\<not> b \<Longrightarrow> steps R n) \<Longrightarrow> steps R (if b then m else n)"
  by simp

lemma steps_option:
  "(x = None \<Longrightarrow> steps R m) \<Longrightarrow> (\<And>y. x = Some y \<Longrightarrow> steps R (k y)) \<Longrightarrow> steps R (case x of None \<Rightarrow> m | Some y \<Rightarrow> k y)"
  by (cases x) auto

lemma steps_sum:
  "(\<And>y. x = Inl y \<Longrightarrow> steps R (h y)) \<Longrightarrow> (\<And>y. x = Inr y \<Longrightarrow> steps R (k y)) \<Longrightarrow> steps R (case x of Inl y \<Rightarrow> h y | Inr y \<Rightarrow> k y)"
  by (cases x) auto

lemma steps_each: "(\<And>x. x \<in> set xs \<Longrightarrow> steps R (f x)) \<Longrightarrow> steps R (each f xs)"
proof (induction xs)
  case Nil
  show ?case by (simp add: steps_def ret_def frame_refl)
next
  case (Cons x xs)
  have "steps R (call (f x) fail (\<lambda>_. each f xs))"
    using Cons by (intro steps_call steps_fail) auto
  then show ?case by (simp add: steps_def)
qed

lemma each_do_rel: "(\<And>x. x \<in> set xs \<Longrightarrow> steps R (f x)) \<Longrightarrow> R s (each_do f xs s)"
proof (induction xs arbitrary: s)
  case (Cons x xs)
  then have "R s (snd (f x s))" by (simp add: steps_def)
  moreover from Cons have "R (snd (f x s)) (each_do f xs (snd (f x s)))" by simp
  ultimately show ?case by (auto intro: frame_trans)
qed (simp add: frame_refl)

lemmas frame_rules = steps_ret steps_fail steps_reply steps_call steps_also_do steps_if
  steps_option steps_sum steps_each

end

section \<open>Tables\<close>

definition update_where :: "('r \<Rightarrow> bool) \<Rightarrow> ('r \<Rightarrow> 'r) \<Rightarrow> 'r list \<Rightarrow> 'r list" where
  "update_where P f rows = map (\<lambda>r. if P r then f r else r) rows"

lemma update_where_Nil [simp]: "update_where P f [] = []"
  and update_where_Cons [simp]:
    "update_where P f (r # rs) = (if P r then f r else r) # update_where P f rs"
  and update_where_append [simp]:
    "update_where P f (rs @ qs) = update_where P f rs @ update_where P f qs"
  and length_update_where [simp]: "length (update_where P f rs) = length rs"
  by (simp_all add: update_where_def)

lemma update_where_none: "(\<And>r. r \<in> set rs \<Longrightarrow> \<not> P r) \<Longrightarrow> update_where P f rs = rs"
  by (induction rs) auto

lemma update_where_nth: "i < length rs \<Longrightarrow>
    update_where P f rs ! i = (if P (rs ! i) then f (rs ! i) else rs ! i)"
  by (simp add: update_where_def)

lemma map_update_where: "(\<And>r. g (f r) = g r) \<Longrightarrow> map g (update_where P f rs) = map g rs"
  by (induction rs) auto

lemma set_update_where:
  "r \<in> set (update_where P f rs) \<longleftrightarrow> (\<exists>q \<in> set rs. r = (if P q then f q else q))"
  by (auto simp: update_where_def)

lemma ball_update_where:
  "(\<forall>r \<in> set (update_where P f rs). Q r) \<longleftrightarrow> (\<forall>q \<in> set rs. if P q then Q (f q) else Q q)"
  by (auto simp: update_where_def)

text \<open>The row a query \<^verbatim>\<open>ORDER BY key DESC LIMIT 1\<close> returns: the greatest key, the later row
  among equal ones.\<close>

fun latest_by :: "('r \<Rightarrow> int) \<Rightarrow> 'r list \<Rightarrow> 'r option" where
  "latest_by key [] = None"
| "latest_by key (r # rs) = (case latest_by key rs of
     None \<Rightarrow> Some r
   | Some q \<Rightarrow> if key r > key q then Some r else Some q)"

lemma latest_by_mem: "latest_by key rs = Some r \<Longrightarrow> r \<in> set rs"
  by (induction rs arbitrary: r) (auto split: option.splits if_splits)

lemma latest_by_max: "latest_by key rs = Some r \<Longrightarrow> q \<in> set rs \<Longrightarrow> key q \<le> key r"
proof (induction rs arbitrary: r)
  case (Cons a rs)
  then show ?case by (cases rs) (force split: option.splits if_splits)+
qed simp

lemma latest_by_None: "latest_by key rs = None \<longleftrightarrow> rs = []"
  by (cases rs) (auto split: option.splits)

text \<open>The first row a query matches.\<close>

lemma find_SomeD: "find P xs = Some x \<Longrightarrow> x \<in> set xs \<and> P x"
  by (induction xs) (auto split: if_splits)

lemma distinct_map_eq:
  "distinct (map f xs) \<Longrightarrow> x \<in> set xs \<Longrightarrow> y \<in> set xs \<Longrightarrow> f x = f y \<Longrightarrow> x = y"
  by (simp add: distinct_map inj_on_def)

lemma find_unique:
  "distinct (map key xs) \<Longrightarrow> x \<in> set xs \<Longrightarrow> find (\<lambda>r. key r = key x) xs = Some x"
  by (induction xs) (auto simp: image_iff)

lemma find_map_eq:
  "(\<And>r. r \<in> set xs \<Longrightarrow> P (f r) = P r) \<Longrightarrow> find P (map f xs) = map_option f (find P xs)"
  by (induction xs) auto

end
