(* ===== verification/Ledger.thy ===== *)
theory Ledger
  imports GigPrelude "HOL-Library.AList"
begin

text \<open>
  The pure double-entry accounting of \<^verbatim>\<open>src/ledger/ledger.go\<close>: the entry record, the four
  posting builders and \<^verbatim>\<open>Validate\<close>, whose per-currency balance is an \<^verbatim>\<open>int64\<close> that wraps
  around.  Account kinds, directions and currencies are strings as in the code.  The lemmas
  characterise \<^verbatim>\<open>Validate\<close> by the exact (unbounded) net of the entries, give each builder's
  result in closed form, and compute the effect of a posting on each account.
\<close>

section \<open>Data\<close>

definition AccountPlatformRevenue :: string where "AccountPlatformRevenue = ''platform_revenue''"
definition AccountSellerPending :: string where "AccountSellerPending = ''seller_pending''"
definition AccountSellerAvailable :: string where "AccountSellerAvailable = ''seller_available''"
definition AccountRefunds :: string where "AccountRefunds = ''refunds''"
definition AccountReserves :: string where "AccountReserves = ''reserves''"
definition AccountProviderClearing :: string where "AccountProviderClearing = ''provider_clearing''"

definition DirectionDebit :: string where "DirectionDebit = ''debit''"
definition DirectionCredit :: string where "DirectionCredit = ''credit''"

lemmas account_kinds = AccountPlatformRevenue_def AccountSellerPending_def AccountSellerAvailable_def
  AccountRefunds_def AccountReserves_def AccountProviderClearing_def
lemmas directions = DirectionDebit_def DirectionCredit_def

record entry =
  eAccountKind :: string
  eOwnerID :: "int option"
  eDirection :: string
  eAmountMinor :: int
  eCurrency :: string
  eOrderID :: "int option"
  eDescription :: string

datatype ledger_error =
    GrossNotPositive int
  | FeeOutOfRange int int
  | AmountNotPositive int
  | RefundNotPositive int
  | RefundSplitMismatch int int int
  | AdjustmentNotPositive int
  | AdjustmentReasonRequired
  | EmptyTransaction
  | EntryNotPositive int
  | BadDirection string
  | Unbalanced

section \<open>Validation\<close>

definition balance_of :: "(string \<times> int) list \<Rightarrow> string \<Rightarrow> int" where
  "balance_of bs c = (case map_of bs c of None \<Rightarrow> 0 | Some b \<Rightarrow> b)"

fun validate_loop :: "(string \<times> int) list \<Rightarrow> entry list \<Rightarrow> ledger_error + (string \<times> int) list" where
  "validate_loop bs [] = Inr bs"
| "validate_loop bs (e # es) =
    (if eAmountMinor e \<le> 0 then Inl (EntryNotPositive (eAmountMinor e))
     else if eDirection e = DirectionDebit then
       validate_loop (AList.update (eCurrency e) (wrap64 (balance_of bs (eCurrency e) - eAmountMinor e)) bs) es
     else if eDirection e = DirectionCredit then
       validate_loop (AList.update (eCurrency e) (wrap64 (balance_of bs (eCurrency e) + eAmountMinor e)) bs) es
     else Inl (BadDirection (eDirection e)))"

definition Validate :: "entry list \<Rightarrow> ledger_error option" where
  "Validate entries =
    (if entries = [] then Some EmptyTransaction
     else case validate_loop [] entries of
       Inl e \<Rightarrow> Some e
     | Inr balances \<Rightarrow> if list_all (\<lambda>(c, b). b = 0) balances then None else Some Unbalanced)"

definition validated :: "entry list \<Rightarrow> ledger_error + entry list" where
  "validated entries = (case Validate entries of None \<Rightarrow> Inr entries | Some e \<Rightarrow> Inl e)"

section \<open>Posting builders\<close>

text \<open>The entry lists the builders assemble, with the conditional appends of the code.\<close>

definition leg :: "string \<Rightarrow> int option \<Rightarrow> string \<Rightarrow> int \<Rightarrow> string \<Rightarrow> int option \<Rightarrow> string \<Rightarrow> entry" where
  "leg kind owner dir amount currency orderID desc =
    \<lparr>eAccountKind = kind, eOwnerID = owner, eDirection = dir, eAmountMinor = amount,
     eCurrency = currency, eOrderID = orderID, eDescription = desc\<rparr>"

definition capture_entries :: "int \<Rightarrow> int \<Rightarrow> int \<Rightarrow> int \<Rightarrow> int \<Rightarrow> string \<Rightarrow> entry list" where
  "capture_entries orderID sellerID gross fee payable currency =
    [leg AccountProviderClearing None DirectionDebit gross currency (Some orderID) ''payment captured''] @
    (if fee > 0 then
      [leg AccountPlatformRevenue None DirectionCredit fee currency (Some orderID) ''platform fee''] else []) @
    (if payable > 0 then
      [leg AccountSellerPending (Some sellerID) DirectionCredit payable currency (Some orderID)
        ''seller payable, pending acceptance''] else [])"

definition PaymentCaptured :: "int \<Rightarrow> int \<Rightarrow> int \<Rightarrow> int \<Rightarrow> string \<Rightarrow> ledger_error + entry list" where
  "PaymentCaptured orderID sellerID gross fee currency =
    (if gross \<le> 0 then Inl (GrossNotPositive gross)
     else if fee < 0 \<or> fee > gross then Inl (FeeOutOfRange fee gross)
     else validated (capture_entries orderID sellerID gross fee (wrap64 (gross - fee)) currency))"

definition release_entries :: "int \<Rightarrow> int \<Rightarrow> int \<Rightarrow> string \<Rightarrow> entry list" where
  "release_entries orderID sellerID amount currency =
    [leg AccountSellerPending (Some sellerID) DirectionDebit amount currency (Some orderID)
       ''seller earnings released'',
     leg AccountSellerAvailable (Some sellerID) DirectionCredit amount currency (Some orderID)
       ''seller earnings available'']"

definition EarningsReleased :: "int \<Rightarrow> int \<Rightarrow> int \<Rightarrow> string \<Rightarrow> ledger_error + entry list" where
  "EarningsReleased orderID sellerID amount currency =
    (if amount \<le> 0 then Inl (AmountNotPositive amount)
     else validated (release_entries orderID sellerID amount currency))"

definition refund_entries ::
  "int \<Rightarrow> int \<Rightarrow> int \<Rightarrow> int \<Rightarrow> int \<Rightarrow> int \<Rightarrow> bool \<Rightarrow> string \<Rightarrow> entry list" where
  "refund_entries orderID sellerID amount feeRefund payableRefund funded sellerFundsAvailable currency =
    [leg AccountRefunds None DirectionDebit amount currency (Some orderID) ''refund issued'',
     leg AccountProviderClearing None DirectionCredit amount currency (Some orderID) ''refund routed to buyer''] @
    (if feeRefund > 0 then
      [leg AccountPlatformRevenue None DirectionDebit feeRefund currency (Some orderID)
        ''platform fee refunded''] else []) @
    (if payableRefund > 0 then
      [leg (if sellerFundsAvailable then AccountSellerAvailable else AccountSellerPending)
        (Some sellerID) DirectionDebit payableRefund currency (Some orderID)
        ''seller payable refunded''] else []) @
    [leg AccountRefunds None DirectionCredit funded currency (Some orderID)
      ''refund funded from fee/payable shares'']"

definition RefundIssued ::
  "int \<Rightarrow> int \<Rightarrow> int \<Rightarrow> int \<Rightarrow> int \<Rightarrow> bool \<Rightarrow> string \<Rightarrow> ledger_error + entry list" where
  "RefundIssued orderID sellerID amount feeRefund payableRefund sellerFundsAvailable currency =
    (if amount \<le> 0 then Inl (RefundNotPositive amount)
     else if wrap64 (feeRefund + payableRefund) \<noteq> amount then
       Inl (RefundSplitMismatch feeRefund payableRefund amount)
     else validated (refund_entries orderID sellerID amount feeRefund payableRefund
       (wrap64 (feeRefund + payableRefund)) sellerFundsAvailable currency))"

definition ManualAdjustment ::
  "string \<Rightarrow> int option \<Rightarrow> string \<Rightarrow> int option \<Rightarrow> int \<Rightarrow> string \<Rightarrow> int option \<Rightarrow> string \<Rightarrow> ledger_error + entry list" where
  "ManualAdjustment fromKind fromOwner toKind toOwner amount currency orderID reason =
    (if amount \<le> 0 then Inl (AdjustmentNotPositive amount)
     else if reason = [] then Inl AdjustmentReasonRequired
     else (let desc = ''manual adjustment: '' @ reason in validated
       [leg fromKind fromOwner DirectionDebit amount currency orderID desc,
        leg toKind toOwner DirectionCredit amount currency orderID desc]))"

section \<open>Exact accounting\<close>

text \<open>The signed amount of an entry (credit positive), its net over a list by currency, and by
  account, in unbounded integers.\<close>

definition signed :: "entry \<Rightarrow> int" where
  "signed e = (if eDirection e = DirectionCredit then eAmountMinor e else - eAmountMinor e)"

definition net :: "string \<Rightarrow> entry list \<Rightarrow> int" where
  "net c es = sum_list (map signed (filter (\<lambda>e. eCurrency e = c) es))"

definition account_effect :: "string \<Rightarrow> int option \<Rightarrow> string \<Rightarrow> entry list \<Rightarrow> int" where
  "account_effect kind owner c es =
    sum_list (map signed (filter (\<lambda>e. eAccountKind e = kind \<and> eOwnerID e = owner \<and> eCurrency e = c) es))"

definition entry_ok :: "entry \<Rightarrow> bool" where
  "entry_ok e \<longleftrightarrow> eAmountMinor e > 0 \<and> eDirection e \<in> {DirectionDebit, DirectionCredit}"

definition balanced :: "entry list \<Rightarrow> bool" where
  "balanced es \<longleftrightarrow> es \<noteq> [] \<and> list_all entry_ok es \<and> (\<forall>c. net c es = 0)"

lemma net_Nil [simp]: "net c [] = 0"
  and net_Cons [simp]: "net c (e # es) = (if eCurrency e = c then signed e + net c es else net c es)"
  and net_append [simp]: "net c (es @ fs) = net c es + net c fs"
  by (simp_all add: net_def)

lemma account_effect_Nil [simp]: "account_effect k ow c [] = 0"
  and account_effect_Cons [simp]: "account_effect k ow c (e # es) =
    (if eAccountKind e = k \<and> eOwnerID e = ow \<and> eCurrency e = c then signed e else 0) + account_effect k ow c es"
  and account_effect_append [simp]:
    "account_effect k ow c (es @ fs) = account_effect k ow c es + account_effect k ow c fs"
  by (simp_all add: account_effect_def)

lemma balance_of_Nil [simp]: "balance_of [] c = 0"
  by (simp add: balance_of_def)

lemma balance_of_update [simp]:
  "balance_of (AList.update k v bs) c = (if c = k then v else balance_of bs c)"
  by (simp add: balance_of_def update_conv)

lemma validate_loop_error:
  "(\<exists>e. validate_loop bs es = Inl e) \<longleftrightarrow> \<not> list_all entry_ok es"
  by (induction es arbitrary: bs) (auto simp: entry_ok_def)

lemma validate_loop_balance:
  assumes "validate_loop bs es = Inr bs'"
  shows "2 ^ 64 dvd (balance_of bs' c - balance_of bs c - net c es)
    \<and> (in_int64 (balance_of bs c) \<longrightarrow> in_int64 (balance_of bs' c))"
  using assms
proof (induction es arbitrary: bs)
  case (Cons e es)
  have shift: "2 ^ 64 dvd (x - y - (d + z))" if "2 ^ 64 dvd (x - wrap64 (y + d) - z)" for x y z d :: int
    using dvd_add [OF that wrap64_dvd [of "y + d"]] by (simp add: algebra_simps)
  let ?b = "balance_of bs (eCurrency e)"
  have next_loop: "validate_loop (AList.update (eCurrency e) (wrap64 (?b + signed e)) bs) es = Inr bs'"
    using Cons.prems by (auto simp: signed_def directions split: if_splits)
  from Cons.IH [OF next_loop] show ?case
    by (auto simp: wrap64_range intro: shift [simplified])
qed simp

lemma validate_loop_distinct:
  "validate_loop bs es = Inr bs' \<Longrightarrow> distinct (map fst bs) \<Longrightarrow> distinct (map fst bs')"
  by (induction bs es rule: validate_loop.induct) (auto split: if_splits simp: distinct_update)

lemma all_zero_iff:
  "distinct (map fst bs) \<Longrightarrow> list_all (\<lambda>(c, b). b = 0) bs \<longleftrightarrow> (\<forall>c. balance_of bs c = 0)"
proof
  assume "distinct (map fst bs)" "\<forall>c. balance_of bs c = 0"
  then show "list_all (\<lambda>(c, b). b = 0) bs"
    by (auto simp: list_all_iff balance_of_def) (metis map_of_is_SomeI option.simps(5))
next
  assume "list_all (\<lambda>(c, b). b = 0) bs"
  then show "\<forall>c. balance_of bs c = 0"
    by (auto simp: list_all_iff balance_of_def split: option.splits dest!: map_of_SomeD)
qed

text \<open>What \<^const>\<open>Validate\<close> accepts, in terms of the exact net: balance modulo \<^verbatim>\<open>2^64\<close>.\<close>

lemma Validate_iff:
  "Validate es = None \<longleftrightarrow> es \<noteq> [] \<and> list_all entry_ok es \<and> (\<forall>c. net c es mod 2 ^ 64 = 0)"
proof (cases "validate_loop [] es")
  case (Inl e)
  with validate_loop_error [of "[]" es] show ?thesis by (auto simp: Validate_def)
next
  case (Inr bs)
  have eq: "balance_of bs c = 0 \<longleftrightarrow> net c es mod 2 ^ 64 = 0" for c
  proof -
    from validate_loop_balance [OF Inr, of c]
    have b: "2 ^ 64 dvd (balance_of bs c - net c es)" "in_int64 (balance_of bs c)"
      by (simp_all add: in_int64_def)
    then have "balance_of bs c mod 2 ^ 64 = net c es mod 2 ^ 64"
      by (simp add: mod_eq_dvd_iff)
    with b(2) wrap64_eq_0 [of "balance_of bs c"] show ?thesis by simp
  qed
  from Inr validate_loop_error [of "[]" es] have "list_all entry_ok es" by auto
  with Inr validate_loop_distinct [OF Inr] eq show ?thesis
    by (auto simp: Validate_def all_zero_iff)
qed

lemma balanced_Validate: "balanced es \<Longrightarrow> Validate es = None"
  by (simp add: balanced_def Validate_iff)

lemma signed_bound: "list_all entry_ok es \<Longrightarrow> \<bar>net c es\<bar> \<le> sum_list (map eAmountMinor es)"
  by (induction es) (auto simp: signed_def entry_ok_def)

lemma Validate_exact:
  assumes "Validate es = None" and "sum_list (map eAmountMinor es) < 2 ^ 64"
  shows "balanced es"
proof -
  from assms(1) have ok: "es \<noteq> []" "list_all entry_ok es" and m: "\<And>c. net c es mod 2 ^ 64 = 0"
    by (simp_all add: Validate_iff)
  have "net c es = 0" for c
  proof -
    from signed_bound [OF ok(2), of c] assms(2) have "\<bar>net c es\<bar> < 2 ^ 64" by simp
    with m [of c] show ?thesis
      using zdvd_not_zless [of "\<bar>net c es\<bar>" "2 ^ 64"] by (auto simp: mod_eq_0_iff_dvd)
  qed
  with ok show ?thesis by (simp add: balanced_def)
qed

lemma validated_balanced [simp]: "balanced es \<Longrightarrow> validated es = Inr es"
  by (simp add: validated_def balanced_Validate)

lemma validated_Inr: "validated es = Inr fs \<Longrightarrow> fs = es \<and> Validate es = None"
  by (simp add: validated_def split: option.splits)

section \<open>The builders\<close>

lemma signed_leg [simp]:
  "signed (leg k ow d a c oid desc) = (if d = DirectionCredit then a else - a)"
  and leg_sel [simp]:
  "eAccountKind (leg k ow d a c oid desc) = k" "eOwnerID (leg k ow d a c oid desc) = ow"
  "eCurrency (leg k ow d a c oid desc) = c" "eAmountMinor (leg k ow d a c oid desc) = a"
  "eDirection (leg k ow d a c oid desc) = d" "eOrderID (leg k ow d a c oid desc) = oid"
  by (simp_all add: signed_def leg_def)

lemma entry_ok_leg [simp]:
  "entry_ok (leg k ow DirectionDebit a c oid desc) = (0 < a)"
  "entry_ok (leg k ow DirectionCredit a c oid desc) = (0 < a)"
  by (simp_all add: entry_ok_def)

lemma debit_not_credit [simp]: "DirectionDebit \<noteq> DirectionCredit" "DirectionCredit \<noteq> DirectionDebit"
  by (simp_all add: directions)

lemma net_capture_entries:
  "net c (capture_entries oid sid gross fee payable cur) =
    (if c = cur then max 0 fee + max 0 payable - gross else 0)"
  by (simp add: capture_entries_def)

lemma net_refund_entries:
  "net c (refund_entries oid sid amount fee payable funded avail cur) =
    (if c = cur then funded - max 0 fee - max 0 payable else 0)"
  by (simp add: refund_entries_def)

lemma entries_ok:
  "0 < gross \<Longrightarrow> list_all entry_ok (capture_entries oid sid gross fee payable cur)"
  "0 < amount \<Longrightarrow> list_all entry_ok (release_entries oid sid amount cur)"
  "0 < amount \<Longrightarrow> 0 < funded \<Longrightarrow> list_all entry_ok (refund_entries oid sid amount fee payable funded avail cur)"
  by (simp_all add: capture_entries_def release_entries_def refund_entries_def)

lemma balanced_capture:
  "0 < gross \<Longrightarrow> 0 \<le> fee \<Longrightarrow> fee \<le> gross \<Longrightarrow> balanced (capture_entries oid sid gross fee (gross - fee) cur)"
  by (simp add: balanced_def entries_ok net_capture_entries) (simp add: capture_entries_def)

lemma balanced_release: "0 < amount \<Longrightarrow> balanced (release_entries oid sid amount cur)"
  by (simp add: balanced_def entries_ok) (simp add: release_entries_def)

lemma balanced_refund:
  "0 \<le> fee \<Longrightarrow> 0 \<le> payable \<Longrightarrow> 0 < fee + payable \<Longrightarrow>
    balanced (refund_entries oid sid (fee + payable) fee payable (fee + payable) avail cur)"
  by (simp add: balanced_def entries_ok net_refund_entries) (simp add: refund_entries_def)

text \<open>The closed form of a capture: accepted exactly on a positive gross amount with a fee inside
  it, and then the balanced entries of \<^const>\<open>capture_entries\<close>.\<close>

lemma PaymentCaptured_Inr:
  "in_int64 gross \<Longrightarrow> PaymentCaptured oid sid gross fee cur = Inr es \<longleftrightarrow>
    0 < gross \<and> 0 \<le> fee \<and> fee \<le> gross \<and> es = capture_entries oid sid gross fee (gross - fee) cur"
  by (auto simp: PaymentCaptured_def balanced_capture in_int64_def)

lemma EarningsReleased_Inr:
  "EarningsReleased oid sid amount cur = Inr es \<longleftrightarrow> 0 < amount \<and> es = release_entries oid sid amount cur"
  by (auto simp: EarningsReleased_def balanced_release)

lemma wrap64_cases:
  assumes "in_int64 x" "in_int64 y"
  shows "wrap64 (x + y) = x + y \<or> wrap64 (x + y) = x + y - 2 ^ 64 \<or> wrap64 (x + y) = x + y + 2 ^ 64"
proof -
  obtain k where k: "wrap64 (x + y) - (x + y) = 2 ^ 64 * k"
    using wrap64_dvd [of "x + y"] by (auto elim: dvdE)
  with assms wrap64_range [of "x + y"] have "- 1 \<le> k" "k \<le> 1"
    unfolding in_int64_def by simp_all
  then have "k = - 1 \<or> k = 0 \<or> k = 1" by linarith
  with k show ?thesis by auto
qed

text \<open>A refund is accepted only with non-negative shares that add up exactly: a negative share
  leaves its side without a posting, and \<^const>\<open>Validate\<close> rejects the rest.\<close>

lemma RefundIssued_Inr:
  assumes r: "in_int64 amount" "in_int64 fee" "in_int64 payable"
  shows "RefundIssued oid sid amount fee payable avail cur = Inr es \<longleftrightarrow>
    0 < amount \<and> 0 \<le> fee \<and> 0 \<le> payable \<and> fee + payable = amount \<and>
    es = refund_entries oid sid amount fee payable amount avail cur"
    (is "?L \<longleftrightarrow> ?R")
proof
  assume ?R
  with r balanced_refund [of fee payable] show ?L by (auto simp: RefundIssued_def)
next
  assume ok: ?L
  then have a: "0 < amount" and w: "wrap64 (fee + payable) = amount"
    and es: "es = refund_entries oid sid amount fee payable amount avail cur"
    and v: "Validate es = None"
    by (auto simp: RefundIssued_def split: if_splits dest!: validated_Inr)
  from v have "net cur es mod 2 ^ 64 = 0" by (simp add: Validate_iff)
  then have d: "2 ^ 64 dvd (amount - max 0 fee - max 0 payable)"
    unfolding es net_refund_entries by (simp add: mod_eq_0_iff_dvd)
  then obtain k where k: "amount - max 0 fee - max 0 payable = 2 ^ 64 * k" by (elim dvdE)
  from r a have "- 1 \<le> k" "k \<le> 0"
    using k unfolding in_int64_def by (simp_all add: max_def split: if_splits)
  then have "k = 0 \<or> k = - 1" by linarith
  with k wrap64_cases [OF r(2,3)] w r a es show ?R
    unfolding in_int64_def by (auto simp: max_def split: if_splits)
qed

text \<open>What the postings do to each account.\<close>

lemma capture_effect:
  "0 \<le> fee \<Longrightarrow> 0 \<le> payable \<Longrightarrow>
   account_effect k ow c (capture_entries oid sid gross fee payable cur) =
    (if c \<noteq> cur then 0
     else if k = AccountProviderClearing \<and> ow = None then - gross
     else if k = AccountPlatformRevenue \<and> ow = None then fee
     else if k = AccountSellerPending \<and> ow = Some sid then payable else 0)"
  by (auto simp: capture_entries_def account_kinds)

lemma release_effect:
  "account_effect k ow c (release_entries oid sid amount cur) =
    (if c \<noteq> cur \<or> ow \<noteq> Some sid then 0
     else if k = AccountSellerPending then - amount
     else if k = AccountSellerAvailable then amount else 0)"
  by (auto simp: release_entries_def account_kinds)

lemma refund_effect:
  "0 \<le> fee \<Longrightarrow> 0 \<le> payable \<Longrightarrow>
   account_effect k ow c (refund_entries oid sid amount fee payable amount avail cur) =
    (if c \<noteq> cur then 0
     else if k = AccountProviderClearing \<and> ow = None then amount
     else if k = AccountPlatformRevenue \<and> ow = None then - fee
     else if k = (if avail then AccountSellerAvailable else AccountSellerPending) \<and> ow = Some sid
       then - payable else 0)"
  by (auto simp: refund_entries_def account_kinds)

section \<open>Properties\<close>

definition debits :: "string \<Rightarrow> entry list \<Rightarrow> int" where
  "debits c es = sum_list (map eAmountMinor (filter (\<lambda>e. eCurrency e = c \<and> eDirection e = DirectionDebit) es))"

definition credits :: "string \<Rightarrow> entry list \<Rightarrow> int" where
  "credits c es = sum_list (map eAmountMinor (filter (\<lambda>e. eCurrency e = c \<and> eDirection e = DirectionCredit) es))"

lemma net_credits_debits: "list_all entry_ok es \<Longrightarrow> net c es = credits c es - debits c es"
  by (induction es) (auto simp: credits_def debits_def signed_def entry_ok_def)

text \<open>C6: \<^verbatim>\<open>Validate\<close> enforces double entry: as long as the amounts of a transaction add up to less
  than \<^verbatim>\<open>2^64\<close>, it is accepted exactly when it is not empty, every amount is positive, every
  direction is debit or credit, and in every currency the credits equal the debits.\<close>

theorem Validate_double_entry:
  assumes "sum_list (map eAmountMinor es) < 2 ^ 64"
  shows "Validate es = None \<longleftrightarrow> es \<noteq> []
    \<and> list_all (\<lambda>e. 0 < eAmountMinor e \<and> eDirection e \<in> {DirectionDebit, DirectionCredit}) es
    \<and> (\<forall>c. credits c es = debits c es)"
proof -
  have "Validate es = None \<longleftrightarrow> balanced es"
    using Validate_exact assms balanced_Validate by blast
  then show ?thesis
    unfolding balanced_def entry_ok_def [abs_def, symmetric] using net_credits_debits [of es] by auto
qed

theorem Validate_double_entry_witness:
  "Validate [leg AccountReserves None DirectionDebit 5 ''usd'' None [], leg AccountRefunds None DirectionCredit 5 ''usd'' None []] = None"
proof -
  let ?es = "[leg AccountReserves None DirectionDebit 5 ''usd'' None [], leg AccountRefunds None DirectionCredit 5 ''usd'' None []]"
  have "sum_list (map eAmountMinor ?es) < 2 ^ 64" by simp
  from Validate_double_entry [OF this] show ?thesis by (simp add: credits_def debits_def)
qed

text \<open>The limit of the check above is real: the per-currency sum of \<^verbatim>\<open>Validate\<close> wraps, so four
  debits of \<^verbatim>\<open>2^62\<close> minor units and no credit at all are accepted.\<close>

theorem Validate_accepts_wrapped:
  "let d = leg AccountReserves None DirectionDebit (2 ^ 62) ''usd'' None [] in
   Validate [d, d, d, d] = None \<and> credits ''usd'' [d, d, d, d] = 0 \<and> in_int64 (eAmountMinor d)"
  by (simp add: Let_def Validate_iff in_int64_def credits_def)

text \<open>A captured payment is posted exactly when the gross amount is positive and the fee lies
  between 0 and the gross amount; the entries then pass \<^verbatim>\<open>Validate\<close>, debit the clearing account by the
  gross amount, credit the platform with the fee and the seller's pending account with the rest, and
  move no other account.\<close>

theorem PaymentCaptured_exact:
  assumes "in_int64 gross"
  shows "case PaymentCaptured oid sid gross fee cur of
      Inl _ \<Rightarrow> gross \<le> 0 \<or> fee < 0 \<or> gross < fee
    | Inr es \<Rightarrow> 0 < gross \<and> 0 \<le> fee \<and> fee \<le> gross \<and> Validate es = None
        \<and> (\<forall>k ow c. account_effect k ow c es =
            (if c \<noteq> cur then 0
             else if (k, ow) = (AccountProviderClearing, None) then - gross
             else if (k, ow) = (AccountPlatformRevenue, None) then fee
             else if (k, ow) = (AccountSellerPending, Some sid) then gross - fee else 0))"
proof (cases "PaymentCaptured oid sid gross fee cur")
  case (Inl e)
  with PaymentCaptured_Inr [OF assms, of oid sid fee cur "capture_entries oid sid gross fee (gross - fee) cur"]
  show ?thesis by auto
next
  case (Inr es)
  with PaymentCaptured_Inr [OF assms] have ok: "0 < gross" "0 \<le> fee" "fee \<le> gross"
    and es: "es = capture_entries oid sid gross fee (gross - fee) cur" by blast+
  have "Validate es = None" unfolding es by (intro balanced_Validate balanced_capture ok)
  with Inr ok show ?thesis by (auto simp: es capture_effect)
qed

theorem PaymentCaptured_exact_witness:
  "\<exists>es. PaymentCaptured 7 3 1000 50 ''USD'' = Inr es \<and> account_effect AccountSellerPending (Some 3) ''USD'' es = 950"
proof -
  have "in_int64 1000" by (simp add: in_int64_def)
  from PaymentCaptured_exact [OF this, where oid = 7 and sid = 3 and fee = 50 and cur = "''USD''"] show ?thesis
    by (auto simp: account_kinds split: sum.splits)
qed

text \<open>A refund is posted exactly when the amount is positive and split exactly into non-negative
  shares of fee and seller; the entries then pass \<^verbatim>\<open>Validate\<close>, return the amount from the clearing
  account, and take the shares from the platform and from the seller's available or pending account.\<close>

theorem RefundIssued_exact:
  assumes "in_int64 amount" "in_int64 fee" "in_int64 payable"
  shows "case RefundIssued oid sid amount fee payable avail cur of
      Inl _ \<Rightarrow> amount \<le> 0 \<or> fee < 0 \<or> payable < 0 \<or> fee + payable \<noteq> amount
    | Inr es \<Rightarrow> 0 < amount \<and> 0 \<le> fee \<and> 0 \<le> payable \<and> fee + payable = amount \<and> Validate es = None
        \<and> (\<forall>k ow c. account_effect k ow c es =
            (if c \<noteq> cur then 0
             else if (k, ow) = (AccountProviderClearing, None) then amount
             else if (k, ow) = (AccountPlatformRevenue, None) then - fee
             else if (k, ow) = (if avail then AccountSellerAvailable else AccountSellerPending, Some sid)
               then - payable else 0))"
proof (cases "RefundIssued oid sid amount fee payable avail cur")
  case (Inl e)
  with RefundIssued_Inr [OF assms, of oid sid avail cur "refund_entries oid sid amount fee payable amount avail cur"]
  show ?thesis by auto
next
  case (Inr es)
  with RefundIssued_Inr [OF assms] have ok: "0 < amount" "0 \<le> fee" "0 \<le> payable" "fee + payable = amount"
    and es: "es = refund_entries oid sid amount fee payable amount avail cur" by blast+
  have "Validate es = None"
    using balanced_refund [of fee payable oid sid avail cur] ok by (simp add: es balanced_Validate)
  with Inr ok show ?thesis by (auto simp: es refund_effect)
qed

theorem RefundIssued_exact_witness:
  "\<exists>es. RefundIssued 7 3 1000 50 950 True ''usd'' = Inr es \<and> account_effect AccountSellerAvailable (Some 3) ''usd'' es = - 950"
proof -
  have "in_int64 1000" "in_int64 50" "in_int64 950" by (simp_all add: in_int64_def)
  from RefundIssued_exact [OF this, where oid = 7 and sid = 3 and avail = True and cur = "''usd''"] show ?thesis
    by (auto simp: account_kinds split: sum.splits)
qed

end
