(* ===== verification/OrderLifecycle.thy ===== *)
theory OrderLifecycle
  imports GigPrelude
begin

text \<open>
  The pure decision logic of \<^verbatim>\<open>src/services\<close>: the order state machine and the price
  breakdown (\<^verbatim>\<open>orders.go\<close>), the payment-intent state machine and the idempotency keys
  (\<^verbatim>\<open>payments.go\<close>), and the fraud thresholds (\<^verbatim>\<open>fraud.go\<close>).  The Go string constants are
  the constructors of two datatypes; \<^verbatim>\<open>order_status_text\<close> and \<^verbatim>\<open>payment_status_text\<close> give
  the strings back where the code compares them with form values.  Both types are instances of
  \<^verbatim>\<open>enum\<close>, so that statements over all states are decided by evaluation.
\<close>

section \<open>Order states\<close>

datatype order_status =
    OrderPendingPayment | OrderPaymentFailed | OrderPaid | OrderInProgress | OrderDelivered
  | OrderRevisionRequested | OrderAccepted | OrderDisputed | OrderCancelRequested | OrderCancelled
  | OrderPayoutPending | OrderPaidOut | OrderClosed

instantiation order_status :: enum
begin
definition "enum_order_status = [OrderPendingPayment, OrderPaymentFailed, OrderPaid, OrderInProgress,
  OrderDelivered, OrderRevisionRequested, OrderAccepted, OrderDisputed, OrderCancelRequested,
  OrderCancelled, OrderPayoutPending, OrderPaidOut, OrderClosed]"
definition "enum_all_order_status (P :: order_status \<Rightarrow> bool) \<longleftrightarrow> list_all P enum_class.enum"
definition "enum_ex_order_status (P :: order_status \<Rightarrow> bool) \<longleftrightarrow> list_ex P enum_class.enum"
instance
proof
  show univ: "(UNIV :: order_status set) = set enum_class.enum"
    unfolding enum_order_status_def by (auto intro: order_status.exhaust)
  show "distinct (enum_class.enum :: order_status list)"
    by (simp add: enum_order_status_def)
  show "enum_class.enum_all P = Ball UNIV P" for P :: "order_status \<Rightarrow> bool"
    by (simp add: enum_all_order_status_def list_all_iff univ)
  show "enum_class.enum_ex P = Bex UNIV P" for P :: "order_status \<Rightarrow> bool"
    by (simp add: enum_ex_order_status_def list_ex_iff univ)
qed
end

fun order_status_text :: "order_status \<Rightarrow> string" where
  "order_status_text OrderPendingPayment = ''pending_payment''"
| "order_status_text OrderPaymentFailed = ''payment_failed''"
| "order_status_text OrderPaid = ''paid''"
| "order_status_text OrderInProgress = ''in_progress''"
| "order_status_text OrderDelivered = ''delivered''"
| "order_status_text OrderRevisionRequested = ''revision_requested''"
| "order_status_text OrderAccepted = ''accepted''"
| "order_status_text OrderDisputed = ''disputed''"
| "order_status_text OrderCancelRequested = ''cancel_requested''"
| "order_status_text OrderCancelled = ''cancelled''"
| "order_status_text OrderPayoutPending = ''payout_pending''"
| "order_status_text OrderPaidOut = ''paid_out''"
| "order_status_text OrderClosed = ''closed''"

fun orderTransitions :: "order_status \<Rightarrow> order_status list" where
  "orderTransitions OrderPendingPayment = [OrderPaid, OrderPaymentFailed]"
| "orderTransitions OrderPaymentFailed = [OrderPendingPayment]"
| "orderTransitions OrderPaid = [OrderInProgress]"
| "orderTransitions OrderInProgress = [OrderDelivered, OrderCancelRequested, OrderDisputed]"
| "orderTransitions OrderDelivered = [OrderRevisionRequested, OrderAccepted, OrderDisputed]"
| "orderTransitions OrderRevisionRequested = [OrderDelivered, OrderDisputed]"
| "orderTransitions OrderAccepted = [OrderClosed, OrderDisputed]"
| "orderTransitions OrderCancelRequested = [OrderCancelled, OrderInProgress]"
| "orderTransitions OrderDisputed = [OrderInProgress, OrderClosed, OrderCancelled]"
| "orderTransitions OrderCancelled = []"
| "orderTransitions OrderClosed = []"
| "orderTransitions OrderPayoutPending = [OrderPaidOut]"
| "orderTransitions OrderPaidOut = []"

fun listed :: "'a \<Rightarrow> 'a list \<Rightarrow> bool" where
  "listed to [] = False"
| "listed to (allowed # rest) = (if allowed = to then True else listed to rest)"

definition CanTransitionOrder :: "order_status \<Rightarrow> order_status \<Rightarrow> bool" where
  "CanTransitionOrder from to = listed to (orderTransitions from)"

lemma listed_iff [simp]: "listed x xs \<longleftrightarrow> x \<in> set xs"
  by (induction xs) auto

section \<open>Prices\<close>

record order_totals =
  SubtotalMinorUnits :: int
  PlatformFeeMinorUnits :: int
  TotalMinorUnits :: int

fun sum_prices :: "int \<Rightarrow> int list \<Rightarrow> int" where
  "sum_prices subtotal [] = subtotal"
| "sum_prices subtotal (p # ps) = sum_prices (wrap64 (subtotal + p)) ps"

definition CalculateOrderTotals :: "int \<Rightarrow> int list \<Rightarrow> int \<Rightarrow> order_totals" where
  "CalculateOrderTotals packagePrice addonPrices platformFeeBps =
    (let subtotal = sum_prices packagePrice addonPrices;
         fee = wrap64 (subtotal * platformFeeBps) sdiv 10000 in
     \<lparr>SubtotalMinorUnits = subtotal, PlatformFeeMinorUnits = fee,
      TotalMinorUnits = wrap64 (subtotal + fee)\<rparr>)"

section \<open>Payment states\<close>

datatype payment_status =
    PaymentPending | PaymentProcessing | PaymentSucceeded | PaymentFailed | PaymentCanceled | PaymentExpired

instantiation payment_status :: enum
begin
definition "enum_payment_status = [PaymentPending, PaymentProcessing, PaymentSucceeded, PaymentFailed,
  PaymentCanceled, PaymentExpired]"
definition "enum_all_payment_status (P :: payment_status \<Rightarrow> bool) \<longleftrightarrow> list_all P enum_class.enum"
definition "enum_ex_payment_status (P :: payment_status \<Rightarrow> bool) \<longleftrightarrow> list_ex P enum_class.enum"
instance
proof
  show univ: "(UNIV :: payment_status set) = set enum_class.enum"
    unfolding enum_payment_status_def by (auto intro: payment_status.exhaust)
  show "distinct (enum_class.enum :: payment_status list)"
    by (simp add: enum_payment_status_def)
  show "enum_class.enum_all P = Ball UNIV P" for P :: "payment_status \<Rightarrow> bool"
    by (simp add: enum_all_payment_status_def list_all_iff univ)
  show "enum_class.enum_ex P = Bex UNIV P" for P :: "payment_status \<Rightarrow> bool"
    by (simp add: enum_ex_payment_status_def list_ex_iff univ)
qed
end

fun payment_status_text :: "payment_status \<Rightarrow> string" where
  "payment_status_text PaymentPending = ''pending''"
| "payment_status_text PaymentProcessing = ''processing''"
| "payment_status_text PaymentSucceeded = ''succeeded''"
| "payment_status_text PaymentFailed = ''failed''"
| "payment_status_text PaymentCanceled = ''canceled''"
| "payment_status_text PaymentExpired = ''expired''"

fun paymentTransitions :: "payment_status \<Rightarrow> payment_status list" where
  "paymentTransitions PaymentPending =
    [PaymentProcessing, PaymentSucceeded, PaymentFailed, PaymentCanceled, PaymentExpired]"
| "paymentTransitions PaymentProcessing = [PaymentSucceeded, PaymentFailed]"
| "paymentTransitions PaymentSucceeded = []"
| "paymentTransitions PaymentFailed = []"
| "paymentTransitions PaymentCanceled = []"
| "paymentTransitions PaymentExpired = []"

definition CanTransitionPayment :: "payment_status \<Rightarrow> payment_status \<Rightarrow> bool" where
  "CanTransitionPayment from to = (if from = to then False else listed to (paymentTransitions from))"

definition IdempotencyKey :: "string \<Rightarrow> int \<Rightarrow> int \<Rightarrow> string" where
  "IdempotencyKey scope entityID attempt = scope @ '':'' @ show_int entityID @ '':'' @ show_int attempt"

section \<open>Fraud thresholds\<close>

definition VelocityThreshold :: int where "VelocityThreshold = 5"
definition HighValueThresholdMinorUnits :: int where "HighValueThresholdMinorUnits = 200000"

definition IsVelocitySuspicious :: "int \<Rightarrow> bool" where
  "IsVelocitySuspicious recentOrderCount \<longleftrightarrow> recentOrderCount > VelocityThreshold"

definition IsHighValue :: "int \<Rightarrow> bool" where
  "IsHighValue amountMinorUnits \<longleftrightarrow> amountMinorUnits \<ge> HighValueThresholdMinorUnits"

section \<open>The transition graphs\<close>

definition order_move :: "order_status \<Rightarrow> order_status \<Rightarrow> bool" where
  "order_move s t \<longleftrightarrow> CanTransitionOrder\<^sup>*\<^sup>* s t"

definition payment_move :: "payment_status \<Rightarrow> payment_status \<Rightarrow> bool" where
  "payment_move s t \<longleftrightarrow> CanTransitionPayment\<^sup>*\<^sup>* s t"

lemma order_move_refl [simp, intro]: "order_move s s" by (simp add: order_move_def)
lemma order_move_step: "CanTransitionOrder s t \<Longrightarrow> order_move s t" by (simp add: order_move_def)
lemma order_move_trans: "order_move s t \<Longrightarrow> order_move t u \<Longrightarrow> order_move s u"
  by (simp add: order_move_def)
lemma payment_move_refl [simp, intro]: "payment_move s s" by (simp add: payment_move_def)
lemma payment_move_step: "CanTransitionPayment s t \<Longrightarrow> payment_move s t" by (simp add: payment_move_def)
lemma payment_move_trans: "payment_move s t \<Longrightarrow> payment_move t u \<Longrightarrow> payment_move s u"
  by (simp add: payment_move_def)

text \<open>A set of states closed under the transitions holds every state reached from it.\<close>

lemma order_move_closed:
  "order_move s t \<Longrightarrow> s \<in> S \<Longrightarrow> \<forall>x\<in>S. \<forall>y\<in>set (orderTransitions x). y \<in> S \<Longrightarrow> t \<in> S"
  unfolding order_move_def by (induction rule: rtranclp_induct) (auto simp: CanTransitionOrder_def)

lemma payment_move_closed:
  "payment_move s t \<Longrightarrow> s \<in> S \<Longrightarrow> \<forall>x\<in>S. \<forall>y\<in>set (paymentTransitions x). y \<in> S \<Longrightarrow> t \<in> S"
  unfolding payment_move_def
  by (induction rule: rtranclp_induct) (auto simp: CanTransitionPayment_def split: if_splits)

definition order_final :: "order_status \<Rightarrow> bool" where
  "order_final s \<longleftrightarrow> orderTransitions s = []"

definition payment_final :: "payment_status \<Rightarrow> bool" where
  "payment_final s \<longleftrightarrow> paymentTransitions s = []"

lemma order_final_move: "order_final s \<Longrightarrow> order_move s t \<Longrightarrow> t = s"
  using order_move_closed [of s t "{s}"] by (simp add: order_final_def)

lemma payment_final_move: "payment_final s \<Longrightarrow> payment_move s t \<Longrightarrow> t = s"
  using payment_move_closed [of s t "{s}"] by (simp add: payment_final_def)

lemma order_final_cases: "order_final s \<longleftrightarrow> s \<in> {OrderCancelled, OrderClosed, OrderPaidOut}"
  by (cases s) (simp_all add: order_final_def)

lemma payment_final_cases:
  "payment_final s \<longleftrightarrow> s \<in> {PaymentSucceeded, PaymentFailed, PaymentCanceled, PaymentExpired}"
  by (cases s) (simp_all add: payment_final_def)

lemma order_status_text_inj: "order_status_text s = order_status_text t \<longleftrightarrow> s = t"
  by (cases s; cases t) simp_all

text \<open>The states an order that starts in \<^const>\<open>OrderPendingPayment\<close> can ever have.\<close>

definition live_statuses :: "order_status set" where
  "live_statuses = {OrderPendingPayment, OrderPaymentFailed, OrderPaid, OrderInProgress, OrderDelivered,
    OrderRevisionRequested, OrderAccepted, OrderDisputed, OrderCancelRequested, OrderCancelled, OrderClosed}"

lemma live_closed: "order_move s t \<Longrightarrow> s \<in> live_statuses \<Longrightarrow> t \<in> live_statuses"
  by (rule order_move_closed) (simp_all add: live_statuses_def)

lemma live_reached: "s \<in> live_statuses \<Longrightarrow> order_move OrderPendingPayment s"
proof -
  note step = order_move_trans [OF _ order_move_step]
  have paid: "order_move OrderPendingPayment OrderPaid"
    and failed: "order_move OrderPendingPayment OrderPaymentFailed"
    by (auto intro: order_move_step simp: CanTransitionOrder_def)
  have ip: "order_move OrderPendingPayment OrderInProgress"
    by (rule step [OF paid]) (simp add: CanTransitionOrder_def)
  have dl: "order_move OrderPendingPayment OrderDelivered"
    by (rule step [OF ip]) (simp add: CanTransitionOrder_def)
  have ac: "order_move OrderPendingPayment OrderAccepted"
    by (rule step [OF dl]) (simp add: CanTransitionOrder_def)
  have cr: "order_move OrderPendingPayment OrderCancelRequested"
    by (rule step [OF ip]) (simp add: CanTransitionOrder_def)
  have "order_move OrderPendingPayment OrderDisputed" "order_move OrderPendingPayment OrderRevisionRequested"
    "order_move OrderPendingPayment OrderClosed" "order_move OrderPendingPayment OrderCancelled"
    by (rule step [OF ip] step [OF dl] step [OF ac] step [OF cr]; simp add: CanTransitionOrder_def)+
  then show "s \<in> live_statuses \<Longrightarrow> order_move OrderPendingPayment s"
    using paid failed ip dl ac cr by (auto simp: live_statuses_def)
qed

section \<open>Prices in range\<close>

lemma sum_prices_wrap: "in_int64 b \<Longrightarrow> sum_prices b ps = wrap64 (b + sum_list ps)"
  by (induction ps arbitrary: b) (simp_all add: wrap64_add_left wrap64_range add.assoc)

lemma sum_prices_exact:
  "\<forall>p\<in>set ps. 0 \<le> p \<Longrightarrow> 0 \<le> b \<Longrightarrow> b + sum_list ps < 2 ^ 63 \<Longrightarrow> sum_prices b ps = b + sum_list ps"
  using sum_list_nonneg [of ps] by (subst sum_prices_wrap) (auto simp: in_int64_def)

section \<open>Idempotency keys\<close>

lemma show_nat_no_colon: "CHR '':'' \<notin> set (show_nat n)"
proof (induction n rule: show_nat.induct)
  case (1 n)
  have d: "CHR '':'' \<noteq> digit_char d" if "d < 10" for d
  proof
    assume "CHR '':'' = digit_char d"
    with digit_of_digit_char [OF that] have "digit_of CHR '':'' = Some (int d)" by simp
    then show False by (simp add: digit_of_def)
  qed
  then show ?case
    using 1 d [of n] d [of "n mod 10"] by (subst show_nat.simps) auto
qed

lemma show_int_no_colon: "CHR '':'' \<notin> set (show_int i)"
  by (simp add: show_int_def show_nat_no_colon)

lemma first_separator:
  "xs @ c # ys = xs' @ c # ys' \<Longrightarrow> c \<notin> set xs \<Longrightarrow> c \<notin> set xs' \<Longrightarrow> xs = xs' \<and> ys = ys'"
proof (induction xs arbitrary: xs')
  case Nil
  then show ?case by (cases xs') auto
next
  case (Cons x xs)
  then show ?case by (cases xs') auto
qed

lemma last_separator:
  assumes "xs @ c # ys = xs' @ c # ys'" and "c \<notin> set ys" "c \<notin> set ys'"
  shows "xs = xs' \<and> ys = ys'"
proof -
  from assms(1) have "rev ys @ c # rev xs = rev ys' @ c # rev xs'"
    by (metis append.assoc append_Cons append_Nil rev.simps(2) rev_append)
  from first_separator [OF this] assms(2,3) have "rev ys = rev ys' \<and> rev xs = rev xs'" by simp
  then show ?thesis by simp
qed

lemma IdempotencyKey_inj:
  "IdempotencyKey s e a = IdempotencyKey s' e' a' \<longleftrightarrow> s = s' \<and> e = e' \<and> a = a'"
proof
  assume "IdempotencyKey s e a = IdempotencyKey s' e' a'"
  then have "(s @ '':'' @ show_int e) @ CHR '':'' # show_int a = (s' @ '':'' @ show_int e') @ CHR '':'' # show_int a'"
    by (simp add: IdempotencyKey_def)
  from last_separator [OF this show_int_no_colon show_int_no_colon]
  have a: "show_int a = show_int a'" and "s @ CHR '':'' # show_int e = s' @ CHR '':'' # show_int e'"
    by simp_all
  from last_separator [OF this(2) show_int_no_colon show_int_no_colon] a
  show "s = s' \<and> e = e' \<and> a = a'" by (blast dest: show_int_inj)
qed simp

section \<open>Properties\<close>

text \<open>An order that starts in \<^verbatim>\<open>pending_payment\<close> can reach every state of the table except
  \<^verbatim>\<open>payout_pending\<close> and \<^verbatim>\<open>paid_out\<close>; of the states it reaches, exactly \<^verbatim>\<open>cancelled\<close> and \<^verbatim>\<open>closed\<close>
  have no way out.\<close>

theorem order_lifecycle_graph:
  "(\<forall>s. CanTransitionOrder\<^sup>*\<^sup>* OrderPendingPayment s = (s \<noteq> OrderPayoutPending \<and> s \<noteq> OrderPaidOut))
    \<and> (\<forall>s. CanTransitionOrder\<^sup>*\<^sup>* OrderPendingPayment s \<and> \<not> (\<exists>t. CanTransitionOrder s t)
        \<longleftrightarrow> s = OrderCancelled \<or> s = OrderClosed)"
proof -
  have live: "s \<in> live_statuses \<longleftrightarrow> s \<noteq> OrderPayoutPending \<and> s \<noteq> OrderPaidOut" for s
    by (cases s) (simp_all add: live_statuses_def)
  have reach: "CanTransitionOrder\<^sup>*\<^sup>* OrderPendingPayment s \<longleftrightarrow> s \<in> live_statuses" for s
    using live_reached [of s] live_closed [of OrderPendingPayment s]
    by (auto simp: order_move_def live_statuses_def)
  have stuck: "\<not> (\<exists>t. CanTransitionOrder s t) \<longleftrightarrow> order_final s" for s
    by (cases s) (auto simp: CanTransitionOrder_def order_final_def)
  show ?thesis
    unfolding reach stuck order_final_cases live by auto
qed

text \<open>C29: on non-negative prices whose sum times 10000 fits an \<^verbatim>\<open>int64\<close>, and a fee between 0 and
  100 percent, the price breakdown is exact: the subtotal is the sum, the fee is the share rounded
  down and never more than the subtotal, and the total is their sum, without wrap-around.\<close>

theorem CalculateOrderTotals_exact:
  assumes "0 \<le> package" "\<forall>p \<in> set addons. 0 \<le> p" "0 \<le> bps" "bps \<le> 10000"
    and "(package + sum_list addons) * 10000 < 2 ^ 63"
  shows "let t = CalculateOrderTotals package addons bps; sub = package + sum_list addons in
    SubtotalMinorUnits t = sub \<and> PlatformFeeMinorUnits t = sub * bps div 10000
    \<and> TotalMinorUnits t = sub + PlatformFeeMinorUnits t
    \<and> 0 \<le> PlatformFeeMinorUnits t \<and> PlatformFeeMinorUnits t \<le> sub \<and> in_int64 (TotalMinorUnits t)"
proof -
  let ?sub = "package + sum_list addons"
  have pos: "0 \<le> ?sub" using assms(1) sum_list_nonneg [of addons] assms(2) by simp
  have sub: "sum_prices package addons = ?sub"
    using sum_prices_exact [OF assms(2,1)] assms(5) pos by simp
  have le: "?sub * bps \<le> ?sub * 10000" using pos assms(4) by (rule mult_left_mono [rotated])
  have prod: "0 \<le> ?sub * bps" "?sub * bps < 2 ^ 63"
    using pos assms(3,5) le by simp_all
  then have w: "wrap64 (?sub * bps) = ?sub * bps" by (simp add: in_int64_def)
  have q: "(?sub * bps) sdiv 10000 = ?sub * bps div 10000"
    using prod by (auto simp: signed_divide_int_def sgn_if)
  have fee: "0 \<le> ?sub * bps div 10000" "?sub * bps div 10000 \<le> ?sub"
    using prod zdiv_mono1 [OF le, of 10000] by simp_all
  have "in_int64 (?sub + ?sub * bps div 10000)"
    using pos fee assms(5) by (simp add: in_int64_def)
  then show ?thesis
    using fee by (simp add: CalculateOrderTotals_def Let_def sub w q)
qed

theorem CalculateOrderTotals_exact_witness:
  "TotalMinorUnits (CalculateOrderTotals 2500 [1000, 499] 1000) = 4398"
proof -
  have "(0::int) \<le> 2500" "\<forall>p \<in> set [1000, 499 :: int]. 0 \<le> p" "(0::int) \<le> 1000" "(1000::int) \<le> 10000"
    "(2500 + sum_list [1000, 499 :: int]) * 10000 < 2 ^ 63" by simp_all
  from CalculateOrderTotals_exact [OF this] show ?thesis by (simp add: Let_def)
qed

text \<open>Two idempotency keys are equal only for the same scope, entity and attempt, whatever the
  scope contains.\<close>

theorem IdempotencyKey_injective:
  "inj (\<lambda>(scope, entity, attempt). IdempotencyKey scope entity attempt)"
  by (auto simp: inj_def IdempotencyKey_inj)

end
