(* ===== verification/RateLimit.thy ===== *)
theory RateLimit
  imports GigPrelude
begin

text \<open>
  The in-memory rate limiter of \<^verbatim>\<open>src/services/ratelimit.go\<close>, which guards the log-in and
  registration forms: a fixed-window counter per key.  Every operation runs under the mutex, so a
  concurrent history is a sequence of calls; times are the readings of the clock, in nanoseconds.
\<close>

section \<open>The limiter\<close>

record bucket =
  bkCount :: int
  bkReset :: int

record RateLimiter =
  rlWindow :: int
  rlLimit :: int
  rlBuckets :: "string \<Rightarrow> bucket option"

definition NewRateLimiter :: "int \<Rightarrow> int \<Rightarrow> RateLimiter" where
  "NewRateLimiter limit window =
    \<lparr>rlWindow = window, rlLimit = (if limit < 1 then 1 else limit), rlBuckets = (\<lambda>_. None)\<rparr>"

definition Allow :: "int \<Rightarrow> string \<Rightarrow> RateLimiter \<Rightarrow> bool \<times> RateLimiter" where
  "Allow now key rl =
    (let fresh = (True, rl\<lparr>rlBuckets := (rlBuckets rl)(key \<mapsto> \<lparr>bkCount = 1, bkReset = now + rlWindow rl\<rparr>)\<rparr>) in
     case rlBuckets rl key of
       None \<Rightarrow> fresh
     | Some b \<Rightarrow> if now > bkReset b then fresh
         else let n = bkCount b + 1 in
           (n \<le> rlLimit rl, rl\<lparr>rlBuckets := (rlBuckets rl)(key \<mapsto> b\<lparr>bkCount := n\<rparr>)\<rparr>))"

definition Cleanup :: "int \<Rightarrow> RateLimiter \<Rightarrow> RateLimiter" where
  "Cleanup now rl = rl\<lparr>rlBuckets := (\<lambda>k. case rlBuckets rl k of
      None \<Rightarrow> None
    | Some b \<Rightarrow> if now > bkReset b then None else Some b)\<rparr>"

section \<open>Histories\<close>

text \<open>The calls a limiter serves, in the order of the mutex, and how many calls for one key within
  a span of time it let through.\<close>

datatype limiter_call = CallAllow int string | CallCleanup int

fun call_time :: "limiter_call \<Rightarrow> int" where
  "call_time (CallAllow t k) = t"
| "call_time (CallCleanup t) = t"

fun decisions :: "RateLimiter \<Rightarrow> limiter_call list \<Rightarrow> (int \<times> string \<times> bool) list" where
  "decisions rl [] = []"
| "decisions rl (CallAllow t k # cs) = (let (ok, rl') = Allow t k rl in (t, k, ok) # decisions rl' cs)"
| "decisions rl (CallCleanup t # cs) = decisions (Cleanup t rl) cs"

definition allowed_in :: "string \<Rightarrow> int \<Rightarrow> int \<Rightarrow> (int \<times> string \<times> bool) list \<Rightarrow> nat" where
  "allowed_in k a b ds = length (filter (\<lambda>(t, k', ok). k' = k \<and> ok \<and> a \<le> t \<and> t \<le> b) ds)"

section \<open>Facts\<close>

named_theorems limiter_simps \<open>the fields of a limiter after an operation\<close>

lemma Allow_fields [limiter_simps]:
  "rlLimit (snd (Allow t k rl)) = rlLimit rl" "rlWindow (snd (Allow t k rl)) = rlWindow rl"
  "k' \<noteq> k \<Longrightarrow> rlBuckets (snd (Allow t k rl)) k' = rlBuckets rl k'"
  by (auto simp: Allow_def Let_def split: option.splits)

lemma Cleanup_fields [limiter_simps]:
  "rlLimit (Cleanup t rl) = rlLimit rl" "rlWindow (Cleanup t rl) = rlWindow rl"
  by (simp_all add: Cleanup_def)

lemma Cleanup_kept: "(\<And>b. rlBuckets rl k = Some b \<Longrightarrow> t \<le> bkReset b) \<Longrightarrow> rlBuckets (Cleanup t rl) k = rlBuckets rl k"
  by (auto simp: Cleanup_def split: option.splits)

lemma Allow_fresh:
  assumes "\<And>b. rlBuckets rl k = Some b \<Longrightarrow> bkReset b < t"
  shows "fst (Allow t k rl)" "rlBuckets (snd (Allow t k rl)) k = Some \<lparr>bkCount = 1, bkReset = t + rlWindow rl\<rparr>"
  using assms by (auto simp: Allow_def Let_def split: option.splits)

lemma Allow_counted:
  assumes "rlBuckets rl k = Some b" "t \<le> bkReset b"
  shows "fst (Allow t k rl) \<longleftrightarrow> bkCount b < rlLimit rl"
    "rlBuckets (snd (Allow t k rl)) k = Some (b\<lparr>bkCount := bkCount b + 1\<rparr>)"
  using assms by (auto simp: Allow_def Let_def)

lemma decisions_Allow:
  "decisions rl (CallAllow t k # cs) = (t, k, fst (Allow t k rl)) # decisions (snd (Allow t k rl)) cs"
  by (simp add: split_beta)

lemma allowed_in_Nil [simp]: "allowed_in k a b [] = 0"
  and allowed_in_Cons [simp]: "allowed_in k a b ((t, k', ok) # ds)
    = (if k' = k \<and> ok \<and> a \<le> t \<and> t \<le> b then 1 else 0) + allowed_in k a b ds"
  by (simp_all add: allowed_in_def)

text \<open>No call later than the end of the span counts.\<close>

lemma allowed_in_late:
  "(\<And>c. c \<in> set cs \<Longrightarrow> b < call_time c) \<Longrightarrow> allowed_in k a b (decisions rl cs) = 0"
proof (induction cs arbitrary: rl)
  case (Cons c cs)
  then have "b < call_time c" "\<And>rl. allowed_in k a b (decisions rl cs) = 0" by auto
  then show ?case by (cases c) (simp_all add: split_beta)
qed simp

text \<open>A bucket that outlives the span lets through what is left of it.\<close>

lemma allowed_in_bucket:
  assumes "rlBuckets rl k = Some bk" "b \<le> bkReset bk" "sorted (map call_time cs)"
  shows "int (allowed_in k a b (decisions rl cs)) \<le> max 0 (rlLimit rl - bkCount bk)"
  using assms
proof (induction cs arbitrary: rl bk)
  case (Cons c cs)
  then have srt: "sorted (map call_time cs)" by simp
  show ?case
  proof (cases "call_time c \<le> bkReset bk")
    case early: True
    show ?thesis
    proof (cases c)
      case (CallCleanup t)
      with early Cons.prems have "rlBuckets (Cleanup t rl) k = Some bk" by (subst Cleanup_kept) auto
      from Cons.IH [OF this Cons.prems(2) srt] show ?thesis by (simp add: CallCleanup limiter_simps)
    next
      case (CallAllow t k')
      show ?thesis
      proof (cases "k' = k")
        case True
        from early CallAllow have "t \<le> bkReset bk" by simp
        note cnt = Allow_counted [OF Cons.prems(1) this]
        have "b \<le> bkReset (bk\<lparr>bkCount := bkCount bk + 1\<rparr>)" using Cons.prems(2) by simp
        from Cons.IH [OF cnt(2) this srt] cnt(1) True show ?thesis
          by (auto simp: CallAllow decisions_Allow limiter_simps simp del: decisions.simps)
      next
        case False
        then have "rlBuckets (snd (Allow t k' rl)) k = Some bk" using Cons.prems by (simp add: limiter_simps)
        from Cons.IH [OF this Cons.prems(2) srt] False show ?thesis
          by (simp add: CallAllow decisions_Allow limiter_simps del: decisions.simps)
      qed
    qed
  next
    case False
    with Cons.prems have "d \<in> set (c # cs) \<Longrightarrow> b < call_time d" for d by force
    from allowed_in_late [OF this] have "allowed_in k a b (decisions rl (c # cs)) = 0" by blast
    then show ?thesis by (simp del: decisions.simps)
  qed
qed simp

text \<open>Inside a span no longer than the window at most one new bucket is opened.\<close>

definition room :: "string \<Rightarrow> RateLimiter \<Rightarrow> int" where
  "room k rl = (case rlBuckets rl k of None \<Rightarrow> 0 | Some bk \<Rightarrow> max 0 (rlLimit rl - bkCount bk))"

lemma allowed_in_fresh:
  assumes "\<And>bk. rlBuckets rl k = Some bk \<Longrightarrow> bkReset bk < t" "a \<le> t" "b \<le> a + rlWindow rl"
    "sorted (map call_time cs)" "1 \<le> rlLimit rl"
  shows "int (allowed_in k a b (decisions rl (CallAllow t k # cs))) \<le> rlLimit rl"
proof -
  note fr = Allow_fresh [of rl k t, OF assms(1)]
  have "b \<le> bkReset \<lparr>bkCount = 1, bkReset = t + rlWindow rl\<rparr>" using assms by simp
  from allowed_in_bucket [where a = a, OF fr(2) this assms(4)] assms(5) show ?thesis
    by (simp add: decisions_Allow limiter_simps del: decisions.simps)
qed

lemma allowed_in_window:
  assumes "sorted (map call_time cs)" "\<And>c. c \<in> set cs \<Longrightarrow> a \<le> call_time c"
    "b \<le> a + rlWindow rl" "1 \<le> rlLimit rl"
  shows "int (allowed_in k a b (decisions rl cs)) \<le> room k rl + rlLimit rl"
  using assms
proof (induction cs arbitrary: rl)
  case Nil
  then show ?case by (simp add: room_def split: option.splits)
next
  case (Cons c cs)
  then have srt: "sorted (map call_time cs)" and rest: "\<And>d. d \<in> set cs \<Longrightarrow> a \<le> call_time d"
    and a: "a \<le> call_time c" by auto
  note IH = Cons.IH [OF srt rest]
  have room0: "0 \<le> room k rl" by (simp add: room_def split: option.splits)
  show ?case
  proof (cases c)
    case (CallCleanup t)
    have "room k (Cleanup t rl) \<le> room k rl" by (auto simp: room_def Cleanup_def split: option.splits)
    with IH [of "Cleanup t rl"] Cons.prems show ?thesis by (simp add: CallCleanup limiter_simps)
  next
    case (CallAllow t k')
    show ?thesis
    proof (cases "k' = k")
      case False
      then have "room k (snd (Allow t k' rl)) = room k rl"
        by (cases "rlBuckets rl k") (simp_all add: room_def limiter_simps)
      with IH [of "snd (Allow t k' rl)"] Cons.prems False show ?thesis
        by (simp add: CallAllow decisions_Allow limiter_simps del: decisions.simps)
    next
      case [simp]: True
      show ?thesis
      proof (cases "\<exists>bk. rlBuckets rl k = Some bk \<and> t \<le> bkReset bk")
        case True
        then obtain bk where bk: "rlBuckets rl k = Some bk" "t \<le> bkReset bk" by blast
        note cnt = Allow_counted [OF bk]
        have "room k (snd (Allow t k rl)) + (if fst (Allow t k rl) then 1 else 0) \<le> room k rl"
          using cnt bk by (simp add: room_def limiter_simps)
        with IH [of "snd (Allow t k rl)"] Cons.prems show ?thesis
          by (auto simp: CallAllow decisions_Allow limiter_simps simp del: decisions.simps split: if_splits)
      next
        case False
        then have "\<And>bk. rlBuckets rl k = Some bk \<Longrightarrow> bkReset bk < t" by (meson linorder_not_less)
        from allowed_in_fresh [of rl k t a b cs, OF this _ Cons.prems(3) srt Cons.prems(4)] a room0 CallAllow show ?thesis
          by (simp add: CallAllow del: decisions.simps)
      qed
    qed
  qed
qed

lemma allowed_in_bound:
  assumes "sorted (map call_time cs)" "b \<le> a + rlWindow rl" "1 \<le> rlLimit rl"
    "\<And>bk. rlBuckets rl k = Some bk \<Longrightarrow> 0 \<le> bkCount bk"
  shows "int (allowed_in k a b (decisions rl cs)) \<le> 2 * rlLimit rl"
  using assms
proof (induction cs arbitrary: rl)
  case (Cons c cs)
  have room: "room k rl \<le> rlLimit rl"
    using Cons.prems(3,4) by (auto simp: room_def split: option.splits)
  show ?case
  proof (cases "a \<le> call_time c")
    case True
    with Cons.prems have "d \<in> set (c # cs) \<Longrightarrow> a \<le> call_time d" for d by force
    from allowed_in_window [OF Cons.prems(1) this Cons.prems(2,3), of k] room show ?thesis by simp
  next
    case early: False
    from Cons.prems have srt: "sorted (map call_time cs)" by simp
    show ?thesis
    proof (cases c)
      case (CallCleanup t)
      have "0 \<le> bkCount bk" if "rlBuckets (Cleanup t rl) k = Some bk" for bk
        using that Cons.prems(4) by (auto simp: Cleanup_def split: option.splits if_splits)
      with Cons.IH [of "Cleanup t rl", OF srt] Cons.prems show ?thesis
        by (simp add: CallCleanup limiter_simps)
    next
      case (CallAllow t k')
      have "0 \<le> bkCount bk" if "rlBuckets (snd (Allow t k' rl)) k = Some bk" for bk
        using that Cons.prems(4) by (auto simp: Allow_def Let_def split: option.splits if_splits)
      with Cons.IH [of "snd (Allow t k' rl)", OF srt] Cons.prems early show ?thesis
        by (simp add: CallAllow decisions_Allow limiter_simps del: decisions.simps)
    qed
  qed
qed simp

text \<open>A bucket that a cleanup dropped would have been replaced by the next call anyway: with or
  without the cleanups every call gets the same answer.\<close>

definition agree_from :: "int \<Rightarrow> RateLimiter \<Rightarrow> RateLimiter \<Rightarrow> bool" where
  "agree_from t rl rl' \<longleftrightarrow> rlLimit rl' = rlLimit rl \<and> rlWindow rl' = rlWindow rl
    \<and> (\<forall>k. rlBuckets rl' k = rlBuckets rl k
        \<or> (rlBuckets rl' k = None \<and> (\<exists>b. rlBuckets rl k = Some b \<and> bkReset b < t)))"

definition without_cleanups :: "limiter_call list \<Rightarrow> limiter_call list" where
  "without_cleanups cs = filter (\<lambda>c. case c of CallAllow _ _ \<Rightarrow> True | CallCleanup _ \<Rightarrow> False) cs"

lemma agree_Allow:
  assumes "agree_from t rl rl'" "t \<le> u"
  shows "fst (Allow u k rl') = fst (Allow u k rl)" "agree_from u (snd (Allow u k rl)) (snd (Allow u k rl'))"
proof -
  have ag: "rlBuckets rl' k' = rlBuckets rl k'
      \<or> (rlBuckets rl' k' = None \<and> (\<exists>b. rlBuckets rl k' = Some b \<and> bkReset b < u))" for k'
    using assms unfolding agree_from_def by (meson order_less_le_trans)
  show "fst (Allow u k rl') = fst (Allow u k rl)"
    using ag [of k] assms(1) by (auto simp: Allow_def Let_def agree_from_def split: option.splits)
  show "agree_from u (snd (Allow u k rl)) (snd (Allow u k rl'))"
    unfolding agree_from_def
  proof (intro conjI allI)
    fix k'
    show "rlBuckets (snd (Allow u k rl')) k' = rlBuckets (snd (Allow u k rl)) k'
      \<or> (rlBuckets (snd (Allow u k rl')) k' = None
        \<and> (\<exists>b. rlBuckets (snd (Allow u k rl)) k' = Some b \<and> bkReset b < u))"
      using ag [of k'] ag [of k] assms(1)
      by (cases "k' = k") (auto simp: Allow_def Let_def agree_from_def split: option.splits)
  qed (use assms(1) in \<open>simp_all add: limiter_simps agree_from_def\<close>)
qed

lemma agree_Cleanup:
  assumes "agree_from t rl rl'" "t \<le> u"
  shows "agree_from u rl (Cleanup u rl')"
proof -
  have "rlBuckets (Cleanup u rl') k = rlBuckets rl k
      \<or> (rlBuckets (Cleanup u rl') k = None \<and> (\<exists>b. rlBuckets rl k = Some b \<and> bkReset b < u))" for k
  proof -
    from assms consider "rlBuckets rl' k = rlBuckets rl k"
      | b where "rlBuckets rl' k = None" "rlBuckets rl k = Some b" "bkReset b < u"
      unfolding agree_from_def by (metis order_less_le_trans)
    then show ?thesis by cases (auto simp: Cleanup_def split: option.splits)
  qed
  with assms(1) show ?thesis by (simp add: agree_from_def limiter_simps)
qed

lemma decisions_agree:
  "agree_from t rl rl' \<Longrightarrow> sorted (map call_time cs) \<Longrightarrow> (\<And>c. c \<in> set cs \<Longrightarrow> t \<le> call_time c) \<Longrightarrow>
    decisions rl' cs = decisions rl (without_cleanups cs)"
proof (induction cs arbitrary: t rl rl')
  case Nil
  then show ?case by (simp add: without_cleanups_def)
next
  case (Cons c cs)
  then have srt: "sorted (map call_time cs)" and later: "\<And>d. d \<in> set cs \<Longrightarrow> call_time c \<le> call_time d"
    and t: "t \<le> call_time c" by auto
  show ?case
  proof (cases c)
    case (CallAllow u k)
    with t agree_Allow [OF Cons.prems(1), of u k] Cons.IH [OF _ srt later] show ?thesis
      by (simp add: split_beta without_cleanups_def)
  next
    case (CallCleanup u)
    with t agree_Cleanup [OF Cons.prems(1), of u] Cons.IH [OF _ srt later] show ?thesis
      by (simp add: without_cleanups_def)
  qed
qed

section \<open>Properties\<close>

text \<open>C34: The rate limiter bounds every client: in any sequence of calls in clock order, cleanups
  included, no span of time as long as the window sees more than twice the limit of calls with one
  key let through.\<close>

theorem rate_limited:
  assumes "sorted (map call_time calls)"
  shows "int (allowed_in key a (a + window) (decisions (NewRateLimiter limit window) calls)) \<le> 2 * max 1 limit"
  using allowed_in_bound [OF assms, of "a + window" a "NewRateLimiter limit window" key]
  by (auto simp: NewRateLimiter_def max_def)

theorem rate_limited_witness:
  "int (allowed_in ''ip'' 0 (0 + 10) (decisions (NewRateLimiter 1 10)
     [CallAllow 0 ''ip'', CallAllow 1 ''ip'', CallCleanup 2, CallAllow 11 ''ip'', CallAllow 12 ''ip''])) \<le> 2 * max 1 1"
  by (rule rate_limited) simp

text \<open>Forgetting expired buckets is invisible to the clients: in clock order, every call gets
  the answer it would get if \<^const>\<open>Cleanup\<close> were never called.\<close>

theorem cleanup_invisible:
  assumes "sorted (map call_time calls)"
  shows "decisions (NewRateLimiter limit window) calls
    = decisions (NewRateLimiter limit window) (without_cleanups calls)"
proof (cases calls)
  case (Cons c cs)
  have "agree_from (call_time c) (NewRateLimiter limit window) (NewRateLimiter limit window)"
    by (simp add: agree_from_def)
  from decisions_agree [OF this assms] Cons assms show ?thesis by auto
qed (simp add: without_cleanups_def)

theorem cleanup_invisible_witness:
  "decisions (NewRateLimiter 1 10) [CallAllow 0 ''ip'', CallCleanup 11, CallAllow 12 ''ip'']
    = [(0, ''ip'', True), (12, ''ip'', True)]"
proof -
  have "decisions (NewRateLimiter 1 10) [CallAllow 0 ''ip'', CallCleanup 11, CallAllow 12 ''ip'']
    = decisions (NewRateLimiter 1 10) (without_cleanups [CallAllow 0 ''ip'', CallCleanup 11, CallAllow 12 ''ip''])"
    by (rule cleanup_invisible) simp
  also have "\<dots> = [(0, ''ip'', True), (12, ''ip'', True)]"
    by (simp add: without_cleanups_def NewRateLimiter_def Allow_def)
  finally show ?thesis .
qed

end
