(* ===== verification/Schema.thy ===== *)
theory Schema
  imports Ledger OrderLifecycle RateLimit
begin

text \<open>
  The data the program keeps: one record per table row (the Go structs of \<^verbatim>\<open>src/store\<close> with the
  columns of \<^verbatim>\<open>src/migrations\<close>), the record \<^verbatim>\<open>db\<close> of all tables, and the \<^verbatim>\<open>world\<close> an
  operation runs in: the database, the sequences behind the \<^verbatim>\<open>bigserial\<close> keys (which a rollback
  does not take back), the clock (\<^verbatim>\<open>now()\<close>, in nanoseconds), a schedule of database failures, and
  the log of requests sent to payment providers.

  Every SQL statement runs through \<^verbatim>\<open>stmt\<close>: when the schedule says so, the statement fails with
  \<^verbatim>\<open>ErrFault\<close> and changes nothing, so every error branch of the code is reachable in the model.
  Constraints the migrations declare (\<^verbatim>\<open>UNIQUE\<close> and \<^verbatim>\<open>CHECK\<close>) are branches of the insert or
  update they guard; foreign keys are part of what a scheduled failure stands for.  \<^verbatim>\<open>tx\<close> is
  \<^verbatim>\<open>Store.Tx\<close>: a failure of the body or of the commit restores the database of the start.

  The locale \<^verbatim>\<open>db_frame\<close> extends \<^verbatim>\<open>frame\<close>: for a relation on databases it proves that
  statements and transactions respect it when their updates do.
\<close>

section \<open>Errors\<close>

datatype error =
    ErrNotFound | ErrNoRows | ErrEmailTaken | ErrDisabled | ErrRevisionLimitReached | ErrAlreadyReviewed
  | ErrDuplicateIdempotencyKey | ErrDuplicate | ErrNoJob
  | ErrUniqueViolation
  | ErrCheckViolation string
  | ErrForeignKeyViolation string
  | ErrFault
  | ErrNotClaimed int
  | ErrLedger ledger_error
  | ErrPayload
  | ErrCSRFRequired
  | ErrProviderNotConfigured string
  | ErrProvider
  | ErrUpload
  | ErrMail
  | ErrNoHandler string
  | ErrOutOfRange
  | ErrNoSlug
  | ErrPanic

section \<open>Rows\<close>

type_synonym time = int

record user =
  uID :: int
  uEmail :: string
  uEmailLower :: string
  uPasswordHash :: string
  uName :: string
  uLocale :: string
  uStatus :: string
  uEmailVerifiedAt :: "time option"
  uTotpSecret :: "string option"
  uTotpEnabled :: bool
  uFailedLoginAttempts :: int
  uLockedUntil :: "time option"
  uLastLoginAt :: "time option"
  uRestrictionReason :: string
  uCreatedAt :: time

record flash = flashKind :: string flashText :: string

record session =
  seID :: int
  seUserID :: "int option"
  seTokenHash :: string
  seCSRF :: string
  seExpiresAt :: time
  seUserAgent :: string
  seIP :: string
  seRevokedAt :: "time option"
  seLastSeen :: time
  seFlash :: "flash option"

record auth_token =
  tkID :: int
  tkUserID :: int
  tkKind :: string
  tkTokenHash :: string
  tkExpiresAt :: time
  tkUsedAt :: "time option"
  tkCreatedAt :: time

record gig_package =
  gpID :: int
  gpGigID :: int
  gpTier :: string
  gpName :: string
  gpDescription :: string
  gpPriceMinorUnits :: int
  gpCurrency :: string
  gpDeliveryDays :: int
  gpRevisions :: int

record gig_addon =
  gaID :: int
  gaGigID :: int
  gaName :: string
  gaDescription :: string
  gaPriceMinorUnits :: int
  gaCurrency :: string
  gaDeliveryDaysImpact :: int
  gaPosition :: int

record gig =
  gID :: int
  gSellerID :: int
  gCategoryID :: "int option"
  gSlug :: string
  gTitle :: string
  gDescription :: string
  gStatus :: string
  gModerationState :: string
  gCreatedAt :: time
  gUpdatedAt :: time

record category =
  ctID :: int
  ctSlug :: string
  ctName :: string
  ctDescription :: string
  ctPosition :: int

record tag =
  tgID :: int
  tgSlug :: string
  tgName :: string

record gig_medium =
  gmID :: int
  gmGigID :: int
  gmMediaPath :: string
  gmAltText :: string
  gmPosition :: int
  gmModerationState :: string

record favorite =
  fvUserID :: int
  fvGigID :: int
  fvCreatedAt :: time

record portfolio_item =
  pfID :: int
  pfUserID :: int
  pfTitle :: string
  pfDescription :: string
  pfMediaPath :: string
  pfModerationState :: string
  pfPosition :: int
  pfCreatedAt :: time

record seller_summary =
  ssUserID :: int
  ssName :: string
  ssDisplayName :: string
  ssRatingAvg :: int
  ssRatingCount :: int

record gig_detail =
  gdGig :: gig
  gdCategoryName :: string
  gdPackages :: "gig_package list"
  gdAddons :: "gig_addon list"
  gdMedia :: "gig_medium list"
  gdTags :: "string list"
  gdSeller :: seller_summary

record draft_order =
  dfID :: int
  dfBuyerID :: int
  dfGigID :: int
  dfPackageID :: int
  dfRequirements :: string
  dfCreatedAt :: time
  dfUpdatedAt :: time

record order =
  oID :: int
  oBuyerID :: int
  oSellerID :: int
  oGigID :: int
  oStatus :: order_status
  oRequirements :: string
  oRevisionsUsed :: int
  oRevisionsAllowed :: int
  oSubtotalMinorUnits :: int
  oPlatformFeeMinorUnits :: int
  oTotalMinorUnits :: int
  oCurrency :: string
  oPaidAt :: "time option"
  oDeliveredAt :: "time option"
  oAcceptedAt :: "time option"
  oCancelledAt :: "time option"
  oClosedAt :: "time option"
  oCreatedAt :: time
  oUpdatedAt :: time

record order_item =
  oiID :: int
  oiOrderID :: int
  oiKind :: string
  oiName :: string
  oiDescription :: string
  oiPriceMinorUnits :: int
  oiCurrency :: string
  oiDeliveryDays :: "int option"

record order_message =
  omID :: int
  omOrderID :: int
  omSenderID :: int
  omBody :: string
  omIsInfoRequest :: bool
  omHidden :: bool
  omHiddenBy :: "int option"
  omHiddenAt :: "time option"
  omCreatedAt :: time

record order_attachment =
  oaID :: int
  oaOrderID :: int
  oaUploaderID :: int
  oaKind :: string
  oaFilePath :: string
  oaFileName :: string
  oaCreatedAt :: time

record delivery =
  dlID :: int
  dlOrderID :: int
  dlSellerID :: int
  dlVersion :: int
  dlMessage :: string
  dlCreatedAt :: time

record revision_request =
  rrID :: int
  rrOrderID :: int
  rrBuyerID :: int
  rrReason :: string
  rrCreatedAt :: time

datatype cancellation_status = CancellationPending | CancellationApproved | CancellationDeclined

record cancellation_request =
  crID :: int
  crOrderID :: int
  crRequestedBy :: int
  crReason :: string
  crStatus :: cancellation_status
  crResolvedAt :: "time option"
  crCreatedAt :: time

datatype dispute_status = DisputeOpen | DisputeResolved

record dispute =
  dpID :: int
  dpOrderID :: int
  dpOpenedBy :: int
  dpReason :: string
  dpStatus :: dispute_status
  dpDecision :: string
  dpResolvedBy :: "int option"
  dpResolvedAt :: "time option"
  dpCreatedAt :: time
  dpInternalNotes :: string

record review =
  rvID :: int
  rvOrderID :: int
  rvGigID :: int
  rvBuyerID :: int
  rvSellerID :: int
  rvRating :: int
  rvBody :: string
  rvModerationState :: string
  rvCreatedAt :: time

text \<open>The rating summary of a seller profile; the average \<^verbatim>\<open>numeric(3,2)\<close> is in hundredths.\<close>

record seller_profile =
  spUserID :: int
  spDisplayName :: string
  spBio :: string
  spLocation :: string
  spRatingAvg :: int
  spRatingCount :: int
  spUpdatedAt :: time

record seller_onboarding =
  obUserID :: int
  obKYCState :: string
  obStripeAccountID :: string
  obChargesEnabled :: bool
  obPayoutsEnabled :: bool
  obReviewedAt :: "time option"

record notification =
  ntID :: int
  ntUserID :: int
  ntKind :: string
  ntBody :: string
  ntLink :: string
  ntReadAt :: "time option"
  ntCreatedAt :: time

record payment_intent =
  piID :: int
  piOrderID :: int
  piProvider :: string
  piProviderRef :: string
  piChargeRef :: string
  piMethod :: string
  piStatus :: payment_status
  piAmountMinor :: int
  piCurrency :: string
  piIdempotencyKey :: string
  piCheckoutURL :: string
  piExpiresAt :: "time option"
  piSucceededAt :: "time option"
  piFailedAt :: "time option"
  piCanceledAt :: "time option"
  piCreatedAt :: time
  piUpdatedAt :: time

record payment_attempt =
  paIntentID :: int
  paProviderStatus :: payment_status
  paFailureCode :: string
  paFailureMessage :: string

datatype webhook_status = WebhookReceived | WebhookProcessed | WebhookFailed

record webhook_event =
  whID :: int
  whProvider :: string
  whEventID :: string
  whEventType :: string
  whProviderRef :: string
  whPayload :: string
  whPayloadHash :: string
  whStatus :: webhook_status
  whAttempts :: int
  whCreatedAt :: time

record refund =
  rfID :: int
  rfOrderID :: int
  rfPaymentIntentID :: int
  rfRequestedBy :: "int option"
  rfReason :: string
  rfAmountMinor :: int
  rfCurrency :: string
  rfStatus :: payment_status
  rfProviderRef :: string

record ledger_account =
  laID :: int
  laKind :: string
  laOwnerID :: "int option"
  laCurrency :: string

record ledger_row =
  lrGroup :: int
  lrAccountID :: int
  lrDirection :: string
  lrAmountMinor :: int
  lrCurrency :: string
  lrOrderID :: "int option"
  lrDescription :: string

datatype job_status = JobQueued | JobClaimed | JobDone | JobFailed | JobDead

text \<open>The JSON payloads the program enqueues: \<^verbatim>\<open>null\<close> for the sweeps, the webhook reference, and
  the notification e-mail.\<close>

datatype job_payload =
    NoPayload
  | WebhookPayload string string
  | EmailPayload int string string

record job =
  jID :: int
  jKind :: string
  jPayload :: job_payload
  jStatus :: job_status
  jAttempts :: int
  jMaxAttempts :: int
  jRunAt :: time
  jLockedBy :: "string option"
  jLockedAt :: "time option"
  jLastError :: "error option"
  jUpdatedAt :: time

datatype wallet_status = WalletPending | WalletConfirmed | WalletSuperseded

record wallet =
  wlID :: int
  wlUserID :: int
  wlNetwork :: string
  wlAsset :: string
  wlAddressEncrypted :: string
  wlFingerprint :: string
  wlStatus :: wallet_status
  wlConfirmedAt :: "time option"
  wlEligibleAt :: "time option"

datatype payout_status = PayoutQueued | PayoutNeedsManualReview | PayoutReadyForManualExecution
  | PayoutCompleted | PayoutCanceled

record payout =
  poID :: int
  poSellerID :: int
  poWalletID :: int
  poAmountMinor :: int
  poCurrency :: string
  poNetwork :: string
  poAsset :: string
  poStatus :: payout_status
  poTxHash :: string
  poReviewedBy :: "int option"
  poCreatedAt :: time
  poExecutedAt :: "time option"

record audit_row =
  auActor :: "int option"
  auAction :: string
  auEntityType :: string
  auEntityID :: string
  auCreatedAt :: time

section \<open>The database and the world\<close>

record db =
  users :: "user list"
  user_roles :: "(int \<times> string) list"
  sessions :: "session list"
  auth_tokens :: "auth_token list"
  gigs :: "gig list"
  gig_packages :: "gig_package list"
  gig_addons :: "gig_addon list"
  categories :: "category list"
  tags :: "tag list"
  gig_tags :: "(int \<times> int) list"
  gig_media :: "gig_medium list"
  favorites :: "favorite list"
  portfolio_items :: "portfolio_item list"
  draft_orders :: "draft_order list"
  draft_addons :: "(int \<times> int) list"
  orders :: "order list"
  order_items :: "order_item list"
  order_messages :: "order_message list"
  order_attachments :: "order_attachment list"
  deliveries :: "delivery list"
  revision_requests :: "revision_request list"
  cancellation_requests :: "cancellation_request list"
  disputes :: "dispute list"
  reviews :: "review list"
  seller_profiles :: "seller_profile list"
  seller_onboardings :: "seller_onboarding list"
  notifications :: "notification list"
  payment_intents :: "payment_intent list"
  payment_attempts :: "payment_attempt list"
  webhook_events :: "webhook_event list"
  refunds :: "refund list"
  ledger_accounts :: "ledger_account list"
  ledger_entries :: "ledger_row list"
  jobs :: "job list"
  wallets :: "wallet list"
  payouts :: "payout list"
  platform_settings :: "(string \<times> string) list"
  audit_log :: "audit_row list"

datatype table = TUsers | TSessions | TAuthTokens | TDraftOrders | TOrders | TOrderItems | TOrderMessages
  | TOrderAttachments | TDeliveries | TRevisionRequests | TCancellationRequests | TDisputes | TReviews
  | TNotifications | TPaymentIntents | TWebhookEvents | TRefunds | TLedgerAccounts | TLedgerGroups
  | TJobs | TWallets | TPayouts
  | TGigs | TGigPackages | TGigAddons | TGigMedia | TTags | TCategories | TPortfolio

text \<open>Requests that leave the program: a payment session opened or a refund ordered at a provider, an
  e-mail handed to the mail server.\<close>

datatype provider_call =
    CreatePaymentCall string int int string string
  | RefundCall string string int string string
  | MailCall string string string

record world =
  wdb :: db
  wseq :: "table \<Rightarrow> int"
  wnow :: time
  wfaults :: "bool list"
  wsent :: "provider_call list"
  wbuckets :: "string \<Rightarrow> bucket option"

text \<open>The database right after the migrations, and the world a first deployment starts in.\<close>

definition migrated :: db where
  "migrated = \<lparr>
    users = [], user_roles = [], sessions = [], auth_tokens = [], gigs = [], gig_packages = [],
    gig_addons = [],
    categories = [
      \<lparr>ctID = 1, ctSlug = ''design'', ctName = ''Design'', ctDescription = ''Logos, brand kits, and more'', ctPosition = 1\<rparr>,
      \<lparr>ctID = 2, ctSlug = ''development'', ctName = ''Development'',
        ctDescription = ''Websites, scripts, and integrations'', ctPosition = 2\<rparr>,
      \<lparr>ctID = 3, ctSlug = ''writing'', ctName = ''Writing'', ctDescription = ''Copy, editing, and translation'', ctPosition = 3\<rparr>,
      \<lparr>ctID = 4, ctSlug = ''marketing'', ctName = ''Marketing'', ctDescription = ''Social media, SEO, and ads'', ctPosition = 4\<rparr>],
    tags = [], gig_tags = [], gig_media = [], favorites = [], portfolio_items = [],
    draft_orders = [], draft_addons = [], orders = [], order_items = [],
    order_messages = [], order_attachments = [], deliveries = [], revision_requests = [],
    cancellation_requests = [], disputes = [], reviews = [], seller_profiles = [],
    seller_onboardings = [], notifications = [], payment_intents = [], payment_attempts = [],
    webhook_events = [], refunds = [], ledger_accounts = [], ledger_entries = [], jobs = [],
    wallets = [], payouts = [],
    platform_settings = [(''payouts_paused'', ''false''), (''platform_fee_bps'', ''1000''),
      (''feature_stablecoin_payouts'', ''true'')],
    audit_log = []\<rparr>"

definition deployed :: "time \<Rightarrow> world" where
  "deployed now = \<lparr>wdb = migrated, wseq = (\<lambda>_. 0)(TCategories := 4), wnow = now, wfaults = [], wsent = [], wbuckets = (\<lambda>_. None)\<rparr>"

type_synonym 'a op = "world \<Rightarrow> (error + 'a) \<times> world"

section \<open>Statements\<close>

definition stmt :: "'a op \<Rightarrow> 'a op" where
  "stmt m s = (case wfaults s of
      [] \<Rightarrow> m s
    | b # bs \<Rightarrow> if b then (Inl ErrFault, s\<lparr>wfaults := bs\<rparr>) else m (s\<lparr>wfaults := bs\<rparr>))"

definition query :: "(time \<Rightarrow> db \<Rightarrow> error + 'a) \<Rightarrow> 'a op" where
  "query f = stmt (\<lambda>s. (f (wnow s) (wdb s), s))"

definition exec :: "(time \<Rightarrow> db \<Rightarrow> error + 'a \<times> db) \<Rightarrow> 'a op" where
  "exec f = stmt (\<lambda>s. case f (wnow s) (wdb s) of
      Inl e \<Rightarrow> (Inl e, s)
    | Inr (x, d) \<Rightarrow> (Inr x, s\<lparr>wdb := d\<rparr>))"

text \<open>An insert draws its key from the sequence of the table first, as PostgreSQL does, also when
  a constraint then rejects the row.\<close>

definition insert_row :: "table \<Rightarrow> (int \<Rightarrow> time \<Rightarrow> db \<Rightarrow> error + 'a \<times> db) \<Rightarrow> 'a op" where
  "insert_row t f = stmt (\<lambda>s.
     let i = wseq s t + 1; s' = s\<lparr>wseq := (wseq s)(t := i)\<rparr> in
     case f i (wnow s) (wdb s) of
       Inl e \<Rightarrow> (Inl e, s')
     | Inr (x, d) \<Rightarrow> (Inr x, s'\<lparr>wdb := d\<rparr>))"

definition one_row :: "'a option \<Rightarrow> error + 'a" where
  "one_row r = (case r of None \<Rightarrow> Inl ErrNotFound | Some x \<Rightarrow> Inr x)"

text \<open>\<^verbatim>\<open>Store.Tx\<close> (and the hand-written transactions of \<^verbatim>\<open>wallets.go\<close>).\<close>

definition tx :: "'a op \<Rightarrow> 'a op" where
  "tx fn = call (stmt (ret ())) fail (\<lambda>_ s.
     call fn (\<lambda>e s'. (Inl e, s'\<lparr>wdb := wdb s\<rparr>))
       (\<lambda>x. call (stmt (ret ())) (\<lambda>e s'. (Inl e, s'\<lparr>wdb := wdb s\<rparr>)) (\<lambda>_. ret x)) s)"

text \<open>An outward request, kept in the log.\<close>

definition send_call :: "provider_call \<Rightarrow> unit op" where
  "send_call c s = (Inr (), s\<lparr>wsent := wsent s @ [c]\<rparr>)"

definition get_now :: "time op" where "get_now s = (Inr (wnow s), s)"

text \<open>A world whose database will not fail.\<close>

abbreviation reliable :: "world \<Rightarrow> bool" where "reliable s \<equiv> wfaults s = []"

lemma stmt_reliable [op_simps]: "wfaults s = [] \<Longrightarrow> stmt m s = m s"
  by (simp add: stmt_def)

lemma query_reliable [op_simps]: "wfaults s = [] \<Longrightarrow> query f s = (f (wnow s) (wdb s), s)"
  by (simp add: query_def stmt_def)

lemma exec_reliable [op_simps]: "wfaults s = [] \<Longrightarrow> exec f s = (case f (wnow s) (wdb s) of
      Inl e \<Rightarrow> (Inl e, s) | Inr (x, d) \<Rightarrow> (Inr x, s\<lparr>wdb := d\<rparr>))"
  by (simp add: exec_def stmt_def)

lemma insert_reliable [op_simps]: "wfaults s = [] \<Longrightarrow> insert_row t f s =
    (case f (wseq s t + 1) (wnow s) (wdb s) of
       Inl e \<Rightarrow> (Inl e, s\<lparr>wseq := (wseq s)(t := wseq s t + 1)\<rparr>)
     | Inr (x, d) \<Rightarrow> (Inr x, s\<lparr>wseq := (wseq s)(t := wseq s t + 1), wdb := d\<rparr>))"
  by (simp add: insert_row_def stmt_def Let_def)

lemma tx_ok [op_simps]:
  "wfaults s = [] \<Longrightarrow> fn s = (Inr x, s') \<Longrightarrow> wfaults s' = [] \<Longrightarrow> tx fn s = (Inr x, s')"
  by (simp add: tx_def op_defs stmt_def)

lemma tx_err [op_simps]:
  "wfaults s = [] \<Longrightarrow> fn s = (Inl e, s') \<Longrightarrow> tx fn s = (Inl e, s'\<lparr>wdb := wdb s\<rparr>)"
  by (simp add: tx_def op_defs stmt_def)

text \<open>The possible outcomes of a transaction, under every failure schedule.\<close>

lemma stmt_ret_state:
  "stmt (ret x) s = (r, t) \<Longrightarrow> wdb t = wdb s \<and> wseq t = wseq s \<and> wnow t = wnow s \<and> wsent t = wsent s"
  by (auto simp: stmt_def ret_def split: list.splits if_splits)

lemma tx_cases:
  assumes "tx m s = (r, s')"
  obtains (aborted) e where "r = Inl e" "wdb s' = wdb s"
    | (committed) x s1 s2 where "r = Inr x" "m s1 = (Inr x, s2)" "wdb s1 = wdb s" "wseq s1 = wseq s"
      "wnow s1 = wnow s" "wdb s' = wdb s2" "wseq s' = wseq s2" "wnow s' = wnow s2"
proof -
  obtain r1 s1 where b: "stmt (ret ()) s = (r1, s1)" by fastforce
  note b' = stmt_ret_state [OF b]
  obtain r2 s2 where m: "m s1 = (r2, s2)" by fastforce
  obtain r3 s3 where c: "stmt (ret ()) s2 = (r3, s3)" by fastforce
  note c' = stmt_ret_state [OF c]
  show ?thesis
  proof (cases r1)
    case (Inl e)
    with assms b b' show ?thesis by (intro aborted [of e]) (simp_all add: tx_def op_defs)
  next
    case r1: (Inr u)
    show ?thesis
    proof (cases r2)
      case (Inl e)
      with assms b b' m r1 show ?thesis by (intro aborted [of e]) (auto simp: tx_def op_defs)
    next
      case r2: (Inr x)
      show ?thesis
      proof (cases r3)
        case (Inl e)
        with assms b b' m c r1 r2 show ?thesis by (intro aborted [of e]) (auto simp: tx_def op_defs)
      next
        case (Inr v)
        with assms b m c r1 r2 have "r = Inr x" "s' = s3" by (auto simp: tx_def op_defs)
        with b' c' m r2 show ?thesis by (intro committed [of x s1 s2]) simp_all
      qed
    qed
  qed
qed

text \<open>A statement either fails by the schedule or runs on the same state with one entry less.\<close>

lemma stmt_cases:
  obtains (fault) bs where "stmt m s = (Inl ErrFault, s\<lparr>wfaults := bs\<rparr>)"
    | (run) bs where "stmt m s = m (s\<lparr>wfaults := bs\<rparr>)"
proof (cases "wfaults s")
  case Nil
  then have "stmt m s = m (s\<lparr>wfaults := []\<rparr>)" by (cases s) (simp add: stmt_def)
  then show ?thesis by (rule run)
next
  case (Cons b bs)
  then show ?thesis using fault [of bs] run [of bs] by (cases b) (simp_all add: stmt_def)
qed

lemma exec_cases:
  assumes "exec f s = (r, s')"
  obtains (fault) "r = Inl ErrFault" "wdb s' = wdb s" "wseq s' = wseq s" "wnow s' = wnow s"
    | (error) e where "f (wnow s) (wdb s) = Inl e" "r = Inl e" "wdb s' = wdb s" "wseq s' = wseq s" "wnow s' = wnow s"
    | (ok) x d where "f (wnow s) (wdb s) = Inr (x, d)" "r = Inr x" "wdb s' = d" "wseq s' = wseq s" "wnow s' = wnow s"
proof (cases rule: stmt_cases [of "\<lambda>s. case f (wnow s) (wdb s) of Inl e \<Rightarrow> (Inl e, s) | Inr (x, d) \<Rightarrow> (Inr x, s\<lparr>wdb := d\<rparr>)" s])
  case fault
  with assms show ?thesis by (intro that(1)) (auto simp: exec_def)
next
  case (run bs)
  show ?thesis
  proof (cases "f (wnow s) (wdb s)")
    case (Inl e)
    have "(r, s') = (Inl e, s\<lparr>wfaults := bs\<rparr>)" using Inl assms by (simp add: exec_def run)
    with Inl show ?thesis by (intro that(2) [of e]) simp_all
  next
    case (Inr p)
    obtain x d where "p = (x, d)" by (cases p)
    then have "(r, s') = (Inr x, s\<lparr>wfaults := bs, wdb := d\<rparr>)" using Inr assms by (simp add: exec_def run)
    with Inr \<open>p = (x, d)\<close> show ?thesis by (intro that(3) [of x d]) simp_all
  qed
qed

lemma query_cases:
  assumes "query f s = (r, s')"
  obtains (fault) "r = Inl ErrFault" "wdb s' = wdb s" "wseq s' = wseq s" "wnow s' = wnow s" "wsent s' = wsent s"
    | (ok) "r = f (wnow s) (wdb s)" "wdb s' = wdb s" "wseq s' = wseq s" "wnow s' = wnow s" "wsent s' = wsent s"
proof (cases rule: stmt_cases [of "\<lambda>s. (f (wnow s) (wdb s), s)" s])
  case (fault bs)
  then have "(r, s') = (Inl ErrFault, s\<lparr>wfaults := bs\<rparr>)" using assms by (simp add: query_def)
  then show ?thesis by (intro that(1)) simp_all
next
  case (run bs)
  then have "(r, s') = (f (wnow s) (wdb s), s\<lparr>wfaults := bs\<rparr>)" using assms by (simp add: query_def)
  then show ?thesis by (intro that(2)) simp_all
qed

lemma insert_cases:
  assumes "insert_row t f s = (r, s')"
  obtains (fault) "r = Inl ErrFault" "wdb s' = wdb s" "wseq s' = wseq s" "wnow s' = wnow s"
    | (error) e where "f (wseq s t + 1) (wnow s) (wdb s) = Inl e" "r = Inl e" "wdb s' = wdb s"
        "wseq s' = (wseq s)(t := wseq s t + 1)" "wnow s' = wnow s"
    | (ok) x d where "f (wseq s t + 1) (wnow s) (wdb s) = Inr (x, d)" "r = Inr x" "wdb s' = d"
        "wseq s' = (wseq s)(t := wseq s t + 1)" "wnow s' = wnow s"
proof (cases rule: stmt_cases [of "\<lambda>s. let i = wseq s t + 1; s' = s\<lparr>wseq := (wseq s)(t := i)\<rparr> in
     case f i (wnow s) (wdb s) of Inl e \<Rightarrow> (Inl e, s') | Inr (x, d) \<Rightarrow> (Inr x, s'\<lparr>wdb := d\<rparr>)" s])
  case fault
  with assms show ?thesis by (intro that(1)) (auto simp: insert_row_def)
next
  case (run bs)
  show ?thesis
  proof (cases "f (wseq s t + 1) (wnow s) (wdb s)")
    case (Inl e)
    have "(r, s') = (Inl e, s\<lparr>wfaults := bs, wseq := (wseq s)(t := wseq s t + 1)\<rparr>)"
      using assms unfolding insert_row_def run by (simp add: Inl Let_def)
    with Inl show ?thesis by (intro that(2) [of e]) simp_all
  next
    case (Inr p)
    obtain x d where "p = (x, d)" by (cases p)
    then have "(r, s') = (Inr x, s\<lparr>wfaults := bs, wseq := (wseq s)(t := wseq s t + 1), wdb := d\<rparr>)"
      using assms unfolding insert_row_def run by (simp add: Inr Let_def)
    with Inr \<open>p = (x, d)\<close> show ?thesis by (intro that(3) [of x d]) simp_all
  qed
qed

lemma tx_InlD: "tx m s = (Inl e, s') \<Longrightarrow> wdb s' = wdb s"
  by (erule tx_cases) auto

section \<open>Frame conditions on the database\<close>

definition on_db :: "(db \<Rightarrow> db \<Rightarrow> bool) \<Rightarrow> world \<Rightarrow> world \<Rightarrow> bool" where
  "on_db D s t \<longleftrightarrow> D (wdb s) (wdb t)"

locale db_frame =
  fixes D :: "db \<Rightarrow> db \<Rightarrow> bool"
  assumes db_refl: "D d d"
    and db_trans: "D d e \<Longrightarrow> D e f \<Longrightarrow> D d f"
begin

lemma steps_stmt: "steps (on_db D) m \<Longrightarrow> steps (on_db D) (stmt m)"
  by (auto simp: steps_def on_db_def stmt_def db_refl split: list.splits)
    (metis world.select_convs(1) world.surjective world.update_convs(4))

lemma steps_query: "steps (on_db D) (query f)"
  by (auto simp: steps_def on_db_def query_def stmt_def db_refl split: list.splits)

lemma steps_exec:
  "(\<And>n d x d'. f n d = Inr (x, d') \<Longrightarrow> D d d') \<Longrightarrow> steps (on_db D) (exec f)"
  unfolding exec_def
  by (rule steps_stmt) (auto simp: steps_def on_db_def db_refl split: sum.splits)

lemma steps_insert:
  "(\<And>i n d x d'. f i n d = Inr (x, d') \<Longrightarrow> D d d') \<Longrightarrow> steps (on_db D) (insert_row t f)"
  unfolding insert_row_def
  by (rule steps_stmt) (auto simp: steps_def on_db_def db_refl Let_def split: sum.splits)

lemma steps_tx:
  assumes "steps (on_db D) m"
  shows "steps (on_db D) (tx m)"
proof (rule stepsI)
  fix s
  obtain r s' where t: "tx m s = (r, s')" by fastforce
  from this show "on_db D s (snd (tx m s))"
  proof (cases rule: tx_cases)
    case (committed x s1 s2)
    with stepsD [OF assms, of s1] t show ?thesis by (simp add: on_db_def)
  qed (simp add: t on_db_def db_refl)
qed

lemma steps_send: "steps (on_db D) (send_call c)"
  by (simp add: steps_def on_db_def send_call_def db_refl)

lemma steps_now: "steps (on_db D) get_now"
  by (simp add: steps_def on_db_def get_now_def db_refl)

end

sublocale db_frame \<subseteq> fr: frame "on_db D"
  by unfold_locales (auto simp: on_db_def db_refl intro: db_trans)

section \<open>Invariants of the database and its sequences\<close>

text \<open>An invariant \<^verbatim>\<open>I\<close> over the tables and the sequences that survives a sequence moving on:
  it is kept by an operation when every statement of it keeps it, also across a rollback, which
  restores the tables but not the sequences.\<close>

definition keeps :: "(db \<Rightarrow> (table \<Rightarrow> int) \<Rightarrow> bool) \<Rightarrow> world \<Rightarrow> world \<Rightarrow> bool" where
  "keeps I s t \<longleftrightarrow> (\<forall>x. wseq s x \<le> wseq t x) \<and> (I (wdb s) (wseq s) \<longrightarrow> I (wdb t) (wseq t))"

locale inv_frame =
  fixes I :: "db \<Rightarrow> (table \<Rightarrow> int) \<Rightarrow> bool"
  assumes seq_mono: "I d q \<Longrightarrow> (\<And>x. q x \<le> q' x) \<Longrightarrow> I d q'"
begin

lemma keeps_seq: "wdb t = wdb s \<Longrightarrow> (\<And>x. wseq s x \<le> wseq t x) \<Longrightarrow> keeps I s t"
  using seq_mono by (auto simp: keeps_def)

lemma steps_stmt: "steps (keeps I) m \<Longrightarrow> steps (keeps I) (stmt m)"
proof (rule stepsI)
  fix s assume m: "steps (keeps I) m"
  have "keeps I s (s\<lparr>wfaults := x\<rparr>)" for x by (rule keeps_seq) simp_all
  moreover have "keeps I s (snd (m (s\<lparr>wfaults := x\<rparr>)))" for x
    using stepsD [OF m, of "s\<lparr>wfaults := x\<rparr>"] by (simp add: keeps_def)
  ultimately show "keeps I s (snd (stmt m s))"
    using stepsD [OF m, of s] by (simp add: stmt_def split: list.splits)
qed

lemma steps_query: "steps (keeps I) (query f)"
  unfolding query_def by (rule steps_stmt) (simp add: steps_def keeps_def)

lemma steps_exec:
  "(\<And>n d x d' q. f n d = Inr (x, d') \<Longrightarrow> I d q \<Longrightarrow> I d' q) \<Longrightarrow> steps (keeps I) (exec f)"
  unfolding exec_def
  by (rule steps_stmt) (auto simp: steps_def keeps_def split: sum.splits)

lemma steps_insert:
  assumes "\<And>n d x d' q. f (q t + 1) n d = Inr (x, d') \<Longrightarrow> I d q \<Longrightarrow> I d' (q(t := q t + 1))"
  shows "steps (keeps I) (insert_row t f)"
  unfolding insert_row_def
proof (rule steps_stmt, rule stepsI)
  fix s :: world
  let ?s = "s\<lparr>wseq := (wseq s)(t := wseq s t + 1)\<rparr>"
  have "keeps I s ?s" by (rule keeps_seq) simp_all
  with assms [of "wseq s" "wnow s" "wdb s"]
  show "keeps I s (snd (let i = wseq s t + 1; s' = s\<lparr>wseq := (wseq s)(t := i)\<rparr>
      in case f i (wnow s) (wdb s) of Inl e \<Rightarrow> (Inl e, s') | Inr (x, d) \<Rightarrow> (Inr x, s'\<lparr>wdb := d\<rparr>)))"
    by (auto simp: Let_def keeps_def split: sum.splits)
qed

lemma steps_tx:
  assumes m: "steps (keeps I) m"
  shows "steps (keeps I) (tx m)"
proof (rule stepsI)
  fix s
  obtain r1 s1 where b: "stmt (ret ()) s = (r1, s1)" by fastforce
  note b' = stmt_ret_state [OF b]
  obtain r2 s2 where r2: "m s1 = (r2, s2)" by fastforce
  obtain r3 s3 where c: "stmt (ret ()) s2 = (r3, s3)" by fastforce
  note c' = stmt_ret_state [OF c]
  from stepsD [OF m, of s1] b' r2 have k: "keeps I s s2" by (simp add: keeps_def)
  have undo: "keeps I s (u\<lparr>wdb := wdb s\<rparr>)" if "wseq u = wseq s1 \<or> wseq u = wseq s2" for u
    by (rule keeps_seq) (use that b' k in \<open>auto simp: keeps_def\<close>)
  have fwd: "keeps I s s1" "keeps I s s3"
    using b' c' k by (auto simp: keeps_def)
  show "keeps I s (snd (tx m s))"
    using b r2 c undo fwd b' c' by (cases r1; cases r2; cases r3) (auto simp: tx_def op_defs)
qed

lemma steps_send: "steps (keeps I) (send_call c)"
  by (simp add: steps_def keeps_def send_call_def)

lemma steps_now: "steps (keeps I) get_now"
  by (simp add: steps_def keeps_def get_now_def)

end

sublocale inv_frame \<subseteq> fr: frame "keeps I"
  by unfold_locales (auto simp: keeps_def intro: order_trans)

section \<open>Sample rows\<close>

text \<open>Rows the witnesses of the properties are built from.\<close>

abbreviation sample_user :: "int \<Rightarrow> user" where
  "sample_user i \<equiv> \<lparr>uID = i, uEmail = ''a@b.c'', uEmailLower = ''a@b.c'', uPasswordHash = [], uName = ''A'', uLocale = ''en'',
    uStatus = ''active'', uEmailVerifiedAt = None, uTotpSecret = None, uTotpEnabled = False,
    uFailedLoginAttempts = 0, uLockedUntil = None, uLastLoginAt = None, uRestrictionReason = [], uCreatedAt = 0\<rparr>"

abbreviation sample_order :: "int \<Rightarrow> order_status \<Rightarrow> order" where
  "sample_order i st \<equiv> \<lparr>oID = i, oBuyerID = 2, oSellerID = 3, oGigID = 1, oStatus = st, oRequirements = ''logo'',
    oRevisionsUsed = 0, oRevisionsAllowed = 1, oSubtotalMinorUnits = 2500, oPlatformFeeMinorUnits = 250,
    oTotalMinorUnits = 2750, oCurrency = ''USD'', oPaidAt = None, oDeliveredAt = None, oAcceptedAt = None,
    oCancelledAt = None, oClosedAt = None, oCreatedAt = 0, oUpdatedAt = 0\<rparr>"

abbreviation sample_intent :: "int \<Rightarrow> payment_status \<Rightarrow> payment_intent" where
  "sample_intent i st \<equiv> \<lparr>piID = 1, piOrderID = i, piProvider = ''stripe'', piProviderRef = ''cs_1'',
    piChargeRef = ''ch_1'', piMethod = ''card'', piStatus = st, piAmountMinor = 2750, piCurrency = ''usd'',
    piIdempotencyKey = ''checkout:7:0'', piCheckoutURL = [], piExpiresAt = None, piSucceededAt = Some 1,
    piFailedAt = None, piCanceledAt = None, piCreatedAt = 0, piUpdatedAt = 1\<rparr>"

abbreviation sample_job :: "int \<Rightarrow> time \<Rightarrow> job" where
  "sample_job i run_at \<equiv> \<lparr>jID = i, jKind = ''maintenance.sweep'', jPayload = NoPayload, jStatus = JobQueued,
    jAttempts = 0, jMaxAttempts = 3, jRunAt = run_at, jLockedBy = None, jLockedAt = None,
    jLastError = None, jUpdatedAt = 0\<rparr>"

abbreviation with_orders :: "order list \<Rightarrow> world" where
  "with_orders ords \<equiv> (deployed 5)\<lparr>wdb := migrated\<lparr>orders := ords\<rparr>\<rparr>"

end
