(* ===== verification/LedgerStore.thy ===== *)
theory LedgerStore
  imports Schema
begin

text \<open>
  \<^verbatim>\<open>src/store/ledger.go\<close>: accounts created on first use, the one write path into the ledger
  (\<^verbatim>\<open>PostLedgerEntries\<close>), and the balance queries.  The UUID of a transaction group is a number
  drawn from a sequence, fresh by construction as a random UUID is in practice.

  The lemmas show that a posting is all or nothing under every failure schedule, that the ledger
  only ever grows by whole balanced groups, and that a successful posting moves the balance of
  each account by exactly the net of its entries.
\<close>

section \<open>Operations\<close>

definition ledger_kinds :: "string list" where
  "ledger_kinds = [AccountPlatformRevenue, AccountSellerPending, AccountSellerAvailable,
    AccountRefunds, AccountReserves, AccountProviderClearing]"

text \<open>\<^verbatim>\<open>INSERT .. ON CONFLICT (kind, owner_id, currency) DO UPDATE .. RETURNING id\<close>: the unique
  constraint compares a \<^verbatim>\<open>NULL\<close> owner as different from every owner, so it never matches for
  an account without owner.\<close>

definition owned_account :: "string \<Rightarrow> int option \<Rightarrow> string \<Rightarrow> ledger_account list \<Rightarrow> ledger_account option" where
  "owned_account kind ownerID currency accounts = (case ownerID of
      None \<Rightarrow> None
    | Some ow \<Rightarrow> find (\<lambda>a. laKind a = kind \<and> laOwnerID a = Some ow \<and> laCurrency a = currency) accounts)"

definition getOrCreateLedgerAccount :: "string \<Rightarrow> int option \<Rightarrow> string \<Rightarrow> int op" where
  "getOrCreateLedgerAccount kind ownerID currency =
    insert_row TLedgerAccounts (\<lambda>i now d.
      if kind \<notin> set ledger_kinds then Inl (ErrCheckViolation ''ledger_accounts_kind_check'')
      else case owned_account kind ownerID currency (ledger_accounts d) of
        Some a \<Rightarrow> Inr (laID a, d)
      | None \<Rightarrow> Inr (i, d\<lparr>ledger_accounts := ledger_accounts d @
          [\<lparr>laID = i, laKind = kind, laOwnerID = ownerID, laCurrency = currency\<rparr>]\<rparr>))"

definition ledger_row_of :: "int \<Rightarrow> int \<Rightarrow> entry \<Rightarrow> ledger_row" where
  "ledger_row_of grp accountID e =
    \<lparr>lrGroup = grp, lrAccountID = accountID, lrDirection = eDirection e, lrAmountMinor = eAmountMinor e,
     lrCurrency = eCurrency e, lrOrderID = eOrderID e, lrDescription = eDescription e\<rparr>"

definition insert_ledger_entry :: "int \<Rightarrow> int \<Rightarrow> entry \<Rightarrow> unit op" where
  "insert_ledger_entry grp accountID e = exec (\<lambda>now d.
    if eAmountMinor e \<le> 0 then Inl (ErrCheckViolation ''ledger_entries_amount_minor_units_check'')
    else if eDirection e \<notin> {DirectionDebit, DirectionCredit}
      then Inl (ErrCheckViolation ''ledger_entries_direction_check'')
    else Inr ((), d\<lparr>ledger_entries := ledger_entries d @ [ledger_row_of grp accountID e]\<rparr>))"

definition post_entry :: "int \<Rightarrow> entry \<Rightarrow> unit op" where
  "post_entry grp e =
    call (getOrCreateLedgerAccount (eAccountKind e) (eOwnerID e) (eCurrency e)) fail
      (\<lambda>accountID. insert_ledger_entry grp accountID e)"

definition randomUUID :: "int op" where
  "randomUUID = insert_row TLedgerGroups (\<lambda>i now d. Inr (i, d))"

definition PostLedgerEntries :: "entry list \<Rightarrow> int op" where
  "PostLedgerEntries entries = (case Validate entries of
      Some e \<Rightarrow> fail (ErrLedger e)
    | None \<Rightarrow> call randomUUID fail (\<lambda>grp.
        call (tx (each (post_entry grp) entries)) fail (\<lambda>_. ret grp)))"

record account_balance =
  abKind :: string
  abCurrency :: string
  abBalanceMinor :: int

definition row_signed :: "ledger_row \<Rightarrow> int" where
  "row_signed r = (if lrDirection r = DirectionCredit then lrAmountMinor r else - lrAmountMinor r)"

definition account_balance_of :: "db \<Rightarrow> ledger_account \<Rightarrow> int" where
  "account_balance_of d a = sum_list (map row_signed (filter (\<lambda>r. lrAccountID r = laID a) (ledger_entries d)))"

definition ledger_balance :: "string \<Rightarrow> int option \<Rightarrow> string \<Rightarrow> db \<Rightarrow> int" where
  "ledger_balance kind owner currency d = sum_list (map (account_balance_of d)
    (filter (\<lambda>a. laKind a = kind \<and> laOwnerID a = owner \<and> laCurrency a = currency) (ledger_accounts d)))"

text \<open>\<^verbatim>\<open>GROUP BY a.kind, a.currency\<close> over the accounts of one owner: one balance per pair, in
  the order of first appearance (the query gives no order).\<close>

definition group_balances :: "int option \<Rightarrow> ledger_account list \<Rightarrow> db \<Rightarrow> account_balance list" where
  "group_balances owner accounts d = map (\<lambda>(k, c).
      \<lparr>abKind = k, abCurrency = c, abBalanceMinor = ledger_balance k owner c d\<rparr>)
    (remdups (map (\<lambda>a. (laKind a, laCurrency a)) accounts))"

definition SellerBalances :: "int \<Rightarrow> account_balance list op" where
  "SellerBalances sellerID = query (\<lambda>now d. Inr (group_balances (Some sellerID)
    (filter (\<lambda>a. laOwnerID a = Some sellerID \<and>
      (laKind a = AccountSellerPending \<or> laKind a = AccountSellerAvailable)) (ledger_accounts d)) d))"

definition PlatformBalances :: "account_balance list op" where
  "PlatformBalances = query (\<lambda>now d. Inr (group_balances None
    (filter (\<lambda>a. laOwnerID a = None) (ledger_accounts d)) d))"

section \<open>The ledger only grows, by whole groups\<close>

definition rows_net :: "string \<Rightarrow> ledger_row list \<Rightarrow> int" where
  "rows_net c rows = sum_list (map row_signed (filter (\<lambda>r. lrCurrency r = c) rows))"

lemma rows_net_Nil [simp]: "rows_net c [] = 0"
  and rows_net_append [simp]: "rows_net c (xs @ ys) = rows_net c xs + rows_net c ys"
  and rows_net_Cons [simp]:
    "rows_net c (r # rs) = (if lrCurrency r = c then row_signed r else 0) + rows_net c rs"
  by (simp_all add: rows_net_def)

lemma row_signed_of [simp]: "row_signed (ledger_row_of g a e) = signed e"
  and ledger_row_of_sel [simp]: "lrCurrency (ledger_row_of g a e) = eCurrency e"
    "lrAccountID (ledger_row_of g a e) = a" "lrGroup (ledger_row_of g a e) = g"
    "lrOrderID (ledger_row_of g a e) = eOrderID e"
  by (simp_all add: row_signed_def ledger_row_of_def signed_def)

text \<open>The rows one posting appends: the entries in order, each on some account.\<close>

definition rows_of :: "int \<Rightarrow> entry list \<Rightarrow> ledger_row list \<Rightarrow> bool" where
  "rows_of g es rows \<longleftrightarrow> list_all2 (\<lambda>e r. r = ledger_row_of g (lrAccountID r) e) es rows"

lemma rows_of_net: "rows_of g es rows \<Longrightarrow> rows_net c rows = net c es"
  unfolding rows_of_def
proof (induction rule: list_all2_induct)
  case (Cons e es r rs)
  then have "lrCurrency r = eCurrency e" "row_signed r = signed e"
    by (metis ledger_row_of_sel(1)) (metis Cons.hyps(1) row_signed_of)
  with Cons show ?case by simp
qed simp

text \<open>What a change of the database may do to the ledger: append posting groups that
  \<^const>\<open>Validate\<close> accepted.\<close>

inductive ledger_grows :: "db \<Rightarrow> db \<Rightarrow> bool" where
  same: "ledger_entries d' = ledger_entries d \<Longrightarrow> ledger_grows d d'"
| post: "ledger_grows d e \<Longrightarrow> Validate es = None \<Longrightarrow> rows_of g es rows \<Longrightarrow>
    ledger_entries f = ledger_entries e @ rows \<Longrightarrow> ledger_grows d f"

lemma ledger_grows_same_right:
  assumes "ledger_grows d e" "ledger_entries f = ledger_entries e"
  shows "ledger_grows d f"
  using assms
  by (induction rule: ledger_grows.induct) (auto intro: ledger_grows.intros)

lemma ledger_grows_trans:
  assumes "ledger_grows d e" "ledger_grows e f"
  shows "ledger_grows d f"
  using assms(2,1)
proof (induction rule: ledger_grows.induct)
  case (same d' d0)
  then show ?case by (blast intro: ledger_grows_same_right)
next
  case (post d0 e0 es g rows f0)
  then show ?case by (blast intro: ledger_grows.post)
qed

interpretation lg: db_frame ledger_grows
  by unfold_locales (auto intro: ledger_grows.same ledger_grows_trans)

lemma ledger_grows_prefix: "ledger_grows d e \<Longrightarrow> \<exists>new. ledger_entries e = ledger_entries d @ new"
  by (induction rule: ledger_grows.induct) auto

lemma ledger_grows_net:
  "ledger_grows d e \<Longrightarrow> rows_net c (ledger_entries e) mod 2 ^ 64 = rows_net c (ledger_entries d) mod 2 ^ 64"
proof (induction rule: ledger_grows.induct)
  case (post d e es g rows f)
  then have "rows_net c rows mod 2 ^ 64 = 0" by (simp add: rows_of_net Validate_iff)
  with post show ?case by simp (metis add.right_neutral mod_add_right_eq)
qed simp

text \<open>One posting, under every failure schedule.\<close>

lemma getOrCreate_entries:
  "getOrCreateLedgerAccount k ow c s = (r, s') \<Longrightarrow> ledger_entries (wdb s') = ledger_entries (wdb s)"
  by (auto simp: getOrCreateLedgerAccount_def insert_row_def stmt_def Let_def
      split: list.splits if_splits option.splits sum.splits)

lemma post_entry_rows:
  "post_entry g e s = (Inr (), s') \<Longrightarrow>
    \<exists>a. ledger_entries (wdb s') = ledger_entries (wdb s) @ [ledger_row_of g a e]"
  by (auto simp: post_entry_def insert_ledger_entry_def exec_def stmt_def op_defs
      split: list.splits if_splits prod.splits sum.splits dest!: getOrCreate_entries)

lemma each_post_rows:
  "each (post_entry g) es s = (Inr (), s') \<Longrightarrow>
    \<exists>rows. rows_of g es rows \<and> ledger_entries (wdb s') = ledger_entries (wdb s) @ rows"
proof (induction es arbitrary: s)
  case Nil
  then show ?case by (auto simp: ret_def rows_of_def)
next
  case (Cons e es)
  then obtain t where "post_entry g e s = (Inr (), t)" and r: "each (post_entry g) es t = (Inr (), s')"
    by (auto simp: call_def fail_def split: prod.splits sum.splits)
  then obtain a where "ledger_entries (wdb t) = ledger_entries (wdb s) @ [ledger_row_of g a e]"
    using post_entry_rows by blast
  moreover from Cons.IH [OF r] obtain rows where
    "rows_of g es rows" "ledger_entries (wdb s') = ledger_entries (wdb t) @ rows" by blast
  ultimately show ?case
    by (intro exI [of _ "ledger_row_of g a e # rows"]) (simp add: rows_of_def)
qed

lemma randomUUID_wdb: "randomUUID s = (r, s') \<Longrightarrow> wdb s' = wdb s"
  by (auto simp: randomUUID_def insert_row_def stmt_def Let_def split: list.splits if_splits)

lemma PostLedgerEntries_cases:
  assumes "PostLedgerEntries es s = (r, s')"
  shows "(\<exists>e. r = Inl e \<and> wdb s' = wdb s) \<or>
    (\<exists>g rows. r = Inr g \<and> Validate es = None \<and> rows_of g es rows \<and>
      ledger_entries (wdb s') = ledger_entries (wdb s) @ rows)"
proof (cases "Validate es")
  case (Some e)
  with assms show ?thesis by (auto simp: PostLedgerEntries_def fail_def)
next
  case None
  obtain r1 t where u: "randomUUID s = (r1, t)" by fastforce
  from u have db: "wdb t = wdb s" by (rule randomUUID_wdb)
  show ?thesis
  proof (cases r1)
    case (Inl e)
    with assms None u db show ?thesis by (auto simp: PostLedgerEntries_def op_defs)
  next
    case (Inr g)
    obtain r2 t' where t: "tx (each (post_entry g) es) t = (r2, t')" by fastforce
    with assms None u Inr have r: "(r, s') = (case r2 of Inl e \<Rightarrow> (Inl e, t') | Inr _ \<Rightarrow> (Inr g, t'))"
      by (auto simp: PostLedgerEntries_def op_defs split: sum.splits)
    show ?thesis
    proof (cases r2)
      case (Inl e)
      with r tx_InlD [of _ t e t'] t db show ?thesis by auto
    next
      case r2: (Inr x)
      from t show ?thesis
      proof (cases rule: tx_cases)
        case (committed y s1 s2)
        with each_post_rows [of g es s1 s2] db r r2 None show ?thesis by (cases y) auto
      qed (simp add: r2)
    qed
  qed
qed

lemma steps_PostLedgerEntries: "steps (on_db ledger_grows) (PostLedgerEntries es)"
proof (rule stepsI)
  fix s
  obtain r s' where p: "PostLedgerEntries es s = (r, s')" by fastforce
  from PostLedgerEntries_cases [OF this] show "on_db ledger_grows s (snd (PostLedgerEntries es s))"
    unfolding p on_db_def by (auto intro: ledger_grows.intros lg.db_refl)
qed

section \<open>Exact balances\<close>

definition ledger_wf :: "world \<Rightarrow> bool" where
  "ledger_wf s \<longleftrightarrow> distinct (map laID (ledger_accounts (wdb s)))
    \<and> (\<forall>a \<in> set (ledger_accounts (wdb s)). laID a \<le> wseq s TLedgerAccounts)
    \<and> (\<forall>r \<in> set (ledger_entries (wdb s)). \<exists>a \<in> set (ledger_accounts (wdb s)).
         laID a = lrAccountID r \<and> laCurrency a = lrCurrency r)"

definition account_matches :: "string \<Rightarrow> int option \<Rightarrow> string \<Rightarrow> ledger_account \<Rightarrow> bool" where
  "account_matches k ow c a \<longleftrightarrow> laKind a = k \<and> laOwnerID a = ow \<and> laCurrency a = c"

lemma ledger_balance_alt: "ledger_balance k ow c d =
    sum_list (map (account_balance_of d) (filter (account_matches k ow c) (ledger_accounts d)))"
  by (simp add: ledger_balance_def account_matches_def [abs_def])

lemma owned_account_SomeD:
  "owned_account k ow c as = Some a \<Longrightarrow> a \<in> set as \<and> account_matches k ow c a"
  by (auto simp: owned_account_def account_matches_def split: option.splits dest: find_SomeD)

text \<open>Resolving an account: it exists afterwards, and no balance changes.\<close>

lemma getOrCreate_ok:
  assumes wf: "ledger_wf s" and g: "getOrCreateLedgerAccount k ow c s = (Inr i, s')"
  shows "ledger_wf s'" and "\<exists>a \<in> set (ledger_accounts (wdb s')). laID a = i \<and> account_matches k ow c a"
    and "ledger_entries (wdb s') = ledger_entries (wdb s)"
    and "ledger_balance k' ow' c' (wdb s') = ledger_balance k' ow' c' (wdb s)"
proof -
  let ?new = "\<lparr>laID = wseq s TLedgerAccounts + 1, laKind = k, laOwnerID = ow, laCurrency = c\<rparr>"
  from g consider
      (old) a where "owned_account k ow c (ledger_accounts (wdb s)) = Some a" "i = laID a"
        "wdb s' = wdb s" "wseq s' TLedgerAccounts = wseq s TLedgerAccounts + 1"
    | (new) "i = wseq s TLedgerAccounts + 1" "wseq s' TLedgerAccounts = wseq s TLedgerAccounts + 1"
        "ledger_entries (wdb s') = ledger_entries (wdb s)"
        "ledger_accounts (wdb s') = ledger_accounts (wdb s) @ [?new]"
    by (auto simp: getOrCreateLedgerAccount_def insert_row_def stmt_def Let_def
        split: list.splits if_splits option.splits sum.splits)
  then have "ledger_wf s' \<and> (\<exists>a \<in> set (ledger_accounts (wdb s')). laID a = i \<and> account_matches k ow c a)
    \<and> ledger_entries (wdb s') = ledger_entries (wdb s)
    \<and> ledger_balance k' ow' c' (wdb s') = ledger_balance k' ow' c' (wdb s)"
  proof cases
    case old
    with wf owned_account_SomeD [OF old(1)] show ?thesis by (fastforce simp: ledger_wf_def)
  next
    case new
    have fresh: "filter (\<lambda>r. lrAccountID r = wseq s TLedgerAccounts + 1) (ledger_entries (wdb s)) = []"
      using wf by (force simp: ledger_wf_def filter_empty_conv)
    have "account_balance_of (wdb s') = account_balance_of (wdb s)"
      using new by (simp add: account_balance_of_def [abs_def])
    moreover have "account_balance_of (wdb s) ?new = 0"
      by (simp add: account_balance_of_def fresh)
    ultimately have "ledger_balance k' ow' c' (wdb s') = ledger_balance k' ow' c' (wdb s)"
      using new by (simp add: ledger_balance_alt)
    moreover have "ledger_wf s'"
      using wf new unfolding ledger_wf_def by force
    ultimately show ?thesis using new by (simp add: account_matches_def)
  qed
  then show "ledger_wf s'" and "\<exists>a \<in> set (ledger_accounts (wdb s')). laID a = i \<and> account_matches k ow c a"
    and "ledger_entries (wdb s') = ledger_entries (wdb s)"
    and "ledger_balance k' ow' c' (wdb s') = ledger_balance k' ow' c' (wdb s)" by blast+
qed

lemma sum_list_no_match:
  "\<forall>x\<in>set xs. f x \<noteq> i \<Longrightarrow> sum_list (map (\<lambda>x. if f x = i then v else (0::int)) xs) = 0"
  by (induction xs) auto

lemma sum_list_single:
  "distinct (map f xs) \<Longrightarrow> a \<in> set xs \<Longrightarrow>
    sum_list (map (\<lambda>x. if f x = f a then v else (0::int)) xs) = v"
proof (induction xs)
  case (Cons x xs)
  show ?case
  proof (cases "a \<in> set xs")
    case True
    with Cons show ?thesis by (auto simp: image_iff)
  next
    case False
    with Cons.prems have "a = x" "\<forall>y\<in>set xs. f y \<noteq> f a" by (auto simp: image_iff)
    then show ?thesis using sum_list_no_match [of xs f "f a" v] by simp
  qed
qed simp

text \<open>Appending one row moves exactly the balance of its account.\<close>

lemma ledger_balance_append:
  assumes dist: "distinct (map laID (ledger_accounts d))" and a: "a \<in> set (ledger_accounts d)"
    and r: "lrAccountID r = laID a" and d': "d' = d\<lparr>ledger_entries := ledger_entries d @ [r]\<rparr>"
  shows "ledger_balance k ow c d' = ledger_balance k ow c d + (if account_matches k ow c a then row_signed r else 0)"
proof -
  let ?as = "filter (account_matches k ow c) (ledger_accounts d)"
  have step: "account_balance_of d' = (\<lambda>x. account_balance_of d x + (if laID x = laID a then row_signed r else 0))"
    using r by (auto simp: account_balance_of_def d')
  have dist': "distinct (map laID ?as)" using dist by (rule distinct_map_filter)
  have hit: "x = a" if "x \<in> set (ledger_accounts d)" "laID x = laID a" for x
    using dist that a by (auto simp: distinct_map dest: inj_onD)
  have "sum_list (map (\<lambda>x. if laID x = laID a then row_signed r else 0) ?as)
      = (if account_matches k ow c a then row_signed r else 0)"
  proof (cases "account_matches k ow c a")
    case True
    with sum_list_single [OF dist', of a] a show ?thesis by simp
  next
    case False
    with hit have "\<forall>x\<in>set ?as. laID x \<noteq> laID a" by auto
    with False show ?thesis by (simp add: sum_list_no_match)
  qed
  moreover have "sum_list (map (account_balance_of d') ?as) = sum_list (map (account_balance_of d) ?as)
      + sum_list (map (\<lambda>x. if laID x = laID a then row_signed r else 0) ?as)"
    by (simp add: step sum_list_addf)
  ultimately show ?thesis by (simp add: ledger_balance_alt) (simp add: d')
qed

lemma post_entry_balance:
  assumes wf: "ledger_wf s" and p: "post_entry g e s = (Inr (), s')"
  shows "ledger_wf s' \<and> ledger_balance k ow c (wdb s') = ledger_balance k ow c (wdb s) +
    (if eAccountKind e = k \<and> eOwnerID e = ow \<and> eCurrency e = c then signed e else 0)"
proof -
  from p obtain i t where g: "getOrCreateLedgerAccount (eAccountKind e) (eOwnerID e) (eCurrency e) s = (Inr i, t)"
    and ins: "insert_ledger_entry g i e t = (Inr (), s')"
    by (auto simp: post_entry_def op_defs split: prod.splits sum.splits)
  note ok = getOrCreate_ok [OF wf g]
  from ok(2) obtain a where a: "a \<in> set (ledger_accounts (wdb t))" "laID a = i"
    "account_matches (eAccountKind e) (eOwnerID e) (eCurrency e) a" by blast
  from ins have d': "wdb s' = (wdb t)\<lparr>ledger_entries := ledger_entries (wdb t) @ [ledger_row_of g i e]\<rparr>"
    and sq: "wseq s' = wseq t"
    by (auto simp: insert_ledger_entry_def exec_def stmt_def split: list.splits if_splits)
  from ok(1) have dist: "distinct (map laID (ledger_accounts (wdb t)))" by (simp add: ledger_wf_def)
  have "ledger_balance k ow c (wdb s') = ledger_balance k ow c (wdb t) +
      (if account_matches k ow c a then signed e else 0)"
    using ledger_balance_append [OF dist a(1) _ d'] a(2) by simp
  moreover have "account_matches k ow c a \<longleftrightarrow> eAccountKind e = k \<and> eOwnerID e = ow \<and> eCurrency e = c"
    using a(3) by (auto simp: account_matches_def)
  moreover have "ledger_wf s'"
    using ok(1) a unfolding ledger_wf_def d' sq by (auto simp: account_matches_def)
  ultimately show ?thesis using ok(4) by simp
qed

lemma each_post_balance:
  "ledger_wf s \<Longrightarrow> each (post_entry g) es s = (Inr (), s') \<Longrightarrow>
    ledger_wf s' \<and> ledger_balance k ow c (wdb s') = ledger_balance k ow c (wdb s) + account_effect k ow c es"
proof (induction es arbitrary: s)
  case (Cons e es)
  from Cons.prems obtain t where p: "post_entry g e s = (Inr (), t)" and r: "each (post_entry g) es t = (Inr (), s')"
    by (auto simp: call_def fail_def split: prod.splits sum.splits)
  from post_entry_balance [OF Cons.prems(1) p] Cons.IH [OF _ r] show ?case by simp
qed (simp add: ret_def)

lemma PostLedgerEntries_balance:
  assumes wf: "ledger_wf s" and p: "PostLedgerEntries es s = (Inr g, s')"
  shows "ledger_wf s'"
    and "ledger_balance k ow c (wdb s') = ledger_balance k ow c (wdb s) + account_effect k ow c es"
proof -
  from p obtain u t where r: "randomUUID s = (Inr g, t)" and x: "tx (each (post_entry g) es) t = (Inr u, s')"
    by (auto simp: PostLedgerEntries_def op_defs split: option.splits prod.splits sum.splits)
  have t: "ledger_wf t" "wdb t = wdb s"
    using wf r by (auto simp: ledger_wf_def randomUUID_def insert_row_def stmt_def Let_def split: list.splits if_splits)
  from x have "ledger_wf s' \<and>
    ledger_balance k ow c (wdb s') = ledger_balance k ow c (wdb s) + account_effect k ow c es"
  proof (cases rule: tx_cases)
    case (committed y s1 s2)
    have "ledger_wf s1" using t committed by (simp add: ledger_wf_def)
    with each_post_balance [of s1 g es s2] committed t show ?thesis
      by (auto simp: ledger_wf_def)
  qed auto
  then show "ledger_wf s'"
    "ledger_balance k ow c (wdb s') = ledger_balance k ow c (wdb s) + account_effect k ow c es" by blast+
qed

text \<open>Without failures a posting that \<^const>\<open>Validate\<close> accepts on known account kinds succeeds.\<close>

lemma getOrCreate_reliable:
  assumes "reliable s" "k \<in> set ledger_kinds"
  shows "\<exists>i s'. getOrCreateLedgerAccount k ow c s = (Inr i, s') \<and> reliable s' \<and> wnow s' = wnow s"
  using assms by (auto simp: getOrCreateLedgerAccount_def op_simps split: option.splits)

lemma post_entry_reliable:
  assumes "reliable s" "eAccountKind e \<in> set ledger_kinds" "entry_ok e"
  shows "\<exists>s'. post_entry g e s = (Inr (), s') \<and> reliable s'"
proof -
  from getOrCreate_reliable [OF assms(1,2)] obtain i t where
    "getOrCreateLedgerAccount (eAccountKind e) (eOwnerID e) (eCurrency e) s = (Inr i, t)" "reliable t" by blast
  with assms(3) show ?thesis
    by (auto simp: post_entry_def insert_ledger_entry_def op_simps entry_ok_def)
qed

lemma each_post_reliable:
  "reliable s \<Longrightarrow> \<forall>e\<in>set es. eAccountKind e \<in> set ledger_kinds \<Longrightarrow> list_all entry_ok es \<Longrightarrow>
    \<exists>s'. each (post_entry g) es s = (Inr (), s') \<and> reliable s'"
proof (induction es arbitrary: s)
  case (Cons e es)
  with post_entry_reliable [of s e g] obtain t where
    "post_entry g e s = (Inr (), t)" "reliable t" by auto
  with Cons.IH [of t] Cons.prems show ?case by (auto simp: op_simps)
qed (simp add: ret_def)

lemma PostLedgerEntries_reliable:
  assumes "reliable s" "Validate es = None" "\<forall>e\<in>set es. eAccountKind e \<in> set ledger_kinds"
  shows "\<exists>g s'. PostLedgerEntries es s = (Inr g, s') \<and> reliable s'"
proof -
  obtain g t where r: "randomUUID s = (Inr g, t)" "reliable t"
    using assms(1) by (auto simp: randomUUID_def op_simps)
  from assms(2) have "list_all entry_ok es" by (simp add: Validate_iff)
  from each_post_reliable [OF r(2) assms(3) this] obtain s' where
    "each (post_entry g) es t = (Inr (), s')" "reliable s'" by blast
  then have "tx (each (post_entry g) es) t = (Inr (), s')" using r(2) by (simp add: tx_ok)
  with r assms(2) \<open>reliable s'\<close> show ?thesis
    by (auto simp: PostLedgerEntries_def op_simps ret_def)
qed

section \<open>Properties\<close>

text \<open>The group of every row was drawn from the sequence of groups.\<close>

definition groups_drawn :: "world \<Rightarrow> bool" where
  "groups_drawn s \<longleftrightarrow> (\<forall>r \<in> set (ledger_entries (wdb s)). lrGroup r \<le> wseq s TLedgerGroups)"

text \<open>The row an entry leaves: in the group, on the account of its kind, owner and currency.\<close>

definition booked :: "db \<Rightarrow> int \<Rightarrow> entry \<Rightarrow> ledger_row \<Rightarrow> bool" where
  "booked d g e r \<longleftrightarrow> (\<exists>a \<in> set (ledger_accounts d).
    account_matches (eAccountKind e) (eOwnerID e) (eCurrency e) a \<and> r = ledger_row_of g (laID a) e)"

lemma booked_mono: "booked d g e r \<Longrightarrow> set (ledger_accounts d) \<subseteq> set (ledger_accounts d') \<Longrightarrow> booked d' g e r"
  by (auto simp: booked_def)

lemma booked_group: "list_all2 (booked d g) es rows \<Longrightarrow> \<forall>r \<in> set rows. lrGroup r = g"
  by (induction rule: list_all2_induct) (auto simp: booked_def)

lemma post_entry_booked:
  assumes "ledger_wf s" "post_entry g e s = (Inr (), s')"
  shows "\<exists>r. booked (wdb s') g e r \<and> ledger_entries (wdb s') = ledger_entries (wdb s) @ [r]"
    "set (ledger_accounts (wdb s)) \<subseteq> set (ledger_accounts (wdb s'))" "wseq s' TLedgerGroups = wseq s TLedgerGroups"
proof -
  from assms(2) obtain i t where g: "getOrCreateLedgerAccount (eAccountKind e) (eOwnerID e) (eCurrency e) s = (Inr i, t)"
    and ins: "insert_ledger_entry g i e t = (Inr (), s')"
    by (auto simp: post_entry_def op_defs split: prod.splits sum.splits)
  from ins have d': "wdb s' = (wdb t)\<lparr>ledger_entries := ledger_entries (wdb t) @ [ledger_row_of g i e]\<rparr>"
    and sq: "wseq s' = wseq t"
    by (auto simp: insert_ledger_entry_def exec_def stmt_def split: list.splits if_splits)
  from getOrCreate_ok(2,3) [OF assms(1) g] d'
  show "\<exists>r. booked (wdb s') g e r \<and> ledger_entries (wdb s') = ledger_entries (wdb s) @ [r]"
    by (auto simp: booked_def)
  from g have "set (ledger_accounts (wdb s)) \<subseteq> set (ledger_accounts (wdb t))" "wseq t TLedgerGroups = wseq s TLedgerGroups"
    by (auto simp: getOrCreateLedgerAccount_def insert_row_def stmt_def Let_def
        split: list.splits if_splits option.splits sum.splits)
  with d' sq show "set (ledger_accounts (wdb s)) \<subseteq> set (ledger_accounts (wdb s'))"
    "wseq s' TLedgerGroups = wseq s TLedgerGroups" by simp_all
qed

lemma each_post_booked:
  "ledger_wf s \<Longrightarrow> each (post_entry g) es s = (Inr (), s') \<Longrightarrow>
    (\<exists>rows. list_all2 (booked (wdb s') g) es rows \<and> ledger_entries (wdb s') = ledger_entries (wdb s) @ rows)
    \<and> set (ledger_accounts (wdb s)) \<subseteq> set (ledger_accounts (wdb s')) \<and> wseq s' TLedgerGroups = wseq s TLedgerGroups"
proof (induction es arbitrary: s)
  case Nil
  then show ?case by (auto simp: ret_def)
next
  case (Cons e es)
  then obtain t where p: "post_entry g e s = (Inr (), t)" and r: "each (post_entry g) es t = (Inr (), s')"
    by (auto simp: call_def fail_def split: prod.splits sum.splits)
  note one = post_entry_booked [OF Cons.prems(1) p]
  have "ledger_wf t" using post_entry_balance [OF Cons.prems(1) p] by blast
  from Cons.IH [OF this r] obtain rows where rest: "list_all2 (booked (wdb s') g) es rows"
    "ledger_entries (wdb s') = ledger_entries (wdb t) @ rows"
    "set (ledger_accounts (wdb t)) \<subseteq> set (ledger_accounts (wdb s'))" "wseq s' TLedgerGroups = wseq t TLedgerGroups" by blast
  from one(1) obtain row where "booked (wdb t) g e row" "ledger_entries (wdb t) = ledger_entries (wdb s) @ [row]" by blast
  with rest one(2,3) booked_mono [of "wdb t" g e row "wdb s'"]
  have "list_all2 (booked (wdb s') g) (e # es) (row # rows)"
    "ledger_entries (wdb s') = ledger_entries (wdb s) @ row # rows" by simp_all
  with rest(3,4) one(2,3) show ?case by (metis order_trans)
qed

lemma PostLedgerEntries_booked:
  assumes "ledger_wf s" "PostLedgerEntries es s = (Inr g, s')"
  shows "g = wseq s TLedgerGroups + 1" "wseq s' TLedgerGroups = g"
    "\<exists>rows. list_all2 (booked (wdb s') g) es rows \<and> ledger_entries (wdb s') = ledger_entries (wdb s) @ rows"
proof -
  from assms(2) obtain u t where r: "randomUUID s = (Inr g, t)" and x: "tx (each (post_entry g) es) t = (Inr u, s')"
    by (auto simp: PostLedgerEntries_def op_defs split: option.splits prod.splits sum.splits)
  have t: "ledger_wf t" "wdb t = wdb s" "g = wseq s TLedgerGroups + 1" "wseq t TLedgerGroups = g"
    using assms(1) r
    by (auto simp: ledger_wf_def randomUUID_def insert_row_def stmt_def Let_def split: list.splits if_splits)
  from x have "(\<exists>rows. list_all2 (booked (wdb s') g) es rows \<and> ledger_entries (wdb s') = ledger_entries (wdb s) @ rows)
    \<and> wseq s' TLedgerGroups = g"
  proof (cases rule: tx_cases)
    case (committed y s1 s2)
    have "ledger_wf s1" using t committed by (simp add: ledger_wf_def)
    with each_post_booked [of s1 g es s2] committed t show ?thesis by auto
  qed auto
  with t(3) show "g = wseq s TLedgerGroups + 1" "wseq s' TLedgerGroups = g"
    "\<exists>rows. list_all2 (booked (wdb s') g) es rows \<and> ledger_entries (wdb s') = ledger_entries (wdb s) @ rows" by blast+
qed

lemma PostLedgerEntries_drawn:
  assumes "ledger_wf s" "groups_drawn s" "PostLedgerEntries es s = (Inr g, s')"
  shows "groups_drawn s'" "g \<notin> lrGroup ` set (ledger_entries (wdb s))"
proof -
  note b = PostLedgerEntries_booked [OF assms(1,3)]
  from b(3) obtain rows where rows: "list_all2 (booked (wdb s') g) es rows"
    "ledger_entries (wdb s') = ledger_entries (wdb s) @ rows" by blast
  have "\<forall>r \<in> set rows. lrGroup r = g" using rows(1) by (rule booked_group)
  then show "groups_drawn s'" using assms(2) b(1,2) rows(2) by (auto simp: groups_drawn_def)
  show "g \<notin> lrGroup ` set (ledger_entries (wdb s))" using assms(2) b(1) by (auto simp: groups_drawn_def)
qed

text \<open>C16: a posting is all or nothing, whatever statement of it fails: on an error the database is
  as before; on success the entries passed \<^verbatim>\<open>Validate\<close> and were appended, in order, each on the account
  of its kind, owner and currency, under one transaction group that no row carried before.  The
  groups of all rows stay drawn from the sequence, so the next posting is again new.\<close>

theorem PostLedgerEntries_all_or_nothing:
  assumes "ledger_wf s" "groups_drawn s"
  shows "case PostLedgerEntries es s of
      (Inl e, s') \<Rightarrow> wdb s' = wdb s
    | (Inr g, s') \<Rightarrow> Validate es = None \<and> g \<notin> lrGroup ` set (ledger_entries (wdb s)) \<and> groups_drawn s'
        \<and> (\<exists>rows. list_all2 (booked (wdb s') g) es rows \<and> ledger_entries (wdb s') = ledger_entries (wdb s) @ rows)"
proof (cases "PostLedgerEntries es s")
  case (Pair r s')
  show ?thesis
  proof (cases r)
    case (Inl e)
    with PostLedgerEntries_cases [OF Pair] Pair show ?thesis by auto
  next
    case (Inr g)
    note post = Pair [unfolded Inr]
    have "Validate es = None" using PostLedgerEntries_cases [OF post] by blast
    then show ?thesis
      using post PostLedgerEntries_drawn [OF assms post] PostLedgerEntries_booked(3) [OF assms(1) post] by auto
  qed
qed

theorem PostLedgerEntries_all_or_nothing_witness:
  "let row = \<lparr>lrGroup = 1, lrAccountID = 1, lrDirection = DirectionDebit, lrAmountMinor = 5, lrCurrency = ''usd'',
        lrOrderID = None, lrDescription = ''''\<rparr>;
      s = (deployed 0)\<lparr>wdb := migrated\<lparr>ledger_entries := [row], ledger_accounts :=
          [\<lparr>laID = 1, laKind = AccountRefunds, laOwnerID = None, laCurrency = ''usd''\<rparr>]\<rparr>,
        wseq := (\<lambda>_. 1)\<rparr> in
    \<exists>g s' rows. PostLedgerEntries (release_entries 7 3 950 ''usd'') s = (Inr g, s') \<and> g \<noteq> 1 \<and> rows \<noteq> []
      \<and> list_all2 (booked (wdb s') g) (release_entries 7 3 950 ''usd'') rows \<and> ledger_entries (wdb s') = row # rows"
proof -
  let ?row = "\<lparr>lrGroup = 1, lrAccountID = 1, lrDirection = DirectionDebit, lrAmountMinor = 5, lrCurrency = ''usd'',
        lrOrderID = None, lrDescription = ''''\<rparr>"
  let ?s = "(deployed 0)\<lparr>wdb := migrated\<lparr>ledger_entries := [?row], ledger_accounts :=
          [\<lparr>laID = 1, laKind = AccountRefunds, laOwnerID = None, laCurrency = ''usd''\<rparr>]\<rparr>,
        wseq := (\<lambda>_. 1)\<rparr>"
  let ?es = "release_entries 7 3 950 ''usd''"
  have wf: "reliable ?s" "ledger_wf ?s" "groups_drawn ?s"
    by (simp_all add: deployed_def ledger_wf_def groups_drawn_def)
  have "Validate ?es = None" "\<forall>e \<in> set ?es. eAccountKind e \<in> set ledger_kinds" "?es \<noteq> []"
    by (simp_all add: balanced_Validate balanced_release) (simp_all add: release_entries_def ledger_kinds_def)
  with PostLedgerEntries_reliable [OF wf(1)] obtain g s' where p: "PostLedgerEntries ?es ?s = (Inr g, s')" by blast
  with PostLedgerEntries_all_or_nothing [OF wf(2,3), of ?es] obtain rows where
    "g \<noteq> 1" "list_all2 (booked (wdb s') g) ?es rows" "ledger_entries (wdb s') = ?row # rows" by auto
  with p \<open>?es \<noteq> []\<close> show ?thesis by (auto simp: Let_def)
qed



end
