(* ===== verification/StoreOrders.thy ===== *)
theory StoreOrders
  imports LedgerStore
begin

text \<open>
  The order tables: \<^verbatim>\<open>src/store/orders.go\<close>, \<^verbatim>\<open>fulfillment.go\<close>, \<^verbatim>\<open>disputes.go\<close>,
  \<^verbatim>\<open>reviews.go\<close> and \<^verbatim>\<open>messages.go\<close>.  The guarded updates (\<^verbatim>\<open>UPDATE .. WHERE id = $1 AND
  status = $2\<close>, failing when no row matched) share the contract of the locale
  \<^verbatim>\<open>compare_and_set\<close>, interpreted here for orders, cancellation requests and disputes.
\<close>

section \<open>Compare and set\<close>

locale compare_and_set =
  fixes rows :: "db \<Rightarrow> 'r list" and key :: "'r \<Rightarrow> int" and st :: "'r \<Rightarrow> 'q"
    and source :: "'a \<Rightarrow> 'q" and target :: "'a \<Rightarrow> 'q"
    and upd :: "'a \<Rightarrow> time \<Rightarrow> 'r \<Rightarrow> 'r"
    and cas :: "int \<Rightarrow> 'a \<Rightarrow> unit op"
  assumes cas_ok: "cas i a s = (Inr (), s') \<Longrightarrow>
      (\<exists>r \<in> set (rows (wdb s)). key r = i \<and> st r = source a) \<and>
      rows (wdb s') = update_where (\<lambda>r. key r = i \<and> st r = source a) (upd a (wnow s)) (rows (wdb s))"
    and cas_fail: "cas i a s = (Inl e, s') \<Longrightarrow> wdb s' = wdb s"
    and cas_absent: "reliable s \<Longrightarrow> \<not> (\<exists>r \<in> set (rows (wdb s)). key r = i \<and> st r = source a) \<Longrightarrow>
      cas i a s = (Inl ErrNotFound, s)"
    and key_upd [simp]: "key (upd a n r) = key r"
    and st_upd [simp]: "st (upd a n r) = target a"
begin

lemma keys_kept: "cas i a s = (x, s') \<Longrightarrow> map key (rows (wdb s')) = map key (rows (wdb s))"
  using cas_ok cas_fail by (cases x) (fastforce simp: map_update_where)+

text \<open>A winning compare-and-set takes the row from its expected state to the target; every other
  row stays.\<close>

lemma winner:
  assumes "cas i a s = (Inr (), s')" "distinct (map key (rows (wdb s)))"
  obtains r where "r \<in> set (rows (wdb s))" "key r = i" "st r = source a"
    "upd a (wnow s) r \<in> set (rows (wdb s'))"
    "\<And>q. key q \<noteq> i \<Longrightarrow> q \<in> set (rows (wdb s')) \<longleftrightarrow> q \<in> set (rows (wdb s))"
    "\<And>q. q \<in> set (rows (wdb s')) \<Longrightarrow> key q = i \<Longrightarrow> q = upd a (wnow s) r"
proof -
  from cas_ok [OF assms(1)] obtain r where r: "r \<in> set (rows (wdb s))" "key r = i" "st r = source a"
    and rows: "rows (wdb s') = update_where (\<lambda>r. key r = i \<and> st r = source a) (upd a (wnow s)) (rows (wdb s))"
    by blast
  have uniq: "q = r" if "q \<in> set (rows (wdb s))" "key q = i" for q
    using distinct_map_eq [OF assms(2) that(1) r(1)] that(2) r(2) by simp
  show ?thesis
  proof (rule that [OF r])
    show "upd a (wnow s) r \<in> set (rows (wdb s'))" using r rows by (auto simp: set_update_where)
    show "q \<in> set (rows (wdb s')) \<longleftrightarrow> q \<in> set (rows (wdb s))" if "key q \<noteq> i" for q
      using that rows by (auto simp: set_update_where split: if_splits)
    show "q = upd a (wnow s) r" if "q \<in> set (rows (wdb s'))" "key q = i" for q
    proof -
      from that(1) rows obtain p where p: "p \<in> set (rows (wdb s))"
        and q: "q = (if key p = i \<and> st p = source a then upd a (wnow s) p else p)"
        by (auto simp: set_update_where)
      from q that(2) have "key p = i" by (simp split: if_splits)
      with p uniq have "p = r" by blast
      with q r show ?thesis by simp
    qed
  qed
qed

text \<open>Of two callers that expect the same state only the first wins: the second one finds no row
  and changes nothing.\<close>

lemma second_caller_loses:
  assumes "cas i a s = (Inr (), s')" "distinct (map key (rows (wdb s)))" "target a \<noteq> source b"
    and "rows (wdb t) = rows (wdb s')" "reliable t"
  shows "cas i b t = (Inl ErrNotFound, t)"
proof (rule cas_absent [OF assms(5)])
  from assms(1,2) obtain r where "\<And>q. q \<in> set (rows (wdb s')) \<Longrightarrow> key q = i \<Longrightarrow> q = upd a (wnow s) r"
    by (rule winner) blast
  with assms(3,4) show "\<not> (\<exists>r \<in> set (rows (wdb t)). key r = i \<and> st r = source b)" by fastforce
qed

end

text \<open>The guarded update all of them are written as gives the three laws.\<close>

definition guarded_update ::
  "(db \<Rightarrow> 'r list) \<Rightarrow> ('r list \<Rightarrow> db \<Rightarrow> db) \<Rightarrow> ('r \<Rightarrow> bool) \<Rightarrow> (time \<Rightarrow> 'r \<Rightarrow> 'r) \<Rightarrow> unit op" where
  "guarded_update rows put P f = exec (\<lambda>now d.
    if filter P (rows d) = [] then Inl ErrNotFound
    else Inr ((), put (update_where P (f now) (rows d)) d))"

lemma guarded_update_ok:
  "guarded_update rows put P f s = (Inr (), s') \<Longrightarrow> (\<And>rs d. rows (put rs d) = rs) \<Longrightarrow>
    (\<exists>r \<in> set (rows (wdb s)). P r) \<and> rows (wdb s') = update_where P (f (wnow s)) (rows (wdb s))"
  by (auto simp: guarded_update_def exec_def stmt_def filter_empty_conv split: list.splits if_splits)

lemma guarded_update_fail: "guarded_update rows put P f s = (Inl e, s') \<Longrightarrow> wdb s' = wdb s"
  by (auto simp: guarded_update_def exec_def stmt_def split: list.splits if_splits)

lemma guarded_update_absent:
  "reliable s \<Longrightarrow> \<not> (\<exists>r \<in> set (rows (wdb s)). P r) \<Longrightarrow> guarded_update rows put P f s = (Inl ErrNotFound, s)"
  by (auto simp: guarded_update_def op_simps filter_empty_conv)

section \<open>Orders\<close>

record order_item_input =
  iiKind :: string
  iiName :: string
  iiDescription :: string
  iiPriceMinorUnits :: int
  iiCurrency :: string
  iiDeliveryDays :: "int option"

definition insert_order :: "int \<Rightarrow> int \<Rightarrow> int \<Rightarrow> string \<Rightarrow> int \<Rightarrow> int \<Rightarrow> int \<Rightarrow> int \<Rightarrow> string \<Rightarrow> order op" where
  "insert_order buyerID sellerID gigID requirements revisionsAllowed subtotal fee totalMinor currency =
    insert_row TOrders (\<lambda>i now d.
      let ord = \<lparr>oID = i, oBuyerID = buyerID, oSellerID = sellerID, oGigID = gigID,
        oStatus = OrderPendingPayment, oRequirements = requirements, oRevisionsUsed = 0,
        oRevisionsAllowed = revisionsAllowed, oSubtotalMinorUnits = subtotal,
        oPlatformFeeMinorUnits = fee, oTotalMinorUnits = totalMinor, oCurrency = currency,
        oPaidAt = None, oDeliveredAt = None, oAcceptedAt = None, oCancelledAt = None,
        oClosedAt = None, oCreatedAt = now, oUpdatedAt = now\<rparr>
      in Inr (ord, d\<lparr>orders := orders d @ [ord]\<rparr>))"

definition insert_order_item :: "int \<Rightarrow> order_item_input \<Rightarrow> unit op" where
  "insert_order_item orderID it = insert_row TOrderItems (\<lambda>i now d.
    if iiKind it \<notin> {''package'', ''addon''} then Inl (ErrCheckViolation ''order_items_kind_check'')
    else Inr ((), d\<lparr>order_items := order_items d @
      [\<lparr>oiID = i, oiOrderID = orderID, oiKind = iiKind it, oiName = iiName it,
        oiDescription = iiDescription it, oiPriceMinorUnits = iiPriceMinorUnits it,
        oiCurrency = iiCurrency it, oiDeliveryDays = iiDeliveryDays it\<rparr>]\<rparr>))"

definition delete_draft :: "int \<Rightarrow> unit op" where
  "delete_draft draftID = exec (\<lambda>now d. Inr ((), d\<lparr>
    draft_orders := filter (\<lambda>r. dfID r \<noteq> draftID) (draft_orders d),
    draft_addons := filter (\<lambda>r. fst r \<noteq> draftID) (draft_addons d)\<rparr>))"

definition CreateOrderFromDraft ::
  "int \<Rightarrow> int \<Rightarrow> int \<Rightarrow> int \<Rightarrow> string \<Rightarrow> order_item_input list \<Rightarrow> int \<Rightarrow> int \<Rightarrow> int \<Rightarrow> string \<Rightarrow> int \<Rightarrow> order op" where
  "CreateOrderFromDraft draftID buyerID sellerID gigID requirements items subtotal fee totalMinor currency revisionsAllowed =
    tx (call (insert_order buyerID sellerID gigID requirements revisionsAllowed subtotal fee totalMinor currency) fail
      (\<lambda>ord. call (each (insert_order_item (oID ord)) items) fail
      (\<lambda>_. call (delete_draft draftID) fail
      (\<lambda>_. ret ord))))"

definition GetOrder :: "int \<Rightarrow> order op" where
  "GetOrder rid = query (\<lambda>now d. one_row (find (\<lambda>ord. oID ord = rid) (orders d)))"

definition GetOrderItems :: "int \<Rightarrow> order_item list op" where
  "GetOrderItems orderID = query (\<lambda>now d.
    Inr (sort_key oiID (filter (\<lambda>it. oiOrderID it = orderID) (order_items d))))"

record order_summary =
  osID :: int
  osGigSlug :: string
  osGigTitle :: string
  osCounterpartyName :: string
  osStatus :: order_status
  osTotalMinorUnits :: int
  osCurrency :: string
  osCreatedAt :: time

text \<open>\<^verbatim>\<open>OFFSET .. LIMIT\<close>; PostgreSQL refuses a negative offset.\<close>

definition page_of :: "int \<Rightarrow> int \<Rightarrow> 'a list \<Rightarrow> 'a list" where
  "page_of offset lim rows = take (nat lim) (drop (nat offset) rows)"

text \<open>The page of the summary query: an inner join with the gig and the counterparty, newest
  first; the total is a column of the returned rows, so it is \<^verbatim>\<open>0\<close> when the page is empty.\<close>

definition order_summary_rows :: "(order \<Rightarrow> int) \<Rightarrow> (order \<Rightarrow> bool) \<Rightarrow> db \<Rightarrow> order_summary list" where
  "order_summary_rows counterparty mine d =
    List.map_filter (\<lambda>ord. case find (\<lambda>g. gID g = oGigID ord) (gigs d) of None \<Rightarrow> None
      | Some g \<Rightarrow> (case find (\<lambda>u. uID u = counterparty ord) (users d) of None \<Rightarrow> None
      | Some u \<Rightarrow> Some \<lparr>osID = oID ord, osGigSlug = gSlug g, osGigTitle = gTitle g,
          osCounterpartyName = uName u, osStatus = oStatus ord, osTotalMinorUnits = oTotalMinorUnits ord,
          osCurrency = oCurrency ord, osCreatedAt = oCreatedAt ord\<rparr>))
      (sort_key (\<lambda>ord. - oCreatedAt ord) (filter mine (orders d)))"

definition listOrders :: "(order \<Rightarrow> int) \<Rightarrow> (order \<Rightarrow> bool) \<Rightarrow> int \<Rightarrow> int \<Rightarrow> (order_summary list \<times> int) op" where
  "listOrders counterparty mine page perPage =
    (let page' = (if page < 1 then 1 else page);
         perPage' = (if perPage < 1 \<or> perPage > 100 then 20 else perPage);
         offset = wrap64 ((page' - 1) * perPage') in
     query (\<lambda>now d.
       let all = order_summary_rows counterparty mine d; out = page_of offset perPage' all in
       if offset < 0 then Inl ErrFault else Inr (out, if out = [] then 0 else int (length all))))"

definition ListOrdersForBuyer :: "int \<Rightarrow> int \<Rightarrow> int \<Rightarrow> (order_summary list \<times> int) op" where
  "ListOrdersForBuyer buyerID = listOrders oSellerID (\<lambda>ord. oBuyerID ord = buyerID)"

definition ListOrdersForSeller :: "int \<Rightarrow> int \<Rightarrow> int \<Rightarrow> (order_summary list \<times> int) op" where
  "ListOrdersForSeller sellerID = listOrders oBuyerID (\<lambda>ord. oSellerID ord = sellerID)"

definition CountRecentOrdersByBuyer :: "int \<Rightarrow> time \<Rightarrow> int op" where
  "CountRecentOrdersByBuyer buyerID since = query (\<lambda>now d.
    Inr (int (length (filter (\<lambda>ord. oBuyerID ord = buyerID \<and> oCreatedAt ord \<ge> since) (orders d)))))"

definition set_order_status :: "order_status \<Rightarrow> time \<Rightarrow> order \<Rightarrow> order" where
  "set_order_status to now ord = ord\<lparr>oStatus := to,
    oPaidAt := (if to = OrderPaid then Some now else oPaidAt ord),
    oDeliveredAt := (if to = OrderDelivered then Some now else oDeliveredAt ord),
    oAcceptedAt := (if to = OrderAccepted then Some now else oAcceptedAt ord),
    oCancelledAt := (if to = OrderCancelled then Some now else oCancelledAt ord),
    oClosedAt := (if to = OrderClosed then Some now else oClosedAt ord),
    oUpdatedAt := now\<rparr>"

definition TransitionOrder :: "int \<Rightarrow> order_status \<Rightarrow> order_status \<Rightarrow> unit op" where
  "TransitionOrder orderID from to =
    guarded_update orders (\<lambda>rows d. d\<lparr>orders := rows\<rparr>)
      (\<lambda>ord. oID ord = orderID \<and> oStatus ord = from) (set_order_status to)"

definition due_for_acceptance :: "time \<Rightarrow> order \<Rightarrow> bool" where
  "due_for_acceptance cutoff ord \<longleftrightarrow> oStatus ord = OrderDelivered
    \<and> (case oDeliveredAt ord of None \<Rightarrow> False | Some t \<Rightarrow> t < cutoff)"

definition AutoAcceptOrders :: "time \<Rightarrow> order list op" where
  "AutoAcceptOrders cutoff = exec (\<lambda>now d.
    let accept = (\<lambda>ord. ord\<lparr>oStatus := OrderAccepted, oAcceptedAt := Some now, oUpdatedAt := now\<rparr>) in
    Inr (map accept (filter (due_for_acceptance cutoff) (orders d)),
      d\<lparr>orders := update_where (due_for_acceptance cutoff) accept (orders d)\<rparr>))"

section \<open>Fulfillment\<close>

text \<open>\<^verbatim>\<open>CreateDelivery\<close>: lock, read the next version, insert (\<^verbatim>\<open>UNIQUE (order_id, version)\<close>).\<close>

definition next_version :: "int \<Rightarrow> db \<Rightarrow> int" where
  "next_version orderID d = fold max (map dlVersion (filter (\<lambda>v. dlOrderID v = orderID) (deliveries d))) 0 + 1"

definition insert_delivery :: "int \<Rightarrow> int \<Rightarrow> int \<Rightarrow> string \<Rightarrow> delivery op" where
  "insert_delivery orderID sellerID version message = insert_row TDeliveries (\<lambda>i now d.
    if \<exists>v\<in>set (deliveries d). dlOrderID v = orderID \<and> dlVersion v = version then Inl ErrUniqueViolation
    else let v = \<lparr>dlID = i, dlOrderID = orderID, dlSellerID = sellerID, dlVersion = version,
        dlMessage = message, dlCreatedAt = now\<rparr>
      in Inr (v, d\<lparr>deliveries := deliveries d @ [v]\<rparr>))"

definition CreateDelivery :: "int \<Rightarrow> int \<Rightarrow> string \<Rightarrow> delivery op" where
  "CreateDelivery orderID sellerID message = tx (
    call (query (\<lambda>now d. Inr ())) fail (\<lambda>_.
    call (query (\<lambda>now d. Inr (next_version orderID d))) fail (\<lambda>version.
    insert_delivery orderID sellerID version message)))"

definition ListDeliveries :: "int \<Rightarrow> delivery list op" where
  "ListDeliveries orderID = query (\<lambda>now d.
    Inr (sort_key dlVersion (filter (\<lambda>v. dlOrderID v = orderID) (deliveries d))))"

definition CreateRevisionRequest :: "int \<Rightarrow> int \<Rightarrow> string \<Rightarrow> revision_request op" where
  "CreateRevisionRequest orderID buyerID reason = tx (
    call (query (\<lambda>now d. one_row (find (\<lambda>ord. oID ord = orderID) (orders d)))) fail (\<lambda>locked.
    if oRevisionsUsed locked \<ge> oRevisionsAllowed locked then fail ErrRevisionLimitReached
    else call (exec (\<lambda>now d. Inr ((), d\<lparr>orders := update_where (\<lambda>ord. oID ord = orderID)
        (\<lambda>ord. ord\<lparr>oRevisionsUsed := oRevisionsUsed ord + 1, oUpdatedAt := now\<rparr>) (orders d)\<rparr>))) fail (\<lambda>_.
    insert_row TRevisionRequests (\<lambda>i now d.
      let q = \<lparr>rrID = i, rrOrderID = orderID, rrBuyerID = buyerID, rrReason = reason, rrCreatedAt = now\<rparr>
      in Inr (q, d\<lparr>revision_requests := revision_requests d @ [q]\<rparr>)))))"

definition ListRevisionRequests :: "int \<Rightarrow> revision_request list op" where
  "ListRevisionRequests orderID = query (\<lambda>now d.
    Inr (sort_key rrCreatedAt (filter (\<lambda>q. rrOrderID q = orderID) (revision_requests d))))"

definition CreateCancellationRequest :: "int \<Rightarrow> int \<Rightarrow> string \<Rightarrow> cancellation_request op" where
  "CreateCancellationRequest orderID requestedBy reason = insert_row TCancellationRequests (\<lambda>i now d.
    let c = \<lparr>crID = i, crOrderID = orderID, crRequestedBy = requestedBy, crReason = reason,
      crStatus = CancellationPending, crResolvedAt = None, crCreatedAt = now\<rparr>
    in Inr (c, d\<lparr>cancellation_requests := cancellation_requests d @ [c]\<rparr>))"

definition GetOpenCancellationRequest :: "int \<Rightarrow> cancellation_request op" where
  "GetOpenCancellationRequest orderID = query (\<lambda>now d. one_row (latest_by crCreatedAt
    (filter (\<lambda>c. crOrderID c = orderID \<and> crStatus c = CancellationPending) (cancellation_requests d))))"

definition ResolveCancellationRequest :: "int \<Rightarrow> cancellation_status \<Rightarrow> unit op" where
  "ResolveCancellationRequest rid status =
    guarded_update cancellation_requests (\<lambda>rows d. d\<lparr>cancellation_requests := rows\<rparr>)
      (\<lambda>c. crID c = rid \<and> crStatus c = CancellationPending)
      (\<lambda>now c. c\<lparr>crStatus := status, crResolvedAt := Some now\<rparr>)"

section \<open>Disputes\<close>

definition CreateDispute :: "int \<Rightarrow> int \<Rightarrow> string \<Rightarrow> dispute op" where
  "CreateDispute orderID openedBy reason = insert_row TDisputes (\<lambda>i now d.
    let p = \<lparr>dpID = i, dpOrderID = orderID, dpOpenedBy = openedBy, dpReason = reason,
      dpStatus = DisputeOpen, dpDecision = [], dpResolvedBy = None, dpResolvedAt = None, dpCreatedAt = now,
      dpInternalNotes = []\<rparr>
    in Inr (p, d\<lparr>disputes := disputes d @ [p]\<rparr>))"

definition GetOpenDispute :: "int \<Rightarrow> dispute op" where
  "GetOpenDispute orderID = query (\<lambda>now d. one_row (latest_by dpCreatedAt
    (filter (\<lambda>p. dpOrderID p = orderID \<and> dpStatus p = DisputeOpen) (disputes d))))"

definition GetLatestDispute :: "int \<Rightarrow> dispute op" where
  "GetLatestDispute orderID = query (\<lambda>now d. one_row (latest_by dpCreatedAt
    (filter (\<lambda>p. dpOrderID p = orderID) (disputes d))))"

definition ResolveDispute :: "int \<Rightarrow> int \<Rightarrow> string \<Rightarrow> unit op" where
  "ResolveDispute rid resolvedBy decision =
    guarded_update disputes (\<lambda>rows d. d\<lparr>disputes := rows\<rparr>)
      (\<lambda>p. dpID p = rid \<and> dpStatus p = DisputeOpen)
      (\<lambda>now p. p\<lparr>dpStatus := DisputeResolved, dpDecision := decision, dpResolvedBy := Some resolvedBy,
        dpResolvedAt := Some now\<rparr>)"

section \<open>Reviews\<close>

definition ModerationApproved :: string where "ModerationApproved = ''approved''"

definition insert_review :: "int \<Rightarrow> int \<Rightarrow> int \<Rightarrow> int \<Rightarrow> int \<Rightarrow> string \<Rightarrow> review op" where
  "insert_review orderID gigID buyerID sellerID rating body = insert_row TReviews (\<lambda>i now d.
    if rating < 1 \<or> rating > 5 then Inl (ErrCheckViolation ''reviews_rating_check'')
    else if \<exists>r\<in>set (reviews d). rvOrderID r = orderID then Inl ErrUniqueViolation
    else let r = \<lparr>rvID = i, rvOrderID = orderID, rvGigID = gigID, rvBuyerID = buyerID,
        rvSellerID = sellerID, rvRating = rating, rvBody = body,
        rvModerationState = ModerationApproved, rvCreatedAt = now\<rparr>
      in Inr (r, d\<lparr>reviews := reviews d @ [r]\<rparr>))"

definition approved_ratings :: "int \<Rightarrow> db \<Rightarrow> int list" where
  "approved_ratings sellerID d = map rvRating
    (filter (\<lambda>r. rvSellerID r = sellerID \<and> rvModerationState r = ModerationApproved) (reviews d))"

text \<open>\<^verbatim>\<open>avg(rating)\<close> stored as \<^verbatim>\<open>numeric(3,2)\<close>: hundredths, rounded half up.\<close>

definition rating_avg :: "int list \<Rightarrow> int" where
  "rating_avg rs = (if rs = [] then 0
    else (200 * sum_list rs + int (length rs)) div (2 * int (length rs)))"

definition recalculate_rating :: "int \<Rightarrow> unit op" where
  "recalculate_rating sellerID = exec (\<lambda>now d.
    let rs = approved_ratings sellerID d in
    Inr ((), d\<lparr>seller_profiles := update_where (\<lambda>p. spUserID p = sellerID)
      (\<lambda>p. p\<lparr>spRatingAvg := rating_avg rs, spRatingCount := int (length rs), spUpdatedAt := now\<rparr>)
      (seller_profiles d)\<rparr>))"

definition CreateReview :: "int \<Rightarrow> int \<Rightarrow> int \<Rightarrow> int \<Rightarrow> int \<Rightarrow> string \<Rightarrow> review op" where
  "CreateReview orderID gigID buyerID sellerID rating body = tx (
    call (insert_review orderID gigID buyerID sellerID rating body)
      (\<lambda>e. fail (if e = ErrUniqueViolation then ErrAlreadyReviewed else e))
      (\<lambda>rv. call (recalculate_rating sellerID) fail (\<lambda>_. ret rv)))"

definition GetReviewByOrder :: "int \<Rightarrow> review op" where
  "GetReviewByOrder orderID = query (\<lambda>now d. one_row (find (\<lambda>r. rvOrderID r = orderID) (reviews d)))"

section \<open>Messages and attachments\<close>

definition AttachmentDelivery :: string where "AttachmentDelivery = ''delivery''"
definition AttachmentMessage :: string where "AttachmentMessage = ''message''"
definition AttachmentDispute :: string where "AttachmentDispute = ''dispute_evidence''"

definition CreateOrderMessage :: "int \<Rightarrow> int \<Rightarrow> string \<Rightarrow> bool \<Rightarrow> order_message op" where
  "CreateOrderMessage orderID senderID body isInfoRequest = insert_row TOrderMessages (\<lambda>i now d.
    let m = \<lparr>omID = i, omOrderID = orderID, omSenderID = senderID, omBody = body,
      omIsInfoRequest = isInfoRequest, omHidden = False, omHiddenBy = None, omHiddenAt = None, omCreatedAt = now\<rparr>
    in Inr (m, d\<lparr>order_messages := order_messages d @ [m]\<rparr>))"

text \<open>The join with \<^verbatim>\<open>users\<close> adds the sender's name.\<close>

definition ListOrderMessages :: "int \<Rightarrow> (order_message \<times> string) list op" where
  "ListOrderMessages orderID = query (\<lambda>now d. Inr (List.map_filter
    (\<lambda>m. map_option (\<lambda>u. (m, uName u)) (find (\<lambda>u. uID u = omSenderID m) (users d)))
    (sort_key omCreatedAt (sort_key omID (filter (\<lambda>m. omOrderID m = orderID) (order_messages d))))))"

definition CreateOrderAttachment :: "int \<Rightarrow> int \<Rightarrow> string \<Rightarrow> string \<Rightarrow> string \<Rightarrow> order_attachment op" where
  "CreateOrderAttachment orderID uploaderID kind filePath fileName = insert_row TOrderAttachments (\<lambda>i now d.
    if kind \<notin> {AttachmentDelivery, AttachmentMessage, AttachmentDispute}
    then Inl (ErrCheckViolation ''order_attachments_kind_check'')
    else let a = \<lparr>oaID = i, oaOrderID = orderID, oaUploaderID = uploaderID, oaKind = kind,
        oaFilePath = filePath, oaFileName = fileName, oaCreatedAt = now\<rparr>
      in Inr (a, d\<lparr>order_attachments := order_attachments d @ [a]\<rparr>))"

definition ListOrderAttachments :: "int \<Rightarrow> string \<Rightarrow> order_attachment list op" where
  "ListOrderAttachments orderID kind = query (\<lambda>now d.
    Inr (sort_key oaCreatedAt (sort_key oaID
      (filter (\<lambda>a. oaOrderID a = orderID \<and> (kind = [] \<or> oaKind a = kind)) (order_attachments d)))))"

definition GetOrderAttachment :: "int \<Rightarrow> order_attachment op" where
  "GetOrderAttachment rid = query (\<lambda>now d. one_row (find (\<lambda>a. oaID a = rid) (order_attachments d)))"

section \<open>The guarded updates as compare-and-set\<close>

interpretation order_cas: compare_and_set orders oID oStatus fst snd
    "\<lambda>a. set_order_status (snd a)" "\<lambda>i a. TransitionOrder i (fst a) (snd a)"
  by unfold_locales (unfold TransitionOrder_def,
    auto simp: set_order_status_def dest!: guarded_update_ok dest: guarded_update_fail
      intro!: guarded_update_absent)

interpretation cancellation_cas: compare_and_set cancellation_requests crID crStatus
    "\<lambda>_. CancellationPending" "\<lambda>a. a" "\<lambda>a now c. c\<lparr>crStatus := a, crResolvedAt := Some now\<rparr>"
    ResolveCancellationRequest
  by unfold_locales (unfold ResolveCancellationRequest_def,
    auto dest!: guarded_update_ok dest: guarded_update_fail intro!: guarded_update_absent)

interpretation dispute_cas: compare_and_set disputes dpID dpStatus
    "\<lambda>_. DisputeOpen" "\<lambda>_. DisputeResolved"
    "\<lambda>a now p. p\<lparr>dpStatus := DisputeResolved, dpDecision := snd a, dpResolvedBy := Some (fst a),
        dpResolvedAt := Some now\<rparr>"
    "\<lambda>i a. ResolveDispute i (fst a) (snd a)"
  by unfold_locales (unfold ResolveDispute_def,
    auto dest!: guarded_update_ok dest: guarded_update_fail intro!: guarded_update_absent)

section \<open>Properties\<close>

text \<open>Of two callers that move an order out of the same state only the first wins: its order
  gets the new state and its time stamp, and the second one changes nothing and is told so.\<close>

theorem TransitionOrder_exclusive:
  assumes "distinct (map oID (orders (wdb s)))" "TransitionOrder i f t s = (Inr (), s')" "f \<noteq> t" "reliable s'"
  shows "(\<exists>ord \<in> set (orders (wdb s)). oID ord = i \<and> oStatus ord = f
      \<and> set_order_status t (wnow s) ord \<in> set (orders (wdb s')))
    \<and> TransitionOrder i f u s' = (Inl ErrNotFound, s')"
proof
  have cas: "TransitionOrder i (fst (f, t)) (snd (f, t)) s = (Inr (), s')" using assms(2) by simp
  from order_cas.winner [OF cas assms(1)] show "\<exists>ord \<in> set (orders (wdb s)). oID ord = i \<and> oStatus ord = f
      \<and> set_order_status t (wnow s) ord \<in> set (orders (wdb s'))"
    by (metis fst_conv snd_conv)
  show "TransitionOrder i f u s' = (Inl ErrNotFound, s')"
    using order_cas.second_caller_loses [OF cas assms(1), of "(f, u)" s'] assms(3,4) by simp
qed

theorem TransitionOrder_exclusive_witness:
  "\<exists>s'. TransitionOrder 7 OrderDelivered OrderAccepted (with_orders [sample_order 7 OrderDelivered]) = (Inr (), s')
    \<and> TransitionOrder 7 OrderDelivered OrderDisputed s' = (Inl ErrNotFound, s')"
proof -
  let ?s = "with_orders [sample_order 7 OrderDelivered]"
  obtain s' where s': "TransitionOrder 7 OrderDelivered OrderAccepted ?s = (Inr (), s')" "reliable s'"
    by (simp add: TransitionOrder_def guarded_update_def op_simps deployed_def)
  have "distinct (map oID (orders (wdb ?s)))" by simp
  from TransitionOrder_exclusive [OF this s'(1) _ s'(2)] s'(1) show ?thesis by auto
qed

text \<open>A delivery gets the version after the greatest one of its order, so the versions of an
  order are strictly increasing; a failed one leaves no trace.\<close>

theorem CreateDelivery_next_version:
  "case CreateDelivery oi sl msg s of
      (Inl e, s') \<Rightarrow> wdb s' = wdb s
    | (Inr v, s') \<Rightarrow> deliveries (wdb s') = deliveries (wdb s) @ [v] \<and> dlOrderID v = oi \<and> dlMessage v = msg
        \<and> 1 \<le> dlVersion v
        \<and> (\<forall>q \<in> set (deliveries (wdb s)). dlOrderID q = oi \<longrightarrow> dlVersion q < dlVersion v)
        \<and> ((\<forall>q \<in> set (deliveries (wdb s)). dlOrderID q \<noteq> oi) \<longrightarrow> dlVersion v = 1)"
proof -
  have fold_max: "(\<forall>x \<in> set xs. x \<le> fold max xs a) \<and> a \<le> fold max xs a" for xs and a :: int
    by (induction xs arbitrary: a) (auto simp: max_def, force+)
  obtain r s' where p: "CreateDelivery oi sl msg s = (r, s')" by fastforce
  from p [unfolded CreateDelivery_def] show ?thesis
  proof (cases rule: tx_cases)
    case (committed v s1 s2)
    from committed(2) obtain a s3 b s4 where "query (\<lambda>now d. Inr ()) s1 = (a, s3)"
      and q: "query (\<lambda>now d. Inr (next_version oi d)) s3 = (Inr b, s4)"
      and i: "insert_delivery oi sl b msg s4 = (Inr v, s2)"
      by (auto simp: op_defs split: prod.splits sum.splits)
    then have "wdb s3 = wdb s" using committed(3) by (auto elim: query_cases)
    with q have b: "b = next_version oi (wdb s)" "wdb s4 = wdb s" by (auto elim: query_cases)
    from i have v: "deliveries (wdb s2) = deliveries (wdb s) @ [v]" "dlOrderID v = oi" "dlMessage v = msg" "dlVersion v = b"
      unfolding insert_delivery_def using b(2)
      by (auto elim!: insert_cases split: if_splits simp: Let_def dest!: sym [where t = "wdb s2"])
    have "\<forall>q \<in> set (deliveries (wdb s)). dlOrderID q = oi \<longrightarrow> dlVersion q < b" "1 \<le> b"
      using fold_max [of "map dlVersion (filter (\<lambda>v. dlOrderID v = oi) (deliveries (wdb s)))" 0]
      by (auto simp: b(1) next_version_def)
    moreover have "(\<forall>q \<in> set (deliveries (wdb s)). dlOrderID q \<noteq> oi) \<longrightarrow> b = 1"
      by (simp add: b(1) next_version_def filter_empty_conv)
    ultimately show ?thesis using p committed v by simp
  qed (simp add: p)
qed

theorem CreateDelivery_next_version_witness:
  "\<exists>v s'. CreateDelivery 7 3 ''done'' (deployed 5) = (Inr v, s') \<and> dlVersion v = 1 \<and> deliveries (wdb s') = [v]"
proof -
  obtain v s' where "CreateDelivery 7 3 ''done'' (deployed 5) = (Inr v, s')"
    by (simp add: CreateDelivery_def insert_delivery_def tx_def op_defs insert_row_def stmt_def query_def deployed_def
      migrated_def Let_def)
  with CreateDelivery_next_version [where oi = 7 and sl = 3 and msg = "''done''" and s = "deployed 5"] show ?thesis
    by (simp add: deployed_def migrated_def)
qed

text \<open>On a working database a revision is recorded, and counted, exactly when the order has one
  left; otherwise nothing changes and the caller is told that the limit is reached.\<close>

theorem CreateRevisionRequest_counts:
  assumes "reliable s" "distinct (map oID (orders (wdb s)))" "ord \<in> set (orders (wdb s))"
  shows "if oRevisionsUsed ord < oRevisionsAllowed ord
    then \<exists>q s'. CreateRevisionRequest (oID ord) b rs s = (Inr q, s')
      \<and> ord\<lparr>oRevisionsUsed := oRevisionsUsed ord + 1, oUpdatedAt := wnow s\<rparr> \<in> set (orders (wdb s'))
      \<and> revision_requests (wdb s') = revision_requests (wdb s) @ [q] \<and> rrReason q = rs
    else CreateRevisionRequest (oID ord) b rs s = (Inl ErrRevisionLimitReached, s)"
proof -
  have f: "find (\<lambda>r. oID r = oID ord) (orders (wdb s)) = Some ord"
    using find_unique [OF assms(2,3)] .
  show ?thesis
    using assms(1,3) f
    by (auto simp: CreateRevisionRequest_def tx_def op_defs op_simps one_row_def Let_def set_update_where)
qed

theorem CreateRevisionRequest_counts_witness:
  "fst (CreateRevisionRequest 7 2 ''again'' (with_orders [(sample_order 7 OrderDelivered)\<lparr>oRevisionsUsed := 1\<rparr>]))
    = Inl ErrRevisionLimitReached"
proof -
  let ?ord = "(sample_order 7 OrderDelivered)\<lparr>oRevisionsUsed := 1\<rparr>"
  have "reliable (with_orders [?ord])" "distinct (map oID (orders (wdb (with_orders [?ord]))))"
    "?ord \<in> set (orders (wdb (with_orders [?ord])))" by (simp_all add: deployed_def)
  from CreateRevisionRequest_counts [OF this, of 2 "''again''"] show ?thesis by simp
qed

text \<open>An order is reviewed at most once, with a rating from 1 to 5, and the seller's summary is
  recomputed from all approved reviews in the same transaction; a refused review changes nothing.\<close>

theorem CreateReview_once:
  "case CreateReview oi g b sl rt bd s of
      (Inl e, s') \<Rightarrow> wdb s' = wdb s
    | (Inr r, s') \<Rightarrow> reviews (wdb s') = reviews (wdb s) @ [r] \<and> rvOrderID r = oi \<and> rvRating r = rt
        \<and> 1 \<le> rt \<and> rt \<le> 5 \<and> (\<forall>q \<in> set (reviews (wdb s)). rvOrderID q \<noteq> oi)
        \<and> (\<forall>p \<in> set (seller_profiles (wdb s')). spUserID p = sl \<longrightarrow>
            spRatingAvg p = rating_avg (approved_ratings sl (wdb s'))
            \<and> spRatingCount p = int (length (approved_ratings sl (wdb s'))))"
proof -
  obtain x s' where p: "CreateReview oi g b sl rt bd s = (x, s')" by fastforce
  from p [unfolded CreateReview_def] show ?thesis
  proof (cases rule: tx_cases)
    case (committed r s1 s2)
    from committed(2) obtain s3 where i: "insert_review oi g b sl rt bd s1 = (Inr r, s3)"
      and c: "recalculate_rating sl s3 = (Inr (), s2)"
      by (auto simp: op_defs split: prod.splits sum.splits)
    from i have r: "reviews (wdb s3) = reviews (wdb s) @ [r]" "rvOrderID r = oi" "rvRating r = rt" "1 \<le> rt" "rt \<le> 5"
        "\<forall>q \<in> set (reviews (wdb s)). rvOrderID q \<noteq> oi"
      unfolding insert_review_def using committed(3)
      by (auto elim!: insert_cases split: if_splits simp: Let_def dest!: sym [where t = "wdb s3"])
    let ?rs = "approved_ratings sl (wdb s3)"
    from c have s2: "wdb s2 = (wdb s3)\<lparr>seller_profiles := update_where (\<lambda>p. spUserID p = sl)
        (\<lambda>p. p\<lparr>spRatingAvg := rating_avg ?rs, spRatingCount := int (length ?rs), spUpdatedAt := wnow s3\<rparr>)
        (seller_profiles (wdb s3))\<rparr>"
      unfolding recalculate_rating_def Let_def by (auto elim!: exec_cases)
    have "reviews (wdb s2) = reviews (wdb s3)"
        "\<forall>p \<in> set (seller_profiles (wdb s2)). spUserID p = sl \<longrightarrow>
          spRatingAvg p = rating_avg ?rs \<and> spRatingCount p = int (length ?rs)"
      by (simp_all add: s2 ball_update_where)
    moreover from this(1) have "approved_ratings sl (wdb s2) = approved_ratings sl (wdb s3)"
      by (simp add: approved_ratings_def)
    ultimately show ?thesis using p committed r by simp
  qed (simp add: p)
qed

theorem CreateReview_once_witness:
  "\<exists>r s'. CreateReview 7 1 2 3 5 ''great'' (deployed 5) = (Inr r, s') \<and> reviews (wdb s') = [r] \<and> rvRating r = 5"
proof -
  obtain r s' where "CreateReview 7 1 2 3 5 ''great'' (deployed 5) = (Inr r, s')"
    by (simp add: CreateReview_def insert_review_def recalculate_rating_def tx_def op_defs insert_row_def exec_def
      stmt_def deployed_def migrated_def Let_def)
  with CreateReview_once [where oi = 7 and g = 1 and b = 2 and sl = 3 and rt = 5 and bd = "''great''" and s = "deployed 5"] show ?thesis
    by (simp add: deployed_def migrated_def)
qed

end
