(* ===== verification/StorePayments.thy ===== *)
theory StorePayments
  imports StoreOrders
begin

text \<open>
  \<^verbatim>\<open>src/store/payments.go\<close>: payment intents and their attempts, the deduplicated webhook
  events, and refunds.  The inserts that a unique key makes idempotent share the contract of the
  locale \<^verbatim>\<open>insert_once\<close>: a second insert of the same key adds nothing.
\<close>

section \<open>Inserts keyed by a unique constraint\<close>

definition unique_on :: "('r \<Rightarrow> 'k) \<Rightarrow> ('r \<Rightarrow> bool) \<Rightarrow> 'r list \<Rightarrow> bool" where
  "unique_on key counts rows \<longleftrightarrow> distinct (map key (filter counts rows))"

lemma unique_on_snoc:
  "unique_on key counts rs \<Longrightarrow> \<not> (\<exists>q \<in> set rs. counts q \<and> key q = key r) \<Longrightarrow> unique_on key counts (rs @ [r])"
  by (auto simp: unique_on_def)

locale insert_once =
  fixes rows :: "db \<Rightarrow> 'r list" and key :: "'r \<Rightarrow> 'k" and counts :: "'r \<Rightarrow> bool"
    and key_of :: "'a \<Rightarrow> 'k" and ins :: "'a \<Rightarrow> 'b op" and inserted :: "error + 'b \<Rightarrow> bool"
  assumes ins_new: "ins a s = (x, s') \<Longrightarrow> inserted x \<Longrightarrow>
      \<exists>r. rows (wdb s') = rows (wdb s) @ [r] \<and> key r = key_of a \<and> counts r \<and>
        \<not> (\<exists>q \<in> set (rows (wdb s)). counts q \<and> key q = key_of a)"
    and ins_old: "ins a s = (x, s') \<Longrightarrow> \<not> inserted x \<Longrightarrow> wdb s' = wdb s"
begin

lemma unique_kept:
  "ins a s = (x, s') \<Longrightarrow> unique_on key counts (rows (wdb s)) \<Longrightarrow> unique_on key counts (rows (wdb s'))"
  using ins_new [of a s x s'] ins_old [of a s x s'] unique_on_snoc [of key counts "rows (wdb s)"]
  by (cases "inserted x") auto

lemma second_insert_refused:
  assumes "ins a s = (x, s')" "inserted x" "rows (wdb t) = rows (wdb s')" "key_of b = key_of a"
    "ins b t = (y, t')"
  shows "\<not> inserted y \<and> wdb t' = wdb t"
proof (cases "inserted y")
  case True
  from ins_new [OF assms(1,2)] ins_new [OF assms(5) True] assms(3,4) show ?thesis by auto
next
  case False
  with ins_old [OF assms(5)] show ?thesis by simp
qed

end

section \<open>Payment intents\<close>

definition intent_providers :: "string list" where
  "intent_providers = [''stripe'', ''btcpay'', ''evm'']"

definition insert_payment_intent ::
  "int \<Rightarrow> string \<Rightarrow> string \<Rightarrow> int \<Rightarrow> string \<Rightarrow> string \<Rightarrow> payment_intent op" where
  "insert_payment_intent orderID provider method amountMinor currency idempotencyKey =
    insert_row TPaymentIntents (\<lambda>i now d.
      if provider \<notin> set intent_providers then Inl (ErrCheckViolation ''payment_intents_provider_check'')
      else if \<exists>p\<in>set (payment_intents d). piIdempotencyKey p = idempotencyKey then Inl ErrUniqueViolation
      else let p = \<lparr>piID = i, piOrderID = orderID, piProvider = provider, piProviderRef = [],
          piChargeRef = [], piMethod = method, piStatus = PaymentPending, piAmountMinor = amountMinor,
          piCurrency = currency, piIdempotencyKey = idempotencyKey, piCheckoutURL = [],
          piExpiresAt = None, piSucceededAt = None, piFailedAt = None, piCanceledAt = None,
          piCreatedAt = now, piUpdatedAt = now\<rparr>
        in Inr (p, d\<lparr>payment_intents := payment_intents d @ [p]\<rparr>))"

definition CreatePaymentIntent ::
  "int \<Rightarrow> string \<Rightarrow> string \<Rightarrow> int \<Rightarrow> string \<Rightarrow> string \<Rightarrow> payment_intent op" where
  "CreatePaymentIntent orderID provider method amountMinor currency idempotencyKey =
    call (insert_payment_intent orderID provider method amountMinor currency idempotencyKey)
      (\<lambda>e. fail (if e = ErrUniqueViolation then ErrDuplicateIdempotencyKey else e)) ret"

definition GetPaymentIntentByIdempotencyKey :: "string \<Rightarrow> payment_intent op" where
  "GetPaymentIntentByIdempotencyKey k = query (\<lambda>now d.
    one_row (find (\<lambda>p. piIdempotencyKey p = k) (payment_intents d)))"

definition GetPaymentIntent :: "int \<Rightarrow> payment_intent op" where
  "GetPaymentIntent rid = query (\<lambda>now d. one_row (find (\<lambda>p. piID p = rid) (payment_intents d)))"

definition GetPaymentIntentByProviderRef :: "string \<Rightarrow> string \<Rightarrow> payment_intent op" where
  "GetPaymentIntentByProviderRef provider providerRef = query (\<lambda>now d.
    one_row (find (\<lambda>p. piProvider p = provider \<and> piProviderRef p = providerRef) (payment_intents d)))"

definition LatestPaymentIntentForOrder :: "int \<Rightarrow> payment_intent op" where
  "LatestPaymentIntentForOrder orderID = query (\<lambda>now d. one_row (latest_by piCreatedAt
    (filter (\<lambda>p. piOrderID p = orderID) (payment_intents d))))"

definition ListStalePaymentIntents :: "time \<Rightarrow> int \<Rightarrow> payment_intent list op" where
  "ListStalePaymentIntents olderThan lim =
    (let lim' = (if lim < 1 \<or> lim > 500 then 100 else lim) in
     query (\<lambda>now d. Inr (take (nat lim') (sort_key piCreatedAt
       (filter (\<lambda>p. (piStatus p = PaymentPending \<or> piStatus p = PaymentProcessing)
          \<and> piProviderRef p \<noteq> [] \<and> piCreatedAt p < now - olderThan) (payment_intents d))))))"

definition SetPaymentIntentSession :: "int \<Rightarrow> string \<Rightarrow> string \<Rightarrow> time option \<Rightarrow> unit op" where
  "SetPaymentIntentSession rid providerRef checkoutURL expiresAt =
    guarded_update payment_intents (\<lambda>rows d. d\<lparr>payment_intents := rows\<rparr>) (\<lambda>p. piID p = rid)
      (\<lambda>now p. p\<lparr>piProviderRef := providerRef, piCheckoutURL := checkoutURL,
        piExpiresAt := expiresAt, piUpdatedAt := now\<rparr>)"

definition SetPaymentIntentChargeRef :: "int \<Rightarrow> string \<Rightarrow> unit op" where
  "SetPaymentIntentChargeRef rid chargeRef = exec (\<lambda>now d. Inr ((), d\<lparr>payment_intents :=
    update_where (\<lambda>p. piID p = rid) (\<lambda>p. p\<lparr>piChargeRef := chargeRef, piUpdatedAt := now\<rparr>)
      (payment_intents d)\<rparr>))"

definition set_intent_status :: "payment_status \<Rightarrow> time \<Rightarrow> payment_intent \<Rightarrow> payment_intent" where
  "set_intent_status to now p = p\<lparr>piStatus := to,
    piSucceededAt := (if to = PaymentSucceeded then Some now else piSucceededAt p),
    piFailedAt := (if to = PaymentFailed then Some now else piFailedAt p),
    piCanceledAt := (if to = PaymentCanceled then Some now else piCanceledAt p),
    piUpdatedAt := now\<rparr>"

definition TransitionPaymentIntent :: "int \<Rightarrow> payment_status \<Rightarrow> payment_status \<Rightarrow> unit op" where
  "TransitionPaymentIntent rid from to =
    guarded_update payment_intents (\<lambda>rows d. d\<lparr>payment_intents := rows\<rparr>)
      (\<lambda>p. piID p = rid \<and> piStatus p = from) (set_intent_status to)"

definition RecordPaymentAttempt :: "int \<Rightarrow> payment_status \<Rightarrow> string \<Rightarrow> string \<Rightarrow> unit op" where
  "RecordPaymentAttempt intentID providerStatus failureCode failureMessage = exec (\<lambda>now d.
    Inr ((), d\<lparr>payment_attempts := payment_attempts d @ [\<lparr>paIntentID = intentID,
      paProviderStatus = providerStatus, paFailureCode = failureCode, paFailureMessage = failureMessage\<rparr>]\<rparr>))"

text \<open>The attempts are kept in the order they were recorded; the query lists the newest first.\<close>

definition ListPaymentAttemptsForIntent :: "int \<Rightarrow> payment_attempt list op" where
  "ListPaymentAttemptsForIntent intentID = query (\<lambda>now d.
    Inr (rev (filter (\<lambda>a. paIntentID a = intentID) (payment_attempts d))))"

section \<open>Webhook events\<close>

text \<open>\<^verbatim>\<open>INSERT .. ON CONFLICT (provider, event_id) DO NOTHING RETURNING id\<close>: the flag says
  whether a row was inserted.\<close>

definition InsertWebhookEvent ::
  "string \<Rightarrow> string \<Rightarrow> string \<Rightarrow> string \<Rightarrow> string \<Rightarrow> string \<Rightarrow> (int \<times> bool) op" where
  "InsertWebhookEvent provider eventID eventType providerRef payload payloadHash =
    insert_row TWebhookEvents (\<lambda>i now d.
      if \<exists>w\<in>set (webhook_events d). whProvider w = provider \<and> whEventID w = eventID then Inr ((0, False), d)
      else Inr ((i, True), d\<lparr>webhook_events := webhook_events d @
        [\<lparr>whID = i, whProvider = provider, whEventID = eventID, whEventType = eventType,
          whProviderRef = providerRef, whPayload = payload, whPayloadHash = payloadHash,
          whStatus = WebhookReceived, whAttempts = 0, whCreatedAt = now\<rparr>]\<rparr>))"

definition GetWebhookEventByProviderEventID :: "string \<Rightarrow> string \<Rightarrow> webhook_event op" where
  "GetWebhookEventByProviderEventID provider eventID = query (\<lambda>now d.
    one_row (find (\<lambda>w. whProvider w = provider \<and> whEventID w = eventID) (webhook_events d)))"

definition PendingWebhookEvents :: "int \<Rightarrow> webhook_event list op" where
  "PendingWebhookEvents lim =
    (let lim' = (if lim < 1 \<or> lim > 500 then 100 else lim) in
     query (\<lambda>now d. Inr (take (nat lim') (sort_key whCreatedAt
       (filter (\<lambda>w. whStatus w = WebhookReceived) (webhook_events d))))))"

definition MarkWebhookProcessed :: "int \<Rightarrow> unit op" where
  "MarkWebhookProcessed rid = exec (\<lambda>now d. Inr ((), d\<lparr>webhook_events :=
    update_where (\<lambda>w. whID w = rid) (\<lambda>w. w\<lparr>whStatus := WebhookProcessed, whAttempts := whAttempts w + 1\<rparr>)
      (webhook_events d)\<rparr>))"

definition MarkWebhookFailed :: "int \<Rightarrow> unit op" where
  "MarkWebhookFailed rid = exec (\<lambda>now d. Inr ((), d\<lparr>webhook_events :=
    update_where (\<lambda>w. whID w = rid) (\<lambda>w. w\<lparr>whStatus := WebhookFailed, whAttempts := whAttempts w + 1\<rparr>)
      (webhook_events d)\<rparr>))"

section \<open>Refunds\<close>

definition insert_refund ::
  "int \<Rightarrow> int \<Rightarrow> int option \<Rightarrow> string \<Rightarrow> int \<Rightarrow> string \<Rightarrow> int op" where
  "insert_refund orderID intentID requestedBy reason amountMinor currency =
    insert_row TRefunds (\<lambda>i now d.
      if \<exists>r\<in>set (refunds d). rfOrderID r = orderID \<and> rfStatus r \<noteq> PaymentFailed then Inl ErrUniqueViolation
      else Inr (i, d\<lparr>refunds := refunds d @
        [\<lparr>rfID = i, rfOrderID = orderID, rfPaymentIntentID = intentID, rfRequestedBy = requestedBy,
          rfReason = reason, rfAmountMinor = amountMinor, rfCurrency = currency,
          rfStatus = PaymentPending, rfProviderRef = []\<rparr>]\<rparr>))"

definition CreateRefund ::
  "int \<Rightarrow> int \<Rightarrow> int option \<Rightarrow> string \<Rightarrow> int \<Rightarrow> string \<Rightarrow> int op" where
  "CreateRefund orderID intentID requestedBy reason amountMinor currency =
    call (insert_refund orderID intentID requestedBy reason amountMinor currency)
      (\<lambda>e. fail (if e = ErrUniqueViolation then ErrDuplicate else e)) ret"

definition GetRefundForOrder :: "int \<Rightarrow> refund op" where
  "GetRefundForOrder orderID = query (\<lambda>now d.
    one_row (find (\<lambda>r. rfOrderID r = orderID \<and> rfStatus r \<noteq> PaymentFailed) (refunds d)))"

text \<open>The update is subject to \<^verbatim>\<open>refunds_status_check\<close> (only \<^verbatim>\<open>pending\<close>, \<^verbatim>\<open>succeeded\<close> and
  \<^verbatim>\<open>failed\<close>) and to the partial unique index over the refunds that did not fail.\<close>

definition refund_statuses :: "payment_status list" where
  "refund_statuses = [PaymentPending, PaymentSucceeded, PaymentFailed]"

definition SetRefundStatus :: "int \<Rightarrow> payment_status \<Rightarrow> string \<Rightarrow> unit op" where
  "SetRefundStatus rid status providerRef = exec (\<lambda>now d.
    let rows = update_where (\<lambda>r. rfID r = rid) (\<lambda>r. r\<lparr>rfStatus := status, rfProviderRef := providerRef\<rparr>) (refunds d) in
    if (\<exists>r\<in>set (refunds d). rfID r = rid) \<and> status \<notin> set refund_statuses
    then Inl (ErrCheckViolation ''refunds_status_check'')
    else if \<not> distinct (map rfOrderID (filter (\<lambda>r. rfStatus r \<noteq> PaymentFailed) rows))
    then Inl ErrUniqueViolation
    else Inr ((), d\<lparr>refunds := rows\<rparr>))"

section \<open>Interpretations\<close>

interpretation intent_cas: compare_and_set payment_intents piID piStatus fst snd
    "\<lambda>a. set_intent_status (snd a)" "\<lambda>i a. TransitionPaymentIntent i (fst a) (snd a)"
  by unfold_locales (unfold TransitionPaymentIntent_def,
    auto simp: set_intent_status_def dest!: guarded_update_ok dest: guarded_update_fail
      intro!: guarded_update_absent)

lemmas insert_op_defs = insert_row_def stmt_def Let_def

interpretation webhook_once: insert_once webhook_events "\<lambda>w. (whProvider w, whEventID w)" "\<lambda>_. True"
    "\<lambda>(p, e, ty, ref, body, h). (p, e)"
    "\<lambda>(p, e, ty, ref, body, h). InsertWebhookEvent p e ty ref body h"
    "\<lambda>x. case x of Inl _ \<Rightarrow> False | Inr (i, b) \<Rightarrow> b"
  by unfold_locales (auto simp: InsertWebhookEvent_def insert_op_defs split: list.splits if_splits prod.splits)

interpretation intent_once: insert_once payment_intents piIdempotencyKey "\<lambda>_. True"
    "\<lambda>(oid, p, m, a, c, k). k"
    "\<lambda>(oid, p, m, a, c, k). CreatePaymentIntent oid p m a c k"
    "\<lambda>x. case x of Inl _ \<Rightarrow> False | Inr _ \<Rightarrow> True"
  by unfold_locales (auto simp: CreatePaymentIntent_def insert_payment_intent_def op_defs insert_op_defs
      split: list.splits if_splits prod.splits)

interpretation refund_once: insert_once refunds rfOrderID "\<lambda>r. rfStatus r \<noteq> PaymentFailed"
    "\<lambda>(oid, p, by, m, a, c). oid"
    "\<lambda>(oid, p, by, m, a, c). CreateRefund oid p by m a c"
    "\<lambda>x. case x of Inl _ \<Rightarrow> False | Inr _ \<Rightarrow> True"
  by unfold_locales (auto simp: CreateRefund_def insert_refund_def op_defs insert_op_defs
      split: list.splits if_splits prod.splits)

interpretation review_once: insert_once reviews rvOrderID "\<lambda>_. True"
    "\<lambda>(oid, g, b, sl, r, t). oid"
    "\<lambda>(oid, g, b, sl, r, t). CreateReview oid g b sl r t"
    "\<lambda>x. case x of Inl _ \<Rightarrow> False | Inr _ \<Rightarrow> True"
proof unfold_locales
  fix a :: "int \<times> int \<times> int \<times> int \<times> int \<times> string" and s x s'
  obtain oid g b sl r t where a: "a = (oid, g, b, sl, r, t)" by (cases a) auto
  let ?ins = "\<lambda>(oid, g, b, sl, r, t). CreateReview oid g b sl r t"
  { assume c: "?ins a s = (x, s')" and ok: "case x of Inl _ \<Rightarrow> False | Inr _ \<Rightarrow> True"
    from c [unfolded a, simplified, unfolded CreateReview_def] ok
    show "\<exists>r. reviews (wdb s') = reviews (wdb s) @ [r] \<and>
        rvOrderID r = (case a of (oid, g, b, sl, r, t) \<Rightarrow> oid) \<and> True \<and>
        \<not> (\<exists>q\<in>set (reviews (wdb s)). True \<and> rvOrderID q = (case a of (oid, g, b, sl, r, t) \<Rightarrow> oid))"
    proof (cases rule: tx_cases)
      case (committed y s1 s2)
      then show ?thesis
        by (auto simp: a insert_review_def recalculate_rating_def exec_def op_defs insert_op_defs
            split: list.splits if_splits prod.splits)
    qed auto }
  { assume c: "?ins a s = (x, s')" and no: "\<not> (case x of Inl _ \<Rightarrow> False | Inr _ \<Rightarrow> True)"
    from c [unfolded a, simplified, unfolded CreateReview_def] no show "wdb s' = wdb s"
      by (cases rule: tx_cases) auto }
qed

end
