(* ===== verification/StoreJobs.thy ===== *)
theory StoreJobs
  imports StorePayments
begin

text \<open>
  The job queue: \<^verbatim>\<open>src/store/jobs.go\<close> (enqueue, claim, complete, fail) and the worker loop of
  \<^verbatim>\<open>src/jobs.go\<close>.  A claim is one atomic statement over the whole table (\<^verbatim>\<open>FOR UPDATE SKIP
  LOCKED\<close>).  A handler is an operation; its panic is the error \<^verbatim>\<open>ErrPanic\<close>, which the recovery of
  \<^verbatim>\<open>process\<close> treats like any other failure.  Durations are nanoseconds, as in Go.
\<close>

section \<open>The queue\<close>

definition EnqueueJob :: "string \<Rightarrow> job_payload \<Rightarrow> time option \<Rightarrow> int \<Rightarrow> int op" where
  "EnqueueJob kind payload runAt maxAttempts =
    (let maxAttempts' = (if maxAttempts < 1 then 1 else maxAttempts) in
     insert_row TJobs (\<lambda>i now d. Inr (i, d\<lparr>jobs := jobs d @
       [\<lparr>jID = i, jKind = kind, jPayload = payload, jStatus = JobQueued, jAttempts = 0,
         jMaxAttempts = maxAttempts', jRunAt = (case runAt of None \<Rightarrow> now | Some t \<Rightarrow> t),
         jLockedBy = None, jLockedAt = None, jLastError = None, jUpdatedAt = now\<rparr>]\<rparr>)))"

definition claimable :: "time \<Rightarrow> time \<Rightarrow> job \<Rightarrow> bool" where
  "claimable now staleAfter j \<longleftrightarrow>
    ((jStatus j = JobQueued \<or> jStatus j = JobFailed) \<and> jRunAt j \<le> now)
    \<or> (jStatus j = JobClaimed \<and> (case jLockedAt j of None \<Rightarrow> False | Some t \<Rightarrow> t < now - staleAfter))"

definition next_job :: "time \<Rightarrow> time \<Rightarrow> job list \<Rightarrow> job option" where
  "next_job now staleAfter js = (case sort_key jRunAt (sort_key jID (filter (claimable now staleAfter) js)) of
      [] \<Rightarrow> None | j # _ \<Rightarrow> Some j)"

definition claim :: "string \<Rightarrow> time \<Rightarrow> job \<Rightarrow> job" where
  "claim workerID now j = j\<lparr>jStatus := JobClaimed, jLockedBy := Some workerID, jLockedAt := Some now,
    jAttempts := jAttempts j + 1, jUpdatedAt := now\<rparr>"

definition ClaimJob :: "string \<Rightarrow> time \<Rightarrow> job op" where
  "ClaimJob workerID staleAfter = exec (\<lambda>now d. case next_job now staleAfter (jobs d) of
      None \<Rightarrow> Inl ErrNoJob
    | Some j \<Rightarrow> Inr (claim workerID now j,
        d\<lparr>jobs := update_where (\<lambda>r. jID r = jID j) (claim workerID now) (jobs d)\<rparr>))"

definition ListJobsByKindAndStatus :: "string \<Rightarrow> job_status \<Rightarrow> int \<Rightarrow> job list op" where
  "ListJobsByKindAndStatus kind status lim =
    (let lim' = (if lim < 1 \<or> lim > 200 then 50 else lim) in
     query (\<lambda>now d. Inr (take (nat lim') (sort_key (\<lambda>j. - jUpdatedAt j)
       (filter (\<lambda>j. jKind j = kind \<and> jStatus j = status) (jobs d))))))"

text \<open>Completing or failing a job that is not claimed is an error and changes nothing.\<close>

definition CompleteJob :: "int \<Rightarrow> unit op" where
  "CompleteJob rid = call
    (guarded_update jobs (\<lambda>rows d. d\<lparr>jobs := rows\<rparr>) (\<lambda>j. jID j = rid \<and> jStatus j = JobClaimed)
      (\<lambda>now j. j\<lparr>jStatus := JobDone, jLockedBy := None, jLockedAt := None, jUpdatedAt := now\<rparr>))
    (\<lambda>e. fail (if e = ErrNotFound then ErrNotClaimed rid else e)) ret"

definition fail_row :: "error \<Rightarrow> time \<Rightarrow> time \<Rightarrow> job \<Rightarrow> job" where
  "fail_row cause backoff now j = j\<lparr>
    jStatus := (if jAttempts j \<ge> jMaxAttempts j then JobDead else JobFailed),
    jLockedBy := None, jLockedAt := None, jLastError := Some cause,
    jRunAt := (if jAttempts j < jMaxAttempts j then now + backoff else jRunAt j), jUpdatedAt := now\<rparr>"

definition FailJob :: "int \<Rightarrow> error \<Rightarrow> time \<Rightarrow> job_status op" where
  "FailJob rid cause backoff = exec (\<lambda>now d.
    case find (\<lambda>j. jID j = rid \<and> jStatus j = JobClaimed) (jobs d) of
      None \<Rightarrow> Inl ErrNoRows
    | Some j \<Rightarrow> Inr (jStatus (fail_row cause backoff now j),
        d\<lparr>jobs := update_where (\<lambda>j. jID j = rid \<and> jStatus j = JobClaimed)
          (fail_row cause backoff now) (jobs d)\<rparr>))"

section \<open>The worker\<close>

definition second :: int where "second = 10 ^ 9"

definition retryBackoff :: "int \<Rightarrow> time" where
  "retryBackoff attempt = (let e = (if attempt > 6 then 6 else attempt) in
    (if e < 0 then 0 else 2 ^ nat e) * second)"

type_synonym job_handlers = "string \<Rightarrow> (job \<Rightarrow> unit op) option"

definition process :: "job_handlers \<Rightarrow> job \<Rightarrow> unit op" where
  "process handlers job = (case handlers (jKind job) of
      None \<Rightarrow> also_do (FailJob (jID job) (ErrNoHandler (jKind job)) 0) (ret ())
    | Some handler \<Rightarrow> call (handler job)
        (\<lambda>e. also_do (FailJob (jID job) e (retryBackoff (jAttempts job))) (ret ()))
        (\<lambda>_. also_do (CompleteJob (jID job)) (ret ())))"

text \<open>One tick: claim while a slot is free and a job is there.  The processing goroutines run the
  returned jobs.\<close>

fun poll :: "nat \<Rightarrow> string \<Rightarrow> time \<Rightarrow> world \<Rightarrow> job list \<times> world" where
  "poll 0 workerID staleAfter s = ([], s)"
| "poll (Suc free) workerID staleAfter s =
    (case ClaimJob workerID staleAfter s of
      (Inl _, s') \<Rightarrow> ([], s')
    | (Inr j, s') \<Rightarrow> (let (js, s'') = poll free workerID staleAfter s' in (j # js, s'')))"

section \<open>Claiming\<close>

lemma next_job_None: "next_job now st js = None \<longleftrightarrow> filter (claimable now st) js = []"
proof -
  have "sort_key jRunAt (sort_key jID (filter (claimable now st) js)) = [] \<longleftrightarrow> filter (claimable now st) js = []"
    by (metis length_0_conv length_sort)
  then show ?thesis
    by (cases "sort_key jRunAt (sort_key jID (filter (claimable now st) js))") (simp_all add: next_job_def)
qed

lemma next_job_Some:
  assumes "next_job now st js = Some j"
  shows "j \<in> set js" "claimable now st j"
    and "q \<in> set js \<Longrightarrow> claimable now st q \<Longrightarrow> jRunAt j < jRunAt q \<or> (jRunAt j = jRunAt q \<and> jID j \<le> jID q)"
proof -
  let ?c = "filter (claimable now st) js"
  from assms obtain rest where hd: "sort_key jRunAt (sort_key jID ?c) = j # rest"
    by (auto simp: next_job_def split: list.splits)
  then have "j \<in> set (sort_key jRunAt (sort_key jID ?c))" by simp
  then show "j \<in> set js" "claimable now st j" by simp_all
  assume q: "q \<in> set js" "claimable now st q"
  then have "q \<in> set (j # rest)" unfolding hd [symmetric] by simp
  moreover have "sorted (map jRunAt (j # rest))" unfolding hd [symmetric] by (rule sorted_sort_key)
  ultimately have le: "jRunAt j \<le> jRunAt q" by auto
  show "jRunAt j < jRunAt q \<or> (jRunAt j = jRunAt q \<and> jID j \<le> jID q)"
  proof (cases "jRunAt j = jRunAt q")
    case True
    have "filter (\<lambda>x. jRunAt x = jRunAt j) (j # rest) = filter (\<lambda>x. jRunAt x = jRunAt j) (sort_key jID ?c)"
      unfolding hd [symmetric] by (simp add: sort_key_stable)
    moreover have "sorted (map jID (filter (\<lambda>x. jRunAt x = jRunAt j) (sort_key jID ?c)))"
      by (rule sorted_filter) (rule sorted_sort_key)
    ultimately have "sorted (map jID (j # filter (\<lambda>x. jRunAt x = jRunAt j) rest))" by simp
    moreover have "q \<in> set (j # filter (\<lambda>x. jRunAt x = jRunAt j) rest)"
      using \<open>q \<in> set (j # rest)\<close> True by auto
    ultimately show ?thesis using True by auto
  qed (use le in simp)
qed

lemma ClaimJob_cases:
  assumes "ClaimJob w st s = (r, s')"
  obtains (fault) e where "r = Inl e" "wdb s' = wdb s" "e = ErrFault \<or> (e = ErrNoJob \<and> next_job (wnow s) st (jobs (wdb s)) = None)"
    | (claimed) j where "r = Inr (claim w (wnow s) j)" "next_job (wnow s) st (jobs (wdb s)) = Some j"
      "wdb s' = (wdb s)\<lparr>jobs := update_where (\<lambda>q. jID q = jID j) (claim w (wnow s)) (jobs (wdb s))\<rparr>"
      "wnow s' = wnow s" "wseq s' = wseq s"
  using assms [unfolded ClaimJob_def]
proof (cases rule: exec_cases)
  case fault
  then show ?thesis by (intro that(1)) auto
next
  case (error e)
  then show ?thesis by (intro that(1)) (auto split: option.splits)
next
  case (ok x d)
  then obtain j where "next_job (wnow s) st (jobs (wdb s)) = Some j" by (auto split: option.splits)
  with ok show ?thesis by (intro that(2) [of j]) auto
qed

text \<open>A freshly claimed job is not claimable: its lock is not stale and its state is claimed.\<close>

lemma claimed_not_claimable: "0 \<le> st \<Longrightarrow> \<not> claimable now st (claim w now j)"
  by (simp add: claimable_def claim_def)

section \<open>Properties\<close>

text \<open>C18: a worker claims the claimable job that is due first (the older one among equals), stamps
  it with its name, the time and one more attempt, and a second claim at the same instant cannot get
  the same job; when no job is claimable, nothing changes.\<close>

theorem ClaimJob_first_due:
  assumes "reliable s" "distinct (map jID (jobs (wdb s)))" "0 \<le> st"
  shows "case ClaimJob w st s of
      (Inl e, s') \<Rightarrow> e = ErrNoJob \<and> s' = s \<and> (\<forall>j \<in> set (jobs (wdb s)). \<not> claimable (wnow s) st j)
    | (Inr c, s') \<Rightarrow> (\<exists>j \<in> set (jobs (wdb s)). claimable (wnow s) st j \<and> c = claim w (wnow s) j
        \<and> (\<forall>q \<in> set (jobs (wdb s)). claimable (wnow s) st q \<longrightarrow>
            jRunAt j < jRunAt q \<or> (jRunAt j = jRunAt q \<and> jID j \<le> jID q))
        \<and> jobs (wdb s') = update_where (\<lambda>q. jID q = jID j) (claim w (wnow s)) (jobs (wdb s))
        \<and> (\<forall>q \<in> set (jobs (wdb s')). claimable (wnow s) st q \<longrightarrow> jID q \<noteq> jID c))"
proof (cases "next_job (wnow s) st (jobs (wdb s))")
  case None
  then have "ClaimJob w st s = (Inl ErrNoJob, s)" using assms(1) by (simp add: ClaimJob_def op_simps)
  with None show ?thesis by (simp add: next_job_None filter_empty_conv)
next
  case (Some j)
  note j = next_job_Some [OF Some]
  have run: "ClaimJob w st s = (Inr (claim w (wnow s) j), s\<lparr>wdb := (wdb s)\<lparr>jobs :=
      update_where (\<lambda>q. jID q = jID j) (claim w (wnow s)) (jobs (wdb s))\<rparr>\<rparr>)"
    using assms(1) Some by (simp add: ClaimJob_def op_simps)
  have "\<forall>q \<in> set (update_where (\<lambda>q. jID q = jID j) (claim w (wnow s)) (jobs (wdb s))).
      claimable (wnow s) st q \<longrightarrow> jID q \<noteq> jID j"
    by (simp add: ball_update_where claimed_not_claimable [OF assms(3)])
  then show ?thesis
    using j by (auto simp: run claim_def intro!: bexI [of _ j])
qed

theorem ClaimJob_first_due_witness:
  "fst (ClaimJob ''w'' 60 ((deployed 10)\<lparr>wdb := migrated\<lparr>jobs :=
    [(sample_job 1 9), (sample_job 2 3)]\<rparr>\<rparr>)) = Inr (claim ''w'' 10 (sample_job 2 3))"
proof -
  let ?s = "(deployed 10)\<lparr>wdb := migrated\<lparr>jobs := [sample_job 1 9, sample_job 2 3]\<rparr>\<rparr>"
  have "reliable ?s" "distinct (map jID (jobs (wdb ?s)))" "(0::int) \<le> 60" by (simp_all add: deployed_def)
  from ClaimJob_first_due [OF this, of "''w''"] show ?thesis
    by (cases "ClaimJob ''w'' 60 ?s")
      (auto split: sum.splits simp: claimable_def deployed_def)
qed

text \<open>One tick of the worker claims at most as many jobs as it has free slots, all of them due
  and no job twice, under every schedule of failures.\<close>

theorem poll_bounded:
  assumes "distinct (map jID (jobs (wdb s)))" "0 \<le> st"
  shows "length (fst (poll free w st s)) \<le> free \<and> distinct (map jID (fst (poll free w st s)))
    \<and> (\<forall>c \<in> set (fst (poll free w st s)). \<exists>j \<in> set (jobs (wdb s)). c = claim w (wnow s) j \<and> claimable (wnow s) st j)"
  using assms(1)
proof (induction free arbitrary: s)
  case (Suc free)
  obtain r t where c: "ClaimJob w st s = (r, t)" by fastforce
  from c show ?case
  proof (cases rule: ClaimJob_cases)
    case (claimed j)
    note j = next_job_Some(1,2) [OF claimed(2)]
    let ?rest = "fst (poll free w st t)"
    have rows: "jobs (wdb t) = update_where (\<lambda>q. jID q = jID j) (claim w (wnow s)) (jobs (wdb s))"
      by (simp add: claimed(3))
    have keys: "map jID (jobs (wdb t)) = map jID (jobs (wdb s))"
      unfolding rows by (rule map_update_where) (simp add: claim_def)
    have old: "q \<in> set (jobs (wdb s)) \<and> jID q \<noteq> jID j"
      if "q \<in> set (jobs (wdb t))" "claimable (wnow s) st q" for q
      using that claimed_not_claimable [OF assms(2)] by (auto simp: rows update_where_def split: if_splits)
    from Suc.IH [of t] Suc.prems keys claimed(4)
    have ih: "length ?rest \<le> free" "distinct (map jID ?rest)"
      "\<forall>c \<in> set ?rest. \<exists>q \<in> set (jobs (wdb t)). c = claim w (wnow s) q \<and> claimable (wnow s) st q" by simp_all
    then have rest: "\<forall>c \<in> set ?rest. \<exists>q \<in> set (jobs (wdb s)). c = claim w (wnow s) q
        \<and> claimable (wnow s) st q \<and> jID q \<noteq> jID j"
      using old by blast
    have "poll (Suc free) w st s = (claim w (wnow s) j # ?rest, snd (poll free w st t))"
      using c claimed(1) by (simp add: split_def Let_def)
    with ih rest j show ?thesis by (fastforce simp: claim_def)
  qed (simp add: c)
qed simp

theorem poll_bounded_witness:
  "length (fst (poll 1 ''w'' 60 ((deployed 10)\<lparr>wdb := migrated\<lparr>jobs := [sample_job 1 9, sample_job 2 3]\<rparr>\<rparr>))) \<le> 1"
proof -
  let ?s = "(deployed 10)\<lparr>wdb := migrated\<lparr>jobs := [sample_job 1 9, sample_job 2 3]\<rparr>\<rparr>"
  have "distinct (map jID (jobs (wdb ?s)))" "(0::int) \<le> 60" by simp_all
  from poll_bounded [OF this, of 1 "''w''"] show ?thesis by blast
qed

text \<open>A failed job is dead exactly when its attempts are used up; before that it is queued again
  after the back-off of its attempt, which doubles from one second up to 64 seconds.\<close>

theorem FailJob_retries:
  assumes "reliable s" "distinct (map jID (jobs (wdb s)))" "j \<in> set (jobs (wdb s))" "jStatus j = JobClaimed"
  shows "\<exists>s'. FailJob (jID j) e (retryBackoff (jAttempts j)) s
      = (Inr (if jMaxAttempts j \<le> jAttempts j then JobDead else JobFailed), s')
    \<and> (\<exists>q \<in> set (jobs (wdb s')). jID q = jID j \<and> jLockedBy q = None \<and> jLastError q = Some e
        \<and> (jAttempts j < jMaxAttempts j \<longrightarrow> jRunAt q = wnow s + retryBackoff (jAttempts j)))
    \<and> (0 \<le> jAttempts j \<longrightarrow> second \<le> retryBackoff (jAttempts j) \<and> retryBackoff (jAttempts j) \<le> 64 * second)"
proof -
  have u: "q = j" if "q \<in> set (jobs (wdb s))" "jID q = jID j" for q
    using distinct_map_eq [OF assms(2) that(1) assms(3) that(2)] .
  have f: "find (\<lambda>q. jID q = jID j \<and> jStatus q = JobClaimed) (jobs (wdb s)) = Some j"
  proof (cases "find (\<lambda>q. jID q = jID j \<and> jStatus q = JobClaimed) (jobs (wdb s))")
    case None
    with assms(3,4) show ?thesis by (auto simp: find_None_iff)
  next
    case (Some q)
    with u find_SomeD [OF Some] show ?thesis by simp
  qed
  have b: "second \<le> retryBackoff a \<and> retryBackoff a \<le> 64 * second" if "0 \<le> a" for a
  proof -
    define n where "n = nat (min a 6)"
    have n: "n \<le> 6" by (auto simp: n_def)
    have "retryBackoff a = 2 ^ n * second"
      using that by (simp add: retryBackoff_def Let_def n_def min_def)
    moreover have "(2::int) ^ n \<le> 2 ^ 6" using n by (intro power_increasing) simp_all
    moreover have "(1::int) \<le> 2 ^ n" by simp
    ultimately show ?thesis by (simp add: second_def)
  qed
  let ?f = "fail_row e (retryBackoff (jAttempts j)) (wnow s)"
  let ?rows = "update_where (\<lambda>q. jID q = jID j \<and> jStatus q = JobClaimed) ?f (jobs (wdb s))"
  have run: "FailJob (jID j) e (retryBackoff (jAttempts j)) s = (Inr (jStatus (?f j)), s\<lparr>wdb := (wdb s)\<lparr>jobs := ?rows\<rparr>\<rparr>)"
    using assms(1) f by (simp add: FailJob_def op_simps)
  have "?f j \<in> set ?rows" using assms(3,4) by (force simp: set_update_where)
  moreover have "jStatus (?f j) = (if jMaxAttempts j \<le> jAttempts j then JobDead else JobFailed)"
    "jID (?f j) = jID j" "jLockedBy (?f j) = None" "jLastError (?f j) = Some e"
    "jAttempts j < jMaxAttempts j \<longrightarrow> jRunAt (?f j) = wnow s + retryBackoff (jAttempts j)"
    by (simp_all add: fail_row_def)
  ultimately show ?thesis unfolding run using b [of "jAttempts j"] by auto
qed

theorem FailJob_retries_witness:
  "\<exists>s'. FailJob 2 ErrMail (retryBackoff 3) ((deployed 10)\<lparr>wdb := migrated\<lparr>jobs :=
      [(sample_job 2 3)\<lparr>jStatus := JobClaimed, jAttempts := 3\<rparr>]\<rparr>\<rparr>) = (Inr JobDead, s')"
proof -
  let ?j = "(sample_job 2 3)\<lparr>jStatus := JobClaimed, jAttempts := 3\<rparr>"
  let ?s = "(deployed 10)\<lparr>wdb := migrated\<lparr>jobs := [?j]\<rparr>\<rparr>"
  have "reliable ?s" "distinct (map jID (jobs (wdb ?s)))" "?j \<in> set (jobs (wdb ?s))" "jStatus ?j = JobClaimed"
    by (simp_all add: deployed_def)
  from FailJob_retries [OF this, of ErrMail] show ?thesis by auto
qed

end
