(* ===== verification/StoreWallets.thy ===== *)
theory StoreWallets
  imports StoreJobs
begin

text \<open>
  \<^verbatim>\<open>src/store/wallets.go\<close>: the payout wallets with their confirmation and cooling-off period,
  the payout queue and the emergency pause flag, and the one-time tokens of
  \<^verbatim>\<open>src/store/auth_tokens.go\<close>, whose kinds the schema restricts.
\<close>

section \<open>Wallets\<close>

definition TokenWalletConfirmation :: string where "TokenWalletConfirmation = ''wallet_confirmation''"
definition TokenEmailVerification :: string where "TokenEmailVerification = ''email_verification''"
definition TokenPasswordReset :: string where "TokenPasswordReset = ''password_reset''"

definition same_slot :: "int \<Rightarrow> string \<Rightarrow> string \<Rightarrow> wallet \<Rightarrow> bool" where
  "same_slot userID network asset w \<longleftrightarrow> wlUserID w = userID \<and> wlNetwork w = network \<and> wlAsset w = asset"

definition supersede :: "int \<Rightarrow> string \<Rightarrow> string \<Rightarrow> wallet_status \<Rightarrow> unit op" where
  "supersede userID network asset old = exec (\<lambda>now d. Inr ((), d\<lparr>wallets :=
    update_where (\<lambda>w. same_slot userID network asset w \<and> wlStatus w = old)
      (\<lambda>w. w\<lparr>wlStatus := WalletSuperseded\<rparr>) (wallets d)\<rparr>))"

definition CreatePendingWallet :: "int \<Rightarrow> string \<Rightarrow> string \<Rightarrow> string \<Rightarrow> string \<Rightarrow> int op" where
  "CreatePendingWallet userID network asset addressEncrypted fingerprint = tx (
    call (supersede userID network asset WalletPending) fail (\<lambda>_.
    insert_row TWallets (\<lambda>i now d. Inr (i, d\<lparr>wallets := wallets d @
      [\<lparr>wlID = i, wlUserID = userID, wlNetwork = network, wlAsset = asset,
        wlAddressEncrypted = addressEncrypted, wlFingerprint = fingerprint,
        wlStatus = WalletPending, wlConfirmedAt = None, wlEligibleAt = None\<rparr>]\<rparr>))))"

definition ConfirmWallet :: "int \<Rightarrow> time \<Rightarrow> unit op" where
  "ConfirmWallet walletID cooldown = tx (
    call (query (\<lambda>now d. one_row (find (\<lambda>w. wlID w = walletID \<and> wlStatus w = WalletPending) (wallets d))))
      fail (\<lambda>w.
    call (supersede (wlUserID w) (wlNetwork w) (wlAsset w) WalletConfirmed) fail (\<lambda>_.
    exec (\<lambda>now d. Inr ((), d\<lparr>wallets := update_where (\<lambda>w. wlID w = walletID)
      (\<lambda>w. w\<lparr>wlStatus := WalletConfirmed, wlConfirmedAt := Some now, wlEligibleAt := Some (now + cooldown)\<rparr>)
      (wallets d)\<rparr>)))))"

definition GetWallet :: "int \<Rightarrow> wallet op" where
  "GetWallet rid = query (\<lambda>now d. one_row (find (\<lambda>w. wlID w = rid) (wallets d)))"

definition GetConfirmedWallet :: "int \<Rightarrow> string \<Rightarrow> string \<Rightarrow> wallet op" where
  "GetConfirmedWallet userID network asset = query (\<lambda>now d. one_row
    (find (\<lambda>w. same_slot userID network asset w \<and> wlStatus w = WalletConfirmed) (wallets d)))"

definition IsPayoutEligible :: "wallet \<Rightarrow> time \<Rightarrow> bool" where
  "IsPayoutEligible w now \<longleftrightarrow> wlStatus w = WalletConfirmed
    \<and> (case wlEligibleAt w of None \<Rightarrow> False | Some t \<Rightarrow> \<not> now < t)"

section \<open>Payouts\<close>

definition CreatePayout ::
  "int \<Rightarrow> int \<Rightarrow> int \<Rightarrow> string \<Rightarrow> string \<Rightarrow> string \<Rightarrow> payout_status \<Rightarrow> int op" where
  "CreatePayout sellerID walletID amountMinor currency network asset initialStatus =
    insert_row TPayouts (\<lambda>i now d. Inr (i, d\<lparr>payouts := payouts d @
      [\<lparr>poID = i, poSellerID = sellerID, poWalletID = walletID, poAmountMinor = amountMinor,
        poCurrency = currency, poNetwork = network, poAsset = asset, poStatus = initialStatus,
        poTxHash = [], poReviewedBy = None, poCreatedAt = now, poExecutedAt = None\<rparr>]\<rparr>))"

text \<open>\<^verbatim>\<open>ORDER BY created_at DESC LIMIT n\<close>; PostgreSQL refuses a negative limit.\<close>

definition newest_payouts :: "int \<Rightarrow> payout list \<Rightarrow> payout list" where
  "newest_payouts lim ps = take (nat lim) (sort_key (\<lambda>p. - poCreatedAt p) ps)"

definition ListPayoutsByStatus :: "payout_status \<Rightarrow> int \<Rightarrow> payout list op" where
  "ListPayoutsByStatus status lim = query (\<lambda>now d. if lim < 0 then Inl ErrFault
    else Inr (newest_payouts lim (filter (\<lambda>p. poStatus p = status) (payouts d))))"

definition ListPayoutsBySeller :: "int \<Rightarrow> int \<Rightarrow> payout list op" where
  "ListPayoutsBySeller sellerID lim = query (\<lambda>now d. if lim < 0 then Inl ErrFault
    else Inr (newest_payouts lim (filter (\<lambda>p. poSellerID p = sellerID) (payouts d))))"

definition GetPayout :: "int \<Rightarrow> payout op" where
  "GetPayout rid = query (\<lambda>now d. one_row (find (\<lambda>p. poID p = rid) (payouts d)))"

definition set_payout_status :: "payout_status \<Rightarrow> int option \<Rightarrow> string \<Rightarrow> time \<Rightarrow> payout \<Rightarrow> payout" where
  "set_payout_status to reviewedBy txHash now p = p\<lparr>poStatus := to,
    poReviewedBy := (case reviewedBy of None \<Rightarrow> poReviewedBy p | Some r \<Rightarrow> Some r),
    poTxHash := (if txHash \<noteq> [] then txHash else poTxHash p),
    poExecutedAt := (if to = PayoutCompleted then Some now else poExecutedAt p)\<rparr>"

definition TransitionPayout ::
  "int \<Rightarrow> payout_status \<Rightarrow> payout_status \<Rightarrow> int option \<Rightarrow> string \<Rightarrow> unit op" where
  "TransitionPayout rid from to reviewedBy txHash =
    guarded_update payouts (\<lambda>rows d. d\<lparr>payouts := rows\<rparr>)
      (\<lambda>p. poID p = rid \<and> poStatus p = from) (set_payout_status to reviewedBy txHash)"

definition PayoutsPaused :: "bool op" where
  "PayoutsPaused = query (\<lambda>now d. Inr (case map_of (platform_settings d) ''payouts_paused'' of
      None \<Rightarrow> False | Some v \<Rightarrow> v = ''true''))"

definition SetPayoutsPaused :: "bool \<Rightarrow> unit op" where
  "SetPayoutsPaused paused = exec (\<lambda>now d. Inr ((), d\<lparr>platform_settings :=
    AList.update ''payouts_paused'' (if paused then ''true'' else ''false'') (platform_settings d)\<rparr>))"

section \<open>One-time tokens\<close>

text \<open>\<^verbatim>\<open>auth_tokens_kind_check\<close> admits two kinds; no later migration adds one.\<close>

definition auth_token_kinds :: "string list" where
  "auth_token_kinds = [TokenEmailVerification, TokenPasswordReset]"

definition CreateAuthToken :: "int \<Rightarrow> string \<Rightarrow> string \<Rightarrow> time \<Rightarrow> int op" where
  "CreateAuthToken userID kind tokenHash ttl = insert_row TAuthTokens (\<lambda>i now d.
    if kind \<notin> set auth_token_kinds then Inl (ErrCheckViolation ''auth_tokens_kind_check'')
    else if length tokenHash \<noteq> 64 then Inl (ErrCheckViolation ''auth_tokens_hash_format'')
    else if \<exists>t\<in>set (auth_tokens d). tkTokenHash t = tokenHash then Inl ErrUniqueViolation
    else Inr (i, d\<lparr>auth_tokens := auth_tokens d @
      [\<lparr>tkID = i, tkUserID = userID, tkKind = kind, tkTokenHash = tokenHash,
        tkExpiresAt = now + ttl, tkUsedAt = None, tkCreatedAt = now\<rparr>]\<rparr>))"

definition GetAuthToken :: "string \<Rightarrow> string \<Rightarrow> auth_token op" where
  "GetAuthToken kind tokenHash = query (\<lambda>now d. one_row
    (find (\<lambda>t. tkKind t = kind \<and> tkTokenHash t = tokenHash \<and> tkUsedAt t = None \<and> tkExpiresAt t > now)
      (auth_tokens d)))"

definition UseAuthToken :: "int \<Rightarrow> unit op" where
  "UseAuthToken rid = exec (\<lambda>now d. Inr ((), d\<lparr>auth_tokens :=
    update_where (\<lambda>t. tkID t = rid \<and> tkUsedAt t = None) (\<lambda>t. t\<lparr>tkUsedAt := Some now\<rparr>) (auth_tokens d)\<rparr>))"

definition DeleteExpiredAuthTokens :: "int op" where
  "DeleteExpiredAuthTokens = exec (\<lambda>now d.
    let gone = (\<lambda>t. tkExpiresAt t < now \<or> tkUsedAt t \<noteq> None) in
    Inr (int (length (filter gone (auth_tokens d))),
      d\<lparr>auth_tokens := filter (\<lambda>t. \<not> gone t) (auth_tokens d)\<rparr>))"

section \<open>Interpretations and lemmas\<close>

interpretation payout_cas: compare_and_set payouts poID poStatus
    "\<lambda>(f, t, by, h). f" "\<lambda>(f, t, by, h). t" "\<lambda>(f, t, by, h). set_payout_status t by h"
    "\<lambda>i (f, t, by, h). TransitionPayout i f t by h"
  by unfold_locales (unfold TransitionPayout_def,
    auto simp: set_payout_status_def dest!: guarded_update_ok dest: guarded_update_fail
      intro!: guarded_update_absent)

text \<open>At most one wallet of a slot is pending and at most one is confirmed.\<close>

definition slot_unique :: "wallet list \<Rightarrow> bool" where
  "slot_unique ws \<longleftrightarrow> (\<forall>st \<in> {WalletPending, WalletConfirmed}.
    distinct (map (\<lambda>w. (wlUserID w, wlNetwork w, wlAsset w)) (filter (\<lambda>w. wlStatus w = st) ws)))"

abbreviation slot :: "wallet \<Rightarrow> int \<times> string \<times> string" where
  "slot w \<equiv> (wlUserID w, wlNetwork w, wlAsset w)"

lemma same_slot_iff: "same_slot u n a w \<longleftrightarrow> slot w = (u, n, a)"
  by (simp add: same_slot_def)

lemma filter_update_away:
  "(\<And>w. st (f w) \<noteq> x) \<Longrightarrow> filter (\<lambda>w. st w = x) (update_where P f ws) = filter (\<lambda>w. st w = x \<and> \<not> P w) ws"
  by (induction ws) auto

lemma superseded_filter:
  "x \<noteq> WalletSuperseded \<Longrightarrow>
   filter (\<lambda>w. wlStatus w = x) (update_where (\<lambda>w. same_slot u n a w \<and> wlStatus w = old) (\<lambda>w. w\<lparr>wlStatus := WalletSuperseded\<rparr>) ws)
   = filter (\<lambda>w. wlStatus w = x \<and> \<not> (same_slot u n a w \<and> wlStatus w = old)) ws"
  by (rule filter_update_away) auto

lemma slot_unique_supersede:
  assumes "slot_unique ws"
  shows "slot_unique (update_where (\<lambda>w. same_slot u n a w \<and> wlStatus w = old)
      (\<lambda>w. w\<lparr>wlStatus := WalletSuperseded\<rparr>) ws)"
  unfolding slot_unique_def
proof
  fix st assume st: "st \<in> {WalletPending, WalletConfirmed}"
  let ?P = "\<lambda>w. \<not> (same_slot u n a w \<and> wlStatus w = old)"
  from st assms have "distinct (map slot (filter (\<lambda>w. wlStatus w = st) ws))" by (auto simp: slot_unique_def)
  then have "distinct (map slot (filter ?P (filter (\<lambda>w. wlStatus w = st) ws)))" by (rule distinct_map_filter)
  moreover have "filter ?P (filter (\<lambda>w. wlStatus w = st) ws) = filter (\<lambda>w. wlStatus w = st \<and> ?P w) ws"
    by (simp add: conj_commute)
  ultimately show "distinct (map slot (filter (\<lambda>w. wlStatus w = st)
      (update_where (\<lambda>w. same_slot u n a w \<and> wlStatus w = old) (\<lambda>w. w\<lparr>wlStatus := WalletSuperseded\<rparr>) ws)))"
    using st by (subst superseded_filter) auto
qed

lemma slot_unique_add_pending:
  assumes "slot_unique ws" "wlStatus w = WalletPending"
    "\<forall>v\<in>set ws. wlStatus v = WalletPending \<longrightarrow> slot v \<noteq> slot w"
  shows "slot_unique (ws @ [w])"
  using assms by (force simp: slot_unique_def)

end
