(* ===== verification/StoreAccounts.thy ===== *)
theory StoreAccounts
  imports StoreWallets "HOL-Library.List_Lexorder"
begin

text \<open>
  Accounts and the records around them: \<^verbatim>\<open>src/store/users.go\<close> (with the login lockout),
  \<^verbatim>\<open>sessions.go\<close>, \<^verbatim>\<open>notifications.go\<close>, \<^verbatim>\<open>audit.go\<close>, the seller records of
  \<^verbatim>\<open>sellers.go\<close>, and what the checkout reads of the catalog: \<^verbatim>\<open>catalog.go\<close> (gig detail) and
  \<^verbatim>\<open>draftorders.go\<close>.
\<close>

section \<open>Users\<close>

definition RoleBuyer :: string where "RoleBuyer = ''buyer''"
definition RoleSeller :: string where "RoleSeller = ''seller''"
definition RoleAdmin :: string where "RoleAdmin = ''admin''"
definition UserActive :: string where "UserActive = ''active''"

definition NormalizeEmail :: "string \<Rightarrow> string" where
  "NormalizeEmail email = to_lower (trim_space email)"

definition AddRole :: "int \<Rightarrow> string \<Rightarrow> unit op" where
  "AddRole rid role = exec (\<lambda>now d.
    if role \<notin> {RoleBuyer, RoleSeller, RoleAdmin} then Inl (ErrCheckViolation ''user_roles_role_check'')
    else Inr ((), if (rid, role) \<in> set (user_roles d) then d
      else d\<lparr>user_roles := user_roles d @ [(rid, role)]\<rparr>))"

definition RemoveRole :: "int \<Rightarrow> string \<Rightarrow> unit op" where
  "RemoveRole rid role = exec (\<lambda>now d.
    Inr ((), d\<lparr>user_roles := filter (\<lambda>r. r \<noteq> (rid, role)) (user_roles d)\<rparr>))"

definition UserHasRole :: "int \<Rightarrow> string \<Rightarrow> bool op" where
  "UserHasRole rid role = query (\<lambda>now d. Inr ((rid, role) \<in> set (user_roles d)))"

definition insert_user :: "string \<Rightarrow> string \<Rightarrow> string \<Rightarrow> string \<Rightarrow> int op" where
  "insert_user email passwordHash name locale = insert_row TUsers (\<lambda>i now d.
    if \<exists>u\<in>set (users d). uEmailLower u = NormalizeEmail email then Inl ErrUniqueViolation
    else Inr (i, d\<lparr>users := users d @
      [\<lparr>uID = i, uEmail = email, uEmailLower = NormalizeEmail email, uPasswordHash = passwordHash,
        uName = name, uLocale = locale, uStatus = UserActive, uEmailVerifiedAt = None,
        uTotpSecret = None, uTotpEnabled = False, uFailedLoginAttempts = 0, uLockedUntil = None,
        uLastLoginAt = None, uRestrictionReason = [], uCreatedAt = now\<rparr>]\<rparr>))"

text \<open>The user and its role are two statements without a transaction around them.\<close>

definition CreateUser :: "string \<Rightarrow> string \<Rightarrow> string \<Rightarrow> string \<Rightarrow> int op" where
  "CreateUser email passwordHash name locale =
    call (insert_user email passwordHash name (if locale = [] then ''en'' else locale))
      (\<lambda>e. fail (if e = ErrUniqueViolation then ErrEmailTaken else e))
      (\<lambda>i. call (AddRole i RoleBuyer) fail (\<lambda>_. ret i))"

definition GetUserByEmail :: "string \<Rightarrow> user op" where
  "GetUserByEmail email = query (\<lambda>now d. one_row (find (\<lambda>u. uEmailLower u = NormalizeEmail email) (users d)))"

definition GetUserByID :: "int \<Rightarrow> user op" where
  "GetUserByID rid = query (\<lambda>now d. one_row (find (\<lambda>u. uID u = rid) (users d)))"

definition update_user :: "int \<Rightarrow> (time \<Rightarrow> user \<Rightarrow> user) \<Rightarrow> unit op" where
  "update_user rid f = exec (\<lambda>now d. Inr ((), d\<lparr>users := update_where (\<lambda>u. uID u = rid) (f now) (users d)\<rparr>))"

definition SetEmailVerified :: "int \<Rightarrow> unit op" where
  "SetEmailVerified rid = update_user rid (\<lambda>now u. u\<lparr>uEmailVerifiedAt :=
    (case uEmailVerifiedAt u of None \<Rightarrow> Some now | Some t \<Rightarrow> Some t)\<rparr>)"

definition UpdateName :: "int \<Rightarrow> string \<Rightarrow> unit op" where
  "UpdateName rid name = update_user rid (\<lambda>now u. u\<lparr>uName := name\<rparr>)"

definition UpdateEmail :: "int \<Rightarrow> string \<Rightarrow> unit op" where
  "UpdateEmail rid email = exec (\<lambda>now d.
    if \<exists>u\<in>set (users d). uID u \<noteq> rid \<and> uEmailLower u = NormalizeEmail email
      \<and> (\<exists>v\<in>set (users d). uID v = rid) then Inl ErrEmailTaken
    else Inr ((), d\<lparr>users := update_where (\<lambda>u. uID u = rid)
      (\<lambda>u. u\<lparr>uEmail := email, uEmailLower := NormalizeEmail email, uEmailVerifiedAt := None\<rparr>) (users d)\<rparr>))"

definition UpdatePassword :: "int \<Rightarrow> string \<Rightarrow> unit op" where
  "UpdatePassword rid passwordHash = update_user rid (\<lambda>now u. u\<lparr>uPasswordHash := passwordHash\<rparr>)"

definition SetTOTP :: "int \<Rightarrow> string \<Rightarrow> unit op" where
  "SetTOTP rid secret = exec (\<lambda>now d.
    if length secret < 16 \<and> (\<exists>u\<in>set (users d). uID u = rid)
    then Inl (ErrCheckViolation ''users_totp_secret_format'')
    else Inr ((), d\<lparr>users := update_where (\<lambda>u. uID u = rid)
      (\<lambda>u. u\<lparr>uTotpSecret := Some secret, uTotpEnabled := True\<rparr>) (users d)\<rparr>))"

definition GetTOTPSecret :: "int \<Rightarrow> string op" where
  "GetTOTPSecret rid = query (\<lambda>now d. case find (\<lambda>u. uID u = rid) (users d) of
      None \<Rightarrow> Inl ErrNoRows
    | Some u \<Rightarrow> Inr (case uTotpSecret u of None \<Rightarrow> [] | Some x \<Rightarrow> x))"

definition DisableTOTP :: "int \<Rightarrow> unit op" where
  "DisableTOTP rid = update_user rid (\<lambda>now u. u\<lparr>uTotpSecret := None, uTotpEnabled := False\<rparr>)"

definition SetLastLogin :: "int \<Rightarrow> unit op" where
  "SetLastLogin rid = update_user rid (\<lambda>now u. u\<lparr>uLastLoginAt := Some now,
    uFailedLoginAttempts := 0, uLockedUntil := None\<rparr>)"

definition RecordLoginFailure :: "int \<Rightarrow> int \<Rightarrow> time \<Rightarrow> unit op" where
  "RecordLoginFailure rid maxAttempts lockout = update_user rid (\<lambda>now u. u\<lparr>
    uFailedLoginAttempts := uFailedLoginAttempts u + 1,
    uLockedUntil := (if uFailedLoginAttempts u + 1 \<ge> maxAttempts then Some (now + lockout) else uLockedUntil u)\<rparr>)"

definition ResetLoginFailures :: "int \<Rightarrow> unit op" where
  "ResetLoginFailures rid = update_user rid (\<lambda>now u. u\<lparr>uFailedLoginAttempts := 0, uLockedUntil := None\<rparr>)"

definition LoginBlocked :: "user \<Rightarrow> time \<Rightarrow> bool" where
  "LoginBlocked u now \<longleftrightarrow> (case uLockedUntil u of None \<Rightarrow> False | Some t \<Rightarrow> t > now)"

section \<open>Sessions\<close>

definition insert_session :: "int option \<Rightarrow> string \<Rightarrow> string \<Rightarrow> time \<Rightarrow> string \<Rightarrow> string \<Rightarrow> int op" where
  "insert_session userID tokenHash csrf ttl userAgent ip = insert_row TSessions (\<lambda>i now d.
    if length tokenHash \<noteq> 64 then Inl (ErrCheckViolation ''sessions_token_hash_format'')
    else if length csrf < 16 then Inl (ErrCheckViolation ''sessions_csrf_format'')
    else if \<exists>x\<in>set (sessions d). seTokenHash x = tokenHash then Inl ErrUniqueViolation
    else Inr (i, d\<lparr>sessions := sessions d @
      [\<lparr>seID = i, seUserID = userID, seTokenHash = tokenHash, seCSRF = csrf, seExpiresAt = now + ttl,
        seUserAgent = userAgent, seIP = ip, seRevokedAt = None, seLastSeen = now, seFlash = None\<rparr>]\<rparr>))"

definition CreateSession :: "int option \<Rightarrow> string \<Rightarrow> string \<Rightarrow> time \<Rightarrow> string \<Rightarrow> string \<Rightarrow> int op" where
  "CreateSession userID tokenHash csrf ttl userAgent ip =
    (if csrf = [] then fail ErrCSRFRequired else insert_session userID tokenHash csrf ttl userAgent ip)"

definition GetSessionByToken :: "string \<Rightarrow> session op" where
  "GetSessionByToken tokenHash = query (\<lambda>now d. one_row
    (find (\<lambda>x. seTokenHash x = tokenHash \<and> seRevokedAt x = None \<and> seExpiresAt x > now) (sessions d)))"

definition GetSessionByID :: "int \<Rightarrow> session op" where
  "GetSessionByID rid = query (\<lambda>now d. one_row (find (\<lambda>x. seID x = rid) (sessions d)))"

definition update_session :: "(session \<Rightarrow> bool) \<Rightarrow> (time \<Rightarrow> session \<Rightarrow> session) \<Rightarrow> unit op" where
  "update_session P f = exec (\<lambda>now d. Inr ((), d\<lparr>sessions := update_where P (f now) (sessions d)\<rparr>))"

definition TouchSession :: "int \<Rightarrow> unit op" where
  "TouchSession rid = update_session (\<lambda>x. seID x = rid) (\<lambda>now x. x\<lparr>seLastSeen := now\<rparr>)"

definition AttachSessionUser :: "int \<Rightarrow> int \<Rightarrow> unit op" where
  "AttachSessionUser sessionID userID = update_session (\<lambda>x. seID x = sessionID) (\<lambda>now x. x\<lparr>seUserID := Some userID\<rparr>)"

definition RotateSession :: "int \<Rightarrow> int \<Rightarrow> string \<Rightarrow> string \<Rightarrow> time \<Rightarrow> string \<Rightarrow> string \<Rightarrow> int op" where
  "RotateSession oldSessionID userID tokenHash csrf ttl userAgent ip = tx (
    call (update_session (\<lambda>x. seID x = oldSessionID \<and> seRevokedAt x = None) (\<lambda>now x. x\<lparr>seRevokedAt := Some now\<rparr>)) fail
    (\<lambda>_. insert_session (Some userID) tokenHash csrf ttl userAgent ip))"

definition RevokeSession :: "int \<Rightarrow> unit op" where
  "RevokeSession rid = guarded_update sessions (\<lambda>rows d. d\<lparr>sessions := rows\<rparr>)
    (\<lambda>x. seID x = rid \<and> seRevokedAt x = None) (\<lambda>now x. x\<lparr>seRevokedAt := Some now\<rparr>)"

definition RevokeUserSessions :: "int \<Rightarrow> int \<Rightarrow> unit op" where
  "RevokeUserSessions userID exceptID = update_session
    (\<lambda>x. seUserID x = Some userID \<and> seID x \<noteq> exceptID \<and> seRevokedAt x = None) (\<lambda>now x. x\<lparr>seRevokedAt := Some now\<rparr>)"

definition SetFlash :: "int \<Rightarrow> flash option \<Rightarrow> unit op" where
  "SetFlash sessionID fl = update_session (\<lambda>x. seID x = sessionID) (\<lambda>now x. x\<lparr>seFlash := fl\<rparr>)"

definition ConsumeFlash :: "int \<Rightarrow> flash option op" where
  "ConsumeFlash sessionID = exec (\<lambda>now d. case find (\<lambda>x. seID x = sessionID) (sessions d) of
      None \<Rightarrow> Inl ErrNoRows
    | Some x \<Rightarrow> Inr (seFlash x, d\<lparr>sessions := update_where (\<lambda>x. seID x = sessionID)
        (\<lambda>x. x\<lparr>seFlash := None\<rparr>) (sessions d)\<rparr>))"

definition sevenDays :: time where "sevenDays = 7 * 24 * 3600 * second"

definition DeleteExpiredSessions :: "int op" where
  "DeleteExpiredSessions = exec (\<lambda>now d.
    let gone = (\<lambda>x. seExpiresAt x < now \<or> (seRevokedAt x \<noteq> None \<and> seLastSeen x < now - sevenDays)) in
    Inr (int (length (filter gone (sessions d))), d\<lparr>sessions := filter (\<lambda>x. \<not> gone x) (sessions d)\<rparr>))"

section \<open>Notifications and the audit log\<close>

definition CreateNotification :: "int \<Rightarrow> string \<Rightarrow> string \<Rightarrow> string \<Rightarrow> notification op" where
  "CreateNotification userID kind body link = insert_row TNotifications (\<lambda>i now d.
    let n = \<lparr>ntID = i, ntUserID = userID, ntKind = kind, ntBody = body, ntLink = link,
      ntReadAt = None, ntCreatedAt = now\<rparr>
    in Inr (n, d\<lparr>notifications := notifications d @ [n]\<rparr>))"

definition ListNotifications :: "int \<Rightarrow> int \<Rightarrow> int \<Rightarrow> (notification list \<times> int) op" where
  "ListNotifications userID page perPage =
    (let page' = (if page < 1 then 1 else page);
         perPage' = (if perPage < 1 \<or> perPage > 100 then 20 else perPage);
         offset = wrap64 ((page' - 1) * perPage') in
     query (\<lambda>now d.
       let all = sort_key (\<lambda>n. - ntCreatedAt n) (filter (\<lambda>n. ntUserID n = userID) (notifications d));
           out = page_of offset perPage' all in
       if offset < 0 then Inl ErrFault else Inr (out, if out = [] then 0 else int (length all))))"

definition CountUnreadNotifications :: "int \<Rightarrow> int op" where
  "CountUnreadNotifications userID = query (\<lambda>now d.
    Inr (int (length (filter (\<lambda>n. ntUserID n = userID \<and> ntReadAt n = None) (notifications d)))))"

definition MarkAllNotificationsRead :: "int \<Rightarrow> unit op" where
  "MarkAllNotificationsRead userID = exec (\<lambda>now d. Inr ((), d\<lparr>notifications :=
    update_where (\<lambda>n. ntUserID n = userID \<and> ntReadAt n = None) (\<lambda>n. n\<lparr>ntReadAt := Some now\<rparr>) (notifications d)\<rparr>))"

definition LogAction :: "int option \<Rightarrow> string \<Rightarrow> string \<Rightarrow> string \<Rightarrow> unit op" where
  "LogAction actor action entityType entityID = exec (\<lambda>now d. Inr ((), d\<lparr>audit_log := audit_log d @
    [\<lparr>auActor = actor, auAction = action, auEntityType = entityType, auEntityID = entityID, auCreatedAt = now\<rparr>]\<rparr>))"

section \<open>Sellers\<close>

definition GetSellerProfile :: "int \<Rightarrow> seller_profile op" where
  "GetSellerProfile userID = query (\<lambda>now d. one_row (find (\<lambda>p. spUserID p = userID) (seller_profiles d)))"

definition UpsertSellerProfile :: "int \<Rightarrow> string \<Rightarrow> string \<Rightarrow> string \<Rightarrow> unit op" where
  "UpsertSellerProfile userID displayName bio location = exec (\<lambda>now d. Inr ((), d\<lparr>seller_profiles :=
    (if \<exists>p\<in>set (seller_profiles d). spUserID p = userID
     then update_where (\<lambda>p. spUserID p = userID)
       (\<lambda>p. p\<lparr>spDisplayName := displayName, spBio := bio, spLocation := location, spUpdatedAt := now\<rparr>) (seller_profiles d)
     else seller_profiles d @ [\<lparr>spUserID = userID, spDisplayName = displayName, spBio = bio,
       spLocation = location, spRatingAvg = 0, spRatingCount = 0, spUpdatedAt = now\<rparr>])\<rparr>))"

definition EnsureSellerOnboarding :: "int \<Rightarrow> unit op" where
  "EnsureSellerOnboarding userID = exec (\<lambda>now d. Inr ((),
    if \<exists>b\<in>set (seller_onboardings d). obUserID b = userID then d
    else d\<lparr>seller_onboardings := seller_onboardings d @ [\<lparr>obUserID = userID, obKYCState = ''not_started'',
      obStripeAccountID = [], obChargesEnabled = False, obPayoutsEnabled = False, obReviewedAt = None\<rparr>]\<rparr>))"

definition GetSellerOnboarding :: "int \<Rightarrow> seller_onboarding op" where
  "GetSellerOnboarding userID = query (\<lambda>now d. one_row (find (\<lambda>b. obUserID b = userID) (seller_onboardings d)))"

text \<open>\<^verbatim>\<open>idx_seller_onboarding_stripe_account\<close> keeps a non-empty account on one seller.\<close>

definition SetStripeAccount :: "int \<Rightarrow> string \<Rightarrow> unit op" where
  "SetStripeAccount userID accountID = exec (\<lambda>now d.
    if accountID \<noteq> [] \<and> (\<exists>b\<in>set (seller_onboardings d). obUserID b = userID)
      \<and> (\<exists>b\<in>set (seller_onboardings d). obUserID b \<noteq> userID \<and> obStripeAccountID b = accountID)
    then Inl ErrUniqueViolation
    else Inr ((), d\<lparr>seller_onboardings := update_where (\<lambda>b. obUserID b = userID)
      (\<lambda>b. b\<lparr>obStripeAccountID := accountID\<rparr>) (seller_onboardings d)\<rparr>))"

definition SetStripeAccountCapabilities :: "string \<Rightarrow> bool \<Rightarrow> bool \<Rightarrow> unit op" where
  "SetStripeAccountCapabilities accountID charges payoutsOn = exec (\<lambda>now d. Inr ((), d\<lparr>seller_onboardings :=
    update_where (\<lambda>b. obStripeAccountID b = accountID)
      (\<lambda>b. b\<lparr>obChargesEnabled := charges, obPayoutsEnabled := payoutsOn\<rparr>) (seller_onboardings d)\<rparr>))"

section \<open>Catalog and drafts\<close>

definition GigActive :: string where "GigActive = ''active''"

definition tier_rank :: "gig_package \<Rightarrow> int" where
  "tier_rank p = (if gpTier p = ''basic'' then 1 else if gpTier p = ''standard'' then 2 else 3)"

text \<open>\<^verbatim>\<open>ORDER BY\<close> a text column, in the C collation.\<close>

definition order_text :: "('r \<Rightarrow> string) \<Rightarrow> 'r list \<Rightarrow> 'r list" where
  "order_text key rows = sort_key (\<lambda>r. map (of_char :: char \<Rightarrow> nat) (key r)) rows"

definition tag_names :: "db \<Rightarrow> int \<Rightarrow> string list" where
  "tag_names d gigID = map tgName (order_text tgName
    (filter (\<lambda>t. (gigID, tgID t) \<in> set (gig_tags d)) (tags d)))"

text \<open>A query whose failure the code ignores: it reads the zero value then.\<close>

definition read_or :: "'a \<Rightarrow> 'a op \<Rightarrow> ('a \<Rightarrow> 'b op) \<Rightarrow> 'b op" where
  "read_or zero m k = call m (\<lambda>_. k zero) k"

text \<open>The detail queries: a failing category, seller name or seller profile query is ignored, a
  failing package, add-on, media or tag query fails the call.\<close>

definition loadGigDetail :: "gig \<Rightarrow> gig_detail op" where
  "loadGigDetail g =
    read_or [] (case gCategoryID g of None \<Rightarrow> ret []
      | Some c \<Rightarrow> query (\<lambda>now d. map_sum id ctName (one_row (find (\<lambda>x. ctID x = c) (categories d))))) (\<lambda>category.
    call (query (\<lambda>now d. Inr (sort_key tier_rank (filter (\<lambda>p. gpGigID p = gID g) (gig_packages d))))) fail (\<lambda>pkgs.
    call (query (\<lambda>now d. Inr (sort_key gaPosition (filter (\<lambda>a. gaGigID a = gID g) (gig_addons d))))) fail (\<lambda>adds.
    call (query (\<lambda>now d. Inr (sort_key gmPosition (filter (\<lambda>m. gmGigID m = gID g) (gig_media d))))) fail (\<lambda>media.
    call (query (\<lambda>now d. Inr (tag_names d (gID g)))) fail (\<lambda>names.
    read_or [] (query (\<lambda>now d. map_sum id uName (one_row (find (\<lambda>u. uID u = gSellerID g) (users d))))) (\<lambda>userName.
    read_or None (query (\<lambda>now d. map_sum id Some
      (one_row (find (\<lambda>p. spUserID p = gSellerID g) (seller_profiles d))))) (\<lambda>profile.
    ret \<lparr>gdGig = g, gdCategoryName = category, gdPackages = pkgs, gdAddons = adds, gdMedia = media, gdTags = names,
      gdSeller = \<lparr>ssUserID = gSellerID g, ssName = userName,
        ssDisplayName = (case profile of None \<Rightarrow> [] | Some p \<Rightarrow> spDisplayName p),
        ssRatingAvg = (case profile of None \<Rightarrow> 0 | Some p \<Rightarrow> spRatingAvg p),
        ssRatingCount = (case profile of None \<Rightarrow> 0 | Some p \<Rightarrow> spRatingCount p)\<rparr>\<rparr>)))))))"

definition publicly_visible :: "gig \<Rightarrow> bool" where
  "publicly_visible g \<longleftrightarrow> gStatus g = GigActive \<and> gModerationState g = ModerationApproved"

definition GetGigBySlug :: "string \<Rightarrow> gig_detail op" where
  "GetGigBySlug slug = call (query (\<lambda>now d. one_row
    (find (\<lambda>g. gSlug g = slug \<and> publicly_visible g) (gigs d)))) fail loadGigDetail"

definition GetGigByID :: "int \<Rightarrow> gig_detail op" where
  "GetGigByID gigID = call (query (\<lambda>now d. one_row
    (find (\<lambda>g. gID g = gigID \<and> publicly_visible g) (gigs d)))) fail loadGigDetail"

definition GetGigBasic :: "int \<Rightarrow> gig op" where
  "GetGigBasic gigID = query (\<lambda>now d. one_row (find (\<lambda>g. gID g = gigID) (gigs d)))"

record draft_detail = ddDraft :: draft_order ddAddonIDs :: "int list"

definition UpsertDraftOrder :: "int \<Rightarrow> int \<Rightarrow> int \<Rightarrow> draft_order op" where
  "UpsertDraftOrder buyerID gigID packageID = tx (
    call (insert_row TDraftOrders (\<lambda>i now d.
      case find (\<lambda>f. dfBuyerID f = buyerID \<and> dfGigID f = gigID) (draft_orders d) of
        Some f \<Rightarrow> (let f' = f\<lparr>dfPackageID := packageID, dfUpdatedAt := now\<rparr> in
          Inr (f', d\<lparr>draft_orders := update_where (\<lambda>r. dfBuyerID r = buyerID \<and> dfGigID r = gigID)
            (\<lambda>r. r\<lparr>dfPackageID := packageID, dfUpdatedAt := now\<rparr>) (draft_orders d)\<rparr>))
      | None \<Rightarrow> (let f = \<lparr>dfID = i, dfBuyerID = buyerID, dfGigID = gigID, dfPackageID = packageID,
            dfRequirements = [], dfCreatedAt = now, dfUpdatedAt = now\<rparr> in
          Inr (f, d\<lparr>draft_orders := draft_orders d @ [f]\<rparr>)))) fail
    (\<lambda>f. call (exec (\<lambda>now d. Inr ((), d\<lparr>draft_addons := filter (\<lambda>r. fst r \<noteq> dfID f) (draft_addons d)\<rparr>))) fail
    (\<lambda>_. ret f)))"

definition loadDraftOrder :: "(draft_order \<Rightarrow> bool) \<Rightarrow> draft_detail op" where
  "loadDraftOrder P = call (query (\<lambda>now d. one_row (find P (draft_orders d)))) fail
    (\<lambda>f. call (query (\<lambda>now d. Inr (map snd (filter (\<lambda>r. fst r = dfID f) (draft_addons d))))) fail
    (\<lambda>ids. ret \<lparr>ddDraft = f, ddAddonIDs = ids\<rparr>))"

definition GetDraftOrder :: "int \<Rightarrow> int \<Rightarrow> draft_detail op" where
  "GetDraftOrder buyerID gigID = loadDraftOrder (\<lambda>f. dfBuyerID f = buyerID \<and> dfGigID f = gigID)"

definition GetDraftOrderByID :: "int \<Rightarrow> draft_detail op" where
  "GetDraftOrderByID rid = loadDraftOrder (\<lambda>f. dfID f = rid)"

definition add_draft_addon :: "int \<Rightarrow> int \<Rightarrow> unit op" where
  "add_draft_addon draftID addonID = exec (\<lambda>now d. Inr ((),
    if (draftID, addonID) \<in> set (draft_addons d) then d
    else d\<lparr>draft_addons := draft_addons d @ [(draftID, addonID)]\<rparr>))"

definition SetDraftOrderRequirements :: "int \<Rightarrow> string \<Rightarrow> int list \<Rightarrow> unit op" where
  "SetDraftOrderRequirements draftID requirements addonIDs = tx (
    call (exec (\<lambda>now d. Inr ((), d\<lparr>draft_orders := update_where (\<lambda>f. dfID f = draftID)
      (\<lambda>f. f\<lparr>dfRequirements := requirements, dfUpdatedAt := now\<rparr>) (draft_orders d)\<rparr>))) fail (\<lambda>_.
    call (exec (\<lambda>now d. Inr ((), d\<lparr>draft_addons := filter (\<lambda>r. fst r \<noteq> draftID) (draft_addons d)\<rparr>))) fail (\<lambda>_.
    each (add_draft_addon draftID) addonIDs)))"

definition DeleteDraftOrder :: "int \<Rightarrow> unit op" where
  "DeleteDraftOrder rid = delete_draft rid"

end
