(* ===== verification/HandlersBase.thy ===== *)
theory HandlersBase
  imports StoreAccounts
begin

text \<open>
  What every HTTP handler of \<^verbatim>\<open>src/handlers\<close> uses: the request as the handlers read it, the
  response, the configuration, authentication (\<^verbatim>\<open>middleware.go\<close>), the flash messages, the audit
  trail and the notifications, whose failures are logged and never reach the caller.  Parsing a
  form or an upload can fail; storing an uploaded file (a file-system operation) and drawing random
  tokens have their outcome in the request.  A page is its status and title.
\<close>

section \<open>Requests and responses\<close>

datatype upload_error = UnsupportedMediaType | FileTooLarge | SuspiciousContent | StorageFailure
datatype upload = NoFile | BadFile upload_error | StoredFile string string

record request =
  rqMethod :: string
  rqURLPath :: string
  rqCookie :: "string option"
  rqUserAgent :: string
  rqIP :: string
  rqToken :: "(string \<times> string) option"
  rqNewCSRF :: "string option"
  rqSalt :: "nat list option"
  rqMailToken :: "(string \<times> string) option"
  rqLoginToken :: "(string \<times> string) option"
  rqLoginCSRF :: "string option"
  rqTOTPSeed :: "nat list option"
  rqSlugBytes :: "nat \<Rightarrow> nat list option"
  rqPath :: "string \<Rightarrow> string"
  rqForm :: "string \<Rightarrow> string"
  rqFormAll :: "string \<Rightarrow> string list"
  rqQuery :: "string \<Rightarrow> string"
  rqParseForm :: bool
  rqParseMultipart :: bool
  rqFile :: "string \<Rightarrow> upload"
  rqSession :: "session option"
  rqUser :: "user option"

text \<open>The cells of an export; a time is written in the format of RFC 3339.\<close>

datatype csv_cell = CSVText string | CSVTime time

datatype response =
    Redirect string
  | SignIn string string
  | SignOut string
  | HttpError nat
  | NotFoundPage
  | InternalError
  | Page nat string
  | FileResponse string
  | PlainText string
  | CSVFile "csv_cell list list"
  | Accepted

type_synonym handler = "world \<Rightarrow> response \<times> world"

record config =
  cfgPaymentsEnabled :: bool
  cfgPlatformFeeBps :: int
  cfgBaseURL :: string
  cfgSessionTTL :: time
  cfgAuthTokenTTL :: time
  cfgWalletChangeCooldown :: time
  cfgAutoAcceptAfter :: time
  cfgMaintenanceInterval :: time
  cfgPaymentReconcileInterval :: time
  cfgJobMaxAttempts :: int
  cfgPrivateStorageRoot :: string
  cfgAuthRateLimit :: int
  cfgAuthRateWindow :: time
  cfgMaxLoginAttempts :: int
  cfgLoginLockout :: time
  cfgTOTPSkew :: int

definition renderError :: handler where "renderError = reply InternalError"

section \<open>Mail\<close>

text \<open>\<^verbatim>\<open>Mailer.Send\<close>: the mail leaves, and the server takes it or not.\<close>

type_synonym mailer = "string \<Rightarrow> string \<Rightarrow> string \<Rightarrow> error option"

definition Send :: "mailer \<Rightarrow> string \<Rightarrow> string \<Rightarrow> string \<Rightarrow> unit op" where
  "Send mailer receiver subject body = also_do (send_call (MailCall receiver subject body))
    (case mailer receiver subject body of None \<Rightarrow> ret () | Some e \<Rightarrow> fail e)"

section \<open>Rendering\<close>

text \<open>Rendering a page reads the unread count and the roles of the viewer and consumes the flash of
  the session; failures of these are ignored.\<close>

definition viewUser :: "request \<Rightarrow> unit op" where
  "viewUser r = (case rqUser r of None \<Rightarrow> ret ()
    | Some u \<Rightarrow> also_do (CountUnreadNotifications (uID u))
        (also_do (query (\<lambda>now d. Inr (map snd (filter (\<lambda>x. fst x = uID u) (user_roles d))))) (ret ())))"

definition render :: "request \<Rightarrow> nat \<Rightarrow> string \<Rightarrow> handler" where
  "render r status title = also_do (viewUser r)
    (case rqSession r of
       None \<Rightarrow> reply (Page status title)
     | Some se \<Rightarrow> also_do (ConsumeFlash (seID se)) (reply (Page status title)))"

definition notFound :: "request \<Rightarrow> handler" where
  "notFound r = also_do (render r 404 ''Page not found'') (reply NotFoundPage)"

section \<open>Effects that never fail the request\<close>

definition set_flash :: "request \<Rightarrow> string \<Rightarrow> string \<Rightarrow> unit op" where
  "set_flash r kind message = (case rqSession r of
      None \<Rightarrow> ret ()
    | Some se \<Rightarrow> also_do (SetFlash (seID se) (Some \<lparr>flashKind = kind, flashText = message\<rparr>)) (ret ()))"

definition flashError :: "request \<Rightarrow> string \<Rightarrow> unit op" where
  "flashError r message = set_flash r ''error'' message"

definition flashNotice :: "request \<Rightarrow> string \<Rightarrow> unit op" where
  "flashNotice r message = set_flash r ''success'' message"

definition flash_redirect :: "request \<Rightarrow> string \<Rightarrow> string \<Rightarrow> handler" where
  "flash_redirect r message url = also_do (flashError r message) (reply (Redirect url))"

definition audit :: "int option \<Rightarrow> string \<Rightarrow> string \<Rightarrow> string \<Rightarrow> unit op" where
  "audit actor action entityType entityID = also_do (LogAction actor action entityType entityID) (ret ())"

definition notificationEmailJobKind :: string where
  "notificationEmailJobKind = ''notification.email''"

definition notify :: "int \<Rightarrow> string \<Rightarrow> string \<Rightarrow> string \<Rightarrow> unit op" where
  "notify userID kind body link =
    call (CreateNotification userID kind body link) (\<lambda>_. ret ())
      (\<lambda>_. also_do (EnqueueJob notificationEmailJobKind (EmailPayload userID body link) None 3) (ret ()))"

section \<open>Sessions of requests\<close>

text \<open>\<^verbatim>\<open>ensureSession\<close>: the session of the request, or a new anonymous one; the handler goes on
  with the request that carries it.\<close>

definition ensureSession :: "config \<Rightarrow> request \<Rightarrow> (error \<Rightarrow> handler) \<Rightarrow> (session \<Rightarrow> request \<Rightarrow> handler) \<Rightarrow> handler" where
  "ensureSession cfg r h k = (case rqSession r of
      Some se \<Rightarrow> k se r
    | None \<Rightarrow> (case (rqToken r, rqNewCSRF r) of
        (Some (raw, hash), Some csrf) \<Rightarrow>
          call (CreateSession None hash csrf (cfgSessionTTL cfg) (rqUserAgent r) (rqIP r)) h
          (\<lambda>i. call get_now h (\<lambda>now.
            let se = \<lparr>seID = i, seUserID = None, seTokenHash = hash, seCSRF = csrf,
                seExpiresAt = now + cfgSessionTTL cfg, seUserAgent = rqUserAgent r, seIP = rqIP r,
                seRevokedAt = None, seLastSeen = 0, seFlash = None\<rparr> in
            k se (r\<lparr>rqSession := Some se\<rparr>)))
      | _ \<Rightarrow> h ErrFault))"

section \<open>Middleware\<close>

definition withSession :: "(string \<Rightarrow> string) \<Rightarrow> (request \<Rightarrow> handler) \<Rightarrow> request \<Rightarrow> handler" where
  "withSession hashToken next_handler r = (case rqCookie r of
      None \<Rightarrow> next_handler r
    | Some cookie \<Rightarrow> call (GetSessionByToken (hashToken cookie)) (\<lambda>_. next_handler r)
        (\<lambda>se. let r' = r\<lparr>rqSession := Some se\<rparr> in
          case seUserID se of
            None \<Rightarrow> next_handler r'
          | Some i \<Rightarrow> call (GetUserByID i) (\<lambda>_. next_handler r')
              (\<lambda>u. next_handler (r'\<lparr>rqUser := Some u\<rparr>))))"

definition VerifyCSRF :: "string \<Rightarrow> string \<Rightarrow> bool" where
  "VerifyCSRF submitted stored = (if submitted = [] \<or> stored = [] then False else submitted = stored)"

definition safe_methods :: "string list" where
  "safe_methods = [''GET'', ''HEAD'', ''OPTIONS'', ''TRACE'']"

definition withCSRF :: "(request \<Rightarrow> handler) \<Rightarrow> request \<Rightarrow> handler" where
  "withCSRF next_handler r =
    (if rqMethod r \<in> set safe_methods then next_handler r
     else case rqSession r of
       None \<Rightarrow> reply (HttpError 403)
     | Some se \<Rightarrow> if \<not> VerifyCSRF (rqForm r ''_csrf'') (seCSRF se) then reply (HttpError 403)
         else next_handler r)"

text \<open>A request arrives without session and user; the chain loads them, then checks the token.\<close>

definition Chain :: "(string \<Rightarrow> string) \<Rightarrow> (request \<Rightarrow> handler) \<Rightarrow> request \<Rightarrow> handler" where
  "Chain hashToken mux r = withSession hashToken (withCSRF mux) (r\<lparr>rqSession := None, rqUser := None\<rparr>)"

section \<open>Authentication\<close>

text \<open>\<^verbatim>\<open>url.QueryEscape\<close>.\<close>

definition hex_digit :: "nat \<Rightarrow> char" where
  "hex_digit n = (if n < 10 then char_of (48 + n) else char_of (55 + n))"

definition unreserved :: "char \<Rightarrow> bool" where
  "unreserved c \<longleftrightarrow> (let n = of_char c :: nat in (48 \<le> n \<and> n \<le> 57) \<or> (65 \<le> n \<and> n \<le> 90) \<or> (97 \<le> n \<and> n \<le> 122)
    \<or> c = CHR ''-'' \<or> c = CHR ''_'' \<or> c = CHR ''.'' \<or> c = CHR ''~'')"

definition QueryEscape :: "string \<Rightarrow> string" where
  "QueryEscape s = concat (map (\<lambda>c. if unreserved c then [c] else if c = CHR '' '' then ''+''
    else [CHR ''%'', hex_digit (of_char c div 16), hex_digit (of_char c mod 16)]) s)"

definition loginRedirect :: "request \<Rightarrow> string" where
  "loginRedirect r = ''/login?next='' @ QueryEscape (rqURLPath r)"

definition requireAuth :: "(user \<Rightarrow> request \<Rightarrow> handler) \<Rightarrow> request \<Rightarrow> handler" where
  "requireAuth next_handler r = (case rqUser r of
      None \<Rightarrow> reply (Redirect (loginRedirect r))
    | Some u \<Rightarrow> next_handler u r)"

definition requireRole :: "string \<Rightarrow> (user \<Rightarrow> request \<Rightarrow> handler) \<Rightarrow> request \<Rightarrow> handler" where
  "requireRole role next_handler r = (case rqUser r of
      None \<Rightarrow> reply (Redirect (loginRedirect r))
    | Some u \<Rightarrow> call (UserHasRole (uID u) role) (\<lambda>_. reply (HttpError 403))
        (\<lambda>ok. if \<not> ok then reply (HttpError 403) else next_handler u r))"

text \<open>\<^verbatim>\<open>strconv.ParseInt(r.PathValue(name), 10, 64)\<close>.\<close>

definition path_id :: "request \<Rightarrow> string \<Rightarrow> int option" where
  "path_id r name = parse_int 64 (rqPath r name)"

text \<open>Cutting a text at a length, as \<^verbatim>\<open>s[:n]\<close> does on a longer one.\<close>

definition cut :: "nat \<Rightarrow> string \<Rightarrow> string" where
  "cut n s = (if length s > n then take n s else s)"

section \<open>A sample request\<close>

abbreviation sample_request :: request where
  "sample_request \<equiv> \<lparr>rqMethod = ''POST'', rqURLPath = ''/'', rqCookie = None, rqUserAgent = ''ua'', rqIP = ''ip'',
    rqToken = None, rqNewCSRF = None, rqSalt = None, rqMailToken = None, rqLoginToken = None, rqLoginCSRF = None,
    rqTOTPSeed = None, rqSlugBytes = (\<lambda>_. None), rqPath = (\<lambda>_. ''7''), rqForm = (\<lambda>_. ''text''), rqFormAll = (\<lambda>_. []),
    rqQuery = (\<lambda>_. []), rqParseForm = True, rqParseMultipart = True, rqFile = (\<lambda>_. NoFile),
    rqSession = None, rqUser = None\<rparr>"

lemma sample_path: "path_id sample_request n = Some 7"
  by (simp add: path_id_def parse_int_def digit_of_def)

end
