(* ===== verification/HandlersOrders.thy ===== *)
theory HandlersOrders
  imports HandlersBase
begin

text \<open>
  The order workspace, \<^verbatim>\<open>src/handlers/orders.go\<close>: access control, one definition per handler
  with its guards in the order of the code, the release of a seller's earnings, and the flags of
  the order page that decide which actions are offered.
\<close>

definition maxOrderMessageLen :: nat where "maxOrderMessageLen = 4000"
definition maxOrderReasonLen :: nat where "maxOrderReasonLen = 2000"
definition maxOrderDecisionLen :: nat where "maxOrderDecisionLen = 2000"

definition orderRedirect :: "int \<Rightarrow> string" where
  "orderRedirect i = ''/orders/'' @ show_int i"

section \<open>Access\<close>

record order_access =
  acOrder :: order
  acIsBuyer :: bool
  acIsSeller :: bool
  acIsAdmin :: bool

definition loadOrderAccess :: "user \<Rightarrow> request \<Rightarrow> (order_access \<Rightarrow> handler) \<Rightarrow> handler" where
  "loadOrderAccess u r k = (case path_id r ''id'' of
      None \<Rightarrow> notFound r
    | Some i \<Rightarrow> call (GetOrder i)
        (\<lambda>e. if e = ErrNotFound then notFound r else renderError)
        (\<lambda>ord. call (UserHasRole (uID u) RoleAdmin) (\<lambda>_. renderError)
        (\<lambda>isAdmin.
          let access = \<lparr>acOrder = ord, acIsBuyer = (oBuyerID ord = uID u),
                acIsSeller = (oSellerID ord = uID u), acIsAdmin = isAdmin\<rparr> in
          if \<not> acIsBuyer access \<and> \<not> acIsSeller access \<and> \<not> acIsAdmin access then notFound r
          else k access)))"

section \<open>Messages\<close>

definition orderMessageCreate :: "user \<Rightarrow> request \<Rightarrow> handler" where
  "orderMessageCreate u r = loadOrderAccess u r (\<lambda>access.
    let ord = acOrder access; url = orderRedirect (oID ord) in
    if \<not> acIsBuyer access \<and> \<not> acIsSeller access then reply (HttpError 403)
    else if \<not> rqParseForm r then renderError
    else let body = trim_space (rqForm r ''message_body'') in
    if body = [] then flash_redirect r ''Message cannot be empty.'' url
    else let body' = cut maxOrderMessageLen body;
        isInfoRequest = (acIsSeller access \<and> rqForm r ''request_info'' \<noteq> []) in
    call (CreateOrderMessage (oID ord) (uID u) body' isInfoRequest) (\<lambda>_. renderError)
    (\<lambda>_. let recipient = (if acIsSeller access then oBuyerID ord else oSellerID ord);
        info = (acIsSeller access \<and> isInfoRequest);
        kind = (if info then ''order.info_requested'' else ''order.message'');
        message = (if info then ''The seller needs information from you on order #'' @ show_int (oID ord)
          else ''New message on order #'' @ show_int (oID ord)) in
      also_do (notify recipient kind message url) (reply (Redirect url))))"

section \<open>Delivery and revision\<close>

definition saveOptionalOrderFile :: "request \<Rightarrow> int \<Rightarrow> int \<Rightarrow> string \<Rightarrow> string \<Rightarrow> unit op" where
  "saveOptionalOrderFile r orderID uploaderID field kind = (case rqFile r field of
      NoFile \<Rightarrow> ret ()
    | BadFile _ \<Rightarrow> fail ErrUpload
    | StoredFile path name \<Rightarrow> call (CreateOrderAttachment orderID uploaderID kind path name) fail (\<lambda>_. ret ()))"

definition orderDeliver :: "user \<Rightarrow> request \<Rightarrow> handler" where
  "orderDeliver u r = loadOrderAccess u r (\<lambda>access.
    let ord = acOrder access; url = orderRedirect (oID ord); from = oStatus ord in
    if \<not> acIsSeller access then reply (HttpError 403)
    else if \<not> CanTransitionOrder from OrderDelivered
      then flash_redirect r ''This order cannot be delivered in its current state.'' url
    else if \<not> rqParseMultipart r then flash_redirect r ''The upload was too large or malformed.'' url
    else let message = trim_space (rqForm r ''delivery_message'') in
    if message = [] then flash_redirect r ''Please describe what you are delivering.'' url
    else call (CreateDelivery (oID ord) (uID u) message) (\<lambda>_. renderError) (\<lambda>_.
      also_do (call (saveOptionalOrderFile r (oID ord) (uID u) ''delivery_file'' AttachmentDelivery)
        (\<lambda>_. flashError r ''That upload could not be saved.'') ret)
      (call (TransitionOrder (oID ord) from OrderDelivered) (\<lambda>_. renderError) (\<lambda>_.
        also_do (audit (Some (uID u)) ''order.delivered'' ''order'' (show_int (oID ord)))
        (also_do (notify (oBuyerID ord) ''order.delivered'' (''Order #'' @ show_int (oID ord) @ '' has a new delivery'') url)
        (reply (Redirect url)))))))"

definition orderRevise :: "user \<Rightarrow> request \<Rightarrow> handler" where
  "orderRevise u r = loadOrderAccess u r (\<lambda>access.
    let ord = acOrder access; url = orderRedirect (oID ord); from = oStatus ord in
    if \<not> acIsBuyer access then reply (HttpError 403)
    else if \<not> CanTransitionOrder from OrderRevisionRequested
      then flash_redirect r ''A revision cannot be requested in this order's current state.'' url
    else if \<not> rqParseForm r then renderError
    else let reason = trim_space (rqForm r ''revise_reason'') in
    if reason = [] then flash_redirect r ''Please describe what needs to change.'' url
    else call (CreateRevisionRequest (oID ord) (uID u) (cut maxOrderReasonLen reason))
      (\<lambda>e. if e = ErrRevisionLimitReached
        then flash_redirect r ''This order has no revisions remaining.'' url else renderError)
      (\<lambda>_. call (TransitionOrder (oID ord) from OrderRevisionRequested) (\<lambda>_. renderError) (\<lambda>_.
        also_do (audit (Some (uID u)) ''order.revision_requested'' ''order'' (show_int (oID ord)))
        (also_do (notify (oSellerID ord) ''order.revision_requested''
          (''A revision was requested on order #'' @ show_int (oID ord)) url)
        (reply (Redirect url))))))"

section \<open>Acceptance and the seller's earnings\<close>

text \<open>Also \<^verbatim>\<open>releaseSellerEarnings\<close> of \<^verbatim>\<open>src/orders.go\<close>, the copy the worker uses.  Errors of the
  posting are logged.\<close>

definition releaseSellerEarnings :: "order \<Rightarrow> unit op" where
  "releaseSellerEarnings ord = call (LatestPaymentIntentForOrder (oID ord)) (\<lambda>_. ret ())
    (\<lambda>intent. if piStatus intent \<noteq> PaymentSucceeded then ret ()
     else let payable = wrap64 (oTotalMinorUnits ord - oPlatformFeeMinorUnits ord) in
     if payable \<le> 0 then ret ()
     else case EarningsReleased (oID ord) (oSellerID ord) payable (to_lower (oCurrency ord)) of
       Inl _ \<Rightarrow> ret ()
     | Inr entries \<Rightarrow> also_do (PostLedgerEntries entries) (ret ()))"

definition orderAccept :: "user \<Rightarrow> request \<Rightarrow> handler" where
  "orderAccept u r = loadOrderAccess u r (\<lambda>access.
    let ord = acOrder access; url = orderRedirect (oID ord); from = oStatus ord in
    if \<not> acIsBuyer access then reply (HttpError 403)
    else if \<not> CanTransitionOrder from OrderAccepted
      then flash_redirect r ''This order cannot be accepted in its current state.'' url
    else call (TransitionOrder (oID ord) from OrderAccepted) (\<lambda>_. renderError) (\<lambda>_.
      also_do (releaseSellerEarnings ord)
      (also_do (audit (Some (uID u)) ''order.accepted'' ''order'' (show_int (oID ord)))
      (also_do (notify (oSellerID ord) ''order.accepted'' (''Order #'' @ show_int (oID ord) @ '' was accepted'') url)
      (reply (Redirect url))))))"

section \<open>Cancellation\<close>

definition orderCancelRequest :: "user \<Rightarrow> request \<Rightarrow> handler" where
  "orderCancelRequest u r = loadOrderAccess u r (\<lambda>access.
    let ord = acOrder access; url = orderRedirect (oID ord); from = oStatus ord in
    if \<not> acIsBuyer access \<and> \<not> acIsSeller access then reply (HttpError 403)
    else if \<not> CanTransitionOrder from OrderCancelRequested
      then flash_redirect r ''Cancellation cannot be requested in this order's current state.'' url
    else if \<not> rqParseForm r then renderError
    else let reason = trim_space (rqForm r ''cancel_reason'') in
    if reason = [] then flash_redirect r ''Please explain why you are requesting cancellation.'' url
    else call (CreateCancellationRequest (oID ord) (uID u) (cut maxOrderReasonLen reason)) (\<lambda>_. renderError)
      (\<lambda>_. call (TransitionOrder (oID ord) from OrderCancelRequested) (\<lambda>_. renderError) (\<lambda>_.
        also_do (audit (Some (uID u)) ''order.cancel_requested'' ''order'' (show_int (oID ord)))
        (also_do (notify (if acIsSeller access then oBuyerID ord else oSellerID ord) ''order.cancel_requested''
          (''Cancellation requested on order #'' @ show_int (oID ord)) url)
        (reply (Redirect url))))))"

definition cancel_decision :: "string \<Rightarrow> (order_status \<times> cancellation_status) option" where
  "cancel_decision decision =
    (if decision = ''approve'' then Some (OrderCancelled, CancellationApproved)
     else if decision = ''decline'' then Some (OrderInProgress, CancellationDeclined) else None)"

definition orderCancelResolve :: "user \<Rightarrow> request \<Rightarrow> handler" where
  "orderCancelResolve u r = loadOrderAccess u r (\<lambda>access.
    let ord = acOrder access; url = orderRedirect (oID ord); from = oStatus ord in
    if \<not> acIsBuyer access \<and> \<not> acIsSeller access then reply (HttpError 403)
    else call (GetOpenCancellationRequest (oID ord))
      (\<lambda>e. if e = ErrNotFound then flash_redirect r ''There is no pending cancellation request.'' url
        else renderError)
      (\<lambda>cancellation.
        if crRequestedBy cancellation = uID u then reply (HttpError 403)
        else if \<not> rqParseForm r then renderError
        else let decision = rqForm r ''decision'' in
        case cancel_decision decision of
          None \<Rightarrow> reply (HttpError 422)
        | Some (to, resolution) \<Rightarrow>
            if \<not> CanTransitionOrder from to
            then flash_redirect r ''This order's state changed before the cancellation could be resolved.'' url
            else call (ResolveCancellationRequest (crID cancellation) resolution) (\<lambda>_. renderError) (\<lambda>_.
              call (TransitionOrder (oID ord) from to) (\<lambda>_. renderError) (\<lambda>_.
              also_do (audit (Some (uID u)) ''order.cancel_resolved'' ''order'' (show_int (oID ord)))
              (also_do (notify (crRequestedBy cancellation) ''order.cancel_resolved''
                (''Your cancellation request on order #'' @ show_int (oID ord) @ '' was '' @ decision @ ''d'') url)
              (reply (Redirect url)))))))"

section \<open>Disputes\<close>

definition orderDisputeOpen :: "user \<Rightarrow> request \<Rightarrow> handler" where
  "orderDisputeOpen u r = loadOrderAccess u r (\<lambda>access.
    let ord = acOrder access; url = orderRedirect (oID ord); from = oStatus ord in
    if \<not> acIsBuyer access \<and> \<not> acIsSeller access then reply (HttpError 403)
    else if \<not> CanTransitionOrder from OrderDisputed
      then flash_redirect r ''A dispute cannot be opened in this order's current state.'' url
    else if \<not> rqParseMultipart r then flash_redirect r ''The upload was too large or malformed.'' url
    else let reason = trim_space (rqForm r ''dispute_reason'') in
    if reason = [] then flash_redirect r ''Please describe the issue.'' url
    else call (CreateDispute (oID ord) (uID u) (cut maxOrderReasonLen reason)) (\<lambda>_. renderError) (\<lambda>_.
      also_do (call (saveOptionalOrderFile r (oID ord) (uID u) ''dispute_evidence'' AttachmentDispute)
        (\<lambda>_. flashError r ''That upload could not be saved.'') ret)
      (call (TransitionOrder (oID ord) from OrderDisputed) (\<lambda>_. renderError) (\<lambda>_.
        also_do (audit (Some (uID u)) ''order.dispute_opened'' ''order'' (show_int (oID ord)))
        (also_do (notify (if acIsSeller access then oBuyerID ord else oSellerID ord) ''order.dispute_opened''
          (''A dispute was opened on order #'' @ show_int (oID ord)) url)
        (reply (Redirect url)))))))"

definition dispute_outcome :: "string \<Rightarrow> order_status option" where
  "dispute_outcome outcome =
    (if outcome = order_status_text OrderInProgress then Some OrderInProgress
     else if outcome = order_status_text OrderCancelled then Some OrderCancelled
     else if outcome = order_status_text OrderClosed then Some OrderClosed else None)"

definition orderDisputeResolve :: "user \<Rightarrow> request \<Rightarrow> handler" where
  "orderDisputeResolve u r = loadOrderAccess u r (\<lambda>access.
    let ord = acOrder access; url = orderRedirect (oID ord); from = oStatus ord in
    if \<not> acIsAdmin access then reply (HttpError 403)
    else call (GetOpenDispute (oID ord))
      (\<lambda>e. if e = ErrNotFound then flash_redirect r ''There is no open dispute on this order.'' url
        else renderError)
      (\<lambda>dispute.
        if \<not> rqParseForm r then renderError
        else let note = trim_space (rqForm r ''dispute_decision'') in
        if note = [] then flash_redirect r ''Please record a decision note.'' url
        else case dispute_outcome (rqForm r ''dispute_outcome'') of
          None \<Rightarrow> reply (HttpError 422)
        | Some outcome \<Rightarrow>
            if \<not> CanTransitionOrder from outcome
            then flash_redirect r ''That outcome is not valid for this order's current state.'' url
            else call (ResolveDispute (dpID dispute) (uID u) (cut maxOrderDecisionLen note)) (\<lambda>_. renderError) (\<lambda>_.
              call (TransitionOrder (oID ord) from outcome) (\<lambda>_. renderError) (\<lambda>_.
              also_do (audit (Some (uID u)) ''order.dispute_resolved'' ''order'' (show_int (oID ord)))
              (also_do (notify (oBuyerID ord) ''order.dispute_resolved''
                (''The dispute on order #'' @ show_int (oID ord) @ '' was resolved'') url)
              (also_do (notify (oSellerID ord) ''order.dispute_resolved''
                (''The dispute on order #'' @ show_int (oID ord) @ '' was resolved'') url)
              (reply (Redirect url))))))))"

section \<open>Reviews and attachments\<close>

definition orderReviewCreate :: "user \<Rightarrow> request \<Rightarrow> handler" where
  "orderReviewCreate u r = loadOrderAccess u r (\<lambda>access.
    let ord = acOrder access; url = orderRedirect (oID ord) in
    if \<not> acIsBuyer access then reply (HttpError 403)
    else if oStatus ord \<noteq> OrderAccepted
      then flash_redirect r ''You can review an order once you have accepted delivery.'' url
    else if \<not> rqParseForm r then renderError
    else case parse_int 64 (rqForm r ''review_rating'') of
      None \<Rightarrow> flash_redirect r ''Please choose a rating between 1 and 5.'' url
    | Some rating \<Rightarrow>
        if rating < 1 \<or> rating > 5 then flash_redirect r ''Please choose a rating between 1 and 5.'' url
        else call (CreateReview (oID ord) (oGigID ord) (uID u) (oSellerID ord) rating
            (trim_space (rqForm r ''review_body'')))
          (\<lambda>e. if e = ErrAlreadyReviewed then flash_redirect r ''You have already reviewed this order.'' url
            else renderError)
          (\<lambda>_. also_do (audit (Some (uID u)) ''order.reviewed'' ''order'' (show_int (oID ord)))
            (also_do (notify (oSellerID ord) ''order.reviewed''
              (''Order #'' @ show_int (oID ord) @ '' received a review'') url)
            (reply (Redirect url)))))"

definition orderAttachmentServe :: "string \<Rightarrow> user \<Rightarrow> request \<Rightarrow> handler" where
  "orderAttachmentServe root u r = loadOrderAccess u r (\<lambda>access.
    case path_id r ''attachmentID'' of
      None \<Rightarrow> notFound r
    | Some i \<Rightarrow> call (GetOrderAttachment i)
        (\<lambda>e. if e = ErrNotFound then notFound r else renderError)
        (\<lambda>att. if oaOrderID att \<noteq> oID (acOrder access) then notFound r
          else reply (FileResponse (root @ ''/'' @ oaFilePath att))))"

section \<open>Lists\<close>

definition pageParam :: "request \<Rightarrow> int" where
  "pageParam r = (let page = parse_int_value (rqQuery r ''page'') in
    if page < 1 then 1 else page)"

definition ordersPerPage :: int where "ordersPerPage = 20"

definition ordersListBuyer :: "user \<Rightarrow> request \<Rightarrow> handler" where
  "ordersListBuyer u r = call (ListOrdersForBuyer (uID u) (pageParam r) ordersPerPage) (\<lambda>_. renderError)
    (\<lambda>_. render r 200 ''Your orders'')"

definition ordersListSeller :: "user \<Rightarrow> request \<Rightarrow> handler" where
  "ordersListSeller u r = call (ListOrdersForSeller (uID u) (pageParam r) ordersPerPage) (\<lambda>_. renderError)
    (\<lambda>_. render r 200 ''Orders to fulfill'')"

section \<open>The order page\<close>

definition isDisputable :: "order_status \<Rightarrow> bool" where
  "isDisputable status \<longleftrightarrow>
    status \<in> {OrderInProgress, OrderDelivered, OrderRevisionRequested, OrderAccepted}"

definition orderTimeline :: "order \<Rightarrow> (string \<times> time) list" where
  "orderTimeline ord = [(''Placed'', oCreatedAt ord)] @
    List.map_filter (\<lambda>(label, t). map_option (\<lambda>x. (label, x)) t)
      [(''Paid'', oPaidAt ord), (''Delivered'', oDeliveredAt ord), (''Accepted'', oAcceptedAt ord),
       (''Cancelled'', oCancelledAt ord), (''Closed'', oClosedAt ord)]"

text \<open>The rows the page shows and the actions it offers; the texts are formatted in the template.\<close>

record order_detail =
  odItems :: "order_item list"
  odDeliveries :: "delivery list"
  odDeliveryAttachments :: "order_attachment list"
  odMessages :: "(order_message \<times> string) list"
  odCancellation :: "cancellation_request option"
  odDispute :: "dispute option"
  odDisputeAttachments :: "order_attachment list"
  odReview :: "review option"
  odTimeline :: "(string \<times> time) list"
  odCanMessage :: bool
  odCanDeliver :: bool
  odCanRevise :: bool
  odCanAccept :: bool
  odCanCancelRequest :: bool
  odCanCancelResolve :: bool
  odCanDispute :: bool
  odCanResolveDispute :: bool
  odCanReview :: bool

text \<open>A lookup whose \<^verbatim>\<open>ErrNotFound\<close> is no error.\<close>

definition maybe :: "'a op \<Rightarrow> 'a option op" where
  "maybe m = call m (\<lambda>e. if e = ErrNotFound then ret None else fail e) (\<lambda>x. ret (Some x))"

definition order_flags :: "order_access \<Rightarrow> int \<Rightarrow> cancellation_request option \<Rightarrow> dispute option \<Rightarrow>
    review option \<Rightarrow> order_detail \<Rightarrow> order_detail" where
  "order_flags access viewerID cancellation dispute review dt =
    (let ord = acOrder access; party = (acIsBuyer access \<or> acIsSeller access);
         disputeOpen = (case dispute of None \<Rightarrow> False | Some p \<Rightarrow> dpStatus p = DisputeOpen) in
     dt\<lparr>
      odCanMessage := party \<and> oStatus ord \<noteq> OrderCancelled \<and> oStatus ord \<noteq> OrderClosed,
      odCanDeliver := acIsSeller access \<and> (oStatus ord = OrderInProgress \<or> oStatus ord = OrderRevisionRequested),
      odCanRevise := acIsBuyer access \<and> oStatus ord = OrderDelivered \<and> oRevisionsUsed ord < oRevisionsAllowed ord,
      odCanAccept := acIsBuyer access \<and> oStatus ord = OrderDelivered,
      odCanCancelRequest := (case cancellation of None \<Rightarrow> party \<and> oStatus ord = OrderInProgress | Some _ \<Rightarrow> False),
      odCanCancelResolve := (case cancellation of None \<Rightarrow> False | Some c \<Rightarrow> party \<and> crRequestedBy c \<noteq> viewerID),
      odCanDispute := party \<and> isDisputable (oStatus ord) \<and> \<not> disputeOpen,
      odCanResolveDispute := acIsAdmin access \<and> disputeOpen,
      odCanReview := acIsBuyer access \<and> oStatus ord = OrderAccepted \<and> review = None\<rparr>)"

definition buildOrderDetail :: "order_access \<Rightarrow> int \<Rightarrow> order_detail op" where
  "buildOrderDetail access viewerID = (let ord = acOrder access in
    call (GetGigBasic (oGigID ord)) fail (\<lambda>gig.
    call (GetUserByID (oBuyerID ord)) fail (\<lambda>buyer.
    call (GetUserByID (oSellerID ord)) fail (\<lambda>seller.
    call (GetOrderItems (oID ord)) fail (\<lambda>items.
    call (ListDeliveries (oID ord)) fail (\<lambda>dels.
    call (ListOrderAttachments (oID ord) AttachmentDelivery) fail (\<lambda>delAtts.
    call (ListOrderMessages (oID ord)) fail (\<lambda>messages.
    call (maybe (GetOpenCancellationRequest (oID ord))) fail (\<lambda>cancellation.
    call (maybe (GetLatestDispute (oID ord))) fail (\<lambda>dispute.
    call (case dispute of
        Some p \<Rightarrow> if dpStatus p = DisputeOpen then ListOrderAttachments (oID ord) AttachmentDispute else ret []
      | None \<Rightarrow> ret []) fail (\<lambda>dispAtts.
    call (maybe (GetReviewByOrder (oID ord))) fail (\<lambda>review.
    ret (order_flags access viewerID cancellation dispute review
      \<lparr>odItems = items, odDeliveries = dels, odDeliveryAttachments = delAtts, odMessages = messages,
       odCancellation = cancellation, odDispute = dispute, odDisputeAttachments = dispAtts,
       odReview = review, odTimeline = orderTimeline ord, odCanMessage = False, odCanDeliver = False,
       odCanRevise = False, odCanAccept = False, odCanCancelRequest = False,
       odCanCancelResolve = False, odCanDispute = False, odCanResolveDispute = False,
       odCanReview = False\<rparr>)))))))))))))"

definition orderDetail :: "user \<Rightarrow> request \<Rightarrow> handler" where
  "orderDetail u r = loadOrderAccess u r (\<lambda>access.
    call (buildOrderDetail access (uID u)) (\<lambda>_. renderError)
    (\<lambda>_. render r 200 (''Order #'' @ show_int (oID (acOrder access)))))"

end
