(* ===== verification/Providers.thy ===== *)
theory Providers
  imports HandlersOrders "HOL-Library.AList"
begin

text \<open>
  The payment provider interface of \<^verbatim>\<open>src/providers/provider.go\<close> and the registry of
  \<^verbatim>\<open>registry.go\<close>.  A provider is a record of functions: what it answers to a call is a parameter
  of every definition that talks to it.  \<^verbatim>\<open>pvAdapter\<close> is its dynamic type, with the calls only
  that adapter has; the type assertions of the handlers are matches on it.  A registry maps names
  to providers.
\<close>

record create_payment_input =
  cpOrderID :: int
  cpAmountMinor :: int
  cpCurrency :: string
  cpDescription :: string
  cpIdempotencyKey :: string
  cpSuccessURL :: string
  cpCancelURL :: string
  cpBuyerEmail :: string

record payment_session =
  psProviderRef :: string
  psCheckoutURL :: string
  psExpiresAt :: "time option"

record normalized_payment =
  npProviderRef :: string
  npChargeRef :: string
  npStatus :: payment_status
  npAmountMinor :: int
  npCurrency :: string
  npFailureCode :: string
  npFailureReason :: string

record refund_input =
  riProviderRef :: string
  riAmountMinor :: int
  riCurrency :: string
  riReason :: string
  riIdempotencyKey :: string

record refund_result = rrsProviderRef :: string rrsStatus :: payment_status

record connect_account_status =
  caAccountID :: string
  caChargesEnabled :: bool
  caPayoutsEnabled :: bool

record verified_event =
  veProvider :: string
  veEventID :: string
  veEventType :: string
  veProviderRef :: string
  vePayment :: "normalized_payment option"
  veAccount :: "connect_account_status option"

text \<open>The dynamic type of a provider: Stripe with its Connect calls, BTCPay, or an EVM chain with its
  name, treasury address and confirmations.\<close>

record stripe_connect =
  scCreateConnectAccount :: "string \<Rightarrow> error + string"
  scCreateOnboardingLink :: "string \<Rightarrow> string \<Rightarrow> string \<Rightarrow> error + string"
  scConnectAccountStatus :: "string \<Rightarrow> error + connect_account_status"

datatype adapter = StripeAdapter stripe_connect | BTCPayAdapter | EVMAdapter string string int

record provider =
  pvAdapter :: adapter
  pvName :: string
  pvCreatePayment :: "create_payment_input \<Rightarrow> error + payment_session"
  pvPayment :: "string \<Rightarrow> error + normalized_payment"
  pvRefund :: "refund_input \<Rightarrow> error + refund_result"
  pvVerifyWebhook :: "string \<Rightarrow> error + verified_event"
  pvParseEvent :: "string \<Rightarrow> error + verified_event"

type_synonym registry = "(string \<times> provider) list"

fun NewRegistry_from :: "registry \<Rightarrow> provider option list \<Rightarrow> registry" where
  "NewRegistry_from m [] = m"
| "NewRegistry_from m (None # ps) = NewRegistry_from m ps"
| "NewRegistry_from m (Some p # ps) = NewRegistry_from (AList.update (pvName p) p m) ps"

definition NewRegistry :: "provider option list \<Rightarrow> registry" where
  "NewRegistry ps = NewRegistry_from [] ps"

definition registry_get :: "registry \<Rightarrow> string \<Rightarrow> provider option" where
  "registry_get reg name = map_of reg name"

definition registry_has :: "registry \<Rightarrow> string \<Rightarrow> bool" where
  "registry_has reg name \<longleftrightarrow> map_of reg name \<noteq> None"

definition registry_empty :: "registry \<Rightarrow> bool" where
  "registry_empty reg \<longleftrightarrow> reg = []"

text \<open>The registry holds, under each name, the last provider of that name that was not nil.\<close>

lemma NewRegistry_from_get:
  "registry_get (NewRegistry_from m ps) name =
    (case filter (\<lambda>p. pvName p = name) (List.map_filter (\<lambda>x. x) ps) of
       [] \<Rightarrow> registry_get m name | q # qs \<Rightarrow> Some (last (q # qs)))"
  by (induction m ps rule: NewRegistry_from.induct)
    (auto simp: registry_get_def update_conv List.map_filter_simps split: list.splits)

lemma registry_get_name:
  assumes "registry_get (NewRegistry ps) name = Some p"
  shows "pvName p = name"
proof (cases "filter (\<lambda>p. pvName p = name) (List.map_filter (\<lambda>x. x) ps)")
  case Nil
  with assms have "registry_get [] name = Some p" by (simp add: NewRegistry_def NewRegistry_from_get)
  then show ?thesis by (simp add: registry_get_def)
next
  case (Cons q qs)
  with assms have "p = last (q # qs)" by (simp add: NewRegistry_def NewRegistry_from_get)
  then have "p \<in> set (q # qs)" by simp
  then have "p \<in> set (filter (\<lambda>p. pvName p = name) (List.map_filter (\<lambda>x. x) ps))" unfolding Cons .
  then show ?thesis by simp
qed

section \<open>Narrowing to an adapter\<close>

definition stripeProvider :: "registry \<Rightarrow> (provider \<times> stripe_connect) option" where
  "stripeProvider reg = (case registry_get reg ''stripe'' of
      None \<Rightarrow> None
    | Some p \<Rightarrow> (case pvAdapter p of StripeAdapter sc \<Rightarrow> Some (p, sc) | _ \<Rightarrow> None))"

definition btcpayProvider :: "registry \<Rightarrow> provider option" where
  "btcpayProvider reg = (case registry_get reg ''btcpay'' of
      None \<Rightarrow> None
    | Some p \<Rightarrow> (case pvAdapter p of BTCPayAdapter \<Rightarrow> Some p | _ \<Rightarrow> None))"

definition evmProvider :: "registry \<Rightarrow> string \<Rightarrow> (string \<times> string \<times> int) option" where
  "evmProvider reg name = (case registry_get reg name of
      None \<Rightarrow> None
    | Some p \<Rightarrow> (case pvAdapter p of EVMAdapter chain treasury confirmations \<Rightarrow> Some (chain, treasury, confirmations)
        | _ \<Rightarrow> None))"

end
