(* ===== verification/HandlersPayments.thy ===== *)
theory HandlersPayments
  imports Providers
begin

text \<open>
  \<^verbatim>\<open>src/handlers/payments.go\<close>: starting the payment of an order at a provider, the return and
  status pages, Stripe Connect onboarding, receiving webhooks, and the administrator's payment,
  refund and payout handlers.  Every provider is looked up in the registry; every request that asks
  a provider to move money is logged in \<^verbatim>\<open>wsent\<close> before its answer is used.
\<close>

section \<open>Starting a payment\<close>

definition paymentMethodProvider :: "string \<Rightarrow> string" where
  "paymentMethodProvider method =
    (if method = ''bitcoin'' \<or> method = ''lightning'' then ''btcpay''
     else if method = ''usdc-base'' \<or> method = ''usdt-base'' then ''evm-base''
     else if method = ''usdc-polygon'' \<or> method = ''usdt-polygon'' then ''evm-polygon''
     else ''stripe'')"

definition startPayment :: "config \<Rightarrow> registry \<Rightarrow> user \<Rightarrow> request \<Rightarrow> order \<Rightarrow> string \<Rightarrow> handler" where
  "startPayment cfg reg u r ord method0 = (let url = orderRedirect (oID ord) in
    if \<not> cfgPaymentsEnabled cfg \<or> registry_empty reg
    then also_do (flashNotice r ''Payment collection is not enabled yet; this order is on hold pending payment.'')
      (reply (Redirect url))
    else let method = (if method0 = [] then ''card'' else method0) in
    case registry_get reg (paymentMethodProvider method) of
      None \<Rightarrow> flash_redirect r ''That payment method is not available right now. Please choose another.'' url
    | Some provider \<Rightarrow>
      (let currency = to_lower (oCurrency ord); key = IdempotencyKey ''checkout'' (oID ord) 0 in
       call (call (CreatePaymentIntent (oID ord) (pvName provider) method (oTotalMinorUnits ord) currency key)
           (\<lambda>e. if e = ErrDuplicateIdempotencyKey then GetPaymentIntentByIdempotencyKey key else fail e) ret)
         (\<lambda>_. renderError)
         (\<lambda>intent.
           if piCheckoutURL intent \<noteq> [] \<and> piStatus intent = PaymentPending
           then reply (Redirect (piCheckoutURL intent))
           else let input = \<lparr>cpOrderID = oID ord, cpAmountMinor = oTotalMinorUnits ord, cpCurrency = currency,
               cpDescription = ''Order #'' @ show_int (oID ord), cpIdempotencyKey = piIdempotencyKey intent,
               cpSuccessURL = cfgBaseURL cfg @ ''/orders/'' @ show_int (oID ord) @ ''/pay/return'',
               cpCancelURL = cfgBaseURL cfg @ ''/orders/'' @ show_int (oID ord) @ ''/pay/cancel'',
               cpBuyerEmail = uEmail u\<rparr> in
           also_do (send_call (CreatePaymentCall (pvName provider) (oID ord) (oTotalMinorUnits ord) currency (piIdempotencyKey intent)))
           (case pvCreatePayment provider input of
              Inl _ \<Rightarrow> flash_redirect r ''We could not start payment for this order. Please try again.'' url
            | Inr se \<Rightarrow> call (SetPaymentIntentSession (piID intent) (psProviderRef se) (psCheckoutURL se) (psExpiresAt se))
                (\<lambda>_. renderError)
                (\<lambda>_. also_do (audit (Some (uID u)) ''payment.intent_created'' ''payment_intent'' (show_int (piID intent)))
                  (reply (Redirect (psCheckoutURL se))))))))"

section \<open>Return and status pages\<close>

definition paymentReturn :: "request \<Rightarrow> handler" where
  "paymentReturn r = (case path_id r ''id'' of
      None \<Rightarrow> notFound r
    | Some i \<Rightarrow> also_do (flashNotice r ''Thanks! We're confirming your payment now.'') (reply (Redirect (orderRedirect i))))"

definition paymentCancelReturn :: "request \<Rightarrow> handler" where
  "paymentCancelReturn r = (case path_id r ''id'' of
      None \<Rightarrow> notFound r
    | Some i \<Rightarrow> flash_redirect r ''Checkout was canceled. You can try paying again from this order.'' (orderRedirect i))"

definition settled_intent :: "payment_intent \<Rightarrow> bool" where
  "settled_intent p \<longleftrightarrow> piStatus p \<in> {PaymentSucceeded, PaymentFailed, PaymentExpired, PaymentCanceled}"

definition btcpayInvoiceStatus :: "user \<Rightarrow> request \<Rightarrow> handler" where
  "btcpayInvoiceStatus u r = loadOrderAccess u r (\<lambda>access. let url = orderRedirect (oID (acOrder access)) in
    call (LatestPaymentIntentForOrder (oID (acOrder access))) (\<lambda>_. reply (Redirect url))
    (\<lambda>intent. if piProvider intent \<noteq> ''btcpay'' \<or> settled_intent intent then reply (Redirect url)
      else render r 200 ''Bitcoin / Lightning payment''))"

definition evmDepositStatus :: "registry \<Rightarrow> user \<Rightarrow> request \<Rightarrow> handler" where
  "evmDepositStatus reg u r = loadOrderAccess u r (\<lambda>access. let url = orderRedirect (oID (acOrder access)) in
    call (LatestPaymentIntentForOrder (oID (acOrder access))) (\<lambda>_. reply (Redirect url))
    (\<lambda>intent. if \<not> has_prefix (piProvider intent) ''evm-'' \<or> settled_intent intent then reply (Redirect url)
      else case evmProvider reg (piProvider intent) of
        None \<Rightarrow> reply (Redirect url)
      | Some _ \<Rightarrow> render r 200 ''Stablecoin deposit''))"

section \<open>Stripe Connect onboarding\<close>

definition sellOnboardingStripeStart :: "config \<Rightarrow> registry \<Rightarrow> user \<Rightarrow> request \<Rightarrow> handler" where
  "sellOnboardingStripeStart cfg reg u r = (case stripeProvider reg of
      None \<Rightarrow> flash_redirect r ''Payouts are not enabled yet.'' ''/sell''
    | Some (p, sc) \<Rightarrow> call (GetSellerOnboarding (uID u)) (\<lambda>_. renderError) (\<lambda>ob.
        let open_link = (\<lambda>accountID. case scCreateOnboardingLink sc accountID
              (cfgBaseURL cfg @ ''/sell/onboarding/stripe/return'') (cfgBaseURL cfg @ ''/sell/onboarding/stripe/refresh'') of
            Inl _ \<Rightarrow> flash_redirect r ''We could not open Stripe onboarding. Please try again.'' ''/sell''
          | Inr link \<Rightarrow> reply (Redirect link)) in
        if obStripeAccountID ob \<noteq> [] then open_link (obStripeAccountID ob)
        else case scCreateConnectAccount sc (uEmail u) of
          Inl _ \<Rightarrow> flash_redirect r ''We could not start Stripe onboarding. Please try again.'' ''/sell''
        | Inr accountID \<Rightarrow> call (SetStripeAccount (uID u) accountID) (\<lambda>_. renderError)
            (\<lambda>_. also_do (audit (Some (uID u)) ''seller.stripe_account_created'' ''user'' (show_int (uID u)))
              (open_link accountID))))"

definition sellOnboardingStripeRefresh :: "config \<Rightarrow> registry \<Rightarrow> user \<Rightarrow> request \<Rightarrow> handler" where
  "sellOnboardingStripeRefresh cfg reg u r = sellOnboardingStripeStart cfg reg u r"

definition refresh_capabilities :: "stripe_connect \<Rightarrow> string \<Rightarrow> unit op" where
  "refresh_capabilities sc accountID = (case scConnectAccountStatus sc accountID of
      Inl _ \<Rightarrow> ret ()
    | Inr st \<Rightarrow> also_do (SetStripeAccountCapabilities (caAccountID st) (caChargesEnabled st) (caPayoutsEnabled st)) (ret ()))"

definition check_onboarding :: "registry \<Rightarrow> user \<Rightarrow> unit op" where
  "check_onboarding reg u = (case stripeProvider reg of
      None \<Rightarrow> ret ()
    | Some (p, sc) \<Rightarrow> call (GetSellerOnboarding (uID u)) (\<lambda>_. ret ())
        (\<lambda>ob. if obStripeAccountID ob = [] then ret () else refresh_capabilities sc (obStripeAccountID ob)))"

definition sellOnboardingStripeReturn :: "registry \<Rightarrow> user \<Rightarrow> request \<Rightarrow> handler" where
  "sellOnboardingStripeReturn reg u r = also_do (check_onboarding reg u)
    (also_do (flashNotice r ''Thanks! We're confirming your Stripe account status.'') (reply (Redirect ''/sell'')))"

section \<open>Receiving webhooks\<close>

definition paymentWebhookJobKind :: string where "paymentWebhookJobKind = ''payment.webhook_process''"

text \<open>The digest of the body is a parameter; the body is read before the handler runs, a failing
  read being \<^const>\<open>None\<close>.\<close>

definition receiveWebhookEvent :: "(string \<Rightarrow> string) \<Rightarrow> string \<Rightarrow> verified_event \<Rightarrow> handler" where
  "receiveWebhookEvent sha256 body evt =
    call (InsertWebhookEvent (veProvider evt) (veEventID evt) (veEventType evt) (veProviderRef evt) body (sha256 body))
      (\<lambda>_. reply (HttpError 500))
      (\<lambda>(i, inserted). if inserted
        then also_do (EnqueueJob paymentWebhookJobKind (WebhookPayload (veProvider evt) (veEventID evt)) None 8) (reply Accepted)
        else reply Accepted)"

definition StripeWebhook :: "(string \<Rightarrow> string) \<Rightarrow> registry \<Rightarrow> string option \<Rightarrow> handler" where
  "StripeWebhook sha256 reg body = (case stripeProvider reg of
      None \<Rightarrow> reply (HttpError 503)
    | Some (sp, sc) \<Rightarrow> (case body of
        None \<Rightarrow> reply (HttpError 400)
      | Some b \<Rightarrow> (case pvVerifyWebhook sp b of
          Inl _ \<Rightarrow> reply (HttpError 400)
        | Inr evt \<Rightarrow> receiveWebhookEvent sha256 b evt)))"

definition BTCPayWebhook :: "(string \<Rightarrow> string) \<Rightarrow> registry \<Rightarrow> string option \<Rightarrow> handler" where
  "BTCPayWebhook sha256 reg body = (case btcpayProvider reg of
      None \<Rightarrow> reply (HttpError 503)
    | Some bp \<Rightarrow> (case body of
        None \<Rightarrow> reply (HttpError 400)
      | Some b \<Rightarrow> (case pvVerifyWebhook bp b of
          Inl _ \<Rightarrow> reply (HttpError 400)
        | Inr evt \<Rightarrow> receiveWebhookEvent sha256 b evt)))"

section \<open>Administration: payments\<close>

definition adminPayments :: "request \<Rightarrow> handler" where
  "adminPayments r = call PlatformBalances (\<lambda>_. renderError)
    (\<lambda>_. call (ListJobsByKindAndStatus paymentWebhookJobKind JobDead 50) (\<lambda>_. renderError)
    (\<lambda>_. render r 200 ''Admin - payments''))"

text \<open>The live check against the provider has no effect here; a failing attempts query is shown on
  the page.\<close>

definition onChainPaymentDetail :: "payment_intent \<Rightarrow> unit op" where
  "onChainPaymentDetail intent = also_do (ListPaymentAttemptsForIntent (piID intent)) (ret ())"

definition adminOrderPayments :: "request \<Rightarrow> handler" where
  "adminOrderPayments r = (case path_id r ''id'' of
      None \<Rightarrow> notFound r
    | Some orderID \<Rightarrow> call (LatestPaymentIntentForOrder orderID)
        (\<lambda>e. if e = ErrNotFound then render r 200 ''Admin - order payments'' else renderError)
        (\<lambda>intent. also_do (if piProvider intent = ''btcpay'' \<or> has_prefix (piProvider intent) ''evm-''
            then onChainPaymentDetail intent else ret ())
          (render r 200 ''Admin - order payments'')))"

section \<open>Administration: payouts\<close>

definition adminPayouts :: "request \<Rightarrow> handler" where
  "adminPayouts r = call PayoutsPaused (\<lambda>_. renderError)
    (\<lambda>_. call (each (\<lambda>st. call (ListPayoutsByStatus st 50) fail (\<lambda>_. ret ()))
        [PayoutNeedsManualReview, PayoutReadyForManualExecution, PayoutQueued]) (\<lambda>_. renderError)
    (\<lambda>_. render r 200 ''Admin - payouts''))"

definition adminPayoutsPause :: "user \<Rightarrow> request \<Rightarrow> handler" where
  "adminPayoutsPause admin r =
    (if \<not> rqParseForm r then renderError
     else call (SetPayoutsPaused (rqForm r ''action'' = ''pause'')) (\<lambda>_. renderError)
       (\<lambda>_. also_do (audit (Some (uID admin)) ''payouts.pause_toggled'' ''platform_settings'' ''payouts_paused'')
         (reply (Redirect ''/admin/payouts''))))"

definition adminPayoutApprove :: "user \<Rightarrow> request \<Rightarrow> handler" where
  "adminPayoutApprove admin r = (case path_id r ''id'' of
      None \<Rightarrow> notFound r
    | Some i \<Rightarrow> call (TransitionPayout i PayoutNeedsManualReview PayoutReadyForManualExecution (Some (uID admin)) [])
        (\<lambda>_. renderError)
        (\<lambda>_. also_do (audit (Some (uID admin)) ''payout.approved'' ''payout'' (show_int i))
          (also_do (call (GetPayout i) (\<lambda>_. ret ())
              (\<lambda>p. if IsHighValue (poAmountMinor p) then audit None ''fraud.high_value_alert'' ''payout'' (show_int i) else ret ()))
            (reply (Redirect ''/admin/payouts'')))))"

definition adminPayoutComplete :: "user \<Rightarrow> request \<Rightarrow> handler" where
  "adminPayoutComplete admin r = (case path_id r ''id'' of
      None \<Rightarrow> notFound r
    | Some i \<Rightarrow>
      if \<not> rqParseForm r then renderError
      else let txHash = trim_space (rqForm r ''tx_hash'') in
      if txHash = [] then flash_redirect r ''A transaction hash is required.'' ''/admin/payouts''
      else call (TransitionPayout i PayoutReadyForManualExecution PayoutCompleted (Some (uID admin)) txHash)
        (\<lambda>_. renderError)
        (\<lambda>_. also_do (audit (Some (uID admin)) ''payout.completed'' ''payout'' (show_int i))
          (reply (Redirect ''/admin/payouts''))))"

section \<open>Administration: refunds\<close>

definition refundRedirect :: "int \<Rightarrow> string" where
  "refundRedirect i = ''/admin/orders/'' @ show_int i @ ''/payments''"

text \<open>The ledger side of a refund that succeeded: its errors are logged.\<close>

definition post_refund :: "order \<Rightarrow> payment_intent \<Rightarrow> unit op" where
  "post_refund ord intent = (let amount = oTotalMinorUnits ord; feeRefund = oPlatformFeeMinorUnits ord in
    case RefundIssued (oID ord) (oSellerID ord) amount feeRefund (wrap64 (amount - feeRefund))
        (oAcceptedAt ord \<noteq> None) (to_lower (piCurrency intent)) of
      Inl _ \<Rightarrow> ret ()
    | Inr entries \<Rightarrow> also_do (PostLedgerEntries entries) (ret ()))"

definition adminOrderRefund :: "registry \<Rightarrow> user \<Rightarrow> request \<Rightarrow> handler" where
  "adminOrderRefund reg admin r = (case path_id r ''id'' of
      None \<Rightarrow> notFound r
    | Some orderID \<Rightarrow> let url = refundRedirect orderID in
      if \<not> rqParseForm r then renderError
      else let reason = trim_space (rqForm r ''reason'') in
      if reason = [] then flash_redirect r ''A refund reason is required.'' url
      else call (GetOrder orderID) (\<lambda>e. if e = ErrNotFound then notFound r else renderError) (\<lambda>ord.
      call (LatestPaymentIntentForOrder orderID) (\<lambda>_. flash_redirect r ''This order has no refundable payment.'' url) (\<lambda>intent.
      if piStatus intent \<noteq> PaymentSucceeded \<or> piChargeRef intent = []
      then flash_redirect r ''This order has no refundable payment.'' url
      else call (maybe (GetRefundForOrder orderID)) (\<lambda>_. renderError) (\<lambda>existing.
      if existing \<noteq> None then flash_redirect r ''This order already has a refund in progress or completed.'' url
      else case registry_get reg (piProvider intent) of
        None \<Rightarrow> flash_redirect r ''Payments are not enabled.'' url
      | Some provider \<Rightarrow>
        (let amount = oTotalMinorUnits ord;
             key = IdempotencyKey (''refund:'' @ show_int orderID) orderID 0 in
         also_do (send_call (RefundCall (pvName provider) (piChargeRef intent) amount (piCurrency intent) key))
         (case pvRefund provider \<lparr>riProviderRef = piChargeRef intent, riAmountMinor = amount,
              riCurrency = piCurrency intent, riReason = reason, riIdempotencyKey = key\<rparr> of
            Inl _ \<Rightarrow> flash_redirect r ''The refund could not be issued. Please try again.'' url
          | Inr result \<Rightarrow>
            call (CreateRefund orderID (piID intent) (Some (uID admin)) reason amount (piCurrency intent))
              (\<lambda>e. if e = ErrDuplicate then flash_redirect r ''This order already has a refund in progress or completed.'' url
                else renderError)
              (\<lambda>refundID. call (SetRefundStatus refundID (rrsStatus result) (rrsProviderRef result)) (\<lambda>_. renderError)
                (\<lambda>_. also_do (if rrsStatus result = PaymentSucceeded
                    then also_do (post_refund ord intent)
                      (notify (oBuyerID ord) ''payment.refunded'' (''Order #'' @ show_int (oID ord) @ '' was refunded'')
                        (orderRedirect (oID ord)))
                    else ret ())
                  (also_do (audit (Some (uID admin)) ''payment.refund_issued'' ''order'' (show_int orderID))
                  (also_do (flashNotice r ''Refund issued.'') (reply (Redirect url))))))))))))"

end
