(* ===== verification/HandlersCheckout.thy ===== *)
theory HandlersCheckout
  imports HandlersPayments
begin

text \<open>
  The checkout, \<^verbatim>\<open>src/handlers/checkout.go\<close>, and the fraud signals of
  \<^verbatim>\<open>src/handlers/fraud.go\<close>.  The order is created from what the server stored (the draft, the
  package and add-on prices); the request of the confirmation only chooses the payment method.
\<close>

definition maxRequirementsLen :: nat where "maxRequirementsLen = 5000"

section \<open>Fraud signals\<close>

definition fraudVelocityWindow :: time where "fraudVelocityWindow = 3600 * second"

definition checkFraudSignals :: "int \<Rightarrow> order \<Rightarrow> unit op" where
  "checkFraudSignals buyerID ord = call get_now fail (\<lambda>now.
    also_do (call (CountRecentOrdersByBuyer buyerID (now - fraudVelocityWindow)) (\<lambda>_. ret ())
      (\<lambda>count. if IsVelocitySuspicious count
        then audit None ''fraud.velocity_alert'' ''order'' (show_int (oID ord)) else ret ()))
    (if IsHighValue (oTotalMinorUnits ord)
     then audit None ''fraud.high_value_alert'' ''order'' (show_int (oID ord)) else ret ()))"

definition alertWalletChange :: "int \<Rightarrow> unit op" where
  "alertWalletChange walletID = audit None ''fraud.wallet_change_alert'' ''seller_wallet'' (show_int walletID)"

section \<open>Packages and add-ons\<close>

definition findPackage :: "gig_detail \<Rightarrow> int \<Rightarrow> gig_package option" where
  "findPackage gd i = find (\<lambda>p. gpID p = i) (gdPackages gd)"

definition findAddon :: "gig_detail \<Rightarrow> int \<Rightarrow> gig_addon option" where
  "findAddon gd i = find (\<lambda>a. gaID a = i) (gdAddons gd)"

definition selectedAddons :: "gig_detail \<Rightarrow> int list \<Rightarrow> gig_addon list" where
  "selectedAddons gd ids = filter (\<lambda>a. gaID a \<in> set ids) (gdAddons gd)"

text \<open>The totals the review page shows and the confirmation charges.\<close>

definition checkoutReviewData :: "gig_package \<Rightarrow> gig_addon list \<Rightarrow> int \<Rightarrow> order_totals" where
  "checkoutReviewData pkg addons platformFeeBps =
    CalculateOrderTotals (gpPriceMinorUnits pkg) (map gaPriceMinorUnits addons) platformFeeBps"

section \<open>Starting and loading a draft\<close>

definition requirementsURL :: "int \<Rightarrow> string" where
  "requirementsURL i = ''/checkout/'' @ show_int i @ ''/requirements''"

definition reviewURL :: "int \<Rightarrow> string" where
  "reviewURL i = ''/checkout/'' @ show_int i @ ''/review''"

definition checkoutStart :: "user \<Rightarrow> request \<Rightarrow> handler" where
  "checkoutStart u r = call (GetGigBySlug (rqPath r ''slug''))
    (\<lambda>e. if e = ErrNotFound then notFound r else renderError)
    (\<lambda>gd. if gSellerID (gdGig gd) = uID u then reply (HttpError 403)
      else if \<not> rqParseForm r then renderError
      else case parse_int 64 (rqForm r ''package_id'') of
        None \<Rightarrow> notFound r
      | Some packageID \<Rightarrow> if findPackage gd packageID = None then notFound r
          else call (UpsertDraftOrder (uID u) (gID (gdGig gd)) packageID) (\<lambda>_. renderError)
            (\<lambda>f. reply (Redirect (requirementsURL (dfID f)))))"

definition loadOwnedDraft :: "user \<Rightarrow> request \<Rightarrow> (draft_detail \<Rightarrow> gig_detail \<Rightarrow> handler) \<Rightarrow> handler" where
  "loadOwnedDraft u r k = (case path_id r ''id'' of
      None \<Rightarrow> notFound r
    | Some i \<Rightarrow> call (GetDraftOrderByID i) (\<lambda>e. if e = ErrNotFound then notFound r else renderError)
        (\<lambda>f. if dfBuyerID (ddDraft f) \<noteq> uID u then notFound r
          else call (GetGigByID (dfGigID (ddDraft f))) (\<lambda>e. if e = ErrNotFound then notFound r else renderError)
            (\<lambda>gd. k f gd)))"

section \<open>Requirements\<close>

definition checkoutRequirementsForm :: "config \<Rightarrow> user \<Rightarrow> request \<Rightarrow> handler" where
  "checkoutRequirementsForm cfg u r = loadOwnedDraft u r (\<lambda>f gd.
    case findPackage gd (dfPackageID (ddDraft f)) of
      None \<Rightarrow> notFound r
    | Some pkg \<Rightarrow> ensureSession cfg r (\<lambda>_. renderError) (\<lambda>se r'. render r' 200 ''Checkout - requirements''))"

text \<open>The add-on identifiers of the form that belong to the gig.\<close>

definition requested_addons :: "gig_detail \<Rightarrow> string list \<Rightarrow> int list" where
  "requested_addons gd raws = List.map_filter (\<lambda>raw. case parse_int 64 raw of
      None \<Rightarrow> None
    | Some i \<Rightarrow> if findAddon gd i = None then None else Some i) raws"

definition requirements_ok :: "string \<Rightarrow> bool" where
  "requirements_ok requirements \<longleftrightarrow> requirements \<noteq> [] \<and> length requirements \<le> maxRequirementsLen"

definition checkoutRequirementsSubmit :: "config \<Rightarrow> user \<Rightarrow> request \<Rightarrow> handler" where
  "checkoutRequirementsSubmit cfg u r = loadOwnedDraft u r (\<lambda>f gd.
    case findPackage gd (dfPackageID (ddDraft f)) of
      None \<Rightarrow> notFound r
    | Some pkg \<Rightarrow>
      if \<not> rqParseForm r then renderError
      else let requirements = trim_space (rqForm r ''requirements'') in
      if \<not> requirements_ok requirements
      then ensureSession cfg r (\<lambda>_. renderError) (\<lambda>se r'. render r' 422 ''Checkout - requirements'')
      else call (SetDraftOrderRequirements (dfID (ddDraft f)) requirements
          (requested_addons gd (rqFormAll r ''addon_id''))) (\<lambda>_. renderError)
        (\<lambda>_. reply (Redirect (reviewURL (dfID (ddDraft f))))))"

section \<open>Review and confirmation\<close>

record method_option = moValue :: string moChecked :: bool

definition availablePaymentMethods :: "registry \<Rightarrow> method_option list" where
  "availablePaymentMethods reg =
    (let add = (\<lambda>name value opts. if registry_has reg name
          then opts @ [\<lparr>moValue = value, moChecked = (opts = [])\<rparr>] else opts) in
     add ''evm-polygon'' ''usdc-polygon'' (add ''evm-base'' ''usdc-base''
       (add ''btcpay'' ''bitcoin'' (if registry_has reg ''stripe'' then [\<lparr>moValue = ''card'', moChecked = True\<rparr>] else []))))"

definition checkoutReview :: "config \<Rightarrow> user \<Rightarrow> request \<Rightarrow> handler" where
  "checkoutReview cfg u r = loadOwnedDraft u r (\<lambda>f gd.
    case findPackage gd (dfPackageID (ddDraft f)) of
      None \<Rightarrow> notFound r
    | Some pkg \<Rightarrow>
      if trim_space (dfRequirements (ddDraft f)) = [] then reply (Redirect (requirementsURL (dfID (ddDraft f))))
      else ensureSession cfg r (\<lambda>_. renderError) (\<lambda>se r'. render r' 200 ''Checkout - review''))"

definition checkout_items :: "gig_package \<Rightarrow> gig_addon list \<Rightarrow> order_item_input list" where
  "checkout_items pkg addons =
    \<lparr>iiKind = ''package'', iiName = gpName pkg, iiDescription = gpDescription pkg,
     iiPriceMinorUnits = gpPriceMinorUnits pkg, iiCurrency = gpCurrency pkg,
     iiDeliveryDays = Some (gpDeliveryDays pkg)\<rparr>
    # map (\<lambda>a. \<lparr>iiKind = ''addon'', iiName = gaName a, iiDescription = gaDescription a,
        iiPriceMinorUnits = gaPriceMinorUnits a, iiCurrency = gaCurrency a, iiDeliveryDays = None\<rparr>) addons"

definition checkoutConfirm :: "config \<Rightarrow> registry \<Rightarrow> user \<Rightarrow> request \<Rightarrow> handler" where
  "checkoutConfirm cfg reg u r = loadOwnedDraft u r (\<lambda>f gd.
    case findPackage gd (dfPackageID (ddDraft f)) of
      None \<Rightarrow> notFound r
    | Some pkg \<Rightarrow>
      if trim_space (dfRequirements (ddDraft f)) = [] then reply (Redirect (requirementsURL (dfID (ddDraft f))))
      else if \<not> rqParseForm r then renderError
      else let addons = selectedAddons gd (ddAddonIDs f);
          totals = checkoutReviewData pkg addons (cfgPlatformFeeBps cfg) in
      call (CreateOrderFromDraft (dfID (ddDraft f)) (uID u) (gSellerID (gdGig gd)) (gID (gdGig gd))
          (dfRequirements (ddDraft f)) (checkout_items pkg addons) (SubtotalMinorUnits totals) (PlatformFeeMinorUnits totals)
          (TotalMinorUnits totals) (gpCurrency pkg) (gpRevisions pkg)) (\<lambda>_. renderError)
        (\<lambda>ord. also_do (audit (Some (uID u)) ''order.created'' ''order'' (show_int (oID ord)))
          (also_do (checkFraudSignals (uID u) ord)
          (startPayment cfg reg u r ord (rqForm r ''payment_method'')))))"

end
