(* ===== verification/HandlersWallets.thy ===== *)
theory HandlersWallets
  imports HandlersCheckout
begin

text \<open>
  Payout wallets and payout requests, \<^verbatim>\<open>src/handlers/wallets.go\<close>.  Encrypting an address and its
  fingerprint are parameters (\<^verbatim>\<open>None\<close> when no key is configured); the confirmation e-mail is sent
  or fails without an effect on the request.
\<close>

record wallet_crypto =
  wcEncrypt :: "string \<Rightarrow> error + string"
  wcFingerprint :: "string \<Rightarrow> string"

section \<open>Amounts and addresses\<close>

definition is_hex :: "char \<Rightarrow> bool" where
  "is_hex c \<longleftrightarrow> (let n = of_char c :: nat in (48 \<le> n \<and> n \<le> 57) \<or> (97 \<le> n \<and> n \<le> 102) \<or> (65 \<le> n \<and> n \<le> 70))"

definition evmAddressPattern :: "string \<Rightarrow> bool" where
  "evmAddressPattern s \<longleftrightarrow> length s = 42 \<and> take 2 s = ''0x'' \<and> (\<forall>c \<in> set (drop 2 s). is_hex c)"

text \<open>\<^verbatim>\<open>strings.Cut(s, ".")\<close>.\<close>

fun cut_dot :: "string \<Rightarrow> string \<times> string \<times> bool" where
  "cut_dot [] = ([], [], False)"
| "cut_dot (c # cs) = (if c = CHR ''.'' then ([], cs, True)
    else (let (a, b, found) = cut_dot cs in (c # a, b, found)))"

definition parseDollarsToMinor :: "string \<Rightarrow> int option" where
  "parseDollarsToMinor s0 = (let s = trim_space s0 in
    if s = [] then None
    else let (whole, frac0, hasFrac) = cut_dot s;
        frac1 = (if \<not> hasFrac then ''00'' else frac0);
        frac = (if length frac1 = 1 then frac1 @ ''0'' else frac1) in
    if length frac \<noteq> 2 then None
    else case parse_int 63 whole of
      None \<Rightarrow> None
    | Some w \<Rightarrow> if w < 0 then None
        else case parse_int 63 frac of
          None \<Rightarrow> None
        | Some f \<Rightarrow> if f < 0 \<or> f > 99 then None else Some (wrap64 (wrap64 (w * 100) + f)))"

section \<open>Wallets\<close>

definition payout_networks :: "string list" where "payout_networks = [''base'', ''polygon'']"
definition payout_assets :: "string list" where "payout_assets = [''usdc'', ''usdt'']"

text \<open>The wallets the settings page lists, each with its eligibility.\<close>

fun confirmed_wallets :: "int \<Rightarrow> (string \<times> string) list \<Rightarrow> (string \<times> string \<times> bool) list op" where
  "confirmed_wallets userID [] s = ret [] s"
| "confirmed_wallets userID ((network, asset) # rest) s =
    call (call (GetConfirmedWallet userID network asset) (\<lambda>_. ret None) (\<lambda>w. ret (Some w))) fail (\<lambda>found.
    call get_now fail (\<lambda>now.
    call (confirmed_wallets userID rest) fail (\<lambda>rows.
      ret (case found of None \<Rightarrow> rows | Some w \<Rightarrow> (asset, network, IsPayoutEligible w now) # rows)))) s"

definition wallet_slots :: "(string \<times> string) list" where
  "wallet_slots = List.product payout_networks payout_assets"

definition walletSettings :: "wallet_crypto option \<Rightarrow> user \<Rightarrow> request \<Rightarrow> handler" where
  "walletSettings wc u r = also_do (if wc = None then ret [] else confirmed_wallets (uID u) wallet_slots)
    (render r 200 ''Payout wallets'')"

definition walletURL :: string where "walletURL = ''/sell/wallet''"
definition payoutsURL :: string where "payoutsURL = ''/sell/payouts''"

definition submitWallet :: "wallet_crypto option \<Rightarrow> config \<Rightarrow> user \<Rightarrow> request \<Rightarrow> handler" where
  "submitWallet wallet cfg u r = (case wallet of
      None \<Rightarrow> notFound r
    | Some wc \<Rightarrow>
      if \<not> rqParseForm r then renderError
      else let network = trim_space (rqForm r ''network''); asset = trim_space (rqForm r ''asset'');
          address0 = trim_space (rqForm r ''address'') in
      if network \<notin> set payout_networks then flash_redirect r ''Choose a supported network.'' walletURL
      else if asset \<notin> set payout_assets then flash_redirect r ''Choose a supported asset.'' walletURL
      else if \<not> evmAddressPattern address0
      then flash_redirect r ''That does not look like a valid wallet address.'' walletURL
      else let address = to_lower address0 in
      case wcEncrypt wc address of
        Inl _ \<Rightarrow> renderError
      | Inr encrypted \<Rightarrow>
        call (CreatePendingWallet (uID u) network asset encrypted (wcFingerprint wc address)) (\<lambda>_. renderError) (\<lambda>walletID.
        case rqToken r of
          None \<Rightarrow> renderError
        | Some (raw, hash) \<Rightarrow>
          call (CreateAuthToken (uID u) TokenWalletConfirmation hash (cfgAuthTokenTTL cfg)) (\<lambda>_. renderError) (\<lambda>_.
          also_do (audit (Some (uID u)) ''wallet.submitted'' ''seller_wallet'' (show_int walletID))
          (also_do (flashNotice r ''Check your email to confirm this wallet.'')
          (reply (Redirect walletURL))))))"

definition confirmWallet :: "(string \<Rightarrow> string) \<Rightarrow> config \<Rightarrow> user \<Rightarrow> request \<Rightarrow> handler" where
  "confirmWallet hashToken cfg u r =
    (let token = trim_space (rqQuery r ''token'');
         walletID = parse_int_value (rqQuery r ''wallet_id'') in
     if token = [] \<or> walletID = 0 then flash_redirect r ''That confirmation link is invalid.'' walletURL
     else call (GetAuthToken TokenWalletConfirmation (hashToken token))
       (\<lambda>_. flash_redirect r ''That confirmation link is invalid or expired.'' walletURL) (\<lambda>tok.
     call (GetWallet walletID) (\<lambda>_. flash_redirect r ''That confirmation link does not match this wallet.'' walletURL) (\<lambda>w.
     if wlUserID w \<noteq> tkUserID tok \<or> wlUserID w \<noteq> uID u
     then flash_redirect r ''That confirmation link does not match this wallet.'' walletURL
     else call (ConfirmWallet walletID (cfgWalletChangeCooldown cfg))
       (\<lambda>e. if e = ErrNotFound then flash_redirect r ''This wallet was already confirmed or replaced.'' walletURL
         else renderError)
       (\<lambda>_. also_do (UseAuthToken (tkID tok))
         (also_do (audit (Some (tkUserID tok)) ''wallet.confirmed'' ''seller_wallet'' (show_int walletID))
         (also_do (alertWalletChange walletID)
         (also_do (flashNotice r ''Wallet confirmed.'')
         (reply (Redirect walletURL)))))))))"

section \<open>Payout requests\<close>

definition nonTerminalPayoutStatuses :: "payout_status list" where
  "nonTerminalPayoutStatuses = [PayoutQueued, PayoutNeedsManualReview, PayoutReadyForManualExecution]"

text \<open>The last balance row of the seller's available account in the currency, compared without
  case.\<close>

definition available_of :: "string \<Rightarrow> account_balance list \<Rightarrow> int" where
  "available_of currency bs = fold (\<lambda>b acc. if abKind b = AccountSellerAvailable \<and> equal_fold (abCurrency b) currency
    then abBalanceMinor b else acc) bs 0"

definition less_in_flight :: "string \<Rightarrow> payout list \<Rightarrow> int \<Rightarrow> int" where
  "less_in_flight currency ps available = fold (\<lambda>p acc.
    if \<not> equal_fold (poCurrency p) currency then acc
    else if poStatus p \<in> set nonTerminalPayoutStatuses then wrap64 (acc - poAmountMinor p) else acc) ps available"

definition availablePayoutBalance :: "int \<Rightarrow> string \<Rightarrow> int op" where
  "availablePayoutBalance sellerID currency = call (SellerBalances sellerID) fail
    (\<lambda>bs. call (ListPayoutsBySeller sellerID 200) fail
    (\<lambda>ps. ret (less_in_flight currency ps (available_of currency bs))))"

definition payoutRequestForm :: "wallet_crypto option \<Rightarrow> user \<Rightarrow> request \<Rightarrow> handler" where
  "payoutRequestForm wallet u r = (case wallet of
      None \<Rightarrow> render r 200 ''Request payout''
    | Some wc \<Rightarrow> call PayoutsPaused (\<lambda>_. renderError) (\<lambda>paused.
        call (each (\<lambda>(network, asset).
            call (call (GetConfirmedWallet (uID u) network asset) (\<lambda>_. ret None) (\<lambda>w. ret (Some w))) fail (\<lambda>found.
            call get_now fail (\<lambda>now.
            case found of
              None \<Rightarrow> ret ()
            | Some w \<Rightarrow> if \<not> IsPayoutEligible w now then ret ()
                else call (availablePayoutBalance (uID u) ''USD'') fail (\<lambda>_. ret ())))) wallet_slots)
          (\<lambda>_. renderError)
        (\<lambda>_. call (ListPayoutsBySeller (uID u) 20) (\<lambda>_. renderError)
        (\<lambda>_. render r 200 ''Request payout''))))"

definition submitPayoutRequest :: "wallet_crypto option \<Rightarrow> user \<Rightarrow> request \<Rightarrow> handler" where
  "submitPayoutRequest wallet u r = (case wallet of
      None \<Rightarrow> notFound r
    | Some wc \<Rightarrow>
      if \<not> rqParseForm r then renderError
      else let walletID = parse_int_value (rqForm r ''wallet_id'') in
      case parseDollarsToMinor (rqForm r ''amount'') of
        None \<Rightarrow> flash_redirect r ''Enter a valid payout amount.'' payoutsURL
      | Some amountMinor \<Rightarrow>
        if amountMinor \<le> 0 then flash_redirect r ''Enter a valid payout amount.'' payoutsURL
        else call (GetWallet walletID) (\<lambda>_. flash_redirect r ''That wallet is not on your account.'' payoutsURL) (\<lambda>w.
        if wlUserID w \<noteq> uID u then flash_redirect r ''That wallet is not on your account.'' payoutsURL
        else call get_now (\<lambda>_. renderError) (\<lambda>now.
        if \<not> IsPayoutEligible w now
        then flash_redirect r ''That wallet is not confirmed and past its cooling-off period yet.'' payoutsURL
        else call (availablePayoutBalance (uID u) ''USD'') (\<lambda>_. renderError) (\<lambda>available.
        if amountMinor > available
        then flash_redirect r ''That amount is more than your available balance.'' payoutsURL
        else let initialStatus = (if IsHighValue amountMinor then PayoutNeedsManualReview else PayoutQueued) in
        call (CreatePayout (uID u) walletID amountMinor ''USD'' (wlNetwork w) (wlAsset w) initialStatus) (\<lambda>_. renderError)
        (\<lambda>payoutID. also_do (audit (Some (uID u)) ''payout.requested'' ''payout'' (show_int payoutID))
          (also_do (if initialStatus = PayoutNeedsManualReview
              then flashNotice r ''Payout requested. This amount needs admin review before it is queued for execution.''
              else flashNotice r ''Payout requested and queued.'')
          (reply (Redirect payoutsURL))))))))"

end
