(* ===== verification/Worker.thy ===== *)
theory Worker
  imports HandlersWallets
begin

text \<open>
  The background jobs of the worker: \<^verbatim>\<open>src/payments.go\<close> (webhook processing, capture and failure
  of a payment, the reconciliation sweep), \<^verbatim>\<open>src/orders.go\<close> (the auto-accept sweep),
  \<^verbatim>\<open>src/maintenance.go\<close>, \<^verbatim>\<open>src/notifications.go\<close>, and the registration of \<^verbatim>\<open>src/main.go\<close>.
  Sending an e-mail is a parameter with an outcome.
\<close>

definition paymentWebhookProcessKind :: string where
  "paymentWebhookProcessKind = ''payment.webhook_process''"
definition paymentReconcileSweepKind :: string where
  "paymentReconcileSweepKind = ''payment.reconcile_sweep''"
definition orderAutoAcceptSweepKind :: string where
  "orderAutoAcceptSweepKind = ''order.autoaccept_sweep''"
definition maintenanceSweepKind :: string where
  "maintenanceSweepKind = ''maintenance.sweep''"
definition notificationEmailKind :: string where
  "notificationEmailKind = ''notification.email''"

section \<open>Capture and failure of a payment\<close>

text \<open>\<^verbatim>\<open>notifyOrderParty\<close> mirrors \<^verbatim>\<open>notify\<close> with the worker's own job kind.\<close>

definition notifyOrderParty :: "int \<Rightarrow> string \<Rightarrow> string \<Rightarrow> string \<Rightarrow> unit op" where
  "notifyOrderParty userID kind body link =
    call (CreateNotification userID kind body link) (\<lambda>_. ret ())
      (\<lambda>_. also_do (EnqueueJob notificationEmailKind (EmailPayload userID body link) None 3) (ret ()))"

text \<open>What follows the move to \<^verbatim>\<open>paid\<close>: the posting, the move to \<^verbatim>\<open>in_progress\<close> and the
  notices.\<close>

definition finish_capture :: "order \<Rightarrow> unit op" where
  "finish_capture ord =
    (case PaymentCaptured (oID ord) (oSellerID ord) (oTotalMinorUnits ord) (oPlatformFeeMinorUnits ord) (oCurrency ord) of
      Inl e \<Rightarrow> fail (ErrLedger e)
    | Inr entries \<Rightarrow> call (PostLedgerEntries entries) fail (\<lambda>_.
        call (TransitionOrder (oID ord) OrderPaid OrderInProgress) fail (\<lambda>_.
        also_do (notifyOrderParty (oBuyerID ord) ''payment.succeeded''
          (''Payment received for order #'' @ show_int (oID ord)) (orderRedirect (oID ord)))
        (also_do (notifyOrderParty (oSellerID ord) ''order.started''
          (''Order #'' @ show_int (oID ord) @ '' is paid and ready to start'') (orderRedirect (oID ord)))
        (ret ())))))"

definition capturePaymentForOrder :: "payment_intent \<Rightarrow> unit op" where
  "capturePaymentForOrder intent = call (GetOrder (piOrderID intent)) fail (\<lambda>ord.
    if oStatus ord \<noteq> OrderPendingPayment then ret ()
    else call (TransitionOrder (oID ord) OrderPendingPayment OrderPaid)
      (\<lambda>e. if e = ErrNotFound then ret () else fail e)
      (\<lambda>_. finish_capture ord))"

definition failPaymentForOrder :: "payment_intent \<Rightarrow> unit op" where
  "failPaymentForOrder intent = call (GetOrder (piOrderID intent)) fail (\<lambda>ord.
    if oStatus ord \<noteq> OrderPendingPayment then ret ()
    else call (TransitionOrder (oID ord) OrderPendingPayment OrderPaymentFailed)
      (\<lambda>e. if e = ErrNotFound then ret () else fail e)
      (\<lambda>_. also_do (notifyOrderParty (oBuyerID ord) ''payment.failed''
          (''Payment for order #'' @ show_int (oID ord) @ '' did not go through'') (orderRedirect (oID ord)))
        (ret ())))"

section \<open>Webhook processing\<close>

definition apply_payment :: "payment_intent \<Rightarrow> payment_status \<Rightarrow> unit op" where
  "apply_payment intent st =
    (if st = PaymentSucceeded then capturePaymentForOrder intent
     else if st = PaymentFailed \<or> st = PaymentExpired then failPaymentForOrder intent
     else ret ())"

text \<open>Decoding a JSON payload into a struct leaves the fields that are missing at their zero
  values; \<^verbatim>\<open>null\<close> decodes to the zero struct.\<close>

fun decode_webhook :: "job_payload \<Rightarrow> string \<times> string" where
  "decode_webhook (WebhookPayload pname eventID) = (pname, eventID)"
| "decode_webhook _ = ([], [])"

fun decode_email :: "job_payload \<Rightarrow> int \<times> string \<times> string" where
  "decode_email (EmailPayload userID body link) = (userID, body, link)"
| "decode_email _ = (0, [], [])"

definition apply_payment_event :: "webhook_event \<Rightarrow> verified_event \<Rightarrow> normalized_payment \<Rightarrow> unit op" where
  "apply_payment_event event evt payment =
    call (GetPaymentIntentByProviderRef (veProvider evt) (veProviderRef evt))
      (\<lambda>e. if e = ErrNotFound then MarkWebhookProcessed (whID event) else fail e)
      (\<lambda>intent.
    call (RecordPaymentAttempt (piID intent) (npStatus payment) (npFailureCode payment) (npFailureReason payment))
      fail (\<lambda>_.
    call (if npChargeRef payment \<noteq> [] \<and> npChargeRef payment \<noteq> piChargeRef intent
        then SetPaymentIntentChargeRef (piID intent) (npChargeRef payment) else ret ()) fail (\<lambda>_.
    call (if CanTransitionPayment (piStatus intent) (npStatus payment)
        then TransitionPaymentIntent (piID intent) (piStatus intent) (npStatus payment) else ret ()) fail (\<lambda>_.
    call (apply_payment intent (npStatus payment)) fail (\<lambda>_.
    MarkWebhookProcessed (whID event))))))"

definition processPaymentWebhook :: "registry \<Rightarrow> job \<Rightarrow> unit op" where
  "processPaymentWebhook reg job = (let (pname, eventID) = decode_webhook (jPayload job) in
    case registry_get reg pname of
      None \<Rightarrow> fail (ErrProviderNotConfigured pname)
    | Some provider \<Rightarrow> call (GetWebhookEventByProviderEventID pname eventID) fail (\<lambda>event.
        if whStatus event = WebhookProcessed then ret ()
        else case pvParseEvent provider (whPayload event) of
          Inl e \<Rightarrow> fail e
        | Inr evt \<Rightarrow> (case veAccount evt of
            Some acct \<Rightarrow> call (SetStripeAccountCapabilities (caAccountID acct) (caChargesEnabled acct) (caPayoutsEnabled acct))
                fail (\<lambda>_. MarkWebhookProcessed (whID event))
          | None \<Rightarrow> (case vePayment evt of
              None \<Rightarrow> MarkWebhookProcessed (whID event)
            | Some payment \<Rightarrow> apply_payment_event event evt payment))))"

section \<open>Reconciliation\<close>

definition reconcile_intent :: "registry \<Rightarrow> payment_intent \<Rightarrow> unit op" where
  "reconcile_intent reg intent = (case registry_get reg (piProvider intent) of
      None \<Rightarrow> ret ()
    | Some provider \<Rightarrow> (case pvPayment provider (piProviderRef intent) of
        Inl _ \<Rightarrow> ret ()
      | Inr payment \<Rightarrow>
          also_do (if npChargeRef payment \<noteq> [] \<and> npChargeRef payment \<noteq> piChargeRef intent
            then SetPaymentIntentChargeRef (piID intent) (npChargeRef payment) else ret ())
          (if \<not> CanTransitionPayment (piStatus intent) (npStatus payment) then ret ()
           else call (TransitionPaymentIntent (piID intent) (piStatus intent) (npStatus payment)) (\<lambda>_. ret ())
             (\<lambda>_. also_do (apply_payment intent (npStatus payment)) (ret ())))))"

definition enqueue_sweep :: "config \<Rightarrow> string \<Rightarrow> time \<Rightarrow> unit op" where
  "enqueue_sweep cfg kind after = call get_now fail (\<lambda>now.
    call (EnqueueJob kind NoPayload (Some (now + after)) (cfgJobMaxAttempts cfg)) fail (\<lambda>_. ret ()))"

definition paymentReconcileSweep :: "config \<Rightarrow> registry \<Rightarrow> job \<Rightarrow> unit op" where
  "paymentReconcileSweep cfg reg job =
    call (if registry_empty reg then ret ()
        else call (ListStalePaymentIntents (cfgPaymentReconcileInterval cfg) 100) fail
          (\<lambda>intents. each (reconcile_intent reg) intents)) fail
      (\<lambda>_. enqueue_sweep cfg paymentReconcileSweepKind (cfgPaymentReconcileInterval cfg))"

section \<open>Auto-accept, maintenance and e-mail\<close>

definition auto_accepted :: "order \<Rightarrow> unit op" where
  "auto_accepted ord = also_do (releaseSellerEarnings ord)
    (also_do (notifyOrderParty (oSellerID ord) ''order.accepted''
      (''Order #'' @ show_int (oID ord) @ '' was automatically accepted'') (orderRedirect (oID ord))) (ret ()))"

definition orderAutoAcceptSweep :: "config \<Rightarrow> job \<Rightarrow> unit op" where
  "orderAutoAcceptSweep cfg job = call get_now fail (\<lambda>now.
    call (AutoAcceptOrders (now - cfgAutoAcceptAfter cfg)) fail (\<lambda>ords.
    call (each auto_accepted ords) fail (\<lambda>_.
    enqueue_sweep cfg orderAutoAcceptSweepKind (cfgMaintenanceInterval cfg))))"

definition maintenanceSweep :: "config \<Rightarrow> job \<Rightarrow> unit op" where
  "maintenanceSweep cfg job = call DeleteExpiredSessions fail (\<lambda>_.
    call DeleteExpiredAuthTokens fail (\<lambda>_.
    enqueue_sweep cfg maintenanceSweepKind (cfgMaintenanceInterval cfg)))"

definition sendNotificationEmail :: "config \<Rightarrow> mailer \<Rightarrow> job \<Rightarrow> unit op" where
  "sendNotificationEmail cfg send job = (let (userID, body, link) = decode_email (jPayload job) in
    call (GetUserByID userID) fail (\<lambda>u.
      Send send (uEmail u) ''Gig Marketplace notification''
        (if link \<noteq> [] then body @ [CHR 0x0A, CHR 0x0A] @ cfgBaseURL cfg @ link else body)))"

section \<open>The worker's handlers\<close>

definition worker_handlers :: "config \<Rightarrow> registry \<Rightarrow> mailer \<Rightarrow> job_handlers" where
  "worker_handlers cfg reg send kind =
    (if kind = maintenanceSweepKind then Some (maintenanceSweep cfg)
     else if kind = notificationEmailKind then Some (sendNotificationEmail cfg send)
     else if kind = orderAutoAcceptSweepKind then Some (orderAutoAcceptSweep cfg)
     else if kind = paymentWebhookProcessKind then Some (processPaymentWebhook reg)
     else if kind = paymentReconcileSweepKind then Some (paymentReconcileSweep cfg reg)
     else None)"

text \<open>The first runs of the sweeps, enqueued when a worker starts.\<close>

definition runWorker :: "config \<Rightarrow> registry \<Rightarrow> unit op" where
  "runWorker cfg reg =
    call (enqueue_sweep cfg maintenanceSweepKind 0) fail (\<lambda>_.
    call (enqueue_sweep cfg orderAutoAcceptSweepKind 0) fail (\<lambda>_.
    if registry_empty reg then ret ()
    else enqueue_sweep cfg paymentReconcileSweepKind (cfgPaymentReconcileInterval cfg)))"

end
