(* ===== verification/Text.thy ===== *)
theory Text
  imports GigPrelude
begin

text \<open>
  The functions of Go's \<^verbatim>\<open>strings\<close>, \<^verbatim>\<open>strconv\<close> and \<^verbatim>\<open>fmt\<close> that the formatters and the
  payment adapters use, on ASCII text: cutting and splitting at a separator, prefixes,
  zero-padded decimals and hexadecimal numbers, with the facts that let their round trips be
  proved by rewriting.
\<close>

section \<open>Cutting and splitting\<close>

text \<open>\<^verbatim>\<open>strings.Cut(s, sep)\<close> for a separator of one byte.\<close>

fun str_cut :: "char \<Rightarrow> string \<Rightarrow> string \<times> string \<times> bool" where
  "str_cut sep [] = ([], [], False)"
| "str_cut sep (c # cs) = (if c = sep then ([], cs, True)
     else let (a, b, found) = str_cut sep cs in (c # a, b, found))"

text \<open>\<^verbatim>\<open>strings.SplitN(s, sep, n)\<close> for \<^verbatim>\<open>n\<close> at least one, and \<^verbatim>\<open>strings.Split\<close>.\<close>

fun splitN :: "char \<Rightarrow> nat \<Rightarrow> string \<Rightarrow> string list" where
  "splitN sep 0 s = []"
| "splitN sep (Suc 0) s = [s]"
| "splitN sep (Suc n) s = (let (a, b, found) = str_cut sep s in if found then a # splitN sep n b else [s])"

definition split_all :: "char \<Rightarrow> string \<Rightarrow> string list" where
  "split_all sep s = splitN sep (Suc (length s)) s"

definition trim_prefix :: "string \<Rightarrow> string \<Rightarrow> string" where
  "trim_prefix s p = (if has_prefix s p then drop (length p) s else s)"

text \<open>\<^verbatim>\<open>strings.CutPrefix\<close>.\<close>

definition cut_prefix :: "string \<Rightarrow> string \<Rightarrow> string option" where
  "cut_prefix s p = (if has_prefix s p then Some (drop (length p) s) else None)"

definition remove_spaces :: "string \<Rightarrow> string" where
  "remove_spaces s = filter (\<lambda>c. c \<noteq> CHR '' '') s"

section \<open>Numbers\<close>

definition zeros :: "nat \<Rightarrow> string" where "zeros n = replicate n CHR ''0''"

text \<open>\<^verbatim>\<open>fmt.Sprintf("%0wd", i)\<close>: the sign counts towards the width.\<close>

definition pad_int :: "nat \<Rightarrow> int \<Rightarrow> string" where
  "pad_int w i = (let ds = show_nat (nat \<bar>i\<bar>) in
     if i < 0 then CHR ''-'' # zeros (w - 1 - length ds) @ ds else zeros (w - length ds) @ ds)"

definition is_digit :: "char \<Rightarrow> bool" where
  "is_digit c \<longleftrightarrow> digit_of c \<noteq> None"

definition hex_of :: "char \<Rightarrow> int option" where
  "hex_of c = (let n = of_char c :: nat in
     if 48 \<le> n \<and> n \<le> 57 then Some (int n - 48)
     else if 97 \<le> n \<and> n \<le> 102 then Some (int n - 87)
     else if 65 \<le> n \<and> n \<le> 70 then Some (int n - 55) else None)"

fun parse_hexes :: "int \<Rightarrow> string \<Rightarrow> int option" where
  "parse_hexes acc [] = Some acc"
| "parse_hexes acc (c # cs) = (case hex_of c of None \<Rightarrow> None | Some d \<Rightarrow> parse_hexes (16 * acc + d) cs)"

text \<open>\<^verbatim>\<open>big.Int.SetString\<close> in base 10 and 16: an optional sign and at least one digit, unbounded.\<close>

definition big_parse :: "(int \<Rightarrow> string \<Rightarrow> int option) \<Rightarrow> string \<Rightarrow> int option" where
  "big_parse digits s =
    (let neg = (s \<noteq> [] \<and> hd s = CHR ''-'');
         body = (if s \<noteq> [] \<and> (hd s = CHR ''-'' \<or> hd s = CHR ''+'') then tl s else s) in
     if body = [] then None
     else map_option (\<lambda>n. if neg then - n else n) (digits 0 body))"

text \<open>\<^verbatim>\<open>strconv.ParseInt(s, 16, 64)\<close>.\<close>

definition parse_hex_int :: "string \<Rightarrow> int option" where
  "parse_hex_int s = (case big_parse parse_hexes s of None \<Rightarrow> None
     | Some v \<Rightarrow> if in_int64 v then Some v else None)"

definition hex_char :: "nat \<Rightarrow> char" where
  "hex_char n = (if n < 10 then char_of (48 + n) else char_of (87 + n))"

text \<open>\<^verbatim>\<open>%x\<close> of a non-negative number.\<close>

fun show_hex :: "nat \<Rightarrow> string" where
  "show_hex n = (if n < 16 then [hex_char n] else show_hex (n div 16) @ [hex_char (n mod 16)])"

declare show_hex.simps [simp del]

text \<open>\<^verbatim>\<open>hex.EncodeToString\<close> of bytes.\<close>

definition hex_encode :: "nat list \<Rightarrow> string" where
  "hex_encode bs = concat (map (\<lambda>b. [hex_char (b div 16 mod 16), hex_char (b mod 16)]) bs)"

section \<open>Facts\<close>

named_theorems text_simps \<open>rewriting of the text functions\<close>

lemma str_cut_absent [text_simps]: "sep \<notin> set a \<Longrightarrow> str_cut sep a = (a, [], False)"
  by (induction a) auto

lemma str_cut_append [text_simps]: "sep \<notin> set a \<Longrightarrow> str_cut sep (a @ sep # b) = (a, b, True)"
  by (induction a) auto

lemma str_cut_parts: "str_cut sep s = (a, b, found) \<Longrightarrow> s = (if found then a @ sep # b else a) \<and> sep \<notin> set a"
  by (induction s arbitrary: a b found) (auto split: if_splits prod.splits)

lemma str_cut_first: "str_cut sep s = (a, b, found) \<Longrightarrow> \<not> found \<Longrightarrow> b = []"
  by (induction s arbitrary: a b found) (auto split: if_splits prod.splits)

lemma splitN_append [text_simps]:
  "sep \<notin> set a \<Longrightarrow> splitN sep (Suc (Suc n)) (a @ sep # b) = a # splitN sep (Suc n) b"
  by (simp add: str_cut_append)

lemma splitN_absent [text_simps]: "sep \<notin> set a \<Longrightarrow> splitN sep (Suc n) a = [a]"
  by (cases n) (simp_all add: str_cut_absent)

text \<open>Splitting a text into the parts it was joined from.\<close>

lemma splitN_long:
  "sep \<notin> set a \<Longrightarrow> splitN sep (Suc (length (a @ sep # b))) (a @ sep # b) = a # splitN sep (Suc (length a + length b)) b"
  by (simp add: str_cut_append)

lemma splitN_enough: "length s \<le> n \<Longrightarrow> splitN sep (Suc n) s = splitN sep (Suc (length s)) s"
proof (induction "length s" arbitrary: s n rule: less_induct)
  case less
  obtain a b found where c: "str_cut sep s = (a, b, found)" by (cases "str_cut sep s")
  show ?case
  proof (cases found)
    case True
    from str_cut_parts [OF c] True have s: "s = a @ sep # b" by simp
    then obtain m where m: "n = Suc m" "length b \<le> m" using less.prems by (cases n) auto
    then have "splitN sep (Suc n) s = a # splitN sep (Suc (length b)) b"
      using c True less.hyps [of b m] s by simp
    moreover have "length b \<le> length a + length b" by simp
    ultimately show ?thesis
      using c True less.hyps [of b "length a + length b"] s by simp
  next
    case False
    then show ?thesis using c by (cases n; cases "length s") simp_all
  qed
qed

lemma split_all_join: "sep \<notin> set a \<Longrightarrow> split_all sep (a @ sep # b) = a # split_all sep b"
  using splitN_enough [of b "length a + length b" sep] by (simp add: split_all_def splitN_long del: length_append)

lemma split_all_last: "sep \<notin> set a \<Longrightarrow> split_all sep a = [a]"
  by (simp add: split_all_def splitN_absent)

lemma splitN_two: "sep \<notin> set a \<Longrightarrow> splitN sep 2 (a @ sep # b) = [a, b]"
  using splitN_append [of sep a 0 b] by (simp add: numeral_2_eq_2)

lemma has_prefix_append [simp]: "has_prefix (p @ s) p"
  by (induction p) auto

lemma has_prefix_iff: "has_prefix s p \<longleftrightarrow> (\<exists>r. s = p @ r)"
  by (induction s p rule: has_prefix.induct) auto

lemma trim_space_id [text_simps]:
  assumes "\<And>c. c \<in> set s \<Longrightarrow> \<not> is_space c"
  shows "trim_space s = s"
proof -
  have "dropWhile is_space t = t" if "set t \<subseteq> set s" for t
    using that assms by (cases t) auto
  from this [of s] this [of "rev s"] show ?thesis by (simp add: trim_space_def)
qed

lemma digit_not_space: "is_digit c \<Longrightarrow> \<not> is_space c"
  by (auto simp: is_digit_def digit_of_def is_space_def Let_def split: if_splits)

lemma digit_chars: "is_digit c \<Longrightarrow> c \<noteq> CHR ''.'' \<and> c \<noteq> CHR ''-'' \<and> c \<noteq> CHR ''+'' \<and> c \<noteq> CHR '':''"
  by (auto simp: is_digit_def digit_of_def Let_def)

lemma is_digit_char [simp]: "d < 10 \<Longrightarrow> is_digit (digit_char d)"
  by (simp add: is_digit_def digit_of_digit_char)

lemma is_digit_0 [simp]: "is_digit (CHR ''0'')"
  by (simp add: is_digit_def digit_of_def)

lemma show_nat_is_digit: "c \<in> set (show_nat n) \<Longrightarrow> is_digit c"
proof (induction n rule: show_nat.induct)
  case (1 n)
  then show ?case
    by (cases "n < 10") (auto simp: show_nat.simps [of n])
qed

lemma show_nat_ne [simp]: "show_nat n \<noteq> []"
  using show_nat_head [of n] by auto

lemma show_nat_no [text_simps]:
  "CHR ''.'' \<notin> set (show_nat n)" "CHR '':'' \<notin> set (show_nat n)" "CHR ''-'' \<notin> set (show_nat n)"
  using show_nat_is_digit digit_chars by blast+

lemma show_nat_not_space: "c \<in> set (show_nat n) \<Longrightarrow> \<not> is_space c"
  using show_nat_is_digit digit_not_space by blast

lemma parse_digits_zeros: "parse_digits 0 (zeros n @ s) = parse_digits 0 s"
  by (induction n) (simp_all add: zeros_def digit_of_def)

lemma pad_int_digits: "0 \<le> i \<Longrightarrow> c \<in> set (pad_int w i) \<Longrightarrow> is_digit c"
  using show_nat_is_digit by (auto simp: pad_int_def Let_def zeros_def)

lemma parse_digits_pad: "0 \<le> i \<Longrightarrow> parse_digits 0 (pad_int w i) = Some i"
  by (simp add: pad_int_def Let_def parse_digits_zeros parse_digits_show)

lemma length_show_nat: "n < 10 ^ Suc k \<Longrightarrow> length (show_nat n) \<le> Suc k"
proof (induction k arbitrary: n)
  case 0
  then show ?case by (simp add: show_nat.simps [of n])
next
  case (Suc k)
  show ?case
  proof (cases "n < 10")
    case False
    from Suc.prems have "n div 10 < 10 ^ Suc k" by auto
    with Suc.IH False show ?thesis by (simp add: show_nat.simps [of n])
  qed (simp add: show_nat.simps [of n])
qed

lemma length_pad_int: "0 \<le> i \<Longrightarrow> i < 10 ^ Suc k \<Longrightarrow> length (pad_int (Suc k) i) = Suc k"
proof -
  assume i: "0 \<le> i" "i < 10 ^ Suc k"
  then have "int (nat i) < int (10 ^ Suc k)" by simp
  then have "nat i < 10 ^ Suc k" by linarith
  from length_show_nat [OF this] i show ?thesis by (simp add: pad_int_def Let_def zeros_def)
qed

lemma parse_int_digits:
  assumes "s \<noteq> []" "\<And>c. c \<in> set s \<Longrightarrow> is_digit c"
  shows "parse_int 64 s = (case parse_digits 0 s of None \<Rightarrow> None | Some v \<Rightarrow> if in_int64 v then Some v else None)"
proof -
  from assms obtain c cs where s: "s = c # cs" by (cases s) auto
  with assms digit_chars [of c] have "hd s \<noteq> CHR ''-''" "hd s \<noteq> CHR ''+''" by auto
  with s show ?thesis by (simp add: parse_int_def in_int64_def split: option.splits)
qed

lemma hex_char_code: "n < 16 \<Longrightarrow> of_char (hex_char n) = (if n < 10 then 48 + n else 87 + n)"
  by (simp add: hex_char_def of_char_of take_bit_eq_mod)

lemma hex_encode_no: "CHR '','' \<notin> set (hex_encode bs)"
proof -
  have "hex_char n \<noteq> CHR '',''" if "n < 16" for n
    using hex_char_code [OF that] by (auto split: if_splits)
  then show ?thesis by (auto simp: hex_encode_def dest: sym)
qed

end
