(* ===== verification/Codec.thy ===== *)
theory Codec
  imports Text
begin

text \<open>
  Unpadded base-32 and base-64 (\<^verbatim>\<open>encoding/base32\<close> and \<^verbatim>\<open>encoding/base64\<close> without padding), as
  the one-time-code secrets and the password hashes use them.  Both work quantum by quantum: five
  bytes are eight digits, three bytes are four.  A byte string is a list of numbers below 256.

  The locale \<^verbatim>\<open>quantum_code\<close> states what the sizes of a quantum have to satisfy; inside it
  decoding is proved to invert encoding, and both codes interpret it.
\<close>

section \<open>Digits of a number\<close>

definition from_digits :: "nat \<Rightarrow> nat list \<Rightarrow> nat" where
  "from_digits base ds = foldl (\<lambda>a d. a * base + d) 0 ds"

fun to_digits :: "nat \<Rightarrow> nat \<Rightarrow> nat \<Rightarrow> nat list" where
  "to_digits base 0 x = []"
| "to_digits base (Suc n) x = to_digits base n (x div base) @ [x mod base]"

lemma from_digits_Nil [simp]: "from_digits base [] = 0"
  and from_digits_snoc [simp]: "from_digits base (ds @ [d]) = from_digits base ds * base + d"
  by (simp_all add: from_digits_def)

lemma length_to_digits [simp]: "length (to_digits base n x) = n"
  by (induction n arbitrary: x) auto

lemma to_digits_bound: "0 < base \<Longrightarrow> d \<in> set (to_digits base n x) \<Longrightarrow> d < base"
  by (induction n arbitrary: x) auto

lemma to_from_digits:
  "(\<And>d. d \<in> set ds \<Longrightarrow> d < base) \<Longrightarrow> to_digits base (length ds) (from_digits base ds) = ds"
proof (induction ds rule: rev_induct)
  case (snoc d ds)
  then have "d < base" "to_digits base (length ds) (from_digits base ds) = ds" by auto
  then show ?case by simp
qed simp

lemma from_to_digits: "0 < base \<Longrightarrow> x < base ^ n \<Longrightarrow> from_digits base (to_digits base n x) = x"
proof (induction n arbitrary: x)
  case (Suc n)
  then have "x div base < base ^ n" by (metis less_mult_imp_div_less mult.commute power_Suc)
  with Suc show ?case by simp
qed simp

lemma from_digits_less: "(\<And>d. d \<in> set ds \<Longrightarrow> d < base) \<Longrightarrow> from_digits base ds < base ^ length ds"
proof (induction ds rule: rev_induct)
  case (snoc d ds)
  then have "d < base" "from_digits base ds < base ^ length ds" by auto
  then have "from_digits base ds * base + d < from_digits base ds * base + base" by simp
  also have "\<dots> = (from_digits base ds + 1) * base" by simp
  also have "\<dots> \<le> base ^ length ds * base"
    using \<open>from_digits base ds < base ^ length ds\<close> by (intro mult_right_mono) auto
  finally show ?case by (simp add: mult.commute)
qed simp

lemma from_digits_zeros: "from_digits base (ds @ replicate n 0) = from_digits base ds * base ^ n"
  by (induction n) (simp_all add: replicate_append_same [symmetric] flip: append_assoc)

lemma to_digits_zeros:
  "0 < base \<Longrightarrow> to_digits base (n + m) (x * base ^ m) = to_digits base n x @ replicate m 0"
  by (induction m) (simp_all add: replicate_append_same [symmetric] ac_simps)

lemma replicate_take_zeros:
  assumes "0 < base" "base ^ (n - m) dvd x" "m \<le> n"
  shows "take m (to_digits base n x) @ replicate (n - m) 0 = to_digits base n x"
proof -
  from assms obtain y where x: "x = y * base ^ (n - m)" by (metis dvd_def mult.commute)
  have "to_digits base n x = to_digits base m y @ replicate (n - m) 0"
    using to_digits_zeros [OF assms(1), of m "n - m" y] assms(3) x by simp
  then show ?thesis by simp
qed

section \<open>Quanta\<close>

text \<open>\<^verbatim>\<open>base\<close> to the \<^verbatim>\<open>q\<close> is 256 to the \<^verbatim>\<open>b\<close>; \<^verbatim>\<open>dc\<close> and \<^verbatim>\<open>nc\<close> give the number of digits for
  a number of bytes and back.\<close>

definition encode_quantum :: "nat \<Rightarrow> nat \<Rightarrow> nat \<Rightarrow> nat list \<Rightarrow> nat list \<Rightarrow> nat list" where
  "encode_quantum base q b dc bs =
    take (dc ! length bs) (to_digits base q (from_digits 256 (bs @ replicate (b - length bs) 0)))"

definition decode_quantum :: "nat \<Rightarrow> nat \<Rightarrow> nat \<Rightarrow> nat list \<Rightarrow> nat list \<Rightarrow> nat list" where
  "decode_quantum base q b nc ds =
    take (nc ! length ds) (to_digits 256 b (from_digits base (ds @ replicate (q - length ds) 0)))"

fun chunks :: "nat \<Rightarrow> 'a list \<Rightarrow> 'a list list" where
  "chunks n xs = (if xs = [] \<or> n = 0 then [] else take n xs # chunks n (drop n xs))"

declare chunks.simps [simp del]

lemma chunks_Nil [simp]: "chunks n [] = []"
  by (simp add: chunks.simps)

lemma chunks_short: "xs \<noteq> [] \<Longrightarrow> 0 < n \<Longrightarrow> length xs \<le> n \<Longrightarrow> chunks n xs = [xs]"
  by (simp add: chunks.simps [of n xs])

lemma chunks_full: "0 < n \<Longrightarrow> length xs = n \<Longrightarrow> chunks n (xs @ ys) = xs # chunks n ys"
  by (auto simp: chunks.simps [of n "xs @ ys"])

definition encode_digits :: "nat \<Rightarrow> nat \<Rightarrow> nat \<Rightarrow> nat list \<Rightarrow> nat list \<Rightarrow> nat list" where
  "encode_digits base q b dc bs = concat (map (encode_quantum base q b dc) (chunks b bs))"

definition decode_digits :: "nat \<Rightarrow> nat \<Rightarrow> nat \<Rightarrow> nat list \<Rightarrow> nat list \<Rightarrow> nat list" where
  "decode_digits base q b nc ds = concat (map (decode_quantum base q b nc) (chunks q ds))"

locale quantum_code =
  fixes base q b :: nat and dc nc :: "nat list"
  assumes pos: "0 < base" "0 < q" "0 < b"
    and sizes: "base ^ q = 256 ^ b"
    and counts: "1 \<le> n \<Longrightarrow> n \<le> b \<Longrightarrow>
      0 < dc ! n \<and> dc ! n \<le> q \<and> nc ! (dc ! n) = n \<and> base ^ (q - dc ! n) dvd 256 ^ (b - n)"
    and full: "dc ! b = q"
begin

lemma quantum_roundtrip:
  assumes "bs \<noteq> []" "length bs \<le> b" "\<And>x. x \<in> set bs \<Longrightarrow> x < 256"
  shows "length (encode_quantum base q b dc bs) = dc ! length bs"
    and "decode_quantum base q b nc (encode_quantum base q b dc bs) = bs"
proof -
  let ?n = "length bs" and ?pad = "bs @ replicate (b - length bs) 0"
  let ?x = "from_digits 256 ?pad"
  from assms have c: "0 < dc ! ?n" "dc ! ?n \<le> q" "nc ! (dc ! ?n) = ?n" "base ^ (q - dc ! ?n) dvd 256 ^ (b - ?n)"
    using counts [of ?n] by (auto simp: Suc_le_eq)
  show len: "length (encode_quantum base q b dc bs) = dc ! ?n"
    using c by (simp add: encode_quantum_def)
  have "base ^ (q - dc ! ?n) dvd ?x"
    using c(4) by (simp add: from_digits_zeros)
  then have padded: "encode_quantum base q b dc bs @ replicate (q - dc ! ?n) 0 = to_digits base q ?x"
    using c(2) pos by (simp add: encode_quantum_def replicate_take_zeros)
  have small: "y < 256" if "y \<in> set ?pad" for y using that assms(3) by auto
  note pad = from_digits_less [of ?pad, OF small] to_from_digits [of ?pad, OF small]
  have l: "length ?pad = b" using assms(2) by simp
  have "from_digits base (to_digits base q ?x) = ?x"
    using pad(1) l pos by (intro from_to_digits) (simp_all add: sizes)
  with padded have "decode_quantum base q b nc (encode_quantum base q b dc bs) = take ?n (to_digits 256 b ?x)"
    by (simp add: decode_quantum_def len c)
  also have "to_digits 256 b ?x = ?pad" using pad(2) l by simp
  finally show "decode_quantum base q b nc (encode_quantum base q b dc bs) = bs" by simp
qed

lemma digits_roundtrip:
  "(\<And>x. x \<in> set bs \<Longrightarrow> x < 256) \<Longrightarrow> decode_digits base q b nc (encode_digits base q b dc bs) = bs"
proof (induction "length bs" arbitrary: bs rule: less_induct)
  case less
  show ?case
  proof (cases "bs = []")
    case True
    then show ?thesis by (simp add: encode_digits_def decode_digits_def)
  next
    case ne: False
    let ?t = "take b bs" and ?e = "encode_quantum base q b dc (take b bs)"
    have qt: "length ?e = dc ! length ?t" "decode_quantum base q b nc ?e = ?t"
      using ne pos less.prems quantum_roundtrip [of ?t] in_set_takeD [of _ b bs] by auto
    have ne_e: "?e \<noteq> []" using qt(1) counts [of "length ?t"] ne pos by (auto simp: Suc_le_eq)
    have enc: "encode_digits base q b dc bs = ?e @ encode_digits base q b dc (drop b bs)"
      using ne pos by (simp add: encode_digits_def chunks.simps [of b bs])
    show ?thesis
    proof (cases "length bs \<le> b")
      case True
      then have "encode_digits base q b dc (drop b bs) = []" by (simp add: encode_digits_def)
      moreover have "length ?e \<le> q" using qt(1) counts [of "length ?t"] True ne by (auto simp: Suc_le_eq)
      ultimately show ?thesis
        using qt ne_e pos True by (simp add: enc decode_digits_def chunks_short)
    next
      case False
      then have "length ?e = q" using qt(1) full by simp
      then have "chunks q (encode_digits base q b dc bs) = ?e # chunks q (encode_digits base q b dc (drop b bs))"
        using pos by (simp add: enc chunks_full)
      moreover have "decode_digits base q b nc (encode_digits base q b dc (drop b bs)) = drop b bs"
        using ne pos less.prems by (intro less.hyps) (auto dest: in_set_dropD)
      ultimately show ?thesis by (simp add: decode_digits_def qt)
    qed
  qed
qed

lemma encode_digits_bound:
  "d \<in> set (encode_digits base q b dc bs) \<Longrightarrow> d < base"
  by (auto simp: encode_digits_def encode_quantum_def intro: to_digits_bound [OF pos(1)] dest!: in_set_takeD)

end

section \<open>Alphabets\<close>

definition alphabet32 :: string where "alphabet32 = ''ABCDEFGHIJKLMNOPQRSTUVWXYZ234567''"

definition alphabet64 :: string where
  "alphabet64 = ''ABCDEFGHIJKLMNOPQRSTUVWXYZabcdefghijklmnopqrstuvwxyz0123456789+/''"

fun index_in :: "char \<Rightarrow> string \<Rightarrow> nat option" where
  "index_in c [] = None"
| "index_in c (a # as) = (if c = a then Some 0 else map_option Suc (index_in c as))"

fun char_digits :: "string \<Rightarrow> string \<Rightarrow> nat list option" where
  "char_digits al [] = Some []"
| "char_digits al (c # cs) = (case index_in c al of None \<Rightarrow> None
    | Some d \<Rightarrow> map_option (\<lambda>ds. d # ds) (char_digits al cs))"

text \<open>Both decoders skip line breaks.\<close>

definition strip_newlines :: "string \<Rightarrow> string" where
  "strip_newlines s = filter (\<lambda>c. of_char c \<noteq> (10 :: nat) \<and> of_char c \<noteq> (13 :: nat)) s"

definition base32_encode :: "nat list \<Rightarrow> string" where
  "base32_encode bs = map (\<lambda>d. alphabet32 ! d) (encode_digits 32 8 5 [0, 2, 4, 5, 7, 8] bs)"

text \<open>A last quantum of one, three or six digits gives no byte and no error.\<close>

definition base32_decode :: "string \<Rightarrow> nat list option" where
  "base32_decode s = map_option (decode_digits 32 8 5 [0, 0, 1, 0, 2, 3, 0, 4, 5])
    (char_digits alphabet32 (strip_newlines s))"

definition base64_encode :: "nat list \<Rightarrow> string" where
  "base64_encode bs = map (\<lambda>d. alphabet64 ! d) (encode_digits 64 4 3 [0, 2, 3, 4] bs)"

text \<open>A last quantum of one digit is an error.\<close>

definition base64_decode :: "string \<Rightarrow> nat list option" where
  "base64_decode s = (case char_digits alphabet64 (strip_newlines s) of
      None \<Rightarrow> None
    | Some ds \<Rightarrow> if length ds mod 4 = 1 then None else Some (decode_digits 64 4 3 [0, 0, 1, 2, 3] ds))"

section \<open>Both codes\<close>

lemma upto_5: "1 \<le> n \<and> n \<le> 5 \<longleftrightarrow> n \<in> {1, 2, 3, 4, 5 :: nat}" by auto
lemma upto_3: "1 \<le> n \<and> n \<le> 3 \<longleftrightarrow> n \<in> {1, 2, 3 :: nat}" by auto

interpretation c32: quantum_code 32 8 5 "[0, 2, 4, 5, 7, 8]" "[0, 0, 1, 0, 2, 3, 0, 4, 5]"
proof unfold_locales
  fix n :: nat assume "1 \<le> n" "n \<le> 5"
  then have "n \<in> {1, 2, 3, 4, 5}" using upto_5 by blast
  then show "(0 :: nat) < [0, 2, 4, 5, 7, 8] ! n \<and> [0, 2, 4, 5, 7, 8] ! n \<le> (8 :: nat)
    \<and> [0, 0, 1, 0, 2, 3, 0, 4, 5] ! ([0, 2, 4, 5, 7, 8] ! n) = n
    \<and> 32 ^ (8 - [0, 2, 4, 5, 7, 8] ! n) dvd (256 :: nat) ^ (5 - n)" by auto
qed simp_all

interpretation c64: quantum_code 64 4 3 "[0, 2, 3, 4]" "[0, 0, 1, 2, 3]"
proof unfold_locales
  fix n :: nat assume "1 \<le> n" "n \<le> 3"
  then have "n \<in> {1, 2, 3}" using upto_3 by blast
  then show "(0 :: nat) < [0, 2, 3, 4] ! n \<and> [0, 2, 3, 4] ! n \<le> (4 :: nat) \<and> [0, 0, 1, 2, 3] ! ([0, 2, 3, 4] ! n) = n
    \<and> 64 ^ (4 - [0, 2, 3, 4] ! n) dvd (256 :: nat) ^ (3 - n)" by auto
qed simp_all

lemma index_in_nth: "distinct al \<Longrightarrow> d < length al \<Longrightarrow> index_in (al ! d) al = Some d"
proof (induction al arbitrary: d)
  case (Cons a al)
  then show ?case by (cases d) auto
qed simp

lemma char_digits_map:
  "distinct al \<Longrightarrow> (\<And>d. d \<in> set ds \<Longrightarrow> d < length al) \<Longrightarrow> char_digits al (map (\<lambda>d. al ! d) ds) = Some ds"
  by (induction ds) (auto simp: index_in_nth)

lemma alphabets: "distinct alphabet32" "length alphabet32 = 32" "distinct alphabet64" "length alphabet64 = 64"
  by (simp_all add: alphabet32_def alphabet64_def)

text \<open>What an encoder prints is over the alphabet, without line breaks, and is decoded to the bytes.\<close>

lemma strip_newlines_id:
  assumes "set s \<subseteq> set alphabet32 \<or> set s \<subseteq> set alphabet64"
  shows "strip_newlines s = s"
proof -
  have "\<forall>c \<in> set alphabet32 \<union> set alphabet64. of_char c \<noteq> (10 :: nat) \<and> of_char c \<noteq> (13 :: nat)"
    by (simp add: alphabet32_def alphabet64_def)
  with assms show ?thesis unfolding strip_newlines_def by (intro filter_True) auto
qed

lemma base32_chars: "set (base32_encode bs) \<subseteq> set alphabet32"
  using c32.encode_digits_bound alphabets by (auto simp: base32_encode_def intro!: nth_mem)

lemma base64_chars: "set (base64_encode bs) \<subseteq> set alphabet64"
  using c64.encode_digits_bound alphabets by (auto simp: base64_encode_def intro!: nth_mem)

lemma base32_roundtrip: "(\<And>x. x \<in> set bs \<Longrightarrow> x < 256) \<Longrightarrow> base32_decode (base32_encode bs) = Some bs"
  using base32_chars [of bs] c32.digits_roundtrip [of bs] c32.encode_digits_bound [of _ bs] alphabets
  by (simp add: base32_decode_def strip_newlines_id) (simp add: base32_encode_def char_digits_map)

lemma length_encode64: "length (encode_digits 64 4 3 [0, 2, 3, 4] bs) mod 4 \<noteq> 1"
proof (induction "length bs" arbitrary: bs rule: less_induct)
  case less
  let ?e = "encode_quantum 64 4 3 [0, 2, 3, 4] (take 3 bs)"
  show ?case
  proof (cases "bs = []")
    case False
    then have enc: "encode_digits 64 4 3 [0, 2, 3, 4] bs = ?e @ encode_digits 64 4 3 [0, 2, 3, 4] (drop 3 bs)"
      by (simp add: encode_digits_def chunks.simps [of 3 bs])
    show ?thesis
    proof (cases "length bs \<le> 3")
      case True
      with False have "1 \<le> length bs \<and> length bs \<le> 3" by (simp add: Suc_le_eq)
      then have "length bs \<in> {1, 2, 3}" using upto_3 by blast
      with True show ?thesis
        by (subst enc) (auto simp: encode_quantum_def encode_digits_def)
    next
      case False
      then have "length ?e = 4" by (simp add: encode_quantum_def)
      with less [of "drop 3 bs"] False show ?thesis by (simp add: enc)
    qed
  qed (simp add: encode_digits_def)
qed

lemma base64_roundtrip: "(\<And>x. x \<in> set bs \<Longrightarrow> x < 256) \<Longrightarrow> base64_decode (base64_encode bs) = Some bs"
  using base64_chars [of bs] c64.digits_roundtrip [of bs] c64.encode_digits_bound [of _ bs] alphabets
    length_encode64 [of bs]
  by (simp add: base64_decode_def strip_newlines_id) (simp add: base64_encode_def char_digits_map)

end
