(* ===== verification/Passwords.thy ===== *)
theory Passwords
  imports Codec
begin

text \<open>
  Password policy and password hashes (\<^verbatim>\<open>src/services/passwords.go\<close>).  The key derivation
  \<^verbatim>\<open>argon2.IDKey\<close> of \<^verbatim>\<open>golang.org/x/crypto\<close> is a parameter; it gives no key where it panics.
  \<^verbatim>\<open>fmt.Sscanf\<close> is modelled on the formats the file uses.
\<close>

datatype password_error =
    ErrPasswordTooShort | PasswordTooLong | SaltFailed | InvalidHashFormat | BadVersion | BadParameters
  | UnsupportedVersion int | BadSalt | BadHash | DerivationPanic

text \<open>\<^verbatim>\<open>argon2.IDKey(password, salt, time, memory, threads, keyLen)\<close>.\<close>

type_synonym idkey = "string \<Rightarrow> nat list \<Rightarrow> int \<Rightarrow> int \<Rightarrow> int \<Rightarrow> nat \<Rightarrow> nat list option"

definition ValidatePassword :: "string \<Rightarrow> password_error option" where
  "ValidatePassword password =
    (if length password < 10 then Some ErrPasswordTooShort
     else if length password > 128 then Some PasswordTooLong else None)"

definition HashPassword :: "idkey \<Rightarrow> nat list option \<Rightarrow> string \<Rightarrow> password_error + string" where
  "HashPassword IDKey rand password = (case rand of
      None \<Rightarrow> Inl SaltFailed
    | Some salt \<Rightarrow> (case IDKey password salt 1 65536 4 32 of
        None \<Rightarrow> Inl DerivationPanic
      | Some key \<Rightarrow> Inr (''$argon2id$v=19$m=65536,t=1,p=4$'' @ base64_encode salt @ ''$'' @ base64_encode key)))"

section \<open>Scanning\<close>

text \<open>A literal of the format, then \<^verbatim>\<open>%d\<close>: blanks are skipped, digits are read as long as they
  last, and the value has to fit the operand.\<close>

definition scan_literal :: "string \<Rightarrow> string \<Rightarrow> string option" where
  "scan_literal lit s = cut_prefix s lit"

definition scan_unsigned :: "nat \<Rightarrow> string \<Rightarrow> (int \<times> string) option" where
  "scan_unsigned bits s0 =
    (let s = dropWhile is_space s0; ds = takeWhile is_digit s in
     if ds = [] then None
     else case parse_digits 0 ds of None \<Rightarrow> None
       | Some v \<Rightarrow> if v < 2 ^ bits then Some (v, dropWhile is_digit s) else None)"

definition scan_signed :: "string \<Rightarrow> (int \<times> string) option" where
  "scan_signed s0 =
    (let s = dropWhile is_space s0; sign = (s \<noteq> [] \<and> (hd s = CHR ''-'' \<or> hd s = CHR ''+''));
         body = (if sign then tl s else s); ds = takeWhile is_digit body in
     if ds = [] then None
     else case parse_int 64 (if sign then hd s # ds else ds) of None \<Rightarrow> None
       | Some v \<Rightarrow> Some (v, dropWhile is_digit body))"

text \<open>\<^verbatim>\<open>Sscanf(s, "v=%d", &version)\<close> and \<^verbatim>\<open>Sscanf(s, "m=%d,t=%d,p=%d", ...)\<close>; what follows the last
  number is ignored.\<close>

definition scan_version :: "string \<Rightarrow> int option" where
  "scan_version s = Option.bind (scan_literal ''v='' s) (\<lambda>s. map_option fst (scan_signed s))"

definition scan_parameters :: "string \<Rightarrow> (int \<times> int \<times> int) option" where
  "scan_parameters s =
    Option.bind (scan_literal ''m='' s) (\<lambda>s. Option.bind (scan_unsigned 32 s) (\<lambda>(memory, s).
    Option.bind (scan_literal '',t='' s) (\<lambda>s. Option.bind (scan_unsigned 32 s) (\<lambda>(time, s).
    Option.bind (scan_literal '',p='' s) (\<lambda>s. Option.bind (scan_unsigned 8 s) (\<lambda>(threads, s).
    Some (memory, time, threads)))))))"

definition VerifyPassword :: "idkey \<Rightarrow> string \<Rightarrow> string \<Rightarrow> password_error + bool" where
  "VerifyPassword IDKey password encoded =
    (let parts = split_all (CHR ''$'') encoded in
     if length parts \<noteq> 6 \<or> parts ! 1 \<noteq> ''argon2id'' then Inl InvalidHashFormat
     else case scan_version (parts ! 2) of None \<Rightarrow> Inl BadVersion
     | Some version \<Rightarrow> case scan_parameters (parts ! 3) of None \<Rightarrow> Inl BadParameters
     | Some (memory, timeIters, threads) \<Rightarrow>
       if version \<noteq> 19 then Inl (UnsupportedVersion version)
       else case base64_decode (parts ! 4) of None \<Rightarrow> Inl BadSalt
       | Some salt \<Rightarrow> case base64_decode (parts ! 5) of None \<Rightarrow> Inl BadHash
       | Some expected \<Rightarrow> case IDKey password salt timeIters memory threads (length expected) of
           None \<Rightarrow> Inl DerivationPanic
         | Some actual \<Rightarrow> Inr (actual = expected))"

section \<open>Facts\<close>

lemma base64_no_dollar: "CHR ''$'' \<notin> set (base64_encode bs)"
proof -
  have "CHR ''$'' \<notin> set alphabet64" by (simp add: alphabet64_def)
  then show ?thesis using base64_chars [of bs] by blast
qed

lemma split_hash:
  "split_all (CHR ''$'') (''$argon2id$v=19$m=65536,t=1,p=4$'' @ base64_encode salt @ ''$'' @ base64_encode key)
    = [[], ''argon2id'', ''v=19'', ''m=65536,t=1,p=4'', base64_encode salt, base64_encode key]"
proof -
  note j = split_all_join [of "CHR ''$''"] and l = split_all_last [of "CHR ''$''"]
  show ?thesis
    using j [of "[]"] j [of "''argon2id''"] j [of "''v=19''"] j [of "''m=65536,t=1,p=4''"]
      j [OF base64_no_dollar [of salt]] l [OF base64_no_dollar [of key]] by simp
qed

lemma scan_samples: "scan_version ''v=19'' = Some 19" "scan_parameters ''m=65536,t=1,p=4'' = Some (65536, 1, 4)"
  by code_simp+

lemma stored_hash_reads:
  assumes "HashPassword IDKey (Some salt) password = Inr encoded"
    and "\<forall>x \<in> set salt. x < 256"
    and "\<And>k. IDKey password salt 1 65536 4 32 = Some k \<Longrightarrow> length k = 32 \<and> (\<forall>x \<in> set k. x < 256)"
  shows "VerifyPassword IDKey password encoded = Inr True
    \<and> VerifyPassword IDKey other encoded = (case IDKey other salt 1 65536 4 32 of
        None \<Rightarrow> Inl DerivationPanic
      | Some k \<Rightarrow> Inr (IDKey password salt 1 65536 4 32 = Some k))"
proof -
  from assms(1) obtain key where key: "IDKey password salt 1 65536 4 32 = Some key"
    and enc: "encoded = ''$argon2id$v=19$m=65536,t=1,p=4$'' @ base64_encode salt @ ''$'' @ base64_encode key"
    by (auto simp: HashPassword_def split: option.splits)
  from assms(2,3) key have rt: "base64_decode (base64_encode salt) = Some salt"
    "base64_decode (base64_encode key) = Some key" "length key = 32"
    by (auto intro: base64_roundtrip)
  have "VerifyPassword IDKey p encoded = (case IDKey p salt 1 65536 4 32 of
      None \<Rightarrow> Inl DerivationPanic | Some k \<Rightarrow> Inr (k = key))" for p
    unfolding VerifyPassword_def enc split_hash Let_def by (simp add: scan_samples rt)
  then show ?thesis by (auto simp: key split: option.splits)
qed

section \<open>Property\<close>

text \<open>A stored password hash accepts exactly the passwords whose derived key, under the stored
  salt, is the stored key: the password itself always, any other one only if Argon2id maps both to
  the same 32 bytes.  No stored hash is ever unreadable.\<close>

theorem password_roundtrip:
  assumes "HashPassword IDKey (Some salt) password = Inr encoded"
    and "\<forall>x \<in> set salt. x < 256"
    and "\<And>k. IDKey password salt 1 65536 4 32 = Some k \<Longrightarrow> length k = 32 \<and> (\<forall>x \<in> set k. x < 256)"
  shows "VerifyPassword IDKey password encoded = Inr True
    \<and> VerifyPassword IDKey other encoded = (case IDKey other salt 1 65536 4 32 of
        None \<Rightarrow> Inl DerivationPanic
      | Some k \<Rightarrow> Inr (IDKey password salt 1 65536 4 32 = Some k))"
  using stored_hash_reads [OF assms] .

definition sample_idkey :: idkey where
  "sample_idkey password salt t m h n = Some (map (\<lambda>i. length password) [0..<n])"

theorem password_roundtrip_witness:
  "\<exists>encoded. HashPassword sample_idkey (Some [7]) ''secret'' = Inr encoded
     \<and> VerifyPassword sample_idkey ''secret'' encoded = Inr True
     \<and> VerifyPassword sample_idkey ''other'' encoded = Inr False"
proof -
  obtain encoded where e: "HashPassword sample_idkey (Some [7]) ''secret'' = Inr encoded"
    by (simp add: HashPassword_def sample_idkey_def)
  have k: "sample_idkey ''secret'' [7] 1 65536 4 32 = Some (map (\<lambda>i. 6) [0..<32])"
    "sample_idkey ''other'' [7] 1 65536 4 32 = Some (map (\<lambda>i. 5) [0..<32])"
    by (simp_all add: sample_idkey_def)
  have ne: "map (\<lambda>i. 6 :: nat) [0..<32] \<noteq> map (\<lambda>i. 5) [0..<32]"
    by (simp, rule exI [of _ 0], simp)
  from password_roundtrip [OF e, of "''other''"] e k ne show ?thesis by fastforce
qed

end
