(* ===== verification/Totp.thy ===== *)
theory Totp
  imports Codec
begin

text \<open>
  One-time codes (\<^verbatim>\<open>src/services/totp.go\<close>): the base-32 secret, the code of a moment and its
  verification with a tolerance.  The hash \<^verbatim>\<open>hmac key message\<close> of \<^verbatim>\<open>crypto/hmac\<close> over SHA-1 is a
  parameter; a moment is in nanoseconds since the epoch.
\<close>

datatype totp_error = SecretEmpty | SecretCorrupt | RandFailed

definition totpPeriod :: int where "totpPeriod = 30"
definition TOTPSecretLength :: nat where "TOTPSecretLength = 20"

text \<open>\<^verbatim>\<open>rand.Read\<close> of twenty bytes succeeded with these bytes, or failed.\<close>

definition GenerateTOTPSecret :: "nat list option \<Rightarrow> totp_error + string" where
  "GenerateTOTPSecret rand = (case rand of None \<Rightarrow> Inl RandFailed | Some buf \<Rightarrow> Inr (base32_encode buf))"

definition decodeTOTPSecret :: "string \<Rightarrow> totp_error + nat list" where
  "decodeTOTPSecret secret =
    (let s = remove_spaces (to_upper (trim_space secret)) in
     if s = [] then Inl SecretEmpty
     else case base32_decode s of None \<Rightarrow> Inl SecretCorrupt | Some key \<Rightarrow> Inr key)"

definition normalizeCode :: "string \<Rightarrow> string" where
  "normalizeCode code = trim_space (remove_spaces code)"

text \<open>The four bytes of the truncated hash do not overlap, so their bitwise \<^verbatim>\<open>or\<close> is their sum.\<close>

definition TOTPCode :: "(nat list \<Rightarrow> nat list \<Rightarrow> nat list) \<Rightarrow> string \<Rightarrow> int \<Rightarrow> totp_error + string" where
  "TOTPCode hmac secret t = (case decodeTOTPSecret secret of
      Inl e \<Rightarrow> Inl e
    | Inr key \<Rightarrow>
        (let unix = t div 1000000000;
             counter = unix mod 2 ^ 64 div totpPeriod;
             hash = hmac key (to_digits 256 8 (nat counter));
             off = last hash mod 16;
             code = (hash ! off mod 128) * 2 ^ 24 + hash ! (off + 1) * 2 ^ 16
               + hash ! (off + 2) * 2 ^ 8 + hash ! (off + 3) in
         Inr (pad_int 6 (int (code mod 1000000)))))"

text \<open>The loop over the earlier steps, from step \<^verbatim>\<open>i\<close> on.\<close>

fun verify_steps :: "(nat list \<Rightarrow> nat list \<Rightarrow> nat list) \<Rightarrow> string \<Rightarrow> string \<Rightarrow> int \<Rightarrow> int \<Rightarrow> nat \<Rightarrow> totp_error + bool" where
  "verify_steps hmac secret code now i 0 = Inr False"
| "verify_steps hmac secret code now i (Suc n) =
    (case TOTPCode hmac secret (now - i * totpPeriod * 1000000000) of
       Inl e \<Rightarrow> Inl e
     | Inr before \<Rightarrow> if normalizeCode code = before then Inr True
         else verify_steps hmac secret code now (i + 1) n)"

definition VerifyTOTP :: "(nat list \<Rightarrow> nat list \<Rightarrow> nat list) \<Rightarrow> string \<Rightarrow> string \<Rightarrow> int \<Rightarrow> int \<Rightarrow> totp_error + bool" where
  "VerifyTOTP hmac secret code skew0 now =
    (let skew1 = (if skew0 < 0 then 0 else skew0);
         skew = (if skew1 > 5 then 5 else skew1) in
     case TOTPCode hmac secret now of
       Inl e \<Rightarrow> Inl e
     | Inr expected \<Rightarrow> if normalizeCode code = expected then Inr True
         else verify_steps hmac secret code now 1 (nat skew))"

section \<open>Facts\<close>

lemma TOTPCode_total:
  assumes "decodeTOTPSecret secret = Inr key"
  shows "\<exists>c. TOTPCode hmac secret t = Inr c \<and> length c = 6 \<and> list_all is_digit c"
proof -
  obtain n where n: "TOTPCode hmac secret t = Inr (pad_int 6 (int (n mod 1000000)))"
    unfolding TOTPCode_def Let_def assms sum.case by blast
  have "int (n mod 1000000) < 10 ^ Suc 5" by simp
  from length_pad_int [OF _ this] have "length (pad_int 6 (int (n mod 1000000))) = 6" by simp
  moreover have "list_all is_digit (pad_int 6 (int (n mod 1000000)))"
    unfolding list_all_iff by (rule ballI, erule pad_int_digits [rotated], simp)
  ultimately show ?thesis using n by blast
qed

lemma ex_first: "(\<And>j. Q j \<longleftrightarrow> j = a \<or> R j) \<Longrightarrow> (\<exists>j. Q j \<and> P j) \<longleftrightarrow> P a \<or> (\<exists>j. R j \<and> P j)"
  by auto

lemma verify_steps_iff:
  assumes "decodeTOTPSecret secret = Inr key"
  shows "verify_steps hmac secret code now i n = Inr
    (\<exists>j. (i \<le> j \<and> j < i + int n) \<and> TOTPCode hmac secret (now - j * totpPeriod * 1000000000) = Inr (normalizeCode code))"
proof (induction n arbitrary: i)
  case (Suc n)
  obtain c where c: "TOTPCode hmac secret (now - i * totpPeriod * 1000000000) = Inr c"
    using TOTPCode_total [OF assms] by blast
  have split: "(\<exists>j. (i \<le> j \<and> j < i + int (Suc n)) \<and> P j)
      \<longleftrightarrow> P i \<or> (\<exists>j. (i + 1 \<le> j \<and> j < i + 1 + int n) \<and> P j)" for P
    by (rule ex_first) presburger
  show ?case
  proof (cases "c = normalizeCode code")
    case True
    then show ?thesis unfolding split by (simp add: c)
  next
    case False
    then have "verify_steps hmac secret code now i (Suc n) = verify_steps hmac secret code now (i + 1) n"
      by (simp add: c)
    also note Suc [of "i + 1"]
    finally show ?thesis unfolding split using False by (simp add: c)
  qed
qed simp

lemma alphabet32_stable:
  assumes "set s \<subseteq> set alphabet32"
  shows "remove_spaces (to_upper (trim_space s)) = s"
proof -
  have al: "\<forall>c \<in> set alphabet32. \<not> is_space c \<and> upper_char c = c \<and> c \<noteq> CHR '' ''"
    by (simp add: alphabet32_def is_space_def upper_char_def)
  with assms have "trim_space s = s" by (intro trim_space_id) auto
  moreover have "to_upper s = s" using al assms unfolding to_upper_def by (intro map_idI) auto
  moreover have "remove_spaces s = s" using al assms unfolding remove_spaces_def by (intro filter_True) auto
  ultimately show ?thesis by simp
qed

lemma base32_encode_Nil: "base32_encode bs = [] \<Longrightarrow> (\<And>x. x \<in> set bs \<Longrightarrow> x < 256) \<Longrightarrow> bs = []"
  using base32_roundtrip [of bs] by (simp add: base32_decode_def strip_newlines_def decode_digits_def)

lemma decode_encode:
  assumes "bs \<noteq> []" "\<And>x. x \<in> set bs \<Longrightarrow> x < 256"
  shows "decodeTOTPSecret (base32_encode bs) = Inr bs"
  using base32_encode_Nil [of bs] base32_roundtrip [of bs] assms
  by (auto simp: decodeTOTPSecret_def Let_def alphabet32_stable [OF base32_chars])

section \<open>Properties\<close>

text \<open>The secret a user enrols is read back as the random bytes it was made from: decoding the
  printed secret, whatever non-empty byte string was drawn, gives exactly those bytes, so the
  authenticator application and the server compute codes from the same key.\<close>

theorem totp_secret_roundtrip:
  assumes "buf \<noteq> []" and "\<forall>x \<in> set buf. x < 256"
  shows "\<exists>secret. GenerateTOTPSecret (Some buf) = Inr secret \<and> decodeTOTPSecret secret = Inr buf"
  using decode_encode [of buf] assms by (simp add: GenerateTOTPSecret_def)

theorem totp_secret_roundtrip_witness:
  "\<exists>secret. GenerateTOTPSecret (Some [222, 173, 190, 239]) = Inr secret \<and> decodeTOTPSecret secret = Inr [222, 173, 190, 239]"
  by (rule totp_secret_roundtrip) simp_all

text \<open>A one-time code is accepted exactly when it is the code of the present step or of one of
  the last steps, as many as the tolerance says but at most five; a code of a future step that is
  none of these is refused, whatever the tolerance.\<close>

theorem VerifyTOTP_window:
  assumes "decodeTOTPSecret secret = Inr key"
  shows "VerifyTOTP hmac secret code skew now = Inr
    (\<exists>j. (0 \<le> j \<and> j \<le> min 5 (max 0 skew))
       \<and> TOTPCode hmac secret (now - j * totpPeriod * 1000000000) = Inr (normalizeCode code))"
proof -
  obtain c where c: "TOTPCode hmac secret now = Inr c" using TOTPCode_total [OF assms] by blast
  define m where "m = min 5 (max 0 skew)"
  have m: "(if (if skew < 0 then 0 else skew) > 5 then 5 else (if skew < 0 then 0 else skew)) = m" "0 \<le> m"
    by (auto simp: m_def)
  have split: "(\<exists>j. (0 \<le> j \<and> j \<le> m) \<and> P j)
      \<longleftrightarrow> P 0 \<or> (\<exists>j. (1 \<le> j \<and> j < 1 + int (nat m)) \<and> P j)" for P
    using m(2) by (intro ex_first) presburger
  show ?thesis
  proof (cases "normalizeCode code = c")
    case True
    then show ?thesis unfolding m_def [symmetric] split by (simp add: VerifyTOTP_def c)
  next
    case False
    then have "VerifyTOTP hmac secret code skew now = verify_steps hmac secret code now 1 (nat m)"
      unfolding VerifyTOTP_def Let_def m(1) c by simp
    also note verify_steps_iff [OF assms]
    finally show ?thesis unfolding m_def [symmetric] split using False by (simp add: c)
  qed
qed

text \<open>A hash that ends in zero and starts with the step number: at 40 seconds the code is that of
  step one; the code of step two is refused also with a tolerance of one.\<close>

definition step_hash :: "nat list \<Rightarrow> nat list \<Rightarrow> nat list" where
  "step_hash key m = [0, 0, 0, last m, 0, 0, 0, 0, 0, 0, 0, 0, 0, 0, 0, 0, 0, 0, 0, 0]"

lemma sample_secret: "decodeTOTPSecret (base32_encode [2]) = Inr [2]"
  by (rule decode_encode) simp_all

lemma last_to_digits: "0 < n \<Longrightarrow> last (to_digits base n x) = x mod base"
  by (cases n) simp_all

lemma sample_pads: "pad_int 6 1 = ''000001''" "pad_int 6 0 = ''000000''"
  by code_simp+

lemma sample_codes:
  "TOTPCode step_hash (base32_encode [2]) 40000000000 = Inr ''000001''"
  "TOTPCode step_hash (base32_encode [2]) 10000000000 = Inr ''000000''"
  "normalizeCode ''000 002'' = ''000002''" "normalizeCode ''000000'' = ''000000''"
  by (simp_all add: TOTPCode_def Let_def sample_secret step_hash_def last_to_digits totpPeriod_def sample_pads
      normalizeCode_def remove_spaces_def trim_space_def is_space_def)

theorem VerifyTOTP_window_witness:
  "VerifyTOTP step_hash (base32_encode [2]) ''000000'' 1 40000000000 = Inr True
    \<and> VerifyTOTP step_hash (base32_encode [2]) ''000 002'' 1 40000000000 = Inr False"
proof -
  have "0 \<le> j \<and> j \<le> min 5 (max 0 1) \<longleftrightarrow> j = 0 \<or> j = (1 :: int)" for j by auto
  then have two: "(\<exists>j. (0 \<le> j \<and> j \<le> min 5 (max 0 1)) \<and> P j) \<longleftrightarrow> P 0 \<or> P 1" for P :: "int \<Rightarrow> bool"
    by auto
  show ?thesis
    unfolding VerifyTOTP_window [OF sample_secret, where hmac = step_hash and skew = 1] two
    by (simp add: sample_codes totpPeriod_def)
qed

end
