(* ===== verification/HandlersAuth.thy ===== *)
theory HandlersAuth
  imports HandlersWallets Passwords Totp
begin

text \<open>
  Registration, log-in, log-out, e-mail verification and password reset (\<^verbatim>\<open>src/handlers/auth.go\<close>)
  and the account pages (\<^verbatim>\<open>src/handlers/account.go\<close>), on the password hashes of \<^verbatim>\<open>Passwords\<close>, the
  one-time codes of \<^verbatim>\<open>Totp\<close> and the rate limiter of \<^verbatim>\<open>RateLimit\<close>, whose buckets are part of the
  world.  The key derivation and the code hash are parameters (\<^verbatim>\<open>auth_crypto\<close>); random draws have
  their outcome in the request.  A panic inside a handler is answered by \<^verbatim>\<open>withRecover\<close> with an
  internal error and keeps what was written before.
\<close>

record auth_crypto =
  acIDKey :: idkey
  acHmac :: "nat list \<Rightarrow> nat list \<Rightarrow> nat list"

definition maxNameLen :: nat where "maxNameLen = 100"

text \<open>The regular expression \<^verbatim>\<open>^[^@\s]+@[^@\s]+\.[^@\s]+$\<close>: one at sign, something before it, and
  after it a dot that is neither the first nor the last character; no white space.\<close>

definition regexp_space :: "char \<Rightarrow> bool" where
  "regexp_space c \<longleftrightarrow> (let n = of_char c :: nat in n = 32 \<or> n = 9 \<or> n = 10 \<or> n = 12 \<or> n = 13)"

definition emailPattern :: "string \<Rightarrow> bool" where
  "emailPattern s = (case str_cut (CHR ''@'') s of (local_part, domain, found) \<Rightarrow>
     found \<and> local_part \<noteq> [] \<and> CHR ''@'' \<notin> set domain \<and> \<not> list_ex regexp_space s
     \<and> domain \<noteq> [] \<and> CHR ''.'' \<in> set (butlast (tl domain)))"

definition safeNext :: "string \<Rightarrow> string" where
  "safeNext next_url = (if next_url = [] \<or> \<not> has_prefix next_url ''/'' \<or> has_prefix next_url ''//'' then ''/'' else next_url)"

definition password_message :: "password_error \<Rightarrow> string" where
  "password_message e = (if e = ErrPasswordTooShort then ''password must be at least 10 characters''
     else ''password must be at most 128 characters'')"

definition name_errors :: "string \<Rightarrow> (string \<times> string) list" where
  "name_errors name =
    (if name = [] then [(''name'', ''Please enter your name.'')]
     else if length name > maxNameLen then [(''name'', ''Name must be at most 100 characters.'')] else [])"

definition email_errors :: "string \<Rightarrow> (string \<times> string) list" where
  "email_errors email =
    (if email = [] \<or> \<not> emailPattern email then [(''email'', ''Please enter a valid email address.'')] else [])"

definition password_errors :: "string \<Rightarrow> string \<Rightarrow> string \<Rightarrow> string \<Rightarrow> (string \<times> string) list" where
  "password_errors field password confirm_field confirm =
    (case ValidatePassword password of None \<Rightarrow> [] | Some e \<Rightarrow> [(field, password_message e)])
    @ (if password \<noteq> confirm then [(confirm_field, ''Passwords do not match.'')] else [])"

definition validateRegistration :: "string \<Rightarrow> string \<Rightarrow> string \<Rightarrow> string \<Rightarrow> (string \<times> string) list" where
  "validateRegistration name email password confirm = name_errors name @ email_errors email
     @ password_errors ''password'' password ''password_confirm'' confirm"

section \<open>Shared steps\<close>

text \<open>\<^verbatim>\<open>authRateLimited\<close>: the shared limiter counts the attempt under the client's address.\<close>

definition authRateLimited :: "config \<Rightarrow> request \<Rightarrow> bool op" where
  "authRateLimited cfg r s =
    (let rl = (NewRateLimiter (cfgAuthRateLimit cfg) (cfgAuthRateWindow cfg))\<lparr>rlBuckets := wbuckets s\<rparr>;
         (ok, rl') = Allow (wnow s) (''auth:'' @ rqIP r) rl in
     (Inr (\<not> ok), s\<lparr>wbuckets := rlBuckets rl'\<rparr>))"

text \<open>A fresh authenticated session in place of the old one; the new token goes into the cookie.\<close>

definition rotate :: "config \<Rightarrow> request \<Rightarrow> int \<Rightarrow> int \<Rightarrow> (string \<Rightarrow> int \<Rightarrow> handler) \<Rightarrow> handler" where
  "rotate cfg r sessionID userID k = (case rqLoginToken r of
      None \<Rightarrow> renderError
    | Some (raw, hash) \<Rightarrow> (case rqLoginCSRF r of
        None \<Rightarrow> renderError
      | Some csrf \<Rightarrow>
          call (RotateSession sessionID userID hash csrf (cfgSessionTTL cfg) (rqUserAgent r) (rqIP r))
            (\<lambda>_. renderError) (\<lambda>newID. k raw newID)))"

definition success_flash :: "int \<Rightarrow> string \<Rightarrow> unit op" where
  "success_flash sessionID msg = SetFlash sessionID (Some \<lparr>flashKind = ''success'', flashText = msg\<rparr>)"

definition nl :: string where "nl = [CHR 0x0A, CHR 0x0A]"

text \<open>\<^verbatim>\<open>sendVerificationEmail\<close> and \<^verbatim>\<open>sendPasswordReset\<close>: a one-time token is stored, its raw value
  mailed.\<close>

definition sendVerificationEmail :: "config \<Rightarrow> mailer \<Rightarrow> request \<Rightarrow> int \<Rightarrow> string \<Rightarrow> string \<Rightarrow> unit op" where
  "sendVerificationEmail cfg mailer r userID name email = (case rqMailToken r of
      None \<Rightarrow> fail ErrFault
    | Some (raw, hash) \<Rightarrow>
        call (CreateAuthToken userID TokenEmailVerification hash (cfgAuthTokenTTL cfg)) fail (\<lambda>_.
        Send mailer email ''Verify your email''
          (''Hi '' @ name @ '','' @ nl @ ''Please confirm your email address by opening this link:'' @ nl
            @ cfgBaseURL cfg @ ''/verify-email?token='' @ QueryEscape raw @ nl
            @ ''If you did not create an account, you can ignore this email.'' @ nl @ ''- Gig'')))"

definition sendPasswordReset :: "config \<Rightarrow> mailer \<Rightarrow> request \<Rightarrow> user \<Rightarrow> unit op" where
  "sendPasswordReset cfg mailer r u = (case rqMailToken r of
      None \<Rightarrow> fail ErrFault
    | Some (raw, hash) \<Rightarrow>
        call (CreateAuthToken (uID u) TokenPasswordReset hash (cfgAuthTokenTTL cfg)) fail (\<lambda>_.
        Send mailer (uEmail u) ''Reset your password''
          (''Hi '' @ uName u @ '','' @ nl @ ''Someone asked to reset your password. Open this link to choose a new one:'' @ nl
            @ cfgBaseURL cfg @ ''/reset-password?token='' @ QueryEscape raw @ nl
            @ ''If this was not you, you can safely ignore this email.'' @ nl @ ''- Gig'')))"

definition user_audit :: "int \<Rightarrow> string \<Rightarrow> unit op" where
  "user_audit userID action = audit (Some userID) action ''user'' (show_int userID)"

section \<open>Registration\<close>

definition registerForm :: "config \<Rightarrow> request \<Rightarrow> handler" where
  "registerForm cfg r0 = ensureSession cfg r0 (\<lambda>_. renderError) (\<lambda>se r.
    if rqUser r \<noteq> None then reply (Redirect ''/'') else render r 200 ''Create your account'')"

definition registerFormError :: "request \<Rightarrow> handler" where
  "registerFormError r = render r 422 ''Create your account''"

definition register :: "auth_crypto \<Rightarrow> mailer \<Rightarrow> config \<Rightarrow> request \<Rightarrow> handler" where
  "register ac mailer cfg r0 = ensureSession cfg r0 (\<lambda>_. renderError) (\<lambda>se r.
    if \<not> rqParseForm r then registerFormError r
    else let name = trim_space (rqForm r ''name''); email = trim_space (rqForm r ''email'');
        password = rqForm r ''password''; confirm = rqForm r ''password_confirm'' in
    if validateRegistration name email password confirm \<noteq> [] then registerFormError r
    else case HashPassword (acIDKey ac) (rqSalt r) password of
      Inl _ \<Rightarrow> renderError
    | Inr hash \<Rightarrow>
      call (CreateUser email hash name ''en'')
        (\<lambda>e. if e = ErrEmailTaken then registerFormError r else renderError) (\<lambda>i.
      also_do (sendVerificationEmail cfg mailer r i name email)
      (rotate cfg r (seID se) i (\<lambda>raw newID.
        also_do (success_flash newID ''Account created. Check your email to verify your address.'')
        (also_do (user_audit i ''user.registered'')
        (reply (SignIn ''/'' raw)))))))"

section \<open>Log-in\<close>

definition loginForm :: "config \<Rightarrow> request \<Rightarrow> handler" where
  "loginForm cfg r0 = ensureSession cfg r0 (\<lambda>_. renderError) (\<lambda>se r.
    if rqUser r \<noteq> None then reply (Redirect (safeNext (rqQuery r ''next''))) else render r 200 ''Log in'')"

definition loginFormError :: "request \<Rightarrow> handler" where
  "loginFormError r = render r 422 ''Log in''"

definition login_failed :: "config \<Rightarrow> request \<Rightarrow> user \<Rightarrow> handler" where
  "login_failed cfg r u =
    also_do (RecordLoginFailure (uID u) (cfgMaxLoginAttempts cfg) (cfgLoginLockout cfg))
    (also_do (user_audit (uID u) ''user.login_failed'') (loginFormError r))"

text \<open>What follows the check of password and code.\<close>

definition logged_in :: "config \<Rightarrow> request \<Rightarrow> session \<Rightarrow> user \<Rightarrow> string \<Rightarrow> handler" where
  "logged_in cfg r se u next_url =
    also_do (SetLastLogin (uID u))
    (rotate cfg r (seID se) (uID u) (\<lambda>raw newID.
      also_do (success_flash newID (''Welcome back, '' @ uName u @ ''.''))
      (also_do (user_audit (uID u) ''user.login'')
      (reply (SignIn next_url raw)))))"

definition check_code :: "auth_crypto \<Rightarrow> config \<Rightarrow> request \<Rightarrow> user \<Rightarrow> string \<Rightarrow> handler \<Rightarrow> handler" where
  "check_code ac cfg r u code k =
    (if \<not> uTotpEnabled u then k
     else call (GetTOTPSecret (uID u)) (\<lambda>_. renderError) (\<lambda>secret.
       if code = [] then loginFormError r
       else call get_now (\<lambda>_. renderError) (\<lambda>now.
         case VerifyTOTP (acHmac ac) secret code (cfgTOTPSkew cfg) now of
           Inl _ \<Rightarrow> renderError
         | Inr valid \<Rightarrow> if \<not> valid then login_failed cfg r u else k)))"

definition check_user :: "auth_crypto \<Rightarrow> config \<Rightarrow> request \<Rightarrow> session \<Rightarrow> user \<Rightarrow> handler" where
  "check_user ac cfg r se u = call get_now (\<lambda>_. renderError) (\<lambda>now.
    if LoginBlocked u now then also_do (user_audit (uID u) ''user.login_blocked'') (loginFormError r)
    else if uStatus u \<noteq> UserActive then also_do (user_audit (uID u) ''user.login_failed'') (loginFormError r)
    else case VerifyPassword (acIDKey ac) (rqForm r ''password'') (uPasswordHash u) of
      Inl e \<Rightarrow> if e = DerivationPanic then renderError else login_failed cfg r u
    | Inr ok \<Rightarrow> if \<not> ok then login_failed cfg r u
        else check_code ac cfg r u (trim_space (rqForm r ''totp_code''))
          (logged_in cfg r se u (safeNext (rqForm r ''next''))))"

definition login :: "auth_crypto \<Rightarrow> config \<Rightarrow> request \<Rightarrow> handler" where
  "login ac cfg r0 = ensureSession cfg r0 (\<lambda>_. renderError) (\<lambda>se r.
    if \<not> rqParseForm r then renderError
    else let email = trim_space (rqForm r ''email'') in
    if email = [] \<or> rqForm r ''password'' = [] then loginFormError r
    else call (authRateLimited cfg r) (\<lambda>_. renderError) (\<lambda>limited.
      if limited then loginFormError r
      else call (GetUserByEmail email)
        (\<lambda>e. if e \<noteq> ErrNotFound then renderError
          else also_do (audit None ''user.login_failed'' ''user'' []) (loginFormError r))
        (\<lambda>u. check_user ac cfg r se u)))"

definition logout :: "request \<Rightarrow> handler" where
  "logout r = also_do (case rqSession r of
      None \<Rightarrow> ret ()
    | Some se \<Rightarrow> also_do (RevokeSession (seID se))
        (audit (map_option uID (rqUser r)) ''user.logout'' ''user'' []))
    (reply (SignOut ''/''))"

section \<open>E-mail verification\<close>

definition verifyEmail :: "(string \<Rightarrow> string) \<Rightarrow> config \<Rightarrow> request \<Rightarrow> handler" where
  "verifyEmail hashToken cfg r =
    (let token = trim_space (rqQuery r ''token'') in
     if token = [] then render r 400 ''Invalid verification link''
     else call (GetAuthToken TokenEmailVerification (hashToken token))
       (\<lambda>_. render r 400 ''Invalid or expired link'') (\<lambda>tok.
     call (SetEmailVerified (tkUserID tok)) (\<lambda>_. renderError) (\<lambda>_.
     also_do (UseAuthToken (tkID tok))
     (also_do (user_audit (tkUserID tok) ''user.email_verified'')
     (ensureSession cfg r (\<lambda>_. reply (Redirect ''/login''))
       (\<lambda>se r'. also_do (success_flash (seID se) ''Your email is verified. You can now log in.'')
         (reply (Redirect ''/login''))))))))"

section \<open>Password reset\<close>

definition forgotPasswordForm :: "config \<Rightarrow> request \<Rightarrow> handler" where
  "forgotPasswordForm cfg r0 = ensureSession cfg r0 (\<lambda>_. renderError) (\<lambda>se r. render r 200 ''Reset your password'')"

definition forgotPassword :: "mailer \<Rightarrow> config \<Rightarrow> request \<Rightarrow> handler" where
  "forgotPassword mailer cfg r0 = ensureSession cfg r0 (\<lambda>_. renderError) (\<lambda>se r.
    if \<not> rqParseForm r then renderError
    else let email = trim_space (rqForm r ''email'') in
    if email = [] \<or> \<not> emailPattern email then render r 422 ''Reset your password''
    else call (authRateLimited cfg r) (\<lambda>_. renderError) (\<lambda>limited.
      if limited then render r 429 ''Reset your password''
      else call (GetUserByEmail email)
        (\<lambda>e. if e \<noteq> ErrNotFound then renderError else render r 200 ''Check your email'')
        (\<lambda>u. also_do (sendPasswordReset cfg mailer r u) (render r 200 ''Check your email''))))"

definition resetPasswordForm :: "(string \<Rightarrow> string) \<Rightarrow> config \<Rightarrow> request \<Rightarrow> handler" where
  "resetPasswordForm hashToken cfg r0 = ensureSession cfg r0 (\<lambda>_. renderError) (\<lambda>se r.
    let token = trim_space (rqQuery r ''token'') in
    if token = [] then render r 400 ''Invalid reset link''
    else call (GetAuthToken TokenPasswordReset (hashToken token)) (\<lambda>_. render r 400 ''Invalid or expired link'')
      (\<lambda>_. render r 200 ''Reset your password''))"

definition resetPassword :: "(string \<Rightarrow> string) \<Rightarrow> auth_crypto \<Rightarrow> config \<Rightarrow> request \<Rightarrow> handler" where
  "resetPassword hashToken ac cfg r0 = ensureSession cfg r0 (\<lambda>_. renderError) (\<lambda>se r.
    if \<not> rqParseForm r then renderError
    else let token = trim_space (rqForm r ''token''); password = rqForm r ''password'';
        confirm = rqForm r ''password_confirm'' in
    if token = [] \<or> password_errors ''password'' password ''password_confirm'' confirm \<noteq> []
    then render r 422 ''Reset your password''
    else call (GetAuthToken TokenPasswordReset (hashToken token)) (\<lambda>_. render r 422 ''Reset your password'') (\<lambda>tok.
    case HashPassword (acIDKey ac) (rqSalt r) password of
      Inl _ \<Rightarrow> renderError
    | Inr hash \<Rightarrow>
      call (UpdatePassword (tkUserID tok) hash) (\<lambda>_. renderError) (\<lambda>_.
      also_do (UseAuthToken (tkID tok))
      (also_do (RevokeUserSessions (tkUserID tok) 0)
      (also_do (user_audit (tkUserID tok) ''user.password_reset'')
      (also_do (success_flash (seID se) ''Your password was reset. Log in with your new password.'')
      (reply (SignOut ''/login''))))))))"

section \<open>Account pages\<close>

definition accountForm :: "config \<Rightarrow> user \<Rightarrow> request \<Rightarrow> handler" where
  "accountForm cfg u r0 = ensureSession cfg r0 (\<lambda>_. renderError) (\<lambda>se r. render r 200 ''Account settings'')"

definition accountFormError :: "config \<Rightarrow> request \<Rightarrow> handler" where
  "accountFormError cfg r0 = ensureSession cfg r0 (\<lambda>_. renderError) (\<lambda>se r. render r 422 ''Account settings'')"

definition account_updated :: "session \<Rightarrow> handler" where
  "account_updated se = also_do (success_flash (seID se) ''Your account was updated.'') (reply (Redirect ''/account''))"

definition accountUpdate :: "mailer \<Rightarrow> config \<Rightarrow> user \<Rightarrow> request \<Rightarrow> handler" where
  "accountUpdate mailer cfg u r0 = ensureSession cfg r0 (\<lambda>_. renderError) (\<lambda>se r.
    if \<not> rqParseForm r then renderError
    else let name = trim_space (rqForm r ''name''); email = trim_space (rqForm r ''email'') in
    if name_errors name @ email_errors email \<noteq> [] then accountFormError cfg r
    else call (if name \<noteq> uName u
        then call (UpdateName (uID u) name) fail (\<lambda>_. also_do (user_audit (uID u) ''user.name_changed'') (ret ()))
        else ret ()) (\<lambda>_. renderError) (\<lambda>_.
      if NormalizeEmail email = NormalizeEmail (uEmail u) then account_updated se
      else call (UpdateEmail (uID u) email)
        (\<lambda>e. if e = ErrEmailTaken then accountFormError cfg r else renderError)
        (\<lambda>_. also_do (sendVerificationEmail cfg mailer r (uID u) name email)
          (also_do (user_audit (uID u) ''user.email_changed'')
          (account_updated se)))))"

definition passwordForm :: "config \<Rightarrow> user \<Rightarrow> request \<Rightarrow> handler" where
  "passwordForm cfg u r0 = ensureSession cfg r0 (\<lambda>_. renderError) (\<lambda>se r. render r 200 ''Change your password'')"

definition passwordUpdate :: "auth_crypto \<Rightarrow> config \<Rightarrow> user \<Rightarrow> request \<Rightarrow> handler" where
  "passwordUpdate ac cfg u r0 = ensureSession cfg r0 (\<lambda>_. renderError) (\<lambda>se r.
    if \<not> rqParseForm r then renderError
    else let new_password = rqForm r ''new_password''; confirm = rqForm r ''new_password_confirm'';
        checked = VerifyPassword (acIDKey ac) (rqForm r ''current_password'') (uPasswordHash u) in
    if checked = Inl DerivationPanic then renderError
    else if checked \<noteq> Inr True
      \<or> password_errors ''new_password'' new_password ''new_password_confirm'' confirm \<noteq> []
    then render r 422 ''Change your password''
    else case HashPassword (acIDKey ac) (rqSalt r) new_password of
      Inl _ \<Rightarrow> renderError
    | Inr hash \<Rightarrow>
      call (UpdatePassword (uID u) hash) (\<lambda>_. renderError) (\<lambda>_.
      also_do (RevokeUserSessions (uID u) (seID se))
      (rotate cfg r (seID se) (uID u) (\<lambda>raw newID.
        also_do (user_audit (uID u) ''user.password_changed'')
        (also_do (success_flash newID ''Your password was changed.'')
        (reply (SignIn ''/account'' raw)))))))"

section \<open>Two-factor authentication\<close>

text \<open>The enrolment link the page shows.\<close>

definition OTPAuthURI :: "string \<Rightarrow> string \<Rightarrow> string \<Rightarrow> string" where
  "OTPAuthURI secret account issuer = ''otpauth://totp/'' @ QueryEscape account @ ''?secret='' @ secret
    @ ''&issuer='' @ QueryEscape issuer @ ''&algorithm=SHA1&digits=6&period=30''"

definition mfaForm :: "config \<Rightarrow> user \<Rightarrow> request \<Rightarrow> handler" where
  "mfaForm cfg u r0 = ensureSession cfg r0 (\<lambda>_. renderError) (\<lambda>se r.
    if \<not> uTotpEnabled u then
      (case GenerateTOTPSecret (rqTOTPSeed r) of
         Inl _ \<Rightarrow> renderError
       | Inr secret \<Rightarrow> render r 200 ''Two-factor authentication'')
    else render r 200 ''Two-factor authentication'')"

definition rotateAfterSecurityChange :: "config \<Rightarrow> request \<Rightarrow> session \<Rightarrow> int \<Rightarrow> string \<Rightarrow> string \<Rightarrow> handler" where
  "rotateAfterSecurityChange cfg r se userID action msg =
    rotate cfg r (seID se) userID (\<lambda>raw newID.
      also_do (user_audit userID action)
      (also_do (success_flash newID msg)
      (reply (SignIn ''/account'' raw))))"

definition mfaEnable :: "auth_crypto \<Rightarrow> config \<Rightarrow> user \<Rightarrow> request \<Rightarrow> handler" where
  "mfaEnable ac cfg u r0 = ensureSession cfg r0 (\<lambda>_. renderError) (\<lambda>se r.
    if \<not> rqParseForm r then renderError
    else if uTotpEnabled u then reply (Redirect ''/account/mfa'')
    else let secret = trim_space (rqForm r ''secret''); code = trim_space (rqForm r ''code'') in
    if secret = [] then render r 422 ''Two-factor authentication''
    else if length code \<noteq> 6 then render r 422 ''Two-factor authentication''
    else call get_now (\<lambda>_. renderError) (\<lambda>now.
      if VerifyTOTP (acHmac ac) secret code (cfgTOTPSkew cfg) now \<noteq> Inr True
      then render r 422 ''Two-factor authentication''
      else call (SetTOTP (uID u) secret) (\<lambda>_. renderError)
        (\<lambda>_. rotateAfterSecurityChange cfg r se (uID u) ''user.mfa_enabled''
          ''Two-factor authentication is now enabled.'')))"

definition mfaDisable :: "config \<Rightarrow> user \<Rightarrow> request \<Rightarrow> handler" where
  "mfaDisable cfg u r0 = ensureSession cfg r0 (\<lambda>_. renderError) (\<lambda>se r.
    call (if uTotpEnabled u then DisableTOTP (uID u) else ret ()) (\<lambda>_. renderError)
      (\<lambda>_. rotateAfterSecurityChange cfg r se (uID u) ''user.mfa_disabled''
        ''Two-factor authentication is now disabled.''))"

end
