(* ===== verification/Frames.thy ===== *)
theory Frames
  imports StoreAccounts
begin

text \<open>
  What each store operation may write.  The tables are grouped in regions; \<^verbatim>\<open>touches M\<close> relates two
  worlds that differ only in the regions of \<^verbatim>\<open>M\<close> and in sequences that moved forward.  One lemma
  per operation gives its regions; every relation or invariant over a region an operation does not
  write is then kept by it (\<^verbatim>\<open>unaffected\<close>), so that the component invariants only look at the
  operations that write their tables.
\<close>

section \<open>Regions\<close>

datatype region = RUsers | RSessions | RTokens | RCatalog | ROrders | ROrderItems | RWork | RDeliveries | RReviews
  | RIntents | RWebhooks | RRefunds | RLedger | RJobs | RWallets | RPayouts | RNotices

fun same :: "region \<Rightarrow> db \<Rightarrow> db \<Rightarrow> bool" where
  "same RUsers d d' = (users d' = users d \<and> user_roles d' = user_roles d
    \<and> seller_profiles d' = seller_profiles d \<and> seller_onboardings d' = seller_onboardings d)"
| "same RSessions d d' = (sessions d' = sessions d)"
| "same RTokens d d' = (auth_tokens d' = auth_tokens d)"
| "same RCatalog d d' = (gigs d' = gigs d \<and> gig_packages d' = gig_packages d \<and> gig_addons d' = gig_addons d
    \<and> categories d' = categories d \<and> tags d' = tags d \<and> gig_tags d' = gig_tags d \<and> gig_media d' = gig_media d
    \<and> favorites d' = favorites d \<and> portfolio_items d' = portfolio_items d \<and> draft_orders d' = draft_orders d \<and> draft_addons d' = draft_addons d)"
| "same ROrders d d' = (orders d' = orders d)"
| "same ROrderItems d d' = (order_items d' = order_items d)"
| "same RWork d d' = (order_messages d' = order_messages d \<and> order_attachments d' = order_attachments d
    \<and> revision_requests d' = revision_requests d
    \<and> cancellation_requests d' = cancellation_requests d \<and> disputes d' = disputes d)"
| "same RDeliveries d d' = (deliveries d' = deliveries d)"
| "same RReviews d d' = (reviews d' = reviews d)"
| "same RIntents d d' = (payment_intents d' = payment_intents d)"
| "same RWebhooks d d' = (webhook_events d' = webhook_events d \<and> payment_attempts d' = payment_attempts d)"
| "same RRefunds d d' = (refunds d' = refunds d)"
| "same RLedger d d' = (ledger_accounts d' = ledger_accounts d \<and> ledger_entries d' = ledger_entries d)"
| "same RJobs d d' = (jobs d' = jobs d)"
| "same RWallets d d' = (wallets d' = wallets d)"
| "same RPayouts d d' = (payouts d' = payouts d)"
| "same RNotices d d' = (notifications d' = notifications d \<and> audit_log d' = audit_log d
    \<and> platform_settings d' = platform_settings d)"

lemma same_refl [simp]: "same R d d" by (cases R) simp_all
lemma same_trans: "same R d e \<Longrightarrow> same R e f \<Longrightarrow> same R d f" by (cases R) simp_all

definition modifies :: "region set \<Rightarrow> db \<Rightarrow> db \<Rightarrow> bool" where
  "modifies M d d' \<longleftrightarrow> (\<forall>R. R \<notin> M \<longrightarrow> same R d d')"

lemma modifies_refl [simp]: "modifies M d d" by (simp add: modifies_def)
lemma modifies_trans: "modifies M d e \<Longrightarrow> modifies M e f \<Longrightarrow> modifies M d f"
  unfolding modifies_def by (blast intro: same_trans)
lemma modifies_mono: "modifies M d e \<Longrightarrow> M \<subseteq> N \<Longrightarrow> modifies N d e"
  unfolding modifies_def by blast
lemma modifiesI: "(\<And>R. R \<notin> M \<Longrightarrow> same R d d') \<Longrightarrow> modifies M d d'" by (simp add: modifies_def)
lemma modifiesD: "modifies M d d' \<Longrightarrow> R \<notin> M \<Longrightarrow> same R d d'" by (simp add: modifies_def)

lemma modifies_tables:
  "modifies M d d' \<Longrightarrow> ROrders \<notin> M \<Longrightarrow> orders d' = orders d"
  "modifies M d d' \<Longrightarrow> ROrderItems \<notin> M \<Longrightarrow> order_items d' = order_items d"
  "modifies M d d' \<Longrightarrow> RLedger \<notin> M \<Longrightarrow> ledger_entries d' = ledger_entries d"
  "modifies M d d' \<Longrightarrow> RLedger \<notin> M \<Longrightarrow> ledger_accounts d' = ledger_accounts d"
  "modifies M d d' \<Longrightarrow> RIntents \<notin> M \<Longrightarrow> payment_intents d' = payment_intents d"
  "modifies M d d' \<Longrightarrow> RWebhooks \<notin> M \<Longrightarrow> webhook_events d' = webhook_events d"
  "modifies M d d' \<Longrightarrow> RRefunds \<notin> M \<Longrightarrow> refunds d' = refunds d"
  "modifies M d d' \<Longrightarrow> RDeliveries \<notin> M \<Longrightarrow> deliveries d' = deliveries d"
  "modifies M d d' \<Longrightarrow> RReviews \<notin> M \<Longrightarrow> reviews d' = reviews d"
  "modifies M d d' \<Longrightarrow> RJobs \<notin> M \<Longrightarrow> jobs d' = jobs d"
  "modifies M d d' \<Longrightarrow> RWallets \<notin> M \<Longrightarrow> wallets d' = wallets d"
  "modifies M d d' \<Longrightarrow> RPayouts \<notin> M \<Longrightarrow> payouts d' = payouts d"
  by (drule (1) modifiesD, simp)+

lemma modifies_one: "(\<And>Q. Q \<noteq> R \<Longrightarrow> same Q d d') \<Longrightarrow> modifies {R} d d'" by (simp add: modifies_def)

definition touches :: "region set \<Rightarrow> world \<Rightarrow> world \<Rightarrow> bool" where
  "touches M s t \<longleftrightarrow> modifies M (wdb s) (wdb t) \<and> (\<forall>x. wseq s x \<le> wseq t x)"

interpretation tc: frame "touches M" for M
  by unfold_locales (auto simp: touches_def intro: modifies_trans order_trans)

text \<open>For a fixed start, being modified within \<^verbatim>\<open>M\<close> is an invariant, so the rules for statements
  come from the locale \<^verbatim>\<open>inv_frame\<close>.\<close>

interpretation md: inv_frame "\<lambda>d q. modifies M d0 d" for M d0
  by unfold_locales

lemma touches_iff: "steps (touches M) m \<longleftrightarrow> (\<forall>d0. steps (keeps (\<lambda>d q. modifies M d0 d)) m)"
  unfolding steps_def keeps_def touches_def by (blast intro: modifies_refl modifies_trans)

lemma touches_query: "steps (touches M) (query f)"
  by (simp add: touches_iff md.steps_query)

lemma touches_exec: "(\<And>n d x d'. f n d = Inr (x, d') \<Longrightarrow> modifies M d d') \<Longrightarrow> steps (touches M) (exec f)"
  unfolding touches_iff by (blast intro: md.steps_exec modifies_trans)

lemma touches_insert:
  "(\<And>i n d x d'. f i n d = Inr (x, d') \<Longrightarrow> modifies M d d') \<Longrightarrow> steps (touches M) (insert_row t f)"
  unfolding touches_iff by (blast intro: md.steps_insert modifies_trans)

lemma touches_tx: "steps (touches M) m \<Longrightarrow> steps (touches M) (tx m)"
  unfolding touches_iff by (blast intro: md.steps_tx)

lemma touches_send: "steps (touches M) (send_call c)"
  by (simp add: touches_iff md.steps_send)

lemma touches_now: "steps (touches M) get_now"
  by (simp add: touches_iff md.steps_now)

lemma touches_guarded:
  "(\<And>rs d. modifies M d (put rs d)) \<Longrightarrow> steps (touches M) (guarded_update rows put P f)"
  unfolding guarded_update_def by (rule touches_exec) (auto split: if_splits)

lemmas touches_rules = tc.frame_rules touches_query touches_tx touches_send touches_now

lemma touches_mono: "steps (touches M) m \<Longrightarrow> M \<subseteq> N \<Longrightarrow> steps (touches N) m"
  unfolding steps_def touches_def by (blast intro: modifies_mono)

text \<open>Relations and invariants over regions that are not written.\<close>

locale region_frame = db_frame D for D :: "db \<Rightarrow> db \<Rightarrow> bool" +
  fixes area :: "region set"
  assumes same_area: "modifies M d d' \<Longrightarrow> M \<inter> area = {} \<Longrightarrow> D d d'"
begin

lemma unaffected: "steps (touches M) m \<Longrightarrow> M \<inter> area = {} \<Longrightarrow> steps (on_db D) m"
  unfolding steps_def touches_def on_db_def by (blast intro: same_area)

end

locale region_inv = inv_frame I for I :: "db \<Rightarrow> (table \<Rightarrow> int) \<Rightarrow> bool" +
  fixes area :: "region set"
  assumes same_area: "modifies M d d' \<Longrightarrow> M \<inter> area = {} \<Longrightarrow> I d q \<Longrightarrow> I d' q"
begin

lemma unaffected: "steps (touches M) m \<Longrightarrow> M \<inter> area = {} \<Longrightarrow> steps (keeps I) m"
  unfolding steps_def touches_def keeps_def by (meson same_area seq_mono)

end

section \<open>Tables whose rows evolve\<close>

text \<open>No row disappears or moves, each row evolves by \<^verbatim>\<open>E\<close>, and new rows, appended, satisfy
  \<^verbatim>\<open>B\<close>.\<close>

definition rows_evolve :: "('r \<Rightarrow> 'r \<Rightarrow> bool) \<Rightarrow> ('r \<Rightarrow> bool) \<Rightarrow> 'r list \<Rightarrow> 'r list \<Rightarrow> bool" where
  "rows_evolve E B xs ys \<longleftrightarrow> (\<exists>old new. ys = old @ new \<and> list_all2 E xs old \<and> list_all B new)"

locale row_evolution =
  fixes rows :: "db \<Rightarrow> 'r list" and E :: "'r \<Rightarrow> 'r \<Rightarrow> bool" and B :: "'r \<Rightarrow> bool" and area :: "region set"
  assumes E_refl: "E r r"
    and E_trans: "E p q \<Longrightarrow> E q r \<Longrightarrow> E p r"
    and B_E: "B q \<Longrightarrow> E q r \<Longrightarrow> B r"
    and same_rows: "modifies M d d' \<Longrightarrow> M \<inter> area = {} \<Longrightarrow> rows d' = rows d"
begin

lemma evolve_same: "rows_evolve E B xs xs"
  unfolding rows_evolve_def by (intro exI [of _ xs] exI [of _ "[]"]) (simp add: list_all2_refl E_refl)

lemma evolve_append: "list_all B new \<Longrightarrow> rows_evolve E B xs (xs @ new)"
  unfolding rows_evolve_def by (intro exI [of _ xs] exI [of _ new]) (simp add: list_all2_refl E_refl)

lemma evolve_update:
  "(\<And>r. r \<in> set xs \<Longrightarrow> P r \<Longrightarrow> E r (f r)) \<Longrightarrow> rows_evolve E B xs (update_where P f xs)"
  unfolding rows_evolve_def
  by (intro exI [of _ "update_where P f xs"] exI [of _ "[]"])
    (auto simp: update_where_def list_all2_conv_all_nth E_refl)

lemma evolve_trans:
  assumes "rows_evolve E B xs ys" "rows_evolve E B ys zs"
  shows "rows_evolve E B xs zs"
proof -
  from assms(1) obtain old new where ys: "ys = old @ new" "list_all2 E xs old" "list_all B new"
    by (auto simp: rows_evolve_def)
  from assms(2) obtain old' new' where zs: "zs = old' @ new'" "list_all2 E ys old'" "list_all B new'"
    by (auto simp: rows_evolve_def)
  from zs(2) ys(1) obtain a b where ab: "old' = a @ b" "list_all2 E old a" "list_all2 E new b"
    by (auto simp: list_all2_append1)
  have "list_all2 E xs a"
    by (rule list_all2_trans [OF _ ys(2) ab(2)]) (rule E_trans)
  moreover have "list_all B b"
    using ys(3) ab(3) by (auto simp: list_all_length list_all2_conv_all_nth intro: B_E)
  ultimately show ?thesis
    unfolding rows_evolve_def using zs ab by (intro exI [of _ a] exI [of _ "b @ new'"]) simp
qed

end

text \<open>What evolution gives for the rows at hand.\<close>

lemma list_all2_memD: "list_all2 E xs ys \<Longrightarrow> x \<in> set xs \<Longrightarrow> \<exists>y \<in> set ys. E x y"
  by (induction rule: list_all2_induct) auto

lemma list_all2_memD2: "list_all2 E xs ys \<Longrightarrow> y \<in> set ys \<Longrightarrow> \<exists>x \<in> set xs. E x y"
  by (induction rule: list_all2_induct) auto

lemma rows_evolve_old: "rows_evolve E B xs ys \<Longrightarrow> x \<in> set xs \<Longrightarrow> \<exists>y \<in> set ys. E x y"
  unfolding rows_evolve_def using list_all2_memD [of E xs _ x] by fastforce

lemma rows_evolve_new:
  "rows_evolve E B xs ys \<Longrightarrow> y \<in> set ys \<Longrightarrow> (\<exists>x \<in> set xs. E x y) \<or> B y"
  unfolding rows_evolve_def by (auto dest: list_all2_memD2 simp: list_all_iff)

lemma rows_evolve_nth:
  "rows_evolve E B xs ys \<Longrightarrow> i < length xs \<Longrightarrow> i < length ys \<and> E (xs ! i) (ys ! i)"
  unfolding rows_evolve_def by (auto simp: list_all2_conv_all_nth nth_append)

sublocale row_evolution \<subseteq> rf: region_frame "\<lambda>d d'. rows_evolve E B (rows d) (rows d')" area
  by unfold_locales (auto intro: evolve_same evolve_trans simp: same_rows)

section \<open>The regions of the operations\<close>

named_theorems op_regions \<open>regions an operation may write\<close>

text \<open>An update of one table stays within its region.\<close>

lemma same_update:
  "R \<noteq> RUsers \<Longrightarrow> same R d e \<Longrightarrow> same R d (e\<lparr>users := x_users\<rparr>)"
  "R \<noteq> RUsers \<Longrightarrow> same R d e \<Longrightarrow> same R d (e\<lparr>user_roles := x_user_roles\<rparr>)"
  "R \<noteq> RUsers \<Longrightarrow> same R d e \<Longrightarrow> same R d (e\<lparr>seller_profiles := x_seller_profiles\<rparr>)"
  "R \<noteq> RUsers \<Longrightarrow> same R d e \<Longrightarrow> same R d (e\<lparr>seller_onboardings := x_seller_onboardings\<rparr>)"
  "R \<noteq> RSessions \<Longrightarrow> same R d e \<Longrightarrow> same R d (e\<lparr>sessions := x_sessions\<rparr>)"
  "R \<noteq> RTokens \<Longrightarrow> same R d e \<Longrightarrow> same R d (e\<lparr>auth_tokens := x_auth_tokens\<rparr>)"
  "R \<noteq> RCatalog \<Longrightarrow> same R d e \<Longrightarrow> same R d (e\<lparr>gigs := x_gigs\<rparr>)"
  "R \<noteq> RCatalog \<Longrightarrow> same R d e \<Longrightarrow> same R d (e\<lparr>gig_packages := x_gig_packages\<rparr>)"
  "R \<noteq> RCatalog \<Longrightarrow> same R d e \<Longrightarrow> same R d (e\<lparr>gig_addons := x_gig_addons\<rparr>)"
  "R \<noteq> RCatalog \<Longrightarrow> same R d e \<Longrightarrow> same R d (e\<lparr>categories := x_categories\<rparr>)"
  "R \<noteq> RCatalog \<Longrightarrow> same R d e \<Longrightarrow> same R d (e\<lparr>tags := x_tags\<rparr>)"
  "R \<noteq> RCatalog \<Longrightarrow> same R d e \<Longrightarrow> same R d (e\<lparr>gig_tags := x_gig_tags\<rparr>)"
  "R \<noteq> RCatalog \<Longrightarrow> same R d e \<Longrightarrow> same R d (e\<lparr>gig_media := x_gig_media\<rparr>)"
  "R \<noteq> RCatalog \<Longrightarrow> same R d e \<Longrightarrow> same R d (e\<lparr>favorites := x_favorites\<rparr>)"
  "R \<noteq> RCatalog \<Longrightarrow> same R d e \<Longrightarrow> same R d (e\<lparr>portfolio_items := x_portfolio_items\<rparr>)"
  "R \<noteq> RCatalog \<Longrightarrow> same R d e \<Longrightarrow> same R d (e\<lparr>draft_orders := x_draft_orders\<rparr>)"
  "R \<noteq> RCatalog \<Longrightarrow> same R d e \<Longrightarrow> same R d (e\<lparr>draft_addons := x_draft_addons\<rparr>)"
  "R \<noteq> ROrders \<Longrightarrow> same R d e \<Longrightarrow> same R d (e\<lparr>orders := x_orders\<rparr>)"
  "R \<noteq> ROrderItems \<Longrightarrow> same R d e \<Longrightarrow> same R d (e\<lparr>order_items := x_order_items\<rparr>)"
  "R \<noteq> RWork \<Longrightarrow> same R d e \<Longrightarrow> same R d (e\<lparr>order_messages := x_order_messages\<rparr>)"
  "R \<noteq> RWork \<Longrightarrow> same R d e \<Longrightarrow> same R d (e\<lparr>order_attachments := x_order_attachments\<rparr>)"
  "R \<noteq> RDeliveries \<Longrightarrow> same R d e \<Longrightarrow> same R d (e\<lparr>deliveries := x_deliveries\<rparr>)"
  "R \<noteq> RWork \<Longrightarrow> same R d e \<Longrightarrow> same R d (e\<lparr>revision_requests := x_revision_requests\<rparr>)"
  "R \<noteq> RWork \<Longrightarrow> same R d e \<Longrightarrow> same R d (e\<lparr>cancellation_requests := x_cancellation_requests\<rparr>)"
  "R \<noteq> RWork \<Longrightarrow> same R d e \<Longrightarrow> same R d (e\<lparr>disputes := x_disputes\<rparr>)"
  "R \<noteq> RReviews \<Longrightarrow> same R d e \<Longrightarrow> same R d (e\<lparr>reviews := x_reviews\<rparr>)"
  "R \<noteq> RIntents \<Longrightarrow> same R d e \<Longrightarrow> same R d (e\<lparr>payment_intents := x_payment_intents\<rparr>)"
  "R \<noteq> RWebhooks \<Longrightarrow> same R d e \<Longrightarrow> same R d (e\<lparr>webhook_events := x_webhook_events\<rparr>)"
  "R \<noteq> RWebhooks \<Longrightarrow> same R d e \<Longrightarrow> same R d (e\<lparr>payment_attempts := x_payment_attempts\<rparr>)"
  "R \<noteq> RRefunds \<Longrightarrow> same R d e \<Longrightarrow> same R d (e\<lparr>refunds := x_refunds\<rparr>)"
  "R \<noteq> RLedger \<Longrightarrow> same R d e \<Longrightarrow> same R d (e\<lparr>ledger_accounts := x_ledger_accounts\<rparr>)"
  "R \<noteq> RLedger \<Longrightarrow> same R d e \<Longrightarrow> same R d (e\<lparr>ledger_entries := x_ledger_entries\<rparr>)"
  "R \<noteq> RJobs \<Longrightarrow> same R d e \<Longrightarrow> same R d (e\<lparr>jobs := x_jobs\<rparr>)"
  "R \<noteq> RWallets \<Longrightarrow> same R d e \<Longrightarrow> same R d (e\<lparr>wallets := x_wallets\<rparr>)"
  "R \<noteq> RPayouts \<Longrightarrow> same R d e \<Longrightarrow> same R d (e\<lparr>payouts := x_payouts\<rparr>)"
  "R \<noteq> RNotices \<Longrightarrow> same R d e \<Longrightarrow> same R d (e\<lparr>notifications := x_notifications\<rparr>)"
  "R \<noteq> RNotices \<Longrightarrow> same R d e \<Longrightarrow> same R d (e\<lparr>audit_log := x_audit_log\<rparr>)"
  "R \<noteq> RNotices \<Longrightarrow> same R d e \<Longrightarrow> same R d (e\<lparr>platform_settings := x_platform_settings\<rparr>)"
  by (cases R; simp)+

lemma modifies_update [simp]:
  "RUsers \<in> M \<Longrightarrow> modifies M d e \<Longrightarrow> modifies M d (e\<lparr>users := x_users\<rparr>)"
  "RUsers \<in> M \<Longrightarrow> modifies M d e \<Longrightarrow> modifies M d (e\<lparr>user_roles := x_user_roles\<rparr>)"
  "RUsers \<in> M \<Longrightarrow> modifies M d e \<Longrightarrow> modifies M d (e\<lparr>seller_profiles := x_seller_profiles\<rparr>)"
  "RUsers \<in> M \<Longrightarrow> modifies M d e \<Longrightarrow> modifies M d (e\<lparr>seller_onboardings := x_seller_onboardings\<rparr>)"
  "RSessions \<in> M \<Longrightarrow> modifies M d e \<Longrightarrow> modifies M d (e\<lparr>sessions := x_sessions\<rparr>)"
  "RTokens \<in> M \<Longrightarrow> modifies M d e \<Longrightarrow> modifies M d (e\<lparr>auth_tokens := x_auth_tokens\<rparr>)"
  "RCatalog \<in> M \<Longrightarrow> modifies M d e \<Longrightarrow> modifies M d (e\<lparr>gigs := x_gigs\<rparr>)"
  "RCatalog \<in> M \<Longrightarrow> modifies M d e \<Longrightarrow> modifies M d (e\<lparr>gig_packages := x_gig_packages\<rparr>)"
  "RCatalog \<in> M \<Longrightarrow> modifies M d e \<Longrightarrow> modifies M d (e\<lparr>gig_addons := x_gig_addons\<rparr>)"
  "RCatalog \<in> M \<Longrightarrow> modifies M d e \<Longrightarrow> modifies M d (e\<lparr>categories := x_categories\<rparr>)"
  "RCatalog \<in> M \<Longrightarrow> modifies M d e \<Longrightarrow> modifies M d (e\<lparr>tags := x_tags\<rparr>)"
  "RCatalog \<in> M \<Longrightarrow> modifies M d e \<Longrightarrow> modifies M d (e\<lparr>gig_tags := x_gig_tags\<rparr>)"
  "RCatalog \<in> M \<Longrightarrow> modifies M d e \<Longrightarrow> modifies M d (e\<lparr>gig_media := x_gig_media\<rparr>)"
  "RCatalog \<in> M \<Longrightarrow> modifies M d e \<Longrightarrow> modifies M d (e\<lparr>favorites := x_favorites\<rparr>)"
  "RCatalog \<in> M \<Longrightarrow> modifies M d e \<Longrightarrow> modifies M d (e\<lparr>portfolio_items := x_portfolio_items\<rparr>)"
  "RCatalog \<in> M \<Longrightarrow> modifies M d e \<Longrightarrow> modifies M d (e\<lparr>draft_orders := x_draft_orders\<rparr>)"
  "RCatalog \<in> M \<Longrightarrow> modifies M d e \<Longrightarrow> modifies M d (e\<lparr>draft_addons := x_draft_addons\<rparr>)"
  "ROrders \<in> M \<Longrightarrow> modifies M d e \<Longrightarrow> modifies M d (e\<lparr>orders := x_orders\<rparr>)"
  "ROrderItems \<in> M \<Longrightarrow> modifies M d e \<Longrightarrow> modifies M d (e\<lparr>order_items := x_order_items\<rparr>)"
  "RWork \<in> M \<Longrightarrow> modifies M d e \<Longrightarrow> modifies M d (e\<lparr>order_messages := x_order_messages\<rparr>)"
  "RWork \<in> M \<Longrightarrow> modifies M d e \<Longrightarrow> modifies M d (e\<lparr>order_attachments := x_order_attachments\<rparr>)"
  "RDeliveries \<in> M \<Longrightarrow> modifies M d e \<Longrightarrow> modifies M d (e\<lparr>deliveries := x_deliveries\<rparr>)"
  "RWork \<in> M \<Longrightarrow> modifies M d e \<Longrightarrow> modifies M d (e\<lparr>revision_requests := x_revision_requests\<rparr>)"
  "RWork \<in> M \<Longrightarrow> modifies M d e \<Longrightarrow> modifies M d (e\<lparr>cancellation_requests := x_cancellation_requests\<rparr>)"
  "RWork \<in> M \<Longrightarrow> modifies M d e \<Longrightarrow> modifies M d (e\<lparr>disputes := x_disputes\<rparr>)"
  "RReviews \<in> M \<Longrightarrow> modifies M d e \<Longrightarrow> modifies M d (e\<lparr>reviews := x_reviews\<rparr>)"
  "RIntents \<in> M \<Longrightarrow> modifies M d e \<Longrightarrow> modifies M d (e\<lparr>payment_intents := x_payment_intents\<rparr>)"
  "RWebhooks \<in> M \<Longrightarrow> modifies M d e \<Longrightarrow> modifies M d (e\<lparr>webhook_events := x_webhook_events\<rparr>)"
  "RWebhooks \<in> M \<Longrightarrow> modifies M d e \<Longrightarrow> modifies M d (e\<lparr>payment_attempts := x_payment_attempts\<rparr>)"
  "RRefunds \<in> M \<Longrightarrow> modifies M d e \<Longrightarrow> modifies M d (e\<lparr>refunds := x_refunds\<rparr>)"
  "RLedger \<in> M \<Longrightarrow> modifies M d e \<Longrightarrow> modifies M d (e\<lparr>ledger_accounts := x_ledger_accounts\<rparr>)"
  "RLedger \<in> M \<Longrightarrow> modifies M d e \<Longrightarrow> modifies M d (e\<lparr>ledger_entries := x_ledger_entries\<rparr>)"
  "RJobs \<in> M \<Longrightarrow> modifies M d e \<Longrightarrow> modifies M d (e\<lparr>jobs := x_jobs\<rparr>)"
  "RWallets \<in> M \<Longrightarrow> modifies M d e \<Longrightarrow> modifies M d (e\<lparr>wallets := x_wallets\<rparr>)"
  "RPayouts \<in> M \<Longrightarrow> modifies M d e \<Longrightarrow> modifies M d (e\<lparr>payouts := x_payouts\<rparr>)"
  "RNotices \<in> M \<Longrightarrow> modifies M d e \<Longrightarrow> modifies M d (e\<lparr>notifications := x_notifications\<rparr>)"
  "RNotices \<in> M \<Longrightarrow> modifies M d e \<Longrightarrow> modifies M d (e\<lparr>audit_log := x_audit_log\<rparr>)"
  "RNotices \<in> M \<Longrightarrow> modifies M d e \<Longrightarrow> modifies M d (e\<lparr>platform_settings := x_platform_settings\<rparr>)"
  unfolding modifies_def by (metis same_update)+

lemmas region_splits = if_splits option.splits prod.splits

lemma regions_ledger [op_regions]:
  "steps (touches {RLedger}) (getOrCreateLedgerAccount k ow c)"
  "steps (touches {RLedger}) (insert_ledger_entry g a e)"
  "steps (touches {}) randomUUID"
  unfolding getOrCreateLedgerAccount_def insert_ledger_entry_def randomUUID_def
  by (intro touches_insert touches_exec; auto simp: Let_def split: region_splits)+

lemma regions_posting [op_regions]: "steps (touches {RLedger}) (PostLedgerEntries es)"
proof -
  have "steps (touches {RLedger}) (post_entry g e)" for g e
    unfolding post_entry_def by (intro touches_rules regions_ledger)
  moreover have "steps (touches {RLedger}) randomUUID"
    by (rule touches_mono [OF regions_ledger(3)]) simp
  ultimately show ?thesis
    unfolding PostLedgerEntries_def by (intro touches_rules) simp_all
qed

lemma regions_queries [op_regions]:
  "steps (touches {}) (SellerBalances i)" "steps (touches {}) PlatformBalances"
  "steps (touches {}) (GetOrder i)" "steps (touches {}) (GetOrderItems i)"
  "steps (touches {}) (listOrders cp mine p n)"
  "steps (touches {}) (CountRecentOrdersByBuyer i t)" "steps (touches {}) (ListDeliveries i)"
  "steps (touches {}) (ListRevisionRequests i)" "steps (touches {}) (GetOpenCancellationRequest i)"
  "steps (touches {}) (GetOpenDispute i)" "steps (touches {}) (GetLatestDispute i)"
  "steps (touches {}) (GetReviewByOrder i)" "steps (touches {}) (ListOrderMessages i)"
  "steps (touches {}) (ListOrderAttachments i k)" "steps (touches {}) (GetOrderAttachment i)"
  by (simp_all add: touches_query SellerBalances_def PlatformBalances_def GetOrder_def GetOrderItems_def
    listOrders_def CountRecentOrdersByBuyer_def ListDeliveries_def ListRevisionRequests_def
    GetOpenCancellationRequest_def GetOpenDispute_def GetLatestDispute_def GetReviewByOrder_def
    ListOrderMessages_def ListOrderAttachments_def GetOrderAttachment_def Let_def)

lemma regions_more_queries [op_regions]:
  "steps (touches {}) (ListOrdersForBuyer i p n)" "steps (touches {}) (ListOrdersForSeller i p n)"
  "steps (touches {}) (GetPaymentIntentByIdempotencyKey k)" "steps (touches {}) (GetPaymentIntent i)"
  "steps (touches {}) (GetPaymentIntentByProviderRef pr rf)" "steps (touches {}) (LatestPaymentIntentForOrder i)"
  "steps (touches {}) (ListStalePaymentIntents t n)" "steps (touches {}) (ListPaymentAttemptsForIntent i)"
  "steps (touches {}) (GetWebhookEventByProviderEventID pr ev)" "steps (touches {}) (PendingWebhookEvents n)"
  "steps (touches {}) (GetRefundForOrder i)" "steps (touches {}) (ListJobsByKindAndStatus kd js n)"
  "steps (touches {}) (GetWallet i)" "steps (touches {}) (GetConfirmedWallet i nw as)"
  "steps (touches {}) (ListPayoutsByStatus ps n)" "steps (touches {}) (ListPayoutsBySeller i n)"
  "steps (touches {}) (GetPayout i)" "steps (touches {}) PayoutsPaused" "steps (touches {}) (GetAuthToken k th)"
  "steps (touches {}) (UserHasRole i r)" "steps (touches {}) (GetUserByEmail em)" "steps (touches {}) (GetUserByID i)"
  "steps (touches {}) (GetTOTPSecret i)" "steps (touches {}) (GetSessionByToken th)" "steps (touches {}) (GetSessionByID i)"
  "steps (touches {}) (ListNotifications i p n)" "steps (touches {}) (CountUnreadNotifications i)"
  "steps (touches {}) (GetSellerProfile i)" "steps (touches {}) (GetSellerOnboarding i)"
  "steps (touches {}) (GetGigBasic i)"
  by (simp_all add: ListOrdersForBuyer_def ListOrdersForSeller_def regions_queries touches_query
    GetPaymentIntentByIdempotencyKey_def GetPaymentIntent_def GetPaymentIntentByProviderRef_def
    LatestPaymentIntentForOrder_def ListStalePaymentIntents_def ListPaymentAttemptsForIntent_def
    GetWebhookEventByProviderEventID_def PendingWebhookEvents_def GetRefundForOrder_def
    ListJobsByKindAndStatus_def GetWallet_def GetConfirmedWallet_def ListPayoutsByStatus_def
    ListPayoutsBySeller_def GetPayout_def PayoutsPaused_def GetAuthToken_def UserHasRole_def
    GetUserByEmail_def GetUserByID_def GetTOTPSecret_def GetSessionByToken_def GetSessionByID_def
    ListNotifications_def CountUnreadNotifications_def GetSellerProfile_def GetSellerOnboarding_def
    GetGigBasic_def Let_def)

text \<open>The writes: the definition of each operation, one statement rule, and the update.\<close>

lemma regions_orders [op_regions]:
  "steps (touches {ROrders}) (insert_order b sl g rq rv su fe to cu)"
  "steps (touches {ROrderItems}) (insert_order_item oi it)"
  "steps (touches {RCatalog}) (delete_draft i)"
  "steps (touches {ROrders}) (AutoAcceptOrders t)"
  unfolding insert_order_def insert_order_item_def delete_draft_def AutoAcceptOrders_def
  by (intro touches_insert touches_exec; auto simp: Let_def split: region_splits)+

lemma regions_guarded [op_regions]:
  "steps (touches {ROrders}) (TransitionOrder i f t)"
  "steps (touches {RWork}) (ResolveCancellationRequest i st)"
  "steps (touches {RWork}) (ResolveDispute i by dec)"
  "steps (touches {RIntents}) (SetPaymentIntentSession i rf url ex)"
  "steps (touches {RIntents}) (TransitionPaymentIntent i pf pt)"
  "steps (touches {RPayouts}) (TransitionPayout i pof pot by' h)"
  "steps (touches {RSessions}) (RevokeSession i)"
  unfolding TransitionOrder_def ResolveCancellationRequest_def ResolveDispute_def SetPaymentIntentSession_def
    TransitionPaymentIntent_def TransitionPayout_def RevokeSession_def
  by (rule touches_guarded; simp)+

lemma regions_create_order [op_regions]:
  "steps (touches {ROrders, ROrderItems, RCatalog}) (CreateOrderFromDraft df b sl g rq its su fe to cu rv)"
  unfolding CreateOrderFromDraft_def
  by (intro touches_rules; rule regions_orders [THEN touches_mono]; simp)

lemma regions_work [op_regions]:
  "steps (touches {RDeliveries}) (insert_delivery oi sl v m)"
  "steps (touches {RWork}) (CreateCancellationRequest oi by rs)"
  "steps (touches {RWork}) (CreateDispute oi by rs)"
  "steps (touches {RWork}) (CreateOrderMessage oi sd bd ir)"
  "steps (touches {RWork}) (CreateOrderAttachment oi up kd fp fn)"
  unfolding insert_delivery_def CreateCancellationRequest_def CreateDispute_def CreateOrderMessage_def
    CreateOrderAttachment_def
  by (intro touches_insert; auto simp: Let_def split: region_splits)+

lemma regions_delivery [op_regions]: "steps (touches {RDeliveries}) (CreateDelivery oi sl m)"
  unfolding CreateDelivery_def by (intro touches_rules regions_work)

lemma regions_revision [op_regions]:
  "steps (touches {ROrders, RWork}) (CreateRevisionRequest oi b rs)"
  unfolding CreateRevisionRequest_def
  by (intro touches_rules touches_exec touches_insert; auto simp: Let_def)

lemma regions_review [op_regions]: "steps (touches {RReviews, RUsers}) (CreateReview oi g b sl rt bd)"
proof -
  have "steps (touches {RReviews, RUsers}) (insert_review oi g b sl rt bd)"
    and "steps (touches {RReviews, RUsers}) (recalculate_rating sl)"
    unfolding insert_review_def recalculate_rating_def
    by (intro touches_insert touches_exec; auto simp: Let_def split: region_splits)+
  then show ?thesis unfolding CreateReview_def by (intro touches_rules)
qed

lemma regions_payments [op_regions]:
  "steps (touches {RIntents}) (insert_payment_intent oi pr me am cu k)"
  "steps (touches {RIntents}) (SetPaymentIntentChargeRef i cr)"
  "steps (touches {RWebhooks}) (RecordPaymentAttempt i pst fc fm)"
  "steps (touches {RWebhooks}) (InsertWebhookEvent pr ev ty rf pl ph)"
  "steps (touches {RWebhooks}) (MarkWebhookProcessed i)"
  "steps (touches {RWebhooks}) (MarkWebhookFailed i)"
  "steps (touches {RRefunds}) (insert_refund oi pin by rs am cu)"
  "steps (touches {RRefunds}) (SetRefundStatus i pst rf)"
  unfolding insert_payment_intent_def SetPaymentIntentChargeRef_def RecordPaymentAttempt_def
    InsertWebhookEvent_def MarkWebhookProcessed_def MarkWebhookFailed_def insert_refund_def SetRefundStatus_def
  by (intro touches_insert touches_exec; auto simp: Let_def split: region_splits)+

lemma regions_payments_checked [op_regions]:
  "steps (touches {RIntents}) (CreatePaymentIntent oi pr me am cu k)"
  "steps (touches {RRefunds}) (CreateRefund oi pin by rs am cu)"
  unfolding CreatePaymentIntent_def CreateRefund_def by (intro touches_rules regions_payments)+

lemma regions_jobs [op_regions]:
  "steps (touches {RJobs}) (EnqueueJob kd pl ra mx)"
  "steps (touches {RJobs}) (ClaimJob w st)"
  "steps (touches {RJobs}) (FailJob i e bo)"
  unfolding EnqueueJob_def ClaimJob_def FailJob_def Let_def
  by (intro touches_insert touches_exec; auto split: region_splits)+

lemma regions_complete [op_regions]: "steps (touches {RJobs}) (CompleteJob i)"
  unfolding CompleteJob_def by (intro touches_rules touches_guarded) simp

lemma regions_wallets [op_regions]:
  "steps (touches {RWallets}) (supersede u nw as old)"
  "steps (touches {RPayouts}) (CreatePayout sl w am cu nw as ist)"
  "steps (touches {RNotices}) (SetPayoutsPaused b)"
  "steps (touches {RTokens}) (CreateAuthToken u kd th ttl)"
  "steps (touches {RTokens}) (UseAuthToken i)"
  "steps (touches {RTokens}) DeleteExpiredAuthTokens"
  unfolding supersede_def CreatePayout_def SetPayoutsPaused_def CreateAuthToken_def UseAuthToken_def
    DeleteExpiredAuthTokens_def Let_def
  by (intro touches_insert touches_exec; auto split: region_splits)+

lemma regions_wallet_tx [op_regions]:
  "steps (touches {RWallets}) (CreatePendingWallet u nw as enc fp)"
  "steps (touches {RWallets}) (ConfirmWallet i cd)"
  unfolding CreatePendingWallet_def ConfirmWallet_def
  by (intro touches_rules regions_wallets touches_insert touches_exec; auto)+

lemma regions_accounts [op_regions]:
  "steps (touches {RUsers}) (AddRole i r)" "steps (touches {RUsers}) (RemoveRole i r)"
  "steps (touches {RUsers}) (insert_user em ph nm lc)" "steps (touches {RUsers}) (update_user i f)"
  "steps (touches {RUsers}) (UpdateEmail i em)" "steps (touches {RUsers}) (SetTOTP i sc)"
  "steps (touches {RSessions}) (insert_session us th cs ttl ua ip)"
  "steps (touches {RSessions}) (update_session P g)" "steps (touches {RSessions}) (ConsumeFlash i)"
  "steps (touches {RSessions}) DeleteExpiredSessions"
  "steps (touches {RNotices}) (CreateNotification i nk nb nl)"
  "steps (touches {RNotices}) (MarkAllNotificationsRead i)"
  "steps (touches {RNotices}) (LogAction ac an et ei)"
  "steps (touches {RUsers}) (UpsertSellerProfile i dn bi lo)" "steps (touches {RUsers}) (EnsureSellerOnboarding i)"
  "steps (touches {RUsers}) (SetStripeAccount i sa)" "steps (touches {RUsers}) (SetStripeAccountCapabilities sa ch po)"
  unfolding AddRole_def RemoveRole_def insert_user_def update_user_def UpdateEmail_def SetTOTP_def
    insert_session_def update_session_def ConsumeFlash_def DeleteExpiredSessions_def CreateNotification_def
    MarkAllNotificationsRead_def LogAction_def UpsertSellerProfile_def EnsureSellerOnboarding_def
    SetStripeAccount_def SetStripeAccountCapabilities_def Let_def
  by (intro touches_insert touches_exec; auto split: region_splits)+

lemma regions_accounts_more [op_regions]:
  "steps (touches {RUsers}) (CreateUser em ph nm lc)" "steps (touches {RUsers}) (SetEmailVerified i)"
  "steps (touches {RUsers}) (UpdateName i nm)" "steps (touches {RUsers}) (UpdatePassword i ph)"
  "steps (touches {RUsers}) (DisableTOTP i)" "steps (touches {RUsers}) (SetLastLogin i)"
  "steps (touches {RUsers}) (RecordLoginFailure i mx lo)" "steps (touches {RUsers}) (ResetLoginFailures i)"
  "steps (touches {RSessions}) (CreateSession us th cs ttl ua ip)" "steps (touches {RSessions}) (TouchSession i)"
  "steps (touches {RSessions}) (AttachSessionUser i j)" "steps (touches {RSessions}) (RotateSession i j th cs ttl ua ip)"
  "steps (touches {RSessions}) (RevokeUserSessions i j)" "steps (touches {RSessions}) (SetFlash i fl)"
  unfolding CreateUser_def SetEmailVerified_def UpdateName_def UpdatePassword_def DisableTOTP_def SetLastLogin_def
    RecordLoginFailure_def ResetLoginFailures_def CreateSession_def TouchSession_def AttachSessionUser_def
    RotateSession_def RevokeUserSessions_def SetFlash_def
  by (intro touches_rules regions_accounts)+

lemma regions_catalog [op_regions]:
  "steps (touches {}) (loadGigDetail g)" "steps (touches {}) (GetGigBySlug sg)" "steps (touches {}) (GetGigByID i)"
  "steps (touches {}) (loadDraftOrder P)" "steps (touches {}) (GetDraftOrder i j)" "steps (touches {}) (GetDraftOrderByID i)"
  "steps (touches {RCatalog}) (DeleteDraftOrder i)"
  unfolding GetGigBySlug_def GetGigByID_def loadGigDetail_def loadDraftOrder_def GetDraftOrder_def
    GetDraftOrderByID_def DeleteDraftOrder_def read_or_def
  by (intro touches_rules regions_orders)+

lemma regions_drafts [op_regions]:
  "steps (touches {RCatalog}) (UpsertDraftOrder b g p)"
  "steps (touches {RCatalog}) (SetDraftOrderRequirements i rq ids)"
  unfolding UpsertDraftOrder_def SetDraftOrderRequirements_def add_draft_addon_def Let_def
  by (intro touches_rules touches_insert touches_exec; auto split: region_splits)+

end
