(* ===== verification/StoreCatalog.thy ===== *)
theory StoreCatalog
  imports Frames Text
begin

text \<open>
  The catalog (\<^verbatim>\<open>src/store/catalog.go\<close>) and the seller records the checkout does not need
  (\<^verbatim>\<open>sellers.go\<close>): categories, slugs, gigs with their packages, add-ons, images and tags, the public
  search, favorites and the portfolio.  The tables and their constraints are those of migration
  \<^verbatim>\<open>0004\<close>; an \<^verbatim>\<open>integer\<close> column holds 32 bits.  PostgreSQL's full-text match is a parameter of the
  search.
\<close>

section \<open>Categories\<close>

definition int4 :: "int \<Rightarrow> bool" where "int4 i \<longleftrightarrow> - (2 ^ 31) \<le> i \<and> i < 2 ^ 31"

definition ListCategories :: "category list op" where
  "ListCategories = query (\<lambda>now d. Inr (sort_key ctPosition (order_text ctName (categories d))))"

definition CreateCategory :: "string \<Rightarrow> string \<Rightarrow> string \<Rightarrow> int \<Rightarrow> int op" where
  "CreateCategory slug name description position = insert_row TCategories (\<lambda>i now d.
    if \<not> int4 position then Inl ErrOutOfRange
    else if \<exists>c\<in>set (categories d). ctSlug c = slug then Inl ErrUniqueViolation
    else Inr (i, d\<lparr>categories := categories d @ [\<lparr>ctID = i, ctSlug = slug, ctName = name,
      ctDescription = description, ctPosition = position\<rparr>]\<rparr>))"

definition UpdateCategory :: "int \<Rightarrow> string \<Rightarrow> string \<Rightarrow> int \<Rightarrow> unit op" where
  "UpdateCategory rid name description position =
    (if \<not> int4 position then query (\<lambda>now d. Inl ErrOutOfRange)
     else guarded_update categories (\<lambda>rows d. d\<lparr>categories := rows\<rparr>) (\<lambda>c. ctID c = rid)
       (\<lambda>now c. c\<lparr>ctName := name, ctDescription := description, ctPosition := position\<rparr>))"

definition DeleteCategory :: "int \<Rightarrow> unit op" where
  "DeleteCategory rid = exec (\<lambda>now d.
    if \<not> (\<exists>c\<in>set (categories d). ctID c = rid) then Inl ErrNotFound
    else Inr ((), d\<lparr>categories := filter (\<lambda>c. ctID c \<noteq> rid) (categories d),
      gigs := update_where (\<lambda>g. gCategoryID g = Some rid) (\<lambda>g. g\<lparr>gCategoryID := None\<rparr>) (gigs d)\<rparr>))"

definition GetCategoryBySlug :: "string \<Rightarrow> category op" where
  "GetCategoryBySlug slug = query (\<lambda>now d. one_row (find (\<lambda>c. ctSlug c = slug) (categories d)))"

section \<open>Slugs\<close>

definition slug_char :: "char \<Rightarrow> bool" where
  "slug_char c \<longleftrightarrow> (let n = of_char c :: nat in (97 \<le> n \<and> n \<le> 122) \<or> (48 \<le> n \<and> n \<le> 57))"

text \<open>\<^verbatim>\<open>ReplaceAllString\<close> with \<^verbatim>\<open>[^a-z0-9]+\<close> and a dash; \<^verbatim>\<open>run\<close> says that the last byte was
  part of a run.\<close>

fun dash_runs :: "bool \<Rightarrow> string \<Rightarrow> string" where
  "dash_runs run [] = []"
| "dash_runs run (c # cs) = (if slug_char c then c # dash_runs False cs
     else if run then dash_runs True cs else CHR ''-'' # dash_runs True cs)"

definition trim_dashes :: "string \<Rightarrow> string" where
  "trim_dashes s = rev (dropWhile (\<lambda>c. c = CHR ''-'') (rev (dropWhile (\<lambda>c. c = CHR ''-'') s)))"

definition slugify :: "string \<Rightarrow> string" where
  "slugify title =
    (let s = trim_dashes (dash_runs False (to_lower (trim_space title)));
         s = (if s = [] then ''gig'' else s) in
     if length s > 80 then trim_dashes (take 80 s) else s)"

section \<open>Gigs\<close>

definition GigDraft :: string where "GigDraft = ''draft''"
definition GigPaused :: string where "GigPaused = ''paused''"
definition GigArchived :: string where "GigArchived = ''archived''"

text \<open>\<^verbatim>\<open>gigs.category_id REFERENCES categories\<close>, which holds of \<^verbatim>\<open>NULL\<close>.  The category comes from the form
  of the seller.  A foreign key is checked after the row went into the unique index.\<close>

definition category_exists :: "int option \<Rightarrow> db \<Rightarrow> bool" where
  "category_exists categoryID d \<longleftrightarrow>
    (case categoryID of None \<Rightarrow> True | Some c \<Rightarrow> c \<in> ctID ` set (categories d))"

definition insert_gig :: "int \<Rightarrow> int option \<Rightarrow> string \<Rightarrow> string \<Rightarrow> string \<Rightarrow> gig op" where
  "insert_gig sellerID categoryID slug title description = insert_row TGigs (\<lambda>i now d.
    if \<exists>g\<in>set (gigs d). gSlug g = slug then Inl ErrUniqueViolation
    else if \<not> category_exists categoryID d then Inl (ErrForeignKeyViolation ''gigs_category_id_fkey'')
    else (let g = \<lparr>gID = i, gSellerID = sellerID, gCategoryID = categoryID, gSlug = slug, gTitle = title,
        gDescription = description, gStatus = GigDraft, gModerationState = ModerationApproved,
        gCreatedAt = now, gUpdatedAt = now\<rparr> in Inr (g, d\<lparr>gigs := gigs d @ [g]\<rparr>)))"

definition randomSlugSuffix :: "nat list option \<Rightarrow> string option" where
  "randomSlugSuffix drawn = map_option hex_encode drawn"

text \<open>The loop of \<^verbatim>\<open>CreateGig\<close>, with the attempts left and the number of the next one; \<^verbatim>\<open>draw\<close> gives
  the bytes \<^verbatim>\<open>rand.Read\<close> returns at each attempt.\<close>

primrec slug_attempts ::
  "nat \<Rightarrow> nat \<Rightarrow> (nat \<Rightarrow> nat list option) \<Rightarrow> (string \<Rightarrow> gig op) \<Rightarrow> string \<Rightarrow> gig op" where
  "slug_attempts 0 k draw put base = fail ErrNoSlug"
| "slug_attempts (Suc n) k draw put base =
    (let try = (\<lambda>candidate. call (put candidate)
        (\<lambda>e. if e = ErrUniqueViolation then slug_attempts n (k + 1) draw put base else fail e) ret) in
     if k = 0 then try base
     else case randomSlugSuffix (draw k) of None \<Rightarrow> fail ErrFault | Some x \<Rightarrow> try (base @ ''-'' @ x))"

definition CreateGig :: "(nat \<Rightarrow> nat list option) \<Rightarrow> int \<Rightarrow> int option \<Rightarrow> string \<Rightarrow> string \<Rightarrow> gig op" where
  "CreateGig draw sellerID categoryID title description =
    slug_attempts 5 0 draw (\<lambda>slug. insert_gig sellerID categoryID slug title description) (slugify title)"

definition UpdateGig :: "int \<Rightarrow> int \<Rightarrow> int option \<Rightarrow> string \<Rightarrow> string \<Rightarrow> unit op" where
  "UpdateGig gigID sellerID categoryID title description =
    exec (\<lambda>now d.
      if \<not> (\<exists>g\<in>set (gigs d). gID g = gigID \<and> gSellerID g = sellerID) then Inl ErrNotFound
      else if \<not> category_exists categoryID d then Inl (ErrForeignKeyViolation ''gigs_category_id_fkey'')
      else Inr ((), d\<lparr>gigs := update_where (\<lambda>g. gID g = gigID \<and> gSellerID g = sellerID)
        (\<lambda>g. g\<lparr>gCategoryID := categoryID, gTitle := title, gDescription := description, gUpdatedAt := now\<rparr>) (gigs d)\<rparr>))"

definition SetGigStatus :: "int \<Rightarrow> int \<Rightarrow> string \<Rightarrow> unit op" where
  "SetGigStatus gigID sellerID status = exec (\<lambda>now d.
    let P = (\<lambda>g. gID g = gigID \<and> gSellerID g = sellerID) in
    if filter P (gigs d) = [] then Inl ErrNotFound
    else if status \<notin> {GigDraft, GigActive, GigPaused, GigArchived} then Inl (ErrCheckViolation ''gigs_status_check'')
    else Inr ((), d\<lparr>gigs := update_where P (\<lambda>g. g\<lparr>gStatus := status, gUpdatedAt := now\<rparr>) (gigs d)\<rparr>))"

definition ListGigsBySeller :: "int \<Rightarrow> gig list op" where
  "ListGigsBySeller sellerID = query (\<lambda>now d.
    Inr (sort_key (\<lambda>g. - gCreatedAt g) (filter (\<lambda>g. gSellerID g = sellerID) (gigs d))))"

definition GetGigForOwner :: "int \<Rightarrow> int \<Rightarrow> gig_detail op" where
  "GetGigForOwner gigID sellerID = call (query (\<lambda>now d. one_row
    (find (\<lambda>g. gID g = gigID \<and> gSellerID g = sellerID) (gigs d)))) fail loadGigDetail"

section \<open>Packages, add-ons and images\<close>

text \<open>Deleting a package deletes the drafts that chose it, deleting an add-on takes it out of the
  drafts (\<^verbatim>\<open>ON DELETE CASCADE\<close> of migration \<^verbatim>\<open>0005\<close>).\<close>

definition clear_packages :: "int \<Rightarrow> unit op" where
  "clear_packages gigID = exec (\<lambda>now d.
    let gone = gpID ` set (filter (\<lambda>p. gpGigID p = gigID) (gig_packages d));
        drafts = dfID ` set (filter (\<lambda>f. dfPackageID f \<in> gone) (draft_orders d)) in
    Inr ((), d\<lparr>gig_packages := filter (\<lambda>p. gpGigID p \<noteq> gigID) (gig_packages d),
      draft_orders := filter (\<lambda>f. dfPackageID f \<notin> gone) (draft_orders d),
      draft_addons := filter (\<lambda>r. fst r \<notin> drafts) (draft_addons d)\<rparr>))"

definition clear_addons :: "int \<Rightarrow> unit op" where
  "clear_addons gigID = exec (\<lambda>now d.
    let gone = gaID ` set (filter (\<lambda>a. gaGigID a = gigID) (gig_addons d)) in
    Inr ((), d\<lparr>gig_addons := filter (\<lambda>a. gaGigID a \<noteq> gigID) (gig_addons d),
      draft_addons := filter (\<lambda>r. snd r \<notin> gone) (draft_addons d)\<rparr>))"

definition insert_gig_package :: "int \<Rightarrow> gig_package \<Rightarrow> unit op" where
  "insert_gig_package gigID p = insert_row TGigPackages (\<lambda>i now d.
    if \<not> int4 (gpDeliveryDays p) \<or> \<not> int4 (gpRevisions p) then Inl ErrOutOfRange
    else if gpDeliveryDays p \<le> 0 then Inl (ErrCheckViolation ''gig_packages_delivery_check'')
    else if gpPriceMinorUnits p \<le> 0 then Inl (ErrCheckViolation ''gig_packages_price_check'')
    else if gpTier p \<notin> {''basic'', ''standard'', ''premium''} then Inl (ErrCheckViolation ''gig_packages_tier_check'')
    else if \<exists>q\<in>set (gig_packages d). gpGigID q = gigID \<and> gpTier q = gpTier p then Inl ErrUniqueViolation
    else Inr ((), d\<lparr>gig_packages := gig_packages d @ [p\<lparr>gpID := i, gpGigID := gigID\<rparr>]\<rparr>))"

definition insert_gig_addon :: "int \<Rightarrow> int \<times> gig_addon \<Rightarrow> unit op" where
  "insert_gig_addon gigID x = insert_row TGigAddons (\<lambda>i now d.
    let a = snd x in
    if \<not> int4 (gaDeliveryDaysImpact a) then Inl ErrOutOfRange
    else if gaPriceMinorUnits a \<le> 0 then Inl (ErrCheckViolation ''gig_addons_price_check'')
    else Inr ((), d\<lparr>gig_addons := gig_addons d @ [a\<lparr>gaID := i, gaGigID := gigID, gaPosition := fst x\<rparr>]\<rparr>))"

definition ReplaceGigPackages :: "int \<Rightarrow> gig_package list \<Rightarrow> unit op" where
  "ReplaceGigPackages gigID packages =
    tx (call (clear_packages gigID) fail (\<lambda>_. each (insert_gig_package gigID) packages))"

definition ReplaceGigAddons :: "int \<Rightarrow> gig_addon list \<Rightarrow> unit op" where
  "ReplaceGigAddons gigID addons = tx (call (clear_addons gigID) fail
    (\<lambda>_. each (insert_gig_addon gigID) (zip (map int [0..<length addons]) addons)))"

definition AddGigMedia :: "int \<Rightarrow> string \<Rightarrow> string \<Rightarrow> int op" where
  "AddGigMedia gigID path altText =
    call (query (\<lambda>now d. let taken = set (map gmPosition (filter (\<lambda>m. gmGigID m = gigID) (gig_media d))) in
      Inr (if taken = {} then 0 else Max taken + 1))) fail
    (\<lambda>position. insert_row TGigMedia (\<lambda>i now d. Inr (i, d\<lparr>gig_media := gig_media d @
      [\<lparr>gmID = i, gmGigID = gigID, gmMediaPath = path, gmAltText = altText, gmPosition = position,
        gmModerationState = ModerationApproved\<rparr>]\<rparr>)))"

section \<open>Tags\<close>

record tag_usage = tuTag :: tag tuGigCount :: int

definition ListTagsWithUsage :: "tag_usage list op" where
  "ListTagsWithUsage = query (\<lambda>now d. Inr (sort_key (\<lambda>u. - tuGigCount u) (map
    (\<lambda>t. \<lparr>tuTag = t, tuGigCount = int (length (filter (\<lambda>r. snd r = tgID t) (gig_tags d)))\<rparr>)
    (order_text tgName (tags d)))))"

definition DeleteTag :: "int \<Rightarrow> unit op" where
  "DeleteTag rid = exec (\<lambda>now d.
    if \<not> (\<exists>t\<in>set (tags d). tgID t = rid) then Inl ErrNotFound
    else Inr ((), d\<lparr>tags := filter (\<lambda>t. tgID t \<noteq> rid) (tags d), gig_tags := filter (\<lambda>r. snd r \<noteq> rid) (gig_tags d)\<rparr>))"

definition RenameTag :: "int \<Rightarrow> string \<Rightarrow> unit op" where
  "RenameTag rid name = exec (\<lambda>now d.
    if \<not> (\<exists>t\<in>set (tags d). tgID t = rid) then Inl ErrNotFound
    else if \<exists>t\<in>set (tags d). tgID t \<noteq> rid \<and> tgSlug t = slugify name then Inl ErrUniqueViolation
    else Inr ((), d\<lparr>tags := update_where (\<lambda>t. tgID t = rid) (\<lambda>t. t\<lparr>tgName := name, tgSlug := slugify name\<rparr>) (tags d)\<rparr>))"

text \<open>The upsert keeps the name of a tag that exists.\<close>

definition upsert_tag :: "string \<Rightarrow> string \<Rightarrow> int op" where
  "upsert_tag slug name = insert_row TTags (\<lambda>i now d. case find (\<lambda>t. tgSlug t = slug) (tags d) of
      Some t \<Rightarrow> Inr (tgID t, d)
    | None \<Rightarrow> Inr (i, d\<lparr>tags := tags d @ [\<lparr>tgID = i, tgSlug = slug, tgName = name\<rparr>]\<rparr>))"

definition link_tag :: "int \<Rightarrow> int \<Rightarrow> unit op" where
  "link_tag gigID tagID = exec (\<lambda>now d. Inr ((), if (gigID, tagID) \<in> set (gig_tags d) then d
    else d\<lparr>gig_tags := gig_tags d @ [(gigID, tagID)]\<rparr>))"

primrec tag_loop :: "int \<Rightarrow> string list \<Rightarrow> string list \<Rightarrow> unit op" where
  "tag_loop gigID [] seen = ret ()"
| "tag_loop gigID (raw # names) seen =
    (let name = trim_space raw; slug = slugify name in
     if name = [] then tag_loop gigID names seen
     else if slug \<in> set seen then tag_loop gigID names seen
     else call (upsert_tag slug name) fail (\<lambda>tagID. call (link_tag gigID tagID) fail
       (\<lambda>_. tag_loop gigID names (slug # seen))))"

definition SetGigTags :: "int \<Rightarrow> string list \<Rightarrow> unit op" where
  "SetGigTags gigID names = tx (
    call (exec (\<lambda>now d. Inr ((), d\<lparr>gig_tags := filter (\<lambda>r. fst r \<noteq> gigID) (gig_tags d)\<rparr>))) fail
    (\<lambda>_. tag_loop gigID names []))"

section \<open>Search and favorites\<close>

record gig_summary =
  gsID :: int
  gsSlug :: string
  gsTitle :: string
  gsSellerID :: int
  gsSellerName :: string
  gsCategoryName :: string
  gsStartingPriceMinorUnits :: int
  gsCurrency :: string
  gsRatingAvg :: int
  gsRatingCount :: int

record search_params =
  qpQuery :: string
  qpCategorySlug :: string
  qpTagSlug :: string
  qpSellerID :: int
  qpSort :: string
  qpPage :: int
  qpPerPage :: int

text \<open>The joins of the listing: the category and the profile may be missing, the seller is there by
  a foreign key.  The price and the currency are the least of the packages.\<close>

definition starting_price :: "db \<Rightarrow> gig \<Rightarrow> int" where
  "starting_price d g = (let ps = filter (\<lambda>p. gpGigID p = gID g) (gig_packages d) in
     if ps = [] then 0 else Min (set (map gpPriceMinorUnits ps)))"

definition starting_currency :: "db \<Rightarrow> gig \<Rightarrow> string" where
  "starting_currency d g = (case order_text gpCurrency (filter (\<lambda>p. gpGigID p = gID g) (gig_packages d)) of
      [] \<Rightarrow> ''USD'' | p # _ \<Rightarrow> gpCurrency p)"

definition category_of :: "db \<Rightarrow> gig \<Rightarrow> category option" where
  "category_of d g = find (\<lambda>c. gCategoryID g = Some (ctID c)) (categories d)"

definition summary_of :: "db \<Rightarrow> gig \<Rightarrow> gig_summary option" where
  "summary_of d g = (case find (\<lambda>u. uID u = gSellerID g) (users d) of
      None \<Rightarrow> None
    | Some u \<Rightarrow> (let profile = find (\<lambda>p. spUserID p = gSellerID g) (seller_profiles d) in
        Some \<lparr>gsID = gID g, gsSlug = gSlug g, gsTitle = gTitle g, gsSellerID = gSellerID g, gsSellerName = uName u,
          gsCategoryName = (case category_of d g of None \<Rightarrow> [] | Some c \<Rightarrow> ctName c),
          gsStartingPriceMinorUnits = starting_price d g, gsCurrency = starting_currency d g,
          gsRatingAvg = (case profile of None \<Rightarrow> 0 | Some p \<Rightarrow> spRatingAvg p),
          gsRatingCount = (case profile of None \<Rightarrow> 0 | Some p \<Rightarrow> spRatingCount p)\<rparr>))"

text \<open>\<^verbatim>\<open>matches\<close> stands for \<^verbatim>\<open>search_vector @@ plainto_tsquery('english', q)\<close>.\<close>

type_synonym text_search = "string \<Rightarrow> gig \<Rightarrow> bool"

definition search_hit :: "text_search \<Rightarrow> search_params \<Rightarrow> db \<Rightarrow> gig \<Rightarrow> bool" where
  "search_hit matches q d g \<longleftrightarrow> publicly_visible g
    \<and> (trim_space (qpQuery q) = [] \<or> matches (trim_space (qpQuery q)) g)
    \<and> (qpCategorySlug q = [] \<or> map_option ctSlug (category_of d g) = Some (qpCategorySlug q))
    \<and> (qpTagSlug q = [] \<or> (\<exists>t\<in>set (tags d). (gID g, tgID t) \<in> set (gig_tags d) \<and> tgSlug t = qpTagSlug q))
    \<and> (qpSellerID q = 0 \<or> gSellerID g = qpSellerID q)"

text \<open>\<^verbatim>\<open>ORDER BY\<close> the chosen key, then the newest key first.\<close>

definition search_order :: "string \<Rightarrow> db \<Rightarrow> gig list \<Rightarrow> gig list" where
  "search_order ord d rows = sort_key
    (\<lambda>g. if ord = ''price_asc'' then starting_price d g
      else if ord = ''price_desc'' then - starting_price d g else - gCreatedAt g)
    (sort_key (\<lambda>g. - gID g) rows)"

definition search_rows :: "text_search \<Rightarrow> search_params \<Rightarrow> db \<Rightarrow> gig_summary list" where
  "search_rows matches q d =
    List.map_filter (summary_of d) (search_order (qpSort q) d (filter (search_hit matches q d) (gigs d)))"

definition SearchGigs :: "text_search \<Rightarrow> search_params \<Rightarrow> (gig_summary list \<times> int) op" where
  "SearchGigs matches q =
    (let page = (if qpPage q < 1 then 1 else qpPage q);
         perPage = (if qpPerPage q < 1 \<or> qpPerPage q > 100 then 20 else qpPerPage q);
         offset = wrap64 ((page - 1) * perPage) in
     query (\<lambda>now d.
       let all = search_rows matches q d; out = page_of offset perPage all in
       if offset < 0 then Inl ErrFault else Inr (out, if out = [] then 0 else int (length all))))"

definition FeaturedGigs :: "text_search \<Rightarrow> int \<Rightarrow> gig_summary list op" where
  "FeaturedGigs matches limit = call (SearchGigs matches \<lparr>qpQuery = [], qpCategorySlug = [], qpTagSlug = [],
    qpSellerID = 0, qpSort = ''newest'', qpPage = 0, qpPerPage = limit\<rparr>) fail (\<lambda>res. ret (fst res))"

definition is_favorite :: "db \<Rightarrow> int \<Rightarrow> int \<Rightarrow> bool" where
  "is_favorite d userID gigID \<longleftrightarrow> (\<exists>f\<in>set (favorites d). fvUserID f = userID \<and> fvGigID f = gigID)"

definition ToggleFavorite :: "int \<Rightarrow> int \<Rightarrow> bool op" where
  "ToggleFavorite userID gigID = tx (
    call (query (\<lambda>now d. Inr (is_favorite d userID gigID))) fail (\<lambda>found.
    if found then
      call (exec (\<lambda>now d. Inr ((), d\<lparr>favorites :=
        filter (\<lambda>f. \<not> (fvUserID f = userID \<and> fvGigID f = gigID)) (favorites d)\<rparr>))) fail (\<lambda>_. ret False)
    else
      call (exec (\<lambda>now d. if is_favorite d userID gigID then Inl ErrUniqueViolation
        else Inr ((), d\<lparr>favorites := favorites d @
          [\<lparr>fvUserID = userID, fvGigID = gigID, fvCreatedAt = now\<rparr>]\<rparr>))) fail (\<lambda>_. ret True)))"

definition IsFavorite :: "int \<Rightarrow> int \<Rightarrow> bool op" where
  "IsFavorite userID gigID = query (\<lambda>now d. Inr (is_favorite d userID gigID))"

definition ListFavoriteGigs :: "int \<Rightarrow> gig_summary list op" where
  "ListFavoriteGigs userID = query (\<lambda>now d. Inr (List.map_filter
    (\<lambda>f. Option.bind (find (\<lambda>g. gID g = fvGigID f) (gigs d)) (summary_of d))
    (sort_key (\<lambda>f. - fvCreatedAt f) (filter (\<lambda>f. fvUserID f = userID) (favorites d)))))"

section \<open>Sellers\<close>

definition KYCNotStarted :: string where "KYCNotStarted = ''not_started''"
definition KYCPending :: string where "KYCPending = ''pending''"
definition KYCVerified :: string where "KYCVerified = ''verified''"
definition KYCRejected :: string where "KYCRejected = ''rejected''"
definition ModerationPending :: string where "ModerationPending = ''pending''"
definition ModerationRejected :: string where "ModerationRejected = ''rejected''"

definition GetSellerOnboardingByStripeAccount :: "string \<Rightarrow> seller_onboarding op" where
  "GetSellerOnboardingByStripeAccount accountID =
    query (\<lambda>now d. one_row (find (\<lambda>b. obStripeAccountID b = accountID) (seller_onboardings d)))"

definition SetOnboardingState :: "int \<Rightarrow> string \<Rightarrow> unit op" where
  "SetOnboardingState userID state = exec (\<lambda>now d.
    if (\<exists>b\<in>set (seller_onboardings d). obUserID b = userID)
      \<and> state \<notin> {KYCNotStarted, KYCPending, KYCVerified, KYCRejected}
    then Inl (ErrCheckViolation ''seller_onboarding_kyc_state_check'')
    else Inr ((), d\<lparr>seller_onboardings := update_where (\<lambda>b. obUserID b = userID)
      (\<lambda>b. b\<lparr>obKYCState := state, obReviewedAt :=
        (if state \<in> {KYCVerified, KYCRejected} then Some now else obReviewedAt b)\<rparr>) (seller_onboardings d)\<rparr>))"

definition ListPortfolioItems :: "int \<Rightarrow> portfolio_item list op" where
  "ListPortfolioItems userID = query (\<lambda>now d. Inr (sort_key pfPosition (sort_key (\<lambda>p. - pfCreatedAt p)
    (filter (\<lambda>p. pfUserID p = userID) (portfolio_items d)))))"

definition CreatePortfolioItem :: "int \<Rightarrow> string \<Rightarrow> string \<Rightarrow> string \<Rightarrow> int op" where
  "CreatePortfolioItem userID title description mediaPath = insert_row TPortfolio (\<lambda>i now d.
    Inr (i, d\<lparr>portfolio_items := portfolio_items d @ [\<lparr>pfID = i, pfUserID = userID, pfTitle = title,
      pfDescription = description, pfMediaPath = mediaPath, pfModerationState = ModerationApproved,
      pfPosition = 0, pfCreatedAt = now\<rparr>]\<rparr>))"

definition DeletePortfolioItem :: "int \<Rightarrow> int \<Rightarrow> unit op" where
  "DeletePortfolioItem rid userID = exec (\<lambda>now d.
    if \<not> (\<exists>p\<in>set (portfolio_items d). pfID p = rid \<and> pfUserID p = userID) then Inl ErrNotFound
    else Inr ((), d\<lparr>portfolio_items := filter (\<lambda>p. \<not> (pfID p = rid \<and> pfUserID p = userID)) (portfolio_items d)\<rparr>))"

section \<open>What the operations write\<close>

lemma regions_catalog_queries [op_regions]:
  "steps (touches {}) ListCategories" "steps (touches {}) (GetCategoryBySlug sg)" "steps (touches {}) (ListGigsBySeller i)"
  "steps (touches {}) ListTagsWithUsage" "steps (touches {}) (SearchGigs fts q)" "steps (touches {}) (IsFavorite i g)"
  "steps (touches {}) (ListFavoriteGigs i)" "steps (touches {}) (GetSellerOnboardingByStripeAccount sa)"
  "steps (touches {}) (ListPortfolioItems i)"
  by (simp_all add: touches_query ListCategories_def GetCategoryBySlug_def ListGigsBySeller_def ListTagsWithUsage_def
    SearchGigs_def IsFavorite_def ListFavoriteGigs_def GetSellerOnboardingByStripeAccount_def ListPortfolioItems_def Let_def)

lemma regions_catalog_details [op_regions]:
  "steps (touches {}) (GetGigForOwner i j)" "steps (touches {}) (FeaturedGigs fts n)"
  unfolding GetGigForOwner_def FeaturedGigs_def
  by (intro touches_rules regions_catalog regions_catalog_queries)+

lemma regions_catalog_rows [op_regions]:
  "steps (touches {RCatalog}) (CreateCategory sg nm ds ps)" "steps (touches {RCatalog}) (DeleteCategory i)"
  "steps (touches {RCatalog}) (insert_gig sl ci sg ti ds)" "steps (touches {RCatalog}) (SetGigStatus i sl st)"
  "steps (touches {RCatalog}) (clear_packages i)" "steps (touches {RCatalog}) (clear_addons i)"
  "steps (touches {RCatalog}) (insert_gig_package i p)" "steps (touches {RCatalog}) (insert_gig_addon i x)"
  "steps (touches {RCatalog}) (DeleteTag i)" "steps (touches {RCatalog}) (RenameTag i nm)"
  "steps (touches {RCatalog}) (upsert_tag sg nm)" "steps (touches {RCatalog}) (link_tag i j)"
  "steps (touches {RUsers}) (SetOnboardingState i st)"
  "steps (touches {RCatalog}) (CreatePortfolioItem i ti ds mp)" "steps (touches {RCatalog}) (DeletePortfolioItem i j)"
  unfolding CreateCategory_def DeleteCategory_def insert_gig_def SetGigStatus_def clear_packages_def clear_addons_def
    insert_gig_package_def insert_gig_addon_def DeleteTag_def RenameTag_def upsert_tag_def link_tag_def
    SetOnboardingState_def CreatePortfolioItem_def DeletePortfolioItem_def Let_def
  by (intro touches_insert touches_exec; auto split: region_splits)+

lemma regions_slug_attempts:
  "(\<And>c. steps (touches M) (put c)) \<Longrightarrow> steps (touches M) (slug_attempts n k sf put base)"
  by (induction n arbitrary: k) (auto simp: Let_def intro!: touches_rules split: option.splits)

lemma regions_tag_loop: "steps (touches {RCatalog}) (tag_loop i names seen)"
  by (induction names arbitrary: seen) (auto simp: Let_def intro!: touches_rules regions_catalog_rows)

lemma regions_catalog_writes [op_regions]:
  "steps (touches {RCatalog}) (UpdateCategory i nm ds ps)" "steps (touches {RCatalog}) (CreateGig sf sl ci ti ds)"
  "steps (touches {RCatalog}) (UpdateGig i sl ci ti ds)" "steps (touches {RCatalog}) (ReplaceGigPackages i ps')"
  "steps (touches {RCatalog}) (ReplaceGigAddons i as)" "steps (touches {RCatalog}) (AddGigMedia i pt al)"
  "steps (touches {RCatalog}) (SetGigTags i names)" "steps (touches {RCatalog}) (ToggleFavorite u i)"
  unfolding UpdateCategory_def CreateGig_def UpdateGig_def ReplaceGigPackages_def ReplaceGigAddons_def AddGigMedia_def
    SetGigTags_def ToggleFavorite_def
  by (intro touches_rules touches_guarded touches_exec touches_insert regions_slug_attempts regions_tag_loop
      regions_catalog_rows; auto split: region_splits)+

end
