(* ===== verification/StoreAdmin.thy ===== *)
theory StoreAdmin
  imports StoreCatalog
begin

text \<open>
  The queries of the administration console (\<^verbatim>\<open>src/store/admin.go\<close>) and the audit trail they show
  (\<^verbatim>\<open>audit.go\<close>): the moderation queues and decisions, user restrictions, dispute notes, the payment
  search, the retry of dead jobs and the platform settings.
\<close>

section \<open>Pattern matching\<close>

text \<open>\<^verbatim>\<open>ILIKE\<close>: a percent sign matches any text, an underscore one character, a backslash makes
  the next character an ordinary one.\<close>

fun ilike :: "string \<Rightarrow> string \<Rightarrow> bool" where
  "ilike [] s = (s = [])"
| "ilike (p # ps) [] = (p = CHR ''%'' \<and> ilike ps [])"
| "ilike (p # ps) (c # cs) =
    (if p = CHR ''%'' then ilike ps (c # cs) \<or> ilike (p # ps) cs
     else if p = CHR ''_'' then ilike ps cs
     else if p = CHR 0x5C \<and> ps \<noteq> [] then lower_char (hd ps) = lower_char c \<and> ilike (tl ps) cs
     else lower_char p = lower_char c \<and> ilike ps cs)"

text \<open>\<^verbatim>\<open>column ILIKE '%' || q || '%'\<close>.\<close>

definition contains_text :: "string \<Rightarrow> string \<Rightarrow> bool" where
  "contains_text column q = ilike (''%'' @ q @ ''%'') column"

definition admin_limit :: "int \<Rightarrow> int \<Rightarrow> nat" where
  "admin_limit standard lim = nat (if lim < 1 \<or> lim > 200 then standard else lim)"

section \<open>Users\<close>

definition UserDisabled :: string where "UserDisabled = ''disabled''"
definition UserDeleted :: string where "UserDeleted = ''deleted''"

definition ListUsersAdmin :: "string \<Rightarrow> string \<Rightarrow> int \<Rightarrow> user list op" where
  "ListUsersAdmin status search lim = query (\<lambda>now d. Inr (take (admin_limit 50 lim)
    (sort_key (\<lambda>u. - uCreatedAt u) (filter (\<lambda>u. (status = [] \<or> uStatus u = status)
      \<and> (search = [] \<or> contains_text (uEmail u) search \<or> contains_text (uName u) search)) (users d)))))"

definition SetUserStatusAdmin :: "int \<Rightarrow> string \<Rightarrow> string \<Rightarrow> unit op" where
  "SetUserStatusAdmin userID status reason = exec (\<lambda>now d.
    if \<not> (\<exists>u\<in>set (users d). uID u = userID) then Inl ErrNotFound
    else if status \<notin> {UserActive, UserDisabled, UserDeleted} then Inl (ErrCheckViolation ''users_status_check'')
    else Inr ((), d\<lparr>users := update_where (\<lambda>u. uID u = userID)
      (\<lambda>u. u\<lparr>uStatus := status, uRestrictionReason := reason\<rparr>) (users d)\<rparr>))"

section \<open>Moderation\<close>

definition moderation_states :: "string set" where
  "moderation_states = {ModerationPending, ModerationApproved, ModerationRejected}"

definition ListGigsByModeration :: "string \<Rightarrow> int \<Rightarrow> gig list op" where
  "ListGigsByModeration state lim = query (\<lambda>now d. Inr (take (admin_limit 50 lim)
    (sort_key gCreatedAt (filter (\<lambda>g. gModerationState g = state) (gigs d)))))"

definition SetGigModerationStateAdmin :: "int \<Rightarrow> string \<Rightarrow> unit op" where
  "SetGigModerationStateAdmin gigID state = exec (\<lambda>now d.
    if \<not> (\<exists>g\<in>set (gigs d). gID g = gigID) then Inl ErrNotFound
    else if state \<notin> moderation_states then Inl (ErrCheckViolation ''gigs_moderation_check'')
    else Inr ((), d\<lparr>gigs := update_where (\<lambda>g. gID g = gigID)
      (\<lambda>g. g\<lparr>gModerationState := state, gUpdatedAt := now\<rparr>) (gigs d)\<rparr>))"

definition ListGigMediaByModeration :: "string \<Rightarrow> int \<Rightarrow> (gig_medium \<times> string) list op" where
  "ListGigMediaByModeration state lim = query (\<lambda>now d. Inr (take (admin_limit 50 lim) (List.map_filter
    (\<lambda>m. map_option (\<lambda>g. (m, gTitle g)) (find (\<lambda>g. gID g = gmGigID m) (gigs d)))
    (sort_key gmID (filter (\<lambda>m. gmModerationState m = state) (gig_media d))))))"

definition SetGigMediaModerationState :: "int \<Rightarrow> string \<Rightarrow> unit op" where
  "SetGigMediaModerationState mediaID state = exec (\<lambda>now d.
    if \<not> (\<exists>m\<in>set (gig_media d). gmID m = mediaID) then Inl ErrNotFound
    else if state \<notin> moderation_states then Inl (ErrCheckViolation ''gig_media_moderation_check'')
    else Inr ((), d\<lparr>gig_media := update_where (\<lambda>m. gmID m = mediaID) (\<lambda>m. m\<lparr>gmModerationState := state\<rparr>) (gig_media d)\<rparr>))"

definition ListReviewsByModeration :: "string \<Rightarrow> int \<Rightarrow> review list op" where
  "ListReviewsByModeration state lim = query (\<lambda>now d. Inr (take (admin_limit 50 lim)
    (sort_key rvCreatedAt (filter (\<lambda>r. rvModerationState r = state) (reviews d)))))"

definition set_review_state :: "int \<Rightarrow> string \<Rightarrow> int op" where
  "set_review_state reviewID state = exec (\<lambda>now d. case find (\<lambda>r. rvID r = reviewID) (reviews d) of
      None \<Rightarrow> Inl ErrNotFound
    | Some rv \<Rightarrow> if state \<notin> moderation_states then Inl (ErrCheckViolation ''reviews_moderation_check'')
        else Inr (rvSellerID rv, d\<lparr>reviews := update_where (\<lambda>r. rvID r = reviewID)
          (\<lambda>r. r\<lparr>rvModerationState := state\<rparr>) (reviews d)\<rparr>))"

definition SetReviewModerationStateAdmin :: "int \<Rightarrow> string \<Rightarrow> unit op" where
  "SetReviewModerationStateAdmin reviewID state =
    tx (call (set_review_state reviewID state) fail (\<lambda>sellerID. call (recalculate_rating sellerID) fail ret))"

definition HideOrderMessage :: "int \<Rightarrow> int \<Rightarrow> bool \<Rightarrow> unit op" where
  "HideOrderMessage messageID adminID hide =
    guarded_update order_messages (\<lambda>rows d. d\<lparr>order_messages := rows\<rparr>) (\<lambda>m. omID m = messageID)
      (\<lambda>now m. if hide then m\<lparr>omHidden := True, omHiddenBy := Some adminID, omHiddenAt := Some now\<rparr>
        else m\<lparr>omHidden := False, omHiddenBy := None, omHiddenAt := None\<rparr>)"

definition RecentOrderMessages :: "int \<Rightarrow> int \<Rightarrow> (order_message \<times> string) list op" where
  "RecentOrderMessages orderID lim = query (\<lambda>now d. Inr (take (admin_limit 50 lim) (List.map_filter
    (\<lambda>m. map_option (\<lambda>u. (m, uName u)) (find (\<lambda>u. uID u = omSenderID m) (users d)))
    (sort_key (\<lambda>m. - omCreatedAt m) (filter (\<lambda>m. orderID \<le> 0 \<or> omOrderID m = orderID) (order_messages d))))))"

section \<open>Disputes\<close>

definition dispute_status_text :: "dispute_status \<Rightarrow> string" where
  "dispute_status_text st = (case st of DisputeOpen \<Rightarrow> ''open'' | DisputeResolved \<Rightarrow> ''resolved'')"

definition ListDisputesByStatus :: "string \<Rightarrow> int \<Rightarrow> dispute list op" where
  "ListDisputesByStatus status lim = query (\<lambda>now d. Inr (take (admin_limit 50 lim)
    (sort_key dpCreatedAt (filter (\<lambda>p. dispute_status_text (dpStatus p) = status) (disputes d)))))"

definition GetDispute :: "int \<Rightarrow> dispute op" where
  "GetDispute rid = query (\<lambda>now d. one_row (find (\<lambda>p. dpID p = rid) (disputes d)))"

definition SetDisputeInternalNotes :: "int \<Rightarrow> string \<Rightarrow> unit op" where
  "SetDisputeInternalNotes rid notes = guarded_update disputes (\<lambda>rows d. d\<lparr>disputes := rows\<rparr>)
    (\<lambda>p. dpID p = rid) (\<lambda>now p. p\<lparr>dpInternalNotes := notes\<rparr>)"

section \<open>Payments and jobs\<close>

definition SearchPaymentIntents :: "string \<Rightarrow> int \<Rightarrow> payment_intent list op" where
  "SearchPaymentIntents q lim = query (\<lambda>now d. Inr (take (admin_limit 25 lim)
    (sort_key (\<lambda>p. - piCreatedAt p) (filter (\<lambda>p. contains_text (piProviderRef p) q \<or> contains_text (piChargeRef p) q
      \<or> show_int (piID p) = q \<or> show_int (piOrderID p) = q) (payment_intents d)))))"

definition ListPaymentAttempts :: "int \<Rightarrow> payment_attempt list op" where
  "ListPaymentAttempts intentID = query (\<lambda>now d. Inr (filter (\<lambda>a. paIntentID a = intentID) (payment_attempts d)))"

definition ListWebhookEventsForOrder :: "int \<Rightarrow> webhook_event list op" where
  "ListWebhookEventsForOrder orderID = query (\<lambda>now d. Inr (concat (map
    (\<lambda>e. map (\<lambda>p. e) (filter (\<lambda>p. piOrderID p = orderID \<and> piProvider p = whProvider e
      \<and> piProviderRef p = whProviderRef e \<and> whProviderRef e \<noteq> []) (payment_intents d)))
    (sort_key whCreatedAt (webhook_events d)))))"

definition RetryJob :: "int \<Rightarrow> unit op" where
  "RetryJob rid = guarded_update jobs (\<lambda>rows d. d\<lparr>jobs := rows\<rparr>)
    (\<lambda>j. jID j = rid \<and> jStatus j \<in> {JobDead, JobFailed})
    (\<lambda>now j. j\<lparr>jStatus := JobQueued, jAttempts := 0, jLockedBy := None, jLockedAt := None,
      jRunAt := now, jUpdatedAt := now\<rparr>)"

section \<open>Settings and the audit trail\<close>

text \<open>The times of the last changes are not modelled.\<close>

definition GetSetting :: "string \<Rightarrow> string op" where
  "GetSetting key = query (\<lambda>now d. Inr (case map_of (platform_settings d) key of None \<Rightarrow> [] | Some v \<Rightarrow> v))"

definition SetSetting :: "string \<Rightarrow> string \<Rightarrow> unit op" where
  "SetSetting key val = exec (\<lambda>now d. Inr ((), d\<lparr>platform_settings :=
    (if key \<in> fst ` set (platform_settings d)
     then update_where (\<lambda>r. fst r = key) (\<lambda>r. (key, val)) (platform_settings d)
     else platform_settings d @ [(key, val)])\<rparr>))"

definition ListSettings :: "(string \<times> string) list op" where
  "ListSettings = query (\<lambda>now d. Inr (order_text fst (platform_settings d)))"

definition RecentActions :: "int \<Rightarrow> audit_row list op" where
  "RecentActions lim = query (\<lambda>now d.
    Inr (take (nat (if lim < 1 \<or> lim > 500 then 50 else lim)) (rev (audit_log d))))"

section \<open>What the operations write\<close>

lemma regions_admin_queries [op_regions]:
  "steps (touches {}) (ListUsersAdmin st q n)" "steps (touches {}) (ListGigsByModeration st n)"
  "steps (touches {}) (ListGigMediaByModeration st n)" "steps (touches {}) (ListReviewsByModeration st n)"
  "steps (touches {}) (RecentOrderMessages i n)" "steps (touches {}) (ListDisputesByStatus st n)"
  "steps (touches {}) (GetDispute i)" "steps (touches {}) (SearchPaymentIntents q n)"
  "steps (touches {}) (ListPaymentAttempts i)" "steps (touches {}) (ListWebhookEventsForOrder i)"
  "steps (touches {}) (GetSetting k)" "steps (touches {}) ListSettings" "steps (touches {}) (RecentActions n)"
  by (simp_all add: touches_query ListUsersAdmin_def ListGigsByModeration_def ListGigMediaByModeration_def
    ListReviewsByModeration_def RecentOrderMessages_def ListDisputesByStatus_def GetDispute_def SearchPaymentIntents_def
    ListPaymentAttempts_def ListWebhookEventsForOrder_def GetSetting_def ListSettings_def RecentActions_def)

lemma regions_admin_rows [op_regions]:
  "steps (touches {RUsers}) (SetUserStatusAdmin i st rs)" "steps (touches {RCatalog}) (SetGigModerationStateAdmin i st)"
  "steps (touches {RCatalog}) (SetGigMediaModerationState i st)" "steps (touches {RNotices}) (SetSetting k v)"
  "steps (touches {RWork}) (HideOrderMessage i adm b)" "steps (touches {RWork}) (SetDisputeInternalNotes i nt)"
  unfolding SetUserStatusAdmin_def SetGigModerationStateAdmin_def SetGigMediaModerationState_def SetSetting_def
    HideOrderMessage_def SetDisputeInternalNotes_def
  by ((rule touches_guarded | rule touches_exec); auto split: region_splits)+

lemma regions_review_state [op_regions]:
  "steps (touches {RReviews, RUsers}) (SetReviewModerationStateAdmin i st)"
proof -
  have "steps (touches {RReviews, RUsers}) (set_review_state i st)"
    and "steps (touches {RReviews, RUsers}) (recalculate_rating sl)" for sl
    unfolding set_review_state_def recalculate_rating_def
    by (intro touches_exec; auto simp: Let_def split: region_splits)+
  then show ?thesis unfolding SetReviewModerationStateAdmin_def by (intro touches_rules)
qed

lemma regions_retry [op_regions]: "steps (touches {RJobs}) (RetryJob i)"
  unfolding RetryJob_def by (rule touches_guarded) simp

end
