(* ===== verification/Money.thy ===== *)
theory Money
  imports Text
begin

text \<open>
  Amounts as text: the formatters of \<^verbatim>\<open>src/handlers/catalog.go\<close>, the price fields of the gig
  editor (\<^verbatim>\<open>parseMoney\<close> and \<^verbatim>\<open>formatMinorUnitsPlain\<close> in \<^verbatim>\<open>src/handlers/seller.go\<close>) and the
  decimal amounts of the BTCPay API (\<^verbatim>\<open>src/providers/btcpay.go\<close>).  Amounts are \<^verbatim>\<open>int64\<close> minor
  units; every operation that can leave the range is wrapped.
\<close>

section \<open>Displayed amounts\<close>

definition formatMinorUnitsPlain :: "int \<Rightarrow> string" where
  "formatMinorUnitsPlain m = show_int (m sdiv 100) @ ''.'' @ pad_int 2 (m smod 100)"

definition formatMoney :: "int \<Rightarrow> string \<Rightarrow> string" where
  "formatMoney m currency =
    (if currency \<noteq> [] \<and> currency \<noteq> ''USD'' then currency @ '' '' else ''$'')
      @ show_int (m sdiv 100) @ ''.'' @ pad_int 2 (m smod 100)"

definition formatStartingPrice :: "int \<Rightarrow> string \<Rightarrow> string" where
  "formatStartingPrice m currency = (if m \<le> 0 then ''No pricing yet'' else ''From '' @ formatMoney m currency)"

definition pluralS :: "int \<Rightarrow> string" where
  "pluralS n = (if n = 1 then [] else ''s'')"

section \<open>Price fields\<close>

text \<open>The errors are told apart by their text.\<close>

definition parseMoney :: "string \<Rightarrow> string + int" where
  "parseMoney raw0 =
    (let raw = trim_space raw0 in
     if raw = [] then Inl ''amount is required''
     else
       let (whole0, frac0, hasFrac) = str_cut (CHR ''.'') raw;
           whole = (if whole0 = [] then ''0'' else whole0);
           frac1 = (if \<not> hasFrac then ''00'' else frac0);
           frac = (if length frac1 = 0 then ''00''
             else if length frac1 = 1 then frac1 @ ''0'' else take 2 frac1) in
       if \<not> list_all is_digit (whole @ frac) then Inl ''invalid amount''
       else case parse_int 64 whole of
         None \<Rightarrow> Inl ''invalid amount''
       | Some wholeUnits \<Rightarrow> case parse_int 64 frac of
           None \<Rightarrow> Inl ''invalid amount''
         | Some fracUnits \<Rightarrow> Inr (wrap64 (wrap64 (wholeUnits * 100) + fracUnits)))"

section \<open>BTCPay amounts\<close>

definition btcpayAmountString :: "int \<Rightarrow> string" where
  "btcpayAmountString amountMinor =
    (let neg = (if amountMinor < 0 then ''-'' else []);
         m = (if amountMinor < 0 then wrap64 (- amountMinor) else amountMinor) in
     neg @ show_int (m sdiv 100) @ ''.'' @ pad_int 2 (m smod 100))"

definition btcpayAmountToMinor :: "string \<Rightarrow> int option" where
  "btcpayAmountToMinor amount0 =
    (let amount1 = trim_space amount0 in
     if amount1 = [] then Some 0
     else
       let neg = has_prefix amount1 ''-'';
           amount = (if neg then drop 1 amount1 else amount1);
           parts = splitN (CHR ''.'') 2 amount;
           signed = (\<lambda>total. if neg then wrap64 (- total) else total) in
       case parse_int 64 (hd parts) of
         None \<Rightarrow> None
       | Some whole \<Rightarrow>
           if length parts = 2 then
             (let fracStr = take 2 (parts ! 1) in
              case parse_int 64 (fracStr @ zeros (2 - length fracStr)) of
                None \<Rightarrow> None
              | Some frac \<Rightarrow> Some (signed (wrap64 (wrap64 (whole * 100) + frac))))
           else Some (signed (wrap64 (whole * 100))))"

section \<open>Round trips\<close>

lemma cents_split:
  fixes m :: int
  assumes "0 \<le> m"
  shows "m sdiv 100 = m div 100" "m smod 100 = m mod 100"
    "0 \<le> m div 100" "0 \<le> m mod 100" "m mod 100 < 100" "m div 100 * 100 + m mod 100 = m"
  using assms by (simp_all add: signed_divide_int_def signed_modulo_int_def sgn_if)

lemma in_int64_below: "0 \<le> x \<Longrightarrow> x \<le> m \<Longrightarrow> in_int64 m \<Longrightarrow> in_int64 x"
  by (simp add: in_int64_def)

text \<open>The parts of a non-negative amount as both formatters print it.\<close>

lemma cents_text:
  assumes "0 \<le> m"
  shows "show_int (m sdiv 100) @ CHR ''.'' # pad_int 2 (m smod 100)
      = show_nat (nat (m div 100)) @ CHR ''.'' # pad_int 2 (m mod 100)"
    and "length (pad_int 2 (m mod 100)) = 2"
    and "c \<in> set (pad_int 2 (m mod 100)) \<Longrightarrow> is_digit c"
    and "trim_space (show_nat (nat (m div 100)) @ CHR ''.'' # pad_int 2 (m mod 100))
      = show_nat (nat (m div 100)) @ CHR ''.'' # pad_int 2 (m mod 100)"
proof -
  note c = cents_split [OF assms]
  show "show_int (m sdiv 100) @ CHR ''.'' # pad_int 2 (m smod 100)
      = show_nat (nat (m div 100)) @ CHR ''.'' # pad_int 2 (m mod 100)"
    using c by (simp add: show_int_def)
  show "length (pad_int 2 (m mod 100)) = 2"
    using c length_pad_int [of "m mod 100" 1] by (simp add: numeral_2_eq_2)
  show dig: "is_digit c" if "c \<in> set (pad_int 2 (m mod 100))" for c
    using c that pad_int_digits by blast
  have "\<not> is_space (CHR ''.'')" by (simp add: is_space_def)
  with dig show "trim_space (show_nat (nat (m div 100)) @ CHR ''.'' # pad_int 2 (m mod 100))
      = show_nat (nat (m div 100)) @ CHR ''.'' # pad_int 2 (m mod 100)"
    by (intro trim_space_id) (auto dest: show_nat_not_space digit_not_space)
qed

lemma cents_parse:
  assumes "0 \<le> m" "in_int64 m"
  shows "parse_int 64 (show_nat (nat (m div 100))) = Some (m div 100)"
    and "parse_int 64 (pad_int 2 (m mod 100)) = Some (m mod 100)"
    and "wrap64 (wrap64 (m div 100 * 100) + m mod 100) = m"
proof -
  have r: "in_int64 (m div 100)" "in_int64 (m mod 100)" "in_int64 (m div 100 * 100)"
    using assms cents_split [OF assms(1)] by (auto intro!: in_int64_below [OF _ _ assms(2)] zmod_le_nonneg_dividend)
  show "parse_int 64 (show_nat (nat (m div 100))) = Some (m div 100)"
    using r assms show_nat_is_digit by (subst parse_int_digits) (auto simp: parse_digits_show)
  show "parse_int 64 (pad_int 2 (m mod 100)) = Some (m mod 100)"
  proof (subst parse_int_digits)
    show "pad_int 2 (m mod 100) \<noteq> []" using cents_text(2) [OF assms(1)] by auto
    show "is_digit c" if "c \<in> set (pad_int 2 (m mod 100))" for c
      using cents_text(3) [OF assms(1) that] .
    show "(case parse_digits 0 (pad_int 2 (m mod 100)) of None \<Rightarrow> None
        | Some v \<Rightarrow> if in_int64 v then Some v else None) = Some (m mod 100)"
      using r by (simp add: parse_digits_pad)
  qed
  show "wrap64 (wrap64 (m div 100 * 100) + m mod 100) = m"
    using r assms by simp
qed

lemma parseMoney_format:
  assumes "0 \<le> m" "in_int64 m"
  shows "parseMoney (formatMinorUnitsPlain m) = Inr m"
proof -
  let ?w = "show_nat (nat (m div 100))" and ?f = "pad_int 2 (m mod 100)"
  note cen = cents_text [OF assms(1)]
  have "list_all is_digit (show_nat (nat (m div 100)))"
    using show_nat_is_digit by (auto simp: list_all_iff)
  moreover have "list_all is_digit (pad_int 2 (m mod 100))"
    using cents_text(3) [OF assms(1)] by (auto simp: list_all_iff)
  moreover have "trim_space (formatMinorUnitsPlain m) = ?w @ CHR ''.'' # ?f"
    by (simp add: formatMinorUnitsPlain_def cen)
  moreover have "str_cut (CHR ''.'') (?w @ CHR ''.'' # ?f) = (?w, ?f, True)"
    by (intro str_cut_append text_simps)
  moreover from cen(2) have "length ?f = 2" "take 2 ?f = ?f" by simp_all
  ultimately show ?thesis
    unfolding parseMoney_def Let_def by (simp add: cents_parse [OF assms])
qed

lemma not_minus_head: "\<not> has_prefix (show_nat n @ s) ''-''"
  using show_nat_head [of n] by auto

lemma btcpay_nonneg:
  assumes "0 \<le> m" "in_int64 m"
  shows "btcpayAmountToMinor (btcpayAmountString m) = Some m"
    and "m \<noteq> 0 \<Longrightarrow> btcpayAmountToMinor (CHR ''-'' # btcpayAmountString m) = Some (- m)"
proof -
  let ?w = "show_nat (nat (m div 100))" and ?f = "pad_int 2 (m mod 100)"
  let ?t = "?w @ CHR ''.'' # ?f"
  note cen = cents_text [OF assms(1)] and vals = cents_parse [OF assms]
  have t: "btcpayAmountString m = ?t"
    using assms by (simp add: btcpayAmountString_def cen Let_def)
  have sp: "splitN (CHR ''.'') 2 ?t = [?w, ?f]"
    by (simp add: numeral_2_eq_2 text_simps del: splitN.simps(3))
  have fr: "take 2 ?f @ zeros (2 - length (take 2 ?f)) = ?f"
    using cen(2) by (simp add: zeros_def)
  have read: "(case parse_int 64 (hd (splitN (CHR ''.'') 2 ?t)) of None \<Rightarrow> None
      | Some whole \<Rightarrow> if length (splitN (CHR ''.'') 2 ?t) = 2 then
          (case parse_int 64 (take 2 (splitN (CHR ''.'') 2 ?t ! 1)
              @ zeros (2 - length (take 2 (splitN (CHR ''.'') 2 ?t ! 1)))) of None \<Rightarrow> None
           | Some frac \<Rightarrow> Some (g (wrap64 (wrap64 (whole * 100) + frac))))
        else Some (g (wrap64 (whole * 100)))) = Some (g m)" for g :: "int \<Rightarrow> int"
    unfolding sp list.sel nth_Cons_Suc nth_Cons_0 One_nat_def fr vals option.case by simp
  have minus: "has_prefix ?t ''-'' = False" "has_prefix (CHR ''-'' # ?t) ''-'' = True"
    using not_minus_head [of "nat (m div 100)"] by simp_all
  have drop_one: "drop 1 (CHR ''-'' # ?t) = ?t" by simp
  show "btcpayAmountToMinor (btcpayAmountString m) = Some m"
    unfolding t btcpayAmountToMinor_def cen(4) Let_def minus(1) if_False
    using read [of "\<lambda>x. x"] by simp
  have "\<not> is_space (CHR ''.'')" "\<not> is_space (CHR ''-'')" by (simp_all add: is_space_def)
  then have no_sp: "c \<in> set (CHR ''-'' # ?t) \<Longrightarrow> \<not> is_space c" for c
    using cen(3) show_nat_not_space digit_not_space by auto
  have tr: "trim_space (CHR ''-'' # ?t) = CHR ''-'' # ?t"
    by (rule trim_space_id [OF no_sp])
  assume "m \<noteq> 0"
  have "wrap64 (- m) = - m" using assms by (intro wrap64_id) (simp add: in_int64_def)
  then show "btcpayAmountToMinor (CHR ''-'' # btcpayAmountString m) = Some (- m)"
    unfolding t btcpayAmountToMinor_def tr Let_def minus(2) if_True drop_one
    using read [of "\<lambda>x. wrap64 (- x)"] by simp
qed

lemma btcpay_negative:
  assumes "m < 0" "- (2 ^ 63) < m"
  shows "btcpayAmountString m = CHR ''-'' # btcpayAmountString (- m)"
proof -
  have "in_int64 (- m)" using assms by (simp add: in_int64_def)
  with assms show ?thesis by (simp add: btcpayAmountString_def Let_def)
qed

section \<open>Properties\<close>

text \<open>C32: What the gig editor puts back into a price field is read as the same price: for every
  non-negative amount of the 64-bit range, \<^const>\<open>parseMoney\<close> of
  \<^const>\<open>formatMinorUnitsPlain\<close> returns exactly that amount, and the BTCPay amount string of any
  amount other than the least 64-bit integer is read back as that amount, negative ones included.\<close>

theorem amounts_roundtrip:
  assumes "in_int64 m" and "m \<noteq> - (2 ^ 63)"
  shows "(0 \<le> m \<longrightarrow> parseMoney (formatMinorUnitsPlain m) = Inr m)
    \<and> btcpayAmountToMinor (btcpayAmountString m) = Some m"
proof (cases "0 \<le> m")
  case True
  with assms show ?thesis by (simp add: parseMoney_format btcpay_nonneg)
next
  case False
  with assms have "in_int64 (- m)" "0 \<le> - m" "- m \<noteq> 0" by (auto simp: in_int64_def)
  from btcpay_nonneg(2) [OF this(2,1,3)] False assms show ?thesis
    by (auto simp: btcpay_negative in_int64_def)
qed

theorem amounts_roundtrip_witness:
  "parseMoney (formatMinorUnitsPlain 2599) = Inr 2599
    \<and> btcpayAmountToMinor (btcpayAmountString (- 5)) = Some (- 5)"
  using amounts_roundtrip [of 2599] amounts_roundtrip [of "- 5"] by (simp add: in_int64_def)

end
