(* ===== verification/Pagination.thy ===== *)
theory Pagination
  imports Text
begin

text \<open>
  The pagination of listings (\<^verbatim>\<open>src/components/pagination.go\<close>): the last page, the neighbours of
  the current page and the window of page numbers the navigation shows.
\<close>

record Pagination =
  pgCurrent :: int
  pgPerPage :: int
  pgTotal :: int
  pgBaseURL :: string

definition Last :: "Pagination \<Rightarrow> int" where
  "Last p = (let per = (if pgPerPage p < 1 then 1 else pgPerPage p);
       n = (pgTotal p + per - 1) sdiv per in
     if n < 1 then 1 else n)"

definition Prev :: "Pagination \<Rightarrow> int" where
  "Prev p = (if pgCurrent p \<le> 1 then 1 else pgCurrent p - 1)"

definition Next :: "Pagination \<Rightarrow> int" where
  "Next p = (if pgCurrent p \<ge> Last p then Last p else pgCurrent p + 1)"

definition Pages :: "Pagination \<Rightarrow> int list" where
  "Pages p =
    (let last_page = Last p;
         start0 = (if pgCurrent p - 3 < 1 then 1 else pgCurrent p - 3);
         end_page = (if start0 + 6 > last_page then last_page else start0 + 6);
         start1 = (if end_page - start0 < 6 then (if end_page - 6 < 1 then 1 else end_page - 6) else start0);
         start = max 1 start1 in
     [start..end_page])"

definition URLFor :: "Pagination \<Rightarrow> int \<Rightarrow> string" where
  "URLFor p page =
    (if pgBaseURL p = [] then ''#''
     else pgBaseURL p @ (if CHR ''?'' \<in> set (pgBaseURL p) then ''&'' else ''?'') @ ''page='' @ show_int page)"

text \<open>What the navigation is rendered from, or nothing when one page holds everything.\<close>

definition Paginate :: "Pagination \<Rightarrow> Pagination option" where
  "Paginate p = (if pgTotal p \<le> pgPerPage p then None
     else Some (if pgCurrent p < 1 then p\<lparr>pgCurrent := 1\<rparr> else p))"

section \<open>Facts\<close>

lemma Last_bounds:
  assumes "1 \<le> pgPerPage p" "0 \<le> pgTotal p"
  shows "1 \<le> Last p" "pgTotal p \<le> Last p * pgPerPage p" "(Last p - 1) * pgPerPage p < max 1 (pgTotal p)"
proof -
  define k where "k = (pgTotal p + pgPerPage p - 1) div pgPerPage p"
  from assms have sd: "(pgTotal p + pgPerPage p - 1) sdiv pgPerPage p = k"
    by (simp add: signed_divide_int_def sgn_if k_def)
  have eq: "k * pgPerPage p + (pgTotal p + pgPerPage p - 1) mod pgPerPage p = pgTotal p + pgPerPage p - 1"
    unfolding k_def by (rule div_mult_mod_eq)
  have m: "0 \<le> (pgTotal p + pgPerPage p - 1) mod pgPerPage p"
    "(pgTotal p + pgPerPage p - 1) mod pgPerPage p < pgPerPage p" using assms by simp_all
  have L: "Last p = (if k < 1 then 1 else k)" using assms by (simp add: Last_def sd Let_def)
  have kp: "(k - 1) * pgPerPage p = k * pgPerPage p - pgPerPage p" by (simp add: algebra_simps)
  show "1 \<le> Last p" by (simp add: L)
  show "pgTotal p \<le> Last p * pgPerPage p"
  proof (cases "k < 1")
    case True
    then have "k * pgPerPage p \<le> 0" using assms by (simp add: mult_nonpos_nonneg)
    with eq m have "pgTotal p \<le> pgPerPage p" by linarith
    with True L show ?thesis by simp
  qed (use eq m L in simp)
  show "(Last p - 1) * pgPerPage p < max 1 (pgTotal p)"
  proof (cases "k < 1")
    case False
    from eq m kp have "(k - 1) * pgPerPage p < pgTotal p" by linarith
    with False L show ?thesis by simp
  qed (simp add: L)
qed

text \<open>The window is a run of consecutive pages, as many as fit, and holds the current page.\<close>

lemma Pages_shape:
  assumes "1 \<le> Last p"
  obtains lo hi where "Pages p = [lo..hi]" "1 \<le> lo" "hi \<le> Last p" "hi - lo + 1 = min 7 (Last p)"
    "1 \<le> pgCurrent p \<Longrightarrow> pgCurrent p \<le> Last p \<Longrightarrow> lo \<le> pgCurrent p \<and> pgCurrent p \<le> hi"
proof -
  define L where "L = Last p"
  define s0 where "s0 = (if pgCurrent p - 3 < 1 then 1 else pgCurrent p - 3)"
  define e where "e = (if s0 + 6 > L then L else s0 + 6)"
  define s where "s = (if e - s0 < 6 then (if e - 6 < 1 then 1 else e - 6) else s0)"
  have P: "Pages p = [max 1 s..e]" by (simp add: Pages_def Let_def L_def s0_def e_def s_def)
  from assms show ?thesis
    by (intro that [OF P])
      (simp_all add: L_def [symmetric] s_def e_def s0_def max_def min_def split: if_splits)
qed

section \<open>Property\<close>

text \<open>The pages of a listing are its rows cut into pieces of the page size: the last page is the
  first one whose end covers all rows, and for every current page the navigation shows consecutive
  page numbers between the first and the last page, seven of them or all when there are fewer, the
  current page among them when it exists, with \<^const>\<open>Prev\<close> and \<^const>\<open>Next\<close> on existing pages.\<close>

theorem pagination_window:
  assumes "1 \<le> pgPerPage p" "0 \<le> pgTotal p" "1 \<le> pgCurrent p" "pgCurrent p \<le> Last p"
  shows "(Last p - 1) * pgPerPage p < max 1 (pgTotal p) \<and> pgTotal p \<le> Last p * pgPerPage p
    \<and> (\<exists>lo. Pages p = [lo..lo + min 7 (Last p) - 1] \<and> 1 \<le> lo \<and> lo + min 7 (Last p) - 1 \<le> Last p)
    \<and> pgCurrent p \<in> set (Pages p)
    \<and> 1 \<le> Prev p \<and> Prev p \<le> Last p \<and> 1 \<le> Next p \<and> Next p \<le> Last p"
proof -
  note L = Last_bounds [OF assms(1,2)]
  from L(1) obtain lo hi where w: "Pages p = [lo..hi]" "1 \<le> lo" "hi \<le> Last p" "hi - lo + 1 = min 7 (Last p)"
    "lo \<le> pgCurrent p \<and> pgCurrent p \<le> hi" using assms Pages_shape by metis
  then have "hi = lo + min 7 (Last p) - 1" by simp
  with w L assms show ?thesis by (auto simp: Prev_def Next_def)
qed

theorem pagination_window_witness:
  "7 \<in> set (Pages \<lparr>pgCurrent = 7, pgPerPage = 20, pgTotal = 321, pgBaseURL = []\<rparr>)"
  using pagination_window [of "\<lparr>pgCurrent = 7, pgPerPage = 20, pgTotal = 321, pgBaseURL = []\<rparr>"]
  by (simp add: Last_def signed_divide_int_def)

end
