(* ===== verification/HandlersCatalog.thy ===== *)
theory HandlersCatalog
  imports HandlersAuth StoreAdmin Money Pagination
begin

text \<open>
  The public pages (\<^verbatim>\<open>src/handlers/catalog.go\<close>, the health checks and the home page of
  \<^verbatim>\<open>server.go\<close>), the buyer dashboard (\<^verbatim>\<open>buyer.go\<close>) and the notifications
  (\<^verbatim>\<open>notifications.go\<close>).  The data of the search, gig and profile pages is modelled with the pages;
  a rating is shown as its average and count.
\<close>

section \<open>What the pages show\<close>

record gig_card =
  gcSlug :: string
  gcTitle :: string
  gcSellerName :: string
  gcCategoryName :: string
  gcStartingPrice :: string
  gcRating :: "int \<times> int"

definition toGigCards :: "gig_summary list \<Rightarrow> gig_card list" where
  "toGigCards summaries = map (\<lambda>g. \<lparr>gcSlug = gsSlug g, gcTitle = gsTitle g, gcSellerName = gsSellerName g,
     gcCategoryName = gsCategoryName g, gcStartingPrice = formatStartingPrice (gsStartingPriceMinorUnits g) (gsCurrency g),
     gcRating = (gsRatingAvg g, gsRatingCount g)\<rparr>) summaries"

text \<open>Images and portfolio entries are shown once approved: path and text.\<close>

definition toMediaViews :: "gig_medium list \<Rightarrow> (string \<times> string) list" where
  "toMediaViews media = map (\<lambda>m. (gmMediaPath m, gmAltText m)) (filter (\<lambda>m. gmModerationState m = ModerationApproved) media)"

definition toPortfolioViews :: "portfolio_item list \<Rightarrow> (string \<times> string \<times> string) list" where
  "toPortfolioViews items = map (\<lambda>p. (pfTitle p, pfDescription p, pfMediaPath p))
     (filter (\<lambda>p. pfModerationState p = ModerationApproved) items)"

text \<open>Category cards: name, slug and blurb.  Package views: the key, the package and its price as text.\<close>

definition toCategoryCards :: "category list \<Rightarrow> (string \<times> string \<times> string) list" where
  "toCategoryCards cats = map (\<lambda>c. (ctName c, ctSlug c, ctDescription c)) cats"

definition toPackageViews :: "gig_package list \<Rightarrow> (gig_package \<times> string) list" where
  "toPackageViews packages = map (\<lambda>p. (p, formatMoney (gpPriceMinorUnits p) (gpCurrency p))) packages"

definition toAddonViews :: "gig_addon list \<Rightarrow> (gig_addon \<times> string) list" where
  "toAddonViews addons = map (\<lambda>a. (a, formatMoney (gaPriceMinorUnits a) (gaCurrency a))) addons"

definition sellerDisplayName :: "seller_summary \<Rightarrow> string" where
  "sellerDisplayName s = (if ssDisplayName s \<noteq> [] then ssDisplayName s else ssName s)"

section \<open>Search\<close>

definition searchPerPage :: int where "searchPerPage = 20"

text \<open>\<^verbatim>\<open>url.Values.Encode\<close> sorts by key.\<close>

definition searchBaseURL :: "string \<Rightarrow> string \<Rightarrow> string \<Rightarrow> string" where
  "searchBaseURL q categorySlug ord =
    (let v = (if categorySlug \<noteq> [] then [''category='' @ QueryEscape categorySlug] else [])
         @ (if q \<noteq> [] then [''q='' @ QueryEscape q] else [])
         @ (if ord \<noteq> [] \<and> ord \<noteq> ''newest'' then [''sort='' @ QueryEscape ord] else []) in
     case v of [] \<Rightarrow> ''/search'' | x # xs \<Rightarrow> ''/search?'' @ x @ concat (map (\<lambda>y. ''&'' @ y) xs))"

record search_page =
  shQuery :: string
  shCategorySlug :: string
  shCategoryName :: string
  shSort :: string
  shCategories :: "(string \<times> string \<times> string) list"
  shGigs :: "gig_card list"
  shTotal :: int
  shPagination :: "Pagination option"

definition search_data :: "text_search \<Rightarrow> string \<Rightarrow> string \<Rightarrow> string \<Rightarrow> string \<Rightarrow> search_page op" where
  "search_data matches q categorySlug ord pageStr =
    (let page = (let n = parse_int_value pageStr in if n < 1 then 1 else n);
         ord = (if ord \<noteq> ''price_asc'' \<and> ord \<noteq> ''price_desc'' then ''newest'' else ord) in
     call ListCategories fail (\<lambda>cats.
     call (SearchGigs matches \<lparr>qpQuery = q, qpCategorySlug = categorySlug, qpTagSlug = [], qpSellerID = 0,
       qpSort = ord, qpPage = page, qpPerPage = searchPerPage\<rparr>) fail (\<lambda>res.
     ret \<lparr>shQuery = q, shCategorySlug = categorySlug,
       shCategoryName = (case find (\<lambda>c. ctSlug c = categorySlug) (rev cats) of None \<Rightarrow> [] | Some c \<Rightarrow> ctName c),
       shSort = ord, shCategories = toCategoryCards cats, shGigs = toGigCards (fst res), shTotal = snd res,
       shPagination = Paginate \<lparr>pgCurrent = page, pgPerPage = searchPerPage, pgTotal = snd res,
         pgBaseURL = searchBaseURL q categorySlug ord\<rparr>\<rparr>)))"

definition renderSearch :: "text_search \<Rightarrow> request \<Rightarrow> string \<Rightarrow> string \<Rightarrow> string \<Rightarrow> string \<Rightarrow> handler" where
  "renderSearch matches r q categorySlug ord pageStr =
    call (search_data matches q categorySlug ord pageStr) (\<lambda>_. renderError)
    (\<lambda>p. render r 200 (if shCategoryName p \<noteq> [] then shCategoryName p else ''Search gigs''))"

definition search :: "text_search \<Rightarrow> request \<Rightarrow> handler" where
  "search matches r = renderSearch matches r (rqQuery r ''q'') (rqQuery r ''category'') (rqQuery r ''sort'') (rqQuery r ''page'')"

definition browseCategories :: "request \<Rightarrow> handler" where
  "browseCategories r = call ListCategories (\<lambda>_. renderError) (\<lambda>_. render r 200 ''Browse categories'')"

definition browseCategory :: "text_search \<Rightarrow> request \<Rightarrow> handler" where
  "browseCategory matches r = (let slug = rqPath r ''slug'' in
    call (GetCategoryBySlug slug) (\<lambda>e. if e = ErrNotFound then notFound r else renderError)
    (\<lambda>_. renderSearch matches r (rqQuery r ''q'') slug (rqQuery r ''sort'') (rqQuery r ''page'')))"

section \<open>Gigs and sellers\<close>

record gig_page =
  ggSlug :: string
  ggTitle :: string
  ggDescription :: string
  ggCategoryName :: string
  ggTags :: "string list"
  ggMedia :: "(string \<times> string) list"
  ggPackages :: "(gig_package \<times> string) list"
  ggAddons :: "(gig_addon \<times> string) list"
  ggSellerName :: string
  ggSellerID :: int
  ggRating :: "int \<times> int"
  ggFavorited :: bool
  ggCanFavorite :: bool
  ggCanOrder :: bool
  ggCSRF :: string

definition gig_page :: "gig_detail \<Rightarrow> user option \<Rightarrow> bool \<Rightarrow> string \<Rightarrow> gig_page" where
  "gig_page d viewer favorited csrf = (let g = gdGig d in
    \<lparr>ggSlug = gSlug g, ggTitle = gTitle g, ggDescription = gDescription g, ggCategoryName = gdCategoryName d,
      ggTags = gdTags d, ggMedia = toMediaViews (gdMedia d), ggPackages = toPackageViews (gdPackages d),
      ggAddons = toAddonViews (gdAddons d), ggSellerName = sellerDisplayName (gdSeller d), ggSellerID = gSellerID g,
      ggRating = (ssRatingAvg (gdSeller d), ssRatingCount (gdSeller d)), ggFavorited = favorited,
      ggCanFavorite = (viewer \<noteq> None),
      ggCanOrder = (case viewer of None \<Rightarrow> False | Some u \<Rightarrow> uID u \<noteq> gSellerID g), ggCSRF = csrf\<rparr>)"

definition gigDetail :: "config \<Rightarrow> request \<Rightarrow> handler" where
  "gigDetail cfg r0 = call (GetGigBySlug (rqPath r0 ''slug'')) (\<lambda>e. if e = ErrNotFound then notFound r0 else renderError)
    (\<lambda>d. ensureSession cfg r0 (\<lambda>_. renderError) (\<lambda>se r.
      call (case rqUser r of None \<Rightarrow> ret False | Some u \<Rightarrow> IsFavorite (uID u) (gID (gdGig d))) (\<lambda>_. renderError)
      (\<lambda>favorited. render r 200 (ggTitle (gig_page d (rqUser r) favorited (seCSRF se))))))"

definition favoriteToggle :: "user \<Rightarrow> request \<Rightarrow> handler" where
  "favoriteToggle u r = (let slug = rqPath r ''slug'' in
    call (GetGigBySlug slug) (\<lambda>e. if e = ErrNotFound then notFound r else renderError)
    (\<lambda>d. call (ToggleFavorite (uID u) (gID (gdGig d))) (\<lambda>_. renderError) (\<lambda>_. reply (Redirect (''/gigs/'' @ slug)))))"

record seller_page =
  slDisplayName :: string
  slBio :: string
  slLocation :: string
  slRating :: "int \<times> int"
  slPortfolio :: "(string \<times> string \<times> string) list"
  slGigs :: "gig_card list"

definition seller_data :: "text_search \<Rightarrow> int \<Rightarrow> seller_profile \<Rightarrow> seller_page op" where
  "seller_data matches i profile =
    call (ListPortfolioItems i) fail (\<lambda>portfolio.
    call (SearchGigs matches \<lparr>qpQuery = [], qpCategorySlug = [], qpTagSlug = [], qpSellerID = i, qpSort = [],
      qpPage = 0, qpPerPage = 100\<rparr>) fail (\<lambda>res.
    ret \<lparr>slDisplayName = spDisplayName profile, slBio = spBio profile, slLocation = spLocation profile,
      slRating = (spRatingAvg profile, spRatingCount profile), slPortfolio = toPortfolioViews portfolio,
      slGigs = toGigCards (fst res)\<rparr>))"

definition sellerProfile :: "text_search \<Rightarrow> request \<Rightarrow> handler" where
  "sellerProfile matches r = (case path_id r ''id'' of
      None \<Rightarrow> notFound r
    | Some i \<Rightarrow> call (GetSellerProfile i) (\<lambda>e. if e = ErrNotFound then notFound r else renderError)
        (\<lambda>profile. call (seller_data matches i profile) (\<lambda>_. renderError) (\<lambda>p. render r 200 (slDisplayName p))))"

section \<open>Home, dashboard, notifications\<close>

definition healthz :: "request \<Rightarrow> handler" where
  "healthz r = reply (PlainText ''ok'')"

definition readyz :: "request \<Rightarrow> handler" where
  "readyz r = call (query (\<lambda>now d. Inr ())) (\<lambda>_. reply (HttpError 503)) (\<lambda>_. reply (PlainText ''ready''))"

definition home :: "text_search \<Rightarrow> request \<Rightarrow> handler" where
  "home matches r = call ListCategories (\<lambda>_. renderError) (\<lambda>_.
    call (FeaturedGigs matches 6) (\<lambda>_. renderError)
    (\<lambda>_. render r 200 ''Gig Marketplace - Find the right freelancer''))"

definition dashboardRecentOrders :: int where "dashboardRecentOrders = 5"

definition buyerDashboard :: "user \<Rightarrow> request \<Rightarrow> handler" where
  "buyerDashboard u r = call (ListFavoriteGigs (uID u)) (\<lambda>_. renderError) (\<lambda>_.
    call (ListOrdersForBuyer (uID u) 1 dashboardRecentOrders) (\<lambda>_. renderError)
    (\<lambda>_. render r 200 ''Your dashboard''))"

definition notificationsPerPage :: int where "notificationsPerPage = 20"

text \<open>Opening the page marks everything read.\<close>

definition notificationsList :: "user \<Rightarrow> request \<Rightarrow> handler" where
  "notificationsList u r = call (ListNotifications (uID u) (pageParam r) notificationsPerPage) (\<lambda>_. renderError)
    (\<lambda>_. also_do (MarkAllNotificationsRead (uID u)) (render r 200 ''Notifications''))"

end
