(* ===== verification/HandlersSeller.thy ===== *)
theory HandlersSeller
  imports HandlersCatalog
begin

text \<open>
  The seller console (\<^verbatim>\<open>src/handlers/seller.go\<close>): becoming a seller, the dashboard, onboarding,
  profile, portfolio, and the gig editor with its form.  A form error is a pair of a field and a
  message; the page shows them.
\<close>

definition maxGigTitleLen :: nat where "maxGigTitleLen = 140"
definition maxGigDescLen :: nat where "maxGigDescLen = 5000"
definition maxPortfolioLen :: nat where "maxPortfolioLen = 140"

definition gigTiers :: "string list" where "gigTiers = [''basic'', ''standard'', ''premium'']"

section \<open>Becoming a seller\<close>

definition sellStart :: "config \<Rightarrow> user \<Rightarrow> request \<Rightarrow> handler" where
  "sellStart cfg u r = call (AddRole (uID u) RoleSeller) (\<lambda>_. renderError) (\<lambda>_.
    call (EnsureSellerOnboarding (uID u)) (\<lambda>_. renderError) (\<lambda>_.
    case rqSession r of
      None \<Rightarrow> renderError
    | Some se \<Rightarrow> rotate cfg r (seID se) (uID u) (\<lambda>raw newID.
        also_do (user_audit (uID u) ''user.became_seller'') (reply (SignIn ''/sell/profile'' raw)))))"

definition sellDashboard :: "config \<Rightarrow> user \<Rightarrow> request \<Rightarrow> handler" where
  "sellDashboard cfg u r0 =
    call (call (GetSellerOnboarding (uID u))
        (\<lambda>e. if e = ErrNotFound
          then call (EnsureSellerOnboarding (uID u)) fail (\<lambda>_. GetSellerOnboarding (uID u)) else fail e) ret)
      (\<lambda>_. renderError) (\<lambda>onboarding.
    call (ListGigsBySeller (uID u)) (\<lambda>_. renderError) (\<lambda>rows.
    call (ListOrdersForSeller (uID u) 1 dashboardRecentOrders) (\<lambda>_. renderError) (\<lambda>recent.
    ensureSession cfg r0 (\<lambda>_. renderError) (\<lambda>se r.
    call (SellerBalances (uID u)) (\<lambda>_. renderError) (\<lambda>balances.
    render r 200 ''Seller dashboard'')))))"

definition onboardingLabel :: "string \<Rightarrow> string" where
  "onboardingLabel state =
    (if state = KYCPending then ''Submitted for review''
     else if state = KYCVerified then ''Verified''
     else if state = KYCRejected then ''Not approved'' else ''Not started'')"

definition sellOnboardingSubmit :: "user \<Rightarrow> request \<Rightarrow> handler" where
  "sellOnboardingSubmit u r = call (SetOnboardingState (uID u) KYCPending) (\<lambda>_. renderError)
    (\<lambda>_. also_do (user_audit (uID u) ''seller.onboarding_submitted'') (reply (Redirect ''/sell'')))"

section \<open>Profile and portfolio\<close>

definition sellProfileForm :: "config \<Rightarrow> user \<Rightarrow> request \<Rightarrow> handler" where
  "sellProfileForm cfg u r0 = call (maybe (GetSellerProfile (uID u))) (\<lambda>_. renderError) (\<lambda>profile.
    ensureSession cfg r0 (\<lambda>_. renderError) (\<lambda>se r. render r 200 ''Seller profile''))"

definition display_name_errors :: "string \<Rightarrow> (string \<times> string) list" where
  "display_name_errors displayName =
    (if displayName = [] then [(''display_name'', ''Please enter a display name.'')]
     else if length displayName > maxNameLen then [(''display_name'', ''Display name must be at most 100 characters.'')]
     else [])"

definition sellProfileUpdate :: "config \<Rightarrow> user \<Rightarrow> request \<Rightarrow> handler" where
  "sellProfileUpdate cfg u r0 =
    (if \<not> rqParseForm r0 then renderError
     else let displayName = trim_space (rqForm r0 ''display_name''); bio = trim_space (rqForm r0 ''bio'');
         location = trim_space (rqForm r0 ''location'') in
     if display_name_errors displayName \<noteq> []
     then ensureSession cfg r0 (\<lambda>_. renderError) (\<lambda>se r. render r 422 ''Seller profile'')
     else call (UpsertSellerProfile (uID u) displayName bio location) (\<lambda>_. renderError) (\<lambda>_.
       call (EnsureSellerOnboarding (uID u)) (\<lambda>_. renderError) (\<lambda>_.
       also_do (user_audit (uID u) ''seller.profile_updated'') (reply (Redirect ''/sell'')))))"

definition sellPortfolioForm :: "config \<Rightarrow> user \<Rightarrow> request \<Rightarrow> handler" where
  "sellPortfolioForm cfg u r0 = call (ListPortfolioItems (uID u)) (\<lambda>_. renderError) (\<lambda>items.
    ensureSession cfg r0 (\<lambda>_. renderError) (\<lambda>se r. render r 200 ''Portfolio''))"

definition portfolioFormError :: "config \<Rightarrow> user \<Rightarrow> request \<Rightarrow> handler" where
  "portfolioFormError cfg u r0 = call (ListPortfolioItems (uID u)) (\<lambda>_. renderError) (\<lambda>items.
    ensureSession cfg r0 (\<lambda>_. renderError) (\<lambda>se r. render r 422 ''Portfolio''))"

definition uploadErrorMessage :: "upload_error \<Rightarrow> string" where
  "uploadErrorMessage e = (case e of
      UnsupportedMediaType \<Rightarrow> ''That file type is not supported. Use JPEG, PNG, GIF, or WebP.''
    | FileTooLarge \<Rightarrow> ''That file is too large.''
    | _ \<Rightarrow> ''That upload could not be saved.'')"

definition sellPortfolioCreate :: "config \<Rightarrow> user \<Rightarrow> request \<Rightarrow> handler" where
  "sellPortfolioCreate cfg u r =
    (if \<not> rqParseMultipart r then portfolioFormError cfg u r
     else let title = trim_space (rqForm r ''title''); description = trim_space (rqForm r ''description'') in
     case rqFile r ''image'' of
       NoFile \<Rightarrow> portfolioFormError cfg u r
     | file \<Rightarrow> if title = [] \<or> length title > maxPortfolioLen then portfolioFormError cfg u r
         else (case file of
             StoredFile path name \<Rightarrow> call (CreatePortfolioItem (uID u) title description path) (\<lambda>_. renderError)
               (\<lambda>_. also_do (user_audit (uID u) ''seller.portfolio_added'') (reply (Redirect ''/sell/portfolio'')))
           | _ \<Rightarrow> portfolioFormError cfg u r))"

section \<open>The gig form\<close>

record gig_form =
  gfTitle :: string
  gfDescription :: string
  gfCategoryID :: "int option"
  gfTags :: "string list"
  gfPackages :: "gig_package list"
  gfAddons :: "gig_addon list"

definition gig_text_errors :: "string \<Rightarrow> string \<Rightarrow> (string \<times> string) list" where
  "gig_text_errors title description =
    (if title = [] then [(''title'', ''Please enter a title.'')]
     else if length title > maxGigTitleLen then [(''title'', ''Title must be at most 140 characters.'')] else [])
    @ (if description = [] then [(''description'', ''Please describe what you offer.'')]
     else if length description > maxGigDescLen then [(''description'', ''Description must be at most 5000 characters.'')]
     else [])"

text \<open>One package row of the form: nothing when its name is blank, a message, or the package.\<close>

definition parse_package :: "request \<Rightarrow> nat \<times> string \<Rightarrow> (string + gig_package) option" where
  "parse_package r x = (let i = show_nat (fst x); name = trim_space (rqForm r (''pkg_name_'' @ i)) in
    if name = [] then None
    else Some (case parseMoney (rqForm r (''pkg_price_'' @ i)) of
        Inl _ \<Rightarrow> Inl ''Each package needs a price greater than zero.''
      | Inr price \<Rightarrow> if price \<le> 0 then Inl ''Each package needs a price greater than zero.''
          else (case parse_int 64 (trim_space (rqForm r (''pkg_delivery_'' @ i))) of
              None \<Rightarrow> Inl ''Each package needs a delivery time of at least one day.''
            | Some delivery \<Rightarrow> if delivery < 1 then Inl ''Each package needs a delivery time of at least one day.''
                else Inr \<lparr>gpID = 0, gpGigID = 0, gpTier = snd x, gpName = name,
                  gpDescription = trim_space (rqForm r (''pkg_description_'' @ i)), gpPriceMinorUnits = price,
                  gpCurrency = ''USD'', gpDeliveryDays = delivery,
                  gpRevisions = max 0 (parse_int_value (trim_space (rqForm r (''pkg_revisions_'' @ i))))\<rparr>)))"

definition parse_addon :: "request \<Rightarrow> nat \<Rightarrow> (string + gig_addon) option" where
  "parse_addon r k = (let i = show_nat k; name = trim_space (rqForm r (''addon_name_'' @ i)) in
    if name = [] then None
    else Some (case parseMoney (rqForm r (''addon_price_'' @ i)) of
        Inl _ \<Rightarrow> Inl ''Each add-on needs a price greater than zero.''
      | Inr price \<Rightarrow> if price \<le> 0 then Inl ''Each add-on needs a price greater than zero.''
          else Inr \<lparr>gaID = 0, gaGigID = 0, gaName = name,
            gaDescription = trim_space (rqForm r (''addon_description_'' @ i)), gaPriceMinorUnits = price,
            gaCurrency = ''USD'',
            gaDeliveryDaysImpact = max 0 (parse_int_value (trim_space (rqForm r (''addon_delivery_'' @ i)))),
            gaPosition = 0\<rparr>))"

text \<open>The accepted rows and the message of the last rejected one.\<close>

definition row_values :: "(string + 'a) option list \<Rightarrow> 'a list" where
  "row_values rows = List.map_filter (\<lambda>x. case x of Some (Inr v) \<Rightarrow> Some v | _ \<Rightarrow> None) rows"

definition row_errors :: "string \<Rightarrow> (string + 'a) option list \<Rightarrow> (string \<times> string) list" where
  "row_errors field rows =
    (case List.map_filter (\<lambda>x. case x of Some (Inl m) \<Rightarrow> Some m | _ \<Rightarrow> None) (rev rows) of
       [] \<Rightarrow> [] | m # _ \<Rightarrow> [(field, m)])"

definition parseGigForm :: "request \<Rightarrow> gig_form \<times> (string \<times> string) list" where
  "parseGigForm r =
    (let title = trim_space (rqForm r ''title''); description = trim_space (rqForm r ''description'');
         category_field = trim_space (rqForm r ''category_id''); tag_field = trim_space (rqForm r ''tags'');
         package_rows = map (parse_package r) (zip [0..<3] gigTiers);
         addon_rows = map (parse_addon r) [0..<3];
         package_errors = row_errors ''packages'' package_rows in
     (\<lparr>gfTitle = title, gfDescription = description,
        gfCategoryID = (if category_field = [] then None else parse_int 64 category_field),
        gfTags = (if tag_field = [] then [] else split_all (CHR '','') tag_field),
        gfPackages = row_values package_rows, gfAddons = row_values addon_rows\<rparr>,
      gig_text_errors title description
      @ (if row_values package_rows = [] \<and> package_errors = [] then [(''packages'', ''Add at least one package.'')]
         else package_errors)
      @ row_errors ''addons'' addon_rows))"

definition gigFormError :: "config \<Rightarrow> request \<Rightarrow> bool \<Rightarrow> handler" where
  "gigFormError cfg r0 editing = ensureSession cfg r0 (\<lambda>_. renderError) (\<lambda>se r.
    call ListCategories (\<lambda>_. renderError) (\<lambda>cats.
    render r 422 (if editing then ''Edit gig'' else ''Create a gig'')))"

section \<open>The gig editor\<close>

definition gig_audit :: "user \<Rightarrow> string \<Rightarrow> int \<Rightarrow> unit op" where
  "gig_audit u action gigID = audit (Some (uID u)) action ''gig'' (show_int gigID)"

definition gig_edit_url :: "int \<Rightarrow> string" where
  "gig_edit_url gigID = ''/sell/gigs/'' @ show_int gigID @ ''/edit''"

definition sellGigNew :: "config \<Rightarrow> request \<Rightarrow> handler" where
  "sellGigNew cfg r0 = ensureSession cfg r0 (\<lambda>_. renderError) (\<lambda>se r.
    call ListCategories (\<lambda>_. renderError) (\<lambda>cats. render r 200 ''Create a gig''))"

text \<open>The steps after the gig row, shared by creation and update: three transactions.\<close>

definition store_gig_parts :: "user \<Rightarrow> gig_form \<Rightarrow> string \<Rightarrow> int \<Rightarrow> handler" where
  "store_gig_parts u form action gigID =
    call (ReplaceGigPackages gigID (gfPackages form)) (\<lambda>_. renderError) (\<lambda>_.
    call (ReplaceGigAddons gigID (gfAddons form)) (\<lambda>_. renderError) (\<lambda>_.
    call (SetGigTags gigID (gfTags form)) (\<lambda>_. renderError) (\<lambda>_.
    also_do (gig_audit u action gigID) (reply (Redirect (gig_edit_url gigID))))))"

definition sellGigCreate :: "config \<Rightarrow> user \<Rightarrow> request \<Rightarrow> handler" where
  "sellGigCreate cfg u r =
    (if \<not> rqParseForm r then renderError
     else let form = fst (parseGigForm r) in
     if snd (parseGigForm r) \<noteq> [] then gigFormError cfg r False
     else call (CreateGig (rqSlugBytes r) (uID u) (gfCategoryID form) (gfTitle form) (gfDescription form))
       (\<lambda>_. renderError) (\<lambda>g. store_gig_parts u form ''gig.created'' (gID g)))"

definition loadOwnedGig :: "user \<Rightarrow> request \<Rightarrow> int \<Rightarrow> (gig_detail \<Rightarrow> handler) \<Rightarrow> handler" where
  "loadOwnedGig u r gigID k =
    call (GetGigForOwner gigID (uID u)) (\<lambda>e. if e = ErrNotFound then notFound r else renderError) k"

definition sellGigEdit :: "config \<Rightarrow> user \<Rightarrow> request \<Rightarrow> handler" where
  "sellGigEdit cfg u r0 = (case path_id r0 ''id'' of
      None \<Rightarrow> notFound r0
    | Some gigID \<Rightarrow> loadOwnedGig u r0 gigID (\<lambda>d.
        ensureSession cfg r0 (\<lambda>_. renderError) (\<lambda>se r.
        call ListCategories (\<lambda>_. renderError) (\<lambda>cats. render r 200 ''Edit gig''))))"

definition sellGigUpdate :: "config \<Rightarrow> user \<Rightarrow> request \<Rightarrow> handler" where
  "sellGigUpdate cfg u r = (case path_id r ''id'' of
      None \<Rightarrow> notFound r
    | Some gigID \<Rightarrow> loadOwnedGig u r gigID (\<lambda>d.
        if \<not> rqParseForm r then renderError
        else let form = fst (parseGigForm r) in
        if snd (parseGigForm r) \<noteq> [] then gigFormError cfg r True
        else call (UpdateGig gigID (uID u) (gfCategoryID form) (gfTitle form) (gfDescription form))
          (\<lambda>_. renderError) (\<lambda>_. store_gig_parts u form ''gig.updated'' gigID)))"

definition sellGigStatus :: "user \<Rightarrow> request \<Rightarrow> handler" where
  "sellGigStatus u r = (case path_id r ''id'' of
      None \<Rightarrow> notFound r
    | Some gigID \<Rightarrow>
      if \<not> rqParseForm r then renderError
      else let status = rqForm r ''status'' in
      if status \<notin> {GigActive, GigPaused, GigArchived} then reply (HttpError 422)
      else loadOwnedGig u r gigID (\<lambda>d.
        if status = GigActive \<and> gdPackages d = []
        then flash_redirect r ''Add at least one package before publishing.'' (gig_edit_url gigID)
        else call (SetGigStatus gigID (uID u) status) (\<lambda>_. renderError)
          (\<lambda>_. also_do (gig_audit u ''gig.status_changed'' gigID) (reply (Redirect ''/sell'')))))"

definition sellGigMedia :: "user \<Rightarrow> request \<Rightarrow> handler" where
  "sellGigMedia u r = (case path_id r ''id'' of
      None \<Rightarrow> notFound r
    | Some gigID \<Rightarrow> loadOwnedGig u r gigID (\<lambda>d.
        if \<not> rqParseMultipart r then reply (Redirect (gig_edit_url gigID))
        else case rqFile r ''image'' of
          NoFile \<Rightarrow> reply (Redirect (gig_edit_url gigID))
        | BadFile e \<Rightarrow> flash_redirect r (uploadErrorMessage e) (gig_edit_url gigID)
        | StoredFile path name \<Rightarrow> call (AddGigMedia gigID path (gTitle (gdGig d))) (\<lambda>_. renderError)
            (\<lambda>_. also_do (gig_audit u ''gig.media_added'' gigID) (reply (Redirect (gig_edit_url gigID))))))"

end
