(* ===== verification/HandlersAdmin.thy ===== *)
theory HandlersAdmin
  imports HandlersSeller
begin

text \<open>
  The administration console (\<^verbatim>\<open>src/handlers/admin.go\<close>): users, moderation, disputes, payment
  search and job retry, settings, categories and tags, the audit log and the manual ledger
  adjustment.  The routes demand the administrator role before these handlers run.
\<close>

definition admin_page :: "'a op \<Rightarrow> request \<Rightarrow> string \<Rightarrow> handler" where
  "admin_page m r title = call m (\<lambda>_. renderError) (\<lambda>_. render r 200 title)"

definition notice_redirect :: "request \<Rightarrow> string \<Rightarrow> string \<Rightarrow> handler" where
  "notice_redirect r message url = also_do (flashNotice r message) (reply (Redirect url))"

definition admin_audit :: "user \<Rightarrow> string \<Rightarrow> string \<Rightarrow> int \<Rightarrow> unit op" where
  "admin_audit admin action entity i = audit (Some (uID admin)) action entity (show_int i)"

definition queryOr :: "request \<Rightarrow> string \<Rightarrow> string \<Rightarrow> string" where
  "queryOr r key standard = (if rqQuery r key \<noteq> [] then rqQuery r key else standard)"

definition moderationDecision :: "request \<Rightarrow> string option" where
  "moderationDecision r =
    (if \<not> rqParseForm r then None
     else if rqForm r ''decision'' = ''approve'' then Some ModerationApproved
     else if rqForm r ''decision'' = ''reject'' then Some ModerationRejected else None)"

definition parseOptionalID :: "string \<Rightarrow> int option" where
  "parseOptionalID v = (if trim_space v = [] then None else parse_int 64 (trim_space v))"

section \<open>Users\<close>

definition adminHome :: "request \<Rightarrow> handler" where
  "adminHome r = render r 200 ''Admin console''"

definition adminUsers :: "request \<Rightarrow> handler" where
  "adminUsers r = admin_page (ListUsersAdmin (rqQuery r ''status'') (trim_space (rqQuery r ''q'')) 100) r ''Admin - users''"

definition adminUserStatus :: "user \<Rightarrow> request \<Rightarrow> handler" where
  "adminUserStatus admin r = (case path_id r ''id'' of
      None \<Rightarrow> notFound r
    | Some i \<Rightarrow>
      if \<not> rqParseForm r then renderError
      else let status = rqForm r ''status''; reason = trim_space (rqForm r ''reason'') in
      if status \<noteq> UserActive \<and> status \<noteq> UserDisabled then flash_redirect r ''Invalid status.'' ''/admin/users''
      else if status = UserDisabled \<and> reason = []
      then flash_redirect r ''A reason is required to suspend a user.'' ''/admin/users''
      else call (SetUserStatusAdmin i status reason) (\<lambda>_. renderError)
        (\<lambda>_. also_do (admin_audit admin ''user.status_changed'' ''user'' i)
          (notice_redirect r ''User status updated.'' ''/admin/users'')))"

definition adminUsersExport :: "user \<Rightarrow> request \<Rightarrow> handler" where
  "adminUsersExport admin r = call (ListUsersAdmin [] [] 5000) (\<lambda>_. renderError)
    (\<lambda>us. also_do (audit (Some (uID admin)) ''admin.export_csv'' ''users'' [])
      (reply (CSVFile ([CSVText ''id'', CSVText ''name'', CSVText ''email'', CSVText ''status'', CSVText ''created_at'']
        # map (\<lambda>u. [CSVText (show_int (uID u)), CSVText (uName u), CSVText (uEmail u), CSVText (uStatus u),
            CSVTime (uCreatedAt u)]) us))))"

section \<open>Moderation\<close>

definition adminModerationGigs :: "request \<Rightarrow> handler" where
  "adminModerationGigs r =
    admin_page (ListGigsByModeration (queryOr r ''state'' ''pending'') 100) r ''Admin - gig moderation''"

definition decide :: "(int \<Rightarrow> string \<Rightarrow> unit op) \<Rightarrow> string \<Rightarrow> string \<Rightarrow> string \<Rightarrow> string \<Rightarrow> user \<Rightarrow> request \<Rightarrow> handler" where
  "decide set_state action entity notice url admin r = (case path_id r ''id'' of
      None \<Rightarrow> notFound r
    | Some i \<Rightarrow> (case moderationDecision r of
        None \<Rightarrow> flash_redirect r ''Invalid decision.'' url
      | Some state \<Rightarrow> call (set_state i state) (\<lambda>_. renderError)
          (\<lambda>_. also_do (admin_audit admin action entity i) (notice_redirect r notice url))))"

definition adminModerationGigDecide :: "user \<Rightarrow> request \<Rightarrow> handler" where
  "adminModerationGigDecide = decide SetGigModerationStateAdmin ''gig.moderation_decided'' ''gig''
    ''Gig moderation updated.'' ''/admin/moderation/gigs''"

definition adminModerationMedia :: "request \<Rightarrow> handler" where
  "adminModerationMedia r =
    admin_page (ListGigMediaByModeration (queryOr r ''state'' ''pending'') 100) r ''Admin - media moderation''"

definition adminModerationMediaDecide :: "user \<Rightarrow> request \<Rightarrow> handler" where
  "adminModerationMediaDecide = decide SetGigMediaModerationState ''gig_media.moderation_decided'' ''gig_media''
    ''Media moderation updated.'' ''/admin/moderation/media''"

definition adminModerationReviews :: "request \<Rightarrow> handler" where
  "adminModerationReviews r =
    admin_page (ListReviewsByModeration (queryOr r ''state'' ''pending'') 100) r ''Admin - review moderation''"

definition adminModerationReviewDecide :: "user \<Rightarrow> request \<Rightarrow> handler" where
  "adminModerationReviewDecide = decide SetReviewModerationStateAdmin ''review.moderation_decided'' ''review''
    ''Review moderation updated.'' ''/admin/moderation/reviews''"

definition adminModerationMessages :: "request \<Rightarrow> handler" where
  "adminModerationMessages r =
    admin_page (RecentOrderMessages (parse_int_value (rqQuery r ''order_id'')) 100) r ''Admin - message moderation''"

definition adminModerationMessageHide :: "user \<Rightarrow> request \<Rightarrow> handler" where
  "adminModerationMessageHide admin r = (case path_id r ''id'' of
      None \<Rightarrow> notFound r
    | Some i \<Rightarrow> call (HideOrderMessage i (uID admin) True) (\<lambda>_. renderError)
        (\<lambda>_. also_do (admin_audit admin ''order_message.hidden'' ''order_message'' i)
          (notice_redirect r ''Message hidden.'' ''/admin/moderation/messages'')))"

section \<open>Disputes\<close>

definition adminDisputes :: "request \<Rightarrow> handler" where
  "adminDisputes r = admin_page (ListDisputesByStatus (queryOr r ''status'' ''open'') 100) r ''Admin - disputes''"

definition adminDisputeDetail :: "request \<Rightarrow> handler" where
  "adminDisputeDetail r = (case path_id r ''id'' of
      None \<Rightarrow> notFound r
    | Some i \<Rightarrow> call (GetDispute i) (\<lambda>e. if e = ErrNotFound then notFound r else renderError)
        (\<lambda>p. call (ListOrderAttachments (dpOrderID p) AttachmentDispute) (\<lambda>_. renderError)
        (\<lambda>evidence. render r 200 (''Admin - dispute #'' @ show_int (dpID p)))))"

definition adminDisputeNotes :: "user \<Rightarrow> request \<Rightarrow> handler" where
  "adminDisputeNotes admin r = (case path_id r ''id'' of
      None \<Rightarrow> notFound r
    | Some i \<Rightarrow>
      if \<not> rqParseForm r then renderError
      else call (SetDisputeInternalNotes i (trim_space (rqForm r ''notes''))) (\<lambda>_. renderError)
        (\<lambda>_. also_do (admin_audit admin ''dispute.internal_notes_updated'' ''dispute'' i)
          (notice_redirect r ''Notes saved.'' (''/admin/disputes/'' @ show_int i))))"

section \<open>Payments and jobs\<close>

definition adminPaymentSearch :: "request \<Rightarrow> handler" where
  "adminPaymentSearch r = (let q = trim_space (rqQuery r ''q'') in
    admin_page (if q \<noteq> [] then SearchPaymentIntents q 25 else ret []) r ''Admin - payment search'')"

definition adminOrderTimeline :: "request \<Rightarrow> handler" where
  "adminOrderTimeline r = (case path_id r ''id'' of
      None \<Rightarrow> notFound r
    | Some orderID \<Rightarrow> call (LatestPaymentIntentForOrder orderID)
        (\<lambda>e. if e = ErrNotFound then render r 200 ''Admin - order timeline'' else renderError)
        (\<lambda>intent. call (ListPaymentAttempts (piID intent)) (\<lambda>_. renderError)
          (\<lambda>attempts. also_do (ListWebhookEventsForOrder orderID) (render r 200 ''Admin - order timeline''))))"

definition adminJobRetry :: "user \<Rightarrow> request \<Rightarrow> handler" where
  "adminJobRetry admin r = (case path_id r ''id'' of
      None \<Rightarrow> notFound r
    | Some i \<Rightarrow> call (RetryJob i) (\<lambda>_. renderError)
        (\<lambda>_. also_do (admin_audit admin ''job.retried'' ''job'' i)
          (notice_redirect r ''Job re-queued.'' ''/admin/payments'')))"

section \<open>Settings, categories and tags\<close>

definition adminSettings :: "request \<Rightarrow> handler" where
  "adminSettings r = admin_page ListSettings r ''Admin - settings''"

definition adminSettingsUpdate :: "user \<Rightarrow> request \<Rightarrow> handler" where
  "adminSettingsUpdate admin r =
    (if \<not> rqParseForm r then renderError
     else let key = trim_space (rqForm r ''key'') in
     if key = [] then flash_redirect r ''A setting key is required.'' ''/admin/settings''
     else call (SetSetting key (rqForm r ''value'')) (\<lambda>_. renderError)
       (\<lambda>_. also_do (audit (Some (uID admin)) ''settings.updated'' ''platform_settings'' key)
         (notice_redirect r ''Setting saved.'' ''/admin/settings'')))"

definition adminCategories :: "request \<Rightarrow> handler" where
  "adminCategories r = call ListCategories (\<lambda>_. renderError)
    (\<lambda>cats. admin_page ListTagsWithUsage r ''Admin - categories and tags'')"

definition categories_url :: string where "categories_url = ''/admin/categories''"

definition adminCategoryCreate :: "user \<Rightarrow> request \<Rightarrow> handler" where
  "adminCategoryCreate admin r =
    (if \<not> rqParseForm r then renderError
     else let slug = trim_space (rqForm r ''slug''); name = trim_space (rqForm r ''name'') in
     if slug = [] \<or> name = [] then flash_redirect r ''A slug and name are required.'' categories_url
     else call (CreateCategory slug name (trim_space (rqForm r ''description'')) (parse_int_value (rqForm r ''position'')))
       (\<lambda>_. flash_redirect r ''Could not create category (slug may already be in use).'' categories_url)
       (\<lambda>i. also_do (admin_audit admin ''category.created'' ''category'' i)
         (notice_redirect r ''Category added.'' categories_url)))"

definition adminCategoryUpdate :: "user \<Rightarrow> request \<Rightarrow> handler" where
  "adminCategoryUpdate admin r = (case path_id r ''id'' of
      None \<Rightarrow> notFound r
    | Some i \<Rightarrow>
      if \<not> rqParseForm r then renderError
      else let name = trim_space (rqForm r ''name'') in
      if name = [] then flash_redirect r ''A name is required.'' categories_url
      else call (UpdateCategory i name (trim_space (rqForm r ''description'')) (parse_int_value (rqForm r ''position'')))
        (\<lambda>e. if e = ErrNotFound then notFound r else renderError)
        (\<lambda>_. also_do (admin_audit admin ''category.updated'' ''category'' i)
          (notice_redirect r ''Category updated.'' categories_url)))"

definition adminCategoryDelete :: "user \<Rightarrow> request \<Rightarrow> handler" where
  "adminCategoryDelete admin r = (case path_id r ''id'' of
      None \<Rightarrow> notFound r
    | Some i \<Rightarrow> call (DeleteCategory i) (\<lambda>e. if e = ErrNotFound then notFound r else renderError)
        (\<lambda>_. also_do (admin_audit admin ''category.deleted'' ''category'' i)
          (notice_redirect r ''Category deleted.'' categories_url)))"

definition adminTagRename :: "user \<Rightarrow> request \<Rightarrow> handler" where
  "adminTagRename admin r = (case path_id r ''id'' of
      None \<Rightarrow> notFound r
    | Some i \<Rightarrow>
      if \<not> rqParseForm r then renderError
      else let name = trim_space (rqForm r ''name'') in
      if name = [] then flash_redirect r ''A name is required.'' categories_url
      else call (RenameTag i name)
        (\<lambda>e. if e = ErrNotFound then notFound r
          else flash_redirect r ''Could not rename tag (the new name may collide with an existing tag).'' categories_url)
        (\<lambda>_. also_do (admin_audit admin ''tag.renamed'' ''tag'' i) (notice_redirect r ''Tag renamed.'' categories_url)))"

definition adminTagDelete :: "user \<Rightarrow> request \<Rightarrow> handler" where
  "adminTagDelete admin r = (case path_id r ''id'' of
      None \<Rightarrow> notFound r
    | Some i \<Rightarrow> call (DeleteTag i) (\<lambda>e. if e = ErrNotFound then notFound r else renderError)
        (\<lambda>_. also_do (admin_audit admin ''tag.deleted'' ''tag'' i) (notice_redirect r ''Tag deleted.'' categories_url)))"

section \<open>The audit log\<close>

definition adminAuditLog :: "request \<Rightarrow> handler" where
  "adminAuditLog r = admin_page (RecentActions 200) r ''Admin - audit log''"

definition adminAuditExport :: "user \<Rightarrow> request \<Rightarrow> handler" where
  "adminAuditExport admin r = call (RecentActions 500) (\<lambda>_. renderError)
    (\<lambda>logs. also_do (audit (Some (uID admin)) ''admin.export_csv'' ''audit_log'' [])
      (reply (CSVFile ([CSVText ''created_at'', CSVText ''actor_user_id'', CSVText ''action'', CSVText ''entity_type'',
          CSVText ''entity_id'']
        # map (\<lambda>l. [CSVTime (auCreatedAt l), CSVText (case auActor l of None \<Rightarrow> [] | Some i \<Rightarrow> show_int i),
            CSVText (auAction l), CSVText (auEntityType l), CSVText (auEntityID l)]) logs))))"

section \<open>Manual ledger adjustment\<close>

definition adjust_url :: string where "adjust_url = ''/admin/ledger/adjust''"

definition adminLedgerAdjustForm :: "request \<Rightarrow> handler" where
  "adminLedgerAdjustForm r = render r 200 ''Admin - ledger adjustment''"

text \<open>The flash leaves out why a rejected adjustment does not balance.\<close>

definition adminLedgerAdjust :: "user \<Rightarrow> request \<Rightarrow> handler" where
  "adminLedgerAdjust admin r =
    (if \<not> rqParseForm r then renderError
     else case parse_int 64 (rqForm r ''amount'') of
       None \<Rightarrow> flash_redirect r ''A positive amount is required.'' adjust_url
     | Some amount \<Rightarrow>
       if amount \<le> 0 then flash_redirect r ''A positive amount is required.'' adjust_url
       else let currency = to_lower (trim_space (rqForm r ''currency'')); reason = trim_space (rqForm r ''reason'') in
       if currency = [] \<or> reason = [] then flash_redirect r ''Currency and reason are required.'' adjust_url
       else case ManualAdjustment (rqForm r ''from_kind'') (parseOptionalID (rqForm r ''from_owner''))
           (rqForm r ''to_kind'') (parseOptionalID (rqForm r ''to_owner'')) amount currency
           (parseOptionalID (rqForm r ''order_id'')) reason of
         Inl _ \<Rightarrow> flash_redirect r ''Adjustment does not balance'' adjust_url
       | Inr entries \<Rightarrow> call (PostLedgerEntries entries) (\<lambda>_. renderError)
           (\<lambda>group. also_do (audit (Some (uID admin)) ''ledger.manual_adjustment'' ''ledger_transaction'' (show_int group))
             (notice_redirect r ''Adjustment posted.'' adjust_url)))"

end
