(* ===== verification/Contract.thy ===== *)
theory Contract
  imports Worker HandlersAdmin Frames
begin

text \<open>
  The interface between the store and the code above it.  The locale \<^verbatim>\<open>write_contract\<close> names the
  operations through which handlers and jobs write the tables that matter (\<^verbatim>\<open>critical\<close>; those of the
  catalog in \<^verbatim>\<open>catalog_contract\<close>), and assumes
  of a relation \<^verbatim>\<open>R\<close> on worlds that each of them respects it under the guard its callers check:
  an order or a payment intent is only moved along its transition table, a payout only along the
  two steps an administrator takes.  Money adds the ledger: \<^verbatim>\<open>money_contract\<close> assumes the release and
  refund postings and the capture of a payment as a whole, \<^verbatim>\<open>store_contract\<close> any posting, which
  gives the capture as well.  Under \<^verbatim>\<open>money_contract\<close> every handler and every job of the program
  respects \<^verbatim>\<open>R\<close> (theories \<^verbatim>\<open>AppFrames\<close> and \<^verbatim>\<open>App\<close>); the invariant theories interpret the
  locales for their relations.
\<close>

definition critical :: "region set" where
  "critical = {ROrders, ROrderItems, RDeliveries, RReviews, RIntents, RWebhooks, RRefunds, RLedger, RJobs,
    RWallets, RPayouts, RCatalog}"

definition payout_edges :: "(payout_status \<times> payout_status) list" where
  "payout_edges = [(PayoutNeedsManualReview, PayoutReadyForManualExecution),
    (PayoutReadyForManualExecution, PayoutCompleted)]"

locale catalog_contract = frame R for R :: "world \<Rightarrow> world \<Rightarrow> bool" +
  assumes create_category: "steps R (CreateCategory sg nm ds ps)"
    and update_category: "steps R (UpdateCategory i nm ds ps)"
    and delete_category: "steps R (DeleteCategory i)"
    and create_gig: "steps R (CreateGig dr sl ci ti ds)"
    and update_gig: "steps R (UpdateGig i sl ci ti ds)"
    and replace_packages: "packages \<noteq> [] \<Longrightarrow> steps R (ReplaceGigPackages i packages)"
    and replace_addons: "steps R (ReplaceGigAddons i addons)"
    and add_media: "steps R (AddGigMedia i pt al)"
    and set_gig_tags: "steps R (SetGigTags i names)"
    and delete_tag: "steps R (DeleteTag i)"
    and rename_tag: "steps R (RenameTag i nm)"
    and toggle_favorite: "steps R (ToggleFavorite u i)"
    and create_portfolio_item: "steps R (CreatePortfolioItem u ti ds mp)"
    and moderate_gig: "steps R (SetGigModerationStateAdmin i st)"
    and moderate_media: "steps R (SetGigMediaModerationState i st)"
    and upsert_draft: "steps R (UpsertDraftOrder b g p)"
    and draft_requirements: "steps R (SetDraftOrderRequirements i rq ids)"
begin

lemmas catalog_ops = create_category update_category delete_category create_gig update_gig
  replace_packages replace_addons add_media set_gig_tags delete_tag rename_tag toggle_favorite create_portfolio_item
  moderate_gig moderate_media upsert_draft draft_requirements

end

locale write_contract = catalog_contract R for R :: "world \<Rightarrow> world \<Rightarrow> bool" +
  assumes quiet: "touches M w w' \<Longrightarrow> M \<inter> critical = {} \<Longrightarrow> R w w'"
    and sends: "steps R (send_call c)"
    and transition_order: "CanTransitionOrder f t \<Longrightarrow> steps R (TransitionOrder i f t)"
    and create_order: "steps R (CreateOrderFromDraft df b sl g rq its su fe to cu rv)"
    and auto_accept: "steps R (AutoAcceptOrders cutoff)"
    and revision: "steps R (CreateRevisionRequest oi b rs)"
    and create_delivery: "steps R (CreateDelivery oi sl msg)"
    and create_review: "steps R (CreateReview oi g b sl rt bd)"
    and moderate_review: "steps R (SetReviewModerationStateAdmin i st)"
    and create_intent: "steps R (CreatePaymentIntent oi pr me am cu k)"
    and intent_session: "steps R (SetPaymentIntentSession i rf url ex)"
    and intent_charge: "steps R (SetPaymentIntentChargeRef i cr)"
    and transition_intent: "CanTransitionPayment pf pt \<Longrightarrow> steps R (TransitionPaymentIntent i pf pt)"
    and attempt: "steps R (RecordPaymentAttempt i pst fc fm)"
    and insert_webhook: "steps R (InsertWebhookEvent pr ev ty rf wp ph)"
    and webhook_done: "steps R (MarkWebhookProcessed i)"
    and create_refund: "steps R (CreateRefund oi pin by rs am cu)"
    and refund_status: "steps R (SetRefundStatus i pst rf)"
    and enqueue: "steps R (EnqueueJob kd pl ra mx)"
    and claim_job: "steps R (ClaimJob wk stale)"
    and retry_job: "steps R (RetryJob i)"
    and complete_job: "steps R (CompleteJob i)"
    and fail_job: "steps R (FailJob i er bo)"
    and pending_wallet: "steps R (CreatePendingWallet u nw as enc fp)"
    and confirm_wallet: "steps R (ConfirmWallet i cd)"
    and create_payout: "steps R (CreatePayout sl wid am cu nw as ist)"
    and transition_payout: "(yf, yt) \<in> set payout_edges \<Longrightarrow> steps R (TransitionPayout i yf yt by h)"
begin

lemma quiet_op: "steps (touches M) m \<Longrightarrow> M \<subseteq> {RUsers, RSessions, RTokens, RWork, RNotices} \<Longrightarrow> steps R m"
  unfolding steps_def by (auto intro!: quiet [of M] simp: critical_def)

lemmas quiet_ops = regions_queries [THEN quiet_op] regions_more_queries [THEN quiet_op]
  regions_guarded(2,3,7) [THEN quiet_op] regions_work(2-5) [THEN quiet_op]
  regions_wallets(3-6) [THEN quiet_op] regions_accounts [THEN quiet_op] regions_accounts_more [THEN quiet_op]
  regions_catalog(1-6) [THEN quiet_op] regions_catalog_queries [THEN quiet_op] regions_catalog_details [THEN quiet_op]
  regions_catalog_rows(13) [THEN quiet_op] regions_admin_queries [THEN quiet_op]
  regions_admin_rows(1,4-6) [THEN quiet_op]

lemmas critical_ops = catalog_ops moderate_review retry_job sends transition_order create_order auto_accept revision create_delivery create_review
  create_intent intent_session intent_charge transition_intent attempt insert_webhook webhook_done
  create_refund refund_status enqueue claim_job complete_job fail_job pending_wallet confirm_wallet create_payout transition_payout

lemma steps_now: "steps R get_now"
  by (rule quiet_op [OF touches_now [of "{}"]]) simp

lemma steps_query: "steps R (query f)"
  by (rule quiet_op [OF touches_query [of "{}"]]) simp

lemmas contract_rules = frame_rules quiet_ops critical_ops steps_now

section \<open>Effects of the handlers\<close>

lemma steps_render: "steps R (render r st ti)" "steps R (notFound r)" "steps R renderError"
proof -
  show r: "steps R (render r st ti)" for st ti
    unfolding render_def viewUser_def
    by (intro contract_rules; (rule steps_query | simp))
  show "steps R (notFound r)" unfolding notFound_def by (intro frame_rules r)
  show "steps R renderError" unfolding renderError_def by (intro frame_rules)
qed

lemma steps_flash: "steps R (flashError r m)" "steps R (flashNotice r m)" "steps R (flash_redirect r m url)"
  unfolding flash_redirect_def flashError_def flashNotice_def set_flash_def
  by (intro contract_rules; simp)+

lemma steps_notices: "steps R (audit ac an et ei)" "steps R (notify u k bd lk)" "steps R (notifyOrderParty u k bd lk)"
  unfolding audit_def notify_def notifyOrderParty_def by (intro contract_rules; simp)+

lemma steps_ensureSession:
  "(\<And>e. steps R (h e)) \<Longrightarrow> (\<And>se r'. steps R (k se r')) \<Longrightarrow> steps R (ensureSession cfg r h k)"
  unfolding ensureSession_def
  by (cases "rqToken r"; cases "rqNewCSRF r") (auto intro!: contract_rules simp: Let_def split: option.splits)

lemma steps_maybe: "steps R m \<Longrightarrow> steps R (maybe m)"
  unfolding maybe_def by (intro frame_rules)

lemma steps_loadOrderAccess: "(\<And>a. steps R (k a)) \<Longrightarrow> steps R (loadOrderAccess u r k)"
  unfolding loadOrderAccess_def Let_def by (intro contract_rules steps_render; simp)

lemma steps_loadOwnedDraft: "(\<And>f g. steps R (k f g)) \<Longrightarrow> steps R (loadOwnedDraft u r k)"
  unfolding loadOwnedDraft_def Let_def by (intro contract_rules steps_render; simp)

lemmas handler_rules = contract_rules steps_render steps_flash steps_notices steps_ensureSession steps_maybe
  steps_loadOrderAccess steps_loadOwnedDraft

end

section \<open>Postings\<close>

context write_contract
begin

lemma capture_rule: "(\<And>es. steps R (PostLedgerEntries es)) \<Longrightarrow> steps R (capturePaymentForOrder p)"
  unfolding capturePaymentForOrder_def finish_capture_def
  by (intro handler_rules; (assumption | simp add: CanTransitionOrder_def))

lemma gig_status_rule: "(\<And>i sl st. steps R (SetGigStatus i sl st)) \<Longrightarrow> steps R (sellGigStatus u r)"
  unfolding sellGigStatus_def loadOwnedGig_def gig_audit_def Let_def
  by (intro handler_rules; (assumption | simp))

end

locale money_contract = write_contract +
  assumes capture: "steps R (capturePaymentForOrder p)"
    and post_release: "EarningsReleased oi sl am cu = Inr es \<Longrightarrow> steps R (PostLedgerEntries es)"
    and post_refund: "RefundIssued oi sl am fr pr av cu = Inr es \<Longrightarrow> steps R (PostLedgerEntries es)"
    and post_manual: "ManualAdjustment fk fo tk tow am cu oio rs = Inr es \<Longrightarrow> steps R (PostLedgerEntries es)"
    and gig_status: "steps R (sellGigStatus u r)"

locale store_contract = write_contract +
  assumes post_ledger: "steps R (PostLedgerEntries es)"
    and any_gig_status: "steps R (SetGigStatus i sl st)"
begin

lemma steps_sellGigStatus: "steps R (sellGigStatus u r)"
  by (rule gig_status_rule) (rule any_gig_status)

lemma steps_capture: "steps R (capturePaymentForOrder p)"
  by (rule capture_rule) (rule post_ledger)

end

sublocale store_contract \<subseteq> money_contract
  by unfold_locales (rule steps_capture post_ledger steps_sellGigStatus)+

end
