(* ===== verification/AppFrames.thy ===== *)
theory AppFrames
  imports Contract
begin

text \<open>
  Every handler and every job of the program respects a relation that keeps the store contract.
\<close>

context money_contract
begin

section \<open>The order workspace\<close>

lemma steps_save_file: "steps R (saveOptionalOrderFile r oi up fd k)"
  unfolding saveOptionalOrderFile_def by (cases "rqFile r fd"; simp; intro handler_rules; simp)

lemma steps_release: "steps R (releaseSellerEarnings ord)"
  unfolding releaseSellerEarnings_def Let_def
  by (intro frame_rules quiet_ops; (erule post_release | simp))

lemma steps_orderMessageCreate: "steps R (orderMessageCreate u r)"
  unfolding orderMessageCreate_def Let_def by (intro handler_rules; simp)

lemma steps_orderDeliver: "steps R (orderDeliver u r)"
  unfolding orderDeliver_def Let_def by (intro handler_rules steps_save_file; simp)

lemma steps_orderRevise: "steps R (orderRevise u r)"
  unfolding orderRevise_def Let_def by (intro handler_rules; simp)

lemma steps_orderAccept: "steps R (orderAccept u r)"
  unfolding orderAccept_def Let_def by (intro handler_rules steps_release; simp)

lemma steps_orderCancelRequest: "steps R (orderCancelRequest u r)"
  unfolding orderCancelRequest_def Let_def by (intro handler_rules; simp)

lemma steps_orderCancelResolve: "steps R (orderCancelResolve u r)"
  unfolding orderCancelResolve_def Let_def split_def by (intro handler_rules; simp)

lemma steps_orderDisputeOpen: "steps R (orderDisputeOpen u r)"
  unfolding orderDisputeOpen_def Let_def by (intro handler_rules steps_save_file; simp)

lemma steps_orderDisputeResolve: "steps R (orderDisputeResolve u r)"
  unfolding orderDisputeResolve_def Let_def by (intro handler_rules; simp)

lemma steps_orderReviewCreate: "steps R (orderReviewCreate u r)"
  unfolding orderReviewCreate_def Let_def by (intro handler_rules; simp)

lemma steps_orderAttachmentServe: "steps R (orderAttachmentServe root u r)"
  unfolding orderAttachmentServe_def by (intro handler_rules; simp)

lemma steps_orders_lists: "steps R (ordersListBuyer u r)" "steps R (ordersListSeller u r)"
  unfolding ordersListBuyer_def ordersListSeller_def by (intro handler_rules; simp)+

lemma steps_orderDetail: "steps R (orderDetail u r)"
  unfolding orderDetail_def buildOrderDetail_def Let_def by (intro handler_rules; simp)

section \<open>Payments, checkout and wallets\<close>

lemma steps_startPayment: "steps R (startPayment cfg reg u r ord me)"
  unfolding startPayment_def Let_def by (intro handler_rules; simp)

lemma steps_payment_pages: "steps R (paymentReturn r)" "steps R (paymentCancelReturn r)"
  "steps R (btcpayInvoiceStatus u r)" "steps R (evmDepositStatus reg u r)"
  unfolding paymentReturn_def paymentCancelReturn_def btcpayInvoiceStatus_def evmDepositStatus_def Let_def
  by (intro handler_rules; simp)+

lemma steps_onboarding: "steps R (sellOnboardingStripeStart cfg reg u r)"
  "steps R (sellOnboardingStripeRefresh cfg reg u r)" "steps R (sellOnboardingStripeReturn reg u r)"
  unfolding sellOnboardingStripeRefresh_def sellOnboardingStripeStart_def sellOnboardingStripeReturn_def
    check_onboarding_def refresh_capabilities_def Let_def split_def
  by (intro handler_rules; simp)+

lemma steps_receiveWebhookEvent: "steps R (receiveWebhookEvent sha body evt)"
  unfolding receiveWebhookEvent_def split_def by (intro handler_rules; simp)

lemma steps_webhooks: "steps R (StripeWebhook sha reg b)" "steps R (BTCPayWebhook sha reg b)"
  unfolding StripeWebhook_def BTCPayWebhook_def split_def by (intro handler_rules steps_receiveWebhookEvent)+

lemma steps_admin_pages: "steps R (adminPayments r)" "steps R (adminOrderPayments r)" "steps R (adminPayouts r)"
  unfolding adminPayments_def adminOrderPayments_def onChainPaymentDetail_def adminPayouts_def
  by (intro handler_rules; simp)+

lemma steps_admin_payouts: "steps R (adminPayoutsPause u r)" "steps R (adminPayoutApprove u r)"
  "steps R (adminPayoutComplete u r)"
  unfolding adminPayoutsPause_def adminPayoutApprove_def adminPayoutComplete_def Let_def
  by (intro handler_rules; simp add: payout_edges_def)+

lemma steps_adminOrderRefund: "steps R (adminOrderRefund reg u r)"
  unfolding adminOrderRefund_def HandlersPayments.post_refund_def Let_def
  by (intro handler_rules; (erule post_refund | simp))

lemma steps_checkout: "steps R (checkoutStart u r)" "steps R (checkoutRequirementsForm cfg u r)"
  "steps R (checkoutRequirementsSubmit cfg u r)" "steps R (checkoutReview cfg u r)"
  unfolding checkoutStart_def checkoutRequirementsForm_def checkoutRequirementsSubmit_def checkoutReview_def Let_def
  by (intro handler_rules; simp)+

lemma steps_checkoutConfirm: "steps R (checkoutConfirm cfg reg u r)"
  unfolding checkoutConfirm_def checkFraudSignals_def Let_def
  by (intro handler_rules steps_startPayment; simp)

lemma steps_confirmed_wallets: "steps R (confirmed_wallets i sl)"
proof (induction sl)
  case (Cons p sl)
  obtain nw as where "p = (nw, as)" by (cases p)
  moreover from Cons have "steps R (call (call (GetConfirmedWallet i nw as) (\<lambda>_. ret None) (\<lambda>w. ret (Some w))) fail (\<lambda>found.
    call get_now fail (\<lambda>now. call (confirmed_wallets i sl) fail (\<lambda>rows.
      ret (case found of None \<Rightarrow> rows | Some w \<Rightarrow> (as, nw, IsPayoutEligible w now) # rows)))))"
    by (intro handler_rules; simp)
  ultimately show ?case by (simp add: steps_def)
qed (simp add: steps_def ret_def frame_refl)

lemma steps_wallets: "steps R (walletSettings wc u r)" "steps R (submitWallet wc cfg u r)"
  "steps R (confirmWallet hash cfg u r)"
  unfolding walletSettings_def submitWallet_def confirmWallet_def alertWalletChange_def Let_def split_def
  by (intro handler_rules steps_confirmed_wallets; simp)+

lemma steps_balance: "steps R (availablePayoutBalance i c)"
  unfolding availablePayoutBalance_def by (intro handler_rules; simp)

lemma steps_payout_requests: "steps R (payoutRequestForm wc u r)" "steps R (submitPayoutRequest wc u r)"
  unfolding payoutRequestForm_def submitPayoutRequest_def Let_def split_def
  by (intro handler_rules steps_balance; simp)+

section \<open>Accounts\<close>

lemma steps_limited: "steps R (authRateLimited cfg r)"
proof -
  have "steps (touches {}) (authRateLimited cfg r)"
    by (simp add: steps_def authRateLimited_def Let_def touches_def split_beta)
  then show ?thesis by (rule quiet_op) simp
qed

lemma steps_rotate: "(\<And>raw i. steps R (k raw i)) \<Longrightarrow> steps R (rotate cfg r sid uid k)"
  unfolding rotate_def split_def by (intro handler_rules; simp)

lemma steps_auth_mails: "steps R (sendVerificationEmail cfg mailer r i nm em)" "steps R (sendPasswordReset cfg mailer r u)"
  unfolding sendVerificationEmail_def sendPasswordReset_def Send_def split_def by (intro handler_rules; simp)+

lemma steps_success_flash: "steps R (success_flash i msg)"
  unfolding success_flash_def by (intro handler_rules; simp)

lemma steps_user_audit: "steps R (user_audit i a)"
  unfolding user_audit_def by (intro handler_rules)

lemmas account_rules = handler_rules steps_limited steps_rotate steps_auth_mails steps_success_flash steps_user_audit

lemma steps_registration: "steps R (registerForm cfg r)" "steps R (register ac mailer cfg r)"
  unfolding registerForm_def register_def registerFormError_def Let_def by (intro account_rules; simp)+

lemma steps_login_failed: "steps R (login_failed cfg r u)"
  unfolding login_failed_def loginFormError_def by (intro account_rules; simp)

lemma steps_check_user: "steps R (check_user ac cfg r se u)"
  unfolding check_user_def check_code_def logged_in_def loginFormError_def
  by (intro account_rules steps_login_failed; simp)

lemma steps_login: "steps R (loginForm cfg r)" "steps R (login ac cfg r)" "steps R (logout r)"
  unfolding loginForm_def login_def logout_def loginFormError_def Let_def
  by (intro account_rules steps_check_user; simp)+

lemma steps_tokens: "steps R (verifyEmail hash cfg r)" "steps R (forgotPasswordForm cfg r)"
  "steps R (forgotPassword mailer cfg r)" "steps R (resetPasswordForm hash cfg r)" "steps R (resetPassword hash ac cfg r)"
  unfolding verifyEmail_def forgotPasswordForm_def forgotPassword_def resetPasswordForm_def resetPassword_def Let_def
  by (intro account_rules; simp)+

lemma steps_account: "steps R (accountForm cfg u r)" "steps R (accountUpdate mailer cfg u r)"
  "steps R (passwordForm cfg u r)" "steps R (passwordUpdate ac cfg u r)"
  unfolding accountForm_def accountUpdate_def accountFormError_def account_updated_def passwordForm_def
    passwordUpdate_def Let_def
  by (intro account_rules; simp)+

lemma steps_mfa: "steps R (mfaForm cfg u r)" "steps R (mfaEnable ac cfg u r)" "steps R (mfaDisable cfg u r)"
  unfolding mfaForm_def mfaEnable_def mfaDisable_def rotateAfterSecurityChange_def Let_def
  by (intro account_rules; simp)+

section \<open>Jobs\<close>

lemma steps_fail_payment: "steps R (failPaymentForOrder p)"
  unfolding failPaymentForOrder_def
  by (intro handler_rules; simp add: CanTransitionOrder_def)

lemma steps_apply_payment: "steps R (apply_payment p st)"
  unfolding apply_payment_def by (intro handler_rules capture steps_fail_payment)

lemma steps_processPaymentWebhook: "steps R (processPaymentWebhook reg j)"
  unfolding processPaymentWebhook_def apply_payment_event_def Let_def split_def
  by (intro handler_rules steps_apply_payment; simp)

lemma steps_enqueue_sweep: "steps R (enqueue_sweep cfg k after)"
  unfolding enqueue_sweep_def by (intro handler_rules)

lemma steps_sweeps: "steps R (paymentReconcileSweep cfg reg j)" "steps R (orderAutoAcceptSweep cfg j)"
  "steps R (maintenanceSweep cfg j)"
  unfolding paymentReconcileSweep_def reconcile_intent_def orderAutoAcceptSweep_def auto_accepted_def maintenanceSweep_def
  by (intro handler_rules steps_enqueue_sweep steps_apply_payment steps_release; simp)+

lemma steps_email: "steps R (sendNotificationEmail cfg send j)"
  unfolding sendNotificationEmail_def Send_def Let_def split_def by (intro handler_rules; simp)

lemma steps_worker_handlers: "worker_handlers cfg reg send k = Some h \<Longrightarrow> steps R (h j)"
  by (auto simp: worker_handlers_def steps_sweeps steps_email steps_processPaymentWebhook split: if_splits)

lemma steps_process: "steps R (process (worker_handlers cfg reg send) j)"
proof (cases "worker_handlers cfg reg send (jKind j)")
  case None
  then show ?thesis unfolding process_def by simp (intro handler_rules)
next
  case (Some h)
  then show ?thesis unfolding process_def by simp (intro handler_rules steps_worker_handlers [OF Some])
qed

lemma steps_runWorker: "steps R (runWorker cfg reg)"
  unfolding runWorker_def by (intro handler_rules steps_enqueue_sweep)

section \<open>Authentication and the middleware\<close>

lemma steps_requireAuth: "(\<And>u r. steps R (k u r)) \<Longrightarrow> steps R (requireAuth k r)"
  unfolding requireAuth_def by (intro handler_rules)

lemma steps_requireRole: "(\<And>u r. steps R (k u r)) \<Longrightarrow> steps R (requireRole role k r)"
  unfolding requireRole_def by (intro handler_rules; simp)

lemma steps_Chain: "(\<And>r. steps R (k r)) \<Longrightarrow> steps R (Chain hash k r)"
  unfolding Chain_def withSession_def withCSRF_def Let_def by (intro handler_rules; simp)

section \<open>The catalog and the seller console\<close>

lemma steps_search_data: "steps R (search_data fts q cs ord pg)" "steps R (seller_data fts i pf)"
  unfolding search_data_def seller_data_def Let_def by (intro handler_rules; simp)+

lemma steps_public_pages: "steps R (search fts r)" "steps R (browseCategories r)" "steps R (browseCategory fts r)"
  "steps R (gigDetail cfg r)" "steps R (sellerProfile fts r)" "steps R (healthz r)" "steps R (readyz r)"
  "steps R (home fts r)"
  unfolding search_def renderSearch_def browseCategories_def browseCategory_def gigDetail_def sellerProfile_def
    healthz_def readyz_def home_def Let_def
  by (intro handler_rules steps_search_data steps_query; simp)+

lemma steps_buyer_pages: "steps R (favoriteToggle u r)" "steps R (buyerDashboard u r)" "steps R (notificationsList u r)"
  unfolding favoriteToggle_def buyerDashboard_def notificationsList_def Let_def by (intro handler_rules; simp)+

lemma steps_store_gig_parts: "gfPackages form \<noteq> [] \<Longrightarrow> steps R (store_gig_parts u form ac i)"
  unfolding store_gig_parts_def gig_audit_def by (intro handler_rules; simp)

lemma steps_loadOwnedGig: "(\<And>d. steps R (k d)) \<Longrightarrow> steps R (loadOwnedGig u r i k)"
  unfolding loadOwnedGig_def by (intro handler_rules; simp)

lemma steps_gigFormError: "steps R (gigFormError cfg r ed)"
  unfolding gigFormError_def by (intro handler_rules; simp)

lemma steps_seller_account: "steps R (sellStart cfg u r)" "steps R (sellDashboard cfg u r)"
  "steps R (sellOnboardingSubmit u r)" "steps R (sellProfileForm cfg u r)" "steps R (sellProfileUpdate cfg u r)"
  unfolding sellStart_def sellDashboard_def sellOnboardingSubmit_def sellProfileForm_def sellProfileUpdate_def
    user_audit_def Let_def
  by (intro handler_rules steps_rotate; simp)+

lemma steps_upload: "steps R m \<Longrightarrow> (\<And>e. steps R (h e)) \<Longrightarrow> (\<And>p n. steps R (k p n)) \<Longrightarrow>
    steps R (case x of NoFile \<Rightarrow> m | BadFile e \<Rightarrow> h e | StoredFile p n \<Rightarrow> k p n)"
  by (cases x) simp_all

lemma steps_portfolio: "steps R (sellPortfolioForm cfg u r)" "steps R (sellPortfolioCreate cfg u r)"
proof -
  have e: "steps R (portfolioFormError cfg u r)"
    unfolding portfolioFormError_def by (intro handler_rules; simp)
  show "steps R (sellPortfolioForm cfg u r)"
    unfolding sellPortfolioForm_def by (intro handler_rules; simp)
  show "steps R (sellPortfolioCreate cfg u r)"
    unfolding sellPortfolioCreate_def user_audit_def Let_def
    by (intro handler_rules steps_upload e; simp)
qed

text \<open>A form without errors has a package.\<close>

lemma form_has_package: "snd (parseGigForm r) = [] \<Longrightarrow> gfPackages (fst (parseGigForm r)) \<noteq> []"
  by (auto simp: parseGigForm_def Let_def split: if_splits)

lemma steps_gig_editor: "steps R (sellGigNew cfg r)" "steps R (sellGigCreate cfg u r)" "steps R (sellGigEdit cfg u r)"
  "steps R (sellGigUpdate cfg u r)" "steps R (sellGigMedia u r)"
proof -
  show "steps R (sellGigNew cfg r)" "steps R (sellGigEdit cfg u r)"
    unfolding sellGigNew_def sellGigEdit_def by (intro handler_rules steps_loadOwnedGig; simp)+
  show "steps R (sellGigCreate cfg u r)" "steps R (sellGigUpdate cfg u r)"
    unfolding sellGigCreate_def sellGigUpdate_def Let_def
    by (intro handler_rules steps_loadOwnedGig steps_gigFormError steps_store_gig_parts form_has_package; simp)+
  show "steps R (sellGigMedia u r)"
    unfolding sellGigMedia_def gig_audit_def by (intro handler_rules steps_loadOwnedGig steps_upload; simp)
qed

section \<open>The administration console\<close>

lemma steps_admin_page: "steps R m \<Longrightarrow> steps R (admin_page m r ti)"
  unfolding admin_page_def by (intro handler_rules; simp)

lemma steps_notice_redirect: "steps R (notice_redirect r m url)"
  unfolding notice_redirect_def by (intro handler_rules)

lemma steps_decide: "(\<And>i st. steps R (set_state i st)) \<Longrightarrow> steps R (decide set_state ac en no url adm r)"
  unfolding decide_def admin_audit_def by (intro handler_rules steps_notice_redirect; simp)

lemma steps_admin_lists: "steps R (adminHome r)" "steps R (adminUsers r)" "steps R (adminModerationGigs r)"
  "steps R (adminModerationMedia r)" "steps R (adminModerationReviews r)" "steps R (adminModerationMessages r)"
  "steps R (adminDisputes r)" "steps R (adminPaymentSearch r)" "steps R (adminSettings r)" "steps R (adminCategories r)"
  "steps R (adminAuditLog r)" "steps R (adminLedgerAdjustForm r)"
  unfolding adminHome_def adminUsers_def adminModerationGigs_def adminModerationMedia_def adminModerationReviews_def
    adminModerationMessages_def adminDisputes_def adminPaymentSearch_def adminSettings_def adminCategories_def
    adminAuditLog_def adminLedgerAdjustForm_def Let_def
  by (intro handler_rules steps_admin_page; simp)+

lemma steps_admin_details: "steps R (adminDisputeDetail r)" "steps R (adminOrderTimeline r)"
  "steps R (adminUsersExport u r)" "steps R (adminAuditExport u r)"
  unfolding adminDisputeDetail_def adminOrderTimeline_def adminUsersExport_def adminAuditExport_def
  by (intro handler_rules; simp)+

lemma steps_admin_decisions: "steps R (adminModerationGigDecide u r)" "steps R (adminModerationMediaDecide u r)"
  "steps R (adminModerationReviewDecide u r)"
  unfolding adminModerationGigDecide_def adminModerationMediaDecide_def adminModerationReviewDecide_def
  by (intro steps_decide critical_ops)+

lemma steps_admin_actions: "steps R (adminUserStatus u r)" "steps R (adminModerationMessageHide u r)"
  "steps R (adminDisputeNotes u r)" "steps R (adminJobRetry u r)" "steps R (adminSettingsUpdate u r)"
  unfolding adminUserStatus_def adminModerationMessageHide_def adminDisputeNotes_def adminJobRetry_def
    adminSettingsUpdate_def admin_audit_def Let_def
  by (intro handler_rules steps_notice_redirect; simp)+

lemma steps_admin_catalog: "steps R (adminCategoryCreate u r)" "steps R (adminCategoryUpdate u r)"
  "steps R (adminCategoryDelete u r)" "steps R (adminTagRename u r)" "steps R (adminTagDelete u r)"
  unfolding adminCategoryCreate_def adminCategoryUpdate_def adminCategoryDelete_def adminTagRename_def
    adminTagDelete_def admin_audit_def Let_def
  by (intro handler_rules steps_notice_redirect; simp)+

lemma steps_adminLedgerAdjust: "steps R (adminLedgerAdjust u r)"
  unfolding adminLedgerAdjust_def Let_def
  by (intro handler_rules steps_notice_redirect; (erule post_manual | simp))

end

end
