(* ===== verification/App.thy ===== *)
theory App
  imports AppFrames
begin

text \<open>
  The running system: the routes of \<^verbatim>\<open>Routes\<close> (\<^verbatim>\<open>src/handlers/server.go\<close>) with the role each one
  demands, the middleware around them and the webhook endpoints outside it
  (\<^verbatim>\<open>src/server.go\<close>), the worker, and the steps a deployment takes, one request, webhook
  delivery, claim or job at a time.  Between steps the clock moves on and any schedule of database
  failures may be in force; the providers and the mail server may answer differently at each step.
\<close>

section \<open>Routes\<close>

text \<open>The routes are grouped as \<^verbatim>\<open>Routes\<close> groups them.\<close>

datatype account_route =
    RegisterForm | Register | LoginForm | Login | Logout | VerifyEmail
  | ForgotPasswordForm | ForgotPassword | ResetPasswordForm | ResetPassword
  | AccountForm | AccountUpdate | PasswordForm | PasswordUpdate | MfaForm | MfaEnable | MfaDisable

datatype catalog_route =
    Healthz | Readyz | Home | Search | NotFound | Browse | BrowseCategory | GigPage | SellerPage
  | FavoriteToggle | Dashboard | Notifications

datatype seller_route =
    SellStart | SellDashboard | OnboardingSubmit | ProfileForm | ProfileUpdate | PortfolioForm | PortfolioCreate
  | GigNew | GigCreate | GigEdit | GigUpdate | GigStatus | GigMedia

datatype admin_route =
    AdminHome | AdminPaymentSearch | AdminOrderTimeline | AdminJobRetry | AdminUsers | AdminUserStatus | AdminUsersExport
  | AdminGigs | AdminGigDecide | AdminMedia | AdminMediaDecide | AdminReviews | AdminReviewDecide | AdminMessages
  | AdminMessageHide | AdminCategories | AdminCategoryCreate | AdminCategoryUpdate | AdminCategoryDelete | AdminTagRename
  | AdminTagDelete | AdminDisputes | AdminDisputeDetail | AdminDisputeNotes | AdminSettings | AdminSettingsUpdate
  | AdminAudit | AdminAuditExport | AdminLedgerForm | AdminLedgerAdjust

datatype route =
    Accounts account_route
  | Catalog catalog_route
  | Selling seller_route
  | Administration admin_route
  | AdminPayments | AdminOrderPayments | BTCPayStatus | EVMStatus | AdminRefund | AdminPayouts
  | AdminPayoutsPause | AdminPayoutApprove | AdminPayoutComplete
  | CheckoutStart | CheckoutRequirementsForm | CheckoutRequirementsSubmit | CheckoutReview | CheckoutConfirm
  | PayReturn | PayCancel
  | OrdersList | OrderPage | OrderAttachment | OrderMessages | OrderDeliver | OrderRevise | OrderAccept
  | OrderCancelRequest | OrderCancelResolve | OrderDisputeOpen | OrderDisputeResolve | OrderReview
  | SellOrders | StripeStart | StripeRefresh | StripeReturn
  | WalletPage | WalletSubmit | WalletConfirm | PayoutsPage | PayoutRequest

record env =
  evConfig :: config
  evProviders :: registry
  evWallet :: "wallet_crypto option"
  evHash :: "string \<Rightarrow> string"
  evMailer :: mailer
  evAuth :: auth_crypto
  evText :: text_search

fun serve_account :: "env \<Rightarrow> account_route \<Rightarrow> request \<Rightarrow> handler" where
  "serve_account ev RegisterForm = registerForm (evConfig ev)"
| "serve_account ev Register = register (evAuth ev) (evMailer ev) (evConfig ev)"
| "serve_account ev LoginForm = loginForm (evConfig ev)"
| "serve_account ev Login = login (evAuth ev) (evConfig ev)"
| "serve_account ev Logout = logout"
| "serve_account ev VerifyEmail = verifyEmail (evHash ev) (evConfig ev)"
| "serve_account ev ForgotPasswordForm = forgotPasswordForm (evConfig ev)"
| "serve_account ev ForgotPassword = forgotPassword (evMailer ev) (evConfig ev)"
| "serve_account ev ResetPasswordForm = resetPasswordForm (evHash ev) (evConfig ev)"
| "serve_account ev ResetPassword = resetPassword (evHash ev) (evAuth ev) (evConfig ev)"
| "serve_account ev AccountForm = requireAuth (accountForm (evConfig ev))"
| "serve_account ev AccountUpdate = requireAuth (accountUpdate (evMailer ev) (evConfig ev))"
| "serve_account ev PasswordForm = requireAuth (passwordForm (evConfig ev))"
| "serve_account ev PasswordUpdate = requireAuth (passwordUpdate (evAuth ev) (evConfig ev))"
| "serve_account ev MfaForm = requireAuth (mfaForm (evConfig ev))"
| "serve_account ev MfaEnable = requireAuth (mfaEnable (evAuth ev) (evConfig ev))"
| "serve_account ev MfaDisable = requireAuth (mfaDisable (evConfig ev))"

fun serve_catalog :: "env \<Rightarrow> catalog_route \<Rightarrow> request \<Rightarrow> handler" where
  "serve_catalog ev Healthz = healthz"
| "serve_catalog ev Readyz = readyz"
| "serve_catalog ev Home = home (evText ev)"
| "serve_catalog ev Search = search (evText ev)"
| "serve_catalog ev NotFound = notFound"
| "serve_catalog ev Browse = browseCategories"
| "serve_catalog ev BrowseCategory = browseCategory (evText ev)"
| "serve_catalog ev GigPage = gigDetail (evConfig ev)"
| "serve_catalog ev SellerPage = sellerProfile (evText ev)"
| "serve_catalog ev FavoriteToggle = requireAuth favoriteToggle"
| "serve_catalog ev Dashboard = requireAuth buyerDashboard"
| "serve_catalog ev Notifications = requireAuth notificationsList"

definition requireSeller :: "(user \<Rightarrow> request \<Rightarrow> handler) \<Rightarrow> request \<Rightarrow> handler" where
  "requireSeller next_handler = requireRole RoleSeller next_handler"

fun serve_seller :: "env \<Rightarrow> seller_route \<Rightarrow> request \<Rightarrow> handler" where
  "serve_seller ev SellStart = requireAuth (sellStart (evConfig ev))"
| "serve_seller ev SellDashboard = requireSeller (sellDashboard (evConfig ev))"
| "serve_seller ev OnboardingSubmit = requireSeller sellOnboardingSubmit"
| "serve_seller ev ProfileForm = requireSeller (sellProfileForm (evConfig ev))"
| "serve_seller ev ProfileUpdate = requireSeller (sellProfileUpdate (evConfig ev))"
| "serve_seller ev PortfolioForm = requireSeller (sellPortfolioForm (evConfig ev))"
| "serve_seller ev PortfolioCreate = requireSeller (sellPortfolioCreate (evConfig ev))"
| "serve_seller ev GigNew = requireSeller (\<lambda>u. sellGigNew (evConfig ev))"
| "serve_seller ev GigCreate = requireSeller (sellGigCreate (evConfig ev))"
| "serve_seller ev GigEdit = requireSeller (sellGigEdit (evConfig ev))"
| "serve_seller ev GigUpdate = requireSeller (sellGigUpdate (evConfig ev))"
| "serve_seller ev GigStatus = requireSeller sellGigStatus"
| "serve_seller ev GigMedia = requireSeller sellGigMedia"

text \<open>Every route of the administration console demands the administrator role.\<close>

fun serve_admin :: "admin_route \<Rightarrow> user \<Rightarrow> request \<Rightarrow> handler" where
  "serve_admin AdminHome u = adminHome"
| "serve_admin AdminPaymentSearch u = adminPaymentSearch"
| "serve_admin AdminOrderTimeline u = adminOrderTimeline"
| "serve_admin AdminJobRetry u = adminJobRetry u"
| "serve_admin AdminUsers u = adminUsers"
| "serve_admin AdminUserStatus u = adminUserStatus u"
| "serve_admin AdminUsersExport u = adminUsersExport u"
| "serve_admin AdminGigs u = adminModerationGigs"
| "serve_admin AdminGigDecide u = adminModerationGigDecide u"
| "serve_admin AdminMedia u = adminModerationMedia"
| "serve_admin AdminMediaDecide u = adminModerationMediaDecide u"
| "serve_admin AdminReviews u = adminModerationReviews"
| "serve_admin AdminReviewDecide u = adminModerationReviewDecide u"
| "serve_admin AdminMessages u = adminModerationMessages"
| "serve_admin AdminMessageHide u = adminModerationMessageHide u"
| "serve_admin AdminCategories u = adminCategories"
| "serve_admin AdminCategoryCreate u = adminCategoryCreate u"
| "serve_admin AdminCategoryUpdate u = adminCategoryUpdate u"
| "serve_admin AdminCategoryDelete u = adminCategoryDelete u"
| "serve_admin AdminTagRename u = adminTagRename u"
| "serve_admin AdminTagDelete u = adminTagDelete u"
| "serve_admin AdminDisputes u = adminDisputes"
| "serve_admin AdminDisputeDetail u = adminDisputeDetail"
| "serve_admin AdminDisputeNotes u = adminDisputeNotes u"
| "serve_admin AdminSettings u = adminSettings"
| "serve_admin AdminSettingsUpdate u = adminSettingsUpdate u"
| "serve_admin AdminAudit u = adminAuditLog"
| "serve_admin AdminAuditExport u = adminAuditExport u"
| "serve_admin AdminLedgerForm u = adminLedgerAdjustForm"
| "serve_admin AdminLedgerAdjust u = adminLedgerAdjust u"

fun serve :: "env \<Rightarrow> route \<Rightarrow> request \<Rightarrow> handler" where
  "serve ev (Accounts a) = serve_account ev a"
| "serve ev (Catalog c) = serve_catalog ev c"
| "serve ev (Selling c) = serve_seller ev c"
| "serve ev (Administration c) = requireRole RoleAdmin (serve_admin c)"
| "serve ev AdminPayments = requireRole RoleAdmin (\<lambda>u r. adminPayments r)"
| "serve ev AdminOrderPayments = requireRole RoleAdmin (\<lambda>u r. adminOrderPayments r)"
| "serve ev BTCPayStatus = requireAuth btcpayInvoiceStatus"
| "serve ev EVMStatus = requireAuth (evmDepositStatus (evProviders ev))"
| "serve ev AdminRefund = requireRole RoleAdmin (adminOrderRefund (evProviders ev))"
| "serve ev AdminPayouts = requireRole RoleAdmin (\<lambda>u r. adminPayouts r)"
| "serve ev AdminPayoutsPause = requireRole RoleAdmin adminPayoutsPause"
| "serve ev AdminPayoutApprove = requireRole RoleAdmin adminPayoutApprove"
| "serve ev AdminPayoutComplete = requireRole RoleAdmin adminPayoutComplete"
| "serve ev CheckoutStart = requireAuth checkoutStart"
| "serve ev CheckoutRequirementsForm = requireAuth (checkoutRequirementsForm (evConfig ev))"
| "serve ev CheckoutRequirementsSubmit = requireAuth (checkoutRequirementsSubmit (evConfig ev))"
| "serve ev CheckoutReview = requireAuth (checkoutReview (evConfig ev))"
| "serve ev CheckoutConfirm = requireAuth (checkoutConfirm (evConfig ev) (evProviders ev))"
| "serve ev PayReturn = requireAuth (\<lambda>u r. paymentReturn r)"
| "serve ev PayCancel = requireAuth (\<lambda>u r. paymentCancelReturn r)"
| "serve ev OrdersList = requireAuth ordersListBuyer"
| "serve ev OrderPage = requireAuth orderDetail"
| "serve ev OrderAttachment = requireAuth (orderAttachmentServe (cfgPrivateStorageRoot (evConfig ev)))"
| "serve ev OrderMessages = requireAuth orderMessageCreate"
| "serve ev OrderDeliver = requireAuth orderDeliver"
| "serve ev OrderRevise = requireAuth orderRevise"
| "serve ev OrderAccept = requireAuth orderAccept"
| "serve ev OrderCancelRequest = requireAuth orderCancelRequest"
| "serve ev OrderCancelResolve = requireAuth orderCancelResolve"
| "serve ev OrderDisputeOpen = requireAuth orderDisputeOpen"
| "serve ev OrderDisputeResolve = requireAuth orderDisputeResolve"
| "serve ev OrderReview = requireAuth orderReviewCreate"
| "serve ev SellOrders = requireRole RoleSeller ordersListSeller"
| "serve ev StripeStart = requireRole RoleSeller (sellOnboardingStripeStart (evConfig ev) (evProviders ev))"
| "serve ev StripeRefresh = requireRole RoleSeller (sellOnboardingStripeRefresh (evConfig ev) (evProviders ev))"
| "serve ev StripeReturn = requireRole RoleSeller (sellOnboardingStripeReturn (evProviders ev))"
| "serve ev WalletPage = requireRole RoleSeller (walletSettings (evWallet ev))"
| "serve ev WalletSubmit = requireRole RoleSeller (submitWallet (evWallet ev) (evConfig ev))"
| "serve ev WalletConfirm = requireAuth (confirmWallet (evHash ev) (evConfig ev))"
| "serve ev PayoutsPage = requireRole RoleSeller (payoutRequestForm (evWallet ev))"
| "serve ev PayoutRequest = requireRole RoleSeller (submitPayoutRequest (evWallet ev))"

section \<open>Steps of a deployment\<close>

text \<open>The worker processes the jobs it claimed; the model lets it process any job record.\<close>

datatype event =
    Request route request
  | StripeDelivery "string option"
  | BTCPayDelivery "string option"
  | StartWorker
  | Claim string time
  | Process job

fun happens :: "env \<Rightarrow> event \<Rightarrow> world \<Rightarrow> world" where
  "happens ev (Request rt r) s = snd (Chain (evHash ev) (serve ev rt) r s)"
| "happens ev (StripeDelivery b) s = snd (StripeWebhook (evHash ev) (evProviders ev) b s)"
| "happens ev (BTCPayDelivery b) s = snd (BTCPayWebhook (evHash ev) (evProviders ev) b s)"
| "happens ev StartWorker s = snd (runWorker (evConfig ev) (evProviders ev) s)"
| "happens ev (Claim wk stale) s = snd (ClaimJob wk stale s)"
| "happens ev (Process j) s = snd (process (worker_handlers (evConfig ev) (evProviders ev) (evMailer ev)) j s)"

definition at :: "time \<Rightarrow> bool list \<Rightarrow> world \<Rightarrow> world" where
  "at now faults s = s\<lparr>wnow := now, wfaults := faults\<rparr>"

inductive runs :: "env \<Rightarrow> world \<Rightarrow> world \<Rightarrow> bool" for ev where
  start: "runs ev s s"
| step: "runs ev s t \<Longrightarrow> wnow t \<le> now \<Longrightarrow>
    runs ev s (happens (ev\<lparr>evProviders := reg, evMailer := send\<rparr>) e (at now faults t))"

inductive_cases runs_stepE: "runs ev s t"

context money_contract
begin

lemma steps_serve_account: "steps R (serve_account ev a r)"
  by (cases a; simp; (intro steps_requireAuth)?; rule steps_registration steps_login steps_tokens steps_account steps_mfa)

lemma steps_serve_catalog: "steps R (serve_catalog ev c r)"
  by (cases c; simp; (intro steps_requireAuth)?; rule steps_public_pages steps_render steps_buyer_pages)

lemma steps_serve_seller: "steps R (serve_seller ev c r)"
  by (cases c; simp add: requireSeller_def; intro steps_requireAuth steps_requireRole;
    rule steps_seller_account steps_portfolio steps_gig_editor gig_status)

lemma steps_serve_admin: "steps R (serve_admin c u r)"
  by (cases c; simp; rule steps_admin_lists steps_admin_details steps_admin_decisions steps_admin_actions
    steps_admin_catalog steps_adminLedgerAdjust)

lemma steps_serve: "steps R (serve ev rt r)"
  by (cases rt; simp; (intro steps_requireAuth steps_requireRole)?;
    rule steps_serve_account steps_serve_catalog steps_serve_seller steps_serve_admin steps_admin_pages steps_payment_pages steps_adminOrderRefund steps_admin_payouts steps_checkout
      steps_checkoutConfirm steps_orders_lists steps_orderDetail steps_orderAttachmentServe
      steps_orderMessageCreate steps_orderDeliver steps_orderRevise steps_orderAccept steps_orderCancelRequest
      steps_orderCancelResolve steps_orderDisputeOpen steps_orderDisputeResolve steps_orderReviewCreate
      steps_onboarding steps_wallets steps_payout_requests)

lemma happens_respects: "R s (happens ev e s)"
  by (cases e; simp; rule stepsD;
    intro steps_Chain steps_serve steps_webhooks steps_runWorker claim_job steps_process)

lemma at_respects: "R s (at now faults s)"
  by (rule quiet [of "{}"]) (simp_all add: at_def touches_def)

lemma runs_respects: "runs ev s t \<Longrightarrow> R s t"
proof (induction rule: runs.induct)
  case start
  show ?case by (rule frame_refl)
next
  case (step t now reg send e faults)
  then show ?case by (blast intro: frame_trans happens_respects at_respects)
qed

end

section \<open>A sample deployment\<close>

abbreviation sample_env :: env where
  "sample_env \<equiv> \<lparr>evConfig = \<lparr>cfgPaymentsEnabled = True, cfgPlatformFeeBps = 1000, cfgBaseURL = [], cfgSessionTTL = 60,
      cfgAuthTokenTTL = 60, cfgWalletChangeCooldown = 60, cfgAutoAcceptAfter = 60, cfgMaintenanceInterval = 60,
      cfgPaymentReconcileInterval = 60, cfgJobMaxAttempts = 3, cfgPrivateStorageRoot = ''/data'', cfgAuthRateLimit = 10, cfgAuthRateWindow = 60,
      cfgMaxLoginAttempts = 5, cfgLoginLockout = 60, cfgTOTPSkew = 1\<rparr>,
    evProviders = [], evWallet = None, evHash = (\<lambda>s. s), evMailer = (\<lambda>_ _ _. None),
    evAuth = \<lparr>acIDKey = (\<lambda>password salt mem iter par len. Some (replicate len 0)), acHmac = (\<lambda>key msg. replicate 20 0)\<rparr>,
    evText = (\<lambda>q g. True)\<rparr>"

end
