(* ===== verification/OrderInvariants.thy ===== *)
theory OrderInvariants
  imports App
begin

text \<open>
  What the whole program guarantees about the order table.  \<^verbatim>\<open>orders_evolve\<close> relates two databases:
  no order disappears, the terms of an order (parties, prices, revision allowance) never change, its
  status moves only along \<^verbatim>\<open>orderTransitions\<close>, and new orders start in \<^verbatim>\<open>pending_payment\<close>.
  \<^verbatim>\<open>orders_inv\<close> is the state invariant: keys are unique and below the sequence, and every order has
  the milestones its status claims and stays within its revision allowance.
\<close>

section \<open>Evolution\<close>

definition order_evolves :: "order \<Rightarrow> order \<Rightarrow> bool" where
  "order_evolves q r \<longleftrightarrow> oID r = oID q \<and> oBuyerID r = oBuyerID q \<and> oSellerID r = oSellerID q
    \<and> oGigID r = oGigID q \<and> oRequirements r = oRequirements q \<and> oRevisionsAllowed r = oRevisionsAllowed q
    \<and> oSubtotalMinorUnits r = oSubtotalMinorUnits q \<and> oPlatformFeeMinorUnits r = oPlatformFeeMinorUnits q
    \<and> oTotalMinorUnits r = oTotalMinorUnits q \<and> oCurrency r = oCurrency q \<and> oCreatedAt r = oCreatedAt q
    \<and> order_move (oStatus q) (oStatus r) \<and> oRevisionsUsed q \<le> oRevisionsUsed r"

lemma order_evolves_refl [simp]: "order_evolves r r"
  by (simp add: order_evolves_def)

lemma order_evolves_trans: "order_evolves p q \<Longrightarrow> order_evolves q r \<Longrightarrow> order_evolves p r"
  unfolding order_evolves_def by (auto intro: order_move_trans)

definition born :: "order \<Rightarrow> bool" where
  "born r \<longleftrightarrow> (\<exists>q. oStatus q = OrderPendingPayment \<and> oRevisionsUsed q = 0 \<and> order_evolves q r)"

lemma born_fresh: "oStatus r = OrderPendingPayment \<Longrightarrow> oRevisionsUsed r = 0 \<Longrightarrow> born r"
  unfolding born_def by (blast intro: order_evolves_refl)

lemma born_evolves: "born q \<Longrightarrow> order_evolves q r \<Longrightarrow> born r"
  unfolding born_def by (blast intro: order_evolves_trans)

abbreviation orders_evolve :: "db \<Rightarrow> db \<Rightarrow> bool" where
  "orders_evolve d d' \<equiv> rows_evolve order_evolves born (orders d) (orders d')"

interpretation oe: row_evolution orders order_evolves born "{ROrders}"
  by unfold_locales (auto intro: order_evolves_trans born_evolves dest: modifiesD [of _ _ _ ROrders])

lemma set_order_status_evolves:
  "CanTransitionOrder (oStatus r) t \<Longrightarrow> order_evolves r (set_order_status t n r)"
  by (simp add: order_evolves_def set_order_status_def order_move_step)

lemma evolve_transition: "CanTransitionOrder f t \<Longrightarrow> steps (on_db orders_evolve) (TransitionOrder i f t)"
  unfolding TransitionOrder_def guarded_update_def
  by (rule oe.rf.steps_exec) (auto split: if_splits intro!: oe.evolve_update set_order_status_evolves)

lemma evolve_insert: "steps (on_db orders_evolve) (insert_order b sl g rq rv su fe to cu)"
  unfolding insert_order_def Let_def
  by (rule oe.rf.steps_insert) (auto intro!: oe.evolve_append born_fresh)

lemma evolve_create: "steps (on_db orders_evolve) (CreateOrderFromDraft df b sl g rq its su fe to cu rv)"
  unfolding CreateOrderFromDraft_def
  by (intro oe.rf.steps_tx oe.rf.fr.frame_rules evolve_insert; rule oe.rf.unaffected, rule regions_orders, simp)

lemma evolve_auto_accept: "steps (on_db orders_evolve) (AutoAcceptOrders cutoff)"
  unfolding AutoAcceptOrders_def Let_def
  by (rule oe.rf.steps_exec) (auto intro!: oe.evolve_update order_move_step
    simp: due_for_acceptance_def order_evolves_def CanTransitionOrder_def)

lemma evolve_revision: "steps (on_db orders_evolve) (CreateRevisionRequest oi b rs)"
proof -
  have "steps (on_db orders_evolve) (exec (\<lambda>now d. Inr ((), d\<lparr>orders := update_where (\<lambda>ord. oID ord = oi)
        (\<lambda>ord. ord\<lparr>oRevisionsUsed := oRevisionsUsed ord + 1, oUpdatedAt := now\<rparr>) (orders d)\<rparr>)))"
    by (rule oe.rf.steps_exec) (auto intro!: oe.evolve_update simp: order_evolves_def)
  then show ?thesis
    unfolding CreateRevisionRequest_def
    by (intro oe.rf.steps_tx oe.rf.fr.frame_rules oe.rf.steps_query oe.rf.steps_insert)
      (auto simp: Let_def intro: oe.evolve_same)
qed

interpretation oec: store_contract "on_db orders_evolve"
proof unfold_locales
  fix w w' M assume "touches M w w'" "M \<inter> critical = {}"
  then have "orders (wdb w') = orders (wdb w)"
    by (auto simp: touches_def critical_def dest!: modifiesD [of _ _ _ ROrders])
  then show "on_db orders_evolve w w'" by (simp add: on_db_def oe.evolve_same)
qed (rule oe.rf.steps_send evolve_transition evolve_create evolve_auto_accept evolve_revision
    | assumption | (rule oe.rf.unaffected, rule op_regions, simp))+

section \<open>Keys, milestones and allowances\<close>

definition milestones :: "order \<Rightarrow> bool" where
  "milestones r \<longleftrightarrow> oStatus r \<in> live_statuses
    \<and> (oStatus r \<notin> {OrderPendingPayment, OrderPaymentFailed} \<longrightarrow> oPaidAt r \<noteq> None)
    \<and> (oStatus r \<in> {OrderDelivered, OrderRevisionRequested, OrderAccepted} \<longrightarrow> oDeliveredAt r \<noteq> None)
    \<and> (oStatus r = OrderAccepted \<longrightarrow> oAcceptedAt r \<noteq> None)
    \<and> (oStatus r = OrderCancelled \<longrightarrow> oCancelledAt r \<noteq> None)
    \<and> (oStatus r = OrderClosed \<longrightarrow> oClosedAt r \<noteq> None)"

definition within_allowance :: "order \<Rightarrow> bool" where
  "within_allowance r \<longleftrightarrow> 0 \<le> oRevisionsUsed r \<and> (oRevisionsUsed r = 0 \<or> oRevisionsUsed r \<le> oRevisionsAllowed r)"

definition order_ok :: "order \<Rightarrow> bool" where
  "order_ok r \<longleftrightarrow> milestones r \<and> within_allowance r"

definition keys_ok :: "('r \<Rightarrow> int) \<Rightarrow> int \<Rightarrow> 'r list \<Rightarrow> bool" where
  "keys_ok key n rs \<longleftrightarrow> distinct (map key rs) \<and> (\<forall>k \<in> set (map key rs). k \<le> n)"

lemma keys_ok_mono: "keys_ok key n rs \<Longrightarrow> n \<le> m \<Longrightarrow> keys_ok key m rs"
  by (auto simp: keys_ok_def)

lemma keys_ok_update: "(\<And>r. key (f r) = key r) \<Longrightarrow> keys_ok key n (update_where P f rs) \<longleftrightarrow> keys_ok key n rs"
  by (simp only: keys_ok_def map_update_where)

lemma keys_ok_snoc: "keys_ok key n rs \<Longrightarrow> key r = n + 1 \<Longrightarrow> keys_ok key (n + 1) (rs @ [r])"
  by (force simp: keys_ok_def)

definition orders_inv :: "db \<Rightarrow> (table \<Rightarrow> int) \<Rightarrow> bool" where
  "orders_inv d q \<longleftrightarrow> keys_ok oID (q TOrders) (orders d) \<and> list_all order_ok (orders d)"

interpretation oi: region_inv orders_inv "{ROrders}"
  by unfold_locales
    (auto simp: orders_inv_def intro: keys_ok_mono dest!: modifiesD [of _ _ _ ROrders])

lemma milestones_set_status:
  assumes "milestones r" "CanTransitionOrder (oStatus r) t"
  shows "milestones (set_order_status t n r)"
  using assms by (cases "oStatus r"; cases t)
    (auto simp: milestones_def set_order_status_def CanTransitionOrder_def live_statuses_def)

lemma order_ok_set_status:
  "order_ok r \<Longrightarrow> CanTransitionOrder (oStatus r) t \<Longrightarrow> order_ok (set_order_status t n r)"
  unfolding order_ok_def using milestones_set_status [of r t n]
  by (simp add: within_allowance_def set_order_status_def)

lemma list_all_update:
  "list_all Q rs \<Longrightarrow> (\<And>r. Q r \<Longrightarrow> P r \<Longrightarrow> Q (f r)) \<Longrightarrow> list_all Q (update_where P f rs)"
  by (induction rs) auto

lemma set_order_status_id [simp]: "oID (set_order_status t n r) = oID r"
  by (simp add: set_order_status_def)

lemma inv_transition: "CanTransitionOrder f t \<Longrightarrow> steps (keeps orders_inv) (TransitionOrder i f t)"
  unfolding TransitionOrder_def guarded_update_def
  by (rule oi.steps_exec)
    (auto simp: orders_inv_def keys_ok_update split: if_splits intro!: list_all_update order_ok_set_status)

lemma inv_insert: "steps (keeps orders_inv) (insert_order b sl g rq rv su fe to cu)"
  unfolding insert_order_def Let_def
  by (rule oi.steps_insert)
    (auto simp: orders_inv_def order_ok_def milestones_def live_statuses_def within_allowance_def intro!: keys_ok_snoc)

lemma inv_create: "steps (keeps orders_inv) (CreateOrderFromDraft df b sl g rq its su fe to cu rv)"
  unfolding CreateOrderFromDraft_def
  by (intro oi.steps_tx oi.fr.frame_rules inv_insert; rule oi.unaffected, rule regions_orders, simp)

lemma inv_auto_accept: "steps (keeps orders_inv) (AutoAcceptOrders cutoff)"
  unfolding AutoAcceptOrders_def Let_def
  by (rule oi.steps_exec) (auto simp: orders_inv_def keys_ok_update due_for_acceptance_def order_ok_def
    milestones_def within_allowance_def live_statuses_def intro!: list_all_update)

text \<open>The revision allowance is read and used up in one transaction on the order's unique row.\<close>

lemma inv_revision: "steps (keeps orders_inv) (CreateRevisionRequest oi b rs)"
proof -
  let ?use = "\<lambda>now ord. ord\<lparr>oRevisionsUsed := oRevisionsUsed ord + 1, oUpdatedAt := now\<rparr>"
  let ?exec = "exec (\<lambda>now d. Inr ((), d\<lparr>orders := update_where (\<lambda>ord. oID ord = oi) (?use now) (orders d)\<rparr>))"
  let ?ins = "insert_row TRevisionRequests (\<lambda>i now d.
      let q = \<lparr>rrID = i, rrOrderID = oi, rrBuyerID = b, rrReason = rs, rrCreatedAt = now\<rparr>
      in Inr (q, d\<lparr>revision_requests := revision_requests d @ [q]\<rparr>))"
  have ins: "steps (keeps orders_inv) ?ins"
    by (rule oi.steps_insert) (auto simp: Let_def orders_inv_def)
  have step: "keeps orders_inv s t" if run: "call ?exec fail (\<lambda>_. ?ins) s = (x, t)"
    and mem: "locked \<in> set (orders (wdb s))" "oID locked = oi" and room: "oRevisionsUsed locked < oRevisionsAllowed locked"
    for s t x locked
  proof -
    have "keeps orders_inv s (snd (?exec s))"
    proof -
      obtain y s' where e: "?exec s = (y, s')" by fastforce
      from e show ?thesis
      proof (cases rule: exec_cases)
        case (ok z d)
        have "orders_inv d (wseq s)" if inv: "orders_inv (wdb s) (wseq s)"
        proof -
          have "order_ok (?use (wnow s) r)" if r: "r \<in> set (orders (wdb s))" "oID r = oi" for r
          proof -
            have "r = locked"
              using inv r mem by (auto simp: orders_inv_def keys_ok_def intro: distinct_map_eq)
            with inv r room show ?thesis
              by (auto simp: orders_inv_def list_all_iff order_ok_def milestones_def within_allowance_def)
          qed
          with inv ok(1) show ?thesis
            by (auto simp: orders_inv_def keys_ok_update list_all_iff set_update_where)
        qed
        with ok e show ?thesis by (simp add: keeps_def)
      qed (simp_all add: e keeps_def)
    qed
    moreover have "keeps orders_inv (snd (?exec s)) t"
    proof (cases "?exec s")
      case (Pair y s')
      with run stepsD [OF ins, of s'] show ?thesis by (cases y) (auto simp: op_defs keeps_def)
    qed
    ultimately show ?thesis by (rule oi.fr.frame_trans)
  qed
  show ?thesis
    unfolding CreateRevisionRequest_def
  proof (rule oi.steps_tx, rule stepsI)
    fix s
    let ?find = "query (\<lambda>now d. one_row (find (\<lambda>ord. oID ord = oi) (orders d)))"
    obtain y s' where q: "?find s = (y, s')" by fastforce
    then have seen: "wdb s' = wdb s" "wseq s' = wseq s" by (auto elim: query_cases)
    then have refl: "keeps orders_inv s s'" by (simp add: keeps_def)
    show "keeps orders_inv s (snd (call ?find fail (\<lambda>locked. if oRevisionsAllowed locked \<le> oRevisionsUsed locked
        then fail ErrRevisionLimitReached else call ?exec fail (\<lambda>_. ?ins)) s))"
    proof (cases y)
      case (Inl e)
      with q refl show ?thesis by (simp add: op_defs)
    next
      case (Inr locked)
      from q Inr have "locked \<in> set (orders (wdb s))" "oID locked = oi"
        by (auto elim!: query_cases simp: one_row_def split: option.splits dest!: find_SomeD)
      then have step': "oRevisionsUsed locked < oRevisionsAllowed locked \<Longrightarrow>
          keeps orders_inv s' (snd (call ?exec fail (\<lambda>_. ?ins) s'))"
        using seen by (intro step [OF prod.collapse [symmetric]]) simp_all
      have "call ?find fail k s = k locked s'" for k :: "order \<Rightarrow> revision_request op"
        using q Inr by (intro call_ok) simp
      then show ?thesis
        using step' refl oi.fr.frame_trans [OF refl] by (simp add: fail_def)
    qed
  qed
qed

interpretation oic: store_contract "keeps orders_inv"
proof unfold_locales
  fix w w' M assume "touches M w w'" "M \<inter> critical = {}"
  then have "orders (wdb w') = orders (wdb w)" "\<forall>x. wseq w x \<le> wseq w' x"
    by (auto simp: touches_def critical_def dest!: modifiesD [of _ _ _ ROrders])
  then show "keeps orders_inv w w'" by (auto simp: keeps_def orders_inv_def intro: keys_ok_mono)
qed (rule oi.steps_send inv_transition inv_create inv_auto_accept inv_revision
    | assumption | (rule oi.unaffected, rule op_regions, simp))+

end
