(* ===== verification/LedgerInvariants.thy ===== *)
theory LedgerInvariants
  imports OrderInvariants
begin

text \<open>
  What the whole program guarantees about the ledger: it grows by whole validated groups
  (\<^verbatim>\<open>ledger_grows\<close>), its accounts are well formed (\<^verbatim>\<open>ledger_inv\<close>), and the payment of an order is
  captured at most once, in the amount and currency of the order, and only for an order that left
  \<^verbatim>\<open>pending_payment\<close> for good (\<^verbatim>\<open>capture_inv\<close>).
\<close>

section \<open>Growth and well-formedness\<close>

interpretation lgr: region_frame ledger_grows "{RLedger}"
  by unfold_locales (auto intro: ledger_grows.same dest!: modifiesD [of _ _ _ RLedger])

interpretation lgc: store_contract "on_db ledger_grows"
proof unfold_locales
  fix w w' M assume "touches M w w'" "M \<inter> critical = {}"
  then have "ledger_entries (wdb w') = ledger_entries (wdb w)"
    by (auto simp: touches_def critical_def dest!: modifiesD [of _ _ _ RLedger])
  then show "on_db ledger_grows w w'" by (simp add: on_db_def ledger_grows.same)
qed (rule lg.steps_send steps_PostLedgerEntries | assumption | (rule lgr.unaffected, rule op_regions, simp))+

definition ledger_inv :: "db \<Rightarrow> (table \<Rightarrow> int) \<Rightarrow> bool" where
  "ledger_inv d q \<longleftrightarrow> keys_ok laID (q TLedgerAccounts) (ledger_accounts d)
    \<and> (\<forall>r \<in> set (ledger_entries d). \<exists>a \<in> set (ledger_accounts d). laID a = lrAccountID r \<and> laCurrency a = lrCurrency r)"

lemma ledger_wf_inv: "ledger_wf s \<longleftrightarrow> ledger_inv (wdb s) (wseq s)"
  by (auto simp: ledger_wf_def ledger_inv_def keys_ok_def)

interpretation li: region_inv ledger_inv "{RLedger}"
  by unfold_locales (auto simp: ledger_inv_def intro: keys_ok_mono dest!: modifiesD [of _ _ _ RLedger])

lemma inv_post: "steps (keeps ledger_inv) (PostLedgerEntries es)"
proof (rule stepsI)
  fix s
  obtain r s' where p: "PostLedgerEntries es s = (r, s')" by fastforce
  from stepsD [OF regions_posting, of s es] p have sq: "\<forall>x. wseq s x \<le> wseq s' x" by (simp add: touches_def)
  show "keeps ledger_inv s (snd (PostLedgerEntries es s))"
  proof (cases r)
    case (Inl e)
    with PostLedgerEntries_cases [OF p] have "wdb s' = wdb s" by auto
    with sq p show ?thesis by (simp add: li.keeps_seq)
  next
    case (Inr g)
    with p sq PostLedgerEntries_balance(1) [of s es g s'] show ?thesis by (simp add: keeps_def ledger_wf_inv)
  qed
qed

interpretation lic: store_contract "keeps ledger_inv"
proof unfold_locales
  fix w w' M assume "touches M w w'" "M \<inter> critical = {}"
  then have "ledger_entries (wdb w') = ledger_entries (wdb w)" "ledger_accounts (wdb w') = ledger_accounts (wdb w)"
      "\<forall>x. wseq w x \<le> wseq w' x"
    by (auto simp: touches_def critical_def dest!: modifiesD [of _ _ _ RLedger])
  then show "keeps ledger_inv w w'" by (auto simp: keeps_def ledger_inv_def intro: keys_ok_mono)
qed (rule li.steps_send inv_post | assumption | (rule li.unaffected, rule op_regions, simp))+

text \<open>The ledger is well formed and the group of every row was drawn from the sequence of groups.\<close>

definition groups_inv :: "db \<Rightarrow> (table \<Rightarrow> int) \<Rightarrow> bool" where
  "groups_inv d q \<longleftrightarrow> ledger_inv d q \<and> (\<forall>r \<in> set (ledger_entries d). lrGroup r \<le> q TLedgerGroups)"

lemma groups_inv_world: "groups_inv (wdb s) (wseq s) \<longleftrightarrow> ledger_wf s \<and> groups_drawn s"
  by (simp add: groups_inv_def ledger_wf_inv groups_drawn_def)

lemma groups_inv_mono:
  assumes "groups_inv d q" "\<And>x. q x \<le> q' x"
    and "ledger_entries d' = ledger_entries d" "ledger_accounts d' = ledger_accounts d"
  shows "groups_inv d' q'"
  using assms(1) order_trans [OF _ assms(2) [of TLedgerGroups]] keys_ok_mono [OF _ assms(2) [of TLedgerAccounts]]
  unfolding groups_inv_def ledger_inv_def assms(3,4) by blast

interpretation gi: region_inv groups_inv "{RLedger}"
proof unfold_locales
  fix M d d' q assume "modifies M d d'" "M \<inter> {RLedger} = {}" "groups_inv d q"
  then show "groups_inv d' q"
    using groups_inv_mono [of d q q d'] by (auto dest!: modifiesD [of _ _ _ RLedger])
qed (erule groups_inv_mono; simp)

lemma groups_post: "steps (keeps groups_inv) (PostLedgerEntries es)"
proof (rule stepsI)
  fix s
  obtain r s' where p: "PostLedgerEntries es s = (r, s')" by fastforce
  from stepsD [OF regions_posting, of s es] p have sq: "\<forall>x. wseq s x \<le> wseq s' x" by (simp add: touches_def)
  show "keeps groups_inv s (snd (PostLedgerEntries es s))"
  proof (cases r)
    case (Inl e)
    with PostLedgerEntries_cases [OF p] have "wdb s' = wdb s" by auto
    with sq p show ?thesis by (simp add: gi.keeps_seq)
  next
    case (Inr g)
    with p sq show ?thesis
      using PostLedgerEntries_balance(1) [of s es g s'] PostLedgerEntries_drawn(1) [of s es g s']
      by (simp add: keeps_def groups_inv_world)
  qed
qed

interpretation gic: store_contract "keeps groups_inv"
proof unfold_locales
  fix w w' M assume "touches M w w'" "M \<inter> critical = {}"
  then have "ledger_entries (wdb w') = ledger_entries (wdb w)" "ledger_accounts (wdb w') = ledger_accounts (wdb w)"
      "\<forall>x. wseq w x \<le> wseq w' x"
    by (auto simp: touches_def critical_def dest!: modifiesD [of _ _ _ RLedger])
  then show "keeps groups_inv w w'"
    using groups_inv_mono [of "wdb w" "wseq w" "wseq w'" "wdb w'"] by (simp add: keeps_def)
qed (rule gi.steps_send groups_post | assumption | (rule gi.unaffected, rule op_regions, simp))+

section \<open>Capture at most once\<close>

definition capture_row :: "int \<Rightarrow> ledger_row \<Rightarrow> bool" where
  "capture_row i r \<longleftrightarrow> lrOrderID r = Some i \<and> lrDescription r = ''payment captured''"

definition captures :: "int \<Rightarrow> ledger_row list \<Rightarrow> ledger_row list" where
  "captures i rows = filter (capture_row i) rows"

definition unpaid :: "order_status set" where
  "unpaid = {OrderPendingPayment, OrderPaymentFailed}"

definition captured_terms :: "order list \<Rightarrow> int \<Rightarrow> ledger_row \<Rightarrow> bool" where
  "captured_terms ords i r \<longleftrightarrow> (\<exists>ord \<in> set ords. oID ord = i \<and> oStatus ord \<notin> unpaid
    \<and> lrDirection r = DirectionDebit \<and> lrAmountMinor r = oTotalMinorUnits ord \<and> lrCurrency r = oCurrency ord)"

definition capture_inv :: "db \<Rightarrow> (table \<Rightarrow> int) \<Rightarrow> bool" where
  "capture_inv d q \<longleftrightarrow> orders_inv d q
    \<and> (\<forall>i. length (captures i (ledger_entries d)) \<le> 1
         \<and> (\<forall>r \<in> set (captures i (ledger_entries d)). captured_terms (orders d) i r))"

interpretation ci: region_inv capture_inv "{ROrders, RLedger}"
  by unfold_locales (auto simp: capture_inv_def modifies_tables orders_inv_def intro: keys_ok_mono)

text \<open>An order that left the unpaid states never returns to them.\<close>

lemma paid_stays: "order_move s t \<Longrightarrow> s \<notin> unpaid \<Longrightarrow> t \<notin> unpaid"
proof -
  have "\<forall>x \<in> - unpaid. \<forall>y \<in> set (orderTransitions x). y \<in> - unpaid"
  proof
    fix x assume "x \<in> - unpaid"
    then show "\<forall>y \<in> set (orderTransitions x). y \<in> - unpaid" by (cases x) (simp_all add: unpaid_def)
  qed
  then show "order_move s t \<Longrightarrow> s \<notin> unpaid \<Longrightarrow> t \<notin> unpaid"
    using order_move_closed [of s t "- unpaid"] by simp
qed

lemma captured_terms_evolve:
  assumes "captured_terms (orders d) i r" "orders_evolve d d'"
  shows "captured_terms (orders d') i r"
proof -
  from assms(1) obtain ord where a: "ord \<in> set (orders d)" "oID ord = i" "oStatus ord \<notin> unpaid"
    "lrDirection r = DirectionDebit" "lrAmountMinor r = oTotalMinorUnits ord" "lrCurrency r = oCurrency ord"
    by (auto simp: captured_terms_def)
  from rows_evolve_old [OF assms(2) a(1)] obtain ord' where b: "ord' \<in> set (orders d')" "order_evolves ord ord'"
    by blast
  from b(2) a(3) have "oStatus ord' \<notin> unpaid" by (auto simp: order_evolves_def dest: paid_stays)
  with a b show ?thesis unfolding captured_terms_def order_evolves_def by (intro bexI [of _ ord']) simp_all
qed

definition same_captures :: "db \<Rightarrow> db \<Rightarrow> bool" where
  "same_captures d d' \<longleftrightarrow> (\<forall>i. captures i (ledger_entries d') = captures i (ledger_entries d))"

interpretation sc: region_frame same_captures "{RLedger}"
  by unfold_locales (auto simp: same_captures_def modifies_tables)

lemma capture_quiet:
  assumes "steps (on_db orders_evolve) m" "steps (keeps orders_inv) m" "steps (on_db same_captures) m"
  shows "steps (keeps capture_inv) m"
proof (rule stepsI)
  fix s
  show "keeps capture_inv s (snd (m s))"
    using assms [THEN stepsD, of s] captured_terms_evolve [of "wdb s" _ _ "wdb (snd (m s))"]
    by (auto simp: keeps_def on_db_def capture_inv_def same_captures_def)
qed

lemma post_no_capture:
  assumes "\<forall>e \<in> set es. eDescription e \<noteq> ''payment captured''"
  shows "steps (on_db same_captures) (PostLedgerEntries es)"
proof (rule stepsI)
  fix s
  obtain r s' where p: "PostLedgerEntries es s = (r, s')" by fastforce
  have "captures i rows = []" if "rows_of g es rows" for g rows i
    using that assms unfolding rows_of_def captures_def
  proof (induction rule: list_all2_induct)
    case (Cons e es r rows)
    then have "lrDescription r = eDescription e" by (metis ledger_row.select_convs(7) ledger_row_of_def)
    with Cons show ?case by (auto simp: capture_row_def)
  qed simp
  with PostLedgerEntries_cases [OF p] p show "on_db same_captures s (snd (PostLedgerEntries es s))"
    by (auto simp: on_db_def same_captures_def captures_def)
qed

text \<open>The postings of a release or a refund describe no capture; that of a capture describes one.\<close>

lemma release_no_capture:
  "EarningsReleased oi sl am cu = Inr es \<Longrightarrow> \<forall>e \<in> set es. eDescription e \<noteq> ''payment captured''"
  by (auto simp: EarningsReleased_def release_entries_def leg_def dest!: validated_Inr split: if_splits)

lemma refund_no_capture:
  "RefundIssued oi sl am fr pr av cu = Inr es \<Longrightarrow> \<forall>e \<in> set es. eDescription e \<noteq> ''payment captured''"
  by (auto simp: RefundIssued_def refund_entries_def leg_def dest!: validated_Inr split: if_splits)

lemma capture_entries_shape:
  assumes "PaymentCaptured oi sl gross fee cu = Inr es"
  obtains e rest where "es = e # rest" "eOrderID e = Some oi" "eDescription e = ''payment captured''"
    "eDirection e = DirectionDebit" "eAmountMinor e = gross" "eCurrency e = cu"
    "\<forall>x \<in> set rest. eDescription x \<noteq> ''payment captured''"
proof -
  from assms have "es = capture_entries oi sl gross fee (wrap64 (gross - fee)) cu"
    by (auto simp: PaymentCaptured_def dest!: validated_Inr split: if_splits)
  then show ?thesis
    by (intro that) (auto simp: capture_entries_def leg_def)
qed

lemma captures_of_rows:
  assumes "rows_of g (e # rest) rows" "eOrderID e = Some oi" "eDescription e = ''payment captured''"
    "\<forall>x \<in> set rest. eDescription x \<noteq> ''payment captured''"
  obtains r where "captures oi rows = [r]" "\<And>j. j \<noteq> oi \<Longrightarrow> captures j rows = []"
    "lrDirection r = eDirection e" "lrAmountMinor r = eAmountMinor e" "lrCurrency r = eCurrency e"
proof -
  from assms(1) obtain r rs where rows: "rows = r # rs" and r: "r = ledger_row_of g (lrAccountID r) e"
    and rs: "list_all2 (\<lambda>e r. r = ledger_row_of g (lrAccountID r) e) rest rs"
    by (auto simp: rows_of_def list_all2_Cons1)
  from rs assms(4) have none: "captures j rs = []" for j
  proof (induction rule: list_all2_induct)
    case (Cons x xs y ys)
    then have "lrDescription y = eDescription x" by (metis ledger_row.select_convs(7) ledger_row_of_def)
    with Cons show ?case by (auto simp: captures_def capture_row_def)
  qed (simp add: captures_def)
  have "lrOrderID r = Some oi \<and> lrDescription r = ''payment captured'' \<and> lrDirection r = eDirection e
      \<and> lrAmountMinor r = eAmountMinor e \<and> lrCurrency r = eCurrency e"
    using assms(2,3) by (subst r, subst r, subst r, subst r, subst r) (simp add: ledger_row_of_def)
  then show ?thesis
    using none rows by (intro that [of r]) (auto simp: captures_def capture_row_def)
qed

section \<open>The operations keep it\<close>

lemma captures_transition: "CanTransitionOrder f t \<Longrightarrow> steps (keeps capture_inv) (TransitionOrder i f t)"
  by (intro capture_quiet evolve_transition inv_transition) (auto intro: sc.unaffected regions_guarded)

lemma captures_create: "steps (keeps capture_inv) (CreateOrderFromDraft df b sl g rq its su fe to cu rv)"
  by (intro capture_quiet evolve_create inv_create) (auto intro: sc.unaffected regions_create_order)

lemma captures_auto_accept: "steps (keeps capture_inv) (AutoAcceptOrders cutoff)"
  by (intro capture_quiet evolve_auto_accept inv_auto_accept) (auto intro: sc.unaffected regions_orders)

lemma captures_revision: "steps (keeps capture_inv) (CreateRevisionRequest oi b rs)"
  by (intro capture_quiet evolve_revision inv_revision) (auto intro: sc.unaffected regions_revision)

lemma captures_post:
  "\<forall>e \<in> set es. eDescription e \<noteq> ''payment captured'' \<Longrightarrow> steps (keeps capture_inv) (PostLedgerEntries es)"
  by (intro capture_quiet oec.post_ledger oic.post_ledger post_no_capture)

lemma manual_no_capture:
  "ManualAdjustment fk fo tk tow am cu oio rs = Inr es \<Longrightarrow> \<forall>e \<in> set es. eDescription e \<noteq> ''payment captured''"
  by (auto simp: ManualAdjustment_def validated_def leg_def Let_def split: if_splits option.splits)

interpretation ciw: write_contract "keeps capture_inv"
proof unfold_locales
  fix w w' M assume "touches M w w'" "M \<inter> critical = {}"
  then have "ledger_entries (wdb w') = ledger_entries (wdb w)" "orders (wdb w') = orders (wdb w)"
      "\<forall>x. wseq w x \<le> wseq w' x"
    by (auto simp: touches_def critical_def modifies_tables)
  then show "keeps capture_inv w w'"
    by (auto simp: keeps_def capture_inv_def orders_inv_def intro: keys_ok_mono)
qed (rule ci.steps_send captures_transition captures_create captures_auto_accept captures_revision
    | assumption | (rule ci.unaffected, rule op_regions, simp))+

text \<open>The posting of a capture: it is made for an order that just left \<^verbatim>\<open>pending_payment\<close>, for which
  nothing was captured before.\<close>

lemma capture_posting:
  assumes es: "PaymentCaptured (oID ord) sl (oTotalMinorUnits ord) fee (oCurrency ord) = Inr es"
    and row: "row \<in> set (orders (wdb s))" "oID row = oID ord" "oStatus row \<notin> unpaid"
      "oTotalMinorUnits row = oTotalMinorUnits ord" "oCurrency row = oCurrency ord"
    and none: "captures (oID ord) (ledger_entries (wdb s)) = []"
  shows "keeps capture_inv s (snd (PostLedgerEntries es s))"
proof -
  obtain r t where p: "PostLedgerEntries es s = (r, t)" by fastforce
  from stepsD [OF regions_posting, of s es] p
  have reg: "modifies {RLedger} (wdb s) (wdb t)" and sq: "\<forall>x. wseq s x \<le> wseq t x"
    by (simp_all add: touches_def)
  have ords: "orders (wdb t) = orders (wdb s)" using reg by (simp add: modifies_tables)
  have "capture_inv (wdb t) (wseq t)" if inv: "capture_inv (wdb s) (wseq s)"
  proof -
    have oinv: "orders_inv (wdb t) (wseq t)"
      using inv sq ords by (auto simp: capture_inv_def orders_inv_def intro: keys_ok_mono)
    from PostLedgerEntries_cases [OF p] show ?thesis
    proof (elim disjE exE conjE)
      fix e assume "wdb t = wdb s"
      with inv oinv show ?thesis by (simp add: capture_inv_def)
    next
      fix g rows
      assume rows: "rows_of g es rows" "ledger_entries (wdb t) = ledger_entries (wdb s) @ rows"
      from es obtain e rest where sh: "es = e # rest" "eOrderID e = Some (oID ord)"
        "eDescription e = ''payment captured''" "eDirection e = DirectionDebit"
        "eAmountMinor e = oTotalMinorUnits ord" "eCurrency e = oCurrency ord"
        "\<forall>x \<in> set rest. eDescription x \<noteq> ''payment captured''"
        by (rule capture_entries_shape)
      from captures_of_rows [OF rows(1) [unfolded sh(1)] sh(2,3,7)] obtain c where
        c: "captures (oID ord) rows = [c]" "\<And>j. j \<noteq> oID ord \<Longrightarrow> captures j rows = []"
          "lrDirection c = eDirection e" "lrAmountMinor c = eAmountMinor e" "lrCurrency c = eCurrency e"
        by blast
      have app: "captures j (ledger_entries (wdb t)) = captures j (ledger_entries (wdb s)) @ captures j rows" for j
        by (simp add: rows(2) captures_def)
      have new: "captured_terms (orders (wdb t)) (oID ord) c"
        unfolding captured_terms_def ords using row c(3-5) sh(4-6) by (intro bexI [of _ row]) simp_all
      show ?thesis
        unfolding capture_inv_def
      proof (intro conjI allI oinv)
        fix i
        show "length (captures i (ledger_entries (wdb t))) \<le> 1"
          using inv none c app by (cases "i = oID ord") (auto simp: capture_inv_def)
        show "\<forall>r \<in> set (captures i (ledger_entries (wdb t))). captured_terms (orders (wdb t)) i r"
          using inv none c app new ords by (cases "i = oID ord") (auto simp: capture_inv_def)
      qed
    qed
  qed
  with sq p show ?thesis by (simp add: keeps_def)
qed

lemma GetOrder_found:
  "GetOrder i s = (Inr ord, t) \<Longrightarrow> wdb t = wdb s \<and> wseq t = wseq s \<and> ord \<in> set (orders (wdb s)) \<and> oID ord = i"
  unfolding GetOrder_def
  by (erule query_cases) (auto simp: one_row_def split: option.splits dest!: find_SomeD)

lemma finish_capture_keeps:
  assumes "row \<in> set (orders (wdb s))" "oID row = oID ord" "oStatus row \<notin> unpaid"
    "oTotalMinorUnits row = oTotalMinorUnits ord" "oCurrency row = oCurrency ord"
    "captures (oID ord) (ledger_entries (wdb s)) = []"
  shows "keeps capture_inv s (snd (finish_capture ord s))"
proof (cases "PaymentCaptured (oID ord) (oSellerID ord) (oTotalMinorUnits ord) (oPlatformFeeMinorUnits ord) (oCurrency ord)")
  case (Inl e)
  then show ?thesis by (simp add: finish_capture_def stepsD [OF ci.fr.steps_fail])
next
  case es: (Inr es)
  show ?thesis
    unfolding finish_capture_def es sum.case
    by (rule ci.fr.rel_call, rule capture_posting [OF es assms]; rule stepsD;
      intro ciw.handler_rules; simp add: CanTransitionOrder_def)
qed

text \<open>The order the capture moved to \<^verbatim>\<open>paid\<close>, and that nothing was captured for it.\<close>

lemma moved_to_paid:
  assumes inv: "capture_inv (wdb s) (wseq s)" and ord: "ord \<in> set (orders (wdb s))" "oStatus ord = OrderPendingPayment"
    and tr: "TransitionOrder (oID ord) OrderPendingPayment OrderPaid s = (Inr x, t)"
  shows "set_order_status OrderPaid (wnow s) ord \<in> set (orders (wdb t))"
    and "captures (oID ord) (ledger_entries (wdb t)) = []"
proof -
  from inv have dist: "distinct (map oID (orders (wdb s)))"
    by (simp add: capture_inv_def orders_inv_def keys_ok_def)
  have cas: "TransitionOrder (oID ord) (fst (OrderPendingPayment, OrderPaid)) (snd (OrderPendingPayment, OrderPaid)) s = (Inr (), t)"
    using tr by simp
  from order_cas.winner [OF cas dist] obtain r where r: "r \<in> set (orders (wdb s))" "oID r = oID ord"
    "set_order_status OrderPaid (wnow s) r \<in> set (orders (wdb t))" by (metis snd_conv)
  with distinct_map_eq [OF dist r(1) ord(1) r(2)]
  show "set_order_status OrderPaid (wnow s) ord \<in> set (orders (wdb t))" by simp
  have led: "ledger_entries (wdb t) = ledger_entries (wdb s)"
    using stepsD [OF regions_guarded(1), of s "oID ord" OrderPendingPayment OrderPaid] tr
    by (auto simp: touches_def dest: modifies_tables(3))
  have "c \<notin> set (captures (oID ord) (ledger_entries (wdb s)))" for c
    using inv distinct_map_eq [OF dist _ ord(1)] ord(2)
    by (fastforce simp: capture_inv_def captured_terms_def unpaid_def)
  with led show "captures (oID ord) (ledger_entries (wdb t)) = []"
    by (metis list.set_intros(1) neq_Nil_conv)
qed

lemma captures_capture: "steps (keeps capture_inv) (capturePaymentForOrder p)"
proof (rule stepsI)
  fix s
  show "keeps capture_inv s (snd (capturePaymentForOrder p s))"
  proof (cases "capture_inv (wdb s) (wseq s)")
    case False
    from stepsD [OF oic.capture, of s p] False show ?thesis by (simp add: keeps_def)
  next
    case inv: True
    have go: "keeps capture_inv t (snd (call (TransitionOrder (oID ord) OrderPendingPayment OrderPaid)
        (\<lambda>e. if e = ErrNotFound then ret () else fail e) (\<lambda>_. finish_capture ord) t))"
      if g: "GetOrder (piOrderID p) s = (Inr ord, t)" "oStatus ord = OrderPendingPayment" for ord t
    proof -
      from GetOrder_found [OF g(1)] inv have t: "capture_inv (wdb t) (wseq t)" "ord \<in> set (orders (wdb t))" by auto
      note moved = moved_to_paid [OF t g(2)]
      show ?thesis
      proof (rule ci.fr.rel_call)
        show "keeps capture_inv t (snd (TransitionOrder (oID ord) OrderPendingPayment OrderPaid t))"
          by (rule stepsD [OF captures_transition]) (simp add: CanTransitionOrder_def)
      qed (rule stepsD, intro ci.fr.frame_rules,
        rule finish_capture_keeps [OF moved(1)], auto simp: set_order_status_def unpaid_def dest: moved(2))
    qed
    show ?thesis
      unfolding capturePaymentForOrder_def
      by (rule ci.fr.rel_call, rule stepsD, rule ciw.quiet_ops, simp)
        (auto simp: ret_def fail_def ci.fr.frame_refl go)
  qed
qed

interpretation cic: money_contract "keeps capture_inv"
  by unfold_locales (erule captures_capture captures_post [OF release_no_capture] captures_post [OF refund_no_capture]
      captures_post [OF manual_no_capture]
    | rule captures_capture
    | (rule ciw.gig_status_rule, rule ci.unaffected, rule regions_catalog_rows, simp))+

end
