(* ===== verification/PaymentInvariants.thy ===== *)
theory PaymentInvariants
  imports LedgerInvariants
begin

text \<open>
  What the whole program guarantees about payment intents, webhook events and refunds: the terms of
  an intent never change and its status moves only along \<^verbatim>\<open>paymentTransitions\<close>; a processed webhook
  event stays processed; idempotency keys and event identifiers are unique; an order has at most one
  refund that did not fail.
\<close>

section \<open>Evolution of intents and webhook events\<close>

definition intent_evolves :: "payment_intent \<Rightarrow> payment_intent \<Rightarrow> bool" where
  "intent_evolves q r \<longleftrightarrow> piID r = piID q \<and> piOrderID r = piOrderID q \<and> piProvider r = piProvider q
    \<and> piMethod r = piMethod q \<and> piAmountMinor r = piAmountMinor q \<and> piCurrency r = piCurrency q
    \<and> piIdempotencyKey r = piIdempotencyKey q \<and> piCreatedAt r = piCreatedAt q
    \<and> payment_move (piStatus q) (piStatus r)"

definition intent_born :: "payment_intent \<Rightarrow> bool" where
  "intent_born r \<longleftrightarrow> (\<exists>q. piStatus q = PaymentPending \<and> intent_evolves q r)"

abbreviation intents_evolve :: "db \<Rightarrow> db \<Rightarrow> bool" where
  "intents_evolve d d' \<equiv> rows_evolve intent_evolves intent_born (payment_intents d) (payment_intents d')"

lemma intent_evolves_refl [simp]: "intent_evolves r r" by (simp add: intent_evolves_def)
lemma intent_evolves_trans: "intent_evolves p q \<Longrightarrow> intent_evolves q r \<Longrightarrow> intent_evolves p r"
  unfolding intent_evolves_def by (auto intro: payment_move_trans)
lemma intent_born_fresh: "piStatus r = PaymentPending \<Longrightarrow> intent_born r"
  unfolding intent_born_def by (blast intro: intent_evolves_refl)

interpretation ie: row_evolution payment_intents intent_evolves intent_born "{RIntents}"
  by unfold_locales (auto intro: intent_evolves_trans simp: modifies_tables intent_born_def)

lemma intent_create: "steps (on_db intents_evolve) (CreatePaymentIntent oi pr me am cu k)"
  unfolding CreatePaymentIntent_def insert_payment_intent_def
  by (intro ie.rf.fr.frame_rules ie.rf.steps_insert)
    (auto simp: Let_def split: if_splits intro!: ie.evolve_append intent_born_fresh)

lemma intent_updates:
  "steps (on_db intents_evolve) (SetPaymentIntentSession i rf url ex)"
  "steps (on_db intents_evolve) (SetPaymentIntentChargeRef i cr)"
  "CanTransitionPayment f t \<Longrightarrow> steps (on_db intents_evolve) (TransitionPaymentIntent i f t)"
  unfolding SetPaymentIntentSession_def SetPaymentIntentChargeRef_def TransitionPaymentIntent_def guarded_update_def
  by (rule ie.rf.steps_exec; auto split: if_splits intro!: ie.evolve_update payment_move_step
    simp: intent_evolves_def set_intent_status_def)+

interpretation iec: store_contract "on_db intents_evolve"
proof unfold_locales
  fix w w' M assume "touches M w w'" "M \<inter> critical = {}"
  then have "payment_intents (wdb w') = payment_intents (wdb w)"
    by (auto simp: touches_def critical_def modifies_tables)
  then show "on_db intents_evolve w w'" by (simp add: on_db_def ie.evolve_same)
qed (rule ie.rf.steps_send intent_create intent_updates | assumption | (rule ie.rf.unaffected, rule op_regions, simp))+

definition event_evolves :: "webhook_event \<Rightarrow> webhook_event \<Rightarrow> bool" where
  "event_evolves q r \<longleftrightarrow> whID r = whID q \<and> whProvider r = whProvider q \<and> whEventID r = whEventID q
    \<and> whPayload r = whPayload q \<and> whAttempts q \<le> whAttempts r
    \<and> (whStatus q = WebhookProcessed \<longrightarrow> whStatus r = WebhookProcessed)"

abbreviation events_evolve :: "db \<Rightarrow> db \<Rightarrow> bool" where
  "events_evolve d d' \<equiv> rows_evolve event_evolves (\<lambda>_. True) (webhook_events d) (webhook_events d')"

interpretation ee: row_evolution webhook_events event_evolves "\<lambda>_. True" "{RWebhooks}"
  by unfold_locales (auto simp: event_evolves_def modifies_tables)

lemma event_updates:
  "steps (on_db events_evolve) (InsertWebhookEvent pr ev ty rf wp ph)"
  "steps (on_db events_evolve) (MarkWebhookProcessed i)"
  "steps (on_db events_evolve) (RecordPaymentAttempt i pst fc fm)"
  unfolding InsertWebhookEvent_def MarkWebhookProcessed_def RecordPaymentAttempt_def
  by (intro ee.rf.steps_insert ee.rf.steps_exec;
    auto split: if_splits intro!: ee.evolve_append ee.evolve_update ee.evolve_same simp: event_evolves_def)+

interpretation eec: store_contract "on_db events_evolve"
proof unfold_locales
  fix w w' M assume "touches M w w'" "M \<inter> critical = {}"
  then have "webhook_events (wdb w') = webhook_events (wdb w)"
    by (auto simp: touches_def critical_def modifies_tables)
  then show "on_db events_evolve w w'" by (simp add: on_db_def ee.evolve_same)
qed (rule ee.rf.steps_send event_updates | assumption | (rule ee.rf.unaffected, rule op_regions, simp))+

section \<open>Keys\<close>

definition intents_ok :: "int \<Rightarrow> payment_intent list \<Rightarrow> bool" where
  "intents_ok n ps \<longleftrightarrow> keys_ok piID n ps \<and> distinct (map piIdempotencyKey ps)
    \<and> (\<forall>p \<in> set ps. piProvider p \<in> set intent_providers \<and> (piStatus p = PaymentSucceeded \<longrightarrow> piSucceededAt p \<noteq> None))"

definition events_ok :: "int \<Rightarrow> webhook_event list \<Rightarrow> bool" where
  "events_ok n ws \<longleftrightarrow> keys_ok whID n ws \<and> distinct (map (\<lambda>w. (whProvider w, whEventID w)) ws)"

definition refunds_ok :: "int \<Rightarrow> refund list \<Rightarrow> bool" where
  "refunds_ok n rs \<longleftrightarrow> keys_ok rfID n rs \<and> unique_on rfOrderID (\<lambda>r. rfStatus r \<noteq> PaymentFailed) rs
    \<and> (\<forall>r \<in> set rs. rfStatus r \<in> set refund_statuses)"

definition payments_inv :: "db \<Rightarrow> (table \<Rightarrow> int) \<Rightarrow> bool" where
  "payments_inv d q \<longleftrightarrow> intents_ok (q TPaymentIntents) (payment_intents d)
    \<and> events_ok (q TWebhookEvents) (webhook_events d) \<and> refunds_ok (q TRefunds) (refunds d)"

lemma payments_inv_mono:
  "payments_inv d q \<Longrightarrow> (\<And>x. q x \<le> q' x) \<Longrightarrow> payment_intents d' = payment_intents d \<Longrightarrow>
    webhook_events d' = webhook_events d \<Longrightarrow> refunds d' = refunds d \<Longrightarrow> payments_inv d' q'"
  by (auto simp: payments_inv_def intents_ok_def events_ok_def refunds_ok_def intro: keys_ok_mono)

interpretation pv: region_inv payments_inv "{RIntents, RWebhooks, RRefunds}"
proof unfold_locales
  show "payments_inv d q \<Longrightarrow> (\<And>x. q x \<le> q' x) \<Longrightarrow> payments_inv d q'" for d q q'
    by (rule payments_inv_mono) simp_all
  show "modifies M d d' \<Longrightarrow> M \<inter> {RIntents, RWebhooks, RRefunds} = {} \<Longrightarrow> payments_inv d q \<Longrightarrow> payments_inv d' q"
    for M d d' q
    by (erule payments_inv_mono) (auto simp: modifies_tables)
qed

lemma payments_create: "steps (keeps payments_inv) (CreatePaymentIntent oi pr me am cu k)"
  unfolding CreatePaymentIntent_def insert_payment_intent_def
  by (intro pv.fr.frame_rules pv.steps_insert)
    (auto simp: payments_inv_def intents_ok_def Let_def split: if_splits intro: keys_ok_snoc)

lemma intents_ok_update:
  assumes ok: "intents_ok n ps" and step: "\<And>p. piID (f p) = piID p \<and> piIdempotencyKey (f p) = piIdempotencyKey p
    \<and> piProvider (f p) = piProvider p \<and> (piStatus (f p) = PaymentSucceeded \<longrightarrow>
      piSucceededAt (f p) \<noteq> None \<or> (piStatus p = PaymentSucceeded \<and> piSucceededAt (f p) = piSucceededAt p))"
  shows "intents_ok n (update_where P f ps)"
proof -
  have fields: "piID (f p) = piID p" "piIdempotencyKey (f p) = piIdempotencyKey p" "piProvider (f p) = piProvider p" for p
    using step [of p] by simp_all
  have stamped: "piStatus (f p) = PaymentSucceeded \<Longrightarrow>
      (piStatus p = PaymentSucceeded \<longrightarrow> (\<exists>y. piSucceededAt p = Some y)) \<Longrightarrow> \<exists>y. piSucceededAt (f p) = Some y" for p
    using step [of p] by auto
  show ?thesis
    using ok unfolding intents_ok_def
    by (auto simp: keys_ok_update map_update_where fields set_update_where split: if_splits intro!: stamped)
qed

lemma payments_updates:
  "steps (keeps payments_inv) (SetPaymentIntentSession i rf url ex)"
  "steps (keeps payments_inv) (SetPaymentIntentChargeRef i cr)"
  "steps (keeps payments_inv) (TransitionPaymentIntent i f t)"
  unfolding SetPaymentIntentSession_def SetPaymentIntentChargeRef_def TransitionPaymentIntent_def guarded_update_def
  by (rule pv.steps_exec; auto split: if_splits intro!: intents_ok_update simp: payments_inv_def set_intent_status_def)+

lemma payments_events:
  "steps (keeps payments_inv) (InsertWebhookEvent pr ev ty rf wp ph)"
  "steps (keeps payments_inv) (MarkWebhookProcessed j)"
  "steps (keeps payments_inv) (RecordPaymentAttempt j pst fc fm)"
  unfolding InsertWebhookEvent_def MarkWebhookProcessed_def RecordPaymentAttempt_def
  by (intro pv.steps_insert pv.steps_exec;
    auto simp: payments_inv_def events_ok_def keys_ok_update map_update_where split: if_splits
      intro: keys_ok_snoc keys_ok_mono)+

lemma payments_refunds:
  "steps (keeps payments_inv) (CreateRefund oi pin by rs am cu)"
  "steps (keeps payments_inv) (SetRefundStatus j st rf)"
proof -
  show "steps (keeps payments_inv) (CreateRefund oi pin by rs am cu)"
    unfolding CreateRefund_def insert_refund_def
    by (intro pv.fr.frame_rules pv.steps_insert)
      (auto simp: payments_inv_def refunds_ok_def refund_statuses_def split: if_splits
        intro: keys_ok_snoc unique_on_snoc)
  show "steps (keeps payments_inv) (SetRefundStatus j st rf)"
    unfolding SetRefundStatus_def Let_def
    by (rule pv.steps_exec) (auto simp: payments_inv_def refunds_ok_def keys_ok_update unique_on_def
      set_update_where split: if_splits)
qed

interpretation pvc: store_contract "keeps payments_inv"
proof unfold_locales
  fix w w' M assume "touches M w w'" "M \<inter> critical = {}"
  then have "payment_intents (wdb w') = payment_intents (wdb w)" "webhook_events (wdb w') = webhook_events (wdb w)"
      "refunds (wdb w') = refunds (wdb w)" "\<forall>x. wseq w x \<le> wseq w' x"
    by (auto simp: touches_def critical_def modifies_tables)
  then show "keeps payments_inv w w'" by (auto simp: keeps_def intro: payments_inv_mono)
qed (rule pv.steps_send payments_create payments_updates payments_events payments_refunds
    | assumption | (rule pv.unaffected, rule op_regions, simp))+

end
