(* ===== verification/Settlement.thy ===== *)
theory Settlement
  imports PaymentInvariants
begin

text \<open>
  The way of the money: what the capture of a payment, the acceptance of a delivery and the refund of
  an order do to the order and to the balances of the ledger when the database works.
\<close>

section \<open>Operations on a working database\<close>

text \<open>The clock stands still during an operation, and a working database stays so.\<close>

definition steady :: "world \<Rightarrow> world \<Rightarrow> bool" where
  "steady s t \<longleftrightarrow> wnow t = wnow s \<and> (reliable s \<longrightarrow> reliable t)"

interpretation st: frame steady
  by unfold_locales (auto simp: steady_def)

lemma steady_stmt: "steps steady m \<Longrightarrow> steps steady (stmt m)"
  by (auto simp: steps_def steady_def stmt_def split: list.splits)

lemma steady_query: "steps steady (query f)"
  unfolding query_def by (rule steady_stmt) (simp add: steps_def steady_def)

lemma steady_exec: "steps steady (exec f)"
  unfolding exec_def by (rule steady_stmt) (auto simp: steps_def steady_def split: sum.splits)

lemma steady_insert: "steps steady (insert_row t f)"
  unfolding insert_row_def by (rule steady_stmt) (auto simp: steps_def steady_def Let_def split: sum.splits)

lemma steady_tx:
  assumes m: "steps steady m"
  shows "steps steady (tx m)"
proof -
  have b: "steps steady (stmt (ret ()))" by (intro steady_stmt st.frame_rules)
  have undo: "steady s u \<Longrightarrow> steady s (u\<lparr>wdb := d\<rparr>)" for s u d by (simp add: steady_def)
  have run: "steady s t \<Longrightarrow> steady s (snd (n t))" if "steps steady n" for s t and n :: "'x op"
    using stepsD [OF that, of t] by (blast intro: st.frame_trans)
  show ?thesis
  proof (rule stepsI)
    fix s
    obtain r1 s1 where r1: "stmt (ret ()) s = (r1, s1)" by fastforce
    obtain r2 s2 where r2: "m s1 = (r2, s2)" by fastforce
    obtain r3 s3 where r3: "stmt (ret ()) s2 = (r3, s3)" by fastforce
    have s1: "steady s s1" using stepsD [OF b, of s] r1 by simp
    have s2: "steady s s2" using run [OF m s1] r2 by simp
    have s3: "steady s s3" using run [OF b s2] r3 by simp
    show "steady s (snd (tx m s))"
      using r1 r2 r3 s1 s2 s3 undo by (cases r1; cases r2; cases r3) (auto simp: tx_def op_defs)
  qed
qed

lemmas steady_rules = st.frame_rules steady_query steady_exec steady_insert steady_tx

lemma steady_ops: "steps steady (PostLedgerEntries es)" "steps steady (notifyOrderParty u k bd lk)"
  "steps steady (LatestPaymentIntentForOrder i)"
  unfolding PostLedgerEntries_def randomUUID_def post_entry_def getOrCreateLedgerAccount_def insert_ledger_entry_def
    notifyOrderParty_def CreateNotification_def EnqueueJob_def LatestPaymentIntentForOrder_def Let_def
  by (intro steady_rules; simp)+

lemma TransitionOrder_run:
  assumes "reliable s" "distinct (map oID (orders (wdb s)))" "ord \<in> set (orders (wdb s))" "oStatus ord = f"
  shows "TransitionOrder (oID ord) f t s = (Inr (), s\<lparr>wdb := (wdb s)\<lparr>orders :=
      update_where (\<lambda>r. oID r = oID ord) (set_order_status t (wnow s)) (orders (wdb s))\<rparr>\<rparr>)"
proof -
  have "filter (\<lambda>r. oID r = oID ord \<and> oStatus r = f) (orders (wdb s)) \<noteq> []"
    using assms(3,4) by (auto simp: filter_empty_conv)
  moreover have "update_where (\<lambda>r. oID r = oID ord \<and> oStatus r = f) g (orders (wdb s))
      = update_where (\<lambda>r. oID r = oID ord) g (orders (wdb s))" for g
    using distinct_map_eq [OF assms(2) _ assms(3)] assms(4) by (auto simp: update_where_def)
  ultimately show ?thesis using assms(1) by (simp add: TransitionOrder_def guarded_update_def op_simps)
qed

lemma GetOrder_run:
  "reliable s \<Longrightarrow> distinct (map oID (orders (wdb s))) \<Longrightarrow> ord \<in> set (orders (wdb s)) \<Longrightarrow>
    GetOrder (oID ord) s = (Inr ord, s)"
  by (simp add: GetOrder_def op_simps one_row_def find_unique)

text \<open>A posting leaves the orders and the clock alone.\<close>

lemma posting_run:
  assumes "reliable s" "ledger_wf s" "Validate es = None" "\<forall>e \<in> set es. eAccountKind e \<in> set ledger_kinds"
  obtains g s' where "PostLedgerEntries es s = (Inr g, s')" "reliable s'" "ledger_wf s'" "wnow s' = wnow s"
    "orders (wdb s') = orders (wdb s)"
    "\<And>k ow c. ledger_balance k ow c (wdb s') = ledger_balance k ow c (wdb s) + account_effect k ow c es"
proof -
  from PostLedgerEntries_reliable [OF assms(1,3,4)] obtain g s' where
    p: "PostLedgerEntries es s = (Inr g, s')" "reliable s'" by blast
  from stepsD [OF regions_posting, of s es] p have "orders (wdb s') = orders (wdb s)"
    by (auto simp: touches_def dest: modifies_tables)
  moreover have "wnow s' = wnow s"
    using stepsD [OF steady_ops(1), of s es] p by (simp add: steady_def)
  ultimately show ?thesis using that p PostLedgerEntries_balance [OF assms(2) p(1)] by blast
qed

lemma notice_run:
  assumes "reliable s"
  shows "reliable (snd (notifyOrderParty u k bd lk s))" "orders (wdb (snd (notifyOrderParty u k bd lk s))) = orders (wdb s)"
    "ledger_entries (wdb (snd (notifyOrderParty u k bd lk s))) = ledger_entries (wdb s)"
    "ledger_accounts (wdb (snd (notifyOrderParty u k bd lk s))) = ledger_accounts (wdb s)"
proof -
  show "reliable (snd (notifyOrderParty u k bd lk s))"
    using stepsD [OF steady_ops(2), of s u k bd lk] assms by (simp add: steady_def)
  have "steps (touches {RNotices, RJobs}) (notifyOrderParty u k bd lk)"
    unfolding notifyOrderParty_def
    by (intro touches_rules; rule op_regions [THEN touches_mono]; simp)
  from stepsD [OF this, of s] show "orders (wdb (snd (notifyOrderParty u k bd lk s))) = orders (wdb s)"
    "ledger_entries (wdb (snd (notifyOrderParty u k bd lk s))) = ledger_entries (wdb s)"
    "ledger_accounts (wdb (snd (notifyOrderParty u k bd lk s))) = ledger_accounts (wdb s)"
    by (auto simp: touches_def dest: modifies_tables)
qed

lemma ledger_balance_cong:
  "ledger_entries d' = ledger_entries d \<Longrightarrow> ledger_accounts d' = ledger_accounts d \<Longrightarrow>
    ledger_balance k ow c d' = ledger_balance k ow c d"
  by (simp add: ledger_balance_def account_balance_of_def [abs_def])

section \<open>Capture\<close>

text \<open>C4: capturing the payment of a pending order takes the order to work, with the time of the
  payment, and posts the total: the clearing account owes it, the platform earns its fee, and the
  seller's pending account the rest; no other balance moves.\<close>

theorem capture_settles:
  assumes "reliable s" "ledger_wf s" "distinct (map oID (orders (wdb s)))" "ord \<in> set (orders (wdb s))"
    and "oStatus ord = OrderPendingPayment" "piOrderID intent = oID ord"
    and "in_int64 (oTotalMinorUnits ord)" "0 < oTotalMinorUnits ord"
    and "0 \<le> oPlatformFeeMinorUnits ord" "oPlatformFeeMinorUnits ord \<le> oTotalMinorUnits ord"
  shows "\<exists>s'. capturePaymentForOrder intent s = (Inr (), s')
    \<and> (\<exists>q \<in> set (orders (wdb s')). oID q = oID ord \<and> oStatus q = OrderInProgress \<and> oPaidAt q = Some (wnow s))
    \<and> (\<forall>k ow c. ledger_balance k ow c (wdb s') = ledger_balance k ow c (wdb s) +
        (if c \<noteq> oCurrency ord then 0
         else if (k, ow) = (AccountProviderClearing, None) then - oTotalMinorUnits ord
         else if (k, ow) = (AccountPlatformRevenue, None) then oPlatformFeeMinorUnits ord
         else if (k, ow) = (AccountSellerPending, Some (oSellerID ord))
           then oTotalMinorUnits ord - oPlatformFeeMinorUnits ord else 0))"
proof -
  let ?es = "capture_entries (oID ord) (oSellerID ord) (oTotalMinorUnits ord) (oPlatformFeeMinorUnits ord)
    (oTotalMinorUnits ord - oPlatformFeeMinorUnits ord) (oCurrency ord)"
  let ?paid = "update_where (\<lambda>r. oID r = oID ord) (set_order_status OrderPaid (wnow s)) (orders (wdb s))"
  let ?t = "s\<lparr>wdb := (wdb s)\<lparr>orders := ?paid\<rparr>\<rparr>"
  let ?ord = "set_order_status OrderPaid (wnow s) ord"
  have es: "PaymentCaptured (oID ord) (oSellerID ord) (oTotalMinorUnits ord) (oPlatformFeeMinorUnits ord) (oCurrency ord) = Inr ?es"
    using PaymentCaptured_Inr [OF assms(7)] assms(8-10) by blast
  have v: "Validate ?es = None" by (intro balanced_Validate balanced_capture assms)
  have kinds: "\<forall>e \<in> set ?es. eAccountKind e \<in> set ledger_kinds"
    by (auto simp: capture_entries_def ledger_kinds_def)
  have t: "reliable ?t" "ledger_wf ?t" using assms(1,2) by (simp_all add: ledger_wf_def)
  obtain g u where p: "PostLedgerEntries ?es ?t = (Inr g, u)" "reliable u" "wnow u = wnow ?t"
    "orders (wdb u) = orders (wdb ?t)"
    and b: "\<And>k ow c. ledger_balance k ow c (wdb u) = ledger_balance k ow c (wdb ?t) + account_effect k ow c ?es"
    by (rule posting_run [OF t v kinds]) blast
  have dist: "distinct (map oID ?paid)" using assms(3) by (simp add: map_update_where)
  have mem: "?ord \<in> set ?paid" using assms(4) by (force simp: set_update_where)
  let ?v = "u\<lparr>wdb := (wdb u)\<lparr>orders := update_where (\<lambda>r. oID r = oID ord) (set_order_status OrderInProgress (wnow u)) ?paid\<rparr>\<rparr>"
  have tr: "TransitionOrder (oID ord) OrderPaid OrderInProgress u = (Inr (), ?v)"
    using TransitionOrder_run [of u ?ord OrderPaid OrderInProgress] p(2,4) dist mem by (simp add: set_order_status_def)
  let ?n1 = "notifyOrderParty (oBuyerID ord) ''payment.succeeded''
    (''Payment received for order #'' @ show_int (oID ord)) (orderRedirect (oID ord))"
  let ?n2 = "notifyOrderParty (oSellerID ord) ''order.started''
    (''Order #'' @ show_int (oID ord) @ '' is paid and ready to start'') (orderRedirect (oID ord))"
  let ?w = "snd (?n2 (snd (?n1 ?v)))"
  have run: "capturePaymentForOrder intent s = (Inr (), ?w)"
    using assms(5,6) GetOrder_run [OF assms(1,3,4)] TransitionOrder_run [OF assms(1,3,4,5), of OrderPaid] es p(1) tr
    by (simp add: capturePaymentForOrder_def finish_capture_def op_simps also_do_def ret_def)
  have rv: "reliable ?v" using p(2) by simp
  note n1 = notice_run [OF rv, where u = "oBuyerID ord" and k = "''payment.succeeded''"
    and bd = "''Payment received for order #'' @ show_int (oID ord)" and lk = "orderRedirect (oID ord)"]
  note n2 = notice_run [OF n1(1), where u = "oSellerID ord" and k = "''order.started''"
    and bd = "''Order #'' @ show_int (oID ord) @ '' is paid and ready to start''" and lk = "orderRedirect (oID ord)"]
  have "orders (wdb ?w) = orders (wdb ?v)" using n1 n2 by simp
  moreover have "set_order_status OrderInProgress (wnow u) ?ord \<in> set (orders (wdb ?v))"
    using mem by (force simp: set_update_where)
  moreover have "ledger_balance k ow c (wdb ?w) = ledger_balance k ow c (wdb u)" for k ow c
    using n1 n2 by (intro ledger_balance_cong) simp_all
  moreover have "ledger_balance k ow c (wdb ?t) = ledger_balance k ow c (wdb s)" for k ow c
    by (intro ledger_balance_cong) simp_all
  ultimately show ?thesis
    using run b assms(9,10) p(3)
    by (intro exI [of _ ?w] conjI bexI [of _ "set_order_status OrderInProgress (wnow u) ?ord"])
      (auto simp: capture_effect set_order_status_def)
qed

theorem capture_settles_witness:
  "\<exists>s'. capturePaymentForOrder (sample_intent 7 PaymentSucceeded) (with_orders [sample_order 7 OrderPendingPayment]) = (Inr (), s')
    \<and> ledger_balance AccountSellerPending (Some 3) ''USD'' (wdb s') = 2500"
proof -
  let ?ord = "sample_order 7 OrderPendingPayment"
  let ?s = "with_orders [?ord]"
  have "reliable ?s" "ledger_wf ?s" "distinct (map oID (orders (wdb ?s)))" "?ord \<in> set (orders (wdb ?s))"
    by (simp_all add: deployed_def ledger_wf_def migrated_def)
  moreover have "in_int64 (oTotalMinorUnits ?ord)" by (simp add: in_int64_def)
  moreover have "ledger_balance k ow c (wdb ?s) = 0" for k ow c by (simp add: ledger_balance_def migrated_def)
  ultimately show ?thesis
    using capture_settles [of ?s ?ord "sample_intent 7 PaymentSucceeded"] by (auto simp: account_kinds)
qed

section \<open>Release\<close>

definition paid_by :: "order \<Rightarrow> db \<Rightarrow> bool" where
  "paid_by ord d \<longleftrightarrow> (\<exists>p. latest_by piCreatedAt (filter (\<lambda>p. piOrderID p = oID ord) (payment_intents d)) = Some p
    \<and> piStatus p = PaymentSucceeded)"

lemma release_run:
  assumes "reliable s" "ledger_wf s" "paid_by ord (wdb s)"
    and "in_int64 (oTotalMinorUnits ord)" "0 \<le> oPlatformFeeMinorUnits ord" "oPlatformFeeMinorUnits ord < oTotalMinorUnits ord"
  obtains s' where "releaseSellerEarnings ord s = (Inr (), s')" "reliable s'" "orders (wdb s') = orders (wdb s)"
    "\<And>k ow c. ledger_balance k ow c (wdb s') = ledger_balance k ow c (wdb s) + account_effect k ow c
      (release_entries (oID ord) (oSellerID ord) (oTotalMinorUnits ord - oPlatformFeeMinorUnits ord) (to_lower (oCurrency ord)))"
proof -
  let ?payable = "oTotalMinorUnits ord - oPlatformFeeMinorUnits ord"
  let ?es = "release_entries (oID ord) (oSellerID ord) ?payable (to_lower (oCurrency ord))"
  have w: "wrap64 ?payable = ?payable" "0 < ?payable"
    using assms(4-6) by (simp_all add: in_int64_def)
  from assms(3) obtain p where p: "LatestPaymentIntentForOrder (oID ord) s = (Inr p, s)" "piStatus p = PaymentSucceeded"
    using assms(1) by (auto simp: paid_by_def LatestPaymentIntentForOrder_def op_simps one_row_def)
  have v: "Validate ?es = None" using w(2) by (intro balanced_Validate balanced_release)
  have kinds: "\<forall>e \<in> set ?es. eAccountKind e \<in> set ledger_kinds"
    by (simp add: release_entries_def ledger_kinds_def)
  obtain g t where g: "PostLedgerEntries ?es s = (Inr g, t)" "reliable t" "orders (wdb t) = orders (wdb s)"
    "\<And>k ow c. ledger_balance k ow c (wdb t) = ledger_balance k ow c (wdb s) + account_effect k ow c ?es"
    by (rule posting_run [OF assms(1,2) v kinds]) blast
  have "EarningsReleased (oID ord) (oSellerID ord) ?payable (to_lower (oCurrency ord)) = Inr ?es"
    using w(2) by (simp add: EarningsReleased_Inr)
  with p w g(1) have "releaseSellerEarnings ord s = (Inr (), t)"
    by (simp add: releaseSellerEarnings_def op_simps Let_def also_do_def ret_def)
  with g(2-4) that show ?thesis by blast
qed

lemma notices_run:
  "orders (wdb (snd (audit ac an et ei s))) = orders (wdb s)" "orders (wdb (snd (notify u k bd lk s))) = orders (wdb s)"
  "ledger_balance a ow c (wdb (snd (audit ac an et ei s))) = ledger_balance a ow c (wdb s)"
  "ledger_balance a ow c (wdb (snd (notify u k bd lk s))) = ledger_balance a ow c (wdb s)"
proof -
  have "steps (touches {RNotices, RJobs}) (audit ac an et ei)" "steps (touches {RNotices, RJobs}) (notify u k bd lk)"
    unfolding audit_def notify_def
    by (intro touches_rules; rule op_regions [THEN touches_mono]; simp)+
  from this [THEN stepsD, of s] show "orders (wdb (snd (audit ac an et ei s))) = orders (wdb s)"
    "orders (wdb (snd (notify u k bd lk s))) = orders (wdb s)"
    "ledger_balance a ow c (wdb (snd (audit ac an et ei s))) = ledger_balance a ow c (wdb s)"
    "ledger_balance a ow c (wdb (snd (notify u k bd lk s))) = ledger_balance a ow c (wdb s)"
    by (auto simp: touches_def dest: modifies_tables intro!: ledger_balance_cong)
qed

lemma accept_run:
  assumes "reliable s" "ledger_wf s" "distinct (map oID (orders (wdb s)))" "ord \<in> set (orders (wdb s))"
    and "oStatus ord = OrderDelivered" "oBuyerID ord = uID u" "path_id r ''id'' = Some (oID ord)" "paid_by ord (wdb s)"
    and "in_int64 (oTotalMinorUnits ord)" "0 \<le> oPlatformFeeMinorUnits ord" "oPlatformFeeMinorUnits ord < oTotalMinorUnits ord"
  obtains s' where "orderAccept u r s = (Redirect (orderRedirect (oID ord)), s')"
    "set_order_status OrderAccepted (wnow s) ord \<in> set (orders (wdb s'))"
    "\<And>k ow c. ledger_balance k ow c (wdb s') = ledger_balance k ow c (wdb s) + account_effect k ow c
      (release_entries (oID ord) (oSellerID ord) (oTotalMinorUnits ord - oPlatformFeeMinorUnits ord) (to_lower (oCurrency ord)))"
proof -
  let ?t = "s\<lparr>wdb := (wdb s)\<lparr>orders := update_where (\<lambda>r. oID r = oID ord) (set_order_status OrderAccepted (wnow s)) (orders (wdb s))\<rparr>\<rparr>"
  have t: "reliable ?t" "ledger_wf ?t" "paid_by ord (wdb ?t)"
    using assms(1,2,8) by (simp_all add: ledger_wf_def paid_by_def)
  obtain v where v: "releaseSellerEarnings ord ?t = (Inr (), v)" "orders (wdb v) = orders (wdb ?t)"
    "\<And>k ow c. ledger_balance k ow c (wdb v) = ledger_balance k ow c (wdb ?t) + account_effect k ow c
      (release_entries (oID ord) (oSellerID ord) (oTotalMinorUnits ord - oPlatformFeeMinorUnits ord) (to_lower (oCurrency ord)))"
    by (rule release_run [OF t assms(9-11)]) blast
  have role: "UserHasRole (uID u) RoleAdmin s = (Inr ((uID u, RoleAdmin) \<in> set (user_roles (wdb s))), s)"
    using assms(1) by (simp add: UserHasRole_def op_simps)
  have "\<exists>a n. orderAccept u r s = (Redirect (orderRedirect (oID ord)), snd (notify (oSellerID ord) n a
      (orderRedirect (oID ord)) (snd (audit (Some (uID u)) ''order.accepted'' ''order'' (show_int (oID ord)) v))))"
    unfolding orderAccept_def loadOrderAccess_def
    using assms(5-7) role GetOrder_run [OF assms(1,3,4)] TransitionOrder_run [OF assms(1,3,4,5), of OrderAccepted] v(1)
    by (auto simp: op_simps Let_def also_do_def reply_def CanTransitionOrder_def)
  moreover have "set_order_status OrderAccepted (wnow s) ord \<in> set (orders (wdb v))"
    using v(2) assms(4) by (force simp: set_update_where)
  moreover have "ledger_balance k ow c (wdb ?t) = ledger_balance k ow c (wdb s)" for k ow c
    by (intro ledger_balance_cong) simp_all
  ultimately show ?thesis using that v(3) by (auto simp: notices_run)
qed

text \<open>C5: when the buyer accepts a paid delivery, the order is accepted and the seller's earnings,
  the total less the platform fee, go from the pending to the available account, in the
  lower-case spelling of the order's currency; no other balance moves.\<close>

theorem acceptance_releases:
  assumes "reliable s" "ledger_wf s" "distinct (map oID (orders (wdb s)))" "ord \<in> set (orders (wdb s))"
    and "oStatus ord = OrderDelivered" "oBuyerID ord = uID u" "path_id r ''id'' = Some (oID ord)" "paid_by ord (wdb s)"
    and "in_int64 (oTotalMinorUnits ord)" "0 \<le> oPlatformFeeMinorUnits ord" "oPlatformFeeMinorUnits ord < oTotalMinorUnits ord"
  shows "\<exists>s'. orderAccept u r s = (Redirect (orderRedirect (oID ord)), s')
    \<and> (\<exists>q \<in> set (orders (wdb s')). oID q = oID ord \<and> oStatus q = OrderAccepted)
    \<and> (\<forall>k ow c. ledger_balance k ow c (wdb s') = ledger_balance k ow c (wdb s) +
        (let payable = oTotalMinorUnits ord - oPlatformFeeMinorUnits ord in
         if c \<noteq> to_lower (oCurrency ord) \<or> ow \<noteq> Some (oSellerID ord) then 0
         else if k = AccountSellerPending then - payable
         else if k = AccountSellerAvailable then payable else 0))"
proof -
  obtain s' where s': "orderAccept u r s = (Redirect (orderRedirect (oID ord)), s')"
    "set_order_status OrderAccepted (wnow s) ord \<in> set (orders (wdb s'))"
    "\<And>k ow c. ledger_balance k ow c (wdb s') = ledger_balance k ow c (wdb s) + account_effect k ow c
      (release_entries (oID ord) (oSellerID ord) (oTotalMinorUnits ord - oPlatformFeeMinorUnits ord) (to_lower (oCurrency ord)))"
    by (rule accept_run [OF assms]) blast
  have "oStatus (set_order_status OrderAccepted (wnow s) ord) = OrderAccepted" by (simp add: set_order_status_def)
  with s' show ?thesis
    by (intro exI [of _ s'] conjI bexI [OF _ s'(2)]) (simp_all add: release_effect Let_def)
qed

abbreviation delivered_world :: "(db \<Rightarrow> db) \<Rightarrow> order \<Rightarrow> world" where
  "delivered_world f ord \<equiv> (deployed 5)\<lparr>wdb := f (migrated\<lparr>orders := [ord], payment_intents :=
    [sample_intent 7 PaymentSucceeded]\<rparr>), wseq := (\<lambda>_. 1)\<rparr>"

theorem acceptance_releases_witness:
  "\<exists>s'. orderAccept (sample_user 2) sample_request (delivered_world (\<lambda>d. d) (sample_order 7 OrderDelivered))
      = (Redirect (orderRedirect 7), s')
    \<and> ledger_balance AccountSellerAvailable (Some 3) ''usd'' (wdb s') = 2500"
proof -
  let ?ord = "sample_order 7 OrderDelivered"
  let ?s = "delivered_world (\<lambda>d. d) ?ord"
  have "reliable ?s" "ledger_wf ?s" "distinct (map oID (orders (wdb ?s)))" "?ord \<in> set (orders (wdb ?s))"
    "paid_by ?ord (wdb ?s)" "path_id sample_request ''id'' = Some (oID ?ord)"
    by (simp_all add: deployed_def ledger_wf_def migrated_def paid_by_def sample_path)
  moreover have "in_int64 (oTotalMinorUnits ?ord)" by (simp add: in_int64_def)
  moreover have "ledger_balance k ow c (wdb ?s) = 0" for k ow c by (simp add: ledger_balance_def migrated_def)
  moreover have "to_lower ''USD'' = ''usd''" by code_simp
  ultimately show ?thesis
    using acceptance_releases [of ?s ?ord "sample_user 2" sample_request] by (auto simp: Let_def account_kinds)
qed

text \<open>The code keeps no record of a release.  An order that was accepted can be disputed, sent
  back to work by the administrator and delivered again; when the buyer then accepts a second time,
  the seller's available balance grows by the same earnings once more.\<close>

theorem earnings_released_again:
  assumes "reliable s" "ledger_wf s" "distinct (map oID (orders (wdb s)))" "ord \<in> set (orders (wdb s))"
    and "oStatus ord = OrderDelivered" "oBuyerID ord = uID u" "path_id r ''id'' = Some (oID ord)" "paid_by ord (wdb s)"
    and "in_int64 (oTotalMinorUnits ord)" "0 \<le> oPlatformFeeMinorUnits ord" "oPlatformFeeMinorUnits ord < oTotalMinorUnits ord"
    and "oAcceptedAt ord = Some before"
    and "ledger_balance AccountSellerAvailable (Some (oSellerID ord)) (to_lower (oCurrency ord)) (wdb s)
      = oTotalMinorUnits ord - oPlatformFeeMinorUnits ord"
  shows "CanTransitionOrder OrderAccepted OrderDisputed \<and> CanTransitionOrder OrderDisputed OrderInProgress
    \<and> CanTransitionOrder OrderInProgress OrderDelivered
    \<and> ledger_balance AccountSellerAvailable (Some (oSellerID ord)) (to_lower (oCurrency ord))
        (wdb (snd (orderAccept u r s))) = 2 * (oTotalMinorUnits ord - oPlatformFeeMinorUnits ord)"
proof (rule accept_run [OF assms(1-11)])
  have "AccountSellerAvailable \<noteq> AccountSellerPending" by (simp add: account_kinds)
  then show ?thesis if "orderAccept u r s = (Redirect (orderRedirect (oID ord)), s')"
    "\<And>k ow c. ledger_balance k ow c (wdb s') = ledger_balance k ow c (wdb s) + account_effect k ow c
      (release_entries (oID ord) (oSellerID ord) (oTotalMinorUnits ord - oPlatformFeeMinorUnits ord) (to_lower (oCurrency ord)))"
    for s'
    using that assms(13) by (simp add: CanTransitionOrder_def release_effect)
qed

abbreviation released_once :: "db \<Rightarrow> db" where
  "released_once d \<equiv> d\<lparr>ledger_accounts := [\<lparr>laID = 1, laKind = AccountSellerAvailable, laOwnerID = Some 3, laCurrency = ''usd''\<rparr>],
    ledger_entries := [\<lparr>lrGroup = 1, lrAccountID = 1, lrDirection = DirectionCredit, lrAmountMinor = 2500,
      lrCurrency = ''usd'', lrOrderID = Some 7, lrDescription = ''seller earnings available''\<rparr>]\<rparr>"

theorem earnings_released_again_witness:
  "ledger_balance AccountSellerAvailable (Some 3) ''usd'' (wdb (snd (orderAccept (sample_user 2) sample_request
    (delivered_world released_once ((sample_order 7 OrderDelivered)\<lparr>oAcceptedAt := Some 3\<rparr>))))) = 5000"
proof -
  let ?ord = "(sample_order 7 OrderDelivered)\<lparr>oAcceptedAt := Some 3\<rparr>"
  let ?s = "delivered_world released_once ?ord"
  have "reliable ?s" "ledger_wf ?s" "distinct (map oID (orders (wdb ?s)))" "?ord \<in> set (orders (wdb ?s))"
    "paid_by ?ord (wdb ?s)" "path_id sample_request ''id'' = Some (oID ?ord)"
    by (simp_all add: deployed_def ledger_wf_def migrated_def paid_by_def sample_path)
  moreover have "in_int64 (oTotalMinorUnits ?ord)" by (simp add: in_int64_def)
  moreover have low: "to_lower ''USD'' = ''usd''" by code_simp
  moreover have "ledger_balance AccountSellerAvailable (Some 3) ''usd'' (wdb ?s) = 2500"
    by (simp add: ledger_balance_def account_balance_of_def row_signed_def)
  ultimately show ?thesis
    using earnings_released_again [of ?s ?ord "sample_user 2" sample_request 3] by simp
qed

text \<open>A capture is posted in the currency as the order spells it, the release in lower case: of
  an order in \<^verbatim>\<open>USD\<close> the earnings stay in the seller's pending account for good.\<close>

theorem pending_never_drained:
  assumes "reliable s" "ledger_wf s" "distinct (map oID (orders (wdb s)))" "ord \<in> set (orders (wdb s))"
    and "oStatus ord = OrderDelivered" "oBuyerID ord = uID u" "path_id r ''id'' = Some (oID ord)" "paid_by ord (wdb s)"
    and "in_int64 (oTotalMinorUnits ord)" "0 \<le> oPlatformFeeMinorUnits ord" "oPlatformFeeMinorUnits ord < oTotalMinorUnits ord"
    and "to_lower (oCurrency ord) \<noteq> oCurrency ord"
  shows "ledger_balance AccountSellerPending (Some (oSellerID ord)) (oCurrency ord) (wdb (snd (orderAccept u r s)))
      = ledger_balance AccountSellerPending (Some (oSellerID ord)) (oCurrency ord) (wdb s)
    \<and> ledger_balance AccountSellerPending (Some (oSellerID ord)) (to_lower (oCurrency ord)) (wdb (snd (orderAccept u r s)))
      = ledger_balance AccountSellerPending (Some (oSellerID ord)) (to_lower (oCurrency ord)) (wdb s)
        - (oTotalMinorUnits ord - oPlatformFeeMinorUnits ord)"
  by (rule accept_run [OF assms(1-11)]) (use assms(12) in \<open>auto simp: release_effect\<close>)

theorem pending_never_drained_witness:
  "ledger_balance AccountSellerPending (Some 3) ''usd'' (wdb (snd (orderAccept (sample_user 2) sample_request
    (delivered_world (\<lambda>d. d) (sample_order 7 OrderDelivered))))) = - 2500"
proof -
  let ?ord = "sample_order 7 OrderDelivered"
  let ?s = "delivered_world (\<lambda>d. d) ?ord"
  have "reliable ?s" "ledger_wf ?s" "distinct (map oID (orders (wdb ?s)))" "?ord \<in> set (orders (wdb ?s))"
    "paid_by ?ord (wdb ?s)" "path_id sample_request ''id'' = Some (oID ?ord)"
    by (simp_all add: deployed_def ledger_wf_def migrated_def paid_by_def sample_path)
  moreover have "in_int64 (oTotalMinorUnits ?ord)" by (simp add: in_int64_def)
  moreover have "ledger_balance k ow c (wdb ?s) = 0" for k ow c by (simp add: ledger_balance_def migrated_def)
  moreover have "to_lower ''USD'' = ''usd''" by code_simp
  ultimately show ?thesis
    using pending_never_drained [of ?s ?ord "sample_user 2" sample_request] by simp
qed

end
