(* ===== verification/WalletInvariants.thy ===== *)
theory WalletInvariants
  imports PaymentInvariants
begin

text \<open>
  What the whole program guarantees about payout wallets and payouts: a seller has at most one
  pending and at most one confirmed wallet per network and asset (\<^verbatim>\<open>wallets_inv\<close>), and a payout
  keeps its terms and only takes the two steps an administrator makes (\<^verbatim>\<open>payouts_evolve\<close>).
\<close>

section \<open>Wallets\<close>

definition wallet_ok :: "wallet \<Rightarrow> bool" where
  "wallet_ok w \<longleftrightarrow> (wlStatus w = WalletConfirmed \<longrightarrow> wlConfirmedAt w \<noteq> None \<and> wlEligibleAt w \<noteq> None)"

definition wallets_ok :: "int \<Rightarrow> wallet list \<Rightarrow> bool" where
  "wallets_ok n ws \<longleftrightarrow> keys_ok wlID n ws \<and> slot_unique ws \<and> list_all wallet_ok ws"

definition wallets_inv :: "db \<Rightarrow> (table \<Rightarrow> int) \<Rightarrow> bool" where
  "wallets_inv d q \<longleftrightarrow> wallets_ok (q TWallets) (wallets d)"

interpretation wi: region_inv wallets_inv "{RWallets}"
  by unfold_locales (auto simp: wallets_inv_def wallets_ok_def modifies_tables intro: keys_ok_mono)

text \<open>Superseding the wallets of a slot in one state leaves none of them there.\<close>

abbreviation superseded :: "int \<Rightarrow> string \<Rightarrow> string \<Rightarrow> wallet_status \<Rightarrow> wallet list \<Rightarrow> wallet list" where
  "superseded u n a old ws \<equiv> update_where (\<lambda>w. same_slot u n a w \<and> wlStatus w = old)
    (\<lambda>w. w\<lparr>wlStatus := WalletSuperseded\<rparr>) ws"

lemma wallets_ok_supersede: "wallets_ok n ws \<Longrightarrow> wallets_ok n (superseded u nw a old ws)"
  by (auto simp: wallets_ok_def keys_ok_update slot_unique_supersede wallet_ok_def intro!: list_all_update)

lemma superseded_free:
  "w \<in> set (superseded u n a old ws) \<Longrightarrow> old \<noteq> WalletSuperseded \<Longrightarrow> \<not> (same_slot u n a w \<and> wlStatus w = old)"
  by (auto simp: update_where_def split: if_splits)

lemma wallets_ok_pending:
  assumes "wallets_ok n ws" "wlID w = n + 1" "wlStatus w = WalletPending"
    "\<forall>v \<in> set ws. \<not> (same_slot (wlUserID w) (wlNetwork w) (wlAsset w) v \<and> wlStatus v = WalletPending)"
  shows "wallets_ok (n + 1) (ws @ [w])"
  using assms unfolding wallets_ok_def
  by (auto intro!: keys_ok_snoc slot_unique_add_pending simp: wallet_ok_def same_slot_iff)

lemma distinct_filter_nth:
  "distinct (map k (filter P xs)) \<longleftrightarrow> (\<forall>i < length xs. \<forall>j < length xs. i \<noteq> j \<longrightarrow> P (xs ! i) \<longrightarrow> P (xs ! j) \<longrightarrow>
    k (xs ! i) \<noteq> k (xs ! j))"
proof (induction xs)
  case (Cons x xs)
  have "k x \<in> k ` {y \<in> set xs. P y} \<longleftrightarrow> (\<exists>j < length xs. P (xs ! j) \<and> k x = k (xs ! j))"
    by (auto simp: in_set_conv_nth image_iff)
  with Cons show ?case by (auto simp: All_less_Suc2)
qed simp

lemma slot_unique_confirm:
  assumes "slot_unique ws" "distinct (map wlID ws)" "w \<in> set ws" "\<And>v. slot (f v) = slot v" "\<And>v. wlStatus (f v) = WalletConfirmed"
    and free: "\<forall>v \<in> set ws. \<not> (same_slot (wlUserID w) (wlNetwork w) (wlAsset w) v \<and> wlStatus v = WalletConfirmed)"
  shows "slot_unique (update_where (\<lambda>v. wlID v = wlID w) f ws)"
proof -
  have w: "ws ! i = w" if "i < length ws" "wlID (ws ! i) = wlID w" for i
    using distinct_map_eq [OF assms(2) nth_mem [OF that(1)] assms(3) that(2)] .
  have one: "i = j" if "i < length ws" "j < length ws" "wlID (ws ! i) = wlID (ws ! j)" for i j
    using assms(2) that by (simp add: distinct_conv_nth) (metis nth_map)
  have clash: "\<not> (wlStatus (ws ! j) = WalletConfirmed \<and> slot (ws ! j) = slot w)" if "j < length ws" for j
    using free nth_mem [OF that] by (auto simp: same_slot_def)
  have "slot (update_where (\<lambda>v. wlID v = wlID w) f ws ! i) \<noteq> slot (update_where (\<lambda>v. wlID v = wlID w) f ws ! j)"
    if "i < length ws" "j < length ws" "i \<noteq> j" "st \<in> {WalletPending, WalletConfirmed}"
      "wlStatus (update_where (\<lambda>v. wlID v = wlID w) f ws ! i) = st"
      "wlStatus (update_where (\<lambda>v. wlID v = wlID w) f ws ! j) = st" for i j st
  proof -
    have old: "slot (ws ! i) \<noteq> slot (ws ! j)" if "wlStatus (ws ! i) = st" "wlStatus (ws ! j) = st"
      using assms(1) that \<open>i < length ws\<close> \<open>j < length ws\<close> \<open>i \<noteq> j\<close> \<open>st \<in> _\<close>
      unfolding slot_unique_def distinct_filter_nth by blast
    show ?thesis
      using that old one [of i j] w [of i] w [of j] clash [of i] clash [of j] assms(4,5)
      by (auto simp: update_where_nth split: if_splits)
  qed
  then show ?thesis by (simp add: slot_unique_def distinct_filter_nth)
qed

lemma wallets_ok_confirm:
  assumes ok: "wallets_ok n ws" and w: "w \<in> set ws"
    and free: "\<forall>v \<in> set ws. \<not> (same_slot (wlUserID w) (wlNetwork w) (wlAsset w) v \<and> wlStatus v = WalletConfirmed)"
  shows "wallets_ok n (update_where (\<lambda>v. wlID v = wlID w)
      (\<lambda>v. v\<lparr>wlStatus := WalletConfirmed, wlConfirmedAt := Some c, wlEligibleAt := Some e\<rparr>) ws)"
  using ok slot_unique_confirm [OF _ _ w _ _ free, of "\<lambda>v. v\<lparr>wlStatus := WalletConfirmed, wlConfirmedAt := Some c, wlEligibleAt := Some e\<rparr>"]
  by (auto simp: wallets_ok_def keys_ok_update keys_ok_def wallet_ok_def map_update_where intro!: list_all_update)

lemma supersede_run:
  assumes "supersede u n a old s = (Inr x, t)"
  shows "wallets (wdb t) = superseded u n a old (wallets (wdb s))" "wseq t = wseq s"
  using assms unfolding supersede_def by (auto elim!: exec_cases dest!: sym [where t = "wdb t"])

lemma inv_supersede: "steps (keeps wallets_inv) (supersede u n a old)"
  unfolding supersede_def by (rule wi.steps_exec) (auto simp: wallets_inv_def wallets_ok_supersede)

lemma inv_pending: "steps (keeps wallets_inv) (CreatePendingWallet u n a enc fp)"
  unfolding CreatePendingWallet_def
proof (rule wi.steps_tx, rule stepsI)
  fix s
  let ?new = "\<lambda>i. \<lparr>wlID = i, wlUserID = u, wlNetwork = n, wlAsset = a, wlAddressEncrypted = enc, wlFingerprint = fp,
    wlStatus = WalletPending, wlConfirmedAt = None, wlEligibleAt = None\<rparr>"
  let ?ins = "insert_row TWallets (\<lambda>i now d. Inr (i, d\<lparr>wallets := wallets d @ [?new i]\<rparr>))"
  show "keeps wallets_inv s (snd (call (supersede u n a WalletPending) fail (\<lambda>_. ?ins) s))"
  proof (rule wi.fr.rel_call)
    show "keeps wallets_inv s (snd (supersede u n a WalletPending s))" by (rule stepsD [OF inv_supersede])
    fix x t assume "supersede u n a WalletPending s = (Inr x, t)"
    from supersede_run(1) [OF this] have free: "\<forall>v \<in> set (wallets (wdb t)). \<not> (same_slot u n a v \<and> wlStatus v = WalletPending)"
      using superseded_free [of _ u n a WalletPending] by auto
    obtain y t' where i: "?ins t = (y, t')" by fastforce
    from i show "keeps wallets_inv t (snd (?ins t))"
    proof (cases rule: insert_cases)
      case (ok x d)
      from ok(1) have "d = (wdb t)\<lparr>wallets := wallets (wdb t) @ [?new (wseq t TWallets + 1)]\<rparr>"
        by (metis Inr_inject Pair_inject)
      with ok(3) have "wallets (wdb t') = wallets (wdb t) @ [?new (wseq t TWallets + 1)]" by simp
      with ok(4) i free show ?thesis
        by (auto simp: keeps_def wallets_inv_def intro!: wallets_ok_pending)
    qed (auto simp: i intro!: wi.keeps_seq)
  qed (rule stepsD [OF wi.fr.steps_fail])
qed

lemma inv_confirm: "steps (keeps wallets_inv) (ConfirmWallet i cd)"
  unfolding ConfirmWallet_def
proof (rule wi.steps_tx, rule stepsI)
  fix s
  let ?find = "query (\<lambda>now d. one_row (find (\<lambda>w. wlID w = i \<and> wlStatus w = WalletPending) (wallets d)))"
  let ?set = "exec (\<lambda>now d. Inr ((), d\<lparr>wallets := update_where (\<lambda>w. wlID w = i)
    (\<lambda>w. w\<lparr>wlStatus := WalletConfirmed, wlConfirmedAt := Some now, wlEligibleAt := Some (now + cd)\<rparr>) (wallets d)\<rparr>))"
  let ?rest = "\<lambda>w. call (supersede (wlUserID w) (wlNetwork w) (wlAsset w) WalletConfirmed) fail (\<lambda>_. ?set)"
  show "keeps wallets_inv s (snd (call ?find fail ?rest s))"
  proof (rule wi.fr.rel_call)
    show "keeps wallets_inv s (snd (?find s))" by (rule stepsD [OF wi.steps_query])
    fix w t assume "?find s = (Inr w, t)"
    then have w: "w \<in> set (wallets (wdb t))" "wlID w = i" "wlStatus w = WalletPending"
      by (auto elim!: query_cases simp: one_row_def split: option.splits dest!: find_SomeD)
    show "keeps wallets_inv t (snd (?rest w t))"
    proof (rule wi.fr.rel_call)
      show "keeps wallets_inv t (snd (supersede (wlUserID w) (wlNetwork w) (wlAsset w) WalletConfirmed t))"
        by (rule stepsD [OF inv_supersede])
      fix x t2 assume "supersede (wlUserID w) (wlNetwork w) (wlAsset w) WalletConfirmed t = (Inr x, t2)"
      note ws = supersede_run(1) [OF this]
      have mem: "w \<in> set (wallets (wdb t2))" using w(1,3) by (force simp: ws set_update_where)
      have free: "\<forall>v \<in> set (wallets (wdb t2)). \<not> (same_slot (wlUserID w) (wlNetwork w) (wlAsset w) v \<and> wlStatus v = WalletConfirmed)"
        using superseded_free [of _ "wlUserID w" "wlNetwork w" "wlAsset w" WalletConfirmed] by (auto simp: ws)
      obtain y t3 where e: "?set t2 = (y, t3)" by fastforce
      from e show "keeps wallets_inv t2 (snd (?set t2))"
      proof (cases rule: exec_cases)
        case (ok x d)
        then have "wallets (wdb t3) = update_where (\<lambda>v. wlID v = wlID w) (\<lambda>v. v\<lparr>wlStatus := WalletConfirmed,
            wlConfirmedAt := Some (wnow t2), wlEligibleAt := Some (wnow t2 + cd)\<rparr>) (wallets (wdb t2))"
          using w(2) by (auto dest!: sym [where t = "wdb t3"])
        with ok(4) e wallets_ok_confirm [OF _ mem free] show ?thesis
          by (auto simp: keeps_def wallets_inv_def)
      qed (auto simp: e intro!: wi.keeps_seq)
    qed (rule stepsD [OF wi.fr.steps_fail])
  qed (rule stepsD [OF wi.fr.steps_fail])
qed

interpretation wic: store_contract "keeps wallets_inv"
proof unfold_locales
  fix w w' M assume "touches M w w'" "M \<inter> critical = {}"
  then have "wallets (wdb w') = wallets (wdb w)" "\<forall>x. wseq w x \<le> wseq w' x"
    by (auto simp: touches_def critical_def modifies_tables)
  then show "keeps wallets_inv w w'"
    by (auto simp: keeps_def wallets_inv_def wallets_ok_def intro: keys_ok_mono)
qed (rule wi.steps_send inv_pending inv_confirm | assumption | (rule wi.unaffected, rule op_regions, simp))+

section \<open>What a confirmation does\<close>

text \<open>The wallets after \<^verbatim>\<open>w\<close> was confirmed at \<^verbatim>\<open>now\<close>: it is confirmed and may be paid to after the
  cooling-off period, the confirmed wallet it replaces is superseded, and no other wallet changes.\<close>

definition confirmed_wallet :: "time \<Rightarrow> time \<Rightarrow> wallet \<Rightarrow> wallet" where
  "confirmed_wallet now cooldown w =
    w\<lparr>wlStatus := WalletConfirmed, wlConfirmedAt := Some now, wlEligibleAt := Some (now + cooldown)\<rparr>"

definition wallets_after :: "time \<Rightarrow> time \<Rightarrow> wallet \<Rightarrow> wallet list \<Rightarrow> wallet list" where
  "wallets_after now cooldown w ws = map (\<lambda>v.
    if v = w then confirmed_wallet now cooldown w
    else if slot v = slot w \<and> wlStatus v = WalletConfirmed then v\<lparr>wlStatus := WalletSuperseded\<rparr>
    else v) ws"

lemma confirm_wallets_after:
  assumes "distinct (map wlID ws)" "w \<in> set ws" "wlStatus w = WalletPending"
  shows "update_where (\<lambda>v. wlID v = wlID w) (confirmed_wallet now cd)
      (superseded (wlUserID w) (wlNetwork w) (wlAsset w) WalletConfirmed ws) = wallets_after now cd w ws"
proof -
  have "wlID v = wlID w \<longleftrightarrow> v = w" if "v \<in> set ws" for v
    using distinct_map_eq [OF assms(1) that assms(2)] by auto
  then show ?thesis
    using assms(3) by (auto simp: update_where_def wallets_after_def same_slot_def)
qed

lemma find_wallet:
  assumes "distinct (map wlID ws)" "w \<in> set ws" "wlStatus w = WalletPending"
  shows "find (\<lambda>v. wlID v = wlID w \<and> wlStatus v = WalletPending) ws = Some w"
proof (cases "find (\<lambda>v. wlID v = wlID w \<and> wlStatus v = WalletPending) ws")
  case None
  with assms(2,3) show ?thesis by (auto simp: find_None_iff)
next
  case (Some v)
  with distinct_map_eq [OF assms(1) _ assms(2)] find_SomeD [OF Some] show ?thesis by simp
qed

lemma ConfirmWallet_outcome:
  assumes "distinct (map wlID (wallets (wdb s)))" "w \<in> set (wallets (wdb s))" "wlStatus w = WalletPending"
    and "ConfirmWallet (wlID w) cd s = (Inr x, t)"
  shows "wallets (wdb t) = wallets_after (wnow s) cd w (wallets (wdb s)) \<and> wseq t = wseq s"
  using assms(4) unfolding ConfirmWallet_def
proof (cases rule: tx_cases)
  case (committed y s1 s2)
  let ?find = "query (\<lambda>now d. one_row (find (\<lambda>v. wlID v = wlID w \<and> wlStatus v = WalletPending) (wallets d)))"
  let ?set = "exec (\<lambda>now d. Inr ((), d\<lparr>wallets := update_where (\<lambda>v. wlID v = wlID w)
    (\<lambda>v. v\<lparr>wlStatus := WalletConfirmed, wlConfirmedAt := Some now, wlEligibleAt := Some (now + cd)\<rparr>) (wallets d)\<rparr>))"
  from committed(2) obtain v a b u where q: "?find s1 = (Inr v, a)"
    and p: "supersede (wlUserID v) (wlNetwork v) (wlAsset v) WalletConfirmed a = (Inr u, b)" and e: "?set b = (Inr y, s2)"
    by (auto simp: call_def fail_def split: prod.splits sum.splits)
  from q find_wallet [OF assms(1-3)] committed(3,4,5) have a: "v = w" "wdb a = wdb s" "wnow a = wnow s" "wseq a = wseq s"
    by (auto elim!: query_cases simp: one_row_def)
  from p have b: "wallets (wdb b) = superseded (wlUserID v) (wlNetwork v) (wlAsset v) WalletConfirmed (wallets (wdb a))"
    "wnow b = wnow a" "wseq b = wseq a"
    unfolding supersede_def by (auto elim!: exec_cases dest!: sym [where t = "wdb b"])
  from e have c: "wallets (wdb s2) = update_where (\<lambda>v. wlID v = wlID w) (confirmed_wallet (wnow b) cd) (wallets (wdb b))"
    "wseq s2 = wseq b"
    unfolding confirmed_wallet_def [abs_def] by (auto elim!: exec_cases dest!: sym [where t = "wdb s2"])
  from a b c confirm_wallets_after [OF assms(1-3)] show ?thesis unfolding committed(6,7) by simp
qed simp

lemma ConfirmWallet_reliable:
  assumes "reliable s" "find (\<lambda>v. wlID v = i \<and> wlStatus v = WalletPending) (wallets (wdb s)) = Some w"
  obtains t where "ConfirmWallet i cd s = (Inr (), t)"
  using assms by (simp add: ConfirmWallet_def supersede_def op_simps one_row_def)

lemma slot_confirmed:
  assumes "slot_unique ws" "v \<in> set ws" "wlStatus v = WalletConfirmed"
  shows "find (\<lambda>w. same_slot (wlUserID v) (wlNetwork v) (wlAsset v) w \<and> wlStatus w = WalletConfirmed) ws = Some v"
proof (cases "find (\<lambda>w. same_slot (wlUserID v) (wlNetwork v) (wlAsset v) w \<and> wlStatus w = WalletConfirmed) ws")
  case None
  with assms(2,3) show ?thesis by (auto simp: find_None_iff same_slot_def)
next
  case (Some w)
  then have w: "w \<in> set ws" "slot w = slot v" "wlStatus w = WalletConfirmed" by (auto dest!: find_SomeD simp: same_slot_def)
  from assms(1) have "distinct (map slot (filter (\<lambda>w. wlStatus w = WalletConfirmed) ws))" by (simp add: slot_unique_def)
  from distinct_map_eq [OF this] w assms(2,3) have "w = v" by simp
  with Some show ?thesis by simp
qed

text \<open>C23: confirming a pending wallet, from any state in which a seller has at most one pending and at
  most one confirmed wallet per network and asset: the wallet becomes the one confirmed wallet of its
  network and asset and is the one looked up, the one it replaces is superseded, and every other wallet stays as it is, so
  again at most one is pending and at most one confirmed; it may be paid to once the cooling-off
  period is over and not before.  A confirmation fails only when a statement fails, and then nothing
  changes.  (The handlers never get this far: the database refuses the token of the confirmation.)\<close>

theorem confirmation_supersedes:
  assumes "distinct (map wlID (wallets (wdb s)))" "slot_unique (wallets (wdb s))"
    and "w \<in> set (wallets (wdb s))" "wlStatus w = WalletPending"
  shows "case ConfirmWallet (wlID w) cd s of
      (Inl e, t) \<Rightarrow> wdb t = wdb s \<and> \<not> reliable s
    | (Inr _, t) \<Rightarrow> wallets (wdb t) = wallets_after (wnow s) cd w (wallets (wdb s)) \<and> slot_unique (wallets (wdb t))
        \<and> fst (GetConfirmedWallet (wlUserID w) (wlNetwork w) (wlAsset w) (t\<lparr>wfaults := []\<rparr>))
          = Inr (confirmed_wallet (wnow s) cd w)
        \<and> (\<forall>later. IsPayoutEligible (confirmed_wallet (wnow s) cd w) later \<longleftrightarrow> wnow s + cd \<le> later)"
proof (cases "ConfirmWallet (wlID w) cd s")
  case (Pair r t)
  show ?thesis
  proof (cases r)
    case (Inl e)
    then have "wdb t = wdb s" using Pair tx_InlD unfolding ConfirmWallet_def by blast
    moreover have "\<not> reliable s"
      using Pair Inl find_wallet [OF assms(1,3,4)] ConfirmWallet_reliable [of s "wlID w" w cd] by auto
    ultimately show ?thesis using Pair Inl by simp
  next
    case (Inr x)
    let ?ws = "superseded (wlUserID w) (wlNetwork w) (wlAsset w) WalletConfirmed (wallets (wdb s))"
    have rows: "wallets (wdb t) = wallets_after (wnow s) cd w (wallets (wdb s))"
      using ConfirmWallet_outcome [OF assms(1,3,4)] Pair Inr by blast
    have "w \<in> set ?ws" using assms(3,4) by (force simp: set_update_where)
    moreover have "\<forall>v \<in> set ?ws. \<not> (same_slot (wlUserID w) (wlNetwork w) (wlAsset w) v \<and> wlStatus v = WalletConfirmed)"
      using superseded_free [of _ "wlUserID w" "wlNetwork w" "wlAsset w" WalletConfirmed] by auto
    moreover have "distinct (map wlID ?ws)" using assms(1) by (simp add: map_update_where)
    ultimately have unique: "slot_unique (wallets (wdb t))"
      unfolding rows confirm_wallets_after [OF assms(1,3,4), symmetric]
      by (intro slot_unique_confirm slot_unique_supersede assms(2)) (simp_all add: confirmed_wallet_def)
    have "confirmed_wallet (wnow s) cd w \<in> set (wallets (wdb t))"
      using assms(3) by (force simp: rows wallets_after_def)
    from slot_confirmed [OF unique this]
    have "fst (GetConfirmedWallet (wlUserID w) (wlNetwork w) (wlAsset w) (t\<lparr>wfaults := []\<rparr>)) = Inr (confirmed_wallet (wnow s) cd w)"
      by (simp add: GetConfirmedWallet_def op_simps one_row_def confirmed_wallet_def)
    with unique rows show ?thesis
      using Pair Inr by (auto simp: confirmed_wallet_def IsPayoutEligible_def)
  qed
qed

abbreviation sample_wallet :: "int \<Rightarrow> wallet_status \<Rightarrow> wallet" where
  "sample_wallet i st \<equiv> \<lparr>wlID = i, wlUserID = 3, wlNetwork = ''base'', wlAsset = ''usdc'', wlAddressEncrypted = ''x'',
    wlFingerprint = ''f'', wlStatus = st, wlConfirmedAt = (if st = WalletConfirmed then Some 0 else None),
    wlEligibleAt = (if st = WalletConfirmed then Some 0 else None)\<rparr>"

theorem confirmation_supersedes_witness:
  "\<exists>t. ConfirmWallet 2 60 ((deployed 5)\<lparr>wdb := migrated\<lparr>wallets := [sample_wallet 1 WalletConfirmed, sample_wallet 2 WalletPending]\<rparr>\<rparr>)
      = (Inr (), t)
    \<and> map wlStatus (wallets (wdb t)) = [WalletSuperseded, WalletConfirmed] \<and> map wlEligibleAt (wallets (wdb t)) = [Some 0, Some 65]"
proof -
  let ?w = "sample_wallet 2 WalletPending"
  let ?s = "(deployed 5)\<lparr>wdb := migrated\<lparr>wallets := [sample_wallet 1 WalletConfirmed, ?w]\<rparr>\<rparr>"
  have pre: "distinct (map wlID (wallets (wdb ?s)))" "slot_unique (wallets (wdb ?s))"
    "?w \<in> set (wallets (wdb ?s))" "wlStatus ?w = WalletPending" "reliable ?s" "wnow ?s = 5"
    by (simp_all add: slot_unique_def deployed_def)
  obtain t where t: "ConfirmWallet (wlID ?w) 60 ?s = (Inr (), t)"
    using confirmation_supersedes [OF pre(1-4), of 60] pre(5)
    by (cases "ConfirmWallet (wlID ?w) 60 ?s") (auto split: sum.splits)
  with confirmation_supersedes [OF pre(1-4), of 60] pre(6)
  have "wallets (wdb t) = wallets_after 5 60 ?w (wallets (wdb ?s))" by simp
  with t show ?thesis by (simp add: wallets_after_def confirmed_wallet_def)
qed

section \<open>Payouts\<close>

definition payout_move :: "payout_status \<Rightarrow> payout_status \<Rightarrow> bool" where
  "payout_move s t \<longleftrightarrow> (\<lambda>s t. (s, t) \<in> set payout_edges)\<^sup>*\<^sup>* s t"

lemma payout_move_step: "(s, t) \<in> set payout_edges \<Longrightarrow> payout_move s t"
  unfolding payout_move_def by (rule r_into_rtranclp)

definition payout_evolves :: "payout \<Rightarrow> payout \<Rightarrow> bool" where
  "payout_evolves p q \<longleftrightarrow> poID q = poID p \<and> poSellerID q = poSellerID p \<and> poWalletID q = poWalletID p
    \<and> poAmountMinor q = poAmountMinor p \<and> poCurrency q = poCurrency p \<and> poNetwork q = poNetwork p
    \<and> poAsset q = poAsset p \<and> poCreatedAt q = poCreatedAt p \<and> payout_move (poStatus p) (poStatus q)"

abbreviation payouts_evolve :: "db \<Rightarrow> db \<Rightarrow> bool" where
  "payouts_evolve d d' \<equiv> rows_evolve payout_evolves (\<lambda>_. True) (payouts d) (payouts d')"

interpretation pe: row_evolution payouts payout_evolves "\<lambda>_. True" "{RPayouts}"
  by unfold_locales (auto simp: payout_evolves_def payout_move_def modifies_tables)

lemma evolve_payout: "(f, t) \<in> set payout_edges \<Longrightarrow> steps (on_db payouts_evolve) (TransitionPayout i f t by h)"
  unfolding TransitionPayout_def guarded_update_def
  by (rule pe.rf.steps_exec)
    (auto split: if_splits intro!: pe.evolve_update simp: payout_evolves_def set_payout_status_def payout_move_step)

lemma evolve_new_payout: "steps (on_db payouts_evolve) (CreatePayout sl wid am cu nw as ist)"
  unfolding CreatePayout_def by (rule pe.rf.steps_insert) (auto intro!: pe.evolve_append)

interpretation pec: store_contract "on_db payouts_evolve"
proof unfold_locales
  fix w w' M assume "touches M w w'" "M \<inter> critical = {}"
  then have "payouts (wdb w') = payouts (wdb w)"
    by (auto simp: touches_def critical_def modifies_tables)
  then show "on_db payouts_evolve w w'" by (simp add: on_db_def pe.evolve_same)
qed (rule pe.rf.steps_send evolve_payout evolve_new_payout | assumption | (rule pe.rf.unaffected, rule op_regions, simp))+

text \<open>No administrator step leads out of \<^verbatim>\<open>queued\<close>, \<^verbatim>\<open>completed\<close> or \<^verbatim>\<open>canceled\<close>.\<close>

lemma payout_stuck:
  assumes "payout_move s t" "s \<in> {PayoutQueued, PayoutCompleted, PayoutCanceled}"
  shows "t = s"
  using assms unfolding payout_move_def
  by (induction rule: rtranclp_induct) (auto simp: payout_edges_def)

end
