(* ===== verification/Slugs.thy ===== *)
theory Slugs
  imports StoreCatalog
begin

text \<open>
  The slugs of gigs and tags: what \<^verbatim>\<open>slugify\<close> (\<^verbatim>\<open>src/store/catalog.go\<close>) produces and fixes, and
  which candidate the insert loop of \<^verbatim>\<open>CreateGig\<close> settles on.
\<close>

section \<open>Shape\<close>

abbreviation dash :: char where "dash \<equiv> CHR ''-''"

fun no_double :: "string \<Rightarrow> bool" where
  "no_double (x # y # zs) = (\<not> (x = dash \<and> y = dash) \<and> no_double (y # zs))"
| "no_double s = True"

definition slug_chars :: "string \<Rightarrow> bool" where
  "slug_chars s \<longleftrightarrow> (\<forall>c \<in> set s. slug_char c \<or> c = dash)"

definition slug_ok :: "string \<Rightarrow> bool" where
  "slug_ok s \<longleftrightarrow> s \<noteq> [] \<and> length s \<le> 80 \<and> slug_chars s \<and> hd s \<noteq> dash \<and> last s \<noteq> dash \<and> no_double s"

lemma no_double_Cons: "no_double (x # s) \<longleftrightarrow> (s = [] \<or> \<not> (x = dash \<and> hd s = dash)) \<and> no_double s"
  by (cases s) auto

lemma no_double_append: "no_double (s @ t) \<Longrightarrow> no_double s \<and> no_double t"
  by (induction s) (auto simp: no_double_Cons hd_append split: if_splits)

lemma not_slug_dash: "\<not> slug_char dash"
  by (simp add: slug_char_def)

lemma dash_runs_shape:
  "slug_chars (dash_runs b s) \<and> no_double (dash_runs b s) \<and> (b \<longrightarrow> dash_runs b s = [] \<or> hd (dash_runs b s) \<noteq> dash)"
  by (induction b s rule: dash_runs.induct) (auto simp: slug_chars_def no_double_Cons not_slug_dash)

lemma dash_runs_id:
  "slug_chars s \<Longrightarrow> no_double s \<Longrightarrow> (b \<longrightarrow> s = [] \<or> hd s \<noteq> dash) \<Longrightarrow> dash_runs b s = s"
  by (induction b s rule: dash_runs.induct) (auto simp: slug_chars_def no_double_Cons not_slug_dash)

lemma slug_char_plain: "slug_char c \<or> c = dash \<Longrightarrow> \<not> is_space c \<and> lower_char c = c"
  by (auto simp: slug_char_def is_space_def lower_char_def Let_def)

lemma dropWhile_hd: "(s \<noteq> [] \<Longrightarrow> \<not> P (hd s)) \<Longrightarrow> dropWhile P s = s"
  by (cases s) auto

lemma trim_id: "(s \<noteq> [] \<Longrightarrow> \<not> P (hd s) \<and> \<not> P (last s)) \<Longrightarrow> rev (dropWhile P (rev (dropWhile P s))) = s"
proof -
  assume ends: "s \<noteq> [] \<Longrightarrow> \<not> P (hd s) \<and> \<not> P (last s)"
  then have "dropWhile P s = s" by (intro dropWhile_hd) simp
  moreover have "dropWhile P (rev s) = rev s" using ends by (intro dropWhile_hd) (simp add: hd_rev)
  ultimately show ?thesis by simp
qed

lemma trim_dashes_id: "(s \<noteq> [] \<Longrightarrow> hd s \<noteq> dash \<and> last s \<noteq> dash) \<Longrightarrow> trim_dashes s = s"
  unfolding trim_dashes_def by (rule trim_id) auto

lemma trim_dashes_part: "\<exists>a b. s = a @ trim_dashes s @ b"
proof -
  let ?u = "dropWhile (\<lambda>c. c = dash) s" and ?P = "\<lambda>c. c = dash"
  have "rev ?u = takeWhile ?P (rev ?u) @ dropWhile ?P (rev ?u)" by simp
  then have "?u = trim_dashes s @ rev (takeWhile ?P (rev ?u))"
    unfolding trim_dashes_def by (metis rev_append rev_rev_ident)
  then show ?thesis by (metis takeWhile_dropWhile_id)
qed

lemma trim_dashes_ends: "trim_dashes s \<noteq> [] \<Longrightarrow> hd (trim_dashes s) \<noteq> dash \<and> last (trim_dashes s) \<noteq> dash"
proof -
  let ?P = "\<lambda>c. c = dash"
  define u where "u = dropWhile ?P s"
  define v where "v = dropWhile ?P (rev u)"
  assume "trim_dashes s \<noteq> []"
  then have v: "v \<noteq> []" "trim_dashes s = rev v" by (simp_all add: trim_dashes_def u_def v_def)
  then have "last (rev v) \<noteq> dash" using hd_dropWhile [of ?P "rev u"] by (simp add: v_def last_rev)
  moreover have "u = rev v @ rev (takeWhile ?P (rev u))"
    unfolding v_def by (metis rev_append rev_rev_ident takeWhile_dropWhile_id)
  then have "hd u = hd (rev v)" "u \<noteq> []" using v(1) by (metis hd_append2 rev_is_Nil_conv, auto)
  moreover from this(2) have "hd u \<noteq> dash" using hd_dropWhile [of ?P s] by (simp add: u_def)
  ultimately show ?thesis using v(2) by simp
qed

lemma slug_part: "s = a @ t @ b \<Longrightarrow> slug_chars s \<and> no_double s \<Longrightarrow> slug_chars t \<and> no_double t"
  by (auto simp: slug_chars_def dest: no_double_append)

lemma trim_dashes_shape:
  assumes "slug_chars s" "no_double s"
  shows "slug_chars (trim_dashes s) \<and> no_double (trim_dashes s) \<and> length (trim_dashes s) \<le> length s"
proof -
  obtain a b where "s = a @ trim_dashes s @ b" using trim_dashes_part by blast
  then show ?thesis using slug_part assms by (metis add_leD1 le_add2 length_append order_refl le_add1 order_trans)
qed

lemma trim_dashes_nonempty: "s \<noteq> [] \<Longrightarrow> hd s \<noteq> dash \<Longrightarrow> trim_dashes s \<noteq> []"
  by (cases s) (auto simp: trim_dashes_def dropWhile_eq_Nil_conv)

lemma slug_ok_slugify: "slug_ok (slugify t)"
proof -
  define s0 where "s0 = trim_dashes (dash_runs False (to_lower (trim_space t)))"
  define s where "s = (if s0 = [] then ''gig'' else s0)"
  have "slug_chars s0 \<and> no_double s0" unfolding s0_def using trim_dashes_shape dash_runs_shape by blast
  then have s: "s \<noteq> []" "slug_chars s" "no_double s" "hd s \<noteq> dash" "last s \<noteq> dash"
    using trim_dashes_ends [of "dash_runs False (to_lower (trim_space t))"]
    by (auto simp: s_def s0_def slug_chars_def slug_char_def split: if_splits)
  have p: "slug_chars (take 80 s)" "no_double (take 80 s)" "take 80 s \<noteq> []" "hd (take 80 s) \<noteq> dash"
    using s slug_part [of s "[]" "take 80 s" "drop 80 s"] by auto
  have "slug_ok (trim_dashes (take 80 s))"
    using trim_dashes_shape [OF p(1,2)] trim_dashes_ends [of "take 80 s"] trim_dashes_nonempty [OF p(3,4)]
    by (auto simp: slug_ok_def)
  with s show ?thesis by (simp add: slugify_def Let_def s0_def [symmetric] s_def [symmetric] slug_ok_def)
qed

lemma slugify_id: "slug_ok s \<Longrightarrow> slugify s = s"
proof -
  assume ok: "slug_ok s"
  then have plain: "\<forall>c \<in> set s. \<not> is_space c \<and> lower_char c = c"
    unfolding slug_ok_def slug_chars_def using slug_char_plain by blast
  then have "trim_space s = s" unfolding trim_space_def by (intro trim_id) auto
  moreover from plain have "to_lower s = s" by (simp add: to_lower_def map_idI)
  ultimately show ?thesis using ok by (auto simp: slugify_def slug_ok_def dash_runs_id trim_dashes_id Let_def)
qed

text \<open>\<^const>\<open>slugify\<close> is a projection on the well-formed slugs: whatever the title, the slug is one to
  eighty characters long, of lower-case letters, digits and single inner dashes, and exactly the
  texts of that form are left as they are.\<close>

theorem slugify_canonical: "slug_ok (slugify title) \<and> (slugify s = s \<longleftrightarrow> slug_ok s)"
  using slug_ok_slugify slugify_id by metis

section \<open>The candidates of a new gig\<close>

definition candidates :: "(nat \<Rightarrow> nat list option) \<Rightarrow> string \<Rightarrow> string option list" where
  "candidates draw title =
    Some (slugify title) # map (\<lambda>k. map_option (\<lambda>x. slugify title @ ''-'' @ hex_encode x) (draw k)) [1..<5]"

text \<open>The first candidate that is free, unless drawing a suffix fails before.\<close>

fun first_free :: "db \<Rightarrow> string option list \<Rightarrow> error + string" where
  "first_free d [] = Inl ErrNoSlug"
| "first_free d (None # cs) = Inl ErrFault"
| "first_free d (Some c # cs) = (if \<exists>g \<in> set (gigs d). gSlug g = c then first_free d cs else Inr c)"

definition new_gig :: "int \<Rightarrow> time \<Rightarrow> int \<Rightarrow> int option \<Rightarrow> string \<Rightarrow> string \<Rightarrow> string \<Rightarrow> gig" where
  "new_gig i now sellerID categoryID title description slug = \<lparr>gID = i, gSellerID = sellerID,
    gCategoryID = categoryID, gSlug = slug, gTitle = title, gDescription = description, gStatus = GigDraft,
    gModerationState = ModerationApproved, gCreatedAt = now, gUpdatedAt = now\<rparr>"

text \<open>What the attempts come to: the first free candidate is stored if the category is there.\<close>

definition outcome :: "int option \<Rightarrow> db \<Rightarrow> string option list \<Rightarrow> error + string" where
  "outcome categoryID d cs = (case first_free d cs of
      Inl e \<Rightarrow> Inl e
    | Inr c \<Rightarrow> if category_exists categoryID d then Inr c else Inl (ErrForeignKeyViolation ''gigs_category_id_fkey''))"

lemma slug_attempts_first_free:
  assumes "reliable s" "put = (\<lambda>slug. insert_gig sl ci slug ti ds)"
    and "cs = map (\<lambda>j. if j = 0 then Some base else map_option (\<lambda>x. base @ ''-'' @ hex_encode x) (draw j)) [k..<k + n]"
  shows "\<exists>m \<le> n. case outcome ci (wdb s) cs of
      Inl e \<Rightarrow> slug_attempts n k draw put base s = (Inl e, s\<lparr>wseq := (wseq s)(TGigs := wseq s TGigs + int m)\<rparr>)
    | Inr c \<Rightarrow> slug_attempts n k draw put base s =
        (Inr (new_gig (wseq s TGigs + int m) (wnow s) sl ci ti ds c),
          s\<lparr>wseq := (wseq s)(TGigs := wseq s TGigs + int m),
            wdb := (wdb s)\<lparr>gigs := gigs (wdb s) @ [new_gig (wseq s TGigs + int m) (wnow s) sl ci ti ds c]\<rparr>\<rparr>)"
  using assms(1,3)
proof (induction n arbitrary: k s cs)
  case 0
  then show ?case by (intro exI [of _ 0]) (simp add: fail_def outcome_def)
next
  case (Suc n)
  let ?f = "\<lambda>j. if j = 0 then Some base else map_option (\<lambda>x. base @ ''-'' @ hex_encode x) (draw j)"
  let ?cand = "?f k"
  define rest where "rest = map ?f [k + 1..<(k + 1) + n]"
  have cs: "cs = ?cand # rest"
    using Suc.prems(2) by (simp add: rest_def upt_conv_Cons del: upt_Suc)
  show ?case
  proof (cases ?cand)
    case None
    then show ?thesis using cs
      by (intro exI [of _ 0]) (auto simp: outcome_def randomSlugSuffix_def fail_def split: if_splits)
  next
    case (Some c)
    have att: "slug_attempts (Suc n) k draw put base s =
        call (put c) (\<lambda>e. if e = ErrUniqueViolation then slug_attempts n (k + 1) draw put base else fail e) ret s"
      using Some by (auto simp: randomSlugSuffix_def Let_def split: if_splits)
    let ?s = "s\<lparr>wseq := (wseq s)(TGigs := wseq s TGigs + 1)\<rparr>"
    show ?thesis
    proof (cases "\<exists>g \<in> set (gigs (wdb s)). gSlug g = c")
      case taken: True
      have "put c s = (Inl ErrUniqueViolation, ?s)" using taken Suc.prems(1)
        by (simp add: assms(2) insert_gig_def op_simps)
      then have run: "slug_attempts (Suc n) k draw put base s = slug_attempts n (k + 1) draw put base ?s"
        unfolding att by (simp add: call_err)
      have "reliable ?s" using Suc.prems(1) by simp
      from Suc.IH [OF this rest_def] obtain m where m: "m \<le> n" "case outcome ci (wdb ?s) rest of
          Inl e \<Rightarrow> slug_attempts n (k + 1) draw put base ?s = (Inl e, ?s\<lparr>wseq := (wseq ?s)(TGigs := wseq ?s TGigs + int m)\<rparr>)
        | Inr c \<Rightarrow> slug_attempts n (k + 1) draw put base ?s = (Inr (new_gig (wseq ?s TGigs + int m) (wnow ?s) sl ci ti ds c),
            ?s\<lparr>wseq := (wseq ?s)(TGigs := wseq ?s TGigs + int m),
              wdb := (wdb ?s)\<lparr>gigs := gigs (wdb ?s) @ [new_gig (wseq ?s TGigs + int m) (wnow ?s) sl ci ti ds c]\<rparr>\<rparr>)"
        by blast
      have "outcome ci (wdb s) cs = outcome ci (wdb s) rest" using taken Some by (simp add: cs outcome_def)
      with m show ?thesis
        by (intro exI [of _ "Suc m"]) (cases "outcome ci (wdb s) rest"; simp add: run add.assoc add.left_commute
          del: slug_attempts.simps)
    next
      case free: False
      then have ff: "first_free (wdb s) cs = Inr c" using Some by (simp add: cs)
      show ?thesis
      proof (cases "category_exists ci (wdb s)")
        case True
        with free have "put c s = (Inr (new_gig (wseq s TGigs + 1) (wnow s) sl ci ti ds c),
            ?s\<lparr>wdb := (wdb s)\<lparr>gigs := gigs (wdb s) @ [new_gig (wseq s TGigs + 1) (wnow s) sl ci ti ds c]\<rparr>\<rparr>)"
          using Suc.prems(1) by (simp add: assms(2) insert_gig_def op_simps new_gig_def Let_def)
        then have "slug_attempts (Suc n) k draw put base s = (Inr (new_gig (wseq s TGigs + 1) (wnow s) sl ci ti ds c),
            ?s\<lparr>wdb := (wdb s)\<lparr>gigs := gigs (wdb s) @ [new_gig (wseq s TGigs + 1) (wnow s) sl ci ti ds c]\<rparr>\<rparr>)"
          unfolding att by (simp add: call_ok ret_def)
        then show ?thesis using ff True by (intro exI [of _ 1]) (simp add: outcome_def)
      next
        case False
        with free have "put c s = (Inl (ErrForeignKeyViolation ''gigs_category_id_fkey''), ?s)"
          using Suc.prems(1) by (simp add: assms(2) insert_gig_def op_simps)
        then have "slug_attempts (Suc n) k draw put base s = (Inl (ErrForeignKeyViolation ''gigs_category_id_fkey''), ?s)"
          unfolding att by (simp add: call_err fail_def)
        then show ?thesis using ff False by (intro exI [of _ 1]) (simp add: outcome_def)
      qed
    qed
  qed
qed

text \<open>C38: on a working database, creating a gig tries at most five slugs, the slug of the title and then
  that slug with four random suffixes, and takes the first that no gig has; if the category of the
  form exists (or none was chosen) the gig is stored as a draft of the seller, and nothing else
  changes.  It fails when the category does not exist, when all slugs are taken or when no random
  bytes can be read, and then nothing is stored.\<close>

theorem CreateGig_takes_first_free:
  assumes "reliable s"
  shows "\<exists>m \<le> 5. case first_free (wdb s) (candidates draw title) of
      Inl e \<Rightarrow> CreateGig draw sellerID categoryID title description s
        = (Inl e, s\<lparr>wseq := (wseq s)(TGigs := wseq s TGigs + int m)\<rparr>)
    | Inr c \<Rightarrow> if category_exists categoryID (wdb s)
        then (let g = new_gig (wseq s TGigs + int m) (wnow s) sellerID categoryID title description c in
          CreateGig draw sellerID categoryID title description s
          = (Inr g, s\<lparr>wseq := (wseq s)(TGigs := wseq s TGigs + int m), wdb := (wdb s)\<lparr>gigs := gigs (wdb s) @ [g]\<rparr>\<rparr>))
        else CreateGig draw sellerID categoryID title description s
          = (Inl (ErrForeignKeyViolation ''gigs_category_id_fkey''), s\<lparr>wseq := (wseq s)(TGigs := wseq s TGigs + int m)\<rparr>)"
proof -
  let ?c = "\<lambda>j. if j = 0 then Some (slugify title) else map_option (\<lambda>x. slugify title @ ''-'' @ hex_encode x) (draw j)"
  have "map ?c [0..<0 + 5] = ?c 0 # map ?c [1..<5]" by (simp add: upt_conv_Cons)
  also have "\<dots> = candidates draw title" by (simp add: candidates_def)
  finally have eq: "map ?c [0..<0 + 5] = candidates draw title" .
  from slug_attempts_first_free [OF assms refl refl, where sl = sellerID and ci = categoryID and ti = title
      and ds = description and base = "slugify title" and draw = draw and k = 0 and n = 5]
  obtain m where "m \<le> 5" "case outcome categoryID (wdb s) (candidates draw title) of
      Inl e \<Rightarrow> CreateGig draw sellerID categoryID title description s
        = (Inl e, s\<lparr>wseq := (wseq s)(TGigs := wseq s TGigs + int m)\<rparr>)
    | Inr c \<Rightarrow> CreateGig draw sellerID categoryID title description s
        = (Inr (new_gig (wseq s TGigs + int m) (wnow s) sellerID categoryID title description c),
          s\<lparr>wseq := (wseq s)(TGigs := wseq s TGigs + int m),
            wdb := (wdb s)\<lparr>gigs := gigs (wdb s) @ [new_gig (wseq s TGigs + int m) (wnow s) sellerID categoryID title description c]\<rparr>\<rparr>)"
    unfolding eq CreateGig_def by blast
  then show ?thesis
    by (intro exI [of _ m]) (simp add: outcome_def Let_def split: sum.splits if_splits)
qed

theorem CreateGig_takes_first_free_witness:
  "(\<exists>m \<le> 5. fst (CreateGig (\<lambda>_. None) 3 (Some 2) ''Logo design!'' ''text'' (deployed 0))
      = Inr (new_gig (int m) 0 3 (Some 2) ''Logo design!'' ''text'' ''logo-design''))
    \<and> fst (CreateGig (\<lambda>_. None) 3 (Some 99) ''Logo design!'' ''text'' (deployed 0))
      = Inl (ErrForeignKeyViolation ''gigs_category_id_fkey'')"
proof -
  have "slugify ''Logo design!'' = ''logo-design''" by code_simp
  then have free: "first_free (wdb (deployed 0)) (candidates (\<lambda>_. None) ''Logo design!'') = Inr ''logo-design''"
    by (simp add: candidates_def deployed_def migrated_def)
  have cat: "category_exists (Some 2) (wdb (deployed 0))" "\<not> category_exists (Some 99) (wdb (deployed 0))"
    and init: "wseq (deployed 0) TGigs = 0" "wnow (deployed 0) = 0" "reliable (deployed 0)"
    by (simp_all add: category_exists_def deployed_def migrated_def)
  note run = CreateGig_takes_first_free [OF init(3), where draw = "\<lambda>_. None" and title = "''Logo design!''"
      and sellerID = 3 and description = "''text''", unfolded free, simplified]
  show ?thesis
    using run [where categoryID = "Some 2"] run [where categoryID = "Some 99"] cat init
    by (auto simp: Let_def)
qed

end
