(* ===== verification/Post.thy ===== *)
theory Post
  imports Frames
begin

text \<open>
  Postconditions of operations: \<^verbatim>\<open>post m Q s\<close> says that running \<^verbatim>\<open>m\<close> in \<^verbatim>\<open>s\<close> ends with a result and a
  world that satisfy \<^verbatim>\<open>Q\<close>.  The combinators decompose by equations (\<^verbatim>\<open>post_simps\<close>); a statement has
  one rule that covers every outcome, the scheduled failure included (\<^verbatim>\<open>post_rules\<close>).
\<close>

definition post :: "('s \<Rightarrow> 'r \<times> 's) \<Rightarrow> ('r \<Rightarrow> 's \<Rightarrow> bool) \<Rightarrow> 's \<Rightarrow> bool" where
  "post m Q s \<longleftrightarrow> Q (fst (m s)) (snd (m s))"

lemma postI: "(\<And>r t. m s = (r, t) \<Longrightarrow> Q r t) \<Longrightarrow> post m Q s"
  by (simp add: post_def)

lemma postD: "post m Q s \<Longrightarrow> m s = (r, t) \<Longrightarrow> Q r t"
  by (simp add: post_def)

lemma post_mono: "post m P s \<Longrightarrow> (\<And>r t. P r t \<Longrightarrow> Q r t) \<Longrightarrow> post m Q s"
  by (simp add: post_def)

lemma post_ret: "post (ret x) Q s \<longleftrightarrow> Q (Inr x) s" by (simp add: post_def ret_def)
lemma post_fail: "post (fail e) Q s \<longleftrightarrow> Q (Inl e) s" by (simp add: post_def fail_def)
lemma post_reply: "post (reply r) Q s \<longleftrightarrow> Q r s" by (simp add: post_def reply_def)
lemma post_now: "post get_now Q s \<longleftrightarrow> Q (Inr (wnow s)) s" by (simp add: post_def get_now_def)
lemma post_also_do: "post (also_do m k) Q s \<longleftrightarrow> post m (\<lambda>_ t. post k Q t) s"
  by (simp add: post_def also_do_def)

lemma post_call: "post (call m h k) Q s \<longleftrightarrow>
    post m (\<lambda>r t. (\<forall>e. r = Inl e \<longrightarrow> post (h e) Q t) \<and> (\<forall>x. r = Inr x \<longrightarrow> post (k x) Q t)) s"
  by (auto simp: post_def call_def split: prod.split sum.split)

lemmas post_simps = post_ret post_fail post_reply post_also_do post_now post_call

lemma post_any: "(\<And>r t. Q r t) \<Longrightarrow> post m Q s"
  by (simp add: post_def)

text \<open>A frame condition is a postcondition.\<close>

lemma post_steps: "steps R m \<Longrightarrow> (\<And>r t. R s t \<Longrightarrow> Q r t) \<Longrightarrow> post m Q s"
  by (simp add: post_def steps_def)

section \<open>Statements\<close>

lemma post_query:
  assumes "\<And>t. wdb t = wdb s \<Longrightarrow> wnow t = wnow s \<Longrightarrow> Q (Inl ErrFault) t"
    and "\<And>t. wdb t = wdb s \<Longrightarrow> wnow t = wnow s \<Longrightarrow> Q (f (wnow s) (wdb s)) t"
  shows "post (query f) Q s"
  by (rule postI, erule query_cases) (use assms in auto)

lemma post_exec:
  assumes "\<And>t. wdb t = wdb s \<Longrightarrow> wnow t = wnow s \<Longrightarrow> Q (Inl ErrFault) t"
    and "\<And>t. wnow t = wnow s \<Longrightarrow> case f (wnow s) (wdb s) of
        Inl e \<Rightarrow> wdb t = wdb s \<longrightarrow> Q (Inl e) t
      | Inr (x, d) \<Rightarrow> wdb t = d \<longrightarrow> Q (Inr x) t"
  shows "post (exec f) Q s"
  by (rule postI, erule exec_cases) (use assms in \<open>auto split: sum.splits prod.splits\<close>)

lemma post_insert:
  assumes "\<And>t. wdb t = wdb s \<Longrightarrow> wnow t = wnow s \<Longrightarrow> Q (Inl ErrFault) t"
    and "\<And>t. wnow t = wnow s \<Longrightarrow> case f (wseq s i + 1) (wnow s) (wdb s) of
        Inl e \<Rightarrow> wdb t = wdb s \<longrightarrow> Q (Inl e) t
      | Inr (x, d) \<Rightarrow> wdb t = d \<longrightarrow> Q (Inr x) t"
  shows "post (insert_row i f) Q s"
  by (rule postI, erule insert_cases) (use assms in \<open>auto split: sum.splits prod.splits\<close>)

lemma post_tx:
  assumes "\<And>e t. wdb t = wdb s \<Longrightarrow> Q (Inl e) t"
    and "\<And>u. wdb u = wdb s \<Longrightarrow> wnow u = wnow s \<Longrightarrow>
      post m (\<lambda>r v. \<forall>x t. r = Inr x \<longrightarrow> wdb t = wdb v \<longrightarrow> Q (Inr x) t) u"
  shows "post (tx m) Q s"
proof (rule postI)
  fix r t assume "tx m s = (r, t)"
  then show "Q r t"
  proof (cases rule: tx_cases)
    case (committed x s1 s2)
    with assms(2) [of s1] show ?thesis by (auto simp: post_def)
  qed (simp add: assms(1))
qed

end
