(* ===== verification/Catalog.thy ===== *)
theory Catalog
  imports HandlersCatalog Post "HOL-Library.Multiset"
begin

text \<open>
  What the public pages show (\<^verbatim>\<open>src/store/catalog.go\<close>, \<^verbatim>\<open>src/handlers/catalog.go\<close>): the listing is
  exactly the visible gigs that match, cut into pages, and neither a listing nor a gig page shows a
  gig or an image that is not approved.
\<close>

section \<open>The listing\<close>

lemma set_search_order [simp]: "set (search_order ord d rows) = set rows"
  by (simp add: search_order_def)

lemma in_search_rows:
  "x \<in> set (search_rows matches q d) \<longleftrightarrow>
    (\<exists>g \<in> set (gigs d). search_hit matches q d g \<and> summary_of d g = Some x)"
  by (force simp: search_rows_def List.map_filter_def)

lemma summary_fields:
  "summary_of d g = Some x \<Longrightarrow> gsID x = gID g \<and> gsSlug x = gSlug g \<and> gsTitle x = gTitle g \<and> gsSellerID x = gSellerID g
    \<and> gsStartingPriceMinorUnits x = starting_price d g"
  by (auto simp: summary_of_def Let_def split: option.splits)

text \<open>The order of the listing, read off the \<^verbatim>\<open>ORDER BY\<close>: by price when asked, otherwise the newest gig
  first; among equals the greatest number first.\<close>

definition listed_before :: "string \<Rightarrow> db \<Rightarrow> gig \<Rightarrow> gig \<Rightarrow> bool" where
  "listed_before ord d g h \<longleftrightarrow>
    (if ord = ''price_asc'' then starting_price d g < starting_price d h \<or> starting_price d g = starting_price d h \<and> gID h \<le> gID g
     else if ord = ''price_desc'' then starting_price d h < starting_price d g \<or> starting_price d g = starting_price d h \<and> gID h \<le> gID g
     else gCreatedAt h < gCreatedAt g \<or> gCreatedAt g = gCreatedAt h \<and> gID h \<le> gID g)"

text \<open>Sorting by a key keeps the given order among equals.\<close>

lemma sorted_wrt_sort_key:
  "sorted_wrt Q xs \<Longrightarrow> sorted_wrt (\<lambda>x y. f x < f y \<or> f x = f y \<and> Q x y) (sort_key f xs)"
proof (induction xs)
  case (Cons x xs)
  have ins: "sorted_wrt R ys \<Longrightarrow> \<forall>y \<in> set ys. Q x y \<Longrightarrow> sorted_wrt R (insort_key f x ys)"
    if "R = (\<lambda>x y. f x < f y \<or> f x = f y \<and> Q x y)" for R ys
    by (induction ys) (auto simp: that set_insort_key)
  from Cons show ?case by (auto intro!: ins)
qed simp

lemma search_order_listed: "sorted_wrt (listed_before ord d) (search_order ord d rows)"
proof -
  have "sorted_wrt (\<lambda>g h. gID h \<le> gID g) (sort_key (\<lambda>g. - gID g) rows)"
    using sorted_sort_key [of "\<lambda>g. - gID g" rows] by (simp add: sorted_map)
  from sorted_wrt_sort_key [OF this] show ?thesis
    unfolding search_order_def by (rule sorted_wrt_mono_rel [rotated]) (auto simp: listed_before_def split: if_splits)
qed

lemma mset_search_order [simp]: "mset (search_order ord d rows) = mset rows"
  by (simp add: search_order_def)

lemma map_filter_total: "List.map_filter h xs = map (\<lambda>x. the (h x)) (filter (\<lambda>x. h x \<noteq> None) xs)"
  by (simp add: List.map_filter_def comp_def)

text \<open>A listing: the gigs that match and can be joined with their seller, each as often as it is stored,
  in the order asked for.\<close>

definition listing :: "text_search \<Rightarrow> search_params \<Rightarrow> db \<Rightarrow> gig list \<Rightarrow> bool" where
  "listing matches q d gs \<longleftrightarrow>
    mset gs = mset (filter (\<lambda>g. search_hit matches q d g \<and> summary_of d g \<noteq> None) (gigs d))
    \<and> sorted_wrt (listed_before (qpSort q) d) gs"

lemma search_rows_listing:
  obtains gs where "listing matches q d gs" "search_rows matches q d = map (the \<circ> summary_of d) gs"
proof
  let ?gs = "filter (\<lambda>g. summary_of d g \<noteq> None) (search_order (qpSort q) d (filter (search_hit matches q d) (gigs d)))"
  show "listing matches q d ?gs"
    using sorted_wrt_filter [OF search_order_listed]
    by (simp add: listing_def filter_filter_mset conj_commute)
  show "search_rows matches q d = map (the \<circ> summary_of d) ?gs"
    by (simp add: search_rows_def map_filter_total comp_def)
qed

text \<open>A page is a piece of the whole; the pieces in a row make up the whole.\<close>

lemma pages_append:
  "0 \<le> per \<Longrightarrow> concat (map (\<lambda>k. page_of (int k * per) per rows) [0..<n]) = take (n * nat per) rows"
proof (induction n)
  case (Suc n)
  have "nat (int n * per) = n * nat per" using Suc.prems by (simp add: nat_mult_distrib)
  then have "page_of (int n * per) per rows = take (nat per) (drop (n * nat per) rows)" by (simp add: page_of_def)
  moreover have "take (n * nat per) rows @ take (nat per) (drop (n * nat per) rows) = take (n * nat per + nat per) rows"
    by (rule take_add [symmetric])
  ultimately show ?case using Suc by (simp add: add.commute)
qed simp

definition found :: "text_search \<Rightarrow> search_params \<Rightarrow> world \<Rightarrow> gig_summary list" where
  "found matches q s = (case fst (SearchGigs matches q s) of Inl _ \<Rightarrow> [] | Inr res \<Rightarrow> fst res)"

lemma found_page:
  assumes "reliable s" "1 \<le> qpPerPage q" "qpPerPage q \<le> 100" "qpPage q = int k + 1" "int k * qpPerPage q < 2 ^ 63"
  shows "found matches q s = page_of (int k * qpPerPage q) (qpPerPage q) (search_rows matches q (wdb s))"
proof -
  define off where "off = int k * qpPerPage q"
  have off: "0 \<le> off" "off < 2 ^ 63" using assms(2,5) unfolding off_def by (auto intro: mult_nonneg_nonneg)
  then have "wrap64 off = off" by (intro wrap64_id) (simp add: in_int64_def)
  with off(1) have "found matches q s = page_of off (qpPerPage q) (search_rows matches q (wdb s))"
    using assms(1-4) by (simp add: found_def SearchGigs_def op_simps Let_def off_def [symmetric])
  then show ?thesis by (simp add: off_def)
qed

lemma search_rows_page: "search_rows matches (q\<lparr>qpPage := p\<rparr>) d = search_rows matches q d"
proof -
  have "search_hit matches (q\<lparr>qpPage := p\<rparr>) d = search_hit matches q d"
    by (rule ext) (simp add: search_hit_def)
  then show ?thesis by (simp add: search_rows_def)
qed


abbreviation sample_gig :: "int \<Rightarrow> string \<Rightarrow> gig" where
  "sample_gig i slug \<equiv> \<lparr>gID = i, gSellerID = 3, gCategoryID = Some 1, gSlug = slug, gTitle = ''Logo'', gDescription = ''text'',
    gStatus = ''active'', gModerationState = ''approved'', gCreatedAt = i, gUpdatedAt = i\<rparr>"

abbreviation sample_query :: "int \<Rightarrow> search_params" where
  "sample_query per \<equiv> \<lparr>qpQuery = [], qpCategorySlug = ''design'', qpTagSlug = [], qpSellerID = 0, qpSort = ''newest'',
    qpPage = 1, qpPerPage = per\<rparr>"

abbreviation sample_catalog :: world where
  "sample_catalog \<equiv> (deployed 5)\<lparr>wdb := migrated\<lparr>users := [sample_user 3], gigs := [sample_gig 1 ''a'', sample_gig 2 ''b'']\<rparr>\<rparr>"

lemma sample_listing:
  assumes "listing (\<lambda>q g. True) (sample_query 1) (wdb sample_catalog) gs"
  shows "map gsSlug (map (the \<circ> summary_of (wdb sample_catalog)) gs) = [''b'', ''a'']"
proof -
  let ?d = "wdb sample_catalog"
  have hits: "filter (\<lambda>g. search_hit (\<lambda>q g. True) (sample_query 1) ?d g \<and> summary_of ?d g \<noteq> None) (gigs ?d)
      = [sample_gig 1 ''a'', sample_gig 2 ''b'']"
    by code_simp
  with assms have m: "mset gs = {#sample_gig 1 ''a'', sample_gig 2 ''b''#}"
    and sw: "sorted_wrt (listed_before ''newest'' ?d) gs" by (simp_all add: listing_def)
  from m have "length gs = 2" by (metis size_mset mset.simps size_add_mset numeral_2_eq_2 One_nat_def size_empty)
  then obtain x y where gs: "gs = [x, y]" by (auto simp: numeral_2_eq_2 length_Suc_conv)
  from sw have "x \<noteq> sample_gig 1 ''a'' \<or> y \<noteq> sample_gig 2 ''b''" by (auto simp: gs listed_before_def)
  moreover from m have "x = sample_gig 1 ''a'' \<and> y = sample_gig 2 ''b'' \<or> x = sample_gig 2 ''b'' \<and> y = sample_gig 1 ''a''"
    by (auto simp: gs add_eq_conv_ex)
  ultimately have "gs = [sample_gig 2 ''b'', sample_gig 1 ''a'']" using gs by blast
  moreover have "map gsSlug (map (the \<circ> summary_of ?d) [sample_gig 2 ''b'', sample_gig 1 ''a'']) = [''b'', ''a'']" by code_simp
  ultimately show ?thesis by simp
qed


section \<open>Nothing hidden\<close>

text \<open>What a lookup of the listing or of a gig returns, whatever fails on the way.\<close>

lemma post_SearchGigs:
  "post (SearchGigs matches q) (\<lambda>r t. wdb t = wdb s \<and> (\<forall>res. r = Inr res \<longrightarrow>
    set (fst res) \<subseteq> set (search_rows matches q (wdb s)))) s"
  unfolding SearchGigs_def Let_def
  by (rule post_query) (auto simp: page_of_def dest!: in_set_takeD in_set_dropD split: if_splits)

lemma post_loadGigDetail:
  "post (loadGigDetail g) (\<lambda>r t. wdb t = wdb s \<and> (\<forall>d. r = Inr d \<longrightarrow> gdGig d = g
    \<and> set (gdPackages d) = {p \<in> set (gig_packages (wdb s)). gpGigID p = gID g}
    \<and> set (gdMedia d) = {m \<in> set (gig_media (wdb s)). gmGigID m = gID g})) s"
proof -
  have cat: "post (case gCategoryID g of None \<Rightarrow> ret [] | Some c \<Rightarrow> query (\<lambda>now d. map_sum id ctName
      (one_row (find (\<lambda>x. ctID x = c) (categories d))))) (\<lambda>r t. wdb t = wdb s) s"
    by (cases "gCategoryID g") (auto simp: post_simps intro!: post_query)
  show ?thesis
    unfolding loadGigDetail_def read_or_def
    by (rule post_call [THEN iffD2], rule post_mono [OF cat])
      (auto simp: post_simps intro!: post_query)
qed

lemma post_GetGigBySlug:
  "post (GetGigBySlug slug) (\<lambda>r t. wdb t = wdb s \<and> (\<forall>d. r = Inr d \<longrightarrow>
    gdGig d \<in> set (gigs (wdb s)) \<and> publicly_visible (gdGig d) \<and> gSlug (gdGig d) = slug
    \<and> set (gdMedia d) = {m \<in> set (gig_media (wdb s)). gmGigID m = gID (gdGig d)})) s"
  unfolding GetGigBySlug_def
  by (rule post_call [THEN iffD2], rule post_query)
    (auto simp: post_simps one_row_def split: option.splits dest!: find_SomeD intro!: post_mono [OF post_loadGigDetail])

lemma render_answer: "fst (render r status title s) = Page status title"
  by (simp add: render_def op_defs split: option.splits)

lemma ensureSession_answer:
  "(\<And>e t. fst (h e t) \<in> A) \<Longrightarrow> (\<And>se q t. fst (k se q t) \<in> A) \<Longrightarrow> fst (ensureSession cfg r h k s) \<in> A"
  by (auto simp: ensureSession_def op_defs Let_def split: option.splits prod.splits sum.splits)

lemma call_answer: "(\<And>e t. fst (h e t) \<in> A) \<Longrightarrow> (\<And>x t. fst (k x t) \<in> A) \<Longrightarrow> fst (call m h k s) \<in> A"
  by (auto simp: call_def split: prod.splits sum.splits)

text \<open>A gig page stands for a visible gig; a hidden gig is answered like a missing one.\<close>

lemma gigDetail_page:
  assumes "fst (gigDetail cfg r s) = Page status title"
  shows "status = 200 \<and> (\<exists>g \<in> set (gigs (wdb s)). publicly_visible g \<and> gSlug g = rqPath r ''slug'' \<and> gTitle g = title)"
proof -
  obtain x t where g: "GetGigBySlug (rqPath r ''slug'') s = (x, t)" by fastforce
  show ?thesis
  proof (cases x)
    case (Inl e)
    with assms g show ?thesis
      by (auto simp: gigDetail_def op_defs notFound_def renderError_def split: if_splits)
  next
    case (Inr d)
    let ?A = "{InternalError, Page 200 (gTitle (gdGig d))}"
    have "gigDetail cfg r s = ensureSession cfg r (\<lambda>_. renderError) (\<lambda>se q.
        call (case rqUser q of None \<Rightarrow> ret False | Some u \<Rightarrow> IsFavorite (uID u) (gID (gdGig d))) (\<lambda>_. renderError)
        (\<lambda>favorited. render q 200 (ggTitle (gig_page d (rqUser q) favorited (seCSRF se))))) t"
      using g Inr by (simp add: gigDetail_def call_ok)
    moreover have "fst \<dots> \<in> ?A"
      by (intro ensureSession_answer call_answer) (simp_all add: renderError_def reply_def render_answer gig_page_def Let_def)
    ultimately have "fst (gigDetail cfg r s) \<in> ?A" by simp
    with assms have "status = 200" "title = gTitle (gdGig d)" by auto
    moreover have "gdGig d \<in> set (gigs (wdb s)) \<and> publicly_visible (gdGig d) \<and> gSlug (gdGig d) = rqPath r ''slug''"
      using post_GetGigBySlug [of "rqPath r ''slug''" s] g Inr by (simp add: post_def)
    ultimately show ?thesis by blast
  qed
qed

lemma gigDetail_hidden:
  assumes "\<forall>g \<in> set (gigs (wdb s)). gSlug g = rqPath r ''slug'' \<longrightarrow> \<not> publicly_visible g"
  shows "fst (gigDetail cfg r s) = (if True \<in> set (take 1 (wfaults s)) then InternalError else NotFoundPage)"
proof -
  have "find (\<lambda>g. gSlug g = rqPath r ''slug'' \<and> publicly_visible g) (gigs (wdb s)) = None"
    using assms by (auto simp: find_None_iff)
  then show ?thesis
    by (auto simp: gigDetail_def GetGigBySlug_def query_def stmt_def op_defs one_row_def notFound_def renderError_def
      split: list.splits)
qed

text \<open>C36: whatever the state and whatever fails, the cards of the search results and of a seller's page stand
  for gigs that are active and approved, and the images a gig page shows are approved images of that
  gig.  A page is served under the address of a gig only when a gig of that slug is active and
  approved, and it is that gig's page; a gig that is hidden or not approved is answered with the
  not-found page, as a missing one is (or with an error page when the lookup itself failed).\<close>

theorem only_visible_gigs_shown:
  "(fst (search_data matches text category ord page s) = Inr p \<longrightarrow>
      (\<forall>c \<in> set (shGigs p). \<exists>g \<in> set (gigs (wdb s)). publicly_visible g \<and> gSlug g = gcSlug c))
    \<and> (fst (seller_data matches i profile s) = Inr sp \<longrightarrow>
      (\<forall>c \<in> set (slGigs sp). \<exists>g \<in> set (gigs (wdb s)). publicly_visible g \<and> gSlug g = gcSlug c))
    \<and> (fst (GetGigBySlug slug s) = Inr d \<longrightarrow>
      gdGig d \<in> set (gigs (wdb s)) \<and> publicly_visible (gdGig d) \<and> gSlug (gdGig d) = slug
      \<and> (\<forall>v \<in> set (ggMedia (gig_page d viewer favorited csrf)). \<exists>m \<in> set (gig_media (wdb s)).
          v = (gmMediaPath m, gmAltText m) \<and> gmGigID m = gID (gdGig d) \<and> gmModerationState m = ModerationApproved))
    \<and> (fst (gigDetail cfg r s) = Page status title \<longrightarrow> status = 200 \<and>
      (\<exists>g \<in> set (gigs (wdb s)). publicly_visible g \<and> gSlug g = rqPath r ''slug'' \<and> gTitle g = title))
    \<and> ((\<forall>g \<in> set (gigs (wdb s)). gSlug g = rqPath r ''slug'' \<longrightarrow> \<not> publicly_visible g) \<longrightarrow>
      fst (gigDetail cfg r s) = (if True \<in> set (take 1 (wfaults s)) then InternalError else NotFoundPage))"
proof -
  have cards: "\<exists>g \<in> set (gigs dd). publicly_visible g \<and> gSlug g = gcSlug c"
    if "c \<in> set (toGigCards rows)" "set rows \<subseteq> set (search_rows matches q dd)" for c rows q dd
    using that by (force simp: toGigCards_def in_search_rows search_hit_def dest: summary_fields)
  have "post (search_data matches text category ord page) (\<lambda>r t. \<forall>p. r = Inr p \<longrightarrow>
      (\<forall>c \<in> set (shGigs p). \<exists>g \<in> set (gigs (wdb s)). publicly_visible g \<and> gSlug g = gcSlug c)) s"
    unfolding search_data_def Let_def ListCategories_def
    by (rule post_call [THEN iffD2], (rule post_query;
      (auto simp: post_simps intro!: post_mono [OF post_SearchGigs]; blast intro: cards)))
  moreover have "post (seller_data matches i profile) (\<lambda>r t. \<forall>p. r = Inr p \<longrightarrow>
      (\<forall>c \<in> set (slGigs p). \<exists>g \<in> set (gigs (wdb s)). publicly_visible g \<and> gSlug g = gcSlug c)) s"
    unfolding seller_data_def ListPortfolioItems_def
    by (rule post_call [THEN iffD2], (rule post_query;
      (auto simp: post_simps intro!: post_mono [OF post_SearchGigs]; blast intro: cards)))
  ultimately show ?thesis
    using post_GetGigBySlug [of slug s] gigDetail_page [of cfg r s status title] gigDetail_hidden [of s r cfg]
    by (auto simp: post_def gig_page_def toMediaViews_def Let_def)
qed

abbreviation sample_visitor :: request where
  "sample_visitor \<equiv> sample_request\<lparr>rqPath := (\<lambda>_. ''a''), rqSession := Some \<lparr>seID = 1, seUserID = None, seTokenHash = ''t'',
    seCSRF = ''c'', seExpiresAt = 9, seUserAgent = [], seIP = [], seRevokedAt = None, seLastSeen = 0, seFlash = None\<rparr>\<rparr>"

abbreviation hidden_catalog :: world where
  "hidden_catalog \<equiv> sample_catalog\<lparr>wdb := (wdb sample_catalog)\<lparr>gigs :=
    [(sample_gig 1 ''a'')\<lparr>gModerationState := ModerationPending\<rparr>]\<rparr>\<rparr>"

theorem only_visible_gigs_shown_witness:
  "(\<exists>d. fst (GetGigBySlug ''a'' sample_catalog) = Inr d \<and> publicly_visible (gdGig d))
    \<and> (\<forall>cfg. fst (gigDetail cfg sample_visitor sample_catalog) = Page 200 ''Logo''
      \<and> fst (gigDetail cfg sample_visitor hidden_catalog) = NotFoundPage)"
proof -
  have "\<exists>d. fst (GetGigBySlug ''a'' sample_catalog) = Inr d"
    by (simp add: GetGigBySlug_def loadGigDetail_def read_or_def op_simps op_defs deployed_def one_row_def
      publicly_visible_def GigActive_def ModerationApproved_def migrated_def)
  then have "\<exists>d. fst (GetGigBySlug ''a'' sample_catalog) = Inr d \<and> publicly_visible (gdGig d)"
    using only_visible_gigs_shown [where slug = "''a''" and s = sample_catalog] by blast
  moreover have "fst (gigDetail cfg sample_visitor sample_catalog) = Page 200 ''Logo''" for cfg
    by (simp add: gigDetail_def GetGigBySlug_def loadGigDetail_def read_or_def op_simps op_defs deployed_def one_row_def
      publicly_visible_def GigActive_def ModerationApproved_def migrated_def ensureSession_def render_answer gig_page_def)
  moreover have "\<forall>g \<in> set (gigs (wdb hidden_catalog)). \<not> publicly_visible g" "reliable hidden_catalog"
    by (simp_all add: publicly_visible_def ModerationPending_def ModerationApproved_def deployed_def)
  then have "fst (gigDetail cfg sample_visitor hidden_catalog) = NotFoundPage" for cfg
    using only_visible_gigs_shown [where s = hidden_catalog and r = sample_visitor and cfg = cfg] by auto
  ultimately show ?thesis by blast
qed

end
