(* ===== verification/CatalogInvariants.thy ===== *)
theory CatalogInvariants
  imports OrderInvariants Slugs Catalog
begin

text \<open>
  What holds of the catalog in every state a deployment reaches: keys and slugs are unique, every
  row satisfies its constraints, and a gig that is active has a package that can be ordered.
\<close>

section \<open>The invariant\<close>

definition gig_ok :: "gig \<Rightarrow> bool" where
  "gig_ok g \<longleftrightarrow> gSlug g \<noteq> [] \<and> slug_chars (gSlug g)
    \<and> gStatus g \<in> {GigDraft, GigActive, GigPaused, GigArchived} \<and> gModerationState g \<in> moderation_states"

definition package_ok :: "gig_package \<Rightarrow> bool" where
  "package_ok p \<longleftrightarrow> gpTier p \<in> {''basic'', ''standard'', ''premium''} \<and> 0 < gpPriceMinorUnits p
    \<and> 0 < gpDeliveryDays p \<and> int4 (gpDeliveryDays p) \<and> int4 (gpRevisions p)"

definition rows_ok :: "db \<Rightarrow> (table \<Rightarrow> int) \<Rightarrow> bool" where
  "rows_ok d q \<longleftrightarrow> keys_ok gID (q TGigs) (gigs d) \<and> distinct (map gSlug (gigs d)) \<and> (\<forall>g \<in> set (gigs d). gig_ok g)
    \<and> keys_ok gpID (q TGigPackages) (gig_packages d)
    \<and> distinct (map (\<lambda>p. (gpGigID p, gpTier p)) (gig_packages d)) \<and> (\<forall>p \<in> set (gig_packages d). package_ok p)
    \<and> keys_ok gaID (q TGigAddons) (gig_addons d) \<and> (\<forall>a \<in> set (gig_addons d). 0 < gaPriceMinorUnits a)
    \<and> keys_ok ctID (q TCategories) (categories d) \<and> distinct (map ctSlug (categories d))
    \<and> keys_ok tgID (q TTags) (tags d) \<and> distinct (map tgSlug (tags d)) \<and> (\<forall>t \<in> set (tags d). slug_ok (tgSlug t))
    \<and> distinct (gig_tags d) \<and> distinct (map (\<lambda>f. (fvUserID f, fvGigID f)) (favorites d))"

definition sellable :: "db \<Rightarrow> bool" where
  "sellable d \<longleftrightarrow> (\<forall>g \<in> set (gigs d). gStatus g = GigActive \<longrightarrow> (\<exists>p \<in> set (gig_packages d). gpGigID p = gID g))"

definition catalog_inv :: "db \<Rightarrow> (table \<Rightarrow> int) \<Rightarrow> bool" where
  "catalog_inv d q \<longleftrightarrow> rows_ok d q \<and> sellable d"

lemma rows_ok_same:
  "rows_ok d q \<Longrightarrow> (\<And>x. q x \<le> q' x) \<Longrightarrow> gigs d' = gigs d \<Longrightarrow> gig_packages d' = gig_packages d \<Longrightarrow>
    gig_addons d' = gig_addons d \<Longrightarrow> categories d' = categories d \<Longrightarrow> tags d' = tags d \<Longrightarrow>
    gig_tags d' = gig_tags d \<Longrightarrow> favorites d' = favorites d \<Longrightarrow> rows_ok d' q'"
  by (auto simp: rows_ok_def intro: keys_ok_mono)

lemma catalog_inv_same:
  "catalog_inv d q \<Longrightarrow> (\<And>x. q x \<le> q' x) \<Longrightarrow> gigs d' = gigs d \<Longrightarrow> gig_packages d' = gig_packages d \<Longrightarrow>
    gig_addons d' = gig_addons d \<Longrightarrow> categories d' = categories d \<Longrightarrow> tags d' = tags d \<Longrightarrow>
    gig_tags d' = gig_tags d \<Longrightarrow> favorites d' = favorites d \<Longrightarrow> catalog_inv d' q'"
  unfolding catalog_inv_def by (auto elim: rows_ok_same simp: sellable_def)

interpretation ro: inv_frame rows_ok
  by unfold_locales (erule rows_ok_same; simp)

interpretation cg: region_inv catalog_inv "{RCatalog}"
  by unfold_locales (auto elim!: catalog_inv_same dest!: modifiesD [of _ _ _ RCatalog])

lemma keys_ok_filter: "keys_ok key n rs \<Longrightarrow> keys_ok key n (filter P rs)"
  by (auto simp: keys_ok_def distinct_map_filter)

text \<open>Updating gigs in place: key, slug and validity stay, and no gig becomes active.\<close>

lemma gig_rows_update:
  assumes "rows_ok d q" "\<And>g. gID (f g) = gID g \<and> gSlug (f g) = gSlug g" "\<And>g. gig_ok g \<Longrightarrow> gig_ok (f g)"
  shows "rows_ok (d\<lparr>gigs := update_where P f (gigs d)\<rparr>) q"
  using assms by (auto simp: rows_ok_def keys_ok_update map_update_where set_update_where)

lemma gig_update:
  assumes "catalog_inv d q" "\<And>g. gID (f g) = gID g \<and> gSlug (f g) = gSlug g" "\<And>g. gig_ok g \<Longrightarrow> gig_ok (f g)"
    and "\<And>g. gStatus (f g) = GigActive \<Longrightarrow> gStatus g = GigActive"
  shows "catalog_inv (d\<lparr>gigs := update_where P f (gigs d)\<rparr>) q"
proof -
  have "sellable (d\<lparr>gigs := update_where P f (gigs d)\<rparr>)"
    using assms(1,2,4) by (auto simp: catalog_inv_def sellable_def set_update_where split: if_splits)
  with gig_rows_update assms show ?thesis by (simp add: catalog_inv_def)
qed

section \<open>The operations\<close>

lemma catalog_categories:
  "steps (keeps catalog_inv) (CreateCategory sg nm ds ps)"
  "steps (keeps catalog_inv) (UpdateCategory i nm ds ps)"
  "steps (keeps catalog_inv) (DeleteCategory i)"
proof -
  show "steps (keeps catalog_inv) (CreateCategory sg nm ds ps)"
    unfolding CreateCategory_def
    by (rule cg.steps_insert) (auto simp: catalog_inv_def rows_ok_def sellable_def split: if_splits intro: keys_ok_snoc)
  show "steps (keeps catalog_inv) (UpdateCategory i nm ds ps)"
    unfolding UpdateCategory_def guarded_update_def
    by (intro cg.fr.steps_if cg.steps_query cg.steps_exec)
      (auto simp: catalog_inv_def rows_ok_def sellable_def keys_ok_update map_update_where split: if_splits)
  show "steps (keeps catalog_inv) (DeleteCategory i)"
    unfolding DeleteCategory_def
  proof (rule cg.steps_exec)
    fix n d x d' q
    assume step: "(if \<not> (\<exists>c \<in> set (categories d). ctID c = i) then Inl ErrNotFound
      else Inr ((), d\<lparr>categories := filter (\<lambda>c. ctID c \<noteq> i) (categories d),
        gigs := update_where (\<lambda>g. gCategoryID g = Some i) (\<lambda>g. g\<lparr>gCategoryID := None\<rparr>) (gigs d)\<rparr>)) = Inr (x, d')"
      and inv: "catalog_inv d q"
    from step have d': "d' = d\<lparr>categories := filter (\<lambda>c. ctID c \<noteq> i) (categories d),
        gigs := update_where (\<lambda>g. gCategoryID g = Some i) (\<lambda>g. g\<lparr>gCategoryID := None\<rparr>) (gigs d)\<rparr>"
      by (auto split: if_splits)
    have "catalog_inv (d\<lparr>gigs := update_where (\<lambda>g. gCategoryID g = Some i) (\<lambda>g. g\<lparr>gCategoryID := None\<rparr>) (gigs d)\<rparr>) q"
      by (rule gig_update [OF inv]) (simp_all add: gig_ok_def)
    then show "catalog_inv d' q"
      by (auto simp: d' catalog_inv_def rows_ok_def sellable_def keys_ok_filter distinct_map_filter)
  qed
qed

text \<open>Statements on tables the invariant does not mention.\<close>

lemma other_tables:
  "catalog_inv (d\<lparr>gig_media := x1\<rparr>) q = catalog_inv d q" "catalog_inv (d\<lparr>portfolio_items := x2\<rparr>) q = catalog_inv d q"
  "catalog_inv (d\<lparr>draft_orders := x3\<rparr>) q = catalog_inv d q" "catalog_inv (d\<lparr>draft_addons := x4\<rparr>) q = catalog_inv d q"
  by (simp_all add: catalog_inv_def rows_ok_def sellable_def)

lemma catalog_later: "catalog_inv d q \<Longrightarrow> (\<And>x. q x \<le> q' x) \<Longrightarrow> catalog_inv d q'"
  by (rule cg.seq_mono)

lemma catalog_others:
  "steps (keeps catalog_inv) (AddGigMedia i pt al)" "steps (keeps catalog_inv) (CreatePortfolioItem u ti ds mp)"
  "steps (keeps catalog_inv) (SetGigMediaModerationState i st)" "steps (keeps catalog_inv) (UpsertDraftOrder b g p)"
  "steps (keeps catalog_inv) (SetDraftOrderRequirements i rq ids)" "steps (keeps catalog_inv) (delete_draft i)"
  unfolding AddGigMedia_def CreatePortfolioItem_def SetGigMediaModerationState_def UpsertDraftOrder_def
    SetDraftOrderRequirements_def delete_draft_def add_draft_addon_def Let_def
  by (intro cg.steps_tx cg.fr.frame_rules cg.steps_query cg.steps_insert cg.steps_exec;
    auto simp: other_tables split: option.splits if_splits intro: catalog_later)+

lemma catalog_order: "steps (keeps catalog_inv) (CreateOrderFromDraft df b sl g rq its su fe to cu rv)"
  unfolding CreateOrderFromDraft_def
  by (intro cg.steps_tx cg.fr.frame_rules catalog_others;
    rule cg.unaffected, rule regions_orders regions_ledger, simp)

lemma catalog_gig_edits:
  "steps (keeps catalog_inv) (UpdateGig i sl ci ti ds)" "steps (keeps catalog_inv) (SetGigModerationStateAdmin i st)"
  unfolding UpdateGig_def guarded_update_def SetGigModerationStateAdmin_def
  by (rule cg.steps_exec; auto split: if_splits intro!: gig_update simp: gig_ok_def)+

lemma catalog_insert_gig:
  assumes "sg \<noteq> []" "slug_chars sg"
  shows "steps (keeps catalog_inv) (insert_gig sl ci sg ti ds)"
  unfolding insert_gig_def
  by (rule cg.steps_insert)
    (use assms in \<open>auto simp: catalog_inv_def rows_ok_def sellable_def gig_ok_def moderation_states_def GigDraft_def
      GigActive_def Let_def split: if_splits intro: keys_ok_snoc\<close>)

lemma slug_char_hex: "c \<in> set (hex_encode bs) \<Longrightarrow> slug_char c"
  by (auto simp: hex_encode_def slug_char_def hex_char_code Let_def split: if_splits)

lemma catalog_slug_attempts:
  assumes "slug_chars base" "base \<noteq> []" "\<And>c. slug_chars c \<Longrightarrow> c \<noteq> [] \<Longrightarrow> steps (keeps catalog_inv) (put c)"
  shows "steps (keeps catalog_inv) (slug_attempts n k draw put base)"
proof (induction n arbitrary: k)
  case (Suc n)
  have "slug_chars (base @ ''-'' @ x)" if "randomSlugSuffix (draw k) = Some x" for x
    using that assms(1) slug_char_hex by (auto simp: slug_chars_def randomSlugSuffix_def)
  then show ?case
    using assms Suc by (auto simp: Let_def intro!: cg.fr.frame_rules split: option.splits)
qed (simp add: cg.fr.steps_fail)

lemma catalog_create_gig: "steps (keeps catalog_inv) (CreateGig dr sl ci ti ds)"
  unfolding CreateGig_def using slug_ok_slugify [of ti]
  by (intro catalog_slug_attempts catalog_insert_gig) (simp_all add: slug_ok_def)

lemma distinct_rename:
  assumes "distinct (map key rows)" "distinct (map name rows)" "\<forall>t \<in> set rows. key t \<noteq> i \<longrightarrow> name t \<noteq> new"
    and "\<And>r. name (f r) = new"
  shows "distinct (map name (update_where (\<lambda>t. key t = i) f rows))"
  using assms(1-3)
proof (induction rows)
  case (Cons a rows)
  show ?case
  proof (cases "key a = i")
    case True
    then have none: "\<And>t. t \<in> set rows \<Longrightarrow> key t \<noteq> i" using Cons.prems(1) True by (metis distinct.simps(2) image_eqI list.simps(9) set_map)
    then have "new \<notin> name ` set rows" using Cons.prems(3) by auto
    with none Cons.prems(2) True show ?thesis by (simp add: update_where_none assms(4))
  next
    case False
    with Cons have "name a \<notin> name ` set (update_where (\<lambda>t. key t = i) f rows)"
      by (auto simp: set_update_where assms(4) image_iff split: if_splits)
    with Cons False show ?thesis by simp
  qed
qed simp

lemma catalog_tags:
  "steps (keeps catalog_inv) (DeleteTag i)" "steps (keeps catalog_inv) (RenameTag i nm)"
  "steps (keeps catalog_inv) (upsert_tag (slugify nm) nm)" "steps (keeps catalog_inv) (link_tag g i)"
proof -
  show "steps (keeps catalog_inv) (DeleteTag i)" "steps (keeps catalog_inv) (link_tag g i)"
    unfolding DeleteTag_def link_tag_def
    by (rule cg.steps_exec; auto simp: catalog_inv_def rows_ok_def sellable_def keys_ok_filter distinct_map_filter
      split: if_splits)+
  show "steps (keeps catalog_inv) (RenameTag i nm)"
    unfolding RenameTag_def
    by (rule cg.steps_exec) (auto simp: catalog_inv_def rows_ok_def sellable_def keys_ok_update set_update_where
      slug_ok_slugify keys_ok_def [of tgID] map_update_where split: if_splits intro!: distinct_rename [where new = "slugify nm"])
  show "steps (keeps catalog_inv) (upsert_tag (slugify nm) nm)"
    unfolding upsert_tag_def
    by (rule cg.steps_insert) (auto simp: catalog_inv_def rows_ok_def sellable_def slug_ok_slugify find_None_iff
      split: option.splits intro: keys_ok_snoc keys_ok_mono)
qed

lemma catalog_tag_loop: "steps (keeps catalog_inv) (tag_loop i names seen)"
  by (induction names arbitrary: seen) (auto simp: Let_def intro!: cg.fr.frame_rules catalog_tags)

lemma catalog_set_tags: "steps (keeps catalog_inv) (SetGigTags i names)"
  unfolding SetGigTags_def
  by (intro cg.steps_tx cg.fr.frame_rules catalog_tag_loop cg.steps_exec)
    (auto simp: catalog_inv_def rows_ok_def sellable_def)

lemma catalog_favorites: "steps (keeps catalog_inv) (ToggleFavorite u i)"
  unfolding ToggleFavorite_def
  by (intro cg.steps_tx cg.fr.frame_rules cg.steps_exec cg.steps_query)
    (auto simp: catalog_inv_def rows_ok_def sellable_def is_favorite_def distinct_map_filter split: if_splits)

lemma catalog_addons: "steps (keeps catalog_inv) (ReplaceGigAddons i addons)"
  unfolding ReplaceGigAddons_def clear_addons_def insert_gig_addon_def Let_def
  by (intro cg.steps_tx cg.fr.frame_rules cg.steps_insert cg.steps_exec)
    (auto simp: catalog_inv_def rows_ok_def sellable_def keys_ok_filter split: if_splits intro!: keys_ok_snoc)

section \<open>Packages\<close>

text \<open>Between the deletion and the insertions an active gig may be without packages, so the transaction
  is taken as a whole: its statements keep \<^const>\<open>rows_ok\<close>, and a replacement that commits leaves
  the packages of the other gigs and puts at least one in place.\<close>

lemma rows_clear: "steps (keeps rows_ok) (clear_packages i)"
  unfolding clear_packages_def Let_def
  by (rule ro.steps_exec) (auto simp: rows_ok_def keys_ok_filter distinct_map_filter)

lemma rows_snoc:
  assumes "rows_ok d q" "gpID r = q TGigPackages + 1" "package_ok r"
    "\<forall>p \<in> set (gig_packages d). \<not> (gpGigID p = gpGigID r \<and> gpTier p = gpTier r)"
  shows "rows_ok (d\<lparr>gig_packages := gig_packages d @ [r]\<rparr>) (q(TGigPackages := q TGigPackages + 1))"
  using assms by (auto simp: rows_ok_def intro!: keys_ok_snoc)

lemma rows_insert: "steps (keeps rows_ok) (insert_gig_package i p)"
  unfolding insert_gig_package_def
proof (rule ro.steps_insert)
  fix n d x d' and q :: "table \<Rightarrow> int"
  let ?r = "p\<lparr>gpID := q TGigPackages + 1, gpGigID := i\<rparr>"
  assume step: "(if \<not> int4 (gpDeliveryDays p) \<or> \<not> int4 (gpRevisions p) then Inl ErrOutOfRange
    else if gpDeliveryDays p \<le> 0 then Inl (ErrCheckViolation ''gig_packages_delivery_check'')
    else if gpPriceMinorUnits p \<le> 0 then Inl (ErrCheckViolation ''gig_packages_price_check'')
    else if gpTier p \<notin> {''basic'', ''standard'', ''premium''} then Inl (ErrCheckViolation ''gig_packages_tier_check'')
    else if \<exists>q\<in>set (gig_packages d). gpGigID q = i \<and> gpTier q = gpTier p then Inl ErrUniqueViolation
    else Inr ((), d\<lparr>gig_packages := gig_packages d @ [?r]\<rparr>)) = Inr (x, d')" and inv: "rows_ok d q"
  have "package_ok ?r" "d' = d\<lparr>gig_packages := gig_packages d @ [?r]\<rparr>"
    "\<forall>y \<in> set (gig_packages d). \<not> (gpGigID y = i \<and> gpTier y = gpTier p)"
    using step by (simp_all add: package_ok_def split: if_split_asm)
  with rows_snoc [OF inv, of ?r] show "rows_ok d' (q(TGigPackages := q TGigPackages + 1))" by simp
qed

lemma clear_packages_run:
  "clear_packages i s = (Inr (), t) \<Longrightarrow> gigs (wdb t) = gigs (wdb s)
    \<and> set (gig_packages (wdb t)) = {p \<in> set (gig_packages (wdb s)). gpGigID p \<noteq> i}"
  unfolding clear_packages_def by (erule exec_cases) (auto simp: Let_def dest!: sym [where t = "wdb t"])

lemma insert_package_run:
  "insert_gig_package i p s = (Inr (), t) \<Longrightarrow> gigs (wdb t) = gigs (wdb s)
    \<and> (\<exists>k. set (gig_packages (wdb t)) = insert (p\<lparr>gpID := k, gpGigID := i\<rparr>) (set (gig_packages (wdb s))))"
  unfolding insert_gig_package_def
  by (erule insert_cases) (auto split: if_splits dest!: sym [where t = "wdb t"])

lemma insert_packages_run:
  "each (insert_gig_package i) ps s = (Inr (), t) \<Longrightarrow> gigs (wdb t) = gigs (wdb s)
    \<and> set (gig_packages (wdb s)) \<subseteq> set (gig_packages (wdb t))
    \<and> (ps \<noteq> [] \<longrightarrow> (\<exists>p \<in> set (gig_packages (wdb t)). gpGigID p = i))"
proof (induction ps arbitrary: s)
  case (Cons p ps)
  obtain x u where i: "insert_gig_package i p s = (x, u)" by fastforce
  from Cons.prems i have x: "x = Inr ()" "each (insert_gig_package i) ps u = (Inr (), t)"
    by (auto simp: op_defs split: sum.splits)
  from insert_package_run [OF i [unfolded x(1)]] Cons.IH [OF x(2)]
  obtain k where "p\<lparr>gpID := k, gpGigID := i\<rparr> \<in> set (gig_packages (wdb t))" by auto
  then have "\<exists>y \<in> set (gig_packages (wdb t)). gpGigID y = i" by (rule bexI [rotated]) simp
  with insert_package_run [OF i [unfolded x(1)]] Cons.IH [OF x(2)] show ?case by auto
qed (simp add: ret_def)

lemma catalog_packages:
  assumes "packages \<noteq> []"
  shows "steps (keeps catalog_inv) (ReplaceGigPackages i packages)"
proof (rule stepsI)
  fix s
  let ?body = "call (clear_packages i) fail (\<lambda>_. each (insert_gig_package i) packages)"
  have rows: "steps (keeps rows_ok) (ReplaceGigPackages i packages)"
    unfolding ReplaceGigPackages_def by (intro ro.steps_tx ro.fr.frame_rules rows_clear rows_insert)
  obtain r t where run: "ReplaceGigPackages i packages s = (r, t)" by fastforce
  have "sellable (wdb t)" if sell: "sellable (wdb s)"
    using run unfolding ReplaceGigPackages_def
  proof (cases rule: tx_cases)
    case (committed x s1 s2)
    obtain y u where c: "clear_packages i s1 = (y, u)" by fastforce
    from committed(2) c have y: "y = Inr ()" "each (insert_gig_package i) packages u = (Inr (), s2)"
      by (auto simp: op_defs split: sum.splits)
    from clear_packages_run [OF c [unfolded y(1)]] insert_packages_run [OF y(2)] assms committed(3,6) sell
    show ?thesis unfolding sellable_def by (metis (mono_tags, lifting) mem_Collect_eq subsetD)
  qed (simp add: sell)
  with stepsD [OF rows, of s] run show "keeps catalog_inv s (snd (ReplaceGigPackages i packages s))"
    by (auto simp: keeps_def catalog_inv_def)
qed

section \<open>Publishing\<close>

lemma catalog_status:
  assumes "st = GigActive \<Longrightarrow> \<exists>p \<in> set (gig_packages (wdb s)). gpGigID p = i"
  shows "keeps catalog_inv s (snd (SetGigStatus i sl st s))"
proof -
  obtain r t where run: "SetGigStatus i sl st s = (r, t)" by fastforce
  from this [unfolded SetGigStatus_def] have "keeps catalog_inv s t"
  proof (cases rule: exec_cases)
    case (ok x d)
    let ?P = "\<lambda>g. gID g = i \<and> gSellerID g = sl" and ?f = "\<lambda>g. g\<lparr>gStatus := st, gUpdatedAt := wnow s\<rparr>"
    from ok(1) have st: "st \<in> {GigDraft, GigActive, GigPaused, GigArchived}"
      and d: "d = (wdb s)\<lparr>gigs := update_where ?P ?f (gigs (wdb s))\<rparr>"
      by (auto simp: Let_def split: if_splits)
    have "catalog_inv d q" if inv: "catalog_inv (wdb s) q" for q
    proof -
      have "rows_ok d q" unfolding d
        by (rule gig_rows_update) (use inv st in \<open>auto simp: catalog_inv_def gig_ok_def\<close>)
      moreover have "sellable d" using inv assms
        by (auto simp: d catalog_inv_def sellable_def set_update_where split: if_splits)
      ultimately show ?thesis by (simp add: catalog_inv_def)
    qed
    with ok show ?thesis by (simp add: keeps_def)
  qed (auto intro!: cg.keeps_seq)
  with run show ?thesis by simp
qed

lemma post_GetGigForOwner:
  "post (GetGigForOwner i j) (\<lambda>r t. wdb t = wdb s \<and> (\<forall>d. r = Inr d \<longrightarrow> gID (gdGig d) = i
    \<and> set (gdPackages d) = {p \<in> set (gig_packages (wdb s)). gpGigID p = i})) s"
  unfolding GetGigForOwner_def
  by (rule post_call [THEN iffD2], rule post_query)
    (auto simp: post_simps one_row_def split: option.splits dest!: find_SomeD intro!: post_mono [OF post_loadGigDetail])

interpretation cac: write_contract "keeps catalog_inv"
proof unfold_locales
  fix w w' M assume "touches M w w'" "M \<inter> critical = {}"
  then show "keeps catalog_inv w w'"
    by (auto simp: touches_def critical_def keeps_def elim!: catalog_inv_same dest!: modifiesD [of _ _ _ RCatalog])
qed (rule cg.steps_send catalog_categories catalog_create_gig catalog_gig_edits catalog_others catalog_order
      catalog_addons catalog_set_tags catalog_tags catalog_favorites
    | erule catalog_packages | assumption | (rule cg.unaffected, rule op_regions, simp))+

lemma catalog_sellGigStatus: "steps (keeps catalog_inv) (sellGigStatus u r)"
proof -
  have go: "steps (keeps catalog_inv) (loadOwnedGig u r i (\<lambda>d. if st = GigActive \<and> gdPackages d = []
      then flash_redirect r ''Add at least one package before publishing.'' (gig_edit_url i)
      else call (SetGigStatus i (uID u) st) (\<lambda>_. renderError)
        (\<lambda>_. also_do (gig_audit u ''gig.status_changed'' i) (reply (Redirect ''/sell'')))))" for i st
    unfolding loadOwnedGig_def
  proof (rule stepsI, rule cg.fr.rel_call)
    fix s
    show "keeps catalog_inv s (snd (GetGigForOwner i (uID u) s))"
      by (rule stepsD, rule cac.quiet_ops, simp)
    fix e t
    show "keeps catalog_inv t (snd ((if e = ErrNotFound then notFound r else renderError) t))"
      by (rule stepsD, intro cac.handler_rules)
  next
    fix s d t assume get: "GetGigForOwner i (uID u) s = (Inr d, t)"
    from postD [OF post_GetGigForOwner get]
    have t: "gdPackages d \<noteq> [] \<Longrightarrow> \<exists>p \<in> set (gig_packages (wdb t)). gpGigID p = i" by (cases "gdPackages d") auto
    have rest: "steps (keeps catalog_inv) (also_do (gig_audit u ''gig.status_changed'' i) (reply (Redirect ''/sell'')))"
      unfolding gig_audit_def by (intro cac.handler_rules)
    show "keeps catalog_inv t (snd ((if st = GigActive \<and> gdPackages d = []
      then flash_redirect r ''Add at least one package before publishing.'' (gig_edit_url i)
      else call (SetGigStatus i (uID u) st) (\<lambda>_. renderError)
        (\<lambda>_. also_do (gig_audit u ''gig.status_changed'' i) (reply (Redirect ''/sell'')))) t))"
    proof (cases "st = GigActive \<and> gdPackages d = []")
      case True
      then show ?thesis by (simp add: stepsD [OF cac.steps_flash(3)])
    next
      case False
      then have "keeps catalog_inv t (snd (SetGigStatus i (uID u) st t))" using t by (intro catalog_status) auto
      then show ?thesis
        unfolding if_not_P [OF False]
        by (rule cg.fr.rel_call) (rule stepsD [OF cac.steps_render(3)] stepsD [OF rest])+
    qed
  qed
  show ?thesis
  proof (cases "path_id r ''id''")
    case None
    then show ?thesis by (simp add: sellGigStatus_def cac.steps_render)
  next
    case (Some i)
    then show ?thesis
      using cac.steps_render(3) go [of i "rqForm r ''status''"]
      by (simp add: sellGigStatus_def Let_def) (intro impI cg.fr.frame_rules)
  qed
qed

interpretation cam: money_contract "keeps catalog_inv"
  by unfold_locales (rule catalog_sellGigStatus | (rule cac.capture_rule, rule cg.unaffected, rule regions_posting, simp)
    | (rule cg.unaffected, rule regions_posting, simp))+

section \<open>The properties\<close>

lemma catalog_inv_start: "catalog_inv (wdb (deployed now)) (wseq (deployed now))"
  by (auto simp: deployed_def migrated_def catalog_inv_def rows_ok_def sellable_def keys_ok_def)

text \<open>C35: In every state a deployment reaches the catalog is well formed: keys are unique, no two gigs,
  categories or tags share a slug, a gig has one package per tier, prices and delivery times are
  positive, status and moderation state are known values; and a gig that is active, so open to
  orders, has a package.\<close>

theorem catalog_well_formed:
  assumes "runs ev (deployed now) s"
  shows "rows_ok (wdb s) (wseq s) \<and> sellable (wdb s)"
  using cam.runs_respects [OF assms] catalog_inv_start by (simp add: keeps_def catalog_inv_def)

theorem catalog_well_formed_witness:
  "\<exists>s. runs sample_env (deployed 0) s \<and> rows_ok (wdb s) (wseq s) \<and> sellable (wdb s)"
proof -
  let ?e = "Request (Catalog Home) sample_request"
  have run: "runs sample_env (deployed 0) (happens (sample_env\<lparr>evProviders := [], evMailer := \<lambda>_ _ _. None\<rparr>) ?e (at 1 [] (deployed 0)))"
    by (intro runs.step runs.start) (simp add: deployed_def)
  with catalog_well_formed [OF run] show ?thesis by blast
qed

end
