(* ===== verification/Access.thy ===== *)
theory Access
  imports App
begin

text \<open>
  What the HTTP layer guarantees request by request: webhooks are applied once and refunds ordered
  once, outsiders see nothing of an order, forged requests and users without the role are refused,
  and the order page offers exactly the actions its handlers accept.
\<close>

section \<open>Quiet operations\<close>

text \<open>Operations that send nothing to a provider and write at most the regions of \<^verbatim>\<open>M\<close>.\<close>

definition calm :: "region set \<Rightarrow> world \<Rightarrow> world \<Rightarrow> bool" where
  "calm M s t \<longleftrightarrow> touches M s t \<and> wsent t = wsent s"

interpretation ca: frame "calm M" for M
  by unfold_locales (auto simp: calm_def intro: tc.frame_refl tc.frame_trans)

lemma steps_calm: "steps (calm M) m \<longleftrightarrow> steps (touches M) m \<and> (\<forall>s. wsent (snd (m s)) = wsent s)"
  by (auto simp: steps_def calm_def)

lemma stmt_sent: "(\<And>s. wsent (snd (m s)) = wsent s) \<Longrightarrow> wsent (snd (stmt m s)) = wsent s"
  by (auto simp: stmt_def split: list.splits)

lemma calm_query: "steps (calm M) (query f)"
  by (simp add: steps_calm touches_query) (simp add: query_def stmt_sent)

lemma calm_exec: "steps (touches M) (exec f) \<Longrightarrow> steps (calm M) (exec f)"
  by (simp add: steps_calm) (auto simp: exec_def intro!: stmt_sent split: sum.splits)

lemmas calm_rules = ca.frame_rules calm_query

lemma calm_pages:
  "steps (calm {RSessions}) (notFound r)" "steps (calm {RSessions}) renderError"
  "steps (calm {RSessions}) (flash_redirect r m url)"
proof -
  have e: "steps (calm {RSessions}) (ConsumeFlash i)" "steps (calm {RSessions}) (SetFlash i fl)" for i fl
    using regions_accounts(9) regions_accounts_more(14)
    unfolding ConsumeFlash_def SetFlash_def update_session_def by (auto intro: calm_exec)
  show "steps (calm {RSessions}) (notFound r)"
    unfolding notFound_def render_def viewUser_def CountUnreadNotifications_def by (intro calm_rules e)
  show "steps (calm {RSessions}) renderError"
    unfolding renderError_def by (intro calm_rules)
  show "steps (calm {RSessions}) (flash_redirect r m url)"
    unfolding flash_redirect_def flashError_def set_flash_def by (intro calm_rules e)
qed

lemma calm_lookups:
  "steps (calm {}) (GetOrder i)" "steps (calm {}) (LatestPaymentIntentForOrder i)"
  "steps (calm {}) (maybe (GetRefundForOrder i))" "steps (calm {}) (UserHasRole i ro)"
  unfolding GetOrder_def LatestPaymentIntentForOrder_def maybe_def GetRefundForOrder_def UserHasRole_def
  by (intro calm_rules)+

lemma calm_mono: "steps (calm M) m \<Longrightarrow> M \<subseteq> N \<Longrightarrow> steps (calm N) m"
  using touches_mono by (auto simp: steps_calm)

lemma query_wdb: "query f s = (x, t) \<Longrightarrow> wdb t = wdb s \<and> wnow t = wnow s"
  by (auto elim: query_cases)

section \<open>Webhooks and refunds\<close>

text \<open>C13: a webhook event that was received before is acknowledged without any effect: no second
  row, no second job and no request to a provider.  Only when the statement that looks the event up
  fails is the answer 500, so that the provider delivers it again.\<close>

theorem webhook_redelivery:
  assumes "\<exists>w \<in> set (webhook_events (wdb s)). whProvider w = veProvider evt \<and> whEventID w = veEventID evt"
  shows "wdb (snd (receiveWebhookEvent sha body evt s)) = wdb s
    \<and> wsent (snd (receiveWebhookEvent sha body evt s)) = wsent s
    \<and> fst (receiveWebhookEvent sha body evt s) = (if True \<in> set (take 1 (wfaults s)) then HttpError 500 else Accepted)"
proof -
  let ?ins = "InsertWebhookEvent (veProvider evt) (veEventID evt) (veEventType evt) (veProviderRef evt) body (sha body)"
  obtain x t where i: "?ins s = (x, t)" by fastforce
  have "wdb t = wdb s \<and> wsent t = wsent s \<and> x = (if True \<in> set (take 1 (wfaults s)) then Inl ErrFault else Inr (0, False))"
    using i assms unfolding InsertWebhookEvent_def insert_row_def
    by (auto simp: stmt_def Let_def split: if_splits list.splits)
  then show ?thesis by (auto simp: receiveWebhookEvent_def op_defs i)
qed

abbreviation sample_event :: verified_event where
  "sample_event \<equiv> \<lparr>veProvider = ''stripe'', veEventID = ''evt_1'', veEventType = ''payment'', veProviderRef = ''cs_1'',
    vePayment = None, veAccount = None\<rparr>"

theorem webhook_redelivery_witness:
  "let s = snd (receiveWebhookEvent id ''{}'' sample_event (deployed 0)) in
    length (jobs (wdb s)) = 1 \<and> fst (receiveWebhookEvent id ''{}'' sample_event s) = Accepted
    \<and> wdb (snd (receiveWebhookEvent id ''{}'' sample_event s)) = wdb s"
proof -
  let ?s = "snd (receiveWebhookEvent id ''{}'' sample_event (deployed 0))"
  have first: "\<exists>w \<in> set (webhook_events (wdb ?s)). whProvider w = veProvider sample_event \<and> whEventID w = veEventID sample_event"
    "length (jobs (wdb ?s)) = 1" "reliable ?s"
    by (simp_all add: receiveWebhookEvent_def InsertWebhookEvent_def EnqueueJob_def op_defs op_simps deployed_def migrated_def Let_def)
  from webhook_redelivery [OF first(1)] first(2,3) show ?thesis by simp
qed

text \<open>C15: while an order has a refund that did not fail, an administrator cannot refund it again:
  no request goes to the provider, and orders, refunds and ledger stay as they are.\<close>

theorem refund_not_repeated:
  assumes "path_id r ''id'' = Some i" "\<exists>q \<in> set (refunds (wdb s)). rfOrderID q = i \<and> rfStatus q \<noteq> PaymentFailed"
  shows "let s' = snd (adminOrderRefund reg admin r s) in
    wsent s' = wsent s \<and> refunds (wdb s') = refunds (wdb s) \<and> ledger_entries (wdb s') = ledger_entries (wdb s)
    \<and> orders (wdb s') = orders (wdb s)"
proof -
  note lookups = calm_lookups [THEN calm_mono [where N = "{RSessions}"], THEN stepsD, simplified]
  note pages = calm_pages [THEN stepsD]
  have found: "maybe (GetRefundForOrder i) t \<noteq> (Inr None, t')" if "wdb t = wdb s" for t t'
    using that assms(2)
    by (auto simp: maybe_def op_defs GetRefundForOrder_def one_row_def find_None_iff
      elim!: query_cases split: prod.splits sum.splits option.splits)
  have same: "wdb t = wdb s0" if "GetOrder i s0 = (x, t) \<or> LatestPaymentIntentForOrder i s0 = (y, t)" for s0 t x y
    using that by (auto simp: GetOrder_def LatestPaymentIntentForOrder_def dest: query_wdb)
  have "calm {RSessions} s (snd (adminOrderRefund reg admin r s))"
    unfolding adminOrderRefund_def assms(1) option.case Let_def
    by (auto intro!: ca.rel_call lookups pages dest!: same [OF disjI1] same [OF disjI2] simp: found)
  then show ?thesis
    by (auto simp: calm_def touches_def Let_def dest: modifies_tables)
qed

theorem refund_not_repeated_witness:
  "let s = (deployed 0)\<lparr>wdb := migrated\<lparr>refunds := [\<lparr>rfID = 1, rfOrderID = 7, rfPaymentIntentID = 1,
      rfRequestedBy = None, rfReason = ''late'', rfAmountMinor = 2750, rfCurrency = ''usd'',
      rfStatus = PaymentSucceeded, rfProviderRef = ''re_1''\<rparr>]\<rparr>\<rparr> in
    wsent (snd (adminOrderRefund [] (sample_user 1) sample_request s)) = []"
  using refund_not_repeated [OF sample_path, of "(deployed 0)\<lparr>wdb := migrated\<lparr>refunds :=
      [\<lparr>rfID = 1, rfOrderID = 7, rfPaymentIntentID = 1, rfRequestedBy = None, rfReason = ''late'',
        rfAmountMinor = 2750, rfCurrency = ''usd'', rfStatus = PaymentSucceeded, rfProviderRef = ''re_1''\<rparr>]\<rparr>\<rparr>"]
  by (simp add: Let_def deployed_def)

section \<open>Outsiders and missing orders\<close>

text \<open>The same world without the order, and operations that cannot tell the difference: they return
  the same and leave states that differ in nothing but that order.\<close>

definition without_order :: "int \<Rightarrow> world \<Rightarrow> world" where
  "without_order i s = s\<lparr>wdb := (wdb s)\<lparr>orders := filter (\<lambda>ord. oID ord \<noteq> i) (orders (wdb s))\<rparr>\<rparr>"

definition blind :: "int \<Rightarrow> (world \<Rightarrow> 'r \<times> world) \<Rightarrow> bool" where
  "blind i m \<longleftrightarrow> (\<forall>s. m (without_order i s) = (fst (m s), without_order i (snd (m s))))"

lemma blindD: "blind i m \<Longrightarrow> m (without_order i s) = (fst (m s), without_order i (snd (m s)))"
  by (simp add: blind_def)

lemma without_order_sel [simp]:
  "wfaults (without_order i s) = wfaults s" "wnow (without_order i s) = wnow s"
  "sessions (wdb (without_order i s)) = sessions (wdb s)" "user_roles (wdb (without_order i s)) = user_roles (wdb s)"
  "notifications (wdb (without_order i s)) = notifications (wdb s)"
  "(without_order i s)\<lparr>wfaults := fs\<rparr> = without_order i (s\<lparr>wfaults := fs\<rparr>)"
  by (simp_all add: without_order_def)

lemma without_order_gone [simp]: "find (\<lambda>ord. oID ord = i) (orders (wdb (without_order i s))) = None"
  by (simp add: without_order_def find_None_iff)

lemma blind_also_do: "blind i m \<Longrightarrow> blind i k \<Longrightarrow> blind i (also_do m k)"
  by (simp add: blind_def op_defs)

lemma blind_plain: "blind i (reply a)" "blind i (ret x)" "blind i (fail e)"
  by (simp_all add: blind_def op_defs)

lemma blind_stmt: "blind i m \<Longrightarrow> blind i (stmt m)"
  by (auto simp: blind_def stmt_def split: list.splits)

lemma blind_query: "(\<And>s. f (wnow s) (wdb (without_order i s)) = f (wnow s) (wdb s)) \<Longrightarrow> blind i (query f)"
  unfolding query_def by (rule blind_stmt) (simp add: blind_def)

lemma blind_SetFlash: "blind i (SetFlash n fl)"
  unfolding SetFlash_def update_session_def exec_def
  by (rule blind_stmt) (simp add: blind_def without_order_def)

lemma blind_ConsumeFlash: "blind i (ConsumeFlash n)"
  unfolding ConsumeFlash_def exec_def
  by (rule blind_stmt) (simp add: blind_def without_order_def split: option.splits)

lemma blind_pages: "blind i (notFound r)" "blind i (set_flash r k msg)"
proof -
  have "blind i (viewUser r)"
    unfolding viewUser_def CountUnreadNotifications_def
    by (cases "rqUser r") (simp_all add: blind_plain blind_also_do blind_query)
  then show "blind i (notFound r)"
    unfolding notFound_def render_def
    by (cases "rqSession r") (simp_all add: blind_plain blind_also_do blind_ConsumeFlash)
  show "blind i (set_flash r k msg)"
    unfolding set_flash_def by (cases "rqSession r") (simp_all add: blind_plain blind_also_do blind_SetFlash)
qed

lemma blind_returns: "blind i (paymentReturn r)" "blind i (paymentCancelReturn r)"
  unfolding paymentReturn_def paymentCancelReturn_def flash_redirect_def flashNotice_def flashError_def
  by (cases "path_id r ''id''"; simp add: blind_pages blind_plain blind_also_do)+

definition outsider :: "user \<Rightarrow> order \<Rightarrow> db \<Rightarrow> bool" where
  "outsider u ord d \<longleftrightarrow> oBuyerID ord \<noteq> uID u \<and> oSellerID ord \<noteq> uID u \<and> (uID u, RoleAdmin) \<notin> set (user_roles d)"

text \<open>The pages and actions of one order, \<^verbatim>\<open>/orders/{id}\<close> and below.  All of them look the order up but the
  two pages a provider sends the buyer back to, which only set a flash and redirect.\<close>

definition order_routes :: "route list" where
  "order_routes = [OrderPage, OrderAttachment, OrderMessages, OrderDeliver, OrderRevise, OrderAccept,
    OrderCancelRequest, OrderCancelResolve, OrderDisputeOpen, OrderDisputeResolve, OrderReview, BTCPayStatus, EVMStatus]"

definition return_routes :: "route list" where
  "return_routes = [PayReturn, PayCancel]"

lemma notFound_answer: "fst (notFound r s) = NotFoundPage"
  by (simp add: notFound_def op_defs)

lemma outsider_answer:
  assumes "path_id r ''id'' = Some i" "find (\<lambda>ord. oID ord = i) (orders (wdb s)) = Some ord" "outsider u ord (wdb s)"
  shows "fst (loadOrderAccess u r k s) = NotFoundPage
    \<or> fst (loadOrderAccess u r k s) = InternalError \<and> True \<in> set (take 2 (wfaults s))"
    "reliable s \<Longrightarrow> loadOrderAccess u r k s = notFound r s"
  using assms unfolding loadOrderAccess_def GetOrder_def UserHasRole_def outsider_def query_def stmt_def
  by (auto simp: op_defs one_row_def renderError_def notFound_answer image_iff Let_def split: list.splits if_splits)

lemma missing_answer:
  assumes "path_id r ''id'' = Some i" "reliable s"
  shows "loadOrderAccess u r k (without_order i s) = notFound r (without_order i s)"
  using assms unfolding loadOrderAccess_def GetOrder_def
  by (simp add: op_simps op_defs one_row_def)

lemma outsider_refused:
  assumes "path_id r ''id'' = Some i" "find (\<lambda>ord. oID ord = i) (orders (wdb s)) = Some ord" "outsider u ord (wdb s)"
  shows "calm {RSessions} s (snd (loadOrderAccess u r k s))"
proof -
  note lookups = calm_lookups [THEN calm_mono [where N = "{RSessions}"], THEN stepsD, simplified]
  obtain x t where g: "GetOrder i s = (x, t)" by fastforce
  obtain y t' where h: "UserHasRole (uID u) RoleAdmin t = (y, t')" by fastforce
  from g assms(2) have x: "wdb t = wdb s" "x = Inl ErrFault \<or> x = Inr ord"
    unfolding GetOrder_def by (auto elim!: query_cases simp: one_row_def)
  from h x(1) assms(3) have y: "y = Inl ErrFault \<or> y = Inr False"
    unfolding UserHasRole_def outsider_def by (auto elim!: query_cases)
  have "calm {RSessions} s t" "calm {RSessions} t t'"
    using lookups(1) [of s i] lookups(4) [of t "uID u" RoleAdmin] g h by simp_all
  then have reach: "calm {RSessions} s t" "calm {RSessions} s t'" by (blast intro: ca.frame_trans)+
  show ?thesis
    using x(2) y assms(1,3) reach stepsD [OF calm_pages(1), of t' r]
    by (auto simp: loadOrderAccess_def op_defs g h outsider_def Let_def notFound_answer renderError_def
      intro: ca.frame_trans)
qed

lemma order_routes_access:
  assumes "rt \<in> set order_routes" "rqUser r = Some u"
  obtains k where "serve ev rt r = loadOrderAccess u r k"
proof -
  have "\<exists>k. serve ev rt r = loadOrderAccess u r k"
    using assms
    by (simp add: order_routes_def, elim disjE) (simp_all add: requireAuth_def, unfold orderDetail_def
      orderAttachmentServe_def orderMessageCreate_def orderDeliver_def orderRevise_def orderAccept_def
      orderCancelRequest_def orderCancelResolve_def orderDisputeOpen_def orderDisputeResolve_def
      orderReviewCreate_def btcpayInvoiceStatus_def evmDepositStatus_def, (rule exI, rule refl)+)
  then show thesis using that by blast
qed

lemma return_routes_blind:
  assumes "rt \<in> set return_routes" "rqUser r = Some u"
  shows "blind i (serve ev rt r)" "steps (calm {RSessions}) (serve ev rt r)"
proof -
  have f: "steps (calm {RSessions}) (flashNotice r m)" for m
  proof -
    have "steps (calm {RSessions}) (SetFlash i fl)" for i fl
      using regions_accounts(9) regions_accounts_more(14)
      unfolding SetFlash_def update_session_def by (auto intro: calm_exec)
    then show ?thesis unfolding flashNotice_def set_flash_def by (intro calm_rules)
  qed
  have "steps (calm {RSessions}) (paymentReturn r)" "steps (calm {RSessions}) (paymentCancelReturn r)"
    unfolding paymentReturn_def paymentCancelReturn_def by (intro calm_rules calm_pages f)+
  then show "steps (calm {RSessions}) (serve ev rt r)" "blind i (serve ev rt r)"
    using assms blind_returns by (auto simp: return_routes_def requireAuth_def)
qed



section \<open>Forgery and roles\<close>

text \<open>The other half: a request that carries the token of the live session its cookie names reaches the
  handler, with that session and its user.\<close>

lemma genuine_request_served:
  assumes "rqCookie r = Some c" "rqForm r ''_csrf'' = seCSRF se" "seCSRF se \<noteq> []" "reliable s"
    and "find (\<lambda>x. seTokenHash x = hashToken c \<and> seRevokedAt x = None \<and> wnow s < seExpiresAt x) (sessions (wdb s)) = Some se"
    and "seUserID se = Some i" "find (\<lambda>x. uID x = i) (users (wdb s)) = Some u"
  shows "Chain hashToken mux r s = mux (r\<lparr>rqSession := Some se, rqUser := Some u\<rparr>) s"
  using assms by (simp add: Chain_def withSession_def GetSessionByToken_def GetUserByID_def op_simps op_defs
      one_row_def withCSRF_def VerifyCSRF_def Let_def)

text \<open>C8: a request that changes state (any method but GET, HEAD, OPTIONS and TRACE) and whose form carries
  no token, or another one than the live session its cookie names, is answered with 403 before any
  handler runs, and changes nothing; so is one whose cookie names no live session.\<close>

theorem forged_request_refused:
  assumes "rqMethod r \<notin> set safe_methods"
    and "\<forall>c se. rqCookie r = Some c \<longrightarrow> se \<in> set (sessions (wdb s)) \<longrightarrow> seTokenHash se = hashToken c \<longrightarrow>
      seRevokedAt se = None \<longrightarrow> wnow s < seExpiresAt se \<longrightarrow>
      rqForm r ''_csrf'' = [] \<or> rqForm r ''_csrf'' \<noteq> seCSRF se"
  shows "fst (Chain hashToken mux r s) = HttpError 403 \<and> wdb (snd (Chain hashToken mux r s)) = wdb s
    \<and> wsent (snd (Chain hashToken mux r s)) = wsent s"
proof -
  let ?r = "r\<lparr>rqSession := None, rqUser := None\<rparr>"
  have anon: "withCSRF mux ?r t = (HttpError 403, t)" for t
    using assms(1) by (simp add: withCSRF_def reply_def)
  show ?thesis
  proof (cases "rqCookie r")
    case None
    then show ?thesis by (simp add: Chain_def withSession_def anon)
  next
    case (Some c)
    obtain x t where g: "GetSessionByToken (hashToken c) s = (x, t)" by fastforce
    from g have t: "wdb t = wdb s" "wsent t = wsent s"
      unfolding GetSessionByToken_def by (auto elim: query_cases)
    show ?thesis
    proof (cases x)
      case (Inl e)
      with Some g t show ?thesis by (simp add: Chain_def withSession_def op_defs anon)
    next
      case (Inr se)
      from g [unfolded GetSessionByToken_def Inr] have
        "se \<in> set (sessions (wdb s)) \<and> seTokenHash se = hashToken c \<and> seRevokedAt se = None \<and> wnow s < seExpiresAt se"
        by (auto elim!: query_cases simp: one_row_def split: option.splits dest!: find_SomeD)
      with assms(2) Some have bad: "\<not> VerifyCSRF (rqForm r ''_csrf'') (seCSRF se)"
        unfolding VerifyCSRF_def by auto
      have b0: "withCSRF mux q t' = (HttpError 403, t')"
        if "rqMethod q = rqMethod r" "rqForm q = rqForm r" "rqSession q = Some se" for q t'
        using assms(1) bad that by (simp add: withCSRF_def reply_def)
      show ?thesis
      proof (cases "seUserID se")
        case None
        with Some g Inr t b0 show ?thesis by (simp add: Chain_def withSession_def op_defs Let_def)
      next
        case (Some i)
        obtain y t' where u: "GetUserByID i t = (y, t')" by fastforce
        from u have "wdb t' = wdb t" "wsent t' = wsent t"
          unfolding GetUserByID_def by (auto elim: query_cases)
        with \<open>rqCookie r = Some c\<close> Some g Inr t u b0 show ?thesis
          by (cases y) (simp_all add: Chain_def withSession_def op_defs Let_def)
      qed
    qed
  qed
qed

theorem forged_request_refused_witness:
  "let se = \<lparr>seID = 1, seUserID = None, seTokenHash = ''t'', seCSRF = ''secret'', seExpiresAt = 9, seUserAgent = '''',
      seIP = '''', seRevokedAt = None, seLastSeen = 0, seFlash = None\<rparr>;
      s = (deployed 0)\<lparr>wdb := migrated\<lparr>sessions := [se]\<rparr>\<rparr>; r = sample_request\<lparr>rqCookie := Some ''t''\<rparr> in
    rqForm r ''_csrf'' \<noteq> [] \<and> fst (GetSessionByToken ''t'' s) = Inr se
    \<and> fst (Chain (\<lambda>c. c) (serve sample_env PayoutRequest) r s) = HttpError 403
    \<and> wdb (snd (Chain (\<lambda>c. c) (serve sample_env PayoutRequest) r s)) = wdb s"
proof -
  let ?se = "\<lparr>seID = 1, seUserID = None, seTokenHash = ''t'', seCSRF = ''secret'', seExpiresAt = 9, seUserAgent = '''',
      seIP = '''', seRevokedAt = None, seLastSeen = 0, seFlash = None\<rparr>"
  let ?s = "(deployed 0)\<lparr>wdb := migrated\<lparr>sessions := [?se]\<rparr>\<rparr>"
  let ?r = "sample_request\<lparr>rqCookie := Some ''t''\<rparr>"
  have "rqMethod ?r \<notin> set safe_methods" by (simp add: safe_methods_def)
  moreover have "rqForm ?r ''_csrf'' \<noteq> [] \<and> rqForm ?r ''_csrf'' \<noteq> seCSRF ?se" "sessions (wdb ?s) = [?se]" by simp_all
  moreover have "fst (GetSessionByToken ''t'' ?s) = Inr ?se"
    by (simp add: GetSessionByToken_def op_simps deployed_def one_row_def)
  ultimately show ?thesis
    using forged_request_refused [of ?r ?s "\<lambda>c. c" "serve sample_env PayoutRequest"] by (simp add: Let_def)
qed

definition route_role :: "route \<Rightarrow> string option" where
  "route_role rt = (case rt of
      Administration c \<Rightarrow> Some RoleAdmin
    | Selling c \<Rightarrow> if c = SellStart then None else Some RoleSeller
    | _ \<Rightarrow>
      if rt \<in> {AdminPayments, AdminOrderPayments, AdminRefund, AdminPayouts, AdminPayoutsPause, AdminPayoutApprove,
        AdminPayoutComplete} then Some RoleAdmin
      else if rt \<in> {SellOrders, StripeStart, StripeRefresh, StripeReturn, WalletPage, WalletSubmit, PayoutsPage,
        PayoutRequest} then Some RoleSeller else None)"

lemma requireRole_refuses:
  assumes "rqUser r = Some u" "(uID u, role) \<notin> set (user_roles (wdb s))"
  shows "fst (requireRole role h r s) = HttpError 403 \<and> wdb (snd (requireRole role h r s)) = wdb s"
proof -
  obtain x t where g: "UserHasRole (uID u) role s = (x, t)" by fastforce
  with assms(2) have "wdb t = wdb s" "x = Inl ErrFault \<or> x = Inr False"
    unfolding UserHasRole_def by (auto elim!: query_cases)
  with assms(1) g show ?thesis by (auto simp: requireRole_def op_defs)
qed

definition public_routes :: "route list" where
  "public_routes = map Accounts [RegisterForm, Register, LoginForm, Login, Logout, VerifyEmail,
    ForgotPasswordForm, ForgotPassword, ResetPasswordForm, ResetPassword]
    @ map Catalog [Healthz, Readyz, Home, Search, NotFound, Browse, BrowseCategory, GigPage, SellerPage]"

text \<open>C25: no route but those of registration, log-in, log-out, e-mail verification and password reset and
  the public pages is served without a signed-in user, and the routes of administrators and of sellers answer 403 to a user
  without that role, changing nothing.\<close>

theorem routes_guarded:
  "(rqUser r = None \<longrightarrow> rt \<notin> set public_routes \<longrightarrow> serve ev rt r s = (Redirect (loginRedirect r), s))
    \<and> (\<forall>u role. rqUser r = Some u \<longrightarrow> route_role rt = Some role \<longrightarrow> (uID u, role) \<notin> set (user_roles (wdb s)) \<longrightarrow>
        fst (serve ev rt r s) = HttpError 403 \<and> wdb (snd (serve ev rt r s)) = wdb s)"
proof (intro conjI allI impI)
  assume *: "rqUser r = None" "rt \<notin> set public_routes"
  show "serve ev rt r s = (Redirect (loginRedirect r), s)"
  proof (cases rt)
    case (Accounts a)
    with * show ?thesis by (cases a) (simp_all add: public_routes_def requireAuth_def reply_def)
  next
    case (Catalog c)
    with * show ?thesis by (cases c) (simp_all add: public_routes_def requireAuth_def reply_def)
  next
    case (Selling c)
    with * show ?thesis by (cases c) (simp_all add: requireSeller_def requireAuth_def requireRole_def reply_def)
  qed (use * in \<open>simp_all add: requireAuth_def requireRole_def reply_def\<close>)
next
  fix u role
  assume *: "rqUser r = Some u" "route_role rt = Some role" "(uID u, role) \<notin> set (user_roles (wdb s))"
  have "\<exists>h. serve ev rt r = requireRole role h r"
  proof (cases rt)
    case (Selling c)
    with *(2) show ?thesis by (cases c) (auto simp: route_role_def requireSeller_def)
  qed (use *(2) in \<open>auto simp: route_role_def\<close>)
  then obtain h where "serve ev rt r = requireRole role h r" by blast
  with requireRole_refuses [OF *(1,3)] 
  show "fst (serve ev rt r s) = HttpError 403" "wdb (snd (serve ev rt r s)) = wdb s" by simp_all
qed

theorem routes_guarded_witness:
  "fst (serve sample_env AdminRefund (sample_request\<lparr>rqUser := Some (sample_user 9)\<rparr>) (deployed 0)) = HttpError 403"
  using routes_guarded [where r = "sample_request\<lparr>rqUser := Some (sample_user 9)\<rparr>" and ev = sample_env and rt = AdminRefund
    and s = "deployed 0"]
  by (simp add: route_role_def deployed_def migrated_def)

section \<open>The order page\<close>

text \<open>The order page offers delivery, acceptance, revision, cancellation and dispute exactly
  when the table of transitions lets the viewer's part of the order move there (and a revision is
  left, no cancellation is pending, no dispute is open).\<close>

theorem page_offers_what_is_allowed:
  "let p = order_flags access viewer cancellation dispute review dt; st = oStatus (acOrder access);
      party = acIsBuyer access \<or> acIsSeller access in
    odCanDeliver p = (acIsSeller access \<and> CanTransitionOrder st OrderDelivered)
    \<and> odCanAccept p = (acIsBuyer access \<and> CanTransitionOrder st OrderAccepted)
    \<and> odCanRevise p = (acIsBuyer access \<and> CanTransitionOrder st OrderRevisionRequested
        \<and> oRevisionsUsed (acOrder access) < oRevisionsAllowed (acOrder access))
    \<and> odCanCancelRequest p = (party \<and> CanTransitionOrder st OrderCancelRequested \<and> cancellation = None)
    \<and> odCanDispute p = (party \<and> CanTransitionOrder st OrderDisputed
        \<and> (\<nexists>d. dispute = Some d \<and> dpStatus d = DisputeOpen))"
  unfolding order_flags_def Let_def isDisputable_def
  by (cases "oStatus (acOrder access)"; cases cancellation; cases dispute)
    (simp_all add: CanTransitionOrder_def)

end
