(* ===== verification/Accounts.thy ===== *)
theory Accounts
  imports App Post
begin

text \<open>
  What log-in, password reset and the lockout guarantee, on the handlers of \<^verbatim>\<open>HandlersAuth\<close>:
  under every schedule of database failures where that matters, and as runs without failures where
  the statement is that something happens.
\<close>

lemma ex_update_where:
  "(\<exists>x \<in> set (update_where P f xs). Q x) \<longleftrightarrow> (\<exists>x \<in> set xs. Q (if P x then f x else x))"
  by (induction xs) auto

section \<open>Pages and sessions\<close>

lemma post_render: "(\<And>t. Q (Page st ti) t) \<Longrightarrow> post (render r st ti) Q s"
  by (auto simp: post_def render_def op_defs split: option.split)

lemma post_renderError: "Q InternalError s \<Longrightarrow> post renderError Q s"
  by (simp add: post_def renderError_def reply_def)

lemma post_ensureSession:
  assumes "\<And>e t. users (wdb t) = users (wdb s) \<Longrightarrow> wnow t = wnow s \<Longrightarrow> post (h e) Q t"
    and "\<And>se r' t. users (wdb t) = users (wdb s) \<Longrightarrow> wnow t = wnow s \<Longrightarrow> rqForm r' = rqForm r
      \<Longrightarrow> rqLoginToken r' = rqLoginToken r \<Longrightarrow> post (k se r') Q t"
  shows "post (ensureSession cfg r h k) Q s"
proof (cases "rqSession r")
  case (Some se)
  with assms(2) [of s r se] show ?thesis by (simp add: ensureSession_def)
next
  case None
  have "post (CreateSession None hash csrf ttl ua ip) (\<lambda>r t. users (wdb t) = users (wdb s) \<and> wnow t = wnow s) s"
    for hash csrf ttl ua ip
    unfolding CreateSession_def insert_session_def
    by (cases "csrf = []") (auto simp: post_simps intro!: post_insert split: if_splits)
  note created = post_mono [OF this]
  have "post (h ErrFault) Q s" by (rule assms(1)) simp_all
  with None show ?thesis
    unfolding ensureSession_def
    by (auto simp: post_call post_now Let_def
      split: option.split intro!: created assms)
qed

definition signed_in :: "db \<Rightarrow> string \<Rightarrow> int \<Rightarrow> bool" where
  "signed_in d hash userID \<longleftrightarrow>
    (\<exists>se \<in> set (sessions d). seTokenHash se = hash \<and> seUserID se = Some userID \<and> seRevokedAt se = None)"

lemma post_rotate:
  assumes "\<And>t. post renderError Q t"
    and "\<And>raw hash newID t. rqLoginToken r = Some (raw, hash) \<Longrightarrow> signed_in (wdb t) hash userID
      \<Longrightarrow> post (k raw newID) Q t"
  shows "post (rotate cfg r sessionID userID k) Q s"
proof -
  have ins: "post (insert_session (Some userID) hash csrf ttl ua ip)
      (\<lambda>r v. \<forall>x. r = Inr x \<longrightarrow> signed_in (wdb v) hash userID) u" for hash csrf ttl ua ip u
    unfolding insert_session_def by (rule post_insert) (auto simp: signed_in_def)
  have "post (RotateSession sessionID userID hash csrf ttl ua ip)
      (\<lambda>r t. \<forall>x. r = Inr x \<longrightarrow> signed_in (wdb t) hash userID) s" for hash csrf ttl ua ip
    unfolding RotateSession_def
  proof (rule post_tx, simp, unfold post_call post_fail, rule post_any, intro conjI allI impI)
    fix r t and x :: unit
    show "post (insert_session (Some userID) hash csrf ttl ua ip)
        (\<lambda>r v. \<forall>x t. r = Inr x \<longrightarrow> wdb t = wdb v \<longrightarrow> (\<forall>x'. Inr x = Inr x' \<longrightarrow> signed_in (wdb t) hash userID)) t"
      by (rule post_mono [OF ins]) simp
  qed simp
  note rotated = post_mono [OF this]
  from assms show ?thesis
    unfolding rotate_def by (auto simp: post_call split: option.split intro!: rotated)
qed

lemma signed_in_quiet:
  assumes "signed_in (wdb s) hash userID"
  shows "post (success_flash i msg) (\<lambda>_ t. signed_in (wdb t) hash userID) s"
    and "post (user_audit j a) (\<lambda>_ t. signed_in (wdb t) hash userID) s"
proof -
  show "post (success_flash i msg) (\<lambda>_ t. signed_in (wdb t) hash userID) s"
    unfolding success_flash_def SetFlash_def update_session_def using assms
    by (intro post_exec) (auto simp: signed_in_def ex_update_where cong: if_cong)
  show "post (user_audit j a) (\<lambda>_ t. signed_in (wdb t) hash userID) s"
    unfolding user_audit_def audit_def LogAction_def post_simps using assms
    by (intro post_exec) (auto simp: signed_in_def)
qed

section \<open>Log-in\<close>

text \<open>What a log-in that succeeds has shown.\<close>

definition credentials_shown :: "auth_crypto \<Rightarrow> config \<Rightarrow> request \<Rightarrow> time \<Rightarrow> db \<Rightarrow> user \<Rightarrow> bool" where
  "credentials_shown ac cfg r now d u \<longleftrightarrow> u \<in> set (users d)
    \<and> uEmailLower u = NormalizeEmail (trim_space (rqForm r ''email''))
    \<and> uStatus u = UserActive \<and> \<not> LoginBlocked u now
    \<and> VerifyPassword (acIDKey ac) (rqForm r ''password'') (uPasswordHash u) = Inr True
    \<and> (uTotpEnabled u \<longrightarrow> (\<exists>v secret. find (\<lambda>v. uID v = uID u) (users d) = Some v
        \<and> (uTotpSecret v = Some secret \<or> uTotpSecret v = None \<and> secret = [])
        \<and> VerifyTOTP (acHmac ac) secret (trim_space (rqForm r ''totp_code'')) (cfgTOTPSkew cfg) now = Inr True))"

definition login_answer :: "auth_crypto \<Rightarrow> config \<Rightarrow> request \<Rightarrow> time \<Rightarrow> user list \<Rightarrow> response \<Rightarrow> world \<Rightarrow> bool" where
  "login_answer ac cfg r now us resp t \<longleftrightarrow> (\<forall>url raw. resp = SignIn url raw \<longrightarrow>
    (\<exists>u hash. credentials_shown ac cfg r now (migrated\<lparr>users := us\<rparr>) u \<and> rqLoginToken r = Some (raw, hash)
      \<and> signed_in (wdb t) hash (uID u)))"

lemma login_answer_page [simp]:
  "login_answer ac cfg r now us (Page st ti) t" "login_answer ac cfg r now us InternalError t"
  by (simp_all add: login_answer_def)

lemma post_login_pages:
  "post (loginFormError r) (login_answer ac cfg r' now us) s" "post renderError (login_answer ac cfg r' now us) s"
  "post (login_failed cfg' r u) (login_answer ac cfg r' now us) s"
  unfolding loginFormError_def login_failed_def post_also_do
  by (auto intro!: post_render post_renderError post_any [where m = "RecordLoginFailure _ _ _"]
    post_any [where m = "user_audit _ _"] simp: loginFormError_def)

lemma post_logged_in:
  assumes "credentials_shown ac cfg r now (migrated\<lparr>users := us\<rparr>) u" "rqLoginToken r' = rqLoginToken r"
  shows "post (logged_in cfg' r' se u url) (login_answer ac cfg r now us) s"
proof -
  have "post (rotate cfg' r' (seID se) (uID u) (\<lambda>raw newID.
      also_do (success_flash newID (''Welcome back, '' @ uName u @ ''.''))
      (also_do (user_audit (uID u) ''user.login'') (reply (SignIn url raw))))) (login_answer ac cfg r now us) t" for t
  proof (rule post_rotate)
    fix raw hash newID and v :: world
    assume *: "rqLoginToken r' = Some (raw, hash)" "signed_in (wdb v) hash (uID u)"
    show "post (also_do (success_flash newID (''Welcome back, '' @ uName u @ ''.''))
      (also_do (user_audit (uID u) ''user.login'') (reply (SignIn url raw)))) (login_answer ac cfg r now us) v"
      unfolding post_also_do post_reply
    proof (rule post_mono [OF signed_in_quiet(1) [OF *(2)]], rule post_mono [OF signed_in_quiet(2)], assumption)
      fix w :: world assume "signed_in (wdb w) hash (uID u)"
      with * assms show "login_answer ac cfg r now us (SignIn url raw) w"
        unfolding login_answer_def by auto
    qed
  qed (simp add: post_login_pages)
  note rotated = this
  show ?thesis unfolding logged_in_def post_also_do by (rule post_any) (rule rotated)
qed

lemma post_check_code:
  assumes "users (wdb s) = us" "wnow s = now" "rqLoginToken r' = rqLoginToken r" "code = trim_space (rqForm r ''totp_code'')"
    and "\<And>t. users (wdb t) = us \<Longrightarrow> wnow t = now \<Longrightarrow>
      (uTotpEnabled u \<longrightarrow> (\<exists>v secret. find (\<lambda>v. uID v = uID u) us = Some v
        \<and> (uTotpSecret v = Some secret \<or> uTotpSecret v = None \<and> secret = [])
        \<and> VerifyTOTP (acHmac ac) secret code (cfgTOTPSkew cfg) now = Inr True))
      \<Longrightarrow> post k (login_answer ac cfg r now us) t"
  shows "post (check_code ac cfg r' u code k) (login_answer ac cfg r now us) s"
proof (cases "uTotpEnabled u")
  case False
  with assms show ?thesis by (simp add: check_code_def)
next
  case True
  have read: "post (GetTOTPSecret (uID u)) (\<lambda>x t. users (wdb t) = us \<and> wnow t = now
      \<and> (\<forall>secret. x = Inr secret \<longrightarrow> (\<exists>v. find (\<lambda>v. uID v = uID u) us = Some v
        \<and> (uTotpSecret v = Some secret \<or> uTotpSecret v = None \<and> secret = [])))) s"
    unfolding GetTOTPSecret_def by (rule post_query) (auto simp: assms(1,2) split: option.splits)
  have go: "post k (login_answer ac cfg r now us) t"
    if "users (wdb t) = us" "wnow t = now" "VerifyTOTP (acHmac ac) secret code (cfgTOTPSkew cfg) now = Inr True"
      "\<exists>v. find (\<lambda>v. uID v = uID u) us = Some v
        \<and> (uTotpSecret v = Some secret \<or> uTotpSecret v = None \<and> secret = [])" for secret t
    using that by (intro assms(5)) auto
  show ?thesis
    unfolding check_code_def
    by (simp only: True not_True_eq_False if_False post_call, rule post_mono [OF read]) (auto simp: post_call post_now post_login_pages go split: sum.split)
qed

lemma post_check_user:
  assumes "users (wdb s) = us" "wnow s = now" "rqForm r' = rqForm r" "rqLoginToken r' = rqLoginToken r"
    and "u \<in> set us" "uEmailLower u = NormalizeEmail (trim_space (rqForm r ''email''))"
  shows "post (check_user ac cfg r' se u) (login_answer ac cfg r now us) s"
proof -
  have page: "post (also_do (user_audit i a) (loginFormError r')) (login_answer ac cfg r now us) s" for i a
    unfolding post_also_do by (rule post_any) (rule post_login_pages)
  have ok: "post (check_code ac cfg r' u (trim_space (rqForm r' ''totp_code'')) (logged_in cfg r' se u url))
      (login_answer ac cfg r now us) s"
    if "\<not> LoginBlocked u now" "uStatus u = UserActive"
      "VerifyPassword (acIDKey ac) (rqForm r' ''password'') (uPasswordHash u) = Inr True" for url
    using assms that
    by (intro post_check_code post_logged_in) (auto simp: credentials_shown_def)
  show ?thesis
    unfolding check_user_def post_call post_now using assms(2) page ok
    by (auto simp: post_login_pages split: sum.split)
qed

text \<open>C30: log-in opens a session only for an active account that is not locked, whose stored hash
  accepts the submitted password and, where two-factor authentication is on, whose secret accepts the
  submitted code; the new session belongs to that account and carries the fresh token.  This holds
  under every schedule of database failures.\<close>

theorem login_needs_credentials:
  assumes "fst (login ac cfg r s) = SignIn url raw"
  shows "\<exists>u hash. credentials_shown ac cfg r (wnow s) (wdb s) u \<and> rqLoginToken r = Some (raw, hash)
    \<and> signed_in (wdb (snd (login ac cfg r s))) hash (uID u)"
proof -
  have limited: "post (authRateLimited cfg r') (\<lambda>_ t. wdb t = wdb v \<and> wnow t = wnow v) v" for r' v
    by (simp add: post_def authRateLimited_def Let_def split_beta)
  have found: "post (GetUserByEmail e) (\<lambda>x t. wdb t = wdb v \<and> wnow t = wnow v
      \<and> (\<forall>u. x = Inr u \<longrightarrow> u \<in> set (users (wdb v)) \<and> uEmailLower u = NormalizeEmail e)) v" for e v
    unfolding GetUserByEmail_def by (rule post_query) (auto simp: one_row_def split: option.split dest!: find_SomeD)
  have audited: "post (also_do (audit i a e f) (loginFormError r')) (login_answer ac cfg r now us) v" for i a e f r' now us v
    unfolding post_also_do by (rule post_any) (rule post_login_pages)
  have "post (login ac cfg r) (login_answer ac cfg r (wnow s) (users (wdb s))) s"
    unfolding login_def
  proof (rule post_ensureSession)
    fix se and r' :: request and t :: world assume *: "users (wdb t) = users (wdb s)" "wnow t = wnow s" "rqForm r' = rqForm r"
      "rqLoginToken r' = rqLoginToken r"
    let ?Q = "login_answer ac cfg r (wnow s) (users (wdb s))"
    let ?e = "trim_space (rqForm r' ''email'')"
    have user: "post (call (GetUserByEmail ?e)
        (\<lambda>e. if e \<noteq> ErrNotFound then renderError else also_do (audit None ''user.login_failed'' ''user'' []) (loginFormError r'))
        (\<lambda>u. check_user ac cfg r' se u)) ?Q v" if "wdb v = wdb t" "wnow v = wnow t" for v
      unfolding post_call
      by (rule post_mono [OF found]) (use * that in \<open>auto simp: post_login_pages audited intro!: post_check_user\<close>)
    have "post (call (authRateLimited cfg r') (\<lambda>_. renderError) (\<lambda>limited. if limited then loginFormError r' else
        call (GetUserByEmail ?e)
          (\<lambda>e. if e \<noteq> ErrNotFound then renderError else also_do (audit None ''user.login_failed'' ''user'' []) (loginFormError r'))
          (\<lambda>u. check_user ac cfg r' se u))) ?Q t"
      unfolding post_call [of "authRateLimited cfg r'"]
      by (rule post_mono [OF limited]) (simp add: post_login_pages user)
    then show "post (if \<not> rqParseForm r' then renderError
        else let email = trim_space (rqForm r' ''email'') in
          if email = [] \<or> rqForm r' ''password'' = [] then loginFormError r'
          else call (authRateLimited cfg r') (\<lambda>_. renderError) (\<lambda>limited. if limited then loginFormError r'
            else call (GetUserByEmail email)
              (\<lambda>e. if e \<noteq> ErrNotFound then renderError else also_do (audit None ''user.login_failed'' ''user'' []) (loginFormError r'))
              (\<lambda>u. check_user ac cfg r' se u))) ?Q t"
      by (simp add: post_login_pages Let_def)
  qed (simp add: post_login_pages)
  with assms show ?thesis by (auto simp: post_def login_answer_def credentials_shown_def)
qed


lemma find_only:
  assumes "x \<in> set xs" "P x" "\<And>y. y \<in> set xs \<Longrightarrow> P y \<Longrightarrow> y = x"
  shows "find P xs = Some x"
proof (cases "find P xs")
  case None
  with assms(1,2) show ?thesis by (simp add: find_None_iff)
next
  case (Some y)
  with find_SomeD [OF Some] assms(3) [of y] show ?thesis by simp
qed

definition under_limit :: "config \<Rightarrow> request \<Rightarrow> world \<Rightarrow> bool" where
  "under_limit cfg r t = (fst (authRateLimited cfg r t) = Inr False)"

definition fresh_login :: "request \<Rightarrow> world \<Rightarrow> bool" where
  "fresh_login r t \<longleftrightarrow> (\<exists>raw hash csrf. rqLoginToken r = Some (raw, hash) \<and> rqLoginCSRF r = Some csrf
    \<and> length hash = 64 \<and> 16 \<le> length csrf \<and> hash \<notin> seTokenHash ` set (sessions (wdb t)))"

lemma rotate_run:
  assumes "wfaults t = []" "rqLoginToken r = Some (raw, hash)" "rqLoginCSRF r = Some csrf"
    "length hash = 64" "16 \<le> length csrf" "hash \<notin> seTokenHash ` set (sessions (wdb t))"
  shows "\<exists>i v. rotate cfg r sid uid k t = k raw i v"
proof -
  have "\<forall>x\<in>set (update_where P (\<lambda>x. x\<lparr>seRevokedAt := y\<rparr>) (sessions (wdb t))). seTokenHash x \<noteq> hash" for P y
    using assms(6) by (auto simp: set_update_where split: if_splits)
  with assms show ?thesis
    by (simp add: rotate_def RotateSession_def op_defs op_simps update_session_def insert_session_def tx_def stmt_reliable)
      (intro exI, rule refl)
qed

lemma login_succeeds:
  assumes "wfaults t = []" "rqSession r = Some se" "rqParseForm r" "trim_space (rqForm r ''email'') \<noteq> []"
    and "rqForm r ''password'' \<noteq> []" "under_limit cfg r t" "fresh_login r t"
    and "find (\<lambda>u. uEmailLower u = NormalizeEmail (trim_space (rqForm r ''email''))) (users (wdb t)) = Some u"
    and "uStatus u = UserActive" "\<not> LoginBlocked u (wnow t)" "\<not> uTotpEnabled u"
    and "VerifyPassword (acIDKey ac) (rqForm r ''password'') (uPasswordHash u) = Inr True"
  shows "\<exists>raw. fst (login ac cfg r t) = SignIn (safeNext (rqForm r ''next'')) raw"
proof -
  obtain b where b: "authRateLimited cfg r t = (Inr False, t\<lparr>wbuckets := b\<rparr>)"
    using assms(6) by (auto simp: under_limit_def authRateLimited_def Let_def split_beta)
  let ?t = "t\<lparr>wbuckets := b\<rparr>"
  have g: "GetUserByEmail (trim_space (rqForm r ''email'')) ?t = (Inr u, ?t)"
    using assms(1,8) by (simp add: GetUserByEmail_def op_simps one_row_def)
  obtain raw hash csrf where f: "rqLoginToken r = Some (raw, hash)" "rqLoginCSRF r = Some csrf"
    "length hash = 64" "16 \<le> length csrf" "hash \<notin> seTokenHash ` set (sessions (wdb t))"
    using assms(7) by (auto simp: fresh_login_def)
  obtain v where l: "SetLastLogin (uID u) ?t = (Inr (), v)" "wfaults v = []" "sessions (wdb v) = sessions (wdb t)"
    using assms(1) by (auto simp: SetLastLogin_def update_user_def op_simps)
  have "fst (logged_in cfg r se u url ?t) = SignIn url raw" for url
  proof -
    let ?k = "\<lambda>raw newID. also_do (success_flash newID (''Welcome back, '' @ uName u @ ''.''))
      (also_do (user_audit (uID u) ''user.login'') (reply (SignIn url raw)))"
    have "hash \<notin> seTokenHash ` set (sessions (wdb v))" by (simp add: l f)
    from rotate_run [OF l(2) f(1-4) this, of cfg "seID se" "uID u" ?k] obtain i w
      where "rotate cfg r (seID se) (uID u) ?k v = ?k raw i w" by blast
    then show ?thesis by (simp add: logged_in_def also_do_def l(1) reply_def)
  qed
  with assms b g show ?thesis
    by (simp add: login_def ensureSession_def call_def check_user_def check_code_def get_now_def Let_def)
qed

lemma reset_run:
  assumes "wfaults s = []" "rqSession r = Some se" "rqParseForm r" "trim_space (rqForm r ''token'') \<noteq> []"
    and "ValidatePassword (rqForm r ''password'') = None" "rqForm r ''password_confirm'' = rqForm r ''password''"
    and "find (\<lambda>k. tkKind k = TokenPasswordReset \<and> tkTokenHash k = hashToken (trim_space (rqForm r ''token''))
        \<and> tkUsedAt k = None \<and> tkExpiresAt k > wnow s) (auth_tokens (wdb s)) = Some tok"
    and "HashPassword (acIDKey ac) (rqSalt r) (rqForm r ''password'') = Inr encoded"
  shows "fst (resetPassword hashToken ac cfg r s) = SignOut ''/login''"
    and "users (wdb (snd (resetPassword hashToken ac cfg r s))) =
      update_where (\<lambda>u. uID u = tkUserID tok) (\<lambda>u. u\<lparr>uPasswordHash := encoded\<rparr>) (users (wdb s))"
    and "auth_tokens (wdb (snd (resetPassword hashToken ac cfg r s))) =
      update_where (\<lambda>k. tkID k = tkID tok \<and> tkUsedAt k = None) (\<lambda>k. k\<lparr>tkUsedAt := Some (wnow s)\<rparr>) (auth_tokens (wdb s))"
    and "\<forall>x \<in> set (sessions (wdb (snd (resetPassword hashToken ac cfg r s)))).
      seUserID x = Some (tkUserID tok) \<longrightarrow> seID x \<noteq> 0 \<longrightarrow> seRevokedAt x \<noteq> None"
    and "seID ` set (sessions (wdb (snd (resetPassword hashToken ac cfg r s)))) = seID ` set (sessions (wdb s))"
    and "seTokenHash ` set (sessions (wdb (snd (resetPassword hashToken ac cfg r s)))) = seTokenHash ` set (sessions (wdb s))"
proof -
  have tok: "GetAuthToken TokenPasswordReset (hashToken (trim_space (rqForm r ''token''))) s = (Inr tok, s)"
    using assms(1,7) by (simp add: GetAuthToken_def op_simps one_row_def)
  note run = resetPassword_def ensureSession_def Let_def password_errors_def op_defs UpdatePassword_def update_user_def
    UseAuthToken_def RevokeUserSessions_def update_session_def user_audit_def audit_def LogAction_def success_flash_def
    SetFlash_def op_simps assms tok
  show "fst (resetPassword hashToken ac cfg r s) = SignOut ''/login''" by (simp add: run)
  show "users (wdb (snd (resetPassword hashToken ac cfg r s))) =
      update_where (\<lambda>u. uID u = tkUserID tok) (\<lambda>u. u\<lparr>uPasswordHash := encoded\<rparr>) (users (wdb s))" by (simp add: run)
  show "auth_tokens (wdb (snd (resetPassword hashToken ac cfg r s))) =
      update_where (\<lambda>k. tkID k = tkID tok \<and> tkUsedAt k = None) (\<lambda>k. k\<lparr>tkUsedAt := Some (wnow s)\<rparr>) (auth_tokens (wdb s))"
    by (simp add: run)
  show "\<forall>x \<in> set (sessions (wdb (snd (resetPassword hashToken ac cfg r s)))).
      seUserID x = Some (tkUserID tok) \<longrightarrow> seID x \<noteq> 0 \<longrightarrow> seRevokedAt x \<noteq> None"
    by (simp add: run ball_update_where) auto
  show "seID ` set (sessions (wdb (snd (resetPassword hashToken ac cfg r s)))) = seID ` set (sessions (wdb s))"
    by (simp add: run flip: set_map) (simp add: map_update_where)
  show "seTokenHash ` set (sessions (wdb (snd (resetPassword hashToken ac cfg r s)))) = seTokenHash ` set (sessions (wdb s))"
    by (simp add: run flip: set_map) (simp add: map_update_where)
qed

section \<open>Samples\<close>

abbreviation sample_session :: "int \<Rightarrow> int \<Rightarrow> string \<Rightarrow> session" where
  "sample_session i uid hash \<equiv> \<lparr>seID = i, seUserID = Some uid, seTokenHash = hash, seCSRF = ''csrf'', seExpiresAt = 99,
    seUserAgent = ''ua'', seIP = ''ip'', seRevokedAt = None, seLastSeen = 0, seFlash = None\<rparr>"

definition reset_form :: "string \<Rightarrow> string" where
  "reset_form n = (if n = ''email'' then ''a@b.c'' else if n = ''next'' then ''/'' else if n = ''token'' then ''tok''
     else if n = ''totp_code'' then [] else ''0123456789'')"

definition reset_request :: request where
  "reset_request = sample_request\<lparr>rqForm := reset_form, rqSession := Some (sample_session 9 9 ''anon''), rqSalt := Some [7],
     rqLoginToken := Some (''raw'', replicate 64 CHR ''a''), rqLoginCSRF := Some (replicate 16 CHR ''c'')\<rparr>"

definition reset_token :: auth_token where
  "reset_token = \<lparr>tkID = 1, tkUserID = 4, tkKind = TokenPasswordReset, tkTokenHash = ''tok'', tkExpiresAt = 50,
     tkUsedAt = None, tkCreatedAt = 0\<rparr>"

definition reset_world :: world where
  "reset_world = (deployed 5)\<lparr>wdb := migrated\<lparr>users := [sample_user 4], sessions := [sample_session 2 4 ''old''],
     auth_tokens := [reset_token]\<rparr>\<rparr>"

abbreviation sample_auth :: auth_crypto where
  "sample_auth \<equiv> \<lparr>acIDKey = sample_idkey, acHmac = (\<lambda>key msg. replicate 20 0)\<rparr>"

lemma sample_texts: "trim_space ''tok'' = ''tok''" "trim_space ''a@b.c'' = ''a@b.c''"
  "NormalizeEmail ''a@b.c'' = ''a@b.c''" "safeNext ''/'' = ''/''"
  by code_simp+

text \<open>The sample account with a stored hash of the sample password.\<close>

definition login_world :: "string \<Rightarrow> world" where
  "login_world encoded = (deployed 5)\<lparr>wdb := migrated\<lparr>users := [(sample_user 4)\<lparr>uPasswordHash := encoded\<rparr>]\<rparr>\<rparr>"

theorem login_needs_credentials_witness:
  "\<exists>encoded raw. fst (login sample_auth (evConfig sample_env) reset_request (login_world encoded)) = SignIn ''/'' raw
    \<and> signed_in (wdb (snd (login sample_auth (evConfig sample_env) reset_request (login_world encoded)))) (replicate 64 CHR ''a'') 4"
proof -
  obtain encoded where e: "HashPassword (acIDKey sample_auth) (Some [7]) (rqForm reset_request ''password'') = Inr encoded"
    by (simp add: HashPassword_def sample_idkey_def)
  let ?s = "login_world encoded" and ?u = "(sample_user 4)\<lparr>uPasswordHash := encoded\<rparr>"
  have v: "VerifyPassword (acIDKey sample_auth) (rqForm reset_request ''password'') (uPasswordHash ?u) = Inr True"
    unfolding user.simps
    by (rule stored_hash_reads [OF e, THEN conjunct1]) (auto simp: sample_idkey_def reset_request_def reset_form_def)
  have "\<exists>raw. fst (login sample_auth (evConfig sample_env) reset_request ?s) = SignIn (safeNext (rqForm reset_request ''next'')) raw"
    by (rule login_succeeds [where u = ?u and se = "sample_session 9 9 ''anon''", OF _ _ _ _ _ _ _ _ _ _ _ v])
      (simp_all add: reset_request_def reset_form_def login_world_def deployed_def sample_texts under_limit_def authRateLimited_def
        Allow_def NewRateLimiter_def fresh_login_def UserActive_def LoginBlocked_def migrated_def Let_def)
  then obtain raw where raw: "fst (login sample_auth (evConfig sample_env) reset_request ?s) = SignIn ''/'' raw"
    by (auto simp: reset_request_def reset_form_def sample_texts)
  from login_needs_credentials [OF raw] have
    "signed_in (wdb (snd (login sample_auth (evConfig sample_env) reset_request ?s))) (replicate 64 CHR ''a'') 4"
    by (auto simp: credentials_shown_def login_world_def reset_request_def)
  with raw show ?thesis by blast
qed

section \<open>From a reset to a log-in\<close>

text \<open>A reset request that will be granted, and a log-in request with the chosen password.\<close>

definition grants_reset :: "(string \<Rightarrow> string) \<Rightarrow> request \<Rightarrow> world \<Rightarrow> auth_token \<Rightarrow> bool" where
  "grants_reset hashToken r s tok \<longleftrightarrow> rqSession r \<noteq> None \<and> rqParseForm r \<and> trim_space (rqForm r ''token'') \<noteq> []
    \<and> ValidatePassword (rqForm r ''password'') = None \<and> rqForm r ''password_confirm'' = rqForm r ''password''
    \<and> tok \<in> set (auth_tokens (wdb s)) \<and> tkKind tok = TokenPasswordReset
    \<and> tkTokenHash tok = hashToken (trim_space (rqForm r ''token'')) \<and> tkUsedAt tok = None \<and> tkExpiresAt tok > wnow s"

definition login_form :: "config \<Rightarrow> request \<Rightarrow> world \<Rightarrow> user \<Rightarrow> string \<Rightarrow> bool" where
  "login_form cfg r t u password \<longleftrightarrow> rqSession r \<noteq> None \<and> rqParseForm r \<and> trim_space (rqForm r ''email'') \<noteq> []
    \<and> NormalizeEmail (trim_space (rqForm r ''email'')) = uEmailLower u \<and> rqForm r ''password'' = password
    \<and> under_limit cfg r t \<and> fresh_login r t"

text \<open>C31: A password reset works: without failures, whoever holds an unexpired reset token of an active
  account sets the password; every session of the account is revoked, the token is spent, and the next
  log-in with the new password opens a session (as long as the account is not locked, uses no second
  factor and the limiter lets the request through).\<close>

theorem reset_then_login:
  assumes reset: "grants_reset hashToken r s tok" "wfaults s = []" "HashPassword (acIDKey ac) (Some salt) (rqForm r ''password'') = Inr encoded"
      "rqSalt r = Some salt" "\<forall>x \<in> set salt. x < 256"
      "\<And>k. acIDKey ac (rqForm r ''password'') salt 1 65536 4 32 = Some k \<Longrightarrow> length k = 32 \<and> (\<forall>x \<in> set k. x < 256)"
    and rows: "distinct (map tkTokenHash (auth_tokens (wdb s)))" "distinct (map uEmailLower (users (wdb s)))"
      "u \<in> set (users (wdb s))" "uID u = tkUserID tok" "\<forall>x \<in> set (sessions (wdb s)). 0 < seID x"
    and login: "wdb t = wdb (snd (resetPassword hashToken ac cfg r s))" "wfaults t = []"
      "login_form cfg q t u (rqForm r ''password'')" "uStatus u = UserActive" "\<not> LoginBlocked u (wnow t)" "\<not> uTotpEnabled u"
  shows "fst (resetPassword hashToken ac cfg r s) = SignOut ''/login''
    \<and> (\<forall>x \<in> set (sessions (wdb t)). seUserID x = Some (uID u) \<longrightarrow> seRevokedAt x \<noteq> None)
    \<and> (\<forall>k \<in> set (auth_tokens (wdb t)). tkTokenHash k = tkTokenHash tok \<longrightarrow> tkUsedAt k \<noteq> None)
    \<and> (\<exists>raw. fst (login ac cfg q t) = SignIn (safeNext (rqForm q ''next'')) raw)"
proof (intro conjI)
  from reset(1) obtain se where se: "rqSession r = Some se" by (auto simp: grants_reset_def)
  have find_tok: "find (\<lambda>k. tkKind k = TokenPasswordReset \<and> tkTokenHash k = hashToken (trim_space (rqForm r ''token''))
        \<and> tkUsedAt k = None \<and> tkExpiresAt k > wnow s) (auth_tokens (wdb s)) = Some tok"
    using reset(1) rows(1) by (intro find_only) (auto simp: grants_reset_def dest: distinct_map_eq)
  have pre: "rqParseForm r" "trim_space (rqForm r ''token'') \<noteq> []" "ValidatePassword (rqForm r ''password'') = None"
    "rqForm r ''password_confirm'' = rqForm r ''password''" "HashPassword (acIDKey ac) (rqSalt r) (rqForm r ''password'') = Inr encoded"
    using reset by (auto simp: grants_reset_def)
  note run = reset_run [where hashToken = hashToken and ac = ac and cfg = cfg, OF reset(2) se pre(1-4) find_tok pre(5)]
  show "fst (resetPassword hashToken ac cfg r s) = SignOut ''/login''" by (rule run)
  show "\<forall>x \<in> set (sessions (wdb t)). seUserID x = Some (uID u) \<longrightarrow> seRevokedAt x \<noteq> None"
  proof (intro ballI impI)
    fix x assume x: "x \<in> set (sessions (wdb t))" "seUserID x = Some (uID u)"
    then have "seID x \<in> seID ` set (sessions (wdb s))" using run(5) login(1) by auto
    with rows(4,5) run(4) login(1) x show "seRevokedAt x \<noteq> None" by fastforce
  qed
  show "\<forall>k \<in> set (auth_tokens (wdb t)). tkTokenHash k = tkTokenHash tok \<longrightarrow> tkUsedAt k \<noteq> None"
  proof (intro ballI impI)
    fix k assume k: "k \<in> set (auth_tokens (wdb t))" "tkTokenHash k = tkTokenHash tok"
    then obtain q where q: "q \<in> set (auth_tokens (wdb s))"
      "k = (if tkID q = tkID tok \<and> tkUsedAt q = None then q\<lparr>tkUsedAt := Some (wnow s)\<rparr> else q)"
      using run(3) login(1) by (auto simp: set_update_where)
    then have "tkTokenHash q = tkTokenHash tok" using k(2) by (auto split: if_splits)
    moreover have "tok \<in> set (auth_tokens (wdb s))" "tkUsedAt tok = None" using reset(1) by (auto simp: grants_reset_def)
    ultimately have "q = tok" using distinct_map_eq [OF rows(1) q(1)] by simp
    with q(2) \<open>tkUsedAt tok = None\<close> show "tkUsedAt k \<noteq> None" by simp
  qed
  let ?u = "u\<lparr>uPasswordHash := encoded\<rparr>"
  have us: "users (wdb t) = update_where (\<lambda>u. uID u = tkUserID tok) (\<lambda>u. u\<lparr>uPasswordHash := encoded\<rparr>) (users (wdb s))"
    using run(2) login(1) by simp
  have "distinct (map uEmailLower (users (wdb t)))" unfolding us using rows(2) by (simp add: map_update_where)
  moreover have "?u \<in> set (users (wdb t))" unfolding us set_update_where using rows(3,4) by force
  ultimately have "find (\<lambda>v. uEmailLower v = uEmailLower ?u) (users (wdb t)) = Some ?u" by (rule find_unique)
  moreover have "VerifyPassword (acIDKey ac) (rqForm q ''password'') encoded = Inr True"
    using stored_hash_reads [OF reset(3,5,6), THEN conjunct1] login(3) by (simp add: login_form_def)
  moreover obtain se' where "rqSession q = Some se'" using login(3) by (auto simp: login_form_def)
  moreover have "rqForm q ''password'' \<noteq> []" using pre(3) login(3) by (auto simp: login_form_def ValidatePassword_def)
  ultimately show "\<exists>raw. fst (login ac cfg q t) = SignIn (safeNext (rqForm q ''next'')) raw"
    using login by (intro login_succeeds [where u = ?u and se = se']) (auto simp: login_form_def LoginBlocked_def)
qed

theorem reset_then_login_witness:
  "let t = reset_world\<lparr>wdb := wdb (snd (resetPassword (\<lambda>x. x) sample_auth (evConfig sample_env) reset_request reset_world))\<rparr> in
    \<exists>raw. fst (login sample_auth (evConfig sample_env) reset_request t) = SignIn ''/'' raw"
proof -
  let ?cfg = "evConfig sample_env"
  let ?s' = "snd (resetPassword (\<lambda>x. x) sample_auth ?cfg reset_request reset_world)"
  let ?t = "reset_world\<lparr>wdb := wdb ?s'\<rparr>"
  have grants: "grants_reset (\<lambda>x. x) reset_request reset_world reset_token"
    by (simp add: grants_reset_def reset_request_def reset_form_def reset_world_def reset_token_def sample_texts deployed_def ValidatePassword_def)
  obtain encoded where e: "HashPassword (acIDKey sample_auth) (Some [7]) (rqForm reset_request ''password'') = Inr encoded"
    by (simp add: HashPassword_def sample_idkey_def)
  have key: "length k = 32 \<and> (\<forall>x \<in> set k. x < 256)"
    if "acIDKey sample_auth (rqForm reset_request ''password'') [7] 1 65536 4 32 = Some k" for k
    using that by (auto simp: sample_idkey_def reset_request_def reset_form_def)
  have "find (\<lambda>k. tkKind k = TokenPasswordReset \<and> tkTokenHash k = trim_space (rqForm reset_request ''token'')
      \<and> tkUsedAt k = None \<and> tkExpiresAt k > wnow reset_world) (auth_tokens (wdb reset_world)) = Some reset_token"
    by (simp add: reset_request_def reset_form_def reset_world_def reset_token_def sample_texts deployed_def)
  then have "seTokenHash ` set (sessions (wdb ?s')) = seTokenHash ` set (sessions (wdb reset_world))"
    by (intro reset_run(6) [where hashToken = "\<lambda>x. x" and tok = reset_token and encoded = encoded
        and se = "sample_session 9 9 ''anon''"])
      (use grants e in \<open>simp_all add: grants_reset_def, simp_all add: reset_world_def deployed_def reset_request_def\<close>)
  then have "seTokenHash ` set (sessions (wdb ?s')) = {''old''}" by (simp add: reset_world_def)
  moreover have "replicate 64 CHR ''a'' \<noteq> ''old''" by (rule notI, drule arg_cong [where f = length], simp)
  ultimately have form: "login_form ?cfg reset_request ?t (sample_user 4) (rqForm reset_request ''password'')"
    by (simp add: login_form_def reset_request_def reset_form_def sample_texts under_limit_def authRateLimited_def Allow_def
        NewRateLimiter_def fresh_login_def reset_world_def deployed_def Let_def)
  have "\<exists>raw. fst (login sample_auth ?cfg reset_request ?t) = SignIn (safeNext (rqForm reset_request ''next'')) raw"
    by (rule reset_then_login [where t = ?t and q = reset_request and u = "sample_user 4", OF grants _ e _ _ key _ _ _ _ _ _ _ form,
        THEN conjunct2, THEN conjunct2, THEN conjunct2])
      (simp_all add: reset_world_def reset_request_def reset_token_def deployed_def UserActive_def LoginBlocked_def)
  then show ?thesis by (simp add: Let_def reset_request_def reset_form_def sample_texts)
qed

end
