(* ===== verification/Configuration.thy ===== *)
theory Configuration
  imports HandlersBase Codec
begin

text \<open>
  Reading the configuration from the environment: \<^verbatim>\<open>src/config/config.go\<close>.  The environment is
  a function from names to values, empty where a variable is not set.  \<^verbatim>\<open>Load\<close> is the chain of
  its sections in the order of the code, each returning the configuration with its fields set or
  the first error.  \<^verbatim>\<open>time.ParseDuration\<close> is written out for ASCII units; the nanoseconds of a
  fraction, which Go computes in floating point, are a parameter (of its digits and the unit).
\<close>

section \<open>The configuration\<close>

record Config =
  AppRole :: string
  Environment :: string
  HTTPAddr :: string
  BaseURL :: string
  LogLevel :: string
  DatabaseURL :: string
  DBMaxOpenConns :: int
  DBMaxIdleConns :: int
  DBConnMaxLifetime :: time
  MigrateAdvisoryLock :: int
  SessionCookieName :: string
  SessionTTL :: time
  SessionSecret :: string
  CSRFSecret :: string
  CookieSecure :: bool
  AuthRateLimit :: int
  AuthRateWindow :: time
  AuthTokenTTL :: time
  MaxLoginAttempts :: int
  LoginLockout :: time
  TOTPSkew :: int
  EmailFrom :: string
  SMTPHost :: string
  SMTPPort :: string
  SMTPUser :: string
  SMTPPass :: string
  StorageDir :: string
  PrivateStorageDir :: string
  UploadMaxBytes :: int
  PlatformFeeBps :: int
  AutoAcceptAfter :: time
  PaymentsEnabled :: bool
  PaymentCurrency :: string
  StripeSecretKey :: string
  StripePublishableKey :: string
  StripeWebhookSecret :: string
  StripeConnectClientID :: string
  PaymentReconcileInterval :: time
  BTCPayURL :: string
  BTCPayAPIKey :: string
  BTCPayStoreID :: string
  BTCPayWebhookSecret :: string
  BTCPayRequiredConfirmations :: int
  EVMBaseRPCURL :: string
  EVMBaseChainID :: int
  EVMBaseTreasuryAddress :: string
  EVMBaseUSDCContract :: string
  EVMBaseUSDTContract :: string
  EVMPolygonRPCURL :: string
  EVMPolygonChainID :: int
  EVMPolygonTreasuryAddress :: string
  EVMPolygonUSDCContract :: string
  EVMPolygonUSDTContract :: string
  EVMRequiredConfirmations :: int
  WalletEncryptionKey :: string
  WalletChangeCooldown :: time
  JobPollInterval :: time
  JobClaimTimeout :: time
  JobMaxAttempts :: int
  JobStaleThreshold :: time
  JobConcurrency :: int
  MaintenanceInterval :: time
  ShutdownTimeout :: time

text \<open>\<^verbatim>\<open>&Config{}\<close>: every field has its zero value.\<close>

definition zeroConfig :: Config where
  "zeroConfig = \<lparr>AppRole = [], Environment = [], HTTPAddr = [], BaseURL = [], LogLevel = [],
    DatabaseURL = [], DBMaxOpenConns = 0, DBMaxIdleConns = 0, DBConnMaxLifetime = 0, MigrateAdvisoryLock = 0,
    SessionCookieName = [], SessionTTL = 0, SessionSecret = [], CSRFSecret = [], CookieSecure = False,
    AuthRateLimit = 0, AuthRateWindow = 0, AuthTokenTTL = 0, MaxLoginAttempts = 0, LoginLockout = 0,
    TOTPSkew = 0, EmailFrom = [], SMTPHost = [], SMTPPort = [], SMTPUser = [],
    SMTPPass = [], StorageDir = [], PrivateStorageDir = [], UploadMaxBytes = 0, PlatformFeeBps = 0,
    AutoAcceptAfter = 0, PaymentsEnabled = False, PaymentCurrency = [], StripeSecretKey = [], StripePublishableKey = [],
    StripeWebhookSecret = [], StripeConnectClientID = [], PaymentReconcileInterval = 0, BTCPayURL = [], BTCPayAPIKey = [],
    BTCPayStoreID = [], BTCPayWebhookSecret = [], BTCPayRequiredConfirmations = 0, EVMBaseRPCURL = [], EVMBaseChainID = 0,
    EVMBaseTreasuryAddress = [], EVMBaseUSDCContract = [], EVMBaseUSDTContract = [], EVMPolygonRPCURL = [], EVMPolygonChainID = 0,
    EVMPolygonTreasuryAddress = [], EVMPolygonUSDCContract = [], EVMPolygonUSDTContract = [], EVMRequiredConfirmations = 0, WalletEncryptionKey = [],
    WalletChangeCooldown = 0, JobPollInterval = 0, JobClaimTimeout = 0, JobMaxAttempts = 0, JobStaleThreshold = 0,
    JobConcurrency = 0, MaintenanceInterval = 0, ShutdownTimeout = 0\<rparr>"

datatype config_error =
    BadRole string | Required string | SecretTooShort string | NotInteger string | NotDuration string
  | NotBoolean string | Refused string

type_synonym environ = "string \<Rightarrow> string"
type_synonym fraction = "string \<Rightarrow> int \<Rightarrow> nat"
type_synonym section_of_load = "environ \<Rightarrow> Config \<Rightarrow> config_error + Config"

text \<open>\<^verbatim>\<open>if x, err = m; err != nil { return nil, err }\<close>.\<close>

definition checked :: "'e + 'a \<Rightarrow> ('a \<Rightarrow> 'e + 'b) \<Rightarrow> 'e + 'b" where
  "checked m k = (case m of Inl e \<Rightarrow> Inl e | Inr x \<Rightarrow> k x)"

lemma checked_Inr [simp]: "checked m k = Inr y \<longleftrightarrow> (\<exists>x. m = Inr x \<and> k x = Inr y)"
  by (simp add: checked_def split: sum.splits)

definition RoleWeb :: string where "RoleWeb = ''web''"
definition RoleWorker :: string where "RoleWorker = ''worker''"
definition EnvDev :: string where "EnvDev = ''dev''"
definition EnvProd :: string where "EnvProd = ''prod''"

section \<open>Durations\<close>

definition second_ns :: int where "second_ns = 1000000000"
definition minute_ns :: int where "minute_ns = 60 * second_ns"
definition hour_ns :: int where "hour_ns = 60 * minute_ns"

definition unitMap :: "string \<Rightarrow> int option" where
  "unitMap u = map_of [(''ns'', 1), (''us'', 1000), (''ms'', 1000000), (''s'', second_ns), (''m'', minute_ns), (''h'', hour_ns)] u"

fun leadingInt :: "int \<Rightarrow> string \<Rightarrow> (int \<times> string) option" where
  "leadingInt x [] = Some (x, [])"
| "leadingInt x (c # s) = (case digit_of c of
      None \<Rightarrow> Some (x, c # s)
    | Some d \<Rightarrow> if x > 2 ^ 63 div 10 \<or> 10 * x + d > 2 ^ 63 then None else leadingInt (10 * x + d) s)"

definition digit_or_dot :: "char \<Rightarrow> bool" where
  "digit_or_dot c \<longleftrightarrow> c = CHR ''.'' \<or> is_digit c"

definition duration_part :: "fraction \<Rightarrow> string \<Rightarrow> (int \<times> string) option" where
  "duration_part frac s =
    (if s = [] \<or> \<not> digit_or_dot (hd s) then None
     else case leadingInt 0 s of
       None \<Rightarrow> None
     | Some (v, s1) \<Rightarrow>
       let dot = (s1 \<noteq> [] \<and> hd s1 = CHR ''.'');
           f = (if dot then takeWhile is_digit (tl s1) else []);
           s2 = (if dot then dropWhile is_digit (tl s1) else s1);
           u = takeWhile (\<lambda>c. \<not> digit_or_dot c) s2 in
       if length s1 = length s \<and> f = [] then None
       else if u = [] then None
       else case unitMap u of
         None \<Rightarrow> None
       | Some unit \<Rightarrow>
         if v > 2 ^ 63 div unit then None
         else let w = v * unit + int (frac f unit) in
           if w > 2 ^ 63 then None else Some (w, dropWhile (\<lambda>c. \<not> digit_or_dot c) s2))"

lemma leadingInt_length: "leadingInt x s = Some (v, t) \<Longrightarrow> length t \<le> length s"
  by (induction x s rule: leadingInt.induct) (auto split: option.splits if_splits)

lemma dropWhile_shorter: "takeWhile P s \<noteq> [] \<Longrightarrow> length (dropWhile P s) < length s"
  by (cases s) (auto simp: le_imp_less_Suc length_dropWhile_le split: if_splits)

lemma duration_part_shorter:
  assumes "duration_part frac s = Some (w, t)"
  shows "length t < length s"
proof -
  from assms obtain v s1 where lead: "leadingInt 0 s = Some (v, s1)" and s: "s \<noteq> []"
    by (auto simp: duration_part_def split: if_splits option.splits)
  define s2 where "s2 = (if s1 \<noteq> [] \<and> hd s1 = CHR ''.'' then dropWhile is_digit (tl s1) else s1)"
  have "length s2 \<le> length s1"
    using length_dropWhile_le [of is_digit "tl s1"] by (auto simp: s2_def)
  moreover have "takeWhile (\<lambda>c. \<not> digit_or_dot c) s2 \<noteq> []" "t = dropWhile (\<lambda>c. \<not> digit_or_dot c) s2"
    using assms lead s unfolding duration_part_def s2_def
    by (auto simp only: Let_def if_False if_True option.case prod.case option.distinct option.inject prod.inject
      split: if_splits option.splits)
  ultimately have "length t < length s2" "length s2 \<le> length s1" using dropWhile_shorter by simp_all
  then show ?thesis using leadingInt_length [OF lead] by linarith
qed

function duration_parts :: "fraction \<Rightarrow> int \<Rightarrow> string \<Rightarrow> int option" where
  "duration_parts frac d s =
    (if s = [] then Some d
     else case duration_part frac s of
       None \<Rightarrow> None
     | Some (w, t) \<Rightarrow> if d + w > 2 ^ 63 then None else duration_parts frac (d + w) t)"
  by pat_completeness auto
termination
  by (relation "measure (\<lambda>(frac, d, s). length s)") (auto simp: duration_part_shorter)

declare duration_parts.simps [simp del]

definition ParseDuration :: "fraction \<Rightarrow> string \<Rightarrow> time option" where
  "ParseDuration frac s =
    (let neg = (s \<noteq> [] \<and> hd s = CHR ''-'');
         body = (if s \<noteq> [] \<and> (hd s = CHR ''-'' \<or> hd s = CHR ''+'') then tl s else s) in
     if body = ''0'' then Some 0
     else if body = [] then None
     else case duration_parts frac 0 body of
       None \<Rightarrow> None
     | Some d \<Rightarrow> if neg then Some (- d) else if d > 2 ^ 63 - 1 then None else Some d)"

definition ParseBool :: "string \<Rightarrow> bool option" where
  "ParseBool s =
    (if s \<in> {''1'', ''t'', ''T'', ''true'', ''TRUE'', ''True''} then Some True
     else if s \<in> {''0'', ''f'', ''F'', ''false'', ''FALSE'', ''False''} then Some False else None)"

section \<open>Single variables\<close>

definition validatedRole :: "string \<Rightarrow> config_error + string" where
  "validatedRole r = (if r = RoleWeb \<or> r = RoleWorker then Inr r else Inl (BadRole r))"

definition env_var :: "environ \<Rightarrow> string \<Rightarrow> string \<Rightarrow> string" where
  "env_var getenv key def = (let v = trim_space (getenv key) in if v \<noteq> [] then v else def)"

definition envInt :: "environ \<Rightarrow> string \<Rightarrow> int \<Rightarrow> config_error + int" where
  "envInt getenv key def = (let v = trim_space (getenv key) in
    if v = [] then Inr def else case parse_int 64 v of None \<Rightarrow> Inl (NotInteger key) | Some n \<Rightarrow> Inr n)"

definition envInt64 :: "environ \<Rightarrow> string \<Rightarrow> int \<Rightarrow> config_error + int" where
  "envInt64 getenv key def = (let v = trim_space (getenv key) in
    if v = [] then Inr def else case parse_int 64 v of None \<Rightarrow> Inl (NotInteger key) | Some n \<Rightarrow> Inr n)"

definition envDuration :: "fraction \<Rightarrow> environ \<Rightarrow> string \<Rightarrow> time \<Rightarrow> config_error + time" where
  "envDuration frac getenv key def = (let v = trim_space (getenv key) in
    if v = [] then Inr def else case ParseDuration frac v of None \<Rightarrow> Inl (NotDuration key) | Some d \<Rightarrow> Inr d)"

definition envBool :: "environ \<Rightarrow> string \<Rightarrow> bool \<Rightarrow> config_error + bool" where
  "envBool getenv key def = (let v = trim_space (getenv key) in
    if v = [] then Inr def else case ParseBool v of None \<Rightarrow> Inl (NotBoolean key) | Some b \<Rightarrow> Inr b)"

definition required :: "string \<Rightarrow> string \<Rightarrow> config_error + unit" where
  "required key v = (if v = [] then Inl (Required key) else Inr ())"

definition trim_right :: "char \<Rightarrow> string \<Rightarrow> string" where
  "trim_right c s = rev (dropWhile (\<lambda>d. d = c) (rev s))"

section \<open>The sections of Load\<close>

definition load_deployment :: section_of_load where
  "load_deployment getenv c =
    checked (validatedRole (env_var getenv ''APP_ROLE'' RoleWeb)) (\<lambda>r.
    let addr = env_var getenv ''HTTP_ADDR'' '':4099''; base = env_var getenv ''BASE_URL'' ''http://localhost:4099'' in
    checked (required ''HTTP_ADDR'' addr) (\<lambda>_.
    checked (required ''BASE_URL'' base) (\<lambda>_.
    Inr (c\<lparr>AppRole := r, Environment := env_var getenv ''ENVIRONMENT'' EnvDev, HTTPAddr := addr, BaseURL := base,
      LogLevel := env_var getenv ''LOG_LEVEL'' ''info''\<rparr>))))"

definition load_database :: "fraction \<Rightarrow> section_of_load" where
  "load_database frac getenv c =
    (let url = env_var getenv ''DATABASE_URL'' '''' in
    checked (required ''DATABASE_URL'' url) (\<lambda>_.
    checked (envInt getenv ''DB_MAX_OPEN_CONNS'' 10) (\<lambda>open_conns.
    checked (envInt getenv ''DB_MAX_IDLE_CONNS'' 5) (\<lambda>idle_conns.
    checked (envDuration frac getenv ''DB_CONN_MAX_LIFETIME'' (30 * minute_ns)) (\<lambda>life.
    checked (envInt64 getenv ''MIGRATE_ADVISORY_LOCK'' 0x4749474D494731) (\<lambda>lock.
    Inr (c\<lparr>DatabaseURL := url, DBMaxOpenConns := open_conns, DBMaxIdleConns := idle_conns,
      DBConnMaxLifetime := life, MigrateAdvisoryLock := lock\<rparr>)))))))"

definition load_sessions :: "fraction \<Rightarrow> section_of_load" where
  "load_sessions frac getenv c =
    checked (envDuration frac getenv ''SESSION_TTL'' (24 * hour_ns)) (\<lambda>ttl.
    let secret = env_var getenv ''SESSION_SECRET'' '''' in
    checked (required ''SESSION_SECRET'' secret) (\<lambda>_.
    if Environment c \<noteq> EnvDev \<and> length secret < 32 then Inl (SecretTooShort (Environment c))
    else let csrf = env_var getenv ''CSRF_SECRET'' secret in
    checked (required ''CSRF_SECRET'' csrf) (\<lambda>_.
    checked (envBool getenv ''COOKIE_SECURE'' (Environment c = EnvProd)) (\<lambda>secure.
    Inr (c\<lparr>SessionCookieName := env_var getenv ''SESSION_COOKIE_NAME'' ''gig_session'', SessionTTL := ttl,
      SessionSecret := secret, CSRFSecret := csrf, CookieSecure := secure\<rparr>)))))"

definition load_auth :: "fraction \<Rightarrow> section_of_load" where
  "load_auth frac getenv c =
    checked (envInt getenv ''AUTH_RATE_LIMIT'' 10) (\<lambda>limit.
    checked (envDuration frac getenv ''AUTH_RATE_WINDOW'' (15 * minute_ns)) (\<lambda>window.
    checked (envDuration frac getenv ''AUTH_TOKEN_TTL'' (24 * hour_ns)) (\<lambda>ttl.
    checked (envInt getenv ''MAX_LOGIN_ATTEMPTS'' 5) (\<lambda>attempts.
    checked (envDuration frac getenv ''LOGIN_LOCKOUT'' (15 * minute_ns)) (\<lambda>lockout.
    checked (envInt getenv ''TOTP_SKEW'' 1) (\<lambda>skew.
    Inr (c\<lparr>AuthRateLimit := limit, AuthRateWindow := window, AuthTokenTTL := ttl, MaxLoginAttempts := attempts,
      LoginLockout := lockout, TOTPSkew := skew\<rparr>)))))))"

definition load_email :: section_of_load where
  "load_email getenv c = Inr (c\<lparr>EmailFrom := env_var getenv ''EMAIL_FROM'' ''Gig <no-reply@example.com>'',
    SMTPHost := env_var getenv ''SMTP_HOST'' '''', SMTPPort := env_var getenv ''SMTP_PORT'' ''587'',
    SMTPUser := env_var getenv ''SMTP_USER'' '''', SMTPPass := env_var getenv ''SMTP_PASS'' ''''\<rparr>)"

definition load_storage :: section_of_load where
  "load_storage getenv c =
    (let dir = env_var getenv ''STORAGE_DIR'' ''./data''; private = env_var getenv ''PRIVATE_STORAGE_DIR'' ''./data-private'' in
    checked (required ''STORAGE_DIR'' dir) (\<lambda>_.
    checked (required ''PRIVATE_STORAGE_DIR'' private) (\<lambda>_.
    checked (envInt64 getenv ''UPLOAD_MAX_BYTES'' (50 * 2 ^ 20)) (\<lambda>bytes.
    Inr (c\<lparr>StorageDir := dir, PrivateStorageDir := private, UploadMaxBytes := bytes\<rparr>)))))"

definition load_orders :: "fraction \<Rightarrow> section_of_load" where
  "load_orders frac getenv c =
    checked (envInt getenv ''PLATFORM_FEE_BPS'' 1000) (\<lambda>fee.
    checked (envDuration frac getenv ''AUTO_ACCEPT_AFTER'' (72 * hour_ns)) (\<lambda>after.
    Inr (c\<lparr>PlatformFeeBps := fee, AutoAcceptAfter := after\<rparr>)))"

definition load_stripe :: "fraction \<Rightarrow> section_of_load" where
  "load_stripe frac getenv c =
    checked (envBool getenv ''PAYMENTS_ENABLED'' False) (\<lambda>enabled.
    checked (envDuration frac getenv ''PAYMENT_RECONCILE_INTERVAL'' (15 * minute_ns)) (\<lambda>interval.
    Inr (c\<lparr>PaymentsEnabled := enabled, PaymentCurrency := to_lower (env_var getenv ''PAYMENT_CURRENCY'' ''usd''),
      StripeSecretKey := env_var getenv ''STRIPE_SECRET_KEY'' '''',
      StripePublishableKey := env_var getenv ''STRIPE_PUBLISHABLE_KEY'' '''',
      StripeWebhookSecret := env_var getenv ''STRIPE_WEBHOOK_SECRET'' '''',
      StripeConnectClientID := env_var getenv ''STRIPE_CONNECT_CLIENT_ID'' '''',
      PaymentReconcileInterval := interval\<rparr>)))"

definition load_btcpay :: section_of_load where
  "load_btcpay getenv c =
    checked (envInt getenv ''BTCPAY_REQUIRED_CONFIRMATIONS'' 1) (\<lambda>confirmations.
    Inr (c\<lparr>BTCPayURL := trim_right CHR ''/'' (env_var getenv ''BTCPAY_URL'' ''''),
      BTCPayAPIKey := env_var getenv ''BTCPAY_API_KEY'' '''', BTCPayStoreID := env_var getenv ''BTCPAY_STORE_ID'' '''',
      BTCPayWebhookSecret := env_var getenv ''BTCPAY_WEBHOOK_SECRET'' '''',
      BTCPayRequiredConfirmations := confirmations\<rparr>))"

definition load_evm :: section_of_load where
  "load_evm getenv c =
    checked (envInt64 getenv ''EVM_BASE_CHAIN_ID'' 8453) (\<lambda>base_chain.
    checked (envInt64 getenv ''EVM_POLYGON_CHAIN_ID'' 137) (\<lambda>polygon_chain.
    checked (envInt getenv ''EVM_REQUIRED_CONFIRMATIONS'' 12) (\<lambda>confirmations.
    Inr (c\<lparr>EVMBaseRPCURL := env_var getenv ''EVM_BASE_RPC_URL'' '''', EVMBaseChainID := base_chain,
      EVMBaseTreasuryAddress := to_lower (env_var getenv ''EVM_BASE_TREASURY_ADDRESS'' ''''),
      EVMBaseUSDCContract := to_lower (env_var getenv ''EVM_BASE_USDC_CONTRACT'' ''''),
      EVMBaseUSDTContract := to_lower (env_var getenv ''EVM_BASE_USDT_CONTRACT'' ''''),
      EVMPolygonRPCURL := env_var getenv ''EVM_POLYGON_RPC_URL'' '''', EVMPolygonChainID := polygon_chain,
      EVMPolygonTreasuryAddress := to_lower (env_var getenv ''EVM_POLYGON_TREASURY_ADDRESS'' ''''),
      EVMPolygonUSDCContract := to_lower (env_var getenv ''EVM_POLYGON_USDC_CONTRACT'' ''''),
      EVMPolygonUSDTContract := to_lower (env_var getenv ''EVM_POLYGON_USDT_CONTRACT'' ''''),
      EVMRequiredConfirmations := confirmations\<rparr>))))"

definition load_wallets :: "fraction \<Rightarrow> section_of_load" where
  "load_wallets frac getenv c =
    checked (envDuration frac getenv ''WALLET_CHANGE_COOLDOWN'' (24 * hour_ns)) (\<lambda>cooldown.
    Inr (c\<lparr>WalletEncryptionKey := env_var getenv ''WALLET_ENCRYPTION_KEY'' '''', WalletChangeCooldown := cooldown\<rparr>))"

definition load_jobs :: "fraction \<Rightarrow> section_of_load" where
  "load_jobs frac getenv c =
    checked (envDuration frac getenv ''JOB_POLL_INTERVAL'' second_ns) (\<lambda>poll.
    checked (envDuration frac getenv ''JOB_CLAIM_TIMEOUT'' (5 * minute_ns)) (\<lambda>timeout.
    checked (envInt getenv ''JOB_MAX_ATTEMPTS'' 5) (\<lambda>attempts.
    checked (envDuration frac getenv ''JOB_STALE_THRESHOLD'' (10 * minute_ns)) (\<lambda>stale.
    checked (envInt getenv ''JOB_CONCURRENCY'' 4) (\<lambda>slots.
    Inr (c\<lparr>JobPollInterval := poll, JobClaimTimeout := timeout, JobMaxAttempts := attempts,
      JobStaleThreshold := stale, JobConcurrency := slots\<rparr>))))))"

definition load_lifecycle :: "fraction \<Rightarrow> section_of_load" where
  "load_lifecycle frac getenv c =
    checked (envDuration frac getenv ''MAINTENANCE_INTERVAL'' (10 * minute_ns)) (\<lambda>interval.
    if interval < 30 * second_ns then Inl (Refused ''MAINTENANCE_INTERVAL must be at least 30s'')
    else checked (envDuration frac getenv ''SHUTDOWN_TIMEOUT'' (15 * second_ns)) (\<lambda>timeout.
    Inr (c\<lparr>MaintenanceInterval := interval, ShutdownTimeout := timeout\<rparr>)))"

section \<open>Validation\<close>

text \<open>\<^verbatim>\<open>base64.StdEncoding\<close>: quanta of four characters, the last one padded with \<^verbatim>\<open>=\<close>.\<close>

definition base64_std_decode :: "string \<Rightarrow> nat list option" where
  "base64_std_decode s =
    (let t = strip_newlines s; digits = takeWhile (\<lambda>c. c \<noteq> CHR ''='') t; padding = dropWhile (\<lambda>c. c \<noteq> CHR ''='') t in
     if length t mod 4 \<noteq> 0 \<or> padding \<notin> {[], ''='', ''==''} then None else base64_decode digits)"

definition DecodeWalletKey :: "string \<Rightarrow> nat list option" where
  "DecodeWalletKey encoded = base64_std_decode encoded"

fun first_failed :: "(bool \<times> config_error) list \<Rightarrow> config_error + unit" where
  "first_failed [] = Inr ()"
| "first_failed ((failed, e) # checks) = (if failed then Inl e else first_failed checks)"

text \<open>The conditions of \<^verbatim>\<open>validate\<close> in their order, each with the error it returns.\<close>

definition validation_checks :: "Config \<Rightarrow> (bool \<times> config_error) list" where
  "validation_checks c = (let paid = (PaymentsEnabled c \<and> Environment c = EnvProd) in
    [(Environment c = [], Refused ''ENVIRONMENT cannot be empty''),
     (DBMaxOpenConns c < 1, Refused ''DB_MAX_OPEN_CONNS must be >= 1''),
     (JobMaxAttempts c < 1, Refused ''JOB_MAX_ATTEMPTS must be >= 1''),
     (JobConcurrency c < 1, Refused ''JOB_CONCURRENCY must be >= 1''),
     (UploadMaxBytes c < 1, Refused ''UPLOAD_MAX_BYTES must be >= 1''),
     (PlatformFeeBps c < 0 \<or> PlatformFeeBps c > 10000, Refused ''PLATFORM_FEE_BPS must be between 0 and 10000''),
     (AuthRateLimit c < 1, Refused ''AUTH_RATE_LIMIT must be >= 1''),
     (MaxLoginAttempts c < 1, Refused ''MAX_LOGIN_ATTEMPTS must be >= 1''),
     (TOTPSkew c < 0, Refused ''TOTP_SKEW cannot be negative''),
     (paid \<and> StripeSecretKey c = [], Required ''STRIPE_SECRET_KEY''),
     (paid \<and> StripeWebhookSecret c = [], Required ''STRIPE_WEBHOOK_SECRET''),
     (paid \<and> BTCPayURL c \<noteq> [] \<and> BTCPayAPIKey c = [], Required ''BTCPAY_API_KEY''),
     (paid \<and> BTCPayURL c \<noteq> [] \<and> BTCPayStoreID c = [], Required ''BTCPAY_STORE_ID''),
     (paid \<and> BTCPayURL c \<noteq> [] \<and> BTCPayWebhookSecret c = [], Required ''BTCPAY_WEBHOOK_SECRET''),
     (BTCPayRequiredConfirmations c < 0, Refused ''BTCPAY_REQUIRED_CONFIRMATIONS cannot be negative''),
     (paid \<and> EVMBaseRPCURL c \<noteq> [] \<and> EVMBaseTreasuryAddress c = [], Required ''EVM_BASE_TREASURY_ADDRESS''),
     (paid \<and> EVMBaseRPCURL c \<noteq> [] \<and> EVMBaseUSDCContract c = [] \<and> EVMBaseUSDTContract c = [],
        Refused ''at least one of EVM_BASE_USDC_CONTRACT or EVM_BASE_USDT_CONTRACT is required when EVM_BASE_RPC_URL is set''),
     (paid \<and> EVMPolygonRPCURL c \<noteq> [] \<and> EVMPolygonTreasuryAddress c = [], Required ''EVM_POLYGON_TREASURY_ADDRESS''),
     (paid \<and> EVMPolygonRPCURL c \<noteq> [] \<and> EVMPolygonUSDCContract c = [] \<and> EVMPolygonUSDTContract c = [],
        Refused ''at least one of EVM_POLYGON_USDC_CONTRACT or EVM_POLYGON_USDT_CONTRACT is required when EVM_POLYGON_RPC_URL is set''),
     (EVMRequiredConfirmations c < 0, Refused ''EVM_REQUIRED_CONFIRMATIONS cannot be negative''),
     ((EVMBaseRPCURL c \<noteq> [] \<or> EVMPolygonRPCURL c \<noteq> []) \<and> Environment c = EnvProd \<and> WalletEncryptionKey c = [],
        Required ''WALLET_ENCRYPTION_KEY''),
     (WalletEncryptionKey c \<noteq> [] \<and> (case DecodeWalletKey (WalletEncryptionKey c) of None \<Rightarrow> True | Some key \<Rightarrow> length key \<noteq> 32),
        Refused ''WALLET_ENCRYPTION_KEY must be a base64-encoded 32-byte key'')])"

definition validate :: "Config \<Rightarrow> config_error + unit" where
  "validate c = first_failed (validation_checks c)"

definition Load :: "fraction \<Rightarrow> environ \<Rightarrow> config_error + Config" where
  "Load frac getenv =
    checked (load_deployment getenv zeroConfig) (\<lambda>c.
    checked (load_database frac getenv c) (\<lambda>c.
    checked (load_sessions frac getenv c) (\<lambda>c.
    checked (load_auth frac getenv c) (\<lambda>c.
    checked (load_email getenv c) (\<lambda>c.
    checked (load_storage getenv c) (\<lambda>c.
    checked (load_orders frac getenv c) (\<lambda>c.
    checked (load_stripe frac getenv c) (\<lambda>c.
    checked (load_btcpay getenv c) (\<lambda>c.
    checked (load_evm getenv c) (\<lambda>c.
    checked (load_wallets frac getenv c) (\<lambda>c.
    checked (load_jobs frac getenv c) (\<lambda>c.
    checked (load_lifecycle frac getenv c) (\<lambda>c.
    checked (validate c) (\<lambda>_. Inr c))))))))))))))"

definition IsProduction :: "Config \<Rightarrow> bool" where
  "IsProduction c \<longleftrightarrow> Environment c = EnvProd"

section \<open>What a loaded configuration satisfies\<close>

lemma first_failed_Inr: "first_failed checks = Inr () \<longleftrightarrow> (\<forall>(failed, e) \<in> set checks. \<not> failed)"
  by (induction checks rule: first_failed.induct) auto

text \<open>The fields that only the first sections set, and which of them later sections keep.\<close>

definition deployment_of :: "Config \<Rightarrow> string \<times> string \<times> string \<times> string" where
  "deployment_of c = (AppRole c, Environment c, HTTPAddr c, BaseURL c)"

definition secrets_of :: "Config \<Rightarrow> string \<times> string \<times> string" where
  "secrets_of c = (DatabaseURL c, SessionSecret c, CSRFSecret c)"

definition directories_of :: "Config \<Rightarrow> string \<times> string" where
  "directories_of c = (StorageDir c, PrivateStorageDir c)"

lemmas load_fields = deployment_of_def secrets_of_def directories_of_def Let_def required_def

lemma load_deployment_sets:
  "load_deployment g c = Inr c' \<Longrightarrow> (AppRole c' = RoleWeb \<or> AppRole c' = RoleWorker) \<and> HTTPAddr c' \<noteq> [] \<and> BaseURL c' \<noteq> []"
  by (auto simp: load_deployment_def validatedRole_def load_fields split: if_splits)

lemma load_database_sets:
  "load_database frac g c = Inr c' \<Longrightarrow> DatabaseURL c' \<noteq> [] \<and> deployment_of c' = deployment_of c"
  by (auto simp: load_database_def load_fields split: if_splits)

lemma load_sessions_sets:
  "load_sessions frac g c = Inr c' \<Longrightarrow> SessionSecret c' \<noteq> [] \<and> CSRFSecret c' \<noteq> []
    \<and> (Environment c = EnvDev \<or> 32 \<le> length (SessionSecret c')) \<and> DatabaseURL c' = DatabaseURL c
    \<and> deployment_of c' = deployment_of c"
  by (auto simp: load_sessions_def load_fields split: if_splits)

lemma load_auth_keeps:
  "load_auth frac g c = Inr c' \<Longrightarrow> deployment_of c' = deployment_of c \<and> secrets_of c' = secrets_of c"
  by (auto simp: load_auth_def load_fields split: if_splits)

lemma load_email_keeps:
  "load_email g c = Inr c' \<Longrightarrow> deployment_of c' = deployment_of c \<and> secrets_of c' = secrets_of c"
  by (auto simp: load_email_def load_fields)

lemma load_storage_sets:
  "load_storage g c = Inr c' \<Longrightarrow> StorageDir c' \<noteq> [] \<and> PrivateStorageDir c' \<noteq> []
    \<and> deployment_of c' = deployment_of c \<and> secrets_of c' = secrets_of c"
  by (auto simp: load_storage_def load_fields split: if_splits)

definition fixed_of :: "Config \<Rightarrow> (string \<times> string \<times> string \<times> string) \<times> (string \<times> string \<times> string) \<times> string \<times> string" where
  "fixed_of c = (deployment_of c, secrets_of c, directories_of c)"

lemma later_sections_keep:
  "load_orders frac g c = Inr c' \<Longrightarrow> fixed_of c' = fixed_of c"
  "load_stripe frac g c = Inr c' \<Longrightarrow> fixed_of c' = fixed_of c"
  "load_btcpay g c = Inr c' \<Longrightarrow> fixed_of c' = fixed_of c"
  "load_evm g c = Inr c' \<Longrightarrow> fixed_of c' = fixed_of c"
  "load_wallets frac g c = Inr c' \<Longrightarrow> fixed_of c' = fixed_of c"
  "load_jobs frac g c = Inr c' \<Longrightarrow> fixed_of c' = fixed_of c"
  by (auto simp: fixed_of_def load_fields load_orders_def load_stripe_def load_btcpay_def load_evm_def
    load_wallets_def load_jobs_def)

lemma load_lifecycle_sets:
  "load_lifecycle frac g c = Inr c' \<Longrightarrow> 30 * second_ns \<le> MaintenanceInterval c' \<and> fixed_of c' = fixed_of c"
  by (auto simp: load_lifecycle_def fixed_of_def load_fields split: if_splits)

text \<open>Everything \<^verbatim>\<open>Load\<close> establishes before \<^verbatim>\<open>validate\<close>.\<close>

lemma Load_establishes:
  assumes "Load frac g = Inr c"
  shows "(AppRole c = RoleWeb \<or> AppRole c = RoleWorker) \<and> HTTPAddr c \<noteq> [] \<and> BaseURL c \<noteq> [] \<and> DatabaseURL c \<noteq> []
    \<and> SessionSecret c \<noteq> [] \<and> CSRFSecret c \<noteq> [] \<and> (Environment c = EnvDev \<or> 32 \<le> length (SessionSecret c))
    \<and> StorageDir c \<noteq> [] \<and> PrivateStorageDir c \<noteq> [] \<and> 30 * second_ns \<le> MaintenanceInterval c \<and> validate c = Inr ()"
proof -
  from assms obtain c1 c2 c3 c4 c5 c6 c7 c8 c9 c10 c11 c12 where
    first: "load_deployment g zeroConfig = Inr c1" "load_database frac g c1 = Inr c2" "load_sessions frac g c2 = Inr c3"
      "load_auth frac g c3 = Inr c4" "load_email g c4 = Inr c5" "load_storage g c5 = Inr c6"
    and later: "load_orders frac g c6 = Inr c7" "load_stripe frac g c7 = Inr c8" "load_btcpay g c8 = Inr c9"
      "load_evm g c9 = Inr c10" "load_wallets frac g c10 = Inr c11" "load_jobs frac g c11 = Inr c12"
      "load_lifecycle frac g c12 = Inr c" "validate c = Inr ()"
    unfolding Load_def checked_Inr by (elim exE conjE, intro that) (assumption | simp)+
  have kept: "fixed_of c = fixed_of c6"
    using later later_sections_keep load_lifecycle_sets by metis
  have "deployment_of c6 = deployment_of c1" "secrets_of c6 = secrets_of c3" "DatabaseURL c3 = DatabaseURL c2"
    "Environment c2 = Environment c1"
    using load_database_sets [OF first(2)] load_sessions_sets [OF first(3)] load_auth_keeps [OF first(4)]
      load_email_keeps [OF first(5)] load_storage_sets [OF first(6)] by (simp_all add: deployment_of_def)
  with kept show ?thesis
    using load_deployment_sets [OF first(1)] load_database_sets [OF first(2)] load_sessions_sets [OF first(3)]
      load_storage_sets [OF first(6)] load_lifecycle_sets [OF later(7)] later(8)
    by (simp add: fixed_of_def deployment_of_def secrets_of_def directories_of_def)
qed

lemma validate_Inr: "validate c = Inr () \<longleftrightarrow> (\<forall>(failed, e) \<in> set (validation_checks c). \<not> failed)"
  by (simp add: validate_def first_failed_Inr)

text \<open>A configuration that Load accepts is usable: the role is web or worker, every required
  setting is there, session secrets have 32 bytes outside development, the limits of the database
  pool, the job queue, uploads, logins and confirmations are sensible, the platform fee is a share of
  at most the whole amount, maintenance runs at most every 30 seconds, and a wallet key, if there
  is one, decodes to 32 bytes.
\<close>

theorem loaded_configuration_is_usable:
  assumes "Load frac getenv = Inr c"
  shows "(AppRole c = RoleWeb \<or> AppRole c = RoleWorker) \<and> Environment c \<noteq> [] \<and> DatabaseURL c \<noteq> []
    \<and> SessionSecret c \<noteq> [] \<and> CSRFSecret c \<noteq> [] \<and> (Environment c = EnvDev \<or> 32 \<le> length (SessionSecret c))
    \<and> StorageDir c \<noteq> [] \<and> PrivateStorageDir c \<noteq> []
    \<and> 1 \<le> DBMaxOpenConns c \<and> 1 \<le> JobMaxAttempts c \<and> 1 \<le> JobConcurrency c \<and> 1 \<le> UploadMaxBytes c
    \<and> PlatformFeeBps c \<in> {0..10000} \<and> 1 \<le> AuthRateLimit c \<and> 1 \<le> MaxLoginAttempts c \<and> 0 \<le> TOTPSkew c
    \<and> 0 \<le> BTCPayRequiredConfirmations c \<and> 0 \<le> EVMRequiredConfirmations c \<and> 30 * second_ns \<le> MaintenanceInterval c
    \<and> (WalletEncryptionKey c = [] \<or> (\<exists>key. DecodeWalletKey (WalletEncryptionKey c) = Some key \<and> length key = 32))"
proof -
  note before = Load_establishes [OF assms]
  then have "\<forall>(failed, e) \<in> set (validation_checks c). \<not> failed" by (simp add: validate_Inr)
  then show ?thesis using before by (auto simp: validation_checks_def Let_def not_less split: option.splits)
qed

text \<open>A deployment that sets only what has no default, and one with every kind of setting.\<close>

definition small_environment :: environ where
  "small_environment key = (if key = ''DATABASE_URL'' then ''postgres://gig'' else if key = ''SESSION_SECRET'' then ''secret'' else [])"

theorem loaded_configuration_is_usable_witness:
  "\<exists>c. Load (\<lambda>digits unit. 0) small_environment = Inr c \<and> AppRole c = RoleWeb \<and> PlatformFeeBps c \<in> {0..10000}"
proof -
  have "case Load (\<lambda>digits unit. 0) small_environment of Inl e \<Rightarrow> False | Inr c \<Rightarrow> AppRole c = ''web''"
    by code_simp
  then obtain c where "Load (\<lambda>digits unit. 0) small_environment = Inr c" "AppRole c = ''web''"
    by (auto split: sum.splits)
  then show ?thesis using loaded_configuration_is_usable [of "\<lambda>digits unit. 0" small_environment c]
    by (simp add: RoleWeb_def)
qed

end
