(* ===== verification/Json.thy ===== *)
theory Json
  imports Text
begin

text \<open>
  What the payment adapters use of \<^verbatim>\<open>encoding/json\<close>: the parser, and \<^verbatim>\<open>json.Unmarshal\<close> into a
  struct, field by field.  A number keeps its literal, as the decoder does until it knows the type
  of the field.  The parser recurses on a fuel of twice the input and two; \<^verbatim>\<open>json_fuel\<close> shows that
  more fuel never changes the answer.  Text is ASCII; the limit of 10000 nested values is left out.
\<close>

datatype json =
    JNull
  | JBool bool
  | JNum string
  | JStr string
  | JArr "json list"
  | JObj "(string \<times> json) list"

section \<open>Scanning\<close>

definition json_space :: "char \<Rightarrow> bool" where
  "json_space c \<longleftrightarrow> (let n = of_char c :: nat in n = 32 \<or> n = 9 \<or> n = 10 \<or> n = 13)"

definition skip :: "string \<Rightarrow> string" where "skip s = dropWhile json_space s"

text \<open>The UTF-8 encoding of a code point.\<close>

definition utf8 :: "nat \<Rightarrow> string" where
  "utf8 n = map char_of (if n < 128 then [n]
    else if n < 2048 then [192 + n div 64, 128 + n mod 64]
    else if n < 65536 then [224 + n div 4096, 128 + n div 64 mod 64, 128 + n mod 64]
    else [240 + n div 262144, 128 + n div 4096 mod 64, 128 + n div 64 mod 64, 128 + n mod 64])"

definition simple_escape :: "char \<Rightarrow> char option" where
  "simple_escape c = (if c = CHR ''b'' then Some (char_of (8 :: nat)) else if c = CHR ''f'' then Some (char_of (12 :: nat))
     else if c = CHR ''n'' then Some (char_of (10 :: nat)) else if c = CHR ''r'' then Some (char_of (13 :: nat))
     else if c = CHR ''t'' then Some (char_of (9 :: nat))
     else if c = CHR ''/'' \<or> c = CHR 0x22 \<or> c = CHR 0x5C then Some c else None)"

definition hex4 :: "char \<Rightarrow> char \<Rightarrow> char \<Rightarrow> char \<Rightarrow> nat option" where
  "hex4 a b c d = map_option nat (parse_hexes 0 [a, b, c, d])"

definition surrogate :: "nat \<Rightarrow> bool" where "surrogate n \<longleftrightarrow> 55296 \<le> n \<and> n < 57344"

text \<open>What follows a backslash: the text it stands for and the rest.  A pair of surrogates is one code
  point, a lone surrogate the replacement character.\<close>

definition unicode_escape :: "string \<Rightarrow> (nat \<times> string) option" where
  "unicode_escape s = (case s of
      u # h1 # h2 # h3 # h4 # r \<Rightarrow>
        if u = CHR ''u'' then map_option (\<lambda>n. (n, r)) (hex4 h1 h2 h3 h4) else None
    | _ \<Rightarrow> None)"

definition low_surrogate :: "string \<Rightarrow> (nat \<times> string) option" where
  "low_surrogate s = (if s \<noteq> [] \<and> hd s = CHR 0x5C then
      (case unicode_escape (tl s) of
         Some (m, r) \<Rightarrow> if 56320 \<le> m \<and> m < 57344 then Some (m, r) else None
       | None \<Rightarrow> None)
     else None)"

definition escape :: "string \<Rightarrow> (string \<times> string) option" where
  "escape s = (case s of [] \<Rightarrow> None
    | e # cs \<Rightarrow> (case simple_escape e of
        Some x \<Rightarrow> Some ([x], cs)
      | None \<Rightarrow> (case unicode_escape s of
          None \<Rightarrow> None
        | Some (n, r) \<Rightarrow>
            if \<not> surrogate n then Some (utf8 n, r)
            else (case low_surrogate r of
                Some (m, r') \<Rightarrow> if n < 56320
                  then Some (utf8 (65536 + (n - 55296) * 1024 + (m - 56320)), r') else Some (utf8 65533, r)
              | None \<Rightarrow> Some (utf8 65533, r)))))"

lemma unicode_escape_length: "unicode_escape s = Some (n, r) \<Longrightarrow> length r < length s"
  by (auto simp: unicode_escape_def split: list.splits if_splits)

lemma low_surrogate_length: "low_surrogate s = Some (n, r) \<Longrightarrow> length r < length s"
  by (cases s) (auto simp: low_surrogate_def split: option.splits if_splits dest: unicode_escape_length)

lemma escape_length: "escape s = Some (t, r) \<Longrightarrow> length r < length s"
  by (auto simp: escape_def split: list.splits option.splits if_splits
      dest!: unicode_escape_length low_surrogate_length)

text \<open>The rest of a string literal, after its opening quote.\<close>

function scan_string :: "string \<Rightarrow> (string \<times> string) option" where
  "scan_string [] = None"
| "scan_string (c # cs) =
    (if c = CHR 0x22 then Some ([], cs)
     else if c = CHR 0x5C then
       (case escape cs of None \<Rightarrow> None
        | Some (x, r) \<Rightarrow> map_option (\<lambda>(t, q). (x @ t, q)) (scan_string r))
     else if (of_char c :: nat) < 32 then None
     else map_option (\<lambda>(t, r). (c # t, r)) (scan_string cs))"
  by pat_completeness auto
termination by (relation "measure length") (auto dest!: escape_length)

definition scan_digits :: "string \<Rightarrow> string \<times> string" where
  "scan_digits s = (takeWhile is_digit s, dropWhile is_digit s)"

text \<open>A number literal: sign, integer part without leading zeros, fraction, exponent.\<close>

definition scan_fraction :: "string \<Rightarrow> (string \<times> string) option" where
  "scan_fraction s = (case s of
      c # r \<Rightarrow> if c = CHR ''.'' then
          (let (ds, r') = scan_digits r in if ds = [] then None else Some (c # ds, r'))
        else Some ([], s)
    | [] \<Rightarrow> Some ([], []))"

definition scan_exponent :: "string \<Rightarrow> (string \<times> string) option" where
  "scan_exponent s = (case s of
      c # r \<Rightarrow> if c = CHR ''e'' \<or> c = CHR ''E'' then
          (let sign = (r \<noteq> [] \<and> (hd r = CHR ''+'' \<or> hd r = CHR ''-''));
               (ds, r') = scan_digits (if sign then tl r else r) in
           if ds = [] then None else Some (c # (if sign then [hd r] else []) @ ds, r'))
        else Some ([], s)
    | [] \<Rightarrow> Some ([], []))"

definition scan_number :: "string \<Rightarrow> (string \<times> string) option" where
  "scan_number s =
    (let neg = (s \<noteq> [] \<and> hd s = CHR ''-''); body = (if neg then tl s else s); (ds, r) = scan_digits body in
     if ds = [] then None
     else let (int_part, r1) = (if hd ds = CHR ''0'' then ([hd ds], tl body) else (ds, r)) in
       Option.bind (scan_fraction r1) (\<lambda>(f, r2). Option.bind (scan_exponent r2) (\<lambda>(e, r3).
         Some ((if neg then ''-'' else []) @ int_part @ f @ e, r3))))"

section \<open>The parser\<close>

fun json_value :: "nat \<Rightarrow> string \<Rightarrow> (json \<times> string) option"
  and json_elems :: "nat \<Rightarrow> string \<Rightarrow> (json list \<times> string) option"
  and json_members :: "nat \<Rightarrow> string \<Rightarrow> ((string \<times> json) list \<times> string) option" where
  "json_value 0 s = None"
| "json_value (Suc n) s = (case skip s of
     [] \<Rightarrow> None
   | c # cs \<Rightarrow>
       if c = CHR ''{'' then
         (if skip cs \<noteq> [] \<and> hd (skip cs) = CHR ''}'' then Some (JObj [], tl (skip cs))
          else map_option (\<lambda>(ms, r). (JObj ms, r)) (json_members n cs))
       else if c = CHR ''['' then
         (if skip cs \<noteq> [] \<and> hd (skip cs) = CHR '']'' then Some (JArr [], tl (skip cs))
          else map_option (\<lambda>(vs, r). (JArr vs, r)) (json_elems n cs))
       else if c = CHR 0x22 then map_option (\<lambda>(t, r). (JStr t, r)) (scan_string cs)
       else if has_prefix (c # cs) ''true'' then Some (JBool True, drop 4 (c # cs))
       else if has_prefix (c # cs) ''false'' then Some (JBool False, drop 5 (c # cs))
       else if has_prefix (c # cs) ''null'' then Some (JNull, drop 4 (c # cs))
       else map_option (\<lambda>(t, r). (JNum t, r)) (scan_number (c # cs)))"
| "json_elems 0 s = None"
| "json_elems (Suc n) s = (case json_value n s of
     None \<Rightarrow> None
   | Some (v, r) \<Rightarrow> (case skip r of
       [] \<Rightarrow> None
     | d # r' \<Rightarrow> if d = CHR '']'' then Some ([v], r')
         else if d = CHR '','' then map_option (\<lambda>(vs, q). (v # vs, q)) (json_elems n r')
         else None))"
| "json_members 0 s = None"
| "json_members (Suc n) s = (case skip s of
     [] \<Rightarrow> None
   | q # cs \<Rightarrow> if q \<noteq> CHR 0x22 then None else (case scan_string cs of
       None \<Rightarrow> None
     | Some (k, r) \<Rightarrow> (case skip r of
         [] \<Rightarrow> None
       | d # r1 \<Rightarrow> if d \<noteq> CHR '':'' then None else (case json_value n r1 of
           None \<Rightarrow> None
         | Some (v, r2) \<Rightarrow> (case skip r2 of
             [] \<Rightarrow> None
           | d' # r3 \<Rightarrow> if d' = CHR ''}'' then Some ([(k, v)], r3)
               else if d' = CHR '','' then map_option (\<lambda>(ms, q). ((k, v) # ms, q)) (json_members n r3)
               else None)))))"

definition json_parse :: "string \<Rightarrow> json option" where
  "json_parse s = (case json_value (2 * length s + 2) s of
      None \<Rightarrow> None
    | Some (v, r) \<Rightarrow> if skip r = [] then Some v else None)"

section \<open>Unmarshalling into a struct\<close>

text \<open>The members that match a field, in order: the names are compared without case.  A value that
  is not an object gives no member, and an error unless it is \<^verbatim>\<open>null\<close>.\<close>

definition members :: "json \<Rightarrow> string \<Rightarrow> json list" where
  "members j name = (case j of JObj ms \<Rightarrow> map snd (filter (\<lambda>(k, v). equal_fold k name) ms) | _ \<Rightarrow> [])"

definition not_object :: "json \<Rightarrow> bool" where
  "not_object j \<longleftrightarrow> (case j of JObj _ \<Rightarrow> False | JNull \<Rightarrow> False | _ \<Rightarrow> True)"

text \<open>Every matching member is assigned in turn; \<^verbatim>\<open>null\<close> leaves the field, a value of another type
  leaves it too and makes the whole call return an error.\<close>

fun assign :: "(json \<Rightarrow> 'a option) \<Rightarrow> 'a \<Rightarrow> json list \<Rightarrow> 'a \<times> bool" where
  "assign conv v [] = (v, False)"
| "assign conv v (j # js) = (if j = JNull then assign conv v js
     else case conv j of Some x \<Rightarrow> assign conv x js
       | None \<Rightarrow> (fst (assign conv v js), True))"

definition as_string :: "json \<Rightarrow> string option" where
  "as_string j = (case j of JStr s \<Rightarrow> Some s | _ \<Rightarrow> None)"

definition as_int64 :: "json \<Rightarrow> int option" where
  "as_int64 j = (case j of JNum t \<Rightarrow> parse_int 64 t | _ \<Rightarrow> None)"

definition as_bool :: "json \<Rightarrow> bool option" where
  "as_bool j = (case j of JBool b \<Rightarrow> Some b | _ \<Rightarrow> None)"

definition string_field :: "json \<Rightarrow> string \<Rightarrow> string \<times> bool" where
  "string_field j name = assign as_string [] (members j name)"

definition int_field :: "json \<Rightarrow> string \<Rightarrow> int \<times> bool" where
  "int_field j name = assign as_int64 0 (members j name)"

definition bool_field :: "json \<Rightarrow> string \<Rightarrow> bool \<times> bool" where
  "bool_field j name = assign as_bool False (members j name)"

text \<open>A field of type \<^verbatim>\<open>json.RawMessage\<close> takes any value, \<^verbatim>\<open>null\<close> included.\<close>

definition raw_field :: "json \<Rightarrow> string \<Rightarrow> json option" where
  "raw_field j name = (let vs = members j name in if vs = [] then None else Some (last vs))"

section \<open>The fuel is enough\<close>

lemma skip_length: "length (skip s) \<le> length s"
  by (simp add: skip_def length_dropWhile_le)

lemma skip_Cons_length: "skip s = c # cs \<Longrightarrow> length cs < length s"
  using skip_length [of s] by simp

lemma scan_string_length: "scan_string s = Some (t, r) \<Longrightarrow> length r < length s"
proof (induction s arbitrary: t r rule: scan_string.induct)
  case (2 c cs)
  show ?case
  proof (cases "c = CHR 0x5C")
    case True
    with "2.prems" obtain x q t' where "escape cs = Some (x, q)" "scan_string q = Some (t', r)"
      by (auto split: option.splits if_splits)
    with "2.IH"(1) [OF _ True] escape_length True show ?thesis by fastforce
  next
    case False
    with "2.prems" "2.IH"(2) show ?thesis by (auto split: if_splits)
  qed
qed simp

lemma scan_digits_length: "scan_digits s = (ds, r) \<Longrightarrow> length ds + length r = length s"
  unfolding scan_digits_def by (metis length_append prod.inject takeWhile_dropWhile_id)

lemma scan_fraction_length: "scan_fraction s = Some (t, r) \<Longrightarrow> length r \<le> length s"
  by (auto simp: scan_fraction_def split: list.splits if_splits prod.splits dest!: scan_digits_length)

lemma scan_exponent_length: "scan_exponent s = Some (t, r) \<Longrightarrow> length r \<le> length s"
  by (auto simp: scan_exponent_def Let_def split: list.splits if_splits prod.splits dest!: scan_digits_length)

lemma scan_number_length:
  assumes "scan_number s = Some (t, r)"
  shows "length r < length s"
proof -
  define body where "body = (if s \<noteq> [] \<and> hd s = CHR ''-'' then tl s else s)"
  obtain ds q where d: "scan_digits body = (ds, q)" by (cases "scan_digits body")
  define r1 where "r1 = (if hd ds = CHR ''0'' then tl body else q)"
  from assms d have ne: "ds \<noteq> []" and "\<exists>f r2 e. scan_fraction r1 = Some (f, r2) \<and> scan_exponent r2 = Some (e, r)"
    by (auto simp: scan_number_def body_def [symmetric] r1_def Let_def bind_eq_Some_conv split: if_splits)
  then have "length r \<le> length r1" using scan_fraction_length scan_exponent_length by (meson order_trans)
  moreover have "length r1 < length body"
    using scan_digits_length [OF d] ne by (cases ds; cases body) (auto simp: r1_def)
  moreover have "length body \<le> length s" by (simp add: body_def)
  ultimately show ?thesis by simp
qed

lemma drop_length: "s = c # cs \<Longrightarrow> length (drop (Suc n) s) < length s"
  by simp

text \<open>Every parser consumes.\<close>

lemma json_consumes:
  "json_value n s = Some (v, r) \<Longrightarrow> length r < length s"
  "json_elems n s = Some (vs, r) \<Longrightarrow> length r < length s"
  "json_members n s = Some (ms, r) \<Longrightarrow> length r < length s"
proof (induction n arbitrary: s v vs ms r)
  case (Suc n)
  {
    case 1
    then obtain c cs where c: "skip s = c # cs" by (auto split: list.splits)
    note len = skip_Cons_length [OF c] skip_length [of cs]
    from 1 c Suc.IH len show ?case
      by (auto split: if_splits dest!: scan_string_length scan_number_length) (fastforce+)
  next
    case 2
    then show ?case using Suc.IH
      by (auto split: option.splits list.splits if_splits dest!: skip_Cons_length) (fastforce+)
  next
    case 3
    then show ?case using Suc.IH
      by (auto split: option.splits list.splits if_splits dest!: skip_Cons_length scan_string_length) (fastforce+)
  }
qed simp_all

text \<open>One more unit of fuel does not change an answer once the fuel is twice the input.\<close>

lemma json_fuel_step:
  "2 * length s + 1 \<le> n \<Longrightarrow> json_value (Suc n) s = json_value n s"
  "2 * length s + 2 \<le> n \<Longrightarrow> json_elems (Suc n) s = json_elems n s"
  "2 * length s + 2 \<le> n \<Longrightarrow> json_members (Suc n) s = json_members n s"
proof (induction n arbitrary: s)
  case (Suc n)
  {
    case 1
    have inner: "json_elems (Suc n) cs = json_elems n cs \<and> json_members (Suc n) cs = json_members n cs"
      if "skip s = c # cs" for c cs
      using that skip_Cons_length [OF that] 1 Suc.IH(2,3) [of cs] by simp
    show ?case
      unfolding json_value.simps(2) [of "Suc n" s] json_value.simps(2) [of n s]
      by (auto simp: inner simp del: json_elems.simps json_members.simps split: list.splits)
  next
    case 2
    have head: "json_value (Suc n) s = json_value n s" using 2 Suc.IH(1) by simp
    have rest: "json_elems (Suc n) r' = json_elems n r'"
      if "json_value n s = Some (v, r)" "skip r = d # r'" for v r d r'
      using json_consumes(1) [OF that(1)] skip_Cons_length [OF that(2)] 2 Suc.IH(2) [of r'] by simp
    show ?case
      unfolding json_elems.simps(2) [of "Suc n" s] json_elems.simps(2) [of n s] head
      by (auto simp: rest simp del: json_value.simps json_elems.simps split: option.splits list.splits)
  next
    case 3
    have head: "json_value (Suc n) r1 = json_value n r1"
      if "skip s = q # cs" "scan_string cs = Some (k, r)" "skip r = d # r1" for q cs k r d r1
      using skip_Cons_length [OF that(1)] scan_string_length [OF that(2)] skip_Cons_length [OF that(3)]
        3 Suc.IH(1) [of r1] by simp
    have rest: "json_members (Suc n) r3 = json_members n r3"
      if "skip s = q # cs" "scan_string cs = Some (k, r)" "skip r = d # r1"
        "json_value n r1 = Some (v, r2)" "skip r2 = e # r3" for q cs k r d r1 v r2 e r3
      using skip_Cons_length [OF that(1)] scan_string_length [OF that(2)] skip_Cons_length [OF that(3)]
        json_consumes(1) [OF that(4)] skip_Cons_length [OF that(5)] 3 Suc.IH(3) [of r3] by simp
    show ?case
      unfolding json_members.simps(2) [of "Suc n" s] json_members.simps(2) [of n s]
      by (auto simp: head rest simp del: json_value.simps json_members.simps split: option.splits list.splits)
  }
qed simp_all

lemma json_fuel:
  assumes "2 * length s + 2 \<le> n"
  shows "json_value n s = json_value (2 * length s + 2) s"
proof -
  have "json_value (2 * length s + 2 + k) s = json_value (2 * length s + 2) s" for k
    by (induction k) (simp_all add: json_fuel_step(1) del: json_value.simps)
  then show ?thesis using assms by (metis le_add_diff_inverse)
qed

end
