(* ===== verification/Http.thy ===== *)
theory Http
  imports Providers Json Money
begin

text \<open>
  What the payment adapters of \<^verbatim>\<open>src/providers\<close> share: an HTTP exchange and the decoding of its
  answer.  The network and the service behind it are a parameter \<^verbatim>\<open>http\<close> from requests to replies;
  \<^verbatim>\<open>HttpFailed\<close> stands for a request that could not be built, sent, or read to its end.  All errors
  of an adapter are \<^const>\<open>ErrProvider\<close>: the callers only look at whether there is one.  \<^verbatim>\<open>hmac\<close> is
  HMAC-SHA256 of \<^verbatim>\<open>crypto/hmac\<close>, from key and message to bytes.
\<close>

datatype http_body = NoBody | FormBody "(string \<times> string) list" | JsonBody json

record http_request =
  hrMethod :: string
  hrURL :: string
  hrAuthorization :: string
  hrIdempotency :: "(string \<times> string) option"
  hrBody :: http_body

datatype http_reply = HttpFailed | HttpReply nat string

type_synonym transport = "http_request \<Rightarrow> http_reply"
type_synonym hmac = "string \<Rightarrow> string \<Rightarrow> nat list"

text \<open>\<^verbatim>\<open>url.PathEscape\<close>.\<close>

definition PathEscape :: "string \<Rightarrow> string" where
  "PathEscape s = concat (map (\<lambda>c. if unreserved c \<or> c \<in> set ''$&+=:@'' then [c]
    else [CHR ''%'', hex_digit (of_char c div 16), hex_digit (of_char c mod 16)]) s)"

text \<open>\<^verbatim>\<open>json.Unmarshal\<close> of a text: a decoder gives the struct and whether a field had the wrong
  type.\<close>

definition unmarshal :: "(json \<Rightarrow> 'a \<times> bool) \<Rightarrow> string \<Rightarrow> error + 'a" where
  "unmarshal decode raw = (case json_parse raw of
      None \<Rightarrow> Inl ErrProvider
    | Some j \<Rightarrow> (let (v, bad) = decode j in if bad then Inl ErrProvider else Inr v))"

definition idempotency_header :: "string \<Rightarrow> string \<Rightarrow> (string \<times> string) option" where
  "idempotency_header name key = (if key = [] then None else Some (name, key))"

definition seconds :: "int \<Rightarrow> time" where "seconds n = n * 1000000000"

text \<open>Both services' tolerance for the time stamp of a delivery.\<close>

definition webhook_tolerance :: time where "webhook_tolerance = seconds 300"

definition outside_tolerance :: "time \<Rightarrow> int \<Rightarrow> bool" where
  "outside_tolerance now ts \<longleftrightarrow>
    (let age = now - seconds ts in age > webhook_tolerance \<or> age < - webhook_tolerance)"

end
