(* ===== verification/AdapterStripe.thy ===== *)
theory AdapterStripe
  imports Http
begin

text \<open>
  The Stripe adapter (\<^verbatim>\<open>src/providers/stripe.go\<close>): Checkout Sessions, refunds, Connect accounts
  and the verification of webhook deliveries.  \<^verbatim>\<open>stripe_provider\<close> packs it into the provider
  record the handlers and the worker are modelled over; the webhook secret, the signature header
  and the clock, which the code takes from the context and the request, are arguments.
\<close>

record Stripe =
  stSecretKey :: string
  stAPIBase :: string

definition NewStripe :: "string \<Rightarrow> Stripe" where
  "NewStripe secretKey = \<lparr>stSecretKey = secretKey, stAPIBase = ''https://api.stripe.com/v1''\<rparr>"

definition stripe_do :: "transport \<Rightarrow> Stripe \<Rightarrow> string \<Rightarrow> string \<Rightarrow> (string \<times> string) list option \<Rightarrow> string
    \<Rightarrow> (json \<Rightarrow> 'a \<times> bool) \<Rightarrow> error + 'a" where
  "stripe_do http sp verb path form idempotencyKey decode =
    (if stSecretKey sp = [] then Inl ErrProvider
     else case http \<lparr>hrMethod = verb, hrURL = stAPIBase sp @ path, hrAuthorization = stSecretKey sp,
         hrIdempotency = idempotency_header ''Idempotency-Key'' idempotencyKey,
         hrBody = (case form of None \<Rightarrow> NoBody | Some kvs \<Rightarrow> FormBody kvs)\<rparr> of
       HttpFailed \<Rightarrow> Inl ErrProvider
     | HttpReply status raw \<Rightarrow> if status \<ge> 400 then Inl ErrProvider else unmarshal decode raw)"

section \<open>Checkout sessions\<close>

record stripe_session =
  ssID :: string
  ssURL :: string
  ssStatus :: string
  ssPaymentStatus :: string
  ssPaymentIntent :: string
  ssExpiresAt :: int
  ssAmountTotal :: int
  ssCurrency :: string

definition decode_session :: "json \<Rightarrow> stripe_session \<times> bool" where
  "decode_session j =
    (let (i, e1) = string_field j ''id''; (u, e2) = string_field j ''url''; (st, e3) = string_field j ''status'';
         (ps, e4) = string_field j ''payment_status''; (pi, e5) = string_field j ''payment_intent'';
         (ex, e6) = int_field j ''expires_at''; (am, e7) = int_field j ''amount_total'';
         (cu, e8) = string_field j ''currency'' in
     (\<lparr>ssID = i, ssURL = u, ssStatus = st, ssPaymentStatus = ps, ssPaymentIntent = pi, ssExpiresAt = ex,
        ssAmountTotal = am, ssCurrency = cu\<rparr>,
      not_object j \<or> e1 \<or> e2 \<or> e3 \<or> e4 \<or> e5 \<or> e6 \<or> e7 \<or> e8))"

definition stripe_CreatePayment :: "transport \<Rightarrow> Stripe \<Rightarrow> create_payment_input \<Rightarrow> error + payment_session" where
  "stripe_CreatePayment http sp inp =
    (case stripe_do http sp ''POST'' ''/checkout/sessions''
       (Some ([(''mode'', ''payment''), (''success_url'', cpSuccessURL inp), (''cancel_url'', cpCancelURL inp),
          (''client_reference_id'', show_int (cpOrderID inp))]
         @ (if cpBuyerEmail inp \<noteq> [] then [(''customer_email'', cpBuyerEmail inp)] else [])
         @ [(''line_items[0][quantity]'', ''1''),
          (''line_items[0][price_data][currency]'', cpCurrency inp),
          (''line_items[0][price_data][unit_amount]'', show_int (cpAmountMinor inp)),
          (''line_items[0][price_data][product_data][name]'', cpDescription inp),
          (''payment_intent_data[metadata][order_id]'', show_int (cpOrderID inp))]))
       (cpIdempotencyKey inp) decode_session of
       Inl e \<Rightarrow> Inl e
     | Inr out \<Rightarrow> Inr \<lparr>psProviderRef = ssID out, psCheckoutURL = ssURL out,
         psExpiresAt = (if ssExpiresAt out > 0 then Some (seconds (ssExpiresAt out)) else None)\<rparr>)"

definition normalizeCheckoutSessionStatus :: "string \<Rightarrow> string \<Rightarrow> payment_status" where
  "normalizeCheckoutSessionStatus sessionStatus paymentStatus =
    (if sessionStatus = ''expired'' then PaymentExpired
     else if sessionStatus = ''open'' then PaymentPending
     else if sessionStatus = ''complete'' then
       (if paymentStatus = ''paid'' \<or> paymentStatus = ''no_payment_required'' then PaymentSucceeded
        else PaymentProcessing)
     else PaymentPending)"

definition stripe_Payment :: "transport \<Rightarrow> Stripe \<Rightarrow> string \<Rightarrow> error + normalized_payment" where
  "stripe_Payment http sp providerRef =
    (case stripe_do http sp ''GET'' (''/checkout/sessions/'' @ PathEscape providerRef) None [] decode_session of
       Inl e \<Rightarrow> Inl e
     | Inr out \<Rightarrow> Inr \<lparr>npProviderRef = ssID out, npChargeRef = ssPaymentIntent out,
         npStatus = normalizeCheckoutSessionStatus (ssStatus out) (ssPaymentStatus out),
         npAmountMinor = ssAmountTotal out, npCurrency = ssCurrency out, npFailureCode = [], npFailureReason = []\<rparr>)"

section \<open>Refunds\<close>

definition decode_refund :: "json \<Rightarrow> (string \<times> string) \<times> bool" where
  "decode_refund j = (let (i, e1) = string_field j ''id''; (st, e2) = string_field j ''status'' in
     ((i, st), not_object j \<or> e1 \<or> e2))"

definition stripe_Refund :: "transport \<Rightarrow> Stripe \<Rightarrow> refund_input \<Rightarrow> error + refund_result" where
  "stripe_Refund http sp inp =
    (case stripe_do http sp ''POST'' ''/refunds''
       (Some ([(''payment_intent'', riProviderRef inp)]
         @ (if riAmountMinor inp > 0 then [(''amount'', show_int (riAmountMinor inp))] else [])
         @ (if riReason inp \<noteq> [] then [(''metadata[reason]'', riReason inp)] else [])))
       (riIdempotencyKey inp) decode_refund of
       Inl e \<Rightarrow> Inl e
     | Inr (i, st) \<Rightarrow> Inr \<lparr>rrsProviderRef = i,
         rrsStatus = (if st = ''succeeded'' then PaymentSucceeded
           else if st = ''failed'' \<or> st = ''canceled'' then PaymentFailed else PaymentProcessing)\<rparr>)"

section \<open>Connect accounts\<close>

definition decode_account :: "json \<Rightarrow> connect_account_status \<times> bool" where
  "decode_account j =
    (let (i, e1) = string_field j ''id''; (ch, e2) = bool_field j ''charges_enabled'';
         (po, e3) = bool_field j ''payouts_enabled'' in
     (\<lparr>caAccountID = i, caChargesEnabled = ch, caPayoutsEnabled = po\<rparr>, not_object j \<or> e1 \<or> e2 \<or> e3))"

definition stripe_CreateConnectAccount :: "transport \<Rightarrow> Stripe \<Rightarrow> string \<Rightarrow> error + string" where
  "stripe_CreateConnectAccount http sp email =
    (case stripe_do http sp ''POST'' ''/accounts''
       (Some ([(''type'', ''express'')] @ (if email \<noteq> [] then [(''email'', email)] else [])
         @ [(''capabilities[card_payments][requested]'', ''true''), (''capabilities[transfers][requested]'', ''true'')]))
       [] decode_account of
       Inl e \<Rightarrow> Inl e
     | Inr out \<Rightarrow> Inr (caAccountID out))"

definition stripe_CreateOnboardingLink :: "transport \<Rightarrow> Stripe \<Rightarrow> string \<Rightarrow> string \<Rightarrow> string \<Rightarrow> error + string" where
  "stripe_CreateOnboardingLink http sp accountID returnURL refreshURL =
    stripe_do http sp ''POST'' ''/account_links''
      (Some [(''account'', accountID), (''type'', ''account_onboarding''), (''return_url'', returnURL),
        (''refresh_url'', refreshURL)]) []
      (\<lambda>j. let (u, e) = string_field j ''url'' in (u, not_object j \<or> e))"

definition stripe_ConnectAccountStatus :: "transport \<Rightarrow> Stripe \<Rightarrow> string \<Rightarrow> error + connect_account_status" where
  "stripe_ConnectAccountStatus http sp accountID =
    stripe_do http sp ''GET'' (''/accounts/'' @ PathEscape accountID) None [] decode_account"

section \<open>Webhooks\<close>

fun signature_parts :: "string list \<Rightarrow> int \<Rightarrow> string \<Rightarrow> (int \<times> string) option" where
  "signature_parts [] ts v1 = Some (ts, v1)"
| "signature_parts (part # ps) ts v1 = (case splitN (CHR ''='') 2 part of
     [k, v] \<Rightarrow>
       if k = ''t'' then (case parse_int 64 v of None \<Rightarrow> None | Some t \<Rightarrow> signature_parts ps t v1)
       else if k = ''v1'' then signature_parts ps ts v
       else signature_parts ps ts v1
   | _ \<Rightarrow> signature_parts ps ts v1)"

definition parseStripeSignatureHeader :: "string \<Rightarrow> (int \<times> string) option" where
  "parseStripeSignatureHeader header =
    (if header = [] then None
     else case signature_parts (split_all (CHR '','') header) 0 [] of
       None \<Rightarrow> None
     | Some (ts, v1) \<Rightarrow> if ts = 0 \<or> v1 = [] then None else Some (ts, v1))"

definition sessionStatusForEventType :: "string \<Rightarrow> string \<Rightarrow> string" where
  "sessionStatusForEventType eventType status =
    (if eventType = ''checkout.session.completed'' \<or> eventType = ''checkout.session.async_payment_succeeded'' then ''complete''
     else if eventType = ''checkout.session.expired'' then ''expired''
     else status)"

text \<open>The envelope: the event's identifier and type, and the object it is about.\<close>

definition decode_envelope :: "json \<Rightarrow> (string \<times> string \<times> json) \<times> bool" where
  "decode_envelope j =
    (let (i, e1) = string_field j ''id''; (ty, e2) = string_field j ''type'';
         data = members j ''data''; objs = concat (map (\<lambda>d. members d ''object'') data) in
     ((i, ty, if objs = [] then JNull else last objs), not_object j \<or> e1 \<or> e2 \<or> list_ex not_object data))"

definition stripe_ParseEvent :: "string \<Rightarrow> error + verified_event" where
  "stripe_ParseEvent body = (case unmarshal decode_envelope body of
      Inl e \<Rightarrow> Inl e
    | Inr (eid, ty, obj) \<Rightarrow>
       (let i = fst (string_field obj ''id'') in
        Inr \<lparr>veProvider = ''stripe'', veEventID = eid, veEventType = ty, veProviderRef = i,
          vePayment = (if ty \<in> {''checkout.session.completed'', ''checkout.session.expired'',
               ''checkout.session.async_payment_failed'', ''checkout.session.async_payment_succeeded''}
             then Some \<lparr>npProviderRef = i, npChargeRef = fst (string_field obj ''payment_intent''),
               npStatus = normalizeCheckoutSessionStatus
                 (sessionStatusForEventType ty (fst (string_field obj ''status''))) (fst (string_field obj ''payment_status'')),
               npAmountMinor = fst (int_field obj ''amount_total''), npCurrency = fst (string_field obj ''currency''),
               npFailureCode = [], npFailureReason = []\<rparr>
             else None),
          veAccount = (if ty = ''account.updated''
             then Some \<lparr>caAccountID = i, caChargesEnabled = fst (bool_field obj ''charges_enabled''),
               caPayoutsEnabled = fst (bool_field obj ''payouts_enabled'')\<rparr>
             else None)\<rparr>))"

definition stripe_VerifyWebhook :: "hmac \<Rightarrow> string \<Rightarrow> string \<Rightarrow> time \<Rightarrow> string \<Rightarrow> error + verified_event" where
  "stripe_VerifyWebhook hmac secret header now body =
    (if secret = [] then Inl ErrProvider
     else case parseStripeSignatureHeader header of
       None \<Rightarrow> Inl ErrProvider
     | Some (ts, sig) \<Rightarrow>
       if outside_tolerance now ts then Inl ErrProvider
       else if hex_encode (hmac secret (show_int ts @ ''.'' @ body)) \<noteq> sig then Inl ErrProvider
       else stripe_ParseEvent body)"

definition stripe_provider :: "transport \<Rightarrow> Stripe \<Rightarrow> hmac \<Rightarrow> string \<Rightarrow> string \<Rightarrow> time \<Rightarrow> provider" where
  "stripe_provider http sp hmac secret header now =
    \<lparr>pvAdapter = StripeAdapter \<lparr>scCreateConnectAccount = stripe_CreateConnectAccount http sp,
       scCreateOnboardingLink = stripe_CreateOnboardingLink http sp,
       scConnectAccountStatus = stripe_ConnectAccountStatus http sp\<rparr>,
     pvName = ''stripe'', pvCreatePayment = stripe_CreatePayment http sp, pvPayment = stripe_Payment http sp,
     pvRefund = stripe_Refund http sp, pvVerifyWebhook = stripe_VerifyWebhook hmac secret header now,
     pvParseEvent = stripe_ParseEvent\<rparr>"

section \<open>Facts\<close>

text \<open>A header in the shape Stripe sends is read as its time stamp and its signature.\<close>

lemma show_int_no:
  assumes "sep \<noteq> CHR ''-''" "\<not> is_digit sep"
  shows "sep \<notin> set (show_int i)"
  using assms show_nat_is_digit by (auto simp: show_int_def)

lemma separators: "\<not> is_digit (CHR '','')" "\<not> is_digit (CHR ''='')" "\<not> is_digit (CHR '':'')" "\<not> is_digit (CHR ''.'')"
  by (simp_all add: is_digit_def digit_of_def)

lemma parse_signature_header:
  assumes "in_int64 ts" "ts \<noteq> 0" "sig \<noteq> []" "CHR '','' \<notin> set sig"
  shows "parseStripeSignatureHeader (''t='' @ show_int ts @ '',v1='' @ sig) = Some (ts, sig)"
proof -
  have no: "CHR '','' \<notin> set (''t='' @ show_int ts)" "CHR '','' \<notin> set (''v1='' @ sig)"
    using assms show_int_no [of "CHR '',''"] by (auto simp: separators)
  have parts: "split_all (CHR '','') (''t='' @ show_int ts @ '',v1='' @ sig) = [''t='' @ show_int ts, ''v1='' @ sig]"
    using split_all_join [OF no(1), of "''v1='' @ sig"] split_all_last [OF no(2)] by simp
  have kv: "splitN (CHR ''='') 2 (''t='' @ show_int ts) = [''t'', show_int ts]"
    "splitN (CHR ''='') 2 (''v1='' @ sig) = [''v1'', sig]"
    using splitN_two [of "CHR ''=''" "''t''" "show_int ts"] splitN_two [of "CHR ''=''" "''v1''" sig] by simp_all
  have "parse_int 64 (show_int ts) = Some ts"
    using assms(1) by (intro parse_show_int) (simp_all add: in_int64_def)
  then show ?thesis
    unfolding parseStripeSignatureHeader_def parts using kv assms(2,3) by simp
qed

end
