(* ===== verification/AdapterBTCPay.thy ===== *)
theory AdapterBTCPay
  imports AdapterStripe
begin

text \<open>
  The BTCPay adapter (\<^verbatim>\<open>src/providers/btcpay.go\<close>): invoices, refunds and the verification of
  webhook deliveries, in the shape of the Stripe adapter.  What both verifications promise is
  stated here once for both.
\<close>

record BTCPay =
  btBaseURL :: string
  btAPIKey :: string
  btStoreID :: string

definition NewBTCPay :: "string \<Rightarrow> string \<Rightarrow> string \<Rightarrow> BTCPay" where
  "NewBTCPay baseURL apiKey storeID =
    \<lparr>btBaseURL = rev (dropWhile (\<lambda>c. c = CHR ''/'') (rev baseURL)), btAPIKey = apiKey, btStoreID = storeID\<rparr>"

text \<open>An answer without a body leaves the result empty.\<close>

definition btcpay_do :: "transport \<Rightarrow> BTCPay \<Rightarrow> string \<Rightarrow> string \<Rightarrow> json option \<Rightarrow> string
    \<Rightarrow> 'a \<Rightarrow> (json \<Rightarrow> 'a \<times> bool) \<Rightarrow> error + 'a" where
  "btcpay_do http b verb path body idempotencyKey zero_value decode =
    (if btBaseURL b = [] \<or> btAPIKey b = [] \<or> btStoreID b = [] then Inl ErrProvider
     else case http \<lparr>hrMethod = verb, hrURL = btBaseURL b @ path, hrAuthorization = ''token '' @ btAPIKey b,
         hrIdempotency = idempotency_header ''X-Idempotency-Key'' idempotencyKey,
         hrBody = (case body of None \<Rightarrow> NoBody | Some j \<Rightarrow> JsonBody j)\<rparr> of
       HttpFailed \<Rightarrow> Inl ErrProvider
     | HttpReply status raw \<Rightarrow>
         if status \<ge> 400 then Inl ErrProvider
         else if raw = [] then Inr zero_value
         else unmarshal decode raw)"

section \<open>Invoices\<close>

record btcpay_invoice =
  biID :: string
  biAmount :: string
  biCurrency :: string
  biStatus :: string
  biAdditionalStatus :: string
  biExpirationTime :: int
  biCheckoutLink :: string

definition empty_invoice :: btcpay_invoice where
  "empty_invoice = \<lparr>biID = [], biAmount = [], biCurrency = [], biStatus = [], biAdditionalStatus = [],
    biExpirationTime = 0, biCheckoutLink = []\<rparr>"

definition decode_invoice :: "json \<Rightarrow> btcpay_invoice \<times> bool" where
  "decode_invoice j =
    (let (i, e1) = string_field j ''id''; e2 = snd (string_field j ''storeId''); (am, e3) = string_field j ''amount'';
         (cu, e4) = string_field j ''currency''; (st, e5) = string_field j ''status'';
         (ad, e6) = string_field j ''additionalStatus''; e7 = snd (int_field j ''createdTime'');
         (ex, e8) = int_field j ''expirationTime''; (li, e9) = string_field j ''checkoutLink'';
         meta = members j ''metadata'';
         e10 = list_ex (\<lambda>m. not_object m \<or> snd (string_field m ''orderId'')) meta in
     (\<lparr>biID = i, biAmount = am, biCurrency = cu, biStatus = st, biAdditionalStatus = ad,
        biExpirationTime = ex, biCheckoutLink = li\<rparr>,
      not_object j \<or> e1 \<or> e2 \<or> e3 \<or> e4 \<or> e5 \<or> e6 \<or> e7 \<or> e8 \<or> e9 \<or> e10))"

definition invoices_path :: "BTCPay \<Rightarrow> string" where
  "invoices_path b = ''/api/v1/stores/'' @ PathEscape (btStoreID b) @ ''/invoices''"

definition btcpay_CreatePayment :: "transport \<Rightarrow> BTCPay \<Rightarrow> create_payment_input \<Rightarrow> error + payment_session" where
  "btcpay_CreatePayment http b inp =
    (case btcpay_do http b ''POST'' (invoices_path b)
       (Some (JObj [(''amount'', JStr (btcpayAmountString (cpAmountMinor inp))),
         (''currency'', JStr (to_upper (cpCurrency inp))),
         (''metadata'', JObj [(''orderId'', JStr (show_int (cpOrderID inp))), (''buyerEmail'', JStr (cpBuyerEmail inp))]),
         (''checkout'', JObj [(''redirectURL'', JStr (cpSuccessURL inp)), (''redirectAutomatically'', JBool True),
           (''expirationMinutes'', JNum ''60''), (''requiresRefundEmail'', JBool False),
           (''speedPolicy'', JStr ''MediumSpeed'')])]))
       (cpIdempotencyKey inp) empty_invoice decode_invoice of
       Inl e \<Rightarrow> Inl e
     | Inr out \<Rightarrow> Inr \<lparr>psProviderRef = biID out, psCheckoutURL = biCheckoutLink out,
         psExpiresAt = (if biExpirationTime out > 0 then Some (seconds (biExpirationTime out)) else None)\<rparr>)"

definition normalizeInvoiceStatus :: "string \<Rightarrow> string \<Rightarrow> payment_status" where
  "normalizeInvoiceStatus status additionalStatus =
    (if status = ''New'' then PaymentPending
     else if status = ''Processing'' then PaymentProcessing
     else if status = ''Settled'' then
       (if additionalStatus = ''PaidPartial'' \<or> additionalStatus = ''PaidLate'' then PaymentProcessing
        else PaymentSucceeded)
     else if status = ''Expired'' then PaymentExpired
     else if status = ''Invalid'' then PaymentFailed
     else PaymentPending)"

definition btcpay_Payment :: "transport \<Rightarrow> BTCPay \<Rightarrow> string \<Rightarrow> error + normalized_payment" where
  "btcpay_Payment http b providerRef =
    (case btcpay_do http b ''GET'' (invoices_path b @ ''/'' @ PathEscape providerRef) None [] empty_invoice decode_invoice of
       Inl e \<Rightarrow> Inl e
     | Inr out \<Rightarrow> Inr \<lparr>npProviderRef = biID out, npChargeRef = biID out,
         npStatus = normalizeInvoiceStatus (biStatus out) (biAdditionalStatus out),
         npAmountMinor = (case btcpayAmountToMinor (biAmount out) of None \<Rightarrow> 0 | Some m \<Rightarrow> m),
         npCurrency = to_lower (biCurrency out), npFailureCode = [], npFailureReason = []\<rparr>)"

definition btcpay_Refund :: "transport \<Rightarrow> BTCPay \<Rightarrow> refund_input \<Rightarrow> error + refund_result" where
  "btcpay_Refund http b inp =
    (case btcpay_do http b ''POST'' (invoices_path b @ ''/'' @ PathEscape (riProviderRef inp) @ ''/refund'')
       (Some (JObj [(''name'', JStr ''Order refund''), (''description'', JStr (riReason inp)),
         (''amount'', JStr (btcpayAmountString (riAmountMinor inp))), (''currency'', JStr (to_upper (riCurrency inp))),
         (''refundVariant'', JStr ''Custom'')]))
       (riIdempotencyKey inp) [] (\<lambda>j. let (p, e) = string_field j ''pullPaymentId'' in (p, not_object j \<or> e)) of
       Inl e \<Rightarrow> Inl e
     | Inr pull \<Rightarrow> Inr \<lparr>rrsProviderRef = (if pull = [] then riProviderRef inp else pull),
         rrsStatus = PaymentProcessing\<rparr>)"

section \<open>Webhooks\<close>

definition btcpayEventStatus :: "string \<Rightarrow> payment_status option" where
  "btcpayEventStatus eventType =
    (if eventType = ''InvoiceSettled'' then Some PaymentSucceeded
     else if eventType = ''InvoiceProcessing'' then Some PaymentProcessing
     else if eventType = ''InvoiceExpired'' then Some PaymentExpired
     else if eventType = ''InvoiceInvalid'' then Some PaymentFailed
     else None)"

definition parseBTCPaySignatureHeader :: "string \<Rightarrow> string option" where
  "parseBTCPaySignatureHeader header =
    (if header = [] then None
     else case cut_prefix header ''sha256='' of
       None \<Rightarrow> None
     | Some sig \<Rightarrow> if sig = [] then None else Some sig)"

definition decode_btcpay_event :: "json \<Rightarrow> (string \<times> string \<times> int \<times> string) \<times> bool" where
  "decode_btcpay_event j =
    (let (d, e1) = string_field j ''deliveryId''; (ty, e2) = string_field j ''type'';
         (ts, e3) = int_field j ''timestamp''; e4 = snd (string_field j ''storeId'');
         (invoice, e5) = string_field j ''invoiceId'' in
     ((d, ty, ts, invoice), not_object j \<or> e1 \<or> e2 \<or> e3 \<or> e4 \<or> e5))"

text \<open>The event and its raw time stamp.\<close>

definition btcpay_parseEvent :: "string \<Rightarrow> error + verified_event \<times> int" where
  "btcpay_parseEvent body = (case unmarshal decode_btcpay_event body of
      Inl e \<Rightarrow> Inl e
    | Inr (d, ty, ts, invoice) \<Rightarrow> Inr (\<lparr>veProvider = ''btcpay'', veEventID = d, veEventType = ty, veProviderRef = invoice,
        vePayment = map_option (\<lambda>st. \<lparr>npProviderRef = invoice, npChargeRef = invoice, npStatus = st, npAmountMinor = 0,
          npCurrency = [], npFailureCode = [], npFailureReason = []\<rparr>) (btcpayEventStatus ty),
        veAccount = None\<rparr>, ts))"

definition btcpay_ParseEvent :: "string \<Rightarrow> error + verified_event" where
  "btcpay_ParseEvent body = (case btcpay_parseEvent body of Inl e \<Rightarrow> Inl e | Inr (evt, ts) \<Rightarrow> Inr evt)"

definition btcpay_VerifyWebhook :: "hmac \<Rightarrow> string \<Rightarrow> string \<Rightarrow> time \<Rightarrow> string \<Rightarrow> error + verified_event" where
  "btcpay_VerifyWebhook hmac secret header now body =
    (if secret = [] then Inl ErrProvider
     else case parseBTCPaySignatureHeader header of
       None \<Rightarrow> Inl ErrProvider
     | Some sig \<Rightarrow>
       if hex_encode (hmac secret body) \<noteq> sig then Inl ErrProvider
       else case btcpay_parseEvent body of
         Inl e \<Rightarrow> Inl e
       | Inr (evt, ts) \<Rightarrow> if ts > 0 \<and> outside_tolerance now ts then Inl ErrProvider else Inr evt)"

definition btcpay_provider :: "transport \<Rightarrow> BTCPay \<Rightarrow> hmac \<Rightarrow> string \<Rightarrow> string \<Rightarrow> time \<Rightarrow> provider" where
  "btcpay_provider http b hmac secret header now =
    \<lparr>pvAdapter = BTCPayAdapter, pvName = ''btcpay'', pvCreatePayment = btcpay_CreatePayment http b,
     pvPayment = btcpay_Payment http b, pvRefund = btcpay_Refund http b,
     pvVerifyWebhook = btcpay_VerifyWebhook hmac secret header now, pvParseEvent = btcpay_ParseEvent\<rparr>"

section \<open>Facts\<close>

lemma stripe_VerifyWebhook_iff:
  "stripe_VerifyWebhook hmac secret header now body = Inr evt \<longleftrightarrow>
    secret \<noteq> [] \<and> (\<exists>ts. parseStripeSignatureHeader header = Some (ts, hex_encode (hmac secret (show_int ts @ ''.'' @ body)))
      \<and> \<not> outside_tolerance now ts) \<and> stripe_ParseEvent body = Inr evt"
  by (auto simp: stripe_VerifyWebhook_def split: option.splits)

lemma btcpay_VerifyWebhook_iff:
  "btcpay_VerifyWebhook hmac secret header now body = Inr evt \<longleftrightarrow>
    secret \<noteq> [] \<and> parseBTCPaySignatureHeader header = Some (hex_encode (hmac secret body))
    \<and> (\<exists>ts. btcpay_parseEvent body = Inr (evt, ts) \<and> (ts > 0 \<longrightarrow> \<not> outside_tolerance now ts))"
  by (auto simp: btcpay_VerifyWebhook_def split: option.splits sum.splits)

lemma parse_btcpay_header: "sig \<noteq> [] \<Longrightarrow> parseBTCPaySignatureHeader (''sha256='' @ sig) = Some sig"
  by (simp add: parseBTCPaySignatureHeader_def cut_prefix_def)

lemma hex_encode_ne: "hex_encode bs = [] \<longleftrightarrow> bs = []"
  by (cases bs) (simp_all add: hex_encode_def)

section \<open>Property\<close>

text \<open>C39: A webhook is taken from a service exactly when the service signed it.  For Stripe the header
  must carry the HMAC of the time stamp and the body under the configured secret, and a time stamp
  at most five minutes off the clock; a delivery signed that way is accepted with the event its body
  describes.  For BTCPay the header must be the HMAC of the body, and a positive time stamp in the
  body must be as fresh.  Without a secret nothing is accepted.\<close>

theorem webhooks_authenticated:
  assumes "hmac secret (show_int ts @ ''.'' @ body) \<noteq> []" and "in_int64 ts" and "ts \<noteq> 0"
  shows "(stripe_VerifyWebhook hmac secret header now body = Inr evt \<longleftrightarrow>
      secret \<noteq> [] \<and> stripe_ParseEvent body = Inr evt
      \<and> (\<exists>t. parseStripeSignatureHeader header = Some (t, hex_encode (hmac secret (show_int t @ ''.'' @ body)))
          \<and> \<bar>now - t * 1000000000\<bar> \<le> 300000000000))
    \<and> stripe_VerifyWebhook hmac secret
        (''t='' @ show_int ts @ '',v1='' @ hex_encode (hmac secret (show_int ts @ ''.'' @ body))) now body
      = (if secret \<noteq> [] \<and> \<bar>now - ts * 1000000000\<bar> \<le> 300000000000 then stripe_ParseEvent body else Inl ErrProvider)
    \<and> (btcpay_VerifyWebhook hmac secret header now body = Inr evt \<longleftrightarrow>
      secret \<noteq> [] \<and> parseBTCPaySignatureHeader header = Some (hex_encode (hmac secret body))
      \<and> (\<exists>t. btcpay_parseEvent body = Inr (evt, t) \<and> (t \<le> 0 \<or> \<bar>now - t * 1000000000\<bar> \<le> 300000000000)))"
proof -
  have fresh: "\<not> outside_tolerance now t \<longleftrightarrow> \<bar>now - t * 1000000000\<bar> \<le> 300000000000" for t
    by (auto simp: outside_tolerance_def webhook_tolerance_def seconds_def Let_def)
  have "parseStripeSignatureHeader
      (''t='' @ show_int ts @ '',v1='' @ hex_encode (hmac secret (show_int ts @ ''.'' @ body)))
      = Some (ts, hex_encode (hmac secret (show_int ts @ ''.'' @ body)))"
    using assms hex_encode_no by (intro parse_signature_header) (auto simp: hex_encode_ne)
  note header = this
  have accepted: "stripe_VerifyWebhook hmac secret
      (''t='' @ show_int ts @ '',v1='' @ hex_encode (hmac secret (show_int ts @ ''.'' @ body))) now body
    = (if secret \<noteq> [] \<and> \<bar>now - ts * 1000000000\<bar> \<le> 300000000000 then stripe_ParseEvent body else Inl ErrProvider)"
    unfolding stripe_VerifyWebhook_def header fresh [symmetric] by simp
  show ?thesis
    unfolding accepted stripe_VerifyWebhook_iff btcpay_VerifyWebhook_iff fresh [symmetric]
    by (auto simp: not_le)
qed

definition sample_hmac :: hmac where
  "sample_hmac k m = map of_char (k @ m)"

abbreviation sample_header :: string where
  "sample_header \<equiv> ''t='' @ show_int 7 @ '',v1='' @ hex_encode (sample_hmac ''whsec'' (show_int 7 @ ''.'' @ ''{}''))"

theorem webhooks_authenticated_witness:
  "stripe_VerifyWebhook sample_hmac ''whsec'' sample_header 8000000000 ''{}'' = stripe_ParseEvent ''{}''
    \<and> stripe_VerifyWebhook sample_hmac ''whsec'' sample_header 308000000000 ''{}'' = Inl ErrProvider"
proof -
  have h: "sample_hmac ''whsec'' (show_int 7 @ ''.'' @ ''{}'') \<noteq> []" "in_int64 7" "7 \<noteq> (0 :: int)"
    by (simp_all add: sample_hmac_def in_int64_def)
  note w = webhooks_authenticated [where hmac = sample_hmac and secret = "''whsec''" and ts = 7 and body = "''{}''",
      OF h, THEN conjunct2, THEN conjunct1]
  have "stripe_VerifyWebhook sample_hmac ''whsec'' sample_header 8000000000 ''{}'' = stripe_ParseEvent ''{}''"
    by (subst w) simp
  moreover have "stripe_VerifyWebhook sample_hmac ''whsec'' sample_header 308000000000 ''{}'' = Inl ErrProvider"
    by (subst w) simp
  ultimately show ?thesis ..
qed

text \<open>The policy that an underpaid or late invoice waits for a manual review holds only where the
  status is polled: the webhook event of the same invoice reports the payment as succeeded.\<close>

lemma settled_invoice_two_answers:
  "normalizeInvoiceStatus ''Settled'' ''PaidPartial'' = PaymentProcessing
    \<and> btcpayEventStatus ''InvoiceSettled'' = Some PaymentSucceeded"
  by (simp add: normalizeInvoiceStatus_def btcpayEventStatus_def)

end
