(* ===== verification/AdapterEVM.thy ===== *)
theory AdapterEVM
  imports Http
begin

text \<open>
  The stablecoin adapter (\<^verbatim>\<open>src/providers/evm.go\<close>): JSON-RPC calls to a chain, the deposit
  reference of an order, and the scan of the chain's transfer logs for the exact amount.  Token
  amounts are unbounded (\<^verbatim>\<open>big.Int\<close>), block numbers are \<^verbatim>\<open>int64\<close> and wrap.
\<close>

record EVM =
  evChainName :: string
  evRPCURL :: string
  evChainID :: int
  evTreasuryAddress :: string
  evTokenContracts :: "string \<Rightarrow> string option"
  evRequiredConfirmations :: int

definition NewEVM :: "string \<Rightarrow> string \<Rightarrow> int \<Rightarrow> string \<Rightarrow> (string \<Rightarrow> string option) \<Rightarrow> int \<Rightarrow> EVM" where
  "NewEVM chainName rpcURL chainID treasuryAddress tokenContracts requiredConfirmations =
    \<lparr>evChainName = chainName, evRPCURL = rpcURL, evChainID = chainID,
     evTreasuryAddress = to_lower treasuryAddress, evTokenContracts = tokenContracts,
     evRequiredConfirmations = requiredConfirmations\<rparr>"

definition erc20TransferTopic :: string where
  "erc20TransferTopic = ''0xddf252ad1be2c89b69c2b068fc378daa952ba7f163c4a11628f55a4df523b3ef''"

section \<open>JSON-RPC\<close>

text \<open>The answer: the result, if there was one, and whether an error object was given.\<close>

definition decode_rpc :: "json \<Rightarrow> (json option \<times> bool) \<times> bool" where
  "decode_rpc j =
    (let errs = members j ''error'';
         bad = list_ex (\<lambda>e. not_object e \<or> snd (int_field e ''code'') \<or> snd (string_field e ''message'')) errs in
     ((raw_field j ''result'', errs \<noteq> [] \<and> last errs \<noteq> JNull), not_object j \<or> bad))"

definition evm_call :: "transport \<Rightarrow> EVM \<Rightarrow> string \<Rightarrow> json list \<Rightarrow> (json \<Rightarrow> 'a \<times> bool) \<Rightarrow> error + 'a" where
  "evm_call http e rpc_method params decode =
    (if evRPCURL e = [] then Inl ErrProvider
     else case http \<lparr>hrMethod = ''POST'', hrURL = evRPCURL e, hrAuthorization = [], hrIdempotency = None,
         hrBody = JsonBody (JObj [(''jsonrpc'', JStr ''2.0''), (''method'', JStr rpc_method),
           (''params'', if params = [] then JNull else JArr params), (''id'', JNum ''1'')])\<rparr> of
       HttpFailed \<Rightarrow> Inl ErrProvider
     | HttpReply status raw \<Rightarrow> (case unmarshal decode_rpc raw of
         Inl err \<Rightarrow> Inl err
       | Inr (result, failed) \<Rightarrow>
           if failed then Inl ErrProvider
           else (case result of None \<Rightarrow> Inl ErrProvider
             | Some j \<Rightarrow> (let (v, bad) = decode j in if bad then Inl ErrProvider else Inr v))))"

definition parseHexQuantity :: "string \<Rightarrow> int option" where
  "parseHexQuantity hex0 = (let hex = trim_prefix hex0 ''0x'' in
     if hex = [] then Some 0 else parse_hex_int hex)"

definition blockNumber :: "transport \<Rightarrow> EVM \<Rightarrow> error + int" where
  "blockNumber http e = (case evm_call http e ''eth_blockNumber'' []
      (\<lambda>j. case j of JStr s \<Rightarrow> (s, False) | JNull \<Rightarrow> ([], False) | _ \<Rightarrow> ([], True)) of
      Inl err \<Rightarrow> Inl err
    | Inr hex \<Rightarrow> (case parseHexQuantity hex of None \<Rightarrow> Inl ErrProvider | Some n \<Rightarrow> Inr n))"

section \<open>Amounts and references\<close>

definition evmAmountToTokenUnits :: "int \<Rightarrow> int" where
  "evmAmountToTokenUnits amountMinor = amountMinor * 10000"

text \<open>\<^verbatim>\<open>big.Int.Div\<close> rounds towards minus infinity for a positive divisor; \<^verbatim>\<open>Int64\<close> wraps.\<close>

definition evmTokenUnitsToAmountMinor :: "int \<Rightarrow> int" where
  "evmTokenUnitsToAmountMinor tokenUnits = wrap64 (tokenUnits div 10000)"

definition assetForOrder :: "EVM \<Rightarrow> error + string \<times> string" where
  "assetForOrder e = (case evTokenContracts e ''usdc'' of
      None \<Rightarrow> Inl ErrProvider
    | Some contract \<Rightarrow> if contract = [] then Inl ErrProvider else Inr (''usdc'', contract))"

definition evm_ref :: "int \<Rightarrow> string \<Rightarrow> int \<Rightarrow> int \<Rightarrow> string" where
  "evm_ref orderID asset startBlock units =
    show_int orderID @ '':'' @ asset @ '':'' @ show_int startBlock @ '':'' @ show_int units"

definition evm_CreatePayment :: "transport \<Rightarrow> EVM \<Rightarrow> time \<Rightarrow> create_payment_input \<Rightarrow> error + payment_session" where
  "evm_CreatePayment http e now inp = (case assetForOrder e of
      Inl err \<Rightarrow> Inl err
    | Inr (asset, contract) \<Rightarrow>
        if evTreasuryAddress e = [] then Inl ErrProvider
        else case blockNumber http e of
          Inl err \<Rightarrow> Inl err
        | Inr startBlock \<Rightarrow>
            (let ref = evm_ref (cpOrderID inp) asset startBlock (evmAmountToTokenUnits (cpAmountMinor inp)) in
             Inr \<lparr>psProviderRef = ref,
               psCheckoutURL = ''/orders/'' @ show_int (cpOrderID inp) @ ''/pay/evm-status?ref='' @ ref,
               psExpiresAt = Some (now + seconds 3600)\<rparr>))"

text \<open>Order, asset, start block and expected token units.\<close>

definition parseEVMProviderRef :: "string \<Rightarrow> (int \<times> string \<times> int \<times> int) option" where
  "parseEVMProviderRef ref = (case splitN (CHR '':'') 4 ref of
      [p0, p1, p2, p3] \<Rightarrow> (case parse_int 64 p0 of None \<Rightarrow> None
        | Some orderID \<Rightarrow> (case parse_int 64 p2 of None \<Rightarrow> None
          | Some startBlock \<Rightarrow> (case big_parse parse_digits p3 of None \<Rightarrow> None
            | Some expected \<Rightarrow> Some (orderID, p1, startBlock, expected))))
    | _ \<Rightarrow> None)"

section \<open>Scanning for the transfer\<close>

definition confirmationStatus :: "int \<Rightarrow> int \<Rightarrow> int \<Rightarrow> payment_status" where
  "confirmationStatus head blockNum required =
    (if wrap64 (wrap64 (head - blockNum) + 1) \<ge> required then PaymentSucceeded else PaymentProcessing)"

record evm_log =
  lgData :: string
  lgBlockNumber :: string
  lgTxHash :: string

definition decode_log :: "json \<Rightarrow> evm_log \<times> bool" where
  "decode_log j =
    (let (d, e1) = string_field j ''data''; (b, e2) = string_field j ''blockNumber'';
         (t, e3) = string_field j ''transactionHash'' in
     (\<lparr>lgData = d, lgBlockNumber = b, lgTxHash = t\<rparr>, not_object j \<or> e1 \<or> e2 \<or> e3))"

definition decode_logs :: "json \<Rightarrow> evm_log list \<times> bool" where
  "decode_logs j = (case j of
      JArr js \<Rightarrow> (map (fst \<circ> decode_log) js, list_ex (snd \<circ> decode_log) js)
    | JNull \<Rightarrow> ([], False)
    | _ \<Rightarrow> ([], True))"

definition show_hex_int :: "int \<Rightarrow> string" where
  "show_hex_int i = (if i < 0 then CHR ''-'' # show_hex (nat (- i)) else show_hex (nat i))"

text \<open>The first log with exactly the expected amount and a readable block decides.\<close>

fun scan_logs :: "string \<Rightarrow> int \<Rightarrow> int \<Rightarrow> int \<Rightarrow> int \<Rightarrow> evm_log list \<Rightarrow> normalized_payment" where
  "scan_logs ref expected amountMinor head required [] =
    \<lparr>npProviderRef = ref, npChargeRef = [], npStatus = PaymentPending, npAmountMinor = amountMinor,
     npCurrency = [], npFailureCode = [], npFailureReason = []\<rparr>"
| "scan_logs ref expected amountMinor head required (l # ls) =
    (case big_parse parse_hexes (trim_prefix (lgData l) ''0x'') of
       None \<Rightarrow> scan_logs ref expected amountMinor head required ls
     | Some amount \<Rightarrow> if amount \<noteq> expected then scan_logs ref expected amountMinor head required ls
         else (case parseHexQuantity (lgBlockNumber l) of
             None \<Rightarrow> scan_logs ref expected amountMinor head required ls
           | Some blockNum \<Rightarrow> \<lparr>npProviderRef = ref, npChargeRef = lgTxHash l,
               npStatus = confirmationStatus head blockNum required, npAmountMinor = amountMinor,
               npCurrency = [], npFailureCode = [], npFailureReason = []\<rparr>))"

definition logs_filter :: "EVM \<Rightarrow> string \<Rightarrow> int \<Rightarrow> json list" where
  "logs_filter e contract startBlock =
    [JObj [(''fromBlock'', JStr (''0x'' @ show_hex_int startBlock)), (''toBlock'', JStr ''latest''),
      (''address'', JStr contract),
      (''topics'', JArr [JStr erc20TransferTopic, JNull,
        JStr (''0x'' @ zeros 24 @ trim_prefix (evTreasuryAddress e) ''0x'')])]]"

definition evm_Payment :: "transport \<Rightarrow> EVM \<Rightarrow> string \<Rightarrow> error + normalized_payment" where
  "evm_Payment http e providerRef = (case parseEVMProviderRef providerRef of
      None \<Rightarrow> Inl ErrProvider
    | Some (orderID, asset, startBlock, expected) \<Rightarrow> (case evTokenContracts e asset of
        None \<Rightarrow> Inl ErrProvider
      | Some contract \<Rightarrow>
          if contract = [] then Inl ErrProvider
          else case blockNumber http e of
            Inl err \<Rightarrow> Inl err
          | Inr head \<Rightarrow> (case evm_call http e ''eth_getLogs'' (logs_filter e contract startBlock) decode_logs of
              Inl err \<Rightarrow> Inl err
            | Inr logs \<Rightarrow> Inr (scan_logs providerRef expected (evmTokenUnitsToAmountMinor expected)
                head (evRequiredConfirmations e) logs))))"

definition evm_Refund :: "refund_input \<Rightarrow> error + refund_result" where
  "evm_Refund inp = Inr \<lparr>rrsProviderRef = riProviderRef inp, rrsStatus = PaymentProcessing\<rparr>"

definition evm_VerifyWebhook :: "string \<Rightarrow> error + verified_event" where
  "evm_VerifyWebhook body = Inl ErrProvider"

definition evm_ParseEvent :: "string \<Rightarrow> error + verified_event" where
  "evm_ParseEvent payload = Inl ErrProvider"

definition evm_provider :: "transport \<Rightarrow> EVM \<Rightarrow> time \<Rightarrow> provider" where
  "evm_provider http e now =
    \<lparr>pvAdapter = EVMAdapter (evChainName e) (evTreasuryAddress e) (evRequiredConfirmations e),
     pvName = evChainName e, pvCreatePayment = evm_CreatePayment http e now, pvPayment = evm_Payment http e,
     pvRefund = evm_Refund, pvVerifyWebhook = evm_VerifyWebhook, pvParseEvent = evm_ParseEvent\<rparr>"

section \<open>Facts\<close>

lemma big_parse_show: "big_parse parse_digits (show_int i) = Some i"
proof (cases "i < 0")
  case True
  then show ?thesis by (simp add: big_parse_def show_int_def parse_digits_show)
next
  case False
  from show_nat_head [of "nat i"] obtain c cs where
    "show_nat (nat i) = c # cs" "c \<noteq> CHR ''-''" "c \<noteq> CHR ''+''" by auto
  with False parse_digits_show [of "nat i"] show ?thesis by (simp add: big_parse_def show_int_def)
qed

lemma parse_evm_ref:
  assumes "in_int64 orderID" "in_int64 startBlock" "CHR '':'' \<notin> set asset"
  shows "parseEVMProviderRef (evm_ref orderID asset startBlock units) = Some (orderID, asset, startBlock, units)"
proof -
  have no: "CHR '':'' \<notin> set (show_int i)" for i
    by (auto simp: show_int_def show_nat_no)
  have split: "splitN (CHR '':'') 4 (evm_ref orderID asset startBlock units)
      = [show_int orderID, asset, show_int startBlock, show_int units]"
    unfolding evm_ref_def
    using splitN_append [OF no, where n = 2] splitN_append [OF assms(3), where n = 1] splitN_append [OF no, where n = 0]
    by (simp add: numeral_eq_Suc)
  have "parse_int 64 (show_int orderID) = Some orderID" "parse_int 64 (show_int startBlock) = Some startBlock"
    using assms by (auto intro!: parse_show_int simp: in_int64_def)
  then show ?thesis unfolding parseEVMProviderRef_def split by (simp add: big_parse_show)
qed

lemma units_roundtrip: "in_int64 m \<Longrightarrow> evmTokenUnitsToAmountMinor (evmAmountToTokenUnits m) = m"
  by (simp add: evmTokenUnitsToAmountMinor_def evmAmountToTokenUnits_def)

text \<open>What a log has to be to decide the payment.\<close>

definition pays :: "int \<Rightarrow> evm_log \<Rightarrow> bool" where
  "pays expected l \<longleftrightarrow> big_parse parse_hexes (trim_prefix (lgData l) ''0x'') = Some expected
    \<and> parseHexQuantity (lgBlockNumber l) \<noteq> None"

lemma scan_logs_find:
  "scan_logs ref expected am head req ls = (case find (pays expected) ls of
      None \<Rightarrow> \<lparr>npProviderRef = ref, npChargeRef = [], npStatus = PaymentPending, npAmountMinor = am,
        npCurrency = [], npFailureCode = [], npFailureReason = []\<rparr>
    | Some l \<Rightarrow> \<lparr>npProviderRef = ref, npChargeRef = lgTxHash l,
        npStatus = confirmationStatus head (the (parseHexQuantity (lgBlockNumber l))) req, npAmountMinor = am,
        npCurrency = [], npFailureCode = [], npFailureReason = []\<rparr>)"
  by (induction ls) (auto simp: pays_def split: option.splits)

lemma blockNumber_int64: "blockNumber http e = Inr n \<Longrightarrow> in_int64 n"
  by (auto simp: blockNumber_def parseHexQuantity_def parse_hex_int_def Let_def in_int64_def
      split: sum.splits option.splits if_splits)

section \<open>Properties\<close>

text \<open>C40: The deposit reference of an order carries its payment: when a payment of an order was
  created, polling it later with the reference asks the chain for transfers to the treasury from
  the block of that moment on and reports the order's amount; it succeeds exactly when the first
  transfer of exactly that amount, at one ten-thousandth of a cent per token unit, has the required
  confirmations.\<close>

theorem evm_deposit:
  assumes "evm_CreatePayment http e now inp = Inr ps"
    and "in_int64 (cpOrderID inp)" and "in_int64 (cpAmountMinor inp)"
  shows "\<exists>startBlock contract. blockNumber http e = Inr startBlock \<and> evTokenContracts e ''usdc'' = Some contract
    \<and> (\<forall>later head logs. blockNumber later e = Inr head
        \<and> evm_call later e ''eth_getLogs'' (logs_filter e contract startBlock) decode_logs = Inr logs \<longrightarrow>
      (\<exists>p. evm_Payment later e (psProviderRef ps) = Inr p \<and> npAmountMinor p = cpAmountMinor inp
        \<and> (npStatus p = PaymentSucceeded \<longleftrightarrow> (\<exists>l b. find (pays (cpAmountMinor inp * 10000)) logs = Some l
            \<and> parseHexQuantity (lgBlockNumber l) = Some b
            \<and> evRequiredConfirmations e \<le> wrap64 (wrap64 (head - b) + 1)))))"
proof -
  from assms(1) obtain contract startBlock where c: "evTokenContracts e ''usdc'' = Some contract" "contract \<noteq> []"
      "blockNumber http e = Inr startBlock"
      "psProviderRef ps = evm_ref (cpOrderID inp) ''usdc'' startBlock (evmAmountToTokenUnits (cpAmountMinor inp))"
    by (auto simp: evm_CreatePayment_def assetForOrder_def Let_def split: option.splits sum.splits if_splits)
  have ref: "parseEVMProviderRef (psProviderRef ps)
      = Some (cpOrderID inp, ''usdc'', startBlock, evmAmountToTokenUnits (cpAmountMinor inp))"
    unfolding c(4) using assms(2) blockNumber_int64 [OF c(3)] by (intro parse_evm_ref) simp_all
  have "evm_Payment later e (psProviderRef ps) = Inr (scan_logs (psProviderRef ps)
      (evmAmountToTokenUnits (cpAmountMinor inp)) (cpAmountMinor inp) head (evRequiredConfirmations e) logs)"
    if "blockNumber later e = Inr head"
      "evm_call later e ''eth_getLogs'' (logs_filter e contract startBlock) decode_logs = Inr logs" for later head logs
    using that c(1,2) by (simp add: evm_Payment_def ref units_roundtrip assms(3))
  moreover have "npAmountMinor (scan_logs ref units am head req logs) = am
      \<and> (npStatus (scan_logs ref units am head req logs) = PaymentSucceeded \<longleftrightarrow>
        (\<exists>l b. find (pays units) logs = Some l \<and> parseHexQuantity (lgBlockNumber l) = Some b
          \<and> req \<le> wrap64 (wrap64 (head - b) + 1)))" for ref units am head req logs
  proof -
    show ?thesis
    proof (cases "find (pays units) logs")
      case (Some l)
      with find_SomeD [OF this] obtain b where "parseHexQuantity (lgBlockNumber l) = Some b"
        by (auto simp: pays_def)
      with Some show ?thesis by (simp add: scan_logs_find confirmationStatus_def)
    qed (simp add: scan_logs_find)
  qed
  ultimately show ?thesis
    using c by (intro exI [of _ startBlock] exI [of _ contract]) (simp add: evmAmountToTokenUnits_def)
qed

text \<open>A chain whose head is block 29 and which holds one transfer, of 27.50, in block 20.\<close>

definition quoted :: "string \<Rightarrow> string" where "quoted s = CHR 0x22 # s @ [CHR 0x22]"

definition head_text :: string where
  "head_text = ''{'' @ quoted ''result'' @ '':'' @ quoted ''0x1D'' @ ''}''"

definition logs_text :: string where
  "logs_text = ''{'' @ quoted ''result'' @ '':[{'' @ quoted ''data'' @ '':'' @ quoted ''0x1a39de0'' @ '',''
      @ quoted ''blockNumber'' @ '':'' @ quoted ''0x14'' @ ''}]}''"

definition sample_chain :: transport where
  "sample_chain r = HttpReply 200
    (if hrBody r = JsonBody (JObj [(''jsonrpc'', JStr ''2.0''), (''method'', JStr ''eth_blockNumber''),
           (''params'', JNull), (''id'', JNum ''1'')]) then head_text else logs_text)"

definition sample_evm :: EVM where
  "sample_evm = NewEVM ''evm-base'' ''http://rpc'' 8453 ''0xabc'' [''usdc'' \<mapsto> ''0xdef''] 10"

abbreviation sample_payment_input :: create_payment_input where
  "sample_payment_input \<equiv> \<lparr>cpOrderID = 7, cpAmountMinor = 2750, cpCurrency = ''usd'', cpDescription = [],
    cpIdempotencyKey = [], cpSuccessURL = [], cpCancelURL = [], cpBuyerEmail = []\<rparr>"

lemma sample_parse:
  "json_parse head_text = Some (JObj [(''result'', JStr ''0x1D'')])"
  "json_parse logs_text
    = Some (JObj [(''result'', JArr [JObj [(''data'', JStr ''0x1a39de0''), (''blockNumber'', JStr ''0x14'')]])])"
  by (simp_all add: head_text_def logs_text_def json_parse_def quoted_def skip_def json_space_def numeral_eq_Suc)

lemma sample_fields: "evRPCURL sample_evm = ''http://rpc''" "evTreasuryAddress sample_evm \<noteq> []"
  "evTokenContracts sample_evm ''usdc'' = Some ''0xdef''" "evRequiredConfirmations sample_evm = 10"
  by (simp_all add: sample_evm_def NewEVM_def to_lower_def)

lemmas sample_chain_simps = evm_call_def sample_chain_def sample_fields unmarshal_def sample_parse decode_rpc_def
  members_def equal_fold_def to_lower_def lower_char_def raw_field_def not_object_def

lemma sample_head: "blockNumber sample_chain sample_evm = Inr 29"
  by (simp add: sample_chain_simps blockNumber_def parseHexQuantity_def trim_prefix_def parse_hex_int_def
      big_parse_def hex_of_def in_int64_def)

lemma sample_logs: "params \<noteq> [] \<Longrightarrow> evm_call sample_chain sample_evm ''eth_getLogs'' params decode_logs
    = Inr [\<lparr>lgData = ''0x1a39de0'', lgBlockNumber = ''0x14'', lgTxHash = []\<rparr>]"
  by (simp add: sample_chain_simps decode_logs_def decode_log_def string_field_def as_string_def)

theorem evm_deposit_witness:
  "\<exists>ps p. evm_CreatePayment sample_chain sample_evm 0 sample_payment_input = Inr ps
    \<and> evm_Payment sample_chain sample_evm (psProviderRef ps) = Inr p \<and> npStatus p = PaymentSucceeded"
proof -
  obtain ps where ps: "evm_CreatePayment sample_chain sample_evm 0 sample_payment_input = Inr ps"
    by (simp add: evm_CreatePayment_def assetForOrder_def sample_head sample_fields Let_def)
  let ?l = "\<lparr>lgData = ''0x1a39de0'', lgBlockNumber = ''0x14'', lgTxHash = []\<rparr>"
  have paid: "pays 27500000 ?l" "parseHexQuantity ''0x14'' = Some 20"
    by (simp_all add: pays_def parseHexQuantity_def trim_prefix_def parse_hex_int_def big_parse_def hex_of_def in_int64_def)
  have logs: "evm_call sample_chain sample_evm ''eth_getLogs'' (logs_filter sample_evm c b) decode_logs = Inr [?l]" for c b
    by (rule sample_logs) (simp add: logs_filter_def)
  from evm_deposit [OF ps] sample_head logs obtain p where
    "evm_Payment sample_chain sample_evm (psProviderRef ps) = Inr p"
    "npStatus p = PaymentSucceeded \<longleftrightarrow> (\<exists>l b. find (pays (2750 * 10000)) [?l] = Some l
      \<and> parseHexQuantity (lgBlockNumber l) = Some b \<and> evRequiredConfirmations sample_evm \<le> wrap64 (wrap64 (29 - b) + 1))"
    by (fastforce simp: in_int64_def)
  with ps paid show ?thesis by (simp add: sample_fields in_int64_def)
qed

text \<open>One transfer can settle two orders: whatever the chain serves, two orders of the same amount are
  both reported as paid by the same transfer, without any review.\<close>

lemma one_transfer_two_orders:
  assumes "find (pays units) logs = Some l"
    and "npStatus (scan_logs ref1 units am head req logs) = PaymentSucceeded"
  shows "npStatus (scan_logs ref2 units am head req logs) = PaymentSucceeded
    \<and> npChargeRef (scan_logs ref2 units am head req logs) = npChargeRef (scan_logs ref1 units am head req logs)"
  using assms by (simp add: scan_logs_find)

end
