(* ===== verification/Startup.thy ===== *)
theory Startup
  imports Configuration AdapterStripe AdapterBTCPay AdapterEVM HandlersAuth HandlersPayments
begin

text \<open>
  What the program assembles from its configuration when it starts: the registry of payment
  providers (\<^verbatim>\<open>buildProviderRegistry\<close> of \<^verbatim>\<open>src/server.go\<close>), the wallet key (\<^verbatim>\<open>NewWalletCrypto\<close> of
  \<^verbatim>\<open>src/services/walletcrypto.go\<close>), the mailer and its messages (\<^verbatim>\<open>src/services/mailer.go\<close>), the
  session cookies (\<^verbatim>\<open>src/services/sessions.go\<close>) and the settings the modelled handlers read.  The
  SMTP client and the three provider interfaces around an adapter are parameters.
\<close>

section \<open>The settings of the handlers\<close>

definition handler_config :: "Config \<Rightarrow> config" where
  "handler_config c = \<lparr>cfgPaymentsEnabled = PaymentsEnabled c, cfgPlatformFeeBps = PlatformFeeBps c,
    cfgBaseURL = BaseURL c, cfgSessionTTL = SessionTTL c, cfgAuthTokenTTL = AuthTokenTTL c,
    cfgWalletChangeCooldown = WalletChangeCooldown c, cfgAutoAcceptAfter = AutoAcceptAfter c,
    cfgMaintenanceInterval = MaintenanceInterval c, cfgPaymentReconcileInterval = PaymentReconcileInterval c,
    cfgJobMaxAttempts = JobMaxAttempts c, cfgPrivateStorageRoot = PrivateStorageDir c,
    cfgAuthRateLimit = AuthRateLimit c, cfgAuthRateWindow = AuthRateWindow c,
    cfgMaxLoginAttempts = MaxLoginAttempts c, cfgLoginLockout = LoginLockout c, cfgTOTPSkew = TOTPSkew c\<rparr>"

section \<open>Payment providers\<close>

definition token_contracts :: "string \<Rightarrow> string \<Rightarrow> string \<Rightarrow> string option" where
  "token_contracts usdc usdt = map_of [(''usdc'', usdc), (''usdt'', usdt)]"

definition evm_base :: "Config \<Rightarrow> EVM" where
  "evm_base cfg = NewEVM ''evm-base'' (EVMBaseRPCURL cfg) (EVMBaseChainID cfg) (EVMBaseTreasuryAddress cfg)
    (token_contracts (EVMBaseUSDCContract cfg) (EVMBaseUSDTContract cfg)) (EVMRequiredConfirmations cfg)"

definition evm_polygon :: "Config \<Rightarrow> EVM" where
  "evm_polygon cfg = NewEVM ''evm-polygon'' (EVMPolygonRPCURL cfg) (EVMPolygonChainID cfg) (EVMPolygonTreasuryAddress cfg)
    (token_contracts (EVMPolygonUSDCContract cfg) (EVMPolygonUSDTContract cfg)) (EVMRequiredConfirmations cfg)"

text \<open>What turns an adapter into a provider: the transport, the clock, the MAC and the header of a webhook.\<close>

record outside =
  outHTTP :: transport
  outHMAC :: hmac
  outHeader :: string
  outNow :: time

definition registry_entries :: "outside \<Rightarrow> Config \<Rightarrow> provider option list" where
  "registry_entries out cfg =
       (if StripeSecretKey cfg \<noteq> [] then [Some (stripe_provider (outHTTP out) (NewStripe (StripeSecretKey cfg))
          (outHMAC out) (StripeWebhookSecret cfg) (outHeader out) (outNow out))] else [])
       @ (if BTCPayURL cfg \<noteq> [] \<and> BTCPayAPIKey cfg \<noteq> [] \<and> BTCPayStoreID cfg \<noteq> []
          then [Some (btcpay_provider (outHTTP out) (NewBTCPay (BTCPayURL cfg) (BTCPayAPIKey cfg) (BTCPayStoreID cfg))
          (outHMAC out) (BTCPayWebhookSecret cfg) (outHeader out) (outNow out))] else [])
       @ (if EVMBaseRPCURL cfg \<noteq> [] \<and> EVMBaseTreasuryAddress cfg \<noteq> []
          then [Some (evm_provider (outHTTP out) (evm_base cfg) (outNow out))] else [])
       @ (if EVMPolygonRPCURL cfg \<noteq> [] \<and> EVMPolygonTreasuryAddress cfg \<noteq> []
          then [Some (evm_provider (outHTTP out) (evm_polygon cfg) (outNow out))] else [])"

definition buildProviderRegistry :: "outside \<Rightarrow> Config \<Rightarrow> registry" where
  "buildProviderRegistry out cfg =
    (if \<not> PaymentsEnabled cfg then [] else NewRegistry (registry_entries out cfg))"

definition NewWalletCrypto :: "Config \<Rightarrow> nat list option" where
  "NewWalletCrypto cfg = (case DecodeWalletKey (WalletEncryptionKey cfg) of
      None \<Rightarrow> None
    | Some key \<Rightarrow> if length key \<noteq> 32 then None else Some key)"

text \<open>The wallet encryption of \<^verbatim>\<open>newServer\<close>: none without a key.\<close>

definition server_wallet :: "Config \<Rightarrow> nat list option" where
  "server_wallet cfg = (if WalletEncryptionKey cfg \<noteq> [] then NewWalletCrypto cfg else None)"

lemma registry_has_new:
  "registry_has (NewRegistry ps) name \<longleftrightarrow> (\<exists>p. Some p \<in> set ps \<and> pvName p = name)"
proof -
  have "registry_has (NewRegistry_from m ps) name \<longleftrightarrow> registry_has m name \<or> (\<exists>p. Some p \<in> set ps \<and> pvName p = name)" for m
    by (induction m ps rule: NewRegistry_from.induct) (auto simp: registry_has_def update_conv)
  from this [of "[]"] show ?thesis by (simp add: NewRegistry_def registry_has_def)
qed

lemma provider_names:
  "pvName (stripe_provider http sp hm secret header now) = ''stripe''"
  "pvName (btcpay_provider http b hm secret header now) = ''btcpay''"
  "pvName (evm_provider http (evm_base cfg) now) = ''evm-base''"
  "pvName (evm_provider http (evm_polygon cfg) now) = ''evm-polygon''"
  by (simp_all add: stripe_provider_def btcpay_provider_def evm_provider_def evm_base_def evm_polygon_def NewEVM_def)

lemma registry_names:
  "registry_has (buildProviderRegistry out cfg) name \<longleftrightarrow> PaymentsEnabled cfg \<and>
    (name = ''stripe'' \<and> StripeSecretKey cfg \<noteq> []
     \<or> name = ''btcpay'' \<and> BTCPayURL cfg \<noteq> [] \<and> BTCPayAPIKey cfg \<noteq> [] \<and> BTCPayStoreID cfg \<noteq> []
     \<or> name = ''evm-base'' \<and> EVMBaseRPCURL cfg \<noteq> [] \<and> EVMBaseTreasuryAddress cfg \<noteq> []
     \<or> name = ''evm-polygon'' \<and> EVMPolygonRPCURL cfg \<noteq> [] \<and> EVMPolygonTreasuryAddress cfg \<noteq> [])"
proof (cases "PaymentsEnabled cfg")
  case True
  then show ?thesis
    unfolding buildProviderRegistry_def registry_entries_def by (simp add: registry_has_new ex_disj_distrib conj_disj_distribR provider_names
      del: char.inject list.inject) (auto simp: provider_names simp del: list.inject)
next
  case False
  then show ?thesis by (simp add: buildProviderRegistry_def registry_has_def)
qed

text \<open>C27: which rails a production deployment with payments enabled registers, and which settings are then
  there.  Stripe is always registered, with a webhook secret: a configuration without it does not load
  (a comment in \<^verbatim>\<open>src/server.go\<close> says a deployment may enable either card rail or neither).  BTCPay is
  registered exactly when its URL is set, and then has a webhook secret; an EVM chain is registered
  exactly when its RPC URL is set, and then a token contract is set for it and the server has a wallet
  key of 32 bytes.  This is about the configuration only, not about rails that take payments: on an EVM
  chain no checkout ever starts, as shown below.\<close>

theorem production_rails_registered:
  assumes "Load frac getenv = Inr c" "PaymentsEnabled c" "IsProduction c"
  shows "registry_has (buildProviderRegistry out c) ''stripe'' \<and> StripeWebhookSecret c \<noteq> []
    \<and> (registry_has (buildProviderRegistry out c) ''btcpay'' \<longleftrightarrow> BTCPayURL c \<noteq> [])
    \<and> (BTCPayURL c \<noteq> [] \<longrightarrow> BTCPayWebhookSecret c \<noteq> [])
    \<and> (registry_has (buildProviderRegistry out c) ''evm-base'' \<longleftrightarrow> EVMBaseRPCURL c \<noteq> [])
    \<and> (registry_has (buildProviderRegistry out c) ''evm-polygon'' \<longleftrightarrow> EVMPolygonRPCURL c \<noteq> [])
    \<and> (EVMBaseRPCURL c \<noteq> [] \<longrightarrow> EVMBaseUSDCContract c \<noteq> [] \<or> EVMBaseUSDTContract c \<noteq> [])
    \<and> (EVMPolygonRPCURL c \<noteq> [] \<longrightarrow> EVMPolygonUSDCContract c \<noteq> [] \<or> EVMPolygonUSDTContract c \<noteq> [])
    \<and> (EVMBaseRPCURL c \<noteq> [] \<or> EVMPolygonRPCURL c \<noteq> [] \<longrightarrow> server_wallet c \<noteq> None)"
proof -
  from Load_establishes [OF assms(1)] have "\<forall>(failed, e) \<in> set (validation_checks c). \<not> failed"
    by (simp add: validate_Inr)
  then show ?thesis using assms(2,3)
    by (auto simp: validation_checks_def Let_def IsProduction_def registry_names server_wallet_def NewWalletCrypto_def
      split: option.splits)
qed

text \<open>An environment for production with Stripe and the Base chain, for which only USDT is configured.\<close>

definition usdt_environment :: environ where
  "usdt_environment key = (case map_of [(''ENVIRONMENT'', ''prod''), (''DATABASE_URL'', ''postgres://gig''),
     (''SESSION_SECRET'', ''0123456789abcdef0123456789abcdef''), (''PAYMENTS_ENABLED'', ''true''),
     (''STRIPE_SECRET_KEY'', ''sk''), (''STRIPE_WEBHOOK_SECRET'', ''wh''), (''EVM_BASE_RPC_URL'', ''https://rpc''),
     (''EVM_BASE_TREASURY_ADDRESS'', ''0xAB''), (''EVM_BASE_USDT_CONTRACT'', ''0xCD''), (''MAINTENANCE_INTERVAL'', ''1m30s''),
     (''WALLET_ENCRYPTION_KEY'', ''AAAAAAAAAAAAAAAAAAAAAAAAAAAAAAAAAAAAAAAAAAA='')] key of None \<Rightarrow> [] | Some v \<Rightarrow> v)"

definition usdt_config :: Config where
  "usdt_config = (case Load (\<lambda>digits unit. 0) usdt_environment of Inr c \<Rightarrow> c | Inl e \<Rightarrow> zeroConfig)"

lemma usdt_config_loads:
  "case Load (\<lambda>digits unit. 0) usdt_environment of Inl e \<Rightarrow> False
    | Inr c \<Rightarrow> PaymentsEnabled c \<and> IsProduction c \<and> EVMBaseRPCURL c = ''https://rpc''
        \<and> EVMBaseUSDCContract c = [] \<and> BTCPayURL c = [] \<and> EVMBaseTreasuryAddress c = ''0xab''"
  by code_simp

lemma usdt_config_loaded: "Load (\<lambda>digits unit. 0) usdt_environment = Inr usdt_config"
  using usdt_config_loads by (simp add: usdt_config_def split: sum.splits)

lemma usdt_config_settings: "PaymentsEnabled usdt_config \<and> IsProduction usdt_config
    \<and> EVMBaseRPCURL usdt_config = ''https://rpc'' \<and> EVMBaseUSDCContract usdt_config = [] \<and> BTCPayURL usdt_config = []
    \<and> EVMBaseTreasuryAddress usdt_config = ''0xab''"
  using usdt_config_loads usdt_config_loaded by (simp split: sum.splits)

theorem production_rails_registered_witness:
  "\<forall>out. registry_has (buildProviderRegistry out usdt_config) ''stripe'' \<and> registry_has (buildProviderRegistry out usdt_config) ''evm-base''
    \<and> \<not> registry_has (buildProviderRegistry out usdt_config) ''btcpay''"
  using production_rails_registered [OF usdt_config_loaded] usdt_config_settings by simp

text \<open>A chain with a USDT contract only is offered, but it never takes a payment: the asset is always USDC.\<close>

lemma usdt_only_chain_takes_no_payment:
  "registry_has (buildProviderRegistry out usdt_config) ''evm-base''
    \<and> evm_CreatePayment http (evm_base usdt_config) now inp = Inl ErrProvider"
  using usdt_config_settings
  by (simp add: registry_names evm_CreatePayment_def assetForOrder_def evm_base_def NewEVM_def token_contracts_def)

section \<open>Checkout on the registered rails\<close>

text \<open>The check constraint on the provider of a payment intent knows \<^verbatim>\<open>stripe\<close>, \<^verbatim>\<open>btcpay\<close> and \<^verbatim>\<open>evm\<close>.\<close>

lemma refused_intent:
  assumes "provider \<notin> set intent_providers"
  obtains e w' where "CreatePaymentIntent orderID provider method amount currency key w = (Inl e, w')" "e \<noteq> ErrDuplicateIdempotencyKey"
    "payment_intents (wdb w') = payment_intents (wdb w)" "wsent w' = wsent w"
proof -
  have "\<exists>e w'. CreatePaymentIntent orderID provider method amount currency key w = (Inl e, w') \<and> e \<noteq> ErrDuplicateIdempotencyKey
    \<and> payment_intents (wdb w') = payment_intents (wdb w) \<and> wsent w' = wsent w"
    using assms by (cases "wfaults w"; cases "hd (wfaults w)")
     (auto simp: CreatePaymentIntent_def insert_payment_intent_def call_def fail_def insert_row_def stmt_def Let_def)
  with that show thesis by blast
qed

lemma refused_payment:
  assumes "cfgPaymentsEnabled cfg" "registry_get reg (paymentMethodProvider method) = Some p" "pvName p \<notin> set intent_providers" "method \<noteq> []"
  shows "fst (startPayment cfg reg u r ord method w) = InternalError
    \<and> payment_intents (wdb (snd (startPayment cfg reg u r ord method w))) = payment_intents (wdb w)
    \<and> wsent (snd (startPayment cfg reg u r ord method w)) = wsent w"
proof -
  have reg: "\<not> registry_empty reg" using assms(2) by (auto simp: registry_empty_def registry_get_def)
  obtain e w' where "CreatePaymentIntent (oID ord) (pvName p) method (oTotalMinorUnits ord) (to_lower (oCurrency ord))
      (IdempotencyKey ''checkout'' (oID ord) 0) w = (Inl e, w')" "e \<noteq> ErrDuplicateIdempotencyKey"
    "payment_intents (wdb w') = payment_intents (wdb w)" "wsent w' = wsent w"
    by (rule refused_intent [OF assms(3)])
  then have "startPayment cfg reg u r ord method w = (InternalError, w')"
    using assms(1,2,4) reg by (simp add: startPayment_def Let_def call_def fail_def renderError_def reply_def)
  then show ?thesis using \<open>payment_intents (wdb w') = payment_intents (wdb w)\<close> \<open>wsent w' = wsent w\<close> by simp
qed

text \<open>C28: No stablecoin checkout ever starts.  Whatever the configuration, if the rail of one of the
  four stablecoin methods is registered, choosing that method is answered with an internal error,
  for every order, buyer and state of the database: the registered name of the chain violates the
  check constraint on payment intents.  No intent is stored and no provider is asked for a payment.\<close>

theorem stablecoin_checkout_refused:
  assumes "method \<in> {''usdc-base'', ''usdt-base'', ''usdc-polygon'', ''usdt-polygon''}"
    "registry_has (buildProviderRegistry out c) (paymentMethodProvider method)"
  shows "fst (startPayment (handler_config c) (buildProviderRegistry out c) u r ord method w) = InternalError
    \<and> payment_intents (wdb (snd (startPayment (handler_config c) (buildProviderRegistry out c) u r ord method w))) = payment_intents (wdb w)
    \<and> wsent (snd (startPayment (handler_config c) (buildProviderRegistry out c) u r ord method w)) = wsent w"
proof -
  obtain p where p: "registry_get (buildProviderRegistry out c) (paymentMethodProvider method) = Some p"
    using assms(2) by (auto simp: registry_has_def registry_get_def)
  have enabled: "cfgPaymentsEnabled (handler_config c)" using assms(2) by (simp add: registry_names handler_config_def)
  then have "buildProviderRegistry out c = NewRegistry (registry_entries out c)"
    by (simp add: buildProviderRegistry_def handler_config_def)
  then have "pvName p = paymentMethodProvider method" using p registry_get_name by metis
  then have "pvName p \<notin> set intent_providers" "method \<noteq> []"
    using assms(1) by (auto simp: paymentMethodProvider_def intent_providers_def)
  then show ?thesis by (intro refused_payment [OF enabled p])
qed

theorem stablecoin_checkout_refused_witness:
  "\<forall>out u r ord w. fst (startPayment (handler_config usdt_config) (buildProviderRegistry out usdt_config) u r ord ''usdc-base'' w) = InternalError"
proof -
  have "registry_has (buildProviderRegistry out usdt_config) (paymentMethodProvider ''usdc-base'')" for out
    using usdt_config_settings by (simp add: registry_names paymentMethodProvider_def)
  with stablecoin_checkout_refused [of "''usdc-base''"] show ?thesis by simp
qed

text \<open>A BTCPay refund is reported as processing, a status the table of refunds does not know.\<close>

lemma btcpay_refund_not_stored:
  assumes "btcpay_Refund http b inp = Inr res" "\<exists>row \<in> set (refunds (wdb w)). rfID row = refundID"
  shows "\<exists>e w'. SetRefundStatus refundID (rrsStatus res) ref w = (Inl e, w')"
proof -
  have "rrsStatus res = PaymentProcessing" using assms by (auto simp: btcpay_Refund_def Let_def split: sum.splits prod.splits if_splits)
  then show ?thesis using assms(2)
    by (cases "wfaults w"; cases "hd (wfaults w)")
      (auto simp: SetRefundStatus_def exec_def stmt_def refund_statuses_def Let_def)
qed

section \<open>Wallet addresses at rest\<close>

text \<open>AES-256-GCM is a parameter: what sealing a text under a key and a nonce gives, and what opening it
  gives back, or nothing when the tag does not fit.  The nonce is drawn, twelve bytes long.\<close>

record gcm =
  gcmSeal :: "nat list \<Rightarrow> nat list \<Rightarrow> nat list \<Rightarrow> nat list"
  gcmOpen :: "nat list \<Rightarrow> nat list \<Rightarrow> nat list \<Rightarrow> nat list option"

definition gcm_NonceSize :: nat where "gcm_NonceSize = 12"

definition text_bytes :: "string \<Rightarrow> nat list" where
  "text_bytes s = map of_char s"

definition bytes_text :: "nat list \<Rightarrow> string" where
  "bytes_text bs = map char_of bs"

definition wallet_Encrypt :: "gcm \<Rightarrow> nat list \<Rightarrow> nat list option \<Rightarrow> string \<Rightarrow> nat list option" where
  "wallet_Encrypt g key drawn plaintext =
    map_option (\<lambda>nonce. nonce @ gcmSeal g key nonce (text_bytes plaintext)) drawn"

definition wallet_Decrypt :: "gcm \<Rightarrow> nat list \<Rightarrow> nat list \<Rightarrow> string option" where
  "wallet_Decrypt g key data =
    (if length data < gcm_NonceSize then None
     else map_option bytes_text (gcmOpen g key (take gcm_NonceSize data) (drop gcm_NonceSize data)))"

definition WalletAddressFingerprint :: "(string \<Rightarrow> nat list) \<Rightarrow> string \<Rightarrow> string" where
  "WalletAddressFingerprint sha256 address = hex_encode (sha256 address)"

lemma wallet_roundtrip:
  assumes "\<And>nonce text. length nonce = gcm_NonceSize \<Longrightarrow> gcmOpen g key nonce (gcmSeal g key nonce text) = Some text"
    "length nonce = gcm_NonceSize" "wallet_Encrypt g key (Some nonce) address = Some data"
  shows "wallet_Decrypt g key data = Some address"
proof -
  have "map char_of (map of_char address :: nat list) = address" by (simp add: comp_def map_idI)
  with assms show ?thesis
    by (auto simp: wallet_Encrypt_def wallet_Decrypt_def text_bytes_def bytes_text_def)
qed

section \<open>Mail\<close>

record Email =
  emTo :: string
  emSubject :: string
  emBody :: string

record SMTPConfig =
  smtpHost :: string
  smtpPort :: string
  smtpUser :: string
  smtpPass :: string
  smtpFrom :: string

datatype Mailer = LogMailer | SMTPMailer SMTPConfig

definition MailerFromConfig :: "Config \<Rightarrow> Mailer" where
  "MailerFromConfig cfg =
    (if SMTPHost cfg = [] then LogMailer
     else SMTPMailer \<lparr>smtpHost = SMTPHost cfg, smtpPort = SMTPPort cfg, smtpUser = SMTPUser cfg,
       smtpPass = SMTPPass cfg, smtpFrom = EmailFrom cfg\<rparr>)"

definition crlf :: string where "crlf = [CHR 0x0D, CHR 0x0A]"

definition buildSMTPMessage :: "string \<Rightarrow> Email \<Rightarrow> string" where
  "buildSMTPMessage sender email =
    ''From: '' @ sender @ crlf @ ''To: '' @ emTo email @ crlf @ ''Subject: '' @ emSubject email @ crlf
    @ ''MIME-Version: 1.0'' @ crlf @ ''Content-Type: text/plain; charset=utf-8'' @ crlf @ crlf @ emBody email"

text \<open>\<^verbatim>\<open>smtp.SendMail(addr, auth, from, to, msg)\<close> is a parameter that says whether it worked.\<close>

type_synonym send_mail = "string \<Rightarrow> (string \<times> string \<times> string) option \<Rightarrow> string \<Rightarrow> string list \<Rightarrow> string \<Rightarrow> bool"

fun mailer_Send :: "send_mail \<Rightarrow> error \<Rightarrow> Mailer \<Rightarrow> mailer" where
  "mailer_Send smtp failure LogMailer receiver subject body = None"
| "mailer_Send smtp failure (SMTPMailer cfg) receiver subject body =
    (let addr = smtpHost cfg @ '':'' @ smtpPort cfg;
         auth = (if smtpUser cfg \<noteq> [] then Some (smtpUser cfg, smtpPass cfg, smtpHost cfg) else None);
         msg = buildSMTPMessage (smtpFrom cfg) \<lparr>emTo = receiver, emSubject = subject, emBody = body\<rparr> in
     if smtp addr auth (smtpFrom cfg) [receiver] msg then None else Some failure)"

text \<open>How a mail server reads a message: lines up to the first empty one are headers, cut at the first
  colon, the rest is the body.\<close>

fun read_line :: "string \<Rightarrow> string \<times> string" where
  "read_line (c # d # s) = (if c = CHR 0x0D \<and> d = CHR 0x0A then ([], s)
     else (let (l, t) = read_line (d # s) in (c # l, t)))"
| "read_line s = (s, [])"

fun read_headers :: "nat \<Rightarrow> string \<Rightarrow> (string \<times> string) list \<times> string" where
  "read_headers 0 s = ([], s)"
| "read_headers (Suc n) s = (let (l, t) = read_line s in
     if l = [] then ([], t)
     else (let (hs, body) = read_headers n t; (name, v, found) = str_cut (CHR '':'') l in ((name, trim_space v) # hs, body)))"

definition read_message :: "string \<Rightarrow> (string \<times> string) list \<times> string" where
  "read_message s = read_headers (length s) s"

definition one_line :: "string \<Rightarrow> bool" where
  "one_line s \<longleftrightarrow> CHR 0x0D \<notin> set s \<and> CHR 0x0A \<notin> set s"

lemma read_line_crlf: "one_line l \<Longrightarrow> read_line (l @ crlf @ t) = (l, t)"
proof (induction l)
  case (Cons c l)
  then show ?case by (cases l) (auto simp: one_line_def crlf_def)
qed (simp add: crlf_def)

lemma str_cut_at: "sep \<notin> set a \<Longrightarrow> str_cut sep (a @ sep # b) = (a, b, True)"
  by (induction a) auto

lemma read_header:
  assumes "one_line (name @ v)" "CHR '':'' \<notin> set name"
  shows "read_headers (Suc n) (name @ '': '' @ v @ crlf @ t) = (let (hs, body) = read_headers n t in ((name, trim_space ('' '' @ v)) # hs, body))"
proof -
  have "one_line (name @ '': '' @ v)" using assms(1) by (simp add: one_line_def)
  from read_line_crlf [OF this, of t] have "read_line (name @ '': '' @ v @ crlf @ t) = (name @ '': '' @ v, t)" by simp
  then show ?thesis using str_cut_at [OF assms(2), of "'' '' @ v"] by (simp split: prod.splits)
qed

lemma read_end: "read_headers (Suc n) (crlf @ body) = ([], body)"
  using read_line_crlf [of "[]" body] by (simp add: one_line_def)

lemma trim_space_left: "is_space c \<Longrightarrow> trim_space (c # v) = trim_space v"
  by (simp add: trim_space_def)

lemma emailPattern_no_space: "emailPattern s \<Longrightarrow> c \<in> set s \<Longrightarrow> \<not> regexp_space c"
  by (auto simp: emailPattern_def list_ex_iff split: prod.splits)

lemma emailPattern_one_line: "emailPattern s \<Longrightarrow> one_line s"
  using emailPattern_no_space [of s "CHR 0x0D"] emailPattern_no_space [of s "CHR 0x0A"]
  by (auto simp: one_line_def regexp_space_def)

text \<open>C33: A message built for an address that registration accepts, with a sender and a subject without
  line breaks (the subjects in the code are constants), is read back by a mail server as exactly its five headers and the body: no text of a
  body, address or subject can add a header, and bodies are carried over unchanged, whatever they hold.
\<close>

theorem mail_roundtrip:
  assumes "emailPattern (emTo email)" "one_line sender" "one_line (emSubject email)"
  shows "read_message (buildSMTPMessage sender email) =
    ([(''From'', trim_space sender), (''To'', trim_space (emTo email)), (''Subject'', trim_space (emSubject email)),
      (''MIME-Version'', ''1.0''), (''Content-Type'', ''text/plain; charset=utf-8'')], emBody email)"
proof -
  have lines: "one_line (''From'' @ sender)" "one_line (''To'' @ emTo email)" "one_line (''Subject'' @ emSubject email)"
    "one_line (''MIME-Version'' @ ''1.0'')" "one_line (''Content-Type'' @ ''text/plain; charset=utf-8'')"
    using assms emailPattern_one_line [OF assms(1)] by (simp_all add: one_line_def)
  define rest3 where "rest3 = ''MIME-Version'' @ '': '' @ ''1.0'' @ crlf @ ''Content-Type'' @ '': '' @ ''text/plain; charset=utf-8'' @ crlf @ crlf @ emBody email"
  obtain n where long: "length (buildSMTPMessage sender email) = Suc (Suc (Suc (Suc (Suc (Suc n)))))"
    using that [of "length (buildSMTPMessage sender email) - 6"] by (simp add: buildSMTPMessage_def crlf_def)
  have msg: "buildSMTPMessage sender email = ''From'' @ '': '' @ sender @ crlf @ ''To'' @ '': '' @ emTo email @ crlf
      @ ''Subject'' @ '': '' @ emSubject email @ crlf @ rest3"
    by (simp add: buildSMTPMessage_def rest3_def)
  have tail: "read_headers (Suc (Suc (Suc n))) rest3 =
      ([(''MIME-Version'', trim_space ('' '' @ ''1.0'')), (''Content-Type'', trim_space ('' '' @ ''text/plain; charset=utf-8''))], emBody email)"
    unfolding rest3_def by (subst read_header [OF lines(4)], simp, subst read_header [OF lines(5)], simp, simp only: read_end Let_def prod.case)
  have "read_message (buildSMTPMessage sender email) =
    ([(''From'', trim_space ('' '' @ sender)), (''To'', trim_space ('' '' @ emTo email)), (''Subject'', trim_space ('' '' @ emSubject email)),
      (''MIME-Version'', trim_space ('' '' @ ''1.0'')), (''Content-Type'', trim_space ('' '' @ ''text/plain; charset=utf-8''))], emBody email)"
    unfolding read_message_def long unfolding msg
    by (subst read_header [OF lines(1)], simp, subst read_header [OF lines(2)], simp, subst read_header [OF lines(3)], simp,
      simp only: tail Let_def prod.case)
  moreover have "is_space CHR '' ''" "trim_space ('' '' @ ''1.0'') = ''1.0''"
    "trim_space ('' '' @ ''text/plain; charset=utf-8'') = ''text/plain; charset=utf-8''" by code_simp+
  ultimately show ?thesis by (simp add: trim_space_left del: list.inject)
qed

theorem mail_roundtrip_witness:
  "read_message (buildSMTPMessage ''Gig <no-reply@example.com>'' \<lparr>emTo = ''a@b.io'', emSubject = ''Verify your email'', emBody = crlf @ ''Bcc: x@y.io''\<rparr>)
    = ([(''From'', trim_space ''Gig <no-reply@example.com>''), (''To'', trim_space ''a@b.io''), (''Subject'', trim_space ''Verify your email''),
      (''MIME-Version'', ''1.0''), (''Content-Type'', ''text/plain; charset=utf-8'')], crlf @ ''Bcc: x@y.io'')"
  using mail_roundtrip [of "\<lparr>emTo = ''a@b.io'', emSubject = ''Verify your email'', emBody = crlf @ ''Bcc: x@y.io''\<rparr>" "''Gig <no-reply@example.com>''"]
  by (simp add: emailPattern_def regexp_space_def one_line_def)

section \<open>Session tokens and cookies\<close>

record cookie =
  ckName :: string
  ckValue :: string
  ckPath :: string
  ckMaxAge :: int
  ckHttpOnly :: bool
  ckSecure :: bool
  ckSameSiteLax :: bool

text \<open>\<^verbatim>\<open>int(ttl.Seconds())\<close> drops the fraction of a second.\<close>

definition SessionCookie :: "Config \<Rightarrow> string \<Rightarrow> time \<Rightarrow> cookie" where
  "SessionCookie cfg v ttl = \<lparr>ckName = SessionCookieName cfg, ckValue = v, ckPath = ''/'', ckMaxAge = ttl sdiv second_ns,
    ckHttpOnly = True, ckSecure = CookieSecure cfg, ckSameSiteLax = True\<rparr>"

definition ClearSessionCookie :: "Config \<Rightarrow> cookie" where
  "ClearSessionCookie cfg = \<lparr>ckName = SessionCookieName cfg, ckValue = '''', ckPath = ''/'', ckMaxAge = -1,
    ckHttpOnly = True, ckSecure = CookieSecure cfg, ckSameSiteLax = True\<rparr>"

text \<open>\<^verbatim>\<open>base64.RawURLEncoding\<close> of random bytes, which the generator may fail to deliver.\<close>

definition url_char :: "char \<Rightarrow> char" where
  "url_char c = (if c = CHR ''+'' then CHR ''-'' else if c = CHR ''/'' then CHR ''_'' else c)"

definition url_encode64 :: "nat list \<Rightarrow> string" where
  "url_encode64 bs = map url_char (base64_encode bs)"

definition GenerateSessionToken :: "(string \<Rightarrow> nat list) \<Rightarrow> nat list option \<Rightarrow> (string \<times> string) option" where
  "GenerateSessionToken sha256 drawn = (case drawn of
      None \<Rightarrow> None
    | Some buf \<Rightarrow> let raw = url_encode64 buf in Some (raw, hex_encode (sha256 raw)))"

definition GenerateCSRF :: "nat list option \<Rightarrow> string option" where
  "GenerateCSRF drawn = map_option url_encode64 drawn"

definition plain_char :: "char \<Rightarrow> char" where
  "plain_char c = (if c = CHR ''-'' then CHR ''+'' else if c = CHR ''_'' then CHR ''/'' else c)"

lemma alphabet64_plain: "\<forall>c \<in> set alphabet64. plain_char (url_char c) = c"
  by code_simp

text \<open>Tokens are as unpredictable as the bytes drawn: no two draws give the same token.\<close>

lemma url_encode64_inj:
  assumes "\<forall>x \<in> set as. x < 256" "\<forall>x \<in> set bs. x < 256" "url_encode64 as = url_encode64 bs"
  shows "as = bs"
proof -
  have plain: "map plain_char (url_encode64 cs) = base64_encode cs" for cs
    unfolding url_encode64_def map_map by (rule map_idI) (use base64_chars [of cs] alphabet64_plain in auto)
  have "base64_encode as = base64_encode bs" using plain [of as] plain [of bs] assms(3) by simp
  moreover have "base64_decode (base64_encode as) = Some as" by (rule base64_roundtrip) (use assms(1) in blast)
  moreover have "base64_decode (base64_encode bs) = Some bs" by (rule base64_roundtrip) (use assms(2) in blast)
  ultimately show ?thesis by (metis option.inject)
qed

end
