(* ===== verification/Substrings.thy ===== *)
theory Substrings
  imports Text
begin

text \<open>\<^verbatim>\<open>strings.Contains\<close> and \<^verbatim>\<open>strings.HasSuffix\<close>, with what they say of a text.\<close>

fun has_substring :: "string \<Rightarrow> string \<Rightarrow> bool" where
  "has_substring [] needle = (needle = [])"
| "has_substring (c # s) needle = (has_prefix (c # s) needle \<or> has_substring s needle)"

definition has_suffix :: "string \<Rightarrow> string \<Rightarrow> bool" where
  "has_suffix s p = (length p \<le> length s \<and> drop (length s - length p) s = p)"

lemma has_substring_iff: "has_substring s needle \<longleftrightarrow> (\<exists>before after. s = before @ needle @ after)"
proof (induction s)
  case (Cons c s)
  have "(\<exists>before after. c # s = before @ needle @ after)
      \<longleftrightarrow> (\<exists>after. c # s = needle @ after) \<or> (\<exists>before after. s = before @ needle @ after)"
    by (metis append_Cons append_Nil list.exhaust list.inject)
  then show ?case using Cons by (simp add: has_prefix_iff)
qed simp

lemma has_suffix_iff: "has_suffix s p \<longleftrightarrow> (\<exists>t. s = t @ p)"
  by (auto simp: has_suffix_def) (metis append_take_drop_id)

end
