(* ===== verification/Storage.thy ===== *)
theory Storage
  imports Substrings Providers
begin

text \<open>
  Storing uploads: \<^verbatim>\<open>src/services/storage.go\<close>.  The disk below the storage root is a map from
  relative paths to contents, with the subdirectories the handlers pass (a word and a number), created
  or not; any call of the file system can fail.  Sniffing a content type (\<^verbatim>\<open>http.DetectContentType\<close>) and
  listing the members of a zip archive (\<^verbatim>\<open>archive/zip\<close>) are parameters.
\<close>

section \<open>Types\<close>

datatype storage_error =
    ErrUnsupportedMediaType | ErrFileTooLarge | ErrSuspiciousContent
  | ReadUpload | SeekUpload | GenerateFilename | CreateDirectory | CreateFile | WriteFile | ReadBack

type_synonym disk = "string \<rightharpoonup> string"

record disk_faults =
  ftRead :: bool
  ftSeek :: bool
  ftMkdir :: bool
  ftOpen :: bool
  ftCopy :: "nat option"
  ftReadBack :: bool
  ftRemove :: bool

text \<open>\<^verbatim>\<open>stMaxBytes\<close> is the field \<^verbatim>\<open>MaxBytes\<close>; the two libraries are carried along.\<close>

record Storage =
  stMaxBytes :: int
  stDetect :: "string \<Rightarrow> string"
  stZipNames :: "string \<Rightarrow> nat \<Rightarrow> string list option"

definition eicarSignature :: string where
  "eicarSignature = ''X5O!P%@AP[4'' @ [CHR 0x5C] @ ''PZX54(P^)7CC)7}$EICAR-STANDARD-ANTIVIRUS-TEST-FILE!$H+H*''"

definition dangerousArchiveExtensions :: "string list" where
  "dangerousArchiveExtensions = [''.exe'', ''.dll'', ''.so'', ''.dylib'', ''.bat'', ''.cmd'', ''.com'', ''.scr'',
     ''.ps1'', ''.sh'', ''.js'', ''.jar'', ''.msi'', ''.vbs'', ''.apk'']"

definition allowedImageTypes :: "string \<Rightarrow> string option" where
  "allowedImageTypes = map_of [(''image/jpeg'', ''.jpg''), (''image/png'', ''.png''), (''image/gif'', ''.gif''), (''image/webp'', ''.webp'')]"

definition allowedOrderFileTypes :: "string \<Rightarrow> string option" where
  "allowedOrderFileTypes = map_of [(''image/jpeg'', ''.jpg''), (''image/png'', ''.png''), (''image/gif'', ''.gif''),
     (''image/webp'', ''.webp''), (''application/pdf'', ''.pdf''), (''application/zip'', ''.zip''),
     (''text/plain; charset=utf-8'', ''.txt'')]"

section \<open>Saving\<close>

definition randomFilename :: "nat list option \<Rightarrow> string \<Rightarrow> string option" where
  "randomFilename drawn ext = map_option (\<lambda>b. hex_encode b @ ext) drawn"

definition dangerous_member :: "string \<Rightarrow> bool" where
  "dangerous_member name \<longleftrightarrow> list_ex (\<lambda>ext. has_suffix (to_lower name) ext) dangerousArchiveExtensions"

definition scanUpload :: "Storage \<Rightarrow> disk_faults \<Rightarrow> disk \<Rightarrow> string \<Rightarrow> nat \<Rightarrow> storage_error option" where
  "scanUpload st ft fs path written =
    (case (if ftReadBack ft then None else fs path) of
      None \<Rightarrow> Some ReadBack
    | Some content \<Rightarrow>
      if has_substring content eicarSignature then Some ErrSuspiciousContent
      else case stZipNames st content written of
        None \<Rightarrow> None
      | Some names \<Rightarrow> if list_ex dangerous_member names then Some ErrSuspiciousContent else None)"

definition remove_file :: "disk_faults \<Rightarrow> string \<Rightarrow> disk \<Rightarrow> disk" where
  "remove_file ft path fs = (if ftRemove ft then fs else fs(path := None))"

text \<open>The size in the header of an upload is the length of its content.\<close>

definition save ::
  "Storage \<Rightarrow> disk_faults \<Rightarrow> nat list option \<Rightarrow> (string \<Rightarrow> string option) \<Rightarrow> string \<Rightarrow> string \<Rightarrow> disk \<Rightarrow> (storage_error + string) \<times> disk" where
  "save st ft drawn allowed subdir content fs =
    (if int (length content) > stMaxBytes st then (Inl ErrFileTooLarge, fs)
     else if ftRead ft then (Inl ReadUpload, fs)
     else case allowed (stDetect st (take 512 content)) of
       None \<Rightarrow> (Inl ErrUnsupportedMediaType, fs)
     | Some ext \<Rightarrow>
       if ftSeek ft then (Inl SeekUpload, fs)
       else case randomFilename drawn ext of
         None \<Rightarrow> (Inl GenerateFilename, fs)
       | Some name \<Rightarrow>
         let path = subdir @ ''/'' @ name in
         if ftMkdir ft then (Inl CreateDirectory, fs)
         else if ftOpen ft \<or> fs path \<noteq> None then (Inl CreateFile, fs)
         else let limited = take (nat (stMaxBytes st)) content in
           case ftCopy ft of
             Some n \<Rightarrow> (Inl WriteFile, remove_file ft path (fs(path \<mapsto> take n limited)))
           | None \<Rightarrow>
             let fs' = fs(path \<mapsto> limited) in
             case scanUpload st ft fs' path (length limited) of
               Some e \<Rightarrow> (Inl e, remove_file ft path fs')
             | None \<Rightarrow> (Inr path, fs'))"

definition SaveImage :: "Storage \<Rightarrow> disk_faults \<Rightarrow> nat list option \<Rightarrow> string \<Rightarrow> string \<Rightarrow> disk \<Rightarrow> (storage_error + string) \<times> disk" where
  "SaveImage st ft drawn = save st ft drawn allowedImageTypes"

definition SaveOrderFile :: "Storage \<Rightarrow> disk_faults \<Rightarrow> nat list option \<Rightarrow> string \<Rightarrow> string \<Rightarrow> disk \<Rightarrow> (storage_error + string) \<times> disk" where
  "SaveOrderFile st ft drawn = save st ft drawn allowedOrderFileTypes"

section \<open>All or nothing\<close>

text \<open>What the scan accepts.\<close>

definition harmless :: "Storage \<Rightarrow> string \<Rightarrow> bool" where
  "harmless st content \<longleftrightarrow> (\<nexists>before after. content = before @ eicarSignature @ after)
    \<and> (\<forall>names name stem ext. stZipNames st content (length content) = Some names \<longrightarrow> name \<in> set names
        \<longrightarrow> ext \<in> set dangerousArchiveExtensions \<longrightarrow> to_lower name \<noteq> stem @ ext)"

lemma scanUpload_None:
  "scanUpload st ft fs path written = None \<longleftrightarrow> \<not> ftReadBack ft \<and> (\<exists>content. fs path = Some content
    \<and> \<not> has_substring content eicarSignature \<and> (\<forall>names. stZipNames st content written = Some names \<longrightarrow> \<not> list_ex dangerous_member names))"
  by (auto simp: scanUpload_def split: option.splits)

lemma scan_harmless:
  assumes "scanUpload st ft (fs(path \<mapsto> content)) path (length content) = None"
  shows "harmless st content"
  using assms by (auto simp: scanUpload_None harmless_def has_substring_iff list_ex_iff dangerous_member_def has_suffix_iff)

lemma save_refused:
  assumes "save st ft drawn allowed subdir content fs = (Inl e, fs')" "\<not> ftRemove ft"
  shows "fs' = fs"
  using assms by (auto simp: save_def remove_file_def Let_def fun_upd_idem_iff split: if_splits option.splits)

lemma save_accepted:
  assumes "save st ft drawn allowed subdir content fs = (Inr path, fs')"
  shows "fs path = None \<and> fs' = fs(path \<mapsto> content) \<and> int (length content) \<le> stMaxBytes st \<and> harmless st content
    \<and> (\<exists>ext b. allowed (stDetect st (take 512 content)) = Some ext \<and> drawn = Some b \<and> path = subdir @ ''/'' @ hex_encode b @ ext)"
proof -
  obtain ext where small: "int (length content) \<le> stMaxBytes st" and ext: "allowed (stDetect st (take 512 content)) = Some ext"
    using assms by (auto simp: save_def Let_def split: if_splits option.splits)
  have whole: "take (nat (stMaxBytes st)) content = content" using small by simp
  from assms small ext obtain b where "drawn = Some b" "path = subdir @ ''/'' @ hex_encode b @ ext" "fs path = None"
    "fs' = fs(path \<mapsto> content)" "scanUpload st ft (fs(path \<mapsto> content)) path (length content) = None"
    by (auto simp: save_def randomFilename_def Let_def whole split: if_splits option.splits)
  then show ?thesis using small ext scan_harmless by blast
qed

text \<open>C14: Storing an upload is all or nothing.  If saving an order file fails in any way (too large, a
  type that is not allowed, a failed read, write or scan) and removing a file works, the disk is as it
  was; if it succeeds, exactly one new file appears, under a fresh name of random hexadecimal digits
  with an extension that fits its sniffed type, holding the whole upload, which is within the limit,
  does not contain the test virus and is not an archive with a member named like a program.
\<close>

theorem upload_all_or_nothing:
  assumes "\<not> ftRemove ft"
  shows "case SaveOrderFile st ft drawn subdir content fs of
      (Inl e, fs') \<Rightarrow> fs' = fs
    | (Inr path, fs') \<Rightarrow> fs path = None \<and> fs' = fs(path \<mapsto> content) \<and> int (length content) \<le> stMaxBytes st
        \<and> harmless st content \<and> (\<exists>ext b. allowedOrderFileTypes (stDetect st (take 512 content)) = Some ext
          \<and> drawn = Some b \<and> path = subdir @ ''/'' @ hex_encode b @ ext)"
proof (cases "SaveOrderFile st ft drawn subdir content fs")
  case (Pair r fs')
  then have run: "save st ft drawn allowedOrderFileTypes subdir content fs = (r, fs')" by (simp add: SaveOrderFile_def)
  show ?thesis
  proof (cases r)
    case (Inl e)
    then show ?thesis using Pair save_refused run assms by auto
  next
    case (Inr path)
    then show ?thesis using Pair save_accepted [of st ft drawn allowedOrderFileTypes subdir content fs path fs'] run by simp
  qed
qed

definition no_faults :: disk_faults where
  "no_faults = \<lparr>ftRead = False, ftSeek = False, ftMkdir = False, ftOpen = False, ftCopy = None, ftReadBack = False, ftRemove = False\<rparr>"

definition text_storage :: Storage where
  "text_storage = \<lparr>stMaxBytes = 100, stDetect = (\<lambda>s. ''text/plain; charset=utf-8''), stZipNames = (\<lambda>s n. None)\<rparr>"

theorem upload_all_or_nothing_witness:
  "\<exists>fs'. SaveOrderFile text_storage no_faults (Some [1, 255]) ''orders/7'' ''done'' (\<lambda>_. None) = (Inr ''orders/7/01ff.txt'', fs')
    \<and> fs' = [''orders/7/01ff.txt'' \<mapsto> ''done''] \<and> harmless text_storage ''done''"
proof -
  have "fst (SaveOrderFile text_storage no_faults (Some [1, 255]) ''orders/7'' ''done'' (\<lambda>_. None)) = Inr ''orders/7/01ff.txt''"
    by code_simp
  then obtain fs' where "SaveOrderFile text_storage no_faults (Some [1, 255]) ''orders/7'' ''done'' (\<lambda>_. None) = (Inr ''orders/7/01ff.txt'', fs')"
    by (metis prod.collapse)
  moreover have "\<not> ftRemove no_faults" by (simp add: no_faults_def)
  ultimately show ?thesis
    using upload_all_or_nothing [where ft = no_faults and st = text_storage and drawn = "Some [1, 255]" and subdir = "''orders/7''"
      and content = "''done''" and fs = "\<lambda>_. None"] by simp
qed

end
