(* ===== verification/Middleware.thy ===== *)
theory Middleware
  imports Substrings
begin

text \<open>
  The wrappers around every request: \<^verbatim>\<open>securityHeaders\<close> (\<^verbatim>\<open>src/security.go\<close>), \<^verbatim>\<open>withLogging\<close>,
  \<^verbatim>\<open>withRecover\<close>, \<^verbatim>\<open>withRequestID\<close> and \<^verbatim>\<open>statusWriter\<close> (\<^verbatim>\<open>src/server.go\<close>), in the order
  \<^verbatim>\<open>handler\<close> puts them, and the redaction of log attributes (\<^verbatim>\<open>src/logger.go\<close>).  What the routes
  do to the response is a parameter: a list of actions that may end in a panic.
\<close>

section \<open>Responses\<close>

text \<open>The first \<^verbatim>\<open>WriteHeader\<close> or \<^verbatim>\<open>Write\<close> sends the status with the headers of that moment; \<^verbatim>\<open>exStatus\<close> and
  \<^verbatim>\<open>exBytes\<close> are the fields of the \<^verbatim>\<open>statusWriter\<close>.\<close>

datatype log_line =
    Access string string string int int
  | PanicRecovered string

record exchange =
  exHeaders :: "string \<rightharpoonup> string"
  exSent :: "(int \<times> (string \<rightharpoonup> string)) option"
  exStatus :: int
  exBytes :: nat
  exLog :: "log_line list"

record incoming =
  inMethod :: string
  inPath :: string
  inRequestID :: string
  inContextID :: "string option"

datatype action = SetHeader string string | WriteStatus int | WriteBytes nat | Panic

type_synonym stage = "incoming \<Rightarrow> exchange \<Rightarrow> bool \<times> exchange"

definition set_header :: "string \<Rightarrow> string \<Rightarrow> exchange \<Rightarrow> exchange" where
  "set_header k v ex = ex\<lparr>exHeaders := (exHeaders ex)(k \<mapsto> v)\<rparr>"

definition send_now :: "int \<Rightarrow> exchange \<Rightarrow> exchange" where
  "send_now status ex = (case exSent ex of None \<Rightarrow> ex\<lparr>exSent := Some (status, exHeaders ex)\<rparr> | Some _ \<Rightarrow> ex)"

definition WriteHeader :: "int \<Rightarrow> exchange \<Rightarrow> exchange" where
  "WriteHeader status ex = send_now status (ex\<lparr>exStatus := status\<rparr>)"

definition Write :: "nat \<Rightarrow> exchange \<Rightarrow> exchange" where
  "Write n ex = (send_now 200 ex)\<lparr>exBytes := exBytes ex + n\<rparr>"

text \<open>What is on the wire in the end: a response nobody wrote is an empty one.\<close>

definition wire :: "exchange \<Rightarrow> int \<times> (string \<rightharpoonup> string)" where
  "wire ex = (case exSent ex of None \<Rightarrow> (200, exHeaders ex) | Some r \<Rightarrow> r)"

fun act :: "action list \<Rightarrow> exchange \<Rightarrow> bool \<times> exchange" where
  "act [] ex = (False, ex)"
| "act (SetHeader k v # as) ex = act as (set_header k v ex)"
| "act (WriteStatus status # as) ex = act as (WriteHeader status ex)"
| "act (WriteBytes n # as) ex = act as (Write n ex)"
| "act (Panic # as) ex = (True, ex)"

section \<open>The wrappers\<close>

definition quoted_word :: "string \<Rightarrow> string" where
  "quoted_word w = '' '' @ CHR 0x27 # w @ [CHR 0x27]"

definition cspHeader :: string where
  "cspHeader = ''default-src'' @ quoted_word ''self'' @ ''; script-src'' @ quoted_word ''none''
    @ ''; style-src'' @ quoted_word ''self'' @ ''; img-src'' @ quoted_word ''self'' @ '' data:; font-src'' @ quoted_word ''self''
    @ ''; object-src'' @ quoted_word ''none'' @ ''; base-uri'' @ quoted_word ''self'' @ ''; form-action'' @ quoted_word ''self''
    @ ''; frame-ancestors'' @ quoted_word ''none''"

definition securityHeaders :: "stage \<Rightarrow> stage" where
  "securityHeaders next_stage r ex = next_stage r
    (set_header ''Permissions-Policy'' ''camera=(), geolocation=(), microphone=()''
    (set_header ''X-Frame-Options'' ''DENY''
    (set_header ''X-Content-Type-Options'' ''nosniff''
    (set_header ''Referrer-Policy'' ''strict-origin-when-cross-origin''
    (set_header ''Content-Security-Policy'' cspHeader ex)))))"

text \<open>The drawn bytes are a parameter; without them the identifier is \<^verbatim>\<open>unknown\<close>.\<close>

definition withRequestID :: "nat list option \<Rightarrow> stage \<Rightarrow> stage" where
  "withRequestID drawn next_stage r ex =
    (let rid = (if inRequestID r \<noteq> [] then inRequestID r
               else case drawn of None \<Rightarrow> ''unknown'' | Some bs \<Rightarrow> hex_encode bs) in
     next_stage (r\<lparr>inContextID := Some rid\<rparr>) (set_header ''X-Request-Id'' rid ex))"

definition requestID :: "incoming \<Rightarrow> string" where
  "requestID r = (case inContextID r of Some rid \<Rightarrow> rid | None \<Rightarrow> ''unknown'')"

text \<open>\<^verbatim>\<open>http.Error\<close> drops headers that describe another body (none of them matters here), sets those of a plain text and writes the message with its line end.\<close>

definition http_Error :: "nat \<Rightarrow> int \<Rightarrow> exchange \<Rightarrow> exchange" where
  "http_Error len status ex = Write (len + 1) (WriteHeader status
    (set_header ''X-Content-Type-Options'' ''nosniff'' (set_header ''Content-Type'' ''text/plain; charset=utf-8'' ex)))"

definition withRecover :: "stage \<Rightarrow> stage" where
  "withRecover next_stage r ex = (case next_stage r ex of
      (False, ex') \<Rightarrow> (False, ex')
    | (True, ex') \<Rightarrow> (False, http_Error (length ''internal server error'') 500
        (ex'\<lparr>exLog := exLog ex' @ [PanicRecovered (requestID r)]\<rparr>)))"

definition withLogging :: "stage \<Rightarrow> stage" where
  "withLogging next_stage r ex = (case next_stage r (ex\<lparr>exStatus := 200, exBytes := 0\<rparr>) of
      (True, ex') \<Rightarrow> (True, ex')
    | (False, ex') \<Rightarrow> (False, ex'\<lparr>exLog := exLog ex' @
        [Access (requestID r) (inMethod r) (inPath r) (exStatus ex') (int (exBytes ex'))]\<rparr>))"

definition handler_stack :: "nat list option \<Rightarrow> (incoming \<Rightarrow> action list) \<Rightarrow> stage" where
  "handler_stack drawn routes = securityHeaders (withLogging (withRecover (withRequestID drawn (\<lambda>r. act (routes r)))))"

section \<open>Every answer\<close>

definition secured :: "string list" where
  "secured = [''Content-Security-Policy'', ''Referrer-Policy'', ''X-Content-Type-Options'', ''X-Frame-Options'',
     ''Permissions-Policy'', ''X-Request-Id'']"

definition guarded :: "string \<Rightarrow> (string \<rightharpoonup> string) \<Rightarrow> bool" where
  "guarded rid h \<longleftrightarrow> h ''Content-Security-Policy'' = Some cspHeader
    \<and> h ''Referrer-Policy'' = Some ''strict-origin-when-cross-origin''
    \<and> h ''X-Content-Type-Options'' = Some ''nosniff'' \<and> h ''X-Frame-Options'' = Some ''DENY''
    \<and> h ''Permissions-Policy'' = Some ''camera=(), geolocation=(), microphone=()''
    \<and> h ''X-Request-Id'' = Some rid"

definition guarded_exchange :: "string \<Rightarrow> exchange \<Rightarrow> bool" where
  "guarded_exchange rid ex \<longleftrightarrow> guarded rid (exHeaders ex) \<and> (\<forall>r. exSent ex = Some r \<longrightarrow> guarded rid (snd r))"

lemma guarded_set_header:
  "guarded_exchange rid ex \<Longrightarrow> k \<notin> set secured \<Longrightarrow> guarded_exchange rid (set_header k v ex)"
  by (auto simp: guarded_exchange_def guarded_def set_header_def secured_def)

lemma guarded_send: "guarded_exchange rid ex \<Longrightarrow> guarded_exchange rid (send_now status ex)"
  by (auto simp: guarded_exchange_def send_now_def split: option.splits)

lemma guarded_fields [simp]:
  "guarded_exchange rid (ex\<lparr>exStatus := s\<rparr>) = guarded_exchange rid ex"
  "guarded_exchange rid (ex\<lparr>exBytes := n\<rparr>) = guarded_exchange rid ex"
  "guarded_exchange rid (ex\<lparr>exLog := l\<rparr>) = guarded_exchange rid ex"
  by (simp_all add: guarded_exchange_def)

lemma guarded_act:
  "guarded_exchange rid ex \<Longrightarrow> \<forall>a \<in> set as. \<forall>k v. a = SetHeader k v \<longrightarrow> k \<notin> set secured \<Longrightarrow> guarded_exchange rid (snd (act as ex))"
  by (induction as ex rule: act.induct) (auto simp: guarded_set_header WriteHeader_def Write_def guarded_send)

lemma guarded_http_Error: "guarded_exchange rid ex \<Longrightarrow> guarded_exchange rid (http_Error len status ex)"
proof -
  assume g: "guarded_exchange rid ex"
  have "guarded_exchange rid (set_header ''Content-Type'' ''text/plain; charset=utf-8'' ex)"
    by (rule guarded_set_header [OF g]) (simp add: secured_def)
  then have "guarded_exchange rid (set_header ''X-Content-Type-Options'' ''nosniff''
      (set_header ''Content-Type'' ''text/plain; charset=utf-8'' ex))"
    by (simp add: guarded_exchange_def guarded_def set_header_def)
  then show ?thesis by (simp add: http_Error_def WriteHeader_def Write_def guarded_send)
qed

lemma guarded_wire: "guarded_exchange rid ex \<Longrightarrow> guarded rid (snd (wire ex))"
  by (auto simp: guarded_exchange_def wire_def split: option.splits)

definition fresh :: exchange where
  "fresh = \<lparr>exHeaders = (\<lambda>_. None), exSent = None, exStatus = 200, exBytes = 0, exLog = []\<rparr>"

definition assigned_id :: "nat list option \<Rightarrow> incoming \<Rightarrow> string" where
  "assigned_id drawn r = (if inRequestID r \<noteq> [] then inRequestID r
     else case drawn of None \<Rightarrow> ''unknown'' | Some bs \<Rightarrow> hex_encode bs)"

text \<open>C26: Every answer leaves with the security headers and the identifier of its request, also when a
  handler panics, before or after it has started to write: no panic gets past the wrappers, and as
  long as the routes leave these six headers alone, the response on the wire has all of them.
\<close>

theorem every_answer_guarded:
  assumes "\<And>k v. SetHeader k v \<in> set (routes (r\<lparr>inContextID := Some (assigned_id drawn r)\<rparr>)) \<Longrightarrow> k \<notin> set secured"
  shows "\<not> fst (handler_stack drawn routes r fresh)
    \<and> guarded (assigned_id drawn r) (snd (wire (snd (handler_stack drawn routes r fresh))))"
proof -
  define rid where "rid = assigned_id drawn r"
  define ex where "ex = set_header ''X-Request-Id'' rid ((set_header ''Permissions-Policy'' ''camera=(), geolocation=(), microphone=()''
    (set_header ''X-Frame-Options'' ''DENY'' (set_header ''X-Content-Type-Options'' ''nosniff''
    (set_header ''Referrer-Policy'' ''strict-origin-when-cross-origin''
    (set_header ''Content-Security-Policy'' cspHeader fresh)))))\<lparr>exStatus := 200, exBytes := 0\<rparr>)"
  have "guarded_exchange rid ex"
    by (simp add: ex_def guarded_exchange_def guarded_def set_header_def fresh_def)
  then have inner: "guarded_exchange rid (snd (act (routes (r\<lparr>inContextID := Some rid\<rparr>)) ex))"
    by (rule guarded_act) (use assms in \<open>unfold rid_def, blast\<close>)
  obtain p ex' where acted: "act (routes (r\<lparr>inContextID := Some rid\<rparr>)) ex = (p, ex')" by fastforce
  have "handler_stack drawn routes r fresh = withLogging (\<lambda>r ex. withRecover (\<lambda>_ _. (p, ex')) r ex) r fresh"
    using acted unfolding handler_stack_def securityHeaders_def withLogging_def withRecover_def withRequestID_def
      rid_def assigned_id_def ex_def Let_def by simp
  then show ?thesis
    using inner acted guarded_http_Error [of rid "ex'\<lparr>exLog := exLog ex' @ [PanicRecovered (requestID r)]\<rparr>"]
    by (cases p) (auto simp: withLogging_def withRecover_def rid_def intro!: guarded_wire)
qed

theorem every_answer_guarded_witness:
  "\<not> fst (handler_stack (Some [1, 2]) (\<lambda>r. [SetHeader ''Content-Type'' ''text/html'', WriteBytes 9, Panic])
      \<lparr>inMethod = ''GET'', inPath = ''/'', inRequestID = [], inContextID = None\<rparr> fresh)
    \<and> guarded (assigned_id (Some [1, 2]) \<lparr>inMethod = ''GET'', inPath = ''/'', inRequestID = [], inContextID = None\<rparr>)
      (snd (wire (snd (handler_stack (Some [1, 2]) (\<lambda>r. [SetHeader ''Content-Type'' ''text/html'', WriteBytes 9, Panic])
        \<lparr>inMethod = ''GET'', inPath = ''/'', inRequestID = [], inContextID = None\<rparr> fresh))))"
  by (rule every_answer_guarded) (simp add: secured_def)

text \<open>The identifier is put into the context of the request handed inwards; the log lines are written outside
  and read it from the request that came in, so they never carry it.\<close>

lemma logged_id_unknown:
  assumes "inContextID r = None" "handler_stack drawn routes r fresh = (False, ex)"
  shows "\<exists>method path status bytes. last (exLog ex) = Access ''unknown'' method path status bytes"
  using assms by (auto simp: handler_stack_def securityHeaders_def withLogging_def requestID_def split: prod.splits bool.splits)

section \<open>Redaction\<close>

definition redactedFieldSubstrings :: "string list" where
  "redactedFieldSubstrings = [''password'', ''secret'', ''token'', ''session'', ''csrf'',
    ''card'', ''cvv'', ''cvc'', ''iban'', ''account_number'', ''routing_number'',
    ''ssn'', ''tax_id'', ''passport'', ''email'',
    ''wallet_address'', ''private_key'', ''seed_phrase'', ''mnemonic'',
    ''webhook_secret'', ''api_key'', ''authorization'']"

definition redactAttr :: "string list \<Rightarrow> string \<times> string \<Rightarrow> string \<times> string" where
  "redactAttr groups a = (let key = to_lower (fst a) in
     if list_ex (\<lambda>needle. has_substring key needle) redactedFieldSubstrings then (fst a, ''[redacted]'') else a)"

text \<open>\<^verbatim>\<open>slog\<close> calls it on every attribute that is not a group.\<close>

datatype attr = Leaf string string | Group string "attr list"

fun redact_all :: "string list \<Rightarrow> attr \<Rightarrow> attr" where
  "redact_all groups (Leaf k v) = (case redactAttr groups (k, v) of (k', v') \<Rightarrow> Leaf k' v')"
| "redact_all groups (Group k as) = Group k (map (redact_all (groups @ [k])) as)"

fun leaves :: "attr \<Rightarrow> (string \<times> string) list" where
  "leaves (Leaf k v) = [(k, v)]"
| "leaves (Group k as) = concat (map leaves as)"

definition sensitive :: "string \<Rightarrow> bool" where
  "sensitive key \<longleftrightarrow> (\<exists>needle \<in> set redactedFieldSubstrings. \<exists>before after. to_lower key = before @ needle @ after)"

lemma redacted_leaves:
  "leaves (redact_all groups a) = map (\<lambda>(k, v). (k, if sensitive k then ''[redacted]'' else v)) (leaves a)"
proof (induction groups a rule: redact_all.induct)
  case (1 groups k v)
  then show ?case by (auto simp: redactAttr_def sensitive_def list_ex_iff has_substring_iff Let_def)
next
  case (2 groups k as)
  then show ?case by (simp add: map_concat comp_def cong: map_cong)
qed

end
