(* ===== verification/Migrations.thy ===== *)
theory Migrations
  imports Substrings "HOL-Library.List_Lexorder"
begin

text \<open>
  Applying the schema migrations: \<^verbatim>\<open>src/store/migrate.go\<close>.  The server holds the table
  \<^verbatim>\<open>schema_migrations\<close>, once it exists, and the rest of the schema, whose type is left open: what a
  migration file does to it is a parameter, and so is SHA-256.  A schedule decides the fate of every
  statement: it works, it is lost, or it is done and only its answer is lost.  Lost connections
  roll an open transaction back.  The advisory lock keeps other runs out, so a run is sequential.
\<close>

section \<open>The server\<close>

datatype fate = Works | Lost | Unheard

record migrationRecord =
  mrVersion :: int
  mrName :: string
  mrChecksum :: string

record 'd server =
  svTable :: "migrationRecord list option"
  svSchema :: 'd
  svFates :: "fate list"

datatype migrate_error =
    LockFailed | TableFailed | ReadFailed | BadVersion string | ChecksumChanged string | MigrationFailed string

type_synonym ('a, 'd) mop = "'d server \<Rightarrow> (migrate_error + 'a) \<times> 'd server"

text \<open>One statement with its effect; it fails with the given error when its answer does not arrive.\<close>

definition statement :: "migrate_error \<Rightarrow> ('d server \<Rightarrow> 'd server) \<Rightarrow> (unit, 'd) mop" where
  "statement e f s = (case svFates s of
      [] \<Rightarrow> (Inr (), f s)
    | Works # fates \<Rightarrow> (Inr (), f (s\<lparr>svFates := fates\<rparr>))
    | Lost # fates \<Rightarrow> (Inl e, s\<lparr>svFates := fates\<rparr>)
    | Unheard # fates \<Rightarrow> (Inl e, f (s\<lparr>svFates := fates\<rparr>)))"

section \<open>Applying migrations\<close>

definition migrationVersion :: "string \<Rightarrow> int option" where
  "migrationVersion name =
    (let base = (if has_suffix name ''.sql'' then take (length name - 4) name else name) in
     parse_int 64 (takeWhile (\<lambda>c. c \<noteq> CHR ''_'') base))"

definition acquireLock :: "(unit, 'd) mop" where
  "acquireLock = statement LockFailed (\<lambda>s. s)"

definition ensureSchemaMigrations :: "(unit, 'd) mop" where
  "ensureSchemaMigrations = statement TableFailed (\<lambda>s. case svTable s of
      None \<Rightarrow> s\<lparr>svTable := Some []\<rparr> | Some rows \<Rightarrow> s)"

definition appliedVersions :: "((int \<times> string) list, 'd) mop" where
  "appliedVersions = call (statement ReadFailed (\<lambda>s. s)) fail (\<lambda>_ s. case svTable s of
      None \<Rightarrow> (Inl ReadFailed, s)
    | Some rows \<Rightarrow> (Inr (map (\<lambda>r. (mrVersion r, mrChecksum r)) rows), s))"

text \<open>The transaction of one file: what \<^verbatim>\<open>BEGIN\<close>, the content and the \<^verbatim>\<open>INSERT\<close> do is kept aside
  until the \<^verbatim>\<open>COMMIT\<close>.  The primary key refuses a version that is already there.\<close>

definition applyMigration :: "(string \<Rightarrow> 'd \<Rightarrow> 'd option) \<Rightarrow> int \<Rightarrow> string \<Rightarrow> string \<Rightarrow> string \<Rightarrow> (unit, 'd) mop" where
  "applyMigration exec_sql version name checksum content =
    (let failed = MigrationFailed name; quietly = statement failed (\<lambda>s. s) in
     call quietly fail (\<lambda>_.
     call quietly fail (\<lambda>_ s. case exec_sql content (svSchema s) of
         None \<Rightarrow> (Inl failed, s)
       | Some schema \<Rightarrow>
         call quietly fail (\<lambda>_ s. case svTable s of
             None \<Rightarrow> (Inl failed, s)
           | Some rows \<Rightarrow>
             if version \<in> mrVersion ` set rows then (Inl failed, s)
             else statement failed (\<lambda>s. s\<lparr>svSchema := schema, svTable := Some (rows @
                 [\<lparr>mrVersion = version, mrName = name, mrChecksum = checksum\<rparr>])\<rparr>) s) s)))"

text \<open>The loop over the files in lexical order; \<^verbatim>\<open>applied\<close> was read before the loop.\<close>

fun migrate_files ::
  "(string \<Rightarrow> 'd \<Rightarrow> 'd option) \<Rightarrow> (string \<Rightarrow> string) \<Rightarrow> (int \<times> string) list \<Rightarrow> (string \<times> string) list \<Rightarrow> (unit, 'd) mop" where
  "migrate_files exec_sql checksumHex applied [] = ret ()"
| "migrate_files exec_sql checksumHex applied ((name, content) # files) =
    (case migrationVersion name of
      None \<Rightarrow> fail (BadVersion name)
    | Some version \<Rightarrow>
      let checksum = checksumHex content in
      case map_of applied version of
        Some recorded \<Rightarrow>
          if recorded \<noteq> checksum then fail (ChecksumChanged name)
          else migrate_files exec_sql checksumHex applied files
      | None \<Rightarrow> call (applyMigration exec_sql version name checksum content) fail
          (\<lambda>_. migrate_files exec_sql checksumHex applied files))"

definition lexical :: "(string \<times> string) list \<Rightarrow> (string \<times> string) list" where
  "lexical files = sort_key (\<lambda>f. map (of_char :: char \<Rightarrow> nat) (fst f)) (filter (\<lambda>f. has_suffix (fst f) ''.sql'') files)"

definition Migrate :: "(string \<Rightarrow> 'd \<Rightarrow> 'd option) \<Rightarrow> (string \<Rightarrow> string) \<Rightarrow> (string \<times> string) list \<Rightarrow> (unit, 'd) mop" where
  "Migrate exec_sql checksumHex files =
    call acquireLock fail (\<lambda>_. call ensureSchemaMigrations fail (\<lambda>_. call appliedVersions fail (\<lambda>applied.
      migrate_files exec_sql checksumHex applied (lexical files))))"

section \<open>Quoting\<close>

text \<open>\<^verbatim>\<open>quoteLiteral\<close> doubles quotes; the server reads a literal up to the first single one.\<close>

fun quoteLiteral :: "string \<Rightarrow> string" where
  "quoteLiteral [] = []"
| "quoteLiteral (c # cs) = (if c = CHR 0x27 then CHR 0x27 # CHR 0x27 # quoteLiteral cs else c # quoteLiteral cs)"

fun read_literal :: "string \<Rightarrow> string \<times> string" where
  "read_literal [] = ([], [])"
| "read_literal (c # cs) =
    (if c \<noteq> CHR 0x27 then (let (a, b) = read_literal cs in (c # a, b))
     else case cs of
       [] \<Rightarrow> ([], [])
     | d # ds \<Rightarrow> if d = CHR 0x27 then (let (a, b) = read_literal ds in (CHR 0x27 # a, b)) else ([], cs))"

lemma read_quoted:
  "\<not> (\<exists>more. rest = CHR 0x27 # more) \<Longrightarrow> read_literal (quoteLiteral s @ CHR 0x27 # rest) = (s, rest)"
  by (induction s rule: quoteLiteral.induct) (auto split: list.splits)

section \<open>Runs without failures\<close>

text \<open>What a file does when every statement works, reading the table as it stands.\<close>

definition migrate_one ::
  "(string \<Rightarrow> 'd \<Rightarrow> 'd option) \<Rightarrow> (string \<Rightarrow> string) \<Rightarrow> string \<times> string \<Rightarrow> (migrationRecord list \<times> 'd) \<Rightarrow>
    migrate_error + (migrationRecord list \<times> 'd)" where
  "migrate_one exec_sql checksumHex f st = (case migrationVersion (fst f) of
      None \<Rightarrow> Inl (BadVersion (fst f))
    | Some version \<Rightarrow> (case map_of (map (\<lambda>r. (mrVersion r, mrChecksum r)) (fst st)) version of
        Some recorded \<Rightarrow> if recorded \<noteq> checksumHex (snd f) then Inl (ChecksumChanged (fst f)) else Inr st
      | None \<Rightarrow> (case exec_sql (snd f) (snd st) of
          None \<Rightarrow> Inl (MigrationFailed (fst f))
        | Some schema \<Rightarrow> Inr (fst st @ [\<lparr>mrVersion = version, mrName = fst f, mrChecksum = checksumHex (snd f)\<rparr>], schema))))"

fun migrate_spec ::
  "(string \<Rightarrow> 'd \<Rightarrow> 'd option) \<Rightarrow> (string \<Rightarrow> string) \<Rightarrow> (string \<times> string) list \<Rightarrow> (migrationRecord list \<times> 'd) \<Rightarrow>
    (migrate_error + unit) \<times> (migrationRecord list \<times> 'd)" where
  "migrate_spec exec_sql checksumHex [] st = (Inr (), st)"
| "migrate_spec exec_sql checksumHex (f # fs) st = (case migrate_one exec_sql checksumHex f st of
      Inl e \<Rightarrow> (Inl e, st)
    | Inr st' \<Rightarrow> migrate_spec exec_sql checksumHex fs st')"

lemma migrate_spec_append:
  "migrate_spec x h (fs @ gs) st = (case migrate_spec x h fs st of
    (Inl e, st') \<Rightarrow> (Inl e, st') | (Inr _, st') \<Rightarrow> migrate_spec x h gs st')"
  by (induction fs arbitrary: st) (auto split: sum.splits)

text \<open>A file that was applied is recorded with its checksum, and stays so.\<close>

definition recorded :: "(string \<Rightarrow> string) \<Rightarrow> migrationRecord list \<Rightarrow> string \<times> string \<Rightarrow> bool" where
  "recorded h rows f \<longleftrightarrow> (\<exists>v. migrationVersion (fst f) = Some v
    \<and> map_of (map (\<lambda>r. (mrVersion r, mrChecksum r)) rows) v = Some (h (snd f)))"

lemma migrate_one_recorded:
  "migrate_one x h f st = Inr st' \<Longrightarrow> recorded h (fst st') f"
  by (auto simp: migrate_one_def recorded_def map_add_Some_iff split: option.splits if_splits)

lemma migrate_one_keeps:
  "migrate_one x h f st = Inr st' \<Longrightarrow> recorded h (fst st) g \<Longrightarrow> recorded h (fst st') g"
  by (auto simp: migrate_one_def recorded_def map_add_def split: option.splits if_splits)

lemma migrate_one_again: "recorded h (fst st) f \<Longrightarrow> migrate_one x h f st = Inr st"
  by (auto simp: migrate_one_def recorded_def)

lemma migrate_spec_recorded:
  "migrate_spec x h fs st = (Inr (), st') \<Longrightarrow>
    (\<forall>f \<in> set fs. recorded h (fst st') f) \<and> (\<forall>g. recorded h (fst st) g \<longrightarrow> recorded h (fst st') g)"
proof (induction fs arbitrary: st)
  case (Cons f fs)
  then obtain st1 where one: "migrate_one x h f st = Inr st1" "migrate_spec x h fs st1 = (Inr (), st')"
    by (auto split: sum.splits)
  from Cons.IH [OF one(2)] migrate_one_recorded [OF one(1)] migrate_one_keeps [OF one(1)]
  show ?case unfolding list.set(2) by blast
qed simp

lemma migrate_spec_done: "\<forall>f \<in> set fs. recorded h (fst st) f \<Longrightarrow> migrate_spec x h fs st = (Inr (), st)"
  by (induction fs) (auto simp: migrate_one_again)

section \<open>Runs with failures\<close>

definition rows_of_server :: "'d server \<Rightarrow> migrationRecord list" where
  "rows_of_server s = (case svTable s of None \<Rightarrow> [] | Some rows \<Rightarrow> rows)"

abbreviation state_of :: "'d server \<Rightarrow> migrationRecord list \<times> 'd" where
  "state_of s \<equiv> (rows_of_server s, svSchema s)"

lemma call_quiet_cases:
  assumes "call (statement e (\<lambda>s. s)) fail k s = (r, t)"
  obtains (lost) fates where "r = Inl e" "t = s\<lparr>svFates := fates\<rparr>"
    | (goes_on) fates where "k () (s\<lparr>svFates := fates\<rparr>) = (r, t)"
proof (cases "svFates s")
  case Nil
  then have "s\<lparr>svFates := []\<rparr> = s" by simp
  with assms Nil that(2) [of "[]"] show ?thesis by (simp add: call_def statement_def)
next
  case (Cons f fates)
  with assms that [of fates] show ?thesis by (cases f) (auto simp: call_def statement_def fail_def)
qed

lemma statement_cases:
  assumes "statement e f s = (r, t)"
  obtains (works) fates where "r = Inr ()" "t = f (s\<lparr>svFates := fates\<rparr>)"
    | (lost) fates where "r = Inl e" "t = s\<lparr>svFates := fates\<rparr>"
    | (unheard) fates where "r = Inl e" "t = f (s\<lparr>svFates := fates\<rparr>)"
proof (cases "svFates s")
  case Nil
  then have "s\<lparr>svFates := []\<rparr> = s" by simp
  with assms Nil that(1) [of "[]"] show ?thesis by (simp add: statement_def)
next
  case (Cons g fates)
  with assms that [of fates] show ?thesis by (cases g) (auto simp: statement_def)
qed

lemma rows_of_fates [simp]: "rows_of_server (s\<lparr>svFates := f\<rparr>) = rows_of_server s"
  by (simp add: rows_of_server_def)

text \<open>A transaction leaves the state as it was, or as the file leaves it; when it reports success, the latter.\<close>

lemma applyMigration_outcome:
  assumes run: "applyMigration x v name c content s = (r, t)" and rows: "svTable s = Some rows"
    and new: "migrationVersion name = Some v" "map_of (map (\<lambda>r. (mrVersion r, mrChecksum r)) rows) v = None" "c = h content"
  shows "svTable t \<noteq> None \<and> (r = Inr () \<longrightarrow> migrate_one x h (name, content) (state_of s) = Inr (state_of t))
    \<and> (state_of t = state_of s \<or> migrate_one x h (name, content) (state_of s) = Inr (state_of t))"
proof -
  have fresh: "v \<notin> mrVersion ` set rows"
    using new(2) by (auto simp: map_of_eq_None_iff image_iff)
  have one: "migrate_one x h (name, content) (state_of s) = (case x content (svSchema s) of
      None \<Rightarrow> Inl (MigrationFailed name)
    | Some schema \<Rightarrow> Inr (rows @ [\<lparr>mrVersion = v, mrName = name, mrChecksum = c\<rparr>], schema))"
    using new rows by (cases "x content (svSchema s)") (simp_all add: migrate_one_def rows_of_server_def)
  have same: "state_of (s\<lparr>svFates := f\<rparr>) = state_of s" "svTable (s\<lparr>svFates := f\<rparr>) = Some rows" for f
    using rows by simp_all
  from run [unfolded applyMigration_def Let_def] show ?thesis
  proof (cases rule: call_quiet_cases)
    case (goes_on f1)
    then show ?thesis
    proof (cases rule: call_quiet_cases)
      case (goes_on f2)
      show ?thesis
      proof (cases "x content (svSchema s)")
        case (Some schema)
        with goes_on have "call (statement (MigrationFailed name) (\<lambda>s. s)) fail (\<lambda>_ s. case svTable s of
             None \<Rightarrow> (Inl (MigrationFailed name), s)
           | Some rows \<Rightarrow>
             if v \<in> mrVersion ` set rows then (Inl (MigrationFailed name), s)
             else statement (MigrationFailed name) (\<lambda>s. s\<lparr>svSchema := schema, svTable := Some (rows @
                 [\<lparr>mrVersion = v, mrName = name, mrChecksum = c\<rparr>])\<rparr>) s) (s\<lparr>svFates := f2\<rparr>) = (r, t)" by simp
        then show ?thesis
        proof (cases rule: call_quiet_cases)
          case (goes_on f3)
          then have "statement (MigrationFailed name) (\<lambda>s. s\<lparr>svSchema := schema, svTable := Some (rows @
                 [\<lparr>mrVersion = v, mrName = name, mrChecksum = c\<rparr>])\<rparr>) (s\<lparr>svFates := f3\<rparr>) = (r, t)"
            using rows fresh by simp
          then show ?thesis
            by (cases rule: statement_cases) (use one Some rows in \<open>simp_all add: rows_of_server_def\<close>)
        qed (use same in simp)
      qed (use goes_on same in auto)
    qed (use same in simp)
  qed (use same in simp)
qed

text \<open>A run of the loop stops after some of the files; without failures it does what the plain reading says.\<close>

abbreviation looked_up :: "migrationRecord list \<Rightarrow> int \<Rightarrow> string option" where
  "looked_up rows \<equiv> map_of (map (\<lambda>r. (mrVersion r, mrChecksum r)) rows)"

lemma migrate_one_elsewhere:
  assumes "migrate_one x h f st = Inr st'" "migrationVersion (fst f) \<noteq> Some v"
  shows "looked_up (fst st') v = looked_up (fst st) v"
  using assms by (auto simp: migrate_one_def map_add_def split: option.splits if_splits)

lemma migrate_one_applied:
  assumes "migrationVersion name = Some v" "svTable s = Some rows" "looked_up rows v = Some k"
  shows "migrate_one x h (name, content) (state_of s) = (if k \<noteq> h content then Inl (ChecksumChanged name) else Inr (state_of s))"
  using assms by (simp add: migrate_one_def rows_of_server_def)

lemma migrate_files_outcome:
  assumes "migrate_files x h applied fs s = (r, t)" "svTable s = Some rows" "distinct (map (migrationVersion \<circ> fst) fs)"
    "\<And>f v. f \<in> set fs \<Longrightarrow> migrationVersion (fst f) = Some v \<Longrightarrow> map_of applied v = looked_up rows v"
  shows "svTable t \<noteq> None \<and> (\<exists>pre post. fs = pre @ post \<and> migrate_spec x h pre (state_of s) = (Inr (), state_of t)
    \<and> (r = Inr () \<longrightarrow> post = []))"
  using assms
proof (induction fs arbitrary: s rows)
  case Nil
  then show ?case by (auto simp: ret_def)
next
  case (Cons f fs)
  obtain name content where f: "f = (name, content)" by (cases f)
  have stop: ?case if "r \<noteq> Inr ()" "t = s"
    using that Cons.prems(2) by (intro conjI exI [of _ "[]"] exI [of _ "f # fs"]) auto
  show ?case
  proof (cases "migrationVersion name")
    case None
    with Cons.prems(1) f have "r \<noteq> Inr ()" "t = s" by (auto simp: fail_def)
    then show ?thesis by (rule stop)
  next
    case (Some v)
    have known: "map_of applied v = looked_up rows v" using Cons.prems(4) [of f v] f Some by simp
    have others: "migrationVersion (fst g) \<noteq> Some v" if "g \<in> set fs" for g
      using Cons.prems(3) that f Some by (force simp: image_iff)
    show ?thesis
    proof (cases "looked_up rows v")
      case None
      then have "call (applyMigration x v name (h content) content) fail (\<lambda>_. migrate_files x h applied fs) s = (r, t)"
        using Cons.prems(1) f Some known by (simp add: Let_def)
      then obtain r1 s1 where one: "applyMigration x v name (h content) content s = (r1, s1)"
        and go: "(case r1 of Inl e \<Rightarrow> fail e s1 | Inr _ \<Rightarrow> migrate_files x h applied fs s1) = (r, t)"
        by (auto simp: call_def split: prod.splits)
      note out = applyMigration_outcome [OF one Cons.prems(2) Some None, where h = h, OF refl]
      then obtain rows1 where rows1: "svTable s1 = Some rows1" by auto
      show ?thesis
      proof (cases r1)
        case (Inl e)
        with go have "r \<noteq> Inr ()" "t = s1" by (auto simp: fail_def)
        moreover from out consider "state_of s1 = state_of s" | "migrate_one x h f (state_of s) = Inr (state_of s1)"
          using f by blast
        then show ?thesis
        proof cases
          case 1
          then show ?thesis using calculation rows1
            by (intro conjI exI [of _ "[]"] exI [of _ "f # fs"]) auto
        next
          case 2
          then show ?thesis using calculation rows1
            by (intro conjI exI [of _ "[f]"] exI [of _ fs]) auto
        qed
      next
        case (Inr u)
        then have mine: "migrate_one x h f (state_of s) = Inr (state_of s1)" using out f by simp
        have table: "map_of applied w = looked_up rows1 w" if "g \<in> set fs" "migrationVersion (fst g) = Some w" for g w
        proof -
          have "w \<noteq> v" using others [OF that(1)] that(2) by blast
          then have "looked_up rows1 w = looked_up rows w"
            using migrate_one_elsewhere [OF mine, of w] f Some Cons.prems(2) rows1 by (simp add: rows_of_server_def)
          then show ?thesis using Cons.prems(4) [of g w] that by simp
        qed
        have "migrate_files x h applied fs s1 = (r, t)" "distinct (map (migrationVersion \<circ> fst) fs)"
          using go Inr Cons.prems(3) by (simp_all add: comp_def)
        then have "svTable t \<noteq> None \<and> (\<exists>pre post. fs = pre @ post
          \<and> migrate_spec x h pre (state_of s1) = (Inr (), state_of t) \<and> (r = Inr () \<longrightarrow> post = []))"
          using rows1 by (intro Cons.IH) (simp_all add: table comp_def)
        then obtain pre post where "svTable t \<noteq> None" "fs = pre @ post"
          "migrate_spec x h pre (state_of s1) = (Inr (), state_of t)" "r = Inr () \<longrightarrow> post = []" by blast
        then show ?thesis using mine by (intro conjI exI [of _ "f # pre"] exI [of _ post]) auto
      qed
    next
      case (Some k)
      note one = migrate_one_applied [OF \<open>migrationVersion name = Some v\<close> Cons.prems(2) Some, where x = x and h = h and content = content]
      show ?thesis
      proof (cases "k = h content")
        case True
        then have "migrate_files x h applied fs s = (r, t)"
          using Cons.prems(1) f Some known \<open>migrationVersion name = Some v\<close> by (simp add: Let_def)
        moreover have "map_of applied w = looked_up rows w" if "g \<in> set fs" "migrationVersion (fst g) = Some w" for g w
          using Cons.prems(4) [of g w] that by simp
        ultimately have "svTable t \<noteq> None \<and> (\<exists>pre post. fs = pre @ post
          \<and> migrate_spec x h pre (state_of s) = (Inr (), state_of t) \<and> (r = Inr () \<longrightarrow> post = []))"
          using Cons.prems(2,3) by (intro Cons.IH) (simp_all add: comp_def)
        then obtain pre post where "svTable t \<noteq> None" "fs = pre @ post"
          "migrate_spec x h pre (state_of s) = (Inr (), state_of t)" "r = Inr () \<longrightarrow> post = []" by auto
        then show ?thesis using one True f by (intro conjI exI [of _ "f # pre"] exI [of _ post]) auto
      next
        case False
        then have "r \<noteq> Inr ()" "t = s"
          using Cons.prems(1) f Some known \<open>migrationVersion name = Some v\<close> by (auto simp: Let_def fail_def)
        then show ?thesis by (rule stop)
      qed
    qed
  qed
qed

lemma quiet_calm: "svFates s = [] \<Longrightarrow> call (statement e (\<lambda>s. s)) fail k s = k () s"
  by (simp add: call_def statement_def)

lemma applyMigration_calm:
  assumes "svFates s = []" "svTable s = Some rows" "migrationVersion name = Some v" "looked_up rows v = None"
  shows "applyMigration x v name (h content) content s = (case migrate_one x h (name, content) (state_of s) of
      Inl e \<Rightarrow> (Inl e, s)
    | Inr st \<Rightarrow> (Inr (), s\<lparr>svTable := Some (fst st), svSchema := snd st\<rparr>))"
proof -
  have "v \<notin> mrVersion ` set rows" using assms(4) by (auto simp: map_of_eq_None_iff image_iff)
  with assms show ?thesis
    by (cases "x content (svSchema s)")
      (simp_all add: applyMigration_def Let_def migrate_one_def rows_of_server_def quiet_calm statement_def)
qed

lemma migrate_files_calm:
  assumes "svFates s = []" "svTable s = Some rows" "distinct (map (migrationVersion \<circ> fst) fs)"
    "\<And>f v. f \<in> set fs \<Longrightarrow> migrationVersion (fst f) = Some v \<Longrightarrow> map_of applied v = looked_up rows v"
  shows "migrate_files x h applied fs s = (case migrate_spec x h fs (state_of s) of
    (r, st) \<Rightarrow> (r, s\<lparr>svTable := Some (fst st), svSchema := snd st\<rparr>))"
  using assms
proof (induction fs arbitrary: s rows)
  case Nil
  then show ?case by (simp add: ret_def rows_of_server_def)
next
  case (Cons f fs)
  obtain name content where f: "f = (name, content)" by (cases f)
  have here: "s\<lparr>svTable := Some rows, svSchema := svSchema s\<rparr> = s" "rows_of_server s = rows"
    using Cons.prems(2) by (simp_all add: rows_of_server_def)
  show ?case
  proof (cases "migrationVersion name")
    case None
    then show ?thesis using f here by (simp add: fail_def migrate_one_def)
  next
    case (Some v)
    have known: "map_of applied v = looked_up rows v" using Cons.prems(4) [of f v] f Some by simp
    have others: "migrationVersion (fst g) \<noteq> Some v" if "g \<in> set fs" for g
      using Cons.prems(3) that f Some by (force simp: image_iff)
    show ?thesis
    proof (cases "looked_up rows v")
      case None
      note calm = applyMigration_calm [OF Cons.prems(1,2) Some None, where x = x and h = h and content = content]
      show ?thesis
      proof (cases "migrate_one x h f (state_of s)")
        case (Inl e)
        then show ?thesis using calm f Some known None here by (simp add: Let_def call_def fail_def)
      next
        case (Inr st)
        define s1 where "s1 = s\<lparr>svTable := Some (fst st), svSchema := snd st\<rparr>"
        have mine: "migrate_one x h f (state_of s) = Inr (state_of s1)" using Inr by (simp add: s1_def rows_of_server_def)
        have "map_of applied w = looked_up (fst st) w" if "g \<in> set fs" "migrationVersion (fst g) = Some w" for g w
        proof -
          have "w \<noteq> v" using others [OF that(1)] that(2) by blast
          then have "looked_up (fst st) w = looked_up rows w"
            using migrate_one_elsewhere [OF Inr, of w] f Some here by simp
          then show ?thesis using Cons.prems(4) [of g w] that by simp
        qed
        from Cons.IH [of s1, OF _ _ _ this] Cons.prems(1,3)
        have "migrate_files x h applied fs s1 = (case migrate_spec x h fs (state_of s1) of
            (r, st) \<Rightarrow> (r, s1\<lparr>svTable := Some (fst st), svSchema := snd st\<rparr>))" by (simp add: s1_def)
        moreover have "migrate_files x h applied (f # fs) s = migrate_files x h applied fs s1"
          using calm f Some known None Inr by (simp add: Let_def call_def s1_def)
        ultimately show ?thesis using mine by (simp add: s1_def split: prod.split)
      qed
    next
      case (Some k)
      note one = migrate_one_applied [OF \<open>migrationVersion name = Some v\<close> Cons.prems(2) Some, where x = x and h = h and content = content]
      have table: "map_of applied w = looked_up rows w" if "g \<in> set fs" "migrationVersion (fst g) = Some w" for g w
        using Cons.prems(4) [of g w] that by simp
      have "distinct (map (migrationVersion \<circ> fst) fs)" using Cons.prems(3) by (simp add: comp_def)
      from Cons.IH [OF Cons.prems(1,2) this table] show ?thesis
        using one f Some known \<open>migrationVersion name = Some v\<close> here by (simp add: Let_def fail_def)
    qed
  qed
qed

section \<open>Starting again after an interruption\<close>

lemma Migrate_calm:
  assumes "svFates s = []" "distinct (map (migrationVersion \<circ> fst) (lexical files))"
  shows "Migrate x h files s = (case migrate_spec x h (lexical files) (state_of s) of
    (r, st) \<Rightarrow> (r, s\<lparr>svTable := Some (fst st), svSchema := snd st\<rparr>))"
proof -
  define s1 where "s1 = s\<lparr>svTable := Some (rows_of_server s)\<rparr>"
  have same: "s1 = s" if "svTable s = Some rows" for rows
    using that by (simp add: s1_def rows_of_server_def)
  have "Migrate x h files s = migrate_files x h (map (\<lambda>r. (mrVersion r, mrChecksum r)) (rows_of_server s)) (lexical files) s1"
    using assms(1) same by (cases "svTable s") (simp_all add: Migrate_def acquireLock_def ensureSchemaMigrations_def
      appliedVersions_def call_def statement_def rows_of_server_def, simp add: s1_def rows_of_server_def)
  also have "\<dots> = (case migrate_spec x h (lexical files) (state_of s1) of
    (r, st) \<Rightarrow> (r, s1\<lparr>svTable := Some (fst st), svSchema := snd st\<rparr>))"
    by (rule migrate_files_calm) (use assms in \<open>simp_all add: s1_def\<close>)
  finally show ?thesis by (simp add: s1_def rows_of_server_def split: prod.split)
qed

lemma Migrate_outcome:
  assumes run: "Migrate x h files s = (r, t)" and distinct: "distinct (map (migrationVersion \<circ> fst) (lexical files))"
  shows "\<exists>pre post. lexical files = pre @ post \<and> migrate_spec x h pre (state_of s) = (Inr (), state_of t)"
proof -
  have still: ?thesis if "state_of t = state_of s"
    using that by (intro exI [of _ "[]"] exI [of _ "lexical files"]) simp
  have lock: "call (statement LockFailed (\<lambda>s. s)) fail (\<lambda>_. call ensureSchemaMigrations fail (\<lambda>_. call appliedVersions fail (\<lambda>applied.
      migrate_files x h applied (lexical files)))) s = (r, t)"
    using run by (simp add: Migrate_def acquireLock_def)
  from lock show ?thesis
  proof (cases rule: call_quiet_cases)
    case (lost f)
    then show ?thesis by (intro still) simp
  next
    case (goes_on f)
    obtain r1 s1 where table: "ensureSchemaMigrations (s\<lparr>svFates := f\<rparr>) = (r1, s1)" by fastforce
    have same: "state_of s1 = state_of s"
      using table unfolding ensureSchemaMigrations_def
      by (cases rule: statement_cases) (auto simp: rows_of_server_def split: option.splits)
    show ?thesis
    proof (cases r1)
      case (Inl e)
      then have "t = s1" using goes_on table by (simp add: call_def fail_def)
      with same show ?thesis by (intro still) simp
    next
      case (Inr u)
      then obtain rows where "svTable s1 = Some rows"
        using table Inr by (cases "svTable s"; cases f rule: list.exhaust)
          (auto simp: ensureSchemaMigrations_def statement_def split: fate.splits)
      from Inr goes_on table have "call appliedVersions fail (\<lambda>applied. migrate_files x h applied (lexical files)) s1 = (r, t)"
        by (simp add: call_def)
      then have "call (statement ReadFailed (\<lambda>s. s)) fail (\<lambda>_ s. case svTable s of None \<Rightarrow> (Inl ReadFailed, s)
        | Some rows \<Rightarrow> migrate_files x h (map (\<lambda>r. (mrVersion r, mrChecksum r)) rows) (lexical files) s) s1 = (r, t)"
        by (auto simp: appliedVersions_def call_def fail_def split: prod.splits sum.splits option.splits)
      then show ?thesis
      proof (cases rule: call_quiet_cases)
        case (lost f)
        then show ?thesis using same by (intro still) simp
      next
        case (goes_on f)
        then have "migrate_files x h (map (\<lambda>r. (mrVersion r, mrChecksum r)) rows) (lexical files) (s1\<lparr>svFates := f\<rparr>) = (r, t)"
          using \<open>svTable s1 = Some rows\<close> by simp
        from migrate_files_outcome [OF this _ distinct] show ?thesis using \<open>svTable s1 = Some rows\<close> same by auto
      qed
    qed
  qed
qed

text \<open>Runs one after another, each with a schedule of its own.\<close>

fun migrate_runs ::
  "(string \<Rightarrow> 'd \<Rightarrow> 'd option) \<Rightarrow> (string \<Rightarrow> string) \<Rightarrow> (string \<times> string) list \<Rightarrow> fate list list \<Rightarrow> 'd server \<Rightarrow> 'd server" where
  "migrate_runs exec_sql checksumHex files [] s = s"
| "migrate_runs exec_sql checksumHex files (fates # schedules) s =
    migrate_runs exec_sql checksumHex files schedules (snd (Migrate exec_sql checksumHex files (s\<lparr>svFates := fates\<rparr>)))"

lemma migrate_spec_resumes:
  assumes "fs = pre @ post" "migrate_spec x h pre st = (Inr (), st1)"
  shows "migrate_spec x h fs st1 = migrate_spec x h fs st"
  using assms migrate_spec_recorded [OF assms(2)] by (simp add: migrate_spec_append migrate_spec_done)

lemma migrate_runs_resume:
  assumes "distinct (map (migrationVersion \<circ> fst) (lexical files))"
  shows "migrate_spec x h (lexical files) (state_of (migrate_runs x h files schedules s))
    = migrate_spec x h (lexical files) (state_of s)"
proof (induction schedules arbitrary: s)
  case (Cons fates schedules)
  obtain r t where run: "Migrate x h files (s\<lparr>svFates := fates\<rparr>) = (r, t)" by fastforce
  from Migrate_outcome [OF run assms] obtain pre post where "lexical files = pre @ post"
    "migrate_spec x h pre (state_of s) = (Inr (), state_of t)" by auto
  from migrate_spec_resumes [OF this] Cons.IH [of t] run show ?case by simp
qed simp

text \<open>C9: Migrations can be interrupted anywhere.  When the files' version prefixes differ, then after any
  number of runs of Migrate, each losing any statements or answers (so a commit may have happened
  although the run saw an error), one run in which every statement works ends exactly like a run
  that was never preceded by an interrupted one: same result, same schema, same recorded
  migrations.  In particular no migration is ever applied twice or left half applied.
\<close>

theorem interrupted_migration_resumes:
  assumes "distinct (map (migrationVersion \<circ> fst) (lexical files))"
  shows "Migrate exec_sql checksumHex files ((migrate_runs exec_sql checksumHex files schedules s)\<lparr>svFates := []\<rparr>)
    = Migrate exec_sql checksumHex files (s\<lparr>svFates := []\<rparr>)"
  using assms by (simp add: Migrate_calm migrate_runs_resume split: prod.split)

theorem interrupted_migration_resumes_witness:
  "Migrate (\<lambda>sql schema. Some (schema @ [sql])) (\<lambda>content. content) [(''0002_b.sql'', ''b''), (''0001_a.sql'', ''a'')]
    ((migrate_runs (\<lambda>sql schema. Some (schema @ [sql])) (\<lambda>content. content) [(''0002_b.sql'', ''b''), (''0001_a.sql'', ''a'')]
      [[Works, Works, Works, Works, Works, Works, Unheard], [Lost]] \<lparr>svTable = None, svSchema = [], svFates = []\<rparr>)\<lparr>svFates := []\<rparr>)
    = (Inr (), \<lparr>svTable = Some [\<lparr>mrVersion = 1, mrName = ''0001_a.sql'', mrChecksum = ''a''\<rparr>,
        \<lparr>mrVersion = 2, mrName = ''0002_b.sql'', mrChecksum = ''b''\<rparr>], svSchema = [''a'', ''b''], svFates = []\<rparr>)"
proof -
  have "distinct (map (migrationVersion \<circ> fst) (lexical [(''0002_b.sql'', ''b''), (''0001_a.sql'', ''a'')]))"
    by code_simp
  note same = interrupted_migration_resumes [OF this, of "\<lambda>sql schema. Some (schema @ [sql])" "\<lambda>content. content"
    "[[Works, Works, Works, Works, Works, Works, Unheard], [Lost]]" "\<lparr>svTable = None, svSchema = [], svFates = []\<rparr>"]
  show ?thesis by (subst same) code_simp
qed

end
