(* ===== verification/Retries.thy ===== *)
theory Retries
  imports StoreJobs
begin

text \<open>
  Retrying ends, unless claims are lost.  A history of a queue in which nothing is enqueued or put
  back by hand interleaves the claims of any workers with the statements that close an attempt,
  each of which may fail or never be reached (a worker that vanishes), while time passes.  Every
  claim is counted, and so is every take-over, the claim of a job that is still marked as claimed
  by somebody else.  The attempts left over all jobs are a measure that every other claim decreases
  and no step increases.
\<close>

section \<open>Histories\<close>

text \<open>The job was claimed already: its worker vanished, or its closing statement failed.\<close>

definition taken_over :: "job \<Rightarrow> world \<Rightarrow> bool" where
  "taken_over j s \<longleftrightarrow> (\<exists>q \<in> set (jobs (wdb s)). jID q = jID j \<and> jStatus q = JobClaimed)"

text \<open>\<^verbatim>\<open>attempts n k s t\<close>: from \<^verbatim>\<open>s\<close> to \<^verbatim>\<open>t\<close> with \<^verbatim>\<open>n\<close> claims, \<^verbatim>\<open>k\<close> of them take-overs.  A step
  of \<^verbatim>\<open>elsewhere\<close> is anything that leaves the queue alone: time, failures, the work of a handler.\<close>

inductive attempts :: "nat \<Rightarrow> nat \<Rightarrow> world \<Rightarrow> world \<Rightarrow> bool" where
  start: "attempts 0 0 s s"
| elsewhere: "attempts n k s t \<Longrightarrow> jobs (wdb t') = jobs (wdb t) \<Longrightarrow> attempts n k s t'"
| claimed: "attempts n k s t \<Longrightarrow> ClaimJob w st t = (Inr j, t') \<Longrightarrow> \<not> taken_over j t \<Longrightarrow> attempts (Suc n) k s t'"
| took_over: "attempts n k s t \<Longrightarrow> ClaimJob w st t = (Inr j, t') \<Longrightarrow> taken_over j t \<Longrightarrow> attempts (Suc n) (Suc k) s t'"
| failed: "attempts n k s t \<Longrightarrow> FailJob i e backoff t = (r, t') \<Longrightarrow> attempts n k s t'"
| completed: "attempts n k s t \<Longrightarrow> CompleteJob i t = (r', t') \<Longrightarrow> attempts n k s t'"

definition waiting :: "job \<Rightarrow> bool" where
  "waiting j \<longleftrightarrow> jStatus j = JobQueued \<or> jStatus j = JobFailed"

definition attempts_left :: "job \<Rightarrow> nat" where
  "attempts_left j = (if waiting j \<or> jStatus j = JobClaimed then nat (jMaxAttempts j - jAttempts j) else 0)"

definition budget :: "world \<Rightarrow> nat" where
  "budget s = sum_list (map attempts_left (jobs (wdb s)))"

text \<open>A waiting job has an attempt left.\<close>

definition queue_ok :: "world \<Rightarrow> bool" where
  "queue_ok s \<longleftrightarrow> distinct (map jID (jobs (wdb s)))
    \<and> (\<forall>j \<in> set (jobs (wdb s)). waiting j \<longrightarrow> jAttempts j < jMaxAttempts j)"

section \<open>One step\<close>

lemma sum_update_where:
  fixes h :: "job \<Rightarrow> nat"
  assumes "distinct (map jID js)" "j \<in> set js"
  shows "sum_list (map h (update_where (\<lambda>q. jID q = jID j) f js)) + h j = sum_list (map h js) + h (f j)"
  using assms
proof (induction js)
  case (Cons q js)
  show ?case
  proof (cases "q = j")
    case True
    with Cons.prems(1) have "update_where (\<lambda>q. jID q = jID j) f js = js"
      by (intro update_where_none) (auto simp: image_iff)
    with True show ?thesis by simp
  next
    case False
    with Cons.prems have "jID q \<noteq> jID j" "j \<in> set js" by auto
    with Cons show ?thesis by simp
  qed
qed simp

lemma sum_update_le:
  fixes h :: "job \<Rightarrow> nat"
  assumes "\<And>j. P j \<Longrightarrow> h (f j) \<le> h j"
  shows "sum_list (map h (update_where P f js)) \<le> sum_list (map h js)"
  by (induction js) (auto simp: update_where_def intro: add_mono assms)

text \<open>A claim costs an attempt; only a take-over may cost none.\<close>

lemma claim_step:
  assumes "queue_ok t" "ClaimJob w st t = (Inr c, t')"
  shows "queue_ok t'" "budget t' \<le> budget t" "\<not> taken_over c t \<Longrightarrow> budget t' < budget t"
proof -
  from assms(2) obtain j where j: "c = claim w (wnow t) j" "next_job (wnow t) st (jobs (wdb t)) = Some j"
    "jobs (wdb t') = update_where (\<lambda>q. jID q = jID j) (claim w (wnow t)) (jobs (wdb t))"
    by (cases rule: ClaimJob_cases) auto
  have mem: "j \<in> set (jobs (wdb t))" "claimable (wnow t) st j" using next_job_Some(1,2) [OF j(2)] .
  have sum: "budget t' + attempts_left j = budget t + attempts_left (claim w (wnow t) j)"
    using sum_update_where [of "jobs (wdb t)" j attempts_left "claim w (wnow t)"] assms(1) mem(1)
    by (simp add: budget_def j(3) queue_ok_def)
  have state: "waiting j \<or> jStatus j = JobClaimed" using mem(2) by (auto simp: claimable_def waiting_def)
  then have "attempts_left (claim w (wnow t) j) \<le> attempts_left j"
    by (auto simp: attempts_left_def claim_def)
  with sum show "budget t' \<le> budget t" by simp
  have keys: "map jID (jobs (wdb t')) = map jID (jobs (wdb t))"
    unfolding j(3) by (rule map_update_where) (simp add: claim_def)
  with assms(1) show "queue_ok t'"
    unfolding queue_ok_def by (auto simp: j(3) set_update_where waiting_def claim_def)
  assume "\<not> taken_over c t"
  with mem(1) j(1) have "jStatus j \<noteq> JobClaimed" by (auto simp: taken_over_def claim_def)
  with state assms(1) mem(1) have "waiting j" "jAttempts j < jMaxAttempts j" by (auto simp: queue_ok_def)
  then have "attempts_left (claim w (wnow t) j) < attempts_left j"
    by (auto simp: attempts_left_def claim_def)
  with sum show "budget t' < budget t" by simp
qed

text \<open>Closing an attempt, whether the statement succeeds or not.\<close>

lemma close_step:
  assumes "queue_ok t" "jobs (wdb t') = update_where P f (jobs (wdb t))"
    and "\<And>q. jID (f q) = jID q" "\<And>q. P q \<Longrightarrow> attempts_left (f q) \<le> attempts_left q"
    and "\<And>q. P q \<Longrightarrow> waiting (f q) \<Longrightarrow> jAttempts (f q) < jMaxAttempts (f q)"
  shows "queue_ok t' \<and> budget t' \<le> budget t"
proof -
  have "map jID (jobs (wdb t')) = map jID (jobs (wdb t))"
    unfolding assms(2) by (rule map_update_where) (simp add: assms(3))
  moreover have "budget t' \<le> budget t" unfolding budget_def assms(2) by (rule sum_update_le) (rule assms(4))
  ultimately show ?thesis using assms(1,5) by (auto simp: queue_ok_def assms(2) set_update_where)
qed

lemma FailJob_rows:
  assumes "FailJob i e b t = (r, t')"
  shows "jobs (wdb t') = jobs (wdb t) \<or>
    jobs (wdb t') = update_where (\<lambda>j. jID j = i \<and> jStatus j = JobClaimed) (fail_row e b (wnow t)) (jobs (wdb t))"
  using assms [unfolded FailJob_def] by (cases rule: exec_cases) (auto split: option.splits)

lemma CompleteJob_rows:
  assumes "CompleteJob i t = (r, t')"
  shows "jobs (wdb t') = jobs (wdb t) \<or>
    jobs (wdb t') = update_where (\<lambda>j. jID j = i \<and> jStatus j = JobClaimed)
    (\<lambda>j. j\<lparr>jStatus := JobDone, jLockedBy := None, jLockedAt := None, jUpdatedAt := wnow t\<rparr>) (jobs (wdb t))"
  using assms by (auto simp: CompleteJob_def guarded_update_def exec_def stmt_def call_def ret_def fail_def
      split: list.splits if_splits sum.splits prod.splits)

lemma same_queue: "jobs (wdb t') = jobs (wdb t) \<Longrightarrow> queue_ok t' = queue_ok t \<and> budget t' = budget t"
  by (simp add: queue_ok_def budget_def)

lemma fail_step:
  assumes "queue_ok t" "FailJob i e b t = (r, t')"
  shows "queue_ok t' \<and> budget t' \<le> budget t"
  using FailJob_rows [OF assms(2)]
proof
  assume "jobs (wdb t') = jobs (wdb t)"
  with same_queue [OF this] assms(1) show ?thesis by simp
next
  assume "jobs (wdb t') = update_where (\<lambda>j. jID j = i \<and> jStatus j = JobClaimed) (fail_row e b (wnow t)) (jobs (wdb t))"
  then show ?thesis
    by (rule close_step [OF assms(1)]) (auto simp: fail_row_def attempts_left_def waiting_def split: if_splits)
qed

lemma complete_step:
  assumes "queue_ok t" "CompleteJob i t = (r, t')"
  shows "queue_ok t' \<and> budget t' \<le> budget t"
  using CompleteJob_rows [OF assms(2)]
proof
  assume "jobs (wdb t') = jobs (wdb t)"
  with same_queue [OF this] assms(1) show ?thesis by simp
next
  assume "jobs (wdb t') = update_where (\<lambda>j. jID j = i \<and> jStatus j = JobClaimed)
    (\<lambda>j. j\<lparr>jStatus := JobDone, jLockedBy := None, jLockedAt := None, jUpdatedAt := wnow t\<rparr>) (jobs (wdb t))"
  then show ?thesis
    by (rule close_step [OF assms(1)]) (auto simp: attempts_left_def waiting_def)
qed

lemma attempts_measure: "attempts n k s t \<Longrightarrow> queue_ok s \<Longrightarrow> queue_ok t \<and> n + budget t \<le> k + budget s"
proof (induction rule: attempts.induct)
  case (elsewhere n k s t t')
  with same_queue [of t' t] show ?case by simp
next
  case (claimed n k s t w st j t')
  with claim_step [of t w st j t'] show ?case by fastforce
next
  case (took_over n k s t w st j t')
  with claim_step [of t w st j t'] show ?case by fastforce
next
  case (failed n k s t i e b r t')
  with fail_step [of t i e b r t'] show ?case by fastforce
next
  case (completed n k s t i r t')
  with complete_step [of t i r t'] show ?case by fastforce
qed simp

section \<open>The bound\<close>

text \<open>C19: a job is not retried for ever as long as its attempts are closed: in every history of a queue
  to which nothing is added or put back by hand, however workers and handlers interleave, whatever the delays and
  whatever statement fails, the number of claims is at most the attempts the jobs have left, plus
  the number of take-overs.  A take-over is the claim of a job that is still marked as claimed,
  because its worker vanished or the statement that closes the attempt failed; such claims do not
  look at the maximum, so a job that loses every claim is taken over without end.\<close>

theorem attempts_bounded:
  assumes "attempts n k s t" "distinct (map jID (jobs (wdb s)))"
    and "\<forall>j \<in> set (jobs (wdb s)). jStatus j = JobQueued \<or> jStatus j = JobFailed \<longrightarrow> jAttempts j < jMaxAttempts j"
  shows "n \<le> k + (\<Sum>j \<leftarrow> jobs (wdb s). if jStatus j \<in> {JobQueued, JobFailed, JobClaimed}
    then nat (jMaxAttempts j - jAttempts j) else 0)"
proof -
  have "queue_ok s" using assms(2,3) by (simp add: queue_ok_def waiting_def)
  moreover have "attempts_left = (\<lambda>j. if jStatus j \<in> {JobQueued, JobFailed, JobClaimed}
      then nat (jMaxAttempts j - jAttempts j) else 0)"
    by (auto simp: attempts_left_def waiting_def)
  ultimately show ?thesis using attempts_measure [OF assms(1)] by (simp add: budget_def)
qed

abbreviation one_job :: world where
  "one_job \<equiv> (deployed 10)\<lparr>wdb := migrated\<lparr>jobs := [sample_job 2 3]\<rparr>\<rparr>"

text \<open>One attempt that fails, and the job waits again: one claim, no take-over, three allowed.\<close>

theorem attempts_bounded_witness:
  "\<exists>t. attempts 1 0 one_job t \<and> map jStatus (jobs (wdb t)) = [JobFailed] \<and> (1 :: nat) \<le> 3"
proof -
  let ?t = "snd (ClaimJob ''w'' 60 one_job)"
  let ?u = "snd (FailJob 2 ErrMail 0 ?t)"
  have c: "ClaimJob ''w'' 60 one_job = (Inr (claim ''w'' 10 (sample_job 2 3)), ?t)"
    by (simp add: ClaimJob_def op_simps deployed_def next_job_def claimable_def claim_def)
  have "attempts 1 0 one_job ?t"
    using attempts.claimed [OF attempts.start c] by (simp add: taken_over_def claim_def)
  then have run: "attempts 1 0 one_job ?u"
    by (rule attempts.failed) (rule surjective_pairing)
  have status: "map jStatus (jobs (wdb ?u)) = [JobFailed]"
    by (simp add: ClaimJob_def FailJob_def op_simps deployed_def next_job_def claimable_def claim_def fail_row_def)
  have "distinct (map jID (jobs (wdb one_job)))" "\<forall>j \<in> set (jobs (wdb one_job)).
      jStatus j = JobQueued \<or> jStatus j = JobFailed \<longrightarrow> jAttempts j < jMaxAttempts j"
    by simp_all
  from attempts_bounded [OF run this] have "(1 :: nat) \<le> 3" by simp
  with run status show ?thesis by (intro exI [of _ ?u] conjI)
qed

text \<open>The take-overs are real: a job whose attempts are used up and whose claim went stale is claimed
  once more.\<close>

lemma stale_claim_over_maximum:
  fixes s j
  defines "j \<equiv> (sample_job 2 3)\<lparr>jStatus := JobClaimed, jAttempts := 3, jLockedAt := Some 0\<rparr>"
  assumes "s = (deployed 100)\<lparr>wdb := migrated\<lparr>jobs := [j]\<rparr>\<rparr>"
  shows "fst (ClaimJob ''w'' 60 s) = Inr (claim ''w'' 100 j)" "taken_over (claim ''w'' 100 j) s"
    "jMaxAttempts (claim ''w'' 100 j) < jAttempts (claim ''w'' 100 j)"
  by (simp_all add: assms ClaimJob_def op_simps deployed_def next_job_def claimable_def claim_def taken_over_def)

end
