(* ===== verification/QRField.thy ===== *)
theory QRField
  imports GigPrelude "HOL-Library.Word"
begin

text \<open>
  The Reed-Solomon part of the QR encoder (\<^verbatim>\<open>src/services/qrcode.go\<close>): arithmetic in the field of
  256 elements through tables of powers and logarithms, the generator polynomial and the remainder
  that becomes the error correction codewords.  Proved: the tables are the powers of 2 modulo the
  polynomial 0x11D, \<^verbatim>\<open>qrGFMul\<close> is a commutative, associative product that distributes over exclusive
  or, and what \<^verbatim>\<open>reedSolomonRemainder\<close> appends makes a word that vanishes at every root of the generator.
\<close>

unbundle bit_operations_syntax

type_synonym byte = "8 word"

section \<open>The tables\<close>

text \<open>The loop of \<^verbatim>\<open>init\<close>, with \<^verbatim>\<open>x\<close> as it runs through the powers of 2, and its second loop.\<close>

definition next_power :: "nat \<Rightarrow> nat" where
  "next_power x = (if 256 \<le> 2 * x then (2 * x) XOR 0x11D else 2 * x)"

primrec fill_tables :: "nat \<Rightarrow> nat \<times> byte list \<times> byte list" where
  "fill_tables 0 = (1, replicate 512 0, replicate 256 0)"
| "fill_tables (Suc i) = (let (x, expo, logs) = fill_tables i in
    (next_power x, expo[i := word_of_nat x], logs[x := word_of_nat i]))"

definition double_exp :: "byte list \<Rightarrow> byte list" where
  "double_exp expo = fold (\<lambda>i e. e[i := e ! (i - 255)]) [255..<512] expo"

definition qrGFExp :: "byte list" where
  "qrGFExp = double_exp (fst (snd (fill_tables 255)))"

definition qrGFLog :: "byte list" where
  "qrGFLog = snd (snd (fill_tables 255))"

definition qrGFMul :: "byte \<Rightarrow> byte \<Rightarrow> byte" where
  "qrGFMul a b = (if a = 0 \<or> b = 0 then 0
    else qrGFExp ! (unat (qrGFLog ! unat a) + unat (qrGFLog ! unat b)))"

section \<open>Reed-Solomon codes\<close>

text \<open>One round of \<^verbatim>\<open>reedSolomonDivisor\<close>: the inner loop reads each next coefficient before it is
  overwritten.\<close>

fun times_root :: "byte \<Rightarrow> byte list \<Rightarrow> byte list" where
  "times_root root [] = []"
| "times_root root [c] = [qrGFMul c root]"
| "times_root root (c # d # cs) = (qrGFMul c root XOR d) # times_root root (d # cs)"

primrec divisor_loop :: "nat \<Rightarrow> nat \<Rightarrow> byte list \<times> byte" where
  "divisor_loop 0 degree = ((replicate degree 0)[degree - 1 := 1], 1)"
| "divisor_loop (Suc i) degree =
    (let (coeffs, root) = divisor_loop i degree in (times_root root coeffs, qrGFMul root 2))"

definition reedSolomonDivisor :: "nat \<Rightarrow> byte list" where
  "reedSolomonDivisor degree = fst (divisor_loop degree degree)"

definition remainder_step :: "byte list \<Rightarrow> byte \<Rightarrow> byte list \<Rightarrow> byte list" where
  "remainder_step divisor d rem =
    (let factor = d XOR hd rem in map2 (\<lambda>r c. r XOR qrGFMul c factor) (tl rem @ [0]) divisor)"

definition reedSolomonRemainder :: "byte list \<Rightarrow> byte list \<Rightarrow> byte list" where
  "reedSolomonRemainder data divisor = fold (remainder_step divisor) data (replicate (length divisor) 0)"

section \<open>Multiplication by 2\<close>

definition double :: "byte \<Rightarrow> byte" where
  "double a = push_bit 1 a XOR (if bit a 7 then 0x1D else 0)"

lemma double_xor: "double (a XOR b) = double a XOR double b"
  by (auto simp: double_def push_bit_xor bit_xor_iff ac_simps xor.left_commute)

lemma doubles_xor: "(double ^^ n) (a XOR b) = (double ^^ n) a XOR (double ^^ n) b"
  by (induction n) (simp_all add: double_xor)

lemma double_0: "double 0 = 0"
  by (simp add: double_def)

lemma doubles_0: "(double ^^ n) 0 = 0"
  by (induction n) (simp_all add: double_0)

lemma double_eq_0: "double a = 0 \<Longrightarrow> a = 0"
proof (rule bit_eqI)
  fix n assume a: "double a = 0" and n: "possible_bit TYPE(8 word) n"
  then have n: "n < 8" by simp
  have eq: "bit (double a) k = (k < 8 \<and> ((1 \<le> k \<and> bit a (k - 1)) \<noteq> (bit a 7 \<and> bit (0x1D :: byte) k)))" for k
    using bit_imp_possible_bit [of "0x1D :: byte" k]
    by (auto simp: double_def bit_xor_iff bit_push_bit_iff simp del: push_bit_Suc)
  have no: "\<not> bit (double a) k" for k using a by simp
  have "bit (0x1D :: byte) 0" by simp
  with no [of 0] eq [of 0] have b7: "\<not> bit a 7" by simp
  show "bit a n = bit (0 :: byte) n"
  proof (cases "n = 7")
    case False
    then show ?thesis using no [of "Suc n"] eq [of "Suc n"] n b7 by auto
  qed (simp add: b7)
qed

lemma xor_eq_0: "a XOR b = 0 \<Longrightarrow> a = (b :: byte)"
  by (metis xor.assoc xor_self_eq xor.right_neutral xor.left_neutral)

lemma double_inj: "double a = double b \<Longrightarrow> a = b"
  using double_eq_0 [of "a XOR b"] xor_eq_0 by (auto simp: double_xor)

section \<open>The powers of 2\<close>

lemma next_power_bound: "x < 256 \<Longrightarrow> next_power x < 256"
proof -
  assume x: "x < 256"
  have "list_all (\<lambda>y. (2 * y) XOR 0x11D < (256 :: nat)) [128..<256]"
    by (simp add: upt_rec_numeral)
  then have "(2 * y) XOR 0x11D < 256" if "128 \<le> y" "y < 256" for y :: nat
    using that unfolding list_all_iff set_upt by (meson atLeastLessThan_iff)
  with x show ?thesis by (auto simp: next_power_def)
qed

lemma next_power_double: "x < 256 \<Longrightarrow> word_of_nat (next_power x) = double (word_of_nat x)"
proof -
  assume x: "x < 256"
  have low: "bit (word_of_nat x :: byte) 7 \<longleftrightarrow> 128 \<le> x"
    using x by (cases "x < 128") (simp_all only: bit_of_nat_iff, simp_all add: bit_iff_odd le_div_geq)
  have "(word_of_nat (2 * x) :: byte) = push_bit 1 (word_of_nat x)" by simp
  have wrap: "(0x11D :: byte) = 0x1D" by simp
  show ?thesis
    using low by (auto simp: next_power_def double_def of_nat_xor_eq mult.commute wrap)
qed

primrec avoids_one :: "nat \<Rightarrow> nat \<Rightarrow> bool" where
  "avoids_one 0 a = True"
| "avoids_one (Suc n) a \<longleftrightarrow> a \<noteq> 1 \<and> avoids_one n (next_power a)"

lemma avoids_one_numeral:
  "avoids_one (numeral k) a \<longleftrightarrow> a \<noteq> 1 \<and> avoids_one (pred_numeral k) (next_power a)"
  by (simp add: numeral_eq_Suc)

lemma avoids_oneD: "avoids_one n a \<Longrightarrow> i < n \<Longrightarrow> (next_power ^^ i) a \<noteq> 1"
proof (induction n arbitrary: a i)
  case (Suc n)
  then show ?case by (cases i) (auto simp: funpow_swap1)
qed simp

lemma order_of_2: "avoids_one 254 2"
  by (simp add: avoids_one_numeral next_power_def)

primrec walk :: "nat \<Rightarrow> nat \<Rightarrow> nat" where
  "walk 0 a = a"
| "walk (Suc n) a = walk n (next_power a)"

lemma walk_numeral: "walk (numeral k) a = walk (pred_numeral k) (next_power a)"
  by (simp add: numeral_eq_Suc)

lemma walk_funpow: "walk n a = (next_power ^^ n) a"
  by (induction n arbitrary: a) (simp_all add: funpow_swap1)

lemma walk_255: "walk 255 1 = 1"
  by (simp add: walk_numeral next_power_def)

lemma power_bound: "(next_power ^^ i) 1 < 256"
  by (induction i) (simp_all add: next_power_bound del: One_nat_def)

lemma powers_word: "word_of_nat ((next_power ^^ i) 1) = (double ^^ i) (1 :: byte)"
  by (induction i) (simp_all add: next_power_double power_bound del: One_nat_def)

definition pow2 :: "nat \<Rightarrow> byte" where
  "pow2 i = (double ^^ i) 1"

lemma pow2_nat: "(next_power ^^ i) 1 = unat (pow2 i)"
proof -
  have "unat (word_of_nat ((next_power ^^ i) 1) :: byte) = (next_power ^^ i) 1"
    using power_bound [of i] by (simp add: unat_of_nat)
  then show ?thesis by (simp add: pow2_def powers_word del: One_nat_def)
qed

lemma pow2_simps: "pow2 0 = 1" "pow2 (Suc i) = double (pow2 i)"
  by (simp_all add: pow2_def)

lemma pow2_add: "pow2 (i + j) = (double ^^ i) (pow2 j)"
  by (simp add: pow2_def funpow_add)

lemma pow2_nonzero: "pow2 i \<noteq> 0"
  by (induction i) (auto simp: pow2_simps dest: double_eq_0)

lemma pow2_255: "pow2 255 = 1"
proof -
  have "(next_power ^^ 255) 1 = 1" by (rule walk_255 [unfolded walk_funpow])
  then have "unat (pow2 255) = unat (1 :: byte)" unfolding pow2_nat by simp
  then show ?thesis by (rule unsigned_word_eqI)
qed

lemma pow2_period: "pow2 (i + 255) = pow2 i"
  unfolding pow2_add [of i] pow2_255 by (simp add: pow2_def)

lemma pow2_neq_1:
  assumes "0 < i" "i < 255" shows "pow2 i \<noteq> 1"
proof
  assume "pow2 i = 1"
  then have "(next_power ^^ i) 1 = 1" unfolding pow2_nat by simp
  moreover have "(next_power ^^ i) 1 = (next_power ^^ (i - 1)) 2"
    using assms(1) by (cases i) (simp_all add: funpow_swap1 next_power_def)
  moreover have "i - 1 < 254" using assms by simp
  ultimately show False using avoids_oneD [OF order_of_2, of "i - 1"] by metis
qed

lemma doubles_inj: "(double ^^ n) a = (double ^^ n) b \<Longrightarrow> a = b"
  by (induction n) (auto dest: double_inj)

lemma pow2_inj:
  assumes "i < 255" "j < 255" "pow2 i = pow2 j" shows "i = j"
proof -
  have le: "k = l" if "k \<le> l" "l < 255" "pow2 k = pow2 l" for k l
  proof (rule ccontr)
    assume "k \<noteq> l"
    have "(double ^^ k) (pow2 0) = (double ^^ k) (pow2 (l - k))"
      using that(1,3) pow2_add [of k 0] pow2_add [of k "l - k"] by simp
    then have "pow2 (l - k) = 1" by (auto dest: doubles_inj simp: pow2_simps)
    moreover have "0 < l - k" "l - k < 255" using that \<open>k \<noteq> l\<close> by simp_all
    ultimately show False using pow2_neq_1 by metis
  qed
  show ?thesis using le [of i j] le [of j i] assms by (cases "i \<le> j") auto
qed

lemma pow2_surj:
  assumes "a \<noteq> 0" shows "\<exists>i < 255. pow2 i = a"
proof -
  have "inj_on pow2 {..<255}" by (auto simp: inj_on_def dest: pow2_inj)
  then have "card (pow2 ` {..<255}) = 255" by (simp add: card_image)
  moreover have "card (UNIV - {0 :: byte}) = 255"
    using card_Diff_singleton [of "0 :: byte" UNIV] by (simp add: card_word)
  moreover have "pow2 ` {..<255} \<subseteq> UNIV - {0}" by (auto simp: pow2_nonzero)
  ultimately have "pow2 ` {..<255} = UNIV - {0}" by (intro card_subset_eq) auto
  with assms have "a \<in> pow2 ` {..<255}" by simp
  then show ?thesis by auto
qed

section \<open>The tables hold powers and logarithms\<close>

lemma fill_tables_spec:
  assumes "i \<le> 255"
  shows "\<exists>e l. fill_tables i = ((next_power ^^ i) 1, e, l) \<and> length e = 512 \<and> length l = 256
    \<and> (\<forall>j < i. e ! j = pow2 j) \<and> (\<forall>j < i. l ! unat (pow2 j) = word_of_nat j)"
  using assms
proof (induction i)
  case (Suc i)
  then obtain e l where IH: "fill_tables i = ((next_power ^^ i) 1, e, l)" "length e = 512" "length l = 256"
    "\<forall>j < i. e ! j = pow2 j" "\<forall>j < i. l ! unat (pow2 j) = word_of_nat j" by auto
  have word: "word_of_nat ((next_power ^^ i) 1) = pow2 i" by (simp add: powers_word pow2_def del: One_nat_def)
  have other: "unat (pow2 j) \<noteq> unat (pow2 i)" if "j < i" for j
    using pow2_inj [of j i] that Suc.prems unsigned_word_eqI [of "pow2 j" "pow2 i"] by auto
  show ?case
    using IH Suc.prems other other [THEN not_sym] power_bound [of i]
    by (auto simp: word pow2_nat nth_list_update less_Suc_eq simp del: One_nat_def)
qed simp

lemma double_exp_spec:
  assumes "length e = 512" "\<forall>j < 255. e ! j = pow2 j" "255 \<le> n" "n \<le> 512"
  shows "length (fold (\<lambda>i e. e[i := e ! (i - 255)]) [255..<n] e) = 512
    \<and> (\<forall>k < n. fold (\<lambda>i e. e[i := e ! (i - 255)]) [255..<n] e ! k = pow2 k)"
  using assms(3,4)
proof (induction n rule: dec_induct)
  case base
  then show ?case using assms by simp
next
  case (step n)
  have "pow2 (n - 255) = pow2 n" using pow2_period [of "n - 255"] step.hyps by simp
  with step show ?case by (auto simp: upt_Suc_append nth_list_update less_Suc_eq)
qed

lemma tables:
  obtains e l where "fill_tables 255 = ((next_power ^^ 255) 1, e, l)" "length e = 512"
    "\<forall>j < 255. e ! j = pow2 j" "\<forall>j < 255. l ! unat (pow2 j) = word_of_nat j"
  using fill_tables_spec [OF order.refl] by blast

lemma qrGFExp_nth: "k < 512 \<Longrightarrow> qrGFExp ! k = pow2 k"
proof -
  assume k: "k < 512"
  obtain e l where t: "fill_tables 255 = ((next_power ^^ 255) 1, e, l)" "length e = 512" "\<forall>j < 255. e ! j = pow2 j"
    by (rule tables)
  have "qrGFExp = double_exp e" unfolding qrGFExp_def t(1) by simp
  then have "qrGFExp = fold (\<lambda>i e. e[i := e ! (i - 255)]) [255..<512] e" unfolding double_exp_def .
  moreover have "(255 :: nat) \<le> 512" by simp
  ultimately show ?thesis using double_exp_spec [OF t(2,3) _ order.refl] k by metis
qed

lemma qrGFLog_nth: "i < 255 \<Longrightarrow> qrGFLog ! unat (pow2 i) = word_of_nat i"
proof -
  assume i: "i < 255"
  obtain e l where t: "fill_tables 255 = ((next_power ^^ 255) 1, e, l)" "\<forall>j < 255. l ! unat (pow2 j) = word_of_nat j"
    by (rule tables)
  have "qrGFLog = l" unfolding qrGFLog_def t(1) by simp
  with t(2) i show ?thesis by simp
qed

section \<open>The product\<close>

lemma doubles_period: "(double ^^ (i mod 255)) b = (double ^^ i) b"
proof -
  have one: "(double ^^ 255) a = a" for a
  proof (cases "a = 0")
    case False
    then obtain j where "a = pow2 j" using pow2_surj by blast
    then show ?thesis using pow2_add [of 255 j] pow2_period [of j] by (simp add: add.commute)
  qed (simp add: doubles_0)
  have many: "((double ^^ 255) ^^ n) a = a" for n a by (induction n) (simp_all add: one)
  have "(double ^^ i) b = (double ^^ (i mod 255)) (((double ^^ 255) ^^ (i div 255)) b)"
    unfolding funpow_mult by (metis comp_apply funpow_add mod_mult_div_eq mult.commute)
  then show ?thesis by (simp only: many)
qed

lemma qrGFMul_pow2: "qrGFMul (pow2 i) b = (double ^^ i) b"
proof (cases "b = 0")
  case True
  then show ?thesis by (simp add: qrGFMul_def doubles_0)
next
  case False
  then obtain j where j: "j < 255" "b = pow2 j" using pow2_surj by blast
  have unat: "unat (word_of_nat k :: byte) = k" if "k < 255" for k using that by (simp add: unat_of_nat)
  have i: "i mod 255 < 255" "pow2 (i mod 255) = pow2 i" by (simp_all add: pow2_def doubles_period)
  have "qrGFMul (pow2 (i mod 255)) b = pow2 (i mod 255 + j)"
    using i(1) j unat by (simp add: qrGFMul_def pow2_nonzero qrGFLog_nth qrGFExp_nth)
  then show ?thesis unfolding i(2) pow2_add j(2) doubles_period .
qed

lemma qrGFMul_0 [simp]: "qrGFMul 0 b = 0" "qrGFMul a 0 = 0"
  by (simp_all add: qrGFMul_def)

lemma qrGFMul_comm: "qrGFMul a b = qrGFMul b a"
  by (simp add: qrGFMul_def add.commute)

lemma qrGFMul_xor: "qrGFMul a (b XOR c) = qrGFMul a b XOR qrGFMul a c"
proof (cases "a = 0")
  case False
  then obtain i where "a = pow2 i" using pow2_surj by blast
  then show ?thesis by (simp add: qrGFMul_pow2 doubles_xor)
qed simp

lemma qrGFMul_xor_left: "qrGFMul (b XOR c) a = qrGFMul b a XOR qrGFMul c a"
  by (metis qrGFMul_comm qrGFMul_xor)

lemma qrGFMul_1 [simp]: "qrGFMul 1 a = a" "qrGFMul a 1 = a"
  using qrGFMul_pow2 [of 0] qrGFMul_comm [of a 1] by (simp_all add: pow2_simps)

lemma qrGFMul_assoc: "qrGFMul (qrGFMul a b) c = qrGFMul a (qrGFMul b c)"
proof (cases "a = 0 \<or> b = 0")
  case False
  then obtain i j where "a = pow2 i" "b = pow2 j" using pow2_surj by blast
  then show ?thesis by (simp add: qrGFMul_pow2 flip: pow2_add) (simp add: qrGFMul_pow2 funpow_add)
qed auto

lemma qrGFMul_left_commute: "qrGFMul a (qrGFMul b c) = qrGFMul b (qrGFMul a c)"
  by (metis qrGFMul_assoc qrGFMul_comm)

lemmas gf_algebra = qrGFMul_xor qrGFMul_xor_left qrGFMul_assoc qrGFMul_comm qrGFMul_left_commute
  xor.assoc xor.commute xor.left_commute

lemma xor_cancel [simp]: "a XOR (a XOR b) = (b :: byte)"
  by (simp flip: xor.assoc)

section \<open>Evaluation of polynomials\<close>

text \<open>A list of codewords is read as a polynomial, highest degree first.\<close>

definition poly_at :: "byte \<Rightarrow> byte list \<Rightarrow> byte" where
  "poly_at x cs = foldl (\<lambda>acc c. qrGFMul acc x XOR c) 0 cs"

definition gf_power :: "byte \<Rightarrow> nat \<Rightarrow> byte" where
  "gf_power x n = ((qrGFMul x) ^^ n) 1"

lemma gf_power_simps [simp]: "gf_power x 0 = 1" "gf_power x (Suc n) = qrGFMul x (gf_power x n)"
  by (simp_all add: gf_power_def)

lemma foldl_poly: "foldl (\<lambda>acc c. qrGFMul acc x XOR c) a cs = qrGFMul a (gf_power x (length cs)) XOR poly_at x cs"
proof (induction cs arbitrary: a)
  case (Cons c cs)
  have "poly_at x (c # cs) = foldl (\<lambda>acc c. qrGFMul acc x XOR c) c cs" by (simp add: poly_at_def)
  with Cons [of c] Cons [of "qrGFMul a x XOR c"] show ?case by (simp add: gf_algebra)
qed (simp add: poly_at_def)

lemma poly_at_Nil [simp]: "poly_at x [] = 0"
  by (simp add: poly_at_def)

lemma poly_at_Cons [simp]: "poly_at x (c # cs) = qrGFMul c (gf_power x (length cs)) XOR poly_at x cs"
  using foldl_poly [of x c cs] by (simp add: poly_at_def)

lemma poly_at_append: "poly_at x (as @ bs) = qrGFMul (poly_at x as) (gf_power x (length bs)) XOR poly_at x bs"
  using foldl_poly [of x "poly_at x as" bs] by (simp add: poly_at_def)

lemma poly_at_combine:
  "length as = length bs \<Longrightarrow> poly_at x (map2 (\<lambda>a b. a XOR qrGFMul b f) as bs) = poly_at x as XOR qrGFMul (poly_at x bs) f"
  by (induction as bs rule: list_induct2)
    (simp_all add: gf_algebra)

lemma poly_at_zeros [simp]: "poly_at x (replicate n 0) = 0"
  by (induction n) simp_all

section \<open>Codewords vanish at the roots of the generator\<close>

lemma remainder_step_length: "length (remainder_step divisor d rem) = length divisor" if "length rem = length divisor" "rem \<noteq> []"
  using that by (simp add: remainder_step_def Let_def)

lemma remainder_step_at:
  assumes "length rem = length divisor" "rem \<noteq> []" and root: "poly_at x divisor = gf_power x (length divisor)"
  shows "poly_at x (remainder_step divisor d rem)
    = qrGFMul (poly_at x rem) x XOR qrGFMul d (gf_power x (length divisor))"
proof -
  obtain r rs where rem: "rem = r # rs" using assms(2) by (cases rem) auto
  have "poly_at x (rs @ [0]) = qrGFMul (poly_at x rs) x" by (simp add: poly_at_append)
  moreover have len: "length divisor = Suc (length rs)" using assms(1) rem by simp
  moreover have "poly_at x (remainder_step divisor d rem)
      = poly_at x (rs @ [0]) XOR qrGFMul (poly_at x divisor) (d XOR r)"
    unfolding remainder_step_def Let_def using len rem by (simp only: list.sel) (rule poly_at_combine, simp)
  ultimately show ?thesis using root rem by (simp add: gf_algebra)
qed

lemma remainder_at:
  assumes "divisor \<noteq> []" and root: "poly_at x divisor = gf_power x (length divisor)"
  shows "length (reedSolomonRemainder data divisor) = length divisor
    \<and> poly_at x (reedSolomonRemainder data divisor) = qrGFMul (poly_at x data) (gf_power x (length divisor))"
proof (induction data rule: rev_induct)
  case (snoc d data)
  let ?rem = "reedSolomonRemainder data divisor"
  have len: "length ?rem = length divisor" "?rem \<noteq> []" using snoc assms(1) by auto
  have "reedSolomonRemainder (data @ [d]) divisor = remainder_step divisor d ?rem"
    by (simp add: reedSolomonRemainder_def)
  with remainder_step_at [OF len root] remainder_step_length [OF len] snoc show ?case
    by (simp add: poly_at_append gf_algebra)
qed (simp add: reedSolomonRemainder_def)

lemma codeword_at:
  assumes "divisor \<noteq> []" "poly_at x divisor = gf_power x (length divisor)"
  shows "poly_at x (data @ reedSolomonRemainder data divisor) = 0"
  using remainder_at [OF assms] by (simp add: poly_at_append)

lemma times_root_eq: "cs \<noteq> [] \<Longrightarrow> times_root r cs = map2 (\<lambda>d c. d XOR qrGFMul c r) (tl cs @ [0]) cs"
  by (induction r cs rule: times_root.induct) (auto simp: xor.commute)

lemma times_root_at:
  assumes "cs \<noteq> []"
  shows "poly_at x (times_root r cs)
    = qrGFMul (poly_at x cs) (x XOR r) XOR qrGFMul (hd cs) (gf_power x (length cs))"
proof -
  obtain c ds where cs: "cs = c # ds" using assms by (cases cs) auto
  have "poly_at x (ds @ [0]) = qrGFMul (poly_at x ds) x" by (simp add: poly_at_append)
  moreover have "poly_at x (times_root r cs) = poly_at x (ds @ [0]) XOR qrGFMul (poly_at x cs) r"
    unfolding times_root_eq [OF assms] using cs by (simp only: list.sel) (rule poly_at_combine, simp)
  ultimately show ?thesis using cs by (simp add: gf_algebra)
qed

lemma times_root_length: "length (times_root r cs) = length cs"
  by (induction r cs rule: times_root.induct) auto

lemma times_root_nth:
  "j < length cs \<Longrightarrow> times_root r cs ! j = (if Suc j < length cs then cs ! Suc j else 0) XOR qrGFMul (cs ! j) r"
  by (cases cs) (auto simp: times_root_eq nth_append nth_tl)

lemma divisor_loop_spec:
  assumes "0 < n" "i \<le> n"
  shows "snd (divisor_loop i n) = pow2 i \<and> length (fst (divisor_loop i n)) = n
    \<and> (if i < n
       then (\<forall>j < n - 1 - i. fst (divisor_loop i n) ! j = 0) \<and> fst (divisor_loop i n) ! (n - 1 - i) = 1
         \<and> (\<forall>k < i. poly_at (pow2 k) (fst (divisor_loop i n)) = 0)
       else \<forall>k < n. poly_at (pow2 k) (fst (divisor_loop i n)) = gf_power (pow2 k) n)"
  using assms(2)
proof (induction i)
  case 0
  then show ?case using assms(1) by (simp add: pow2_simps)
next
  case (Suc i)
  obtain cs root where step: "divisor_loop i n = (cs, root)" by fastforce
  have i: "i < n" "i \<le> n" using Suc.prems by auto
  with Suc.IH step have IH: "root = pow2 i" "length cs = n" "\<forall>j < n - 1 - i. cs ! j = 0" "cs ! (n - 1 - i) = 1"
    "\<forall>k < i. poly_at (pow2 k) cs = 0" by auto
  then have ne: "cs \<noteq> []" using assms(1) by auto
  have "pow2 1 = 2" by (simp add: pow2_simps double_def)
  then have two: "qrGFMul root 2 = pow2 (Suc i)"
    using qrGFMul_pow2 [of 1 root] IH(1) by (simp add: qrGFMul_comm pow2_simps)
  have at: "poly_at (pow2 k) (times_root root cs) = qrGFMul (hd cs) (gf_power (pow2 k) n)" if "k < Suc i" for k
    using times_root_at [OF ne, of "pow2 k" root] that IH by (cases "k = i") auto
  have hd: "hd cs = cs ! 0" using ne by (simp add: hd_conv_nth)
  show ?case
  proof (cases "Suc i < n")
    case True
    then have "hd cs = 0" using IH(3) hd by simp
    moreover have "times_root root cs ! j = 0" if "j < n - 1 - Suc i" for j
      using that IH by (simp add: times_root_nth)
    moreover have "times_root root cs ! (n - 1 - Suc i) = 1"
      using True IH by (simp add: times_root_nth Suc_diff_Suc)
    ultimately show ?thesis using True step two at IH(2) by (simp add: times_root_length)
  next
    case False
    then have "hd cs = 1" using IH(4) hd i Suc.prems by simp
    moreover have "divisor_loop (Suc i) n = (times_root root cs, pow2 (Suc i))" using step two by simp
    ultimately show ?thesis
      using False at IH(2) Suc.prems by (simp add: times_root_length del: divisor_loop.simps)
  qed
qed

lemma divisor_roots:
  "0 < n \<Longrightarrow> length (reedSolomonDivisor n) = n
    \<and> (\<forall>k < n. poly_at (pow2 k) (reedSolomonDivisor n) = gf_power (pow2 k) n)"
  using divisor_loop_spec [of n n] by (simp add: reedSolomonDivisor_def)

lemma divisor_length: "0 < n \<Longrightarrow> length (reedSolomonDivisor n) = n"
  using divisor_roots by blast

lemma remainder_length: "0 < n \<Longrightarrow> length (reedSolomonRemainder data (reedSolomonDivisor n)) = n"
  using remainder_at [of "reedSolomonDivisor n" "pow2 0" data] divisor_roots [of n] by force

lemma codeword_syndromes:
  assumes "k < n"
  shows "poly_at (pow2 k) (data @ reedSolomonRemainder data (reedSolomonDivisor n)) = 0"
  using codeword_at [of "reedSolomonDivisor n" "pow2 k"] divisor_roots [of n] assms by force

section \<open>One damaged codeword\<close>

lemma gf_power_pow2: "gf_power (pow2 1) n = pow2 n"
  using qrGFMul_pow2 [of 1] by (induction n) (simp_all add: pow2_simps)

lemma poly_at_damaged:
  assumes "p < length cs"
  shows "poly_at x (cs[p := cs ! p XOR e]) = poly_at x cs XOR qrGFMul e (gf_power x (length cs - 1 - p))"
  using assms
proof (induction cs arbitrary: p)
  case (Cons c cs)
  then show ?case by (cases p) (simp_all add: gf_algebra)
qed simp

text \<open>The two first syndromes of a word with one wrong symbol are its error and its place.\<close>

lemma damage_located:
  assumes "2 \<le> n" "p < length cs" "\<forall>k < n. poly_at (pow2 k) cs = 0"
  shows "poly_at (pow2 0) (cs[p := cs ! p XOR e]) = e
    \<and> poly_at (pow2 1) (cs[p := cs ! p XOR e]) = qrGFMul e (pow2 (length cs - 1 - p))"
proof -
  have one: "gf_power (pow2 0) m = 1" for m by (induction m) (simp_all add: pow2_simps)
  have "poly_at (pow2 0) cs = 0" "poly_at (pow2 1) cs = 0" using assms by auto
  then show ?thesis
    unfolding poly_at_damaged [OF assms(2)] one gf_power_pow2 by simp
qed

end
