(* ===== verification/QRCode.thy ===== *)
theory QRCode
  imports QRField
begin

text \<open>
  The QR encoder of the deposit pages (\<^verbatim>\<open>src/services/qrcode.go\<close>): version choice, the bit stream of
  a payload, interleaved blocks with their error correction, the patterns of the symbol, placement
  of the bits, masks and their penalty, and the SVG text.  Coordinates are \<^verbatim>\<open>x\<close> then \<^verbatim>\<open>y\<close> as in
  the code; a matrix is a list of rows.
\<close>

unbundle bit_operations_syntax

section \<open>Versions\<close>

record qrVersionInfo =
  qvVersion :: nat
  qvTotalDataCodewords :: nat
  qvNumBlocks :: nat
  qvEccPerBlock :: nat

definition qrVersions :: "qrVersionInfo list" where
  "qrVersions = map (\<lambda>(v, t, n, e). \<lparr>qvVersion = v, qvTotalDataCodewords = t, qvNumBlocks = n, qvEccPerBlock = e\<rparr>)
    [(1, 19, 1, 7), (2, 34, 1, 10), (3, 55, 1, 15), (4, 80, 1, 20), (5, 108, 1, 26), (6, 136, 2, 18)]"

datatype qr_error = ErrQRPayloadTooLarge

definition chooseQRVersion :: "nat \<Rightarrow> qr_error + qrVersionInfo" where
  "chooseQRVersion dataLen =
    (case find (\<lambda>v. (4 + 8) + dataLen * 8 \<le> qvTotalDataCodewords v * 8) qrVersions of
      Some v \<Rightarrow> Inr v | None \<Rightarrow> Inl ErrQRPayloadTooLarge)"

section \<open>The bit stream\<close>

definition appendBits :: "32 word \<Rightarrow> nat \<Rightarrow> bool list" where
  "appendBits val n = map (bit val) (rev [0..<n])"

primrec terminate_bits :: "nat \<Rightarrow> nat \<Rightarrow> bool list \<Rightarrow> bool list" where
  "terminate_bits 0 capacity bits = bits"
| "terminate_bits (Suc n) capacity bits =
    (if length bits < capacity then terminate_bits n capacity (bits @ [False]) else bits)"

function align_bits :: "bool list \<Rightarrow> bool list" where
  "align_bits bits = (if length bits mod 8 \<noteq> 0 then align_bits (bits @ [False]) else bits)"
  by auto

lemma align_decreases: "0 < n mod 8 \<Longrightarrow> (8 - Suc n mod 8) mod 8 < 8 - n mod (8 :: nat)"
  by (simp add: mod_Suc) (use mod_less_divisor [of 8 n] in linarith)

termination align_bits
  by (relation "measure (\<lambda>bits. (8 - length bits mod 8) mod 8)") (auto simp: align_decreases)

declare align_bits.simps [simp del]

definition padBytes :: "8 word list" where "padBytes = [0xEC, 0x11]"

function pad_bits :: "nat \<Rightarrow> nat \<Rightarrow> bool list \<Rightarrow> bool list" where
  "pad_bits capacity i bits =
    (if length bits < capacity then pad_bits capacity (i + 1) (bits @ appendBits (ucast (padBytes ! (i mod 2))) 8)
     else bits)"
  by auto

termination pad_bits
  by (relation "measure (\<lambda>(capacity, i, bits). capacity - length bits)") (auto simp: appendBits_def)

declare pad_bits.simps [simp del]

definition encodeQRDataBits :: "8 word list \<Rightarrow> qrVersionInfo \<Rightarrow> bool list" where
  "encodeQRDataBits data ver =
    (let bits = appendBits 4 4 @ appendBits (word_of_nat (length data)) 8
           @ concat (map (\<lambda>b. appendBits (ucast b) 8) data);
         capacityBits = qvTotalDataCodewords ver * 8 in
     pad_bits capacityBits 0 (align_bits (terminate_bits 4 capacityBits bits)))"

definition byte_at :: "bool list \<Rightarrow> nat \<Rightarrow> 8 word" where
  "byte_at bits i = foldl (\<lambda>b j. if bits ! (i * 8 + j) then push_bit 1 b OR 1 else push_bit 1 b) 0 [0..<8]"

definition bitsToBytes :: "bool list \<Rightarrow> 8 word list" where
  "bitsToBytes bits = map (byte_at bits) [0..<length bits div 8]"

definition bytesToBits :: "8 word list \<Rightarrow> bool list" where
  "bytesToBits data = concat (map (\<lambda>b. map (bit b) (rev [0..<8])) data)"

definition data_block :: "8 word list \<Rightarrow> nat \<Rightarrow> nat \<Rightarrow> 8 word list" where
  "data_block data sz i = take sz (drop (i * sz) data)"

definition interleaveQRCodewords :: "8 word list \<Rightarrow> qrVersionInfo \<Rightarrow> 8 word list" where
  "interleaveQRCodewords data ver =
    (let blockSize = qvTotalDataCodewords ver div qvNumBlocks ver;
         divisor = reedSolomonDivisor (qvEccPerBlock ver);
         dataBlocks = map (data_block data blockSize) [0..<qvNumBlocks ver];
         eccBlocks = map (\<lambda>b. reedSolomonRemainder b divisor) dataBlocks in
     concat (map (\<lambda>col. map (\<lambda>b. b ! col) dataBlocks) [0..<blockSize])
     @ concat (map (\<lambda>col. map (\<lambda>b. b ! col) eccBlocks) [0..<qvEccPerBlock ver]))"

section \<open>The symbol\<close>

record qrMatrix =
  qmSize :: nat
  qmModules :: "bool list list"
  qmIsFunction :: "bool list list"

definition newQRMatrix :: "nat \<Rightarrow> qrMatrix" where
  "newQRMatrix sz = \<lparr>qmSize = sz, qmModules = replicate sz (replicate sz False),
    qmIsFunction = replicate sz (replicate sz False)\<rparr>"

definition set_cell :: "nat \<Rightarrow> nat \<Rightarrow> bool \<Rightarrow> bool list list \<Rightarrow> bool list list" where
  "set_cell x y v rows = rows[y := (rows ! y)[x := v]]"

definition setFunction :: "nat \<Rightarrow> nat \<Rightarrow> bool \<Rightarrow> qrMatrix \<Rightarrow> qrMatrix" where
  "setFunction x y dark m = m\<lparr>qmModules := set_cell x y dark (qmModules m),
    qmIsFunction := set_cell x y True (qmIsFunction m)\<rparr>"

definition drawFinderPattern :: "int \<Rightarrow> int \<Rightarrow> qrMatrix \<Rightarrow> qrMatrix" where
  "drawFinderPattern lf tp m = fold (\<lambda>(dy, dx) m.
      let x = lf + dx; y = tp + dy in
      if x < 0 \<or> x \<ge> int (qmSize m) \<or> y < 0 \<or> y \<ge> int (qmSize m) then m
      else setFunction (nat x) (nat y)
        (dx \<ge> 0 \<and> dx \<le> 6 \<and> dy \<ge> 0 \<and> dy \<le> 6
          \<and> (dx = 0 \<or> dx = 6 \<or> dy = 0 \<or> dy = 6 \<or> (dx \<ge> 2 \<and> dx \<le> 4 \<and> dy \<ge> 2 \<and> dy \<le> 4))) m)
    (List.product [- 1..7] [- 1..7]) m"

definition drawTimingPatterns :: "qrMatrix \<Rightarrow> qrMatrix" where
  "drawTimingPatterns m = fold (\<lambda>i m.
      let dark = (i mod 2 = 0);
          m = (if \<not> qmIsFunction m ! 6 ! i then setFunction i 6 dark m else m) in
      if \<not> qmIsFunction m ! i ! 6 then setFunction 6 i dark m else m)
    [8..<qmSize m - 8] m"

definition drawAlignmentPattern :: "int \<Rightarrow> int \<Rightarrow> qrMatrix \<Rightarrow> qrMatrix" where
  "drawAlignmentPattern cx cy m = fold (\<lambda>(dy, dx).
      setFunction (nat (cx + dx)) (nat (cy + dy))
        (dx = - 2 \<or> dx = 2 \<or> dy = - 2 \<or> dy = 2 \<or> (dx = 0 \<and> dy = 0)))
    (List.product [- 2..2] [- 2..2]) m"

text \<open>The fifteen bits of format information: level L, the mask, and their BCH remainder.\<close>

definition format_data :: "nat \<Rightarrow> 32 word" where
  "format_data msk = push_bit 3 1 OR word_of_nat msk"

definition format_rem :: "32 word \<Rightarrow> 32 word" where
  "format_rem rem = push_bit 1 rem XOR (drop_bit 9 rem * 0x537)"

definition format_bits :: "nat \<Rightarrow> 32 word" where
  "format_bits msk = ((push_bit 10 (format_data msk) OR (format_rem ^^ 10) (format_data msk)) XOR 0x5412) AND 0x7FFF"

definition format_cells :: "nat \<Rightarrow> (nat \<times> nat \<times> nat) list" where
  "format_cells sz =
    map (\<lambda>i. (8, i, i)) [0..<6] @ [(8, 7, 6), (8, 8, 7), (7, 8, 8)]
    @ map (\<lambda>i. (14 - i, 8, i)) [9..<15] @ map (\<lambda>i. (sz - 1 - i, 8, i)) [0..<8]
    @ map (\<lambda>i. (8, sz - 15 + i, i)) [8..<15]"

definition drawFormatInfo :: "nat \<Rightarrow> qrMatrix \<Rightarrow> qrMatrix" where
  "drawFormatInfo msk m = setFunction 8 (qmSize m - 8) True
    (fold (\<lambda>(x, y, i). setFunction x y (bit (format_bits msk) i)) (format_cells (qmSize m)) m)"

text \<open>The columns of the walk: pairs from the right, stepping over the vertical timing column.\<close>

function qr_columns :: "nat \<Rightarrow> nat list" where
  "qr_columns right =
    (if right < 1 then [] else let right = (if right = 6 then 5 else right) in right # qr_columns (right - 2))"
  by auto

termination qr_columns
  by (relation "measure id") (auto split: if_splits)

declare qr_columns.simps [simp del]

definition qr_walk :: "nat \<Rightarrow> (nat \<times> nat) list" where
  "qr_walk sz = concat (map (\<lambda>right. concat (map (\<lambda>vert. map (\<lambda>j.
      (right - j, if (right + 1) AND 2 = 0 then sz - 1 - vert else vert)) [0, 1]) [0..<sz]))
    (qr_columns (sz - 1)))"

fun place_bits :: "(nat \<times> nat) list \<Rightarrow> bool list \<Rightarrow> qrMatrix \<Rightarrow> qrMatrix" where
  "place_bits [] bits m = m"
| "place_bits ((x, y) # cells) bits m =
    (if qmIsFunction m ! y ! x then place_bits cells bits m
     else case bits of
       [] \<Rightarrow> place_bits cells [] (m\<lparr>qmModules := set_cell x y False (qmModules m)\<rparr>)
     | b # bits \<Rightarrow> place_bits cells bits (m\<lparr>qmModules := set_cell x y b (qmModules m)\<rparr>))"

definition placeQRData :: "bool list \<Rightarrow> qrMatrix \<Rightarrow> qrMatrix" where
  "placeQRData bits m = place_bits (qr_walk (qmSize m)) bits m"

definition qrMaskBit :: "nat \<Rightarrow> nat \<Rightarrow> nat \<Rightarrow> bool" where
  "qrMaskBit msk x y =
    (if msk = 0 then (x + y) mod 2 = 0
     else if msk = 1 then y mod 2 = 0
     else if msk = 2 then x mod 3 = 0
     else if msk = 3 then (x + y) mod 3 = 0
     else if msk = 4 then (x div 3 + y div 2) mod 2 = 0
     else if msk = 5 then (x * y) mod 2 + (x * y) mod 3 = 0
     else if msk = 6 then ((x * y) mod 2 + (x * y) mod 3) mod 2 = 0
     else ((x + y) mod 2 + (x * y) mod 3) mod 2 = 0)"

definition applyQRMask :: "nat \<Rightarrow> qrMatrix \<Rightarrow> qrMatrix" where
  "applyQRMask msk m = m\<lparr>qmModules := map (\<lambda>y. map (\<lambda>x.
      if qmIsFunction m ! y ! x then qmModules m ! y ! x
      else if qrMaskBit msk x y then \<not> qmModules m ! y ! x else qmModules m ! y ! x) [0..<qmSize m]) [0..<qmSize m]\<rparr>"

section \<open>The penalty of a mask\<close>

fun run_penalty :: "nat \<Rightarrow> bool \<Rightarrow> bool list \<Rightarrow> int" where
  "run_penalty count prev [] = (if count \<ge> 5 then 3 + (int count - 5) else 0)"
| "run_penalty count prev (v # vs) =
    (if v = prev then run_penalty (count + 1) prev vs
     else (if count \<ge> 5 then 3 + (int count - 5) else 0) + run_penalty 1 v vs)"

definition runPenalty :: "(nat \<Rightarrow> bool) \<Rightarrow> nat \<Rightarrow> int" where
  "runPenalty get n = run_penalty 1 (get 0) (map get [1..<n])"

definition isFinderRun :: "(nat \<Rightarrow> bool) \<Rightarrow> nat \<Rightarrow> nat \<Rightarrow> bool" where
  "isFinderRun get start n \<longleftrightarrow>
    (\<forall>i \<in> set [0..<7]. start + i < n \<and> get (start + i) = [True, False, True, True, True, False, True] ! i)
    \<and> ((\<forall>i \<in> set [0..<4]. 1 + i \<le> start \<and> \<not> get (start - 1 - i))
      \<or> (\<forall>i \<in> set [0..<4]. start + 7 + i < n \<and> \<not> get (start + 7 + i)))"

definition row :: "qrMatrix \<Rightarrow> nat \<Rightarrow> nat \<Rightarrow> bool" where
  "row m y = (\<lambda>x. qmModules m ! y ! x)"

definition column :: "qrMatrix \<Rightarrow> nat \<Rightarrow> nat \<Rightarrow> bool" where
  "column m x = (\<lambda>y. qmModules m ! y ! x)"

definition block_penalty :: "qrMatrix \<Rightarrow> nat \<Rightarrow> nat \<Rightarrow> int" where
  "block_penalty m y x = (let v = row m y x in
    if row m y (x + 1) = v \<and> row m (y + 1) x = v \<and> row m (y + 1) (x + 1) = v then 3 else 0)"

definition dark_penalty :: "qrMatrix \<Rightarrow> int" where
  "dark_penalty m =
    (let dark = int (length (filter id (concat (map (\<lambda>y. map (row m y) [0..<qmSize m]) [0..<qmSize m]))));
         total = int (qmSize m) * int (qmSize m);
         percent = dark * 100 div total;
         prev5 = percent - percent mod 5;
         next5 = prev5 + 5 in
     (min \<bar>prev5 - 50\<bar> \<bar>next5 - 50\<bar> div 5) * 10)"

definition qrPenaltyScore :: "qrMatrix \<Rightarrow> int" where
  "qrPenaltyScore m = (let sz = qmSize m in
    (\<Sum>y\<leftarrow>[0..<sz]. runPenalty (row m y) sz)
    + (\<Sum>x\<leftarrow>[0..<sz]. runPenalty (column m x) sz)
    + (\<Sum>y\<leftarrow>[0..<sz - 1]. \<Sum>x\<leftarrow>[0..<sz - 1]. block_penalty m y x)
    + (\<Sum>y\<leftarrow>[0..<sz]. \<Sum>x\<leftarrow>[0..<sz - 6]. if isFinderRun (row m y) x sz then 40 else 0)
    + (\<Sum>x\<leftarrow>[0..<sz]. \<Sum>y\<leftarrow>[0..<sz - 6]. if isFinderRun (column m x) y sz then 40 else 0)
    + dark_penalty m)"

section \<open>Encoding\<close>

definition qr_patterns :: "qrVersionInfo \<Rightarrow> qrMatrix" where
  "qr_patterns ver =
    (let sz = qvVersion ver * 4 + 17;
         m = drawTimingPatterns (drawFinderPattern 0 (int sz - 7) (drawFinderPattern (int sz - 7) 0
           (drawFinderPattern 0 0 (newQRMatrix sz))));
         pos = int (qvVersion ver) * 4 + 10;
         m = (if qvVersion ver \<ge> 2 then drawAlignmentPattern pos pos m else m) in
     setFunction 8 (sz - 8) True m)"

text \<open>One round of the mask loop; the state is the matrix, the best score (\<open>None\<close> before the first
  round) and the best modules.\<close>

definition try_mask :: "nat \<Rightarrow> qrMatrix \<times> int option \<times> bool list list \<Rightarrow> qrMatrix \<times> int option \<times> bool list list" where
  "try_mask msk = (\<lambda>(m, best, modules).
    let m = drawFormatInfo msk (applyQRMask msk m);
        score = qrPenaltyScore m;
        (best, modules) = (case best of
            None \<Rightarrow> (Some score, qmModules m)
          | Some b \<Rightarrow> if score < b then (Some score, qmModules m) else (best, modules)) in
    (applyQRMask msk m, best, modules))"

definition encodeQRMatrix :: "8 word list \<Rightarrow> qr_error + qrMatrix" where
  "encodeQRMatrix data = (case chooseQRVersion (length data) of
      Inl e \<Rightarrow> Inl e
    | Inr ver \<Rightarrow>
      let codewords = bitsToBytes (encodeQRDataBits data ver);
          final = interleaveQRCodewords codewords ver;
          m = placeQRData (bytesToBits final) (qr_patterns ver);
          (m, best, modules) = fold try_mask [0..<8] (m, None, []) in
      Inr (m\<lparr>qmModules := modules\<rparr>))"

definition svg_rect :: "int \<Rightarrow> int \<Rightarrow> int \<Rightarrow> string \<Rightarrow> string" where
  "svg_rect px py width fill = ''<rect x=\"'' @ show_int px @ ''\" y=\"'' @ show_int py @ ''\" width=\"'' @ show_int width
    @ ''\" height=\"'' @ show_int width @ ''\" fill=\"'' @ fill @ ''\"/>''"

definition renderQRSVG :: "qrMatrix \<Rightarrow> int \<Rightarrow> string" where
  "renderQRSVG m moduleSize =
    (let quiet = 4; dim = (int (qmSize m) + quiet * 2) * moduleSize in
     ''<svg xmlns=\"http://www.w3.org/2000/svg\" viewBox=\"0 0 '' @ show_int dim @ '' '' @ show_int dim
     @ ''\" width=\"'' @ show_int dim @ ''\" height=\"'' @ show_int dim
     @ ''\" role=\"img\" aria-label=\"QR code for deposit address\">''
     @ svg_rect 0 0 dim ''#ffffff''
     @ concat (map (\<lambda>y. concat (map (\<lambda>x. if \<not> row m y x then []
           else svg_rect ((int x + quiet) * moduleSize) ((int y + quiet) * moduleSize) moduleSize ''#000000'')
         [0..<qmSize m])) [0..<qmSize m])
     @ ''</svg>'')"

definition EncodeQRCodeSVG :: "string \<Rightarrow> int \<Rightarrow> qr_error + string" where
  "EncodeQRCodeSVG payload moduleSize =
    (let moduleSize = (if moduleSize \<le> 0 then 4 else moduleSize) in
     case encodeQRMatrix (map (\<lambda>c. word_of_nat (of_char c)) payload) of
       Inl e \<Rightarrow> Inl e
     | Inr m \<Rightarrow> Inr (renderQRSVG m moduleSize))"

end
