(* ===== verification/QRStream.thy ===== *)
theory QRStream
  imports QRCode
begin

text \<open>
  What the codewords of a QR symbol hold: a decoder for the byte mode reads the payload back from
  the bit stream, and the interleaved codewords split into blocks that are Reed-Solomon codewords,
  so that one wrong codeword in a block shows its value and its place.
\<close>

unbundle bit_operations_syntax

section \<open>Versions\<close>

lemma qrVersionsE:
  assumes "v \<in> set qrVersions"
  obtains "qvNumBlocks v * (qvTotalDataCodewords v div qvNumBlocks v) = qvTotalDataCodewords v"
    "0 < qvNumBlocks v" "2 \<le> qvEccPerBlock v" "qvTotalDataCodewords v \<le> 136"
  using assms by (auto simp: qrVersions_def)

lemma chooseQRVersionD:
  "chooseQRVersion n = Inr v \<Longrightarrow> v \<in> set qrVersions \<and> 12 + n * 8 \<le> qvTotalDataCodewords v * 8"
  by (auto simp: chooseQRVersion_def find_Some_iff split: option.splits)

section \<open>Padding\<close>

lemma appendBits_length [simp]: "length (appendBits w n) = n"
  by (simp add: appendBits_def)

lemma terminate_bits_spec:
  "length bits \<le> c \<Longrightarrow> \<exists>k. terminate_bits n c bits = bits @ replicate k False \<and> length bits + k \<le> c"
proof (induction n arbitrary: bits)
  case (Suc n)
  show ?case
  proof (cases "length bits < c")
    case True
    then obtain k where "terminate_bits n c (bits @ [False]) = bits @ replicate (Suc k) False" "length bits + Suc k \<le> c"
      using Suc.IH [of "bits @ [False]"] by auto
    with True show ?thesis by (intro exI [of _ "Suc k"]) simp
  qed (use Suc.prems in \<open>auto intro: exI [of _ 0]\<close>)
qed (auto intro: exI [of _ 0])

lemma align_bits_spec:
  "length bits \<le> 8 * c \<Longrightarrow> \<exists>k. align_bits bits = bits @ replicate k False \<and> (length bits + k) mod 8 = 0 \<and> length bits + k \<le> 8 * c"
proof (induction bits rule: align_bits.induct)
  case (1 bits)
  show ?case
  proof (cases "length bits mod 8 = 0")
    case True
    then show ?thesis using 1 by (intro exI [of _ 0]) (simp add: align_bits.simps)
  next
    case False
    with 1 have "length bits < 8 * c" by (metis le_neq_implies_less mod_mult_self1_is_0)
    with 1 False obtain k where "align_bits (bits @ [False]) = bits @ replicate (Suc k) False"
      "(length bits + Suc k) mod 8 = 0" "length bits + Suc k \<le> 8 * c" by auto
    with False show ?thesis by (intro exI [of _ "Suc k"]) (simp add: align_bits.simps [of bits])
  qed
qed

lemma pad_bits_spec:
  "length bits mod 8 = 0 \<Longrightarrow> length bits \<le> 8 * c \<Longrightarrow> \<exists>pad. pad_bits (8 * c) i bits = bits @ pad \<and> length (bits @ pad) = 8 * c"
proof (induction "8 * c" i bits rule: pad_bits.induct)
  case (1 i bits)
  show ?case
  proof (cases "length bits < 8 * c")
    case True
    then have "length bits + 8 \<le> 8 * c" using 1(2) by presburger
    with 1 True show ?thesis by (fastforce simp: pad_bits.simps [of "8 * c" i bits])
  next
    case False
    then show ?thesis using 1 by (auto simp: pad_bits.simps)
  qed
qed

lemma encodeQRDataBits_spec:
  assumes "12 + length data * 8 \<le> qvTotalDataCodewords ver * 8"
  obtains rest where
    "encodeQRDataBits data ver = appendBits 4 4 @ appendBits (word_of_nat (length data)) 8
      @ concat (map (\<lambda>b. appendBits (ucast b) 8) data) @ rest"
    "length (encodeQRDataBits data ver) = 8 * qvTotalDataCodewords ver"
proof -
  define bits where "bits = appendBits 4 4 @ appendBits (word_of_nat (length data)) 8 @ concat (map (\<lambda>b. appendBits (ucast b) 8) data)"
  let ?c = "qvTotalDataCodewords ver"
  have "length (concat (map (\<lambda>b. appendBits (ucast b) 8) data)) = 8 * length data" by (induction data) auto
  then have "length bits \<le> 8 * ?c" using assms by (simp add: bits_def)
  then obtain k where k: "terminate_bits 4 (8 * ?c) bits = bits @ replicate k False" "length bits + k \<le> 8 * ?c"
    using terminate_bits_spec by blast
  then obtain l where l: "align_bits (bits @ replicate k False) = (bits @ replicate k False) @ replicate l False"
    "(length bits + k + l) mod 8 = 0" "length bits + k + l \<le> 8 * ?c"
    using align_bits_spec [of "bits @ replicate k False" ?c] by auto
  then have whole: "length ((bits @ replicate k False) @ replicate l False) mod 8 = 0"
    "length ((bits @ replicate k False) @ replicate l False) \<le> 8 * ?c" by (simp_all only: length_append length_replicate)
  obtain pad where "pad_bits (8 * ?c) 0 ((bits @ replicate k False) @ replicate l False)
      = ((bits @ replicate k False) @ replicate l False) @ pad"
    "length (((bits @ replicate k False) @ replicate l False) @ pad) = 8 * ?c"
    using pad_bits_spec [OF whole] by blast
  moreover have "encodeQRDataBits data ver = pad_bits (8 * ?c) 0 (align_bits (terminate_bits 4 (8 * ?c) bits))"
    by (simp add: encodeQRDataBits_def Let_def mult.commute bits_def)
  ultimately show ?thesis
    using that [of "replicate k False @ replicate l False @ pad"] k l by (simp add: bits_def)
qed

section \<open>Bytes and bits\<close>

lemma bit_foldl_shift:
  "m \<le> 8 \<Longrightarrow> k < 8 \<Longrightarrow>
    bit (foldl (\<lambda>b j. if f j then push_bit 1 b OR 1 else push_bit 1 b) (0 :: 8 word) [0..<m]) k
      \<longleftrightarrow> k < m \<and> f (m - 1 - k)"
proof (induction m arbitrary: k)
  case (Suc m)
  let ?b = "foldl (\<lambda>b j. if f j then push_bit 1 b OR 1 else push_bit 1 b) (0 :: 8 word) [0..<m]"
  have shift: "bit (push_bit 1 b) k \<longleftrightarrow> 0 < k \<and> bit b (k - 1)" for b :: "8 word"
    using Suc.prems by (auto simp: bit_push_bit_iff simp del: push_bit_Suc One_nat_def)
  have fold: "foldl (\<lambda>b j. if f j then push_bit 1 b OR 1 else push_bit 1 b) (0 :: 8 word) [0..<Suc m]
      = (if f m then push_bit 1 ?b OR 1 else push_bit 1 ?b)" by simp
  have key: "bit (if f m then push_bit 1 ?b OR 1 else push_bit 1 ?b) k \<longleftrightarrow> (k = 0 \<and> f m) \<or> (0 < k \<and> bit ?b (k - 1))"
    unfolding if_distrib [of "\<lambda>w. bit w k"] bit_or_iff shift bit_1_iff by auto
  show ?case
  proof (cases k)
    case (Suc l)
    then have "bit ?b l \<longleftrightarrow> l < m \<and> f (m - 1 - l)" using Suc.IH [of l] Suc.prems by simp
    then show ?thesis using key Suc unfolding fold by simp
  qed (use key fold in simp)
qed simp

lemma bit_byte_at: "k < 8 \<Longrightarrow> bit (byte_at bits i) k \<longleftrightarrow> bits ! (i * 8 + (7 - k))"
  unfolding byte_at_def by (subst bit_foldl_shift) auto

definition byte_bits :: "8 word \<Rightarrow> bool list" where
  "byte_bits b = map (bit b) (rev [0..<8])"

lemma byte_bits_length [simp]: "length (byte_bits b) = 8"
  by (simp add: byte_bits_def)

lemma byte_bits_nth: "j < 8 \<Longrightarrow> byte_bits b ! j = bit b (7 - j)"
  by (simp add: byte_bits_def rev_nth)

lemma bytesToBits_Cons: "bytesToBits (b # bs) = byte_bits b @ bytesToBits bs"
  by (simp add: bytesToBits_def byte_bits_def)

lemma bytesToBits_length [simp]: "length (bytesToBits bs) = 8 * length bs"
  by (induction bs) (simp_all add: bytesToBits_Cons, simp add: bytesToBits_def)

lemma bytesToBits_nth: "i < length bs \<Longrightarrow> j < 8 \<Longrightarrow> bytesToBits bs ! (i * 8 + j) = bit (bs ! i) (7 - j)"
proof (induction bs arbitrary: i)
  case (Cons b bs)
  then show ?case by (cases i) (auto simp: bytesToBits_Cons nth_append byte_bits_nth)
qed simp

lemma byte_at_bytesToBits: "i < length bs \<Longrightarrow> byte_at (bytesToBits bs @ rest) i = bs ! i"
proof (rule bit_eqI)
  fix k assume i: "i < length bs" and "possible_bit TYPE(8 word) k"
  then have k: "k < 8" "i * 8 + (7 - k) < length (bytesToBits bs)" by auto
  then show "bit (byte_at (bytesToBits bs @ rest) i) k = bit (bs ! i) k"
    unfolding bit_byte_at [OF k(1)] nth_append_left [OF k(2)] using i by (subst bytesToBits_nth) auto
qed

lemma bytesToBits_bitsToBytes:
  assumes "length bits = 8 * n" shows "bytesToBits (bitsToBytes bits) = bits"
proof (rule nth_equalityI)
  fix k assume "k < length (bytesToBits (bitsToBytes bits))"
  then have k: "k div 8 < n" "k = k div 8 * 8 + k mod 8" using assms by (auto simp: bitsToBytes_def)
  have "bytesToBits (bitsToBytes bits) ! (k div 8 * 8 + k mod 8) = bit (byte_at bits (k div 8)) (7 - k mod 8)"
    using k assms by (subst bytesToBits_nth) (auto simp: bitsToBytes_def)
  also have "\<dots> = bits ! (k div 8 * 8 + k mod 8)"
    using mod_less_divisor [of 8 k] by (subst bit_byte_at) auto
  finally show "bytesToBits (bitsToBytes bits) ! k = bits ! k" using k(2) by simp
qed (use assms in \<open>simp add: bitsToBytes_def\<close>)

lemma appendBits_byte: "appendBits (ucast b) 8 = byte_bits b"
  by (simp add: appendBits_def byte_bits_def bit_ucast_iff)

lemma appendBits_small: "n < 256 \<Longrightarrow> appendBits (word_of_nat n) 8 = byte_bits (word_of_nat n)"
  by (simp add: appendBits_def byte_bits_def bit_of_nat_iff)

section \<open>Reading a payload back\<close>

text \<open>A reader of the byte mode: the mode, the number of bytes, and the bytes.\<close>

definition read_payload :: "bool list \<Rightarrow> byte list option" where
  "read_payload bits =
    (if take 4 bits = [False, True, False, False]
     then Some (map (byte_at (drop 12 bits)) [0..<unat (byte_at (drop 4 bits) 0)]) else None)"

text \<open>C20: Whatever fits in a symbol is read back: the codewords of a payload fill the capacity of the
  chosen version exactly, and a reader of the byte mode finds the payload in their bits.\<close>

theorem qr_payload_roundtrip:
  assumes "chooseQRVersion (length data) = Inr ver"
  shows "length (bitsToBytes (encodeQRDataBits data ver)) = qvTotalDataCodewords ver
    \<and> read_payload (bytesToBits (bitsToBytes (encodeQRDataBits data ver))) = Some data"
proof -
  let ?bits = "encodeQRDataBits data ver"
  from chooseQRVersionD [OF assms] have ver: "ver \<in> set qrVersions" "12 + length data * 8 \<le> qvTotalDataCodewords ver * 8"
    by auto
  then have small: "length data < 256" by (auto elim: qrVersionsE)
  obtain rest where rest: "?bits = appendBits 4 4 @ appendBits (word_of_nat (length data)) 8
      @ concat (map (\<lambda>b. appendBits (ucast b) 8) data) @ rest"
    and len: "length ?bits = 8 * qvTotalDataCodewords ver"
    by (rule encodeQRDataBits_spec [OF ver(2)])
  let ?n = "word_of_nat (length data) :: 8 word"
  have "concat (map (\<lambda>b. appendBits (ucast b) 8) data) = bytesToBits data"
    by (simp add: appendBits_byte bytesToBits_def byte_bits_def)
  moreover have "appendBits 4 4 = [False, True, False, False]"
    by (simp add: appendBits_def upt_rec)
  ultimately have bits: "?bits = [False, True, False, False] @ bytesToBits [?n] @ bytesToBits data @ rest"
    using rest small by (simp add: appendBits_small bytesToBits_Cons) (simp add: bytesToBits_def)
  have "drop 4 ?bits = bytesToBits [?n] @ bytesToBits data @ rest" "drop 12 ?bits = bytesToBits data @ rest"
    unfolding bits by simp_all
  moreover have "unat ?n = length data" using small by (simp add: unat_of_nat)
  ultimately have "read_payload ?bits = Some (map ((!) data) [0..<length data])"
    using byte_at_bytesToBits [of 0 "[?n]" "bytesToBits data @ rest"] bits
    by (simp add: read_payload_def byte_at_bytesToBits)
  then show ?thesis
    using bytesToBits_bitsToBytes [OF len] len by (simp add: map_nth bitsToBytes_def)
qed

theorem qr_payload_roundtrip_witness:
  "\<exists>ver. chooseQRVersion 5 = Inr ver
    \<and> read_payload (bytesToBits (bitsToBytes (encodeQRDataBits [104, 101, 108, 108, 111] ver))) = Some [104, 101, 108, 108, 111]"
proof -
  have "chooseQRVersion (length [104, 101, 108, 108, 111 :: 8 word]) = Inr (hd qrVersions)"
    by (simp add: chooseQRVersion_def qrVersions_def)
  moreover have "length [104, 101, 108, 108, 111 :: 8 word] = 5" by simp
  ultimately show ?thesis using qr_payload_roundtrip [of "[104, 101, 108, 108, 111]"] by metis
qed

section \<open>Blocks\<close>

lemma interleave_length: "length (concat (map (\<lambda>col. map (\<lambda>b. b ! col) blocks) [0..<n])) = n * length blocks"
  by (induction n) simp_all

lemma interleave_nth:
  "c < n \<Longrightarrow> i < length blocks \<Longrightarrow>
    concat (map (\<lambda>col. map (\<lambda>b. b ! col) blocks) [0..<n]) ! (c * length blocks + i) = blocks ! i ! c"
proof (induction n)
  case (Suc n)
  show ?case
  proof (cases "c = n")
    case True
    then show ?thesis using Suc.prems by (simp add: nth_append interleave_length)
  next
    case False
    then have "c < n" using Suc.prems by simp
    then have "Suc c * length blocks \<le> n * length blocks" by (intro mult_le_mono1) simp
    then have "c * length blocks + i < n * length blocks" using Suc.prems by simp
    then show ?thesis using Suc.IH [OF \<open>c < n\<close>] Suc.prems by (simp add: nth_append interleave_length)
  qed
qed simp

definition blockSize :: "qrVersionInfo \<Rightarrow> nat" where
  "blockSize ver = qvTotalDataCodewords ver div qvNumBlocks ver"

text \<open>De-interleaving: the block \<^verbatim>\<open>i\<close> of a sequence of codewords, its data, then its error correction.\<close>

definition deinterleaved :: "qrVersionInfo \<Rightarrow> byte list \<Rightarrow> nat \<Rightarrow> byte list" where
  "deinterleaved ver final i =
    map (\<lambda>c. final ! (c * qvNumBlocks ver + i)) [0..<blockSize ver]
    @ map (\<lambda>c. final ! (blockSize ver * qvNumBlocks ver + c * qvNumBlocks ver + i)) [0..<qvEccPerBlock ver]"

lemma deinterleaved_length: "length (deinterleaved ver final i) = blockSize ver + qvEccPerBlock ver"
  by (simp add: deinterleaved_def)

lemma deinterleaved_block:
  assumes "ver \<in> set qrVersions" "length data = qvTotalDataCodewords ver" "i < qvNumBlocks ver"
  shows "deinterleaved ver (interleaveQRCodewords data ver) i = data_block data (blockSize ver) i
    @ reedSolomonRemainder (data_block data (blockSize ver) i) (reedSolomonDivisor (qvEccPerBlock ver))"
proof -
  obtain ver: "qvNumBlocks ver * blockSize ver = qvTotalDataCodewords ver" "0 < qvNumBlocks ver" "2 \<le> qvEccPerBlock ver"
    using assms(1) by (auto simp: blockSize_def elim: qrVersionsE)
  define blocks where "blocks = map (data_block data (blockSize ver)) [0..<qvNumBlocks ver]"
  define eccs where "eccs = map (\<lambda>b. reedSolomonRemainder b (reedSolomonDivisor (qvEccPerBlock ver))) blocks"
  have n: "length blocks = qvNumBlocks ver" "length eccs = qvNumBlocks ver" by (simp_all add: blocks_def eccs_def)
  have final: "interleaveQRCodewords data ver = concat (map (\<lambda>col. map (\<lambda>b. b ! col) blocks) [0..<blockSize ver])
      @ concat (map (\<lambda>col. map (\<lambda>b. b ! col) eccs) [0..<qvEccPerBlock ver])"
    by (simp add: interleaveQRCodewords_def Let_def blocks_def eccs_def blockSize_def comp_assoc)
  have "Suc i * blockSize ver \<le> qvNumBlocks ver * blockSize ver" using assms(3) by (intro mult_le_mono1) simp
  then have block: "length (blocks ! i) = blockSize ver"
    using assms ver by (simp add: blocks_def data_block_def)
  have ecc: "length (eccs ! i) = qvEccPerBlock ver"
    using assms(3) ver n by (simp add: eccs_def remainder_length)
  have below: "c * qvNumBlocks ver + i < blockSize ver * qvNumBlocks ver" if "c < blockSize ver" for c
  proof -
    have "Suc c * qvNumBlocks ver \<le> blockSize ver * qvNumBlocks ver" using that by (intro mult_le_mono1) simp
    then show ?thesis using assms(3) by simp
  qed
  have "map (\<lambda>c. interleaveQRCodewords data ver ! (c * qvNumBlocks ver + i)) [0..<blockSize ver] = blocks ! i"
    using block below n assms(3) interleave_nth [of _ "blockSize ver" i blocks]
    by (intro nth_equalityI) (simp_all add: final nth_append interleave_length)
  moreover have "map (\<lambda>c. interleaveQRCodewords data ver ! (blockSize ver * qvNumBlocks ver + c * qvNumBlocks ver + i))
      [0..<qvEccPerBlock ver] = eccs ! i"
    using ecc n assms(3) interleave_nth [of _ "qvEccPerBlock ver" i eccs]
    by (intro nth_equalityI) (simp_all add: final nth_append interleave_length)
  ultimately show ?thesis using assms(3) by (simp add: deinterleaved_def eccs_def blocks_def)
qed

lemma data_blocks_concat:
  "n * sz \<le> length data \<Longrightarrow> concat (map (data_block data sz) [0..<n]) = take (n * sz) data"
  by (induction n) (simp_all add: data_block_def take_add add.commute [of sz])

text \<open>C21: the sequence of codewords that is handed to the placement is de-interleaved to the data codewords
  in order, and every block of it is a Reed-Solomon codeword: its polynomial vanishes at the powers
  of 2 below the degree of the generator.  So if one codeword of a block is altered, whatever it is,
  the first two syndromes are the error itself and the error at its place.  This is about the sequence
  before it is placed, not about what can be read off a symbol: the placement overwrites bits of it
  (\<^verbatim>\<open>qr_stream_bit_lost\<close> of \<^verbatim>\<open>QRSymbol\<close>).\<close>

theorem qr_blocks_are_codewords:
  assumes "chooseQRVersion n = Inr ver" "length data = qvTotalDataCodewords ver"
  shows "concat (map (\<lambda>i. take (blockSize ver) (deinterleaved ver (interleaveQRCodewords data ver) i)) [0..<qvNumBlocks ver]) = data
    \<and> (\<forall>i < qvNumBlocks ver. (let r = deinterleaved ver (interleaveQRCodewords data ver) i in
        (\<forall>k < qvEccPerBlock ver. poly_at (pow2 k) r = 0)
        \<and> (\<forall>p < length r. \<forall>e. poly_at (pow2 0) (r[p := r ! p XOR e]) = e
          \<and> poly_at (pow2 1) (r[p := r ! p XOR e]) = qrGFMul e (pow2 (length r - 1 - p)))))"
proof -
  have ver: "ver \<in> set qrVersions" using chooseQRVersionD [OF assms(1)] by blast
  have total: "qvNumBlocks ver * blockSize ver = qvTotalDataCodewords ver" and ecc: "2 \<le> qvEccPerBlock ver"
    using ver by (auto simp: blockSize_def elim: qrVersionsE)
  let ?r = "deinterleaved ver (interleaveQRCodewords data ver)"
  have syn: "\<forall>k < qvEccPerBlock ver. poly_at (pow2 k) (?r i) = 0" if "i < qvNumBlocks ver" for i
    unfolding deinterleaved_block [OF ver assms(2) that] using codeword_syndromes by blast
  have "take (blockSize ver) (?r i) = data_block data (blockSize ver) i" if "i < qvNumBlocks ver" for i
  proof -
    have "Suc i * blockSize ver \<le> qvNumBlocks ver * blockSize ver" using that by (intro mult_le_mono1) simp
    then show ?thesis
      unfolding deinterleaved_block [OF ver assms(2) that] using total assms(2) by (simp add: data_block_def)
  qed
  then have "concat (map (\<lambda>i. take (blockSize ver) (?r i)) [0..<qvNumBlocks ver])
      = concat (map (data_block data (blockSize ver)) [0..<qvNumBlocks ver])"
    by (intro arg_cong [where f = concat]) simp
  also have "\<dots> = data" using data_blocks_concat [of "qvNumBlocks ver" "blockSize ver" data] total assms(2) by simp
  finally show ?thesis using syn damage_located [OF ecc _ syn] by (simp add: Let_def)
qed

theorem qr_blocks_are_codewords_witness:
  "let ver = qrVersions ! 5; r = deinterleaved ver (interleaveQRCodewords (replicate 136 7) ver) 1 in
    poly_at (pow2 17) r = 0 \<and> poly_at (pow2 0) (r[0 := r ! 0 XOR 3]) = 3"
proof -
  have "chooseQRVersion 134 = Inr (qrVersions ! 5)" "length (replicate 136 (7 :: byte)) = qvTotalDataCodewords (qrVersions ! 5)"
    "qvNumBlocks (qrVersions ! 5) = 2" "qvEccPerBlock (qrVersions ! 5) = 18" "blockSize (qrVersions ! 5) = 68"
    by (simp_all add: chooseQRVersion_def qrVersions_def blockSize_def)
  with qr_blocks_are_codewords [OF this(1,2)] show ?thesis
    unfolding Let_def by (simp del: replicate.simps add: deinterleaved_length)
qed

end
