(* ===== verification/QRSymbol.thy ===== *)
theory QRSymbol
  imports QRStream
begin

text \<open>
  The symbol a QR encoding ends in.  Two matrices \<^verbatim>\<open>agree\<close> outside a set of positions; masking
  respects agreement and undoes itself, and drawing the format information makes the matrices agree
  on its own positions too.  Hence the symbol is the one of the least penalty among the eight masked
  ones; and since the format information is drawn after the data were placed, without a place
  reserved for it, bits of the stream are lost.
\<close>

unbundle bit_operations_syntax

section \<open>Grids\<close>

definition grid :: "nat \<Rightarrow> bool list list \<Rightarrow> bool" where
  "grid sz rows \<longleftrightarrow> length rows = sz \<and> (\<forall>y < sz. length (rows ! y) = sz)"

lemma grid_set_cell [simp]: "grid sz rows \<Longrightarrow> grid sz (set_cell x y v rows)"
  by (cases "y < length rows") (auto simp: grid_def set_cell_def nth_list_update)

lemma set_cell_nth:
  "grid sz rows \<Longrightarrow> a < sz \<Longrightarrow> b < sz \<Longrightarrow> set_cell x y v rows ! b ! a = (if a = x \<and> b = y then v else rows ! b ! a)"
  by (cases "y < length rows") (auto simp: grid_def set_cell_def nth_list_update)

lemma grid_eqI:
  "grid sz r \<Longrightarrow> grid sz q \<Longrightarrow> (\<And>x y. x < sz \<Longrightarrow> y < sz \<Longrightarrow> r ! y ! x = q ! y ! x) \<Longrightarrow> r = q"
  by (intro nth_equalityI) (auto simp: grid_def)

definition matrix_ok :: "qrMatrix \<Rightarrow> bool" where
  "matrix_ok m \<longleftrightarrow> grid (qmSize m) (qmModules m) \<and> grid (qmSize m) (qmIsFunction m)"

definition agree :: "(nat \<times> nat) set \<Rightarrow> qrMatrix \<Rightarrow> qrMatrix \<Rightarrow> bool" where
  "agree S m m' \<longleftrightarrow> matrix_ok m \<and> matrix_ok m' \<and> qmSize m' = qmSize m
    \<and> (\<forall>x < qmSize m. \<forall>y < qmSize m. (x, y) \<notin> S \<longrightarrow>
        qmModules m' ! y ! x = qmModules m ! y ! x \<and> qmIsFunction m' ! y ! x = qmIsFunction m ! y ! x)"

lemma agree_refl: "matrix_ok m \<Longrightarrow> agree S m m"
  by (simp add: agree_def)

lemma agree_sym: "agree S m m' \<Longrightarrow> agree S m' m"
  by (simp add: agree_def)

lemma agree_trans: "agree S m m' \<Longrightarrow> agree S m' m'' \<Longrightarrow> agree S m m''"
  by (auto simp: agree_def)

lemma agree_mono: "agree S m m' \<Longrightarrow> S \<subseteq> T \<Longrightarrow> agree T m m'"
  by (auto simp: agree_def)

lemma agree_empty: "agree {} m m' \<Longrightarrow> m = m'"
  by (auto simp: agree_def matrix_ok_def intro!: qrMatrix.equality grid_eqI [of "qmSize m"])

section \<open>Function patterns\<close>

lemma setFunction_size [simp]: "qmSize (setFunction x y v m) = qmSize m"
  by (simp add: setFunction_def)

lemma setFunction_agree: "agree S m m' \<Longrightarrow> agree (S - {(x, y)}) (setFunction x y v m) (setFunction x y v m')"
  by (auto simp: agree_def matrix_ok_def setFunction_def set_cell_nth)

lemma setFunction_ok: "matrix_ok m \<Longrightarrow> matrix_ok (setFunction x y v m)"
  by (simp add: matrix_ok_def setFunction_def)

lemma setFunction_here: "matrix_ok m \<Longrightarrow> agree {(x, y)} m (setFunction x y v m)"
  by (auto simp: agree_def matrix_ok_def setFunction_def set_cell_nth)

lemma newQRMatrix_ok: "matrix_ok (newQRMatrix sz)"
  by (simp add: matrix_ok_def newQRMatrix_def grid_def)

definition format_positions :: "nat \<Rightarrow> (nat \<times> nat) set" where
  "format_positions sz = insert (8, sz - 8) ((\<lambda>(x, y, i). (x, y)) ` set (format_cells sz))"

lemma fold_setFunction:
  assumes "agree S m m'"
  shows "agree (S - (\<lambda>(x, y, i). (x, y)) ` set cells)
    (fold (\<lambda>(x, y, i). setFunction x y (f i)) cells m) (fold (\<lambda>(x, y, i). setFunction x y (f i)) cells m')"
  using assms
proof (induction cells arbitrary: S m m')
  case (Cons c cells)
  obtain x y i where c: "c = (x, y, i)" by (cases c)
  have "S - (\<lambda>(x, y, i). (x, y)) ` set (c # cells) = S - {(x, y)} - (\<lambda>(x, y, i). (x, y)) ` set cells"
    by (auto simp: c)
  then show ?case using Cons.IH [OF setFunction_agree [OF Cons.prems, of x y "f i"]] by (simp add: c)
qed simp

lemma fold_setFunction_here:
  "matrix_ok m \<Longrightarrow> qmSize (fold (\<lambda>(x, y, i). setFunction x y (f i)) cells m) = qmSize m
    \<and> agree ((\<lambda>(x, y, i). (x, y)) ` set cells) m (fold (\<lambda>(x, y, i). setFunction x y (f i)) cells m)"
proof (induction cells arbitrary: m)
  case (Cons c cells)
  obtain x y i where c: "c = (x, y, i)" by (cases c)
  let ?m = "setFunction x y (f i) m"
  have "agree {(x, y)} m ?m" by (rule setFunction_here [OF Cons.prems])
  moreover note Cons.IH [OF setFunction_ok [OF Cons.prems], of x y "f i"]
  ultimately show ?case
    using agree_trans [OF agree_mono [of "{(x, y)}" m ?m] agree_mono, of "insert (x, y) ((\<lambda>(x, y, i). (x, y)) ` set cells)"]
    by (auto simp: c)
qed (simp add: agree_refl)

lemma drawFormatInfo_agree:
  assumes "agree S m m'" "S \<subseteq> format_positions (qmSize m)"
  shows "drawFormatInfo k m = drawFormatInfo k m'"
proof -
  have sz: "qmSize m' = qmSize m" and ok: "matrix_ok m" "matrix_ok m'" using assms(1) by (auto simp: agree_def)
  have "agree (S - (\<lambda>(x, y, i). (x, y)) ` set (format_cells (qmSize m)) - {(8, qmSize m - 8)})
      (drawFormatInfo k m) (drawFormatInfo k m')"
    unfolding drawFormatInfo_def sz by (intro setFunction_agree fold_setFunction assms(1))
  moreover have "S - (\<lambda>(x, y, i). (x, y)) ` set (format_cells (qmSize m)) - {(8, qmSize m - 8)} = {}"
    using assms(2) by (auto simp: format_positions_def)
  ultimately show ?thesis by (simp add: agree_empty)
qed

lemma drawFormatInfo_here:
  assumes "matrix_ok m"
  shows "agree (format_positions (qmSize m)) m (drawFormatInfo k m)"
proof -
  let ?m = "fold (\<lambda>(x, y, i). setFunction x y (bit (format_bits k) i)) (format_cells (qmSize m)) m"
  have m: "qmSize ?m = qmSize m" "agree ((\<lambda>(x, y, i). (x, y)) ` set (format_cells (qmSize m))) m ?m"
    using fold_setFunction_here [OF assms] by blast+
  then have last: "agree {(8, qmSize m - 8)} ?m (drawFormatInfo k m)"
    unfolding drawFormatInfo_def by (intro setFunction_here) (simp add: agree_def)
  show ?thesis
    by (rule agree_trans [OF agree_mono [OF m(2)] agree_mono [OF last]])
      (unfold format_positions_def, blast+)
qed

section \<open>Masks\<close>

lemma applyQRMask_grid: "matrix_ok m \<Longrightarrow> matrix_ok (applyQRMask k m)"
  by (simp add: matrix_ok_def applyQRMask_def grid_def)

lemma applyQRMask_size [simp]: "qmSize (applyQRMask k m) = qmSize m" "qmIsFunction (applyQRMask k m) = qmIsFunction m"
  by (simp_all add: applyQRMask_def)

lemma applyQRMask_nth:
  "x < qmSize m \<Longrightarrow> y < qmSize m \<Longrightarrow> qmModules (applyQRMask k m) ! y ! x
    = (if \<not> qmIsFunction m ! y ! x \<and> qrMaskBit k x y then \<not> qmModules m ! y ! x else qmModules m ! y ! x)"
  by (simp add: applyQRMask_def)

lemma applyQRMask_agree: "agree S m m' \<Longrightarrow> agree S (applyQRMask k m) (applyQRMask k m')"
  unfolding agree_def by (auto simp: applyQRMask_grid applyQRMask_nth)

lemma applyQRMask_undo: "matrix_ok m \<Longrightarrow> applyQRMask k (applyQRMask k m) = m"
  by (intro agree_empty) (auto simp: agree_def applyQRMask_grid applyQRMask_nth)

text \<open>The symbol with a given mask.\<close>

definition masked :: "qrMatrix \<Rightarrow> nat \<Rightarrow> qrMatrix" where
  "masked base k = drawFormatInfo k (applyQRMask k base)"

lemma masked_agree:
  "agree (format_positions (qmSize base)) m base \<Longrightarrow> drawFormatInfo k (applyQRMask k m) = masked base k"
  unfolding masked_def
  by (rule drawFormatInfo_agree, erule applyQRMask_agree) (simp add: agree_def)

lemma masked_undo:
  assumes "matrix_ok base"
  shows "agree (format_positions (qmSize base)) (applyQRMask k (masked base k)) base"
proof -
  have "agree (format_positions (qmSize base)) (applyQRMask k base) (masked base k)"
    using drawFormatInfo_here [OF applyQRMask_grid [OF assms], of k k] by (simp add: masked_def)
  from applyQRMask_agree [OF agree_sym [OF this], of k] show ?thesis
    by (simp add: applyQRMask_undo [OF assms])
qed

definition first_least :: "(nat \<Rightarrow> int) \<Rightarrow> nat \<Rightarrow> nat \<Rightarrow> bool" where
  "first_least f n k \<longleftrightarrow> k < n \<and> (\<forall>j < n. f k \<le> f j) \<and> (\<forall>j < k. f k < f j)"

lemma try_mask_eq:
  "drawFormatInfo k (applyQRMask k m) = c \<Longrightarrow> try_mask k (m, best, mods) = (applyQRMask k c, (case best of
      None \<Rightarrow> (Some (qrPenaltyScore c), qmModules c)
    | Some b \<Rightarrow> if qrPenaltyScore c < b then (Some (qrPenaltyScore c), qmModules c) else (best, mods)))"
  by (auto simp: try_mask_def Let_def split: option.splits)

lemma try_masks:
  assumes ok: "matrix_ok base"
  shows "\<exists>m best mods. fold try_mask [0..<n] (base, None, []) = (m, best, mods)
    \<and> agree (format_positions (qmSize base)) m base
    \<and> (if n = 0 then best = None else \<exists>k. first_least (\<lambda>k. qrPenaltyScore (masked base k)) n k
        \<and> best = Some (qrPenaltyScore (masked base k)) \<and> mods = qmModules (masked base k))"
proof (induction n)
  case 0
  then show ?case using ok by (simp add: agree_refl)
next
  case (Suc n)
  then obtain m best mods where IH: "fold try_mask [0..<n] (base, None, []) = (m, best, mods)"
    "agree (format_positions (qmSize base)) m base"
    "if n = 0 then best = None else \<exists>k. first_least (\<lambda>k. qrPenaltyScore (masked base k)) n k
        \<and> best = Some (qrPenaltyScore (masked base k)) \<and> mods = qmModules (masked base k)" by blast
  note same = masked_agree [OF IH(2), of n]
  show ?case
  proof (cases "n = 0")
    case True
    then show ?thesis
      using IH masked_undo [OF ok, of n] try_mask_eq [OF same, of best mods] by (auto simp: first_least_def)
  next
    case False
    with IH(3) obtain k where k: "first_least (\<lambda>k. qrPenaltyScore (masked base k)) n k"
      "best = Some (qrPenaltyScore (masked base k))" "mods = qmModules (masked base k)" by auto
    show ?thesis
    proof (cases "qrPenaltyScore (masked base n) < qrPenaltyScore (masked base k)")
      case True
      then have "first_least (\<lambda>k. qrPenaltyScore (masked base k)) (Suc n) n"
        using k(1) by (force simp: first_least_def less_Suc_eq)
      then show ?thesis
        using True IH(1) k masked_undo [OF ok, of n] by (auto simp: try_mask_eq [OF same])
    next
      case False
      then have "first_least (\<lambda>k. qrPenaltyScore (masked base k)) (Suc n) k"
        using k(1) by (auto simp: first_least_def less_Suc_eq)
      then show ?thesis
        using False IH(1) k masked_undo [OF ok, of n] by (auto simp: try_mask_eq [OF same])
    qed
  qed
qed

section \<open>Patterns and placement\<close>

lemma fold_keeps: "(\<And>c m. c \<in> set cs \<Longrightarrow> P m \<Longrightarrow> P (f c m)) \<Longrightarrow> P m \<Longrightarrow> P (fold f cs m)"
  by (induction cs arbitrary: m) auto

text \<open>A matrix in which a module is not part of a pattern yet.\<close>

definition open_at :: "nat \<Rightarrow> nat \<Rightarrow> nat \<Rightarrow> qrMatrix \<Rightarrow> bool" where
  "open_at sz x y m \<longleftrightarrow> matrix_ok m \<and> qmSize m = sz \<and> x < sz \<and> y < sz \<and> \<not> qmIsFunction m ! y ! x"

definition sized :: "nat \<Rightarrow> qrMatrix \<Rightarrow> bool" where
  "sized sz m \<longleftrightarrow> matrix_ok m \<and> qmSize m = sz"

lemma open_at_setFunction: "open_at sz x y m \<Longrightarrow> (a, b) \<noteq> (x, y) \<Longrightarrow> open_at sz x y (setFunction a b v m)"
  by (auto simp: open_at_def setFunction_ok) (auto simp: setFunction_def set_cell_nth matrix_ok_def)

lemma sized_setFunction: "sized sz m \<Longrightarrow> sized sz (setFunction a b v m)"
  by (simp add: sized_def setFunction_ok)

lemma sized_patterns:
  "sized sz m \<Longrightarrow> sized sz (drawFinderPattern lf tp m)" "sized sz m \<Longrightarrow> sized sz (drawTimingPatterns m)"
  "sized sz m \<Longrightarrow> sized sz (drawAlignmentPattern cx cy m)"
  unfolding drawFinderPattern_def drawTimingPatterns_def drawAlignmentPattern_def
  by (rule fold_keeps; auto simp: Let_def sized_setFunction)+

lemma sized_new: "sized sz (newQRMatrix sz)"
  using newQRMatrix_ok [of sz] by (simp add: sized_def) (simp add: newQRMatrix_def)

lemma qr_patterns_sized: "sized (qvVersion ver * 4 + 17) (qr_patterns ver)"
  unfolding qr_patterns_def Let_def by (auto intro!: sized_setFunction sized_patterns sized_new)

lemma open_at_finder:
  "open_at sz x y m \<Longrightarrow> int x < lf - 1 \<or> lf + 7 < int x \<or> int y < tp - 1 \<or> tp + 7 < int y \<Longrightarrow>
    open_at sz x y (drawFinderPattern lf tp m)"
  unfolding drawFinderPattern_def
  by (rule fold_keeps; auto simp: Let_def split: if_splits intro!: open_at_setFunction)

lemma open_at_timing: "open_at sz x y m \<Longrightarrow> x \<noteq> 6 \<Longrightarrow> y \<noteq> 6 \<Longrightarrow> open_at sz x y (drawTimingPatterns m)"
  unfolding drawTimingPatterns_def by (rule fold_keeps; auto simp: Let_def intro!: open_at_setFunction)

lemma open_at_alignment:
  "open_at sz x y m \<Longrightarrow> 0 \<le> cx \<Longrightarrow> cx + 2 < int x \<Longrightarrow> open_at sz x y (drawAlignmentPattern cx cy m)"
  unfolding drawAlignmentPattern_def by (rule fold_keeps; auto split: if_splits intro!: open_at_setFunction)

lemma qr_patterns_open:
  assumes "sz = qvVersion ver * 4 + 17" "sz - 2 \<le> x" "x < sz" "8 \<le> y" "y < sz"
  shows "open_at sz x y (qr_patterns ver)"
proof -
  have "open_at sz x y (newQRMatrix sz)"
    using assms by (simp add: open_at_def newQRMatrix_ok) (simp add: newQRMatrix_def)
  then have "open_at sz x y (drawTimingPatterns (drawFinderPattern 0 (int sz - 7)
      (drawFinderPattern (int sz - 7) 0 (drawFinderPattern 0 0 (newQRMatrix sz)))))"
    using assms by (intro open_at_timing open_at_finder) auto
  then show ?thesis
    unfolding qr_patterns_def Let_def assms(1) [symmetric]
    using assms by (intro open_at_setFunction) (auto intro!: open_at_alignment)
qed

lemma place_ok: "matrix_ok m \<Longrightarrow> matrix_ok (place_bits cells bits m) \<and> qmSize (place_bits cells bits m) = qmSize m"
proof (induction cells bits m rule: place_bits.induct)
  case (2 x y cells bits m)
  then show ?case by (auto simp: matrix_ok_def split: list.splits)
qed simp

lemma placeQRData_sized: "sized sz m \<Longrightarrow> sized sz (placeQRData bits m)"
  using place_ok by (auto simp: sized_def placeQRData_def)

lemma place_agree:
  "agree S m m' \<Longrightarrow> qmIsFunction m' = qmIsFunction m \<Longrightarrow> agree S (place_bits cells bits m) (place_bits cells bits m')"
proof (induction cells bits m arbitrary: m' rule: place_bits.induct)
  case (2 x y cells bits m)
  have put: "agree S (m\<lparr>qmModules := set_cell x y v (qmModules m)\<rparr>) (m'\<lparr>qmModules := set_cell x y v (qmModules m')\<rparr>)" for v
    using 2(4) by (auto simp: agree_def matrix_ok_def set_cell_nth)
  show ?case
    using 2 put by (auto split: list.splits)
qed simp

lemma place_one_bit:
  assumes "\<forall>(a, b) \<in> set before. \<not> qmIsFunction m ! b ! a" "\<not> qmIsFunction m ! y ! x" "length before < length bits" "matrix_ok m"
  shows "agree {(x, y)} (place_bits (before @ (x, y) # after) bits m)
    (place_bits (before @ (x, y) # after) (bits[length before := v]) m)"
  using assms
proof (induction before arbitrary: bits m)
  case Nil
  then obtain b bs where bits: "bits = b # bs" by (cases bits) auto
  have "agree {(x, y)} (m\<lparr>qmModules := set_cell x y b (qmModules m)\<rparr>) (m\<lparr>qmModules := set_cell x y v (qmModules m)\<rparr>)"
    using Nil(4) by (auto simp: agree_def matrix_ok_def set_cell_nth)
  then show ?case using Nil bits by (auto intro: place_agree)
next
  case (Cons c before)
  obtain a b where c: "c = (a, b)" by (cases c)
  obtain w bs where bits: "bits = w # bs" using Cons.prems(3) by (cases bits) auto
  show ?case using Cons by (auto simp: c bits matrix_ok_def)
qed

section \<open>The properties\<close>

text \<open>C22: The encoder always returns: for up to 134 bytes a symbol, and for more the error.  The modules
  of the symbol are those of the data under the first of the eight masks whose penalty is least:
  trying a mask and undoing it leaves nothing behind.\<close>

theorem qr_least_penalty:
  "if 134 < length data then encodeQRMatrix data = Inl ErrQRPayloadTooLarge
   else \<exists>ver m k. chooseQRVersion (length data) = Inr ver \<and> encodeQRMatrix data = Inr m
     \<and> (let base = placeQRData (bytesToBits (interleaveQRCodewords (bitsToBytes (encodeQRDataBits data ver)) ver)) (qr_patterns ver)
        in qmModules m = qmModules (masked base k) \<and> first_least (\<lambda>k. qrPenaltyScore (masked base k)) 8 k)"
proof (cases "134 < length data")
  case True
  then have "chooseQRVersion (length data) = Inl ErrQRPayloadTooLarge"
    by (auto simp: chooseQRVersion_def qrVersions_def)
  then show ?thesis using True by (simp add: encodeQRMatrix_def)
next
  case False
  then have "find (\<lambda>v. 4 + 8 + length data * 8 \<le> qvTotalDataCodewords v * 8) qrVersions \<noteq> None"
    by (auto simp: find_None_iff qrVersions_def)
  then obtain ver where ver: "chooseQRVersion (length data) = Inr ver" by (auto simp: chooseQRVersion_def)
  let ?base = "placeQRData (bytesToBits (interleaveQRCodewords (bitsToBytes (encodeQRDataBits data ver)) ver)) (qr_patterns ver)"
  have "matrix_ok ?base" using placeQRData_sized [OF qr_patterns_sized] by (auto simp: sized_def)
  from try_masks [OF this, of 8] obtain m best mods k where
    "fold try_mask [0..<8] (?base, None, []) = (m, best, mods)"
    "first_least (\<lambda>k. qrPenaltyScore (masked ?base k)) 8 k" "mods = qmModules (masked ?base k)" by auto
  with False ver show ?thesis
    by (auto simp: encodeQRMatrix_def Let_def simp del: upt_rec_numeral fold_simps intro!: exI [of _ k])
qed

lemma qr_walk_start:
  assumes "ver \<in> set qrVersions" "sz = qvVersion ver * 4 + 17"
  shows "\<exists>before after. qr_walk sz = before @ (sz - 1, 8) # after \<and> length before = 2 * (sz - 9)
    \<and> (\<forall>(a, b) \<in> set before. sz - 2 \<le> a \<and> a < sz \<and> 8 \<le> b \<and> b < sz)"
proof -
  let ?pair = "\<lambda>vert. [(sz - 1, sz - 1 - vert), (sz - 2, sz - 1 - vert)]"
  have even: "sz AND 2 = 0" "sz \<noteq> 7" "21 \<le> sz" using assms by (auto simp: qrVersions_def)
  have "qr_columns (sz - 1) = (sz - 1) # qr_columns (sz - 3)"
    using even by (subst qr_columns.simps) (auto simp: Let_def numeral_3_eq_3)
  then have "qr_walk sz = concat (map ?pair [0..<sz])
      @ concat (map (\<lambda>right. concat (map (\<lambda>vert. map (\<lambda>j. (right - j, if (right + 1) AND 2 = 0 then sz - 1 - vert else vert)) [0, 1]) [0..<sz]))
          (qr_columns (sz - 3)))"
    using even unfolding qr_walk_def by (auto simp: numeral_2_eq_2 intro!: arg_cong [where f = concat])
  moreover have "[0..<sz] = [0..<sz - 9] @ (sz - 9) # [sz - 8..<sz]"
  proof -
    have "Suc (sz - 9) = sz - 8" using even by simp
    then show ?thesis
      using even upt_add_eq_append [of 0 "sz - 9" 9] upt_conv_Cons [of "sz - 9" sz] by simp
  qed
  ultimately have "qr_walk sz = concat (map ?pair [0..<sz - 9]) @ (sz - 1, 8) # (sz - 2, 8)
      # concat (map ?pair [sz - 8..<sz])
      @ concat (map (\<lambda>right. concat (map (\<lambda>vert. map (\<lambda>j. (right - j, if (right + 1) AND 2 = 0 then sz - 1 - vert else vert)) [0, 1]) [0..<sz]))
          (qr_columns (sz - 3)))"
    using even by simp
  moreover have "length (concat (map ?pair [0..<n])) = 2 * n" for n by (induction n) simp_all
  moreover have "\<forall>(a, b) \<in> set (concat (map ?pair [0..<sz - 9])). sz - 2 \<le> a \<and> a < sz \<and> 8 \<le> b \<and> b < sz"
    using even by auto
  ultimately show ?thesis by blast
qed

text \<open>The symbol does not keep all bits of the stream it encodes: the modules of the format
  information are not reserved when the data are placed, so the module next to the top right finder
  takes a bit of the stream and the format information then overwrites it.  Whatever that bit is,
  the symbol is the same, under every mask.\<close>

theorem qr_stream_bit_lost:
  assumes "chooseQRVersion n = Inr ver" "length bits = 8 * (qvTotalDataCodewords ver + qvNumBlocks ver * qvEccPerBlock ver)"
  shows "masked (placeQRData (bits[2 * (qvVersion ver * 4 + 8) := v]) (qr_patterns ver)) k
    = masked (placeQRData bits (qr_patterns ver)) k"
proof -
  define sz where "sz = qvVersion ver * 4 + 17"
  have ver: "ver \<in> set qrVersions" using chooseQRVersionD [OF assms(1)] by blast
  let ?m = "qr_patterns ver"
  have m: "matrix_ok ?m" "qmSize ?m = sz" using qr_patterns_sized [of ver] by (auto simp: sized_def sz_def)
  obtain before after where walk: "qr_walk sz = before @ (sz - 1, 8) # after" "length before = 2 * (sz - 9)"
    "\<forall>(a, b) \<in> set before. sz - 2 \<le> a \<and> a < sz \<and> 8 \<le> b \<and> b < sz"
    using qr_walk_start [OF ver sz_def] by blast
  have free: "\<not> qmIsFunction ?m ! b ! a" if "sz - 2 \<le> a" "a < sz" "8 \<le> b" "b < sz" for a b
    using qr_patterns_open [OF sz_def that] by (simp add: open_at_def)
  have sz: "sz - 9 = qvVersion ver * 4 + 8" "8 < sz" by (simp_all add: sz_def)
  have "length before < length bits" using ver assms(2) walk(2) sz(1) by (auto simp: qrVersions_def)
  then have "agree {(sz - 1, 8)} (placeQRData bits ?m) (placeQRData (bits[length before := v]) ?m)"
    unfolding placeQRData_def m(2) walk(1) using walk(3) free sz(2) m(1) by (intro place_one_bit) auto
  from applyQRMask_agree [OF this, of k]
  have "masked (placeQRData bits ?m) k = masked (placeQRData (bits[length before := v]) ?m) k"
    unfolding masked_def
    by (rule drawFormatInfo_agree) (use placeQRData_sized [of sz ?m] m in
      \<open>auto simp: sized_def format_positions_def format_cells_def image_iff intro!: bexI [of _ "(sz - 1, 8, 0)"]\<close>)
  then show ?thesis unfolding walk(2) sz(1) by simp
qed

theorem qr_stream_bit_lost_witness:
  "masked (placeQRData ((replicate 208 False)[24 := True]) (qr_patterns (qrVersions ! 0))) 0
    = masked (placeQRData (replicate 208 False) (qr_patterns (qrVersions ! 0))) 0"
proof -
  have v: "chooseQRVersion 5 = Inr (qrVersions ! 0)" "2 * (qvVersion (qrVersions ! 0) * 4 + 8) = 24"
    "length (replicate 208 False) = 8 * (qvTotalDataCodewords (qrVersions ! 0) + qvNumBlocks (qrVersions ! 0) * qvEccPerBlock (qrVersions ! 0))"
    by (simp_all add: chooseQRVersion_def qrVersions_def)
  show ?thesis using qr_stream_bit_lost [OF v(1,3), of True 0] unfolding v(2) .
qed

end
