(* ===== verification/Spec2Isabelle.thy ===== *)
theory Spec2Isabelle
  imports Settlement WalletInvariants CatalogInvariants Access Accounts Startup Storage Middleware Migrations Retries
    QRSymbol
begin

text \<open>
  A marketplace for freelance services (``gigs'') in Go over PostgreSQL: buyers check out a package
  of a gig, pay through Stripe, BTCPay or a stablecoin deposit, work with the seller in an order
  workspace, and the seller's earnings are kept in a double-entry ledger and paid out.  A web
  process serves requests (\<^verbatim>\<open>src/handlers\<close>), a worker process runs jobs from a queue in the
  database (\<^verbatim>\<open>src/jobs.go\<close>), and both share only the database (\<^verbatim>\<open>src/store\<close>).

  \<^bold>\<open>The model.\<close>  The state is a \<^typ>\<open>world\<close> (theory \<^verbatim>\<open>Schema\<close>): the tables of the database as
  lists of records, the next identifiers, the clock, the requests sent to payment providers, and a
  schedule of database faults, and the buckets of the rate limiter.  A statement (\<^verbatim>\<open>query\<close>, \<^verbatim>\<open>exec\<close>, \<^verbatim>\<open>insert_row\<close>) consumes one
  entry of the schedule and fails with \<^verbatim>\<open>ErrFault\<close> when it says so, so every error branch of the
  code can be taken; a transaction (\<^verbatim>\<open>tx\<close>, \<^verbatim>\<open>Store.Tx\<close>) restores the tables on an error.  An
  operation returns \<^verbatim>\<open>error + 'a\<close> with the new world, and is composed with \<^verbatim>\<open>call\<close> as the code
  composes it with \<^verbatim>\<open>if err != nil\<close>.  Handlers return the response.  Go's \<^verbatim>\<open>int64\<close> arithmetic is
  written out with \<^verbatim>\<open>wrap64\<close> where amounts are computed.

  \<^bold>\<open>Theories and code.\<close>
    \<^item> \<^verbatim>\<open>GigPrelude\<close>: sums with errors, strings of the standard library, integer parsing, wrap-around.
    \<^item> \<^verbatim>\<open>Ledger\<close>: \<^verbatim>\<open>src/ledger/ledger.go\<close>; \<^verbatim>\<open>LedgerStore\<close>: \<^verbatim>\<open>src/store/ledger.go\<close>.
    \<^item> \<^verbatim>\<open>OrderLifecycle\<close>: \<^verbatim>\<open>src/services/orders.go\<close>, \<^verbatim>\<open>payments.go\<close>, \<^verbatim>\<open>fraud.go\<close>.
    \<^item> \<^verbatim>\<open>Schema\<close>: the row types of \<^verbatim>\<open>src/store\<close> and transactions; \<^verbatim>\<open>StoreOrders\<close>, \<^verbatim>\<open>StorePayments\<close>,
      \<^verbatim>\<open>StoreJobs\<close>, \<^verbatim>\<open>StoreWallets\<close>, \<^verbatim>\<open>StoreAccounts\<close>, \<^verbatim>\<open>StoreCatalog\<close>, \<^verbatim>\<open>StoreAdmin\<close>: the
      operations of \<^verbatim>\<open>src/store\<close>.
    \<^item> \<^verbatim>\<open>HandlersBase\<close>, \<^verbatim>\<open>HandlersOrders\<close>, \<^verbatim>\<open>HandlersCheckout\<close>, \<^verbatim>\<open>HandlersPayments\<close>,
      \<^verbatim>\<open>HandlersWallets\<close>, \<^verbatim>\<open>HandlersCatalog\<close> (public pages, dashboard), \<^verbatim>\<open>HandlersSeller\<close> (the gig editor),
      \<^verbatim>\<open>HandlersAdmin\<close>: \<^verbatim>\<open>src/handlers\<close>; \<^verbatim>\<open>Providers\<close>: the interface of \<^verbatim>\<open>src/providers\<close>.
    \<^item> \<^verbatim>\<open>Text\<close>, \<^verbatim>\<open>Codec\<close>, \<^verbatim>\<open>Json\<close>, \<^verbatim>\<open>Http\<close>: what the code uses of the standard library
      (\<^verbatim>\<open>strings\<close>, \<^verbatim>\<open>strconv\<close>, \<^verbatim>\<open>math/big\<close>, \<^verbatim>\<open>encoding/base32\<close>, \<^verbatim>\<open>base64\<close>, \<^verbatim>\<open>json\<close>, \<^verbatim>\<open>net/http\<close>);
      \<^verbatim>\<open>Money\<close> and \<^verbatim>\<open>Pagination\<close>: amounts as text and the pager of lists.
    \<^item> \<^verbatim>\<open>Passwords\<close>, \<^verbatim>\<open>Totp\<close>, \<^verbatim>\<open>RateLimit\<close>: \<^verbatim>\<open>passwords.go\<close>, \<^verbatim>\<open>totp.go\<close> and \<^verbatim>\<open>ratelimit.go\<close> of
      \<^verbatim>\<open>src/services\<close>; \<^verbatim>\<open>HandlersAuth\<close>: \<^verbatim>\<open>src/handlers/auth.go\<close> and \<^verbatim>\<open>account.go\<close>.
    \<^item> \<^verbatim>\<open>AdapterStripe\<close>, \<^verbatim>\<open>AdapterBTCPay\<close>, \<^verbatim>\<open>AdapterEVM\<close>: the adapters of \<^verbatim>\<open>src/providers\<close> over a
      parameter that answers HTTP requests.
    \<^item> \<^verbatim>\<open>Worker\<close>: the job handlers of the root package; \<^verbatim>\<open>App\<close>: the routes and the runs of a
      deployment, one request, delivery, claim or job at a time, in any order and with any faults.
    \<^item> \<^verbatim>\<open>Frames\<close>, \<^verbatim>\<open>Contract\<close>, \<^verbatim>\<open>AppFrames\<close>: the interfaces between the store and its clients, as
      locales: a relation between worlds that every statement respects is respected by every
      handler, job and run.  \<^verbatim>\<open>OrderInvariants\<close>, \<^verbatim>\<open>LedgerInvariants\<close>, \<^verbatim>\<open>PaymentInvariants\<close>,
      \<^verbatim>\<open>WalletInvariants\<close>, \<^verbatim>\<open>CatalogInvariants\<close>, \<^verbatim>\<open>Access\<close> and \<^verbatim>\<open>Settlement\<close> interpret them with the invariants and frames
      below.  \<^verbatim>\<open>Slugs\<close> and \<^verbatim>\<open>Catalog\<close> hold what the names of gigs, the search and the public pages
      guarantee.  \<^verbatim>\<open>Post\<close> holds postconditions of operations, \<^verbatim>\<open>Accounts\<close> what log-in and password reset
      guarantee.

    \<^item> \<^verbatim>\<open>Configuration\<close>: \<^verbatim>\<open>src/config/config.go\<close>, from the environment to a validated configuration;
      \<^verbatim>\<open>Startup\<close>: what a process assembles from it (provider registry, wallet key, mailer, cookies);
      \<^verbatim>\<open>Middleware\<close>: the wrappers of every request and the redaction of logs (\<^verbatim>\<open>src/server.go\<close>,
      \<^verbatim>\<open>security.go\<close>, \<^verbatim>\<open>logger.go\<close>); \<^verbatim>\<open>Storage\<close>: uploads on disk; \<^verbatim>\<open>Migrations\<close>:
      \<^verbatim>\<open>src/store/migrate.go\<close> with a server that loses statements and answers; \<^verbatim>\<open>Substrings\<close>: searching text.
    \<^item> \<^verbatim>\<open>QRField\<close>, \<^verbatim>\<open>QRCode\<close>: \<^verbatim>\<open>src/services/qrcode.go\<close>, the field GF(256) with its Reed-Solomon
      code and the encoder; \<^verbatim>\<open>QRStream\<close>, \<^verbatim>\<open>QRSymbol\<close>: what its bit stream, blocks and symbol satisfy.
      \<^verbatim>\<open>Retries\<close>: runs of the job queue and the attempts they can take.

  \<^bold>\<open>What is proved.\<close>  In the component theories: the exact effect of the ledger builders and of
  \<^verbatim>\<open>Validate\<close>, the life-cycle graphs, the totals, the guarded transitions, versions, revisions and
  reviews, claiming and retrying jobs, that an order looks to outsiders like one that does not exist,
  CSRF protection and roles, redelivered
  webhooks and repeated refunds, and what capture and acceptance do to every balance; what log-in demands and a password reset ends,
  how many requests the limiter lets through, that what is printed or encoded reads back, which webhook
  deliveries the adapters accept, and when a deposit on a chain counts as paid; that slugs have their
  canonical form and a new gig takes the first free one, that the pages of a search list every hit
  once and in order, and that nothing hidden is shown, in a listing or under its own address; that a
  job is claimed no more often than its attempts and the claims it loses allow, that interrupted migrations
  resume where they stopped and a refused upload leaves nothing behind, that every answer carries its
  security headers even after a panic, which payment rails a production configuration registers and with which
  settings (and that no stablecoin checkout starts on them), that messages and the codewords of a QR
  payload read back, that the blocks of those codewords are Reed-Solomon codewords and the mask the
  best one (and that the symbol nevertheless loses bits of the codewords, so nothing is claimed of
  reading it), and that confirming a payout wallet replaces the confirmed one and starts its
  cooling-off period (although the database refuses the tokens the confirmation page needs).  In the theories of invariants: what holds in every state a deployment reaches, whatever requests, jobs and failures
  happen in whatever order: orders and payments keep their terms and only move along their
  graphs, the ledger balances in every currency, an order's payment is captured at most once,
  the unique keys hold, and a gig that is open to orders has a package.

  \<^bold>\<open>Bounds.\<close>  Loops of the code are structural recursions; the poll loop is bounded by its free
  slots.  The JSON reader takes the length of its input as fuel and \<^verbatim>\<open>json_fuel\<close> proves that more
  changes nothing.  The reader of mail takes the length of the message, which bounds its lines; the
  parts of a duration get shorter.  A run of migrations and a run of the job queue have any length.

  \<^bold>\<open>Not modelled.\<close>  HTML templates and the texts of pages (with the rating and the rows of the console printed in them), serving static files and uploads (for a handler, whether
  storing an upload succeeds is part of the request), cryptography
  (hashes and ciphers are parameters), what a payment provider answers (a parameter, free to
  change at every step), details of audit records, concurrency inside one statement or transaction
  (a step is a whole request, delivery or job; the guarded updates are proved exclusive
  separately), the listener, signals and shutdown of a process, the
  format of its log.  PostgreSQL is modelled by the documented
  meaning of the statements the code sends, with its unique indexes and check constraints; a foreign key
  is checked where the key comes from a form (the category of a gig), and elsewhere taken to hold of
  the rows the code has just read or been given; row order of queries without an \<^verbatim>\<open>ORDER BY\<close> is the
  order of insertion.
\<close>

section \<open>Orders over the life of a deployment\<close>

text \<open>C3: whatever requests, deliveries, jobs and failures happen, no order disappears, its parties,
  requirements, prices and allowance never change, and its status only moves along the table of
  transitions.\<close>

theorem orders_keep_their_terms:
  assumes "runs ev s t" "ord \<in> set (orders (wdb s))"
  shows "\<exists>q \<in> set (orders (wdb t)). oID q = oID ord \<and> oBuyerID q = oBuyerID ord \<and> oSellerID q = oSellerID ord
    \<and> oGigID q = oGigID ord \<and> oRequirements q = oRequirements ord
    \<and> oSubtotalMinorUnits q = oSubtotalMinorUnits ord \<and> oPlatformFeeMinorUnits q = oPlatformFeeMinorUnits ord
    \<and> oTotalMinorUnits q = oTotalMinorUnits ord \<and> oCurrency q = oCurrency ord
    \<and> oRevisionsAllowed q = oRevisionsAllowed ord \<and> oRevisionsUsed ord \<le> oRevisionsUsed q
    \<and> CanTransitionOrder\<^sup>*\<^sup>* (oStatus ord) (oStatus q)"
proof -
  have "orders_evolve (wdb s) (wdb t)" using oec.runs_respects [OF assms(1)] by (simp add: on_db_def)
  from rows_evolve_old [OF this assms(2)] show ?thesis
    by (auto simp: order_evolves_def order_move_def)
qed

text \<open>One step of a worker that starts.\<close>

lemma sample_run: "runs sample_env s (happens sample_env StartWorker (at (wnow s) [] s))"
  using runs.step [OF runs.start [of sample_env s], where now = "wnow s" and reg = "[]" and send = "\<lambda>_ _ _. None" and e = StartWorker and faults = "[]"] by simp

theorem orders_keep_their_terms_witness:
  "\<exists>q \<in> set (orders (wdb (happens sample_env StartWorker (at 5 [] (with_orders [sample_order 7 OrderPaid]))))). oTotalMinorUnits q = 2750"
  using orders_keep_their_terms [OF sample_run, of "sample_order 7 OrderPaid" "with_orders [sample_order 7 OrderPaid]"]
  by (auto simp: deployed_def)

lemma reached: "runs ev s t \<Longrightarrow> keeps I s t \<Longrightarrow> I (wdb s) (wseq s) \<Longrightarrow> I (wdb t) (wseq t)"
  by (simp add: keeps_def)

text \<open>C10: in every state a deployment reaches, order numbers are unique, every order has the time
  stamps its status claims, its revisions stay within the allowance, and no order is in
  \<^verbatim>\<open>payout_pending\<close> or \<^verbatim>\<open>paid_out\<close>.\<close>

theorem orders_well_formed:
  assumes "runs ev (deployed now) t"
  shows "distinct (map oID (orders (wdb t))) \<and> (\<forall>ord \<in> set (orders (wdb t)).
      oStatus ord \<noteq> OrderPayoutPending \<and> oStatus ord \<noteq> OrderPaidOut
    \<and> (oStatus ord \<notin> {OrderPendingPayment, OrderPaymentFailed} \<longrightarrow> oPaidAt ord \<noteq> None)
    \<and> (oStatus ord \<in> {OrderDelivered, OrderRevisionRequested, OrderAccepted} \<longrightarrow> oDeliveredAt ord \<noteq> None)
    \<and> (oStatus ord = OrderAccepted \<longrightarrow> oAcceptedAt ord \<noteq> None)
    \<and> (oStatus ord = OrderCancelled \<longrightarrow> oCancelledAt ord \<noteq> None)
    \<and> (oStatus ord = OrderClosed \<longrightarrow> oClosedAt ord \<noteq> None)
    \<and> (oRevisionsUsed ord = 0 \<or> 0 < oRevisionsUsed ord \<and> oRevisionsUsed ord \<le> oRevisionsAllowed ord))"
proof -
  have "orders_inv (wdb (deployed now)) (wseq (deployed now))"
    by (simp add: orders_inv_def keys_ok_def deployed_def migrated_def)
  with reached [OF assms oic.runs_respects [OF assms]] have "orders_inv (wdb t) (wseq t)" by blast
  then have d: "distinct (map oID (orders (wdb t)))" and all: "\<forall>ord \<in> set (orders (wdb t)). milestones ord \<and> within_allowance ord"
    by (simp_all add: orders_inv_def keys_ok_def list_all_iff order_ok_def)
  have stamps: "milestones ord \<Longrightarrow> oStatus ord \<noteq> OrderPayoutPending \<and> oStatus ord \<noteq> OrderPaidOut
    \<and> (oStatus ord \<notin> {OrderPendingPayment, OrderPaymentFailed} \<longrightarrow> oPaidAt ord \<noteq> None)
    \<and> (oStatus ord \<in> {OrderDelivered, OrderRevisionRequested, OrderAccepted} \<longrightarrow> oDeliveredAt ord \<noteq> None)
    \<and> (oStatus ord = OrderAccepted \<longrightarrow> oAcceptedAt ord \<noteq> None)
    \<and> (oStatus ord = OrderCancelled \<longrightarrow> oCancelledAt ord \<noteq> None)
    \<and> (oStatus ord = OrderClosed \<longrightarrow> oClosedAt ord \<noteq> None)" for ord
    by (cases "oStatus ord") (simp_all add: milestones_def live_statuses_def)
  have used: "within_allowance ord \<Longrightarrow>
    oRevisionsUsed ord = 0 \<or> 0 < oRevisionsUsed ord \<and> oRevisionsUsed ord \<le> oRevisionsAllowed ord" for ord
    by (auto simp: within_allowance_def)
  from d all stamps used show ?thesis by blast
qed

abbreviation sample_reached :: world where
  "sample_reached \<equiv> happens sample_env StartWorker (at 0 [] (deployed 0))"

lemma sample_reached: "runs sample_env (deployed 0) sample_reached"
  using sample_run [of "deployed 0"] by (simp add: deployed_def)

theorem orders_well_formed_witness: "distinct (map oID (orders (wdb sample_reached)))"
  using orders_well_formed [OF sample_reached] by blast

section \<open>Money over the life of a deployment\<close>

text \<open>C1: in every state a deployment reaches, the ledger nets to zero in every currency (modulo
  \<^verbatim>\<open>2^64\<close>, the width of the check), account numbers are unique, and every entry is booked on an
  existing account in its own currency.\<close>

theorem ledger_always_balanced:
  assumes "runs ev (deployed now) t"
  shows "(\<forall>c. rows_net c (ledger_entries (wdb t)) mod 2 ^ 64 = 0)
    \<and> distinct (map laID (ledger_accounts (wdb t)))
    \<and> (\<forall>r \<in> set (ledger_entries (wdb t)). \<exists>a \<in> set (ledger_accounts (wdb t)).
        laID a = lrAccountID r \<and> laCurrency a = lrCurrency r)"
proof -
  have "ledger_grows (wdb (deployed now)) (wdb t)" using lgc.runs_respects [OF assms] by (simp add: on_db_def)
  from ledger_grows_net [OF this] have "\<forall>c. rows_net c (ledger_entries (wdb t)) mod 2 ^ 64 = 0"
    by (simp add: deployed_def migrated_def)
  moreover have "ledger_inv (wdb (deployed now)) (wseq (deployed now))"
    by (simp add: ledger_inv_def keys_ok_def deployed_def migrated_def)
  with reached [OF assms lic.runs_respects [OF assms]] have "ledger_inv (wdb t) (wseq t)" by blast
  ultimately show ?thesis by (simp add: ledger_inv_def keys_ok_def)
qed

theorem ledger_always_balanced_witness: "rows_net ''usd'' (ledger_entries (wdb sample_reached)) mod 2 ^ 64 = 0"
  using ledger_always_balanced [OF sample_reached] by blast

text \<open>C2: in every state a deployment reaches, the payment of an order has been captured at most
  once, and then for exactly the total and currency of the order, which has left the unpaid states
  for good.\<close>

theorem captured_at_most_once:
  assumes "runs ev (deployed now) t"
  shows "length (captures i (ledger_entries (wdb t))) \<le> 1
    \<and> (\<forall>r \<in> set (captures i (ledger_entries (wdb t))). \<exists>ord \<in> set (orders (wdb t)). oID ord = i
        \<and> oStatus ord \<noteq> OrderPendingPayment \<and> oStatus ord \<noteq> OrderPaymentFailed
        \<and> lrDirection r = DirectionDebit \<and> lrAmountMinor r = oTotalMinorUnits ord \<and> lrCurrency r = oCurrency ord)"
proof -
  have "capture_inv (wdb (deployed now)) (wseq (deployed now))"
    by (simp add: capture_inv_def orders_inv_def captures_def keys_ok_def deployed_def migrated_def)
  with reached [OF assms cic.runs_respects [OF assms]] have "capture_inv (wdb t) (wseq t)" by blast
  then show ?thesis by (auto simp: capture_inv_def captured_terms_def unpaid_def)
qed

theorem captured_at_most_once_witness: "length (captures 7 (ledger_entries (wdb sample_reached))) \<le> 1"
  using captured_at_most_once [OF sample_reached] by blast

text \<open>C11: whatever happens, a payment intent keeps its order, provider, method, amount, currency and
  idempotency key, its status only moves along the table of payment transitions, and a webhook event
  that was processed stays processed.\<close>

theorem payments_keep_their_terms:
  assumes "runs ev s t"
  shows "(\<forall>p \<in> set (payment_intents (wdb s)). \<exists>q \<in> set (payment_intents (wdb t)). piID q = piID p
      \<and> piOrderID q = piOrderID p \<and> piProvider q = piProvider p \<and> piMethod q = piMethod p
      \<and> piAmountMinor q = piAmountMinor p \<and> piCurrency q = piCurrency p \<and> piIdempotencyKey q = piIdempotencyKey p
      \<and> CanTransitionPayment\<^sup>*\<^sup>* (piStatus p) (piStatus q))
    \<and> (\<forall>w \<in> set (webhook_events (wdb s)). \<exists>v \<in> set (webhook_events (wdb t)). whID v = whID w
      \<and> whProvider v = whProvider w \<and> whEventID v = whEventID w \<and> whPayload v = whPayload w
      \<and> (whStatus w = WebhookProcessed \<longrightarrow> whStatus v = WebhookProcessed))"
proof -
  have i: "intents_evolve (wdb s) (wdb t)" using iec.runs_respects [OF assms] by (simp add: on_db_def)
  have e: "events_evolve (wdb s) (wdb t)" using eec.runs_respects [OF assms] by (simp add: on_db_def)
  show ?thesis
    using rows_evolve_old [OF i] rows_evolve_old [OF e]
    unfolding intent_evolves_def event_evolves_def payment_move_def by meson
qed

theorem payments_keep_their_terms_witness:
  "\<exists>q \<in> set (payment_intents (wdb (happens sample_env StartWorker (at 0 [] ((deployed 0)\<lparr>wdb := migrated\<lparr>payment_intents :=
    [sample_intent 7 PaymentSucceeded]\<rparr>\<rparr>))))). piAmountMinor q = 2750"
  using payments_keep_their_terms [OF sample_run, of "(deployed 0)\<lparr>wdb := migrated\<lparr>payment_intents :=
    [sample_intent 7 PaymentSucceeded]\<rparr>\<rparr>"] by (fastforce simp: deployed_def)

text \<open>C12: in every state a deployment reaches, idempotency keys are unique among payment intents, a
  succeeded intent has the time of its success, a provider's event is stored once, and an order has
  at most one refund that did not fail.\<close>

theorem payments_unique:
  assumes "runs ev (deployed now) t"
  shows "distinct (map piIdempotencyKey (payment_intents (wdb t)))
    \<and> (\<forall>p \<in> set (payment_intents (wdb t)). piStatus p = PaymentSucceeded \<longrightarrow> piSucceededAt p \<noteq> None)
    \<and> distinct (map (\<lambda>w. (whProvider w, whEventID w)) (webhook_events (wdb t)))
    \<and> distinct (map rfOrderID (filter (\<lambda>r. rfStatus r \<noteq> PaymentFailed) (refunds (wdb t))))"
proof -
  have "payments_inv (wdb (deployed now)) (wseq (deployed now))"
    by (simp add: payments_inv_def intents_ok_def events_ok_def refunds_ok_def unique_on_def keys_ok_def
      deployed_def migrated_def)
  with reached [OF assms pvc.runs_respects [OF assms]] have "payments_inv (wdb t) (wseq t)" by blast
  then show ?thesis by (simp add: payments_inv_def intents_ok_def events_ok_def refunds_ok_def unique_on_def)
qed

theorem payments_unique_witness: "distinct (map piIdempotencyKey (payment_intents (wdb sample_reached)))"
  using payments_unique [OF sample_reached] by blast

section \<open>Payouts over the life of a deployment\<close>

text \<open>No step of the program takes the wallets out of their invariant: keys are unique, a seller has at
  most one pending and one confirmed wallet per network and asset, and a confirmed wallet has the end
  of its cooling-off period.\<close>

lemma wallets_stay_unique:
  assumes "runs ev s t" "wallets_ok (wseq s TWallets) (wallets (wdb s))"
  shows "wallets_ok (wseq t TWallets) (wallets (wdb t))"
proof -
  have "wallets_inv (wdb s) (wseq s)" using assms(2) by (simp add: wallets_inv_def)
  with reached [OF assms(1) wic.runs_respects [OF assms(1)]] have "wallets_inv (wdb t) (wseq t)" by blast
  then show ?thesis by (simp add: wallets_inv_def)
qed

text \<open>Every posting of a deployment finds a well-formed ledger whose groups were all drawn, which is what
  makes its own group new.\<close>

lemma groups_always_drawn:
  assumes "runs ev (deployed now) t"
  shows "ledger_wf t \<and> groups_drawn t"
proof -
  have "groups_inv (wdb (deployed now)) (wseq (deployed now))"
    by (simp add: groups_inv_def ledger_inv_def keys_ok_def deployed_def migrated_def)
  with reached [OF assms gic.runs_respects [OF assms]] have "groups_inv (wdb t) (wseq t)" by blast
  then show ?thesis by (simp add: groups_inv_world)
qed

text \<open>C24: whatever happens, a payout keeps its seller, wallet, amount and currency; one that was
  queued stays queued for good (no step of the program executes it), and a completed one completed.\<close>

theorem payouts_keep_their_terms:
  assumes "runs ev s t" "p \<in> set (payouts (wdb s))"
  shows "\<exists>q \<in> set (payouts (wdb t)). poID q = poID p \<and> poSellerID q = poSellerID p \<and> poWalletID q = poWalletID p
    \<and> poAmountMinor q = poAmountMinor p \<and> poCurrency q = poCurrency p
    \<and> (poStatus p \<in> {PayoutQueued, PayoutCompleted, PayoutCanceled} \<longrightarrow> poStatus q = poStatus p)"
proof -
  have "payouts_evolve (wdb s) (wdb t)" using pec.runs_respects [OF assms(1)] by (simp add: on_db_def)
  from rows_evolve_old [OF this assms(2)] obtain q where q: "q \<in> set (payouts (wdb t))" "payout_evolves p q" by blast
  with payout_stuck [of "poStatus p" "poStatus q"] show ?thesis
    by (intro bexI [of _ q]) (auto simp: payout_evolves_def)
qed

abbreviation sample_payout :: payout where
  "sample_payout \<equiv> \<lparr>poID = 1, poSellerID = 3, poWalletID = 1, poAmountMinor = 2500, poCurrency = ''USD'', poNetwork = ''base'',
    poAsset = ''usdc'', poStatus = PayoutQueued, poTxHash = [], poReviewedBy = None, poCreatedAt = 0, poExecutedAt = None\<rparr>"

theorem payouts_keep_their_terms_witness:
  "\<exists>q \<in> set (payouts (wdb (happens sample_env StartWorker (at 0 [] ((deployed 0)\<lparr>wdb := migrated\<lparr>payouts :=
    [sample_payout]\<rparr>\<rparr>))))). poStatus q = PayoutQueued"
  using payouts_keep_their_terms [OF sample_run, of sample_payout "(deployed 0)\<lparr>wdb := migrated\<lparr>payouts :=
    [sample_payout]\<rparr>\<rparr>"] by (fastforce simp: deployed_def)

end
